(* ===== verification/Prelude.thy ===== *)
theory Prelude
  imports Main "HOL-Library.Word" "HOL-Library.Sublist"
begin

text \<open>
  Shared vocabulary of the development: the types the components have in common, the
  standard-library string functions the code calls (\<open>Display\<close> and \<open>FromStr\<close> of
  integers, \<open>str::splitn\<close>, \<open>str::strip_prefix\<close>, \<open>str::contains\<close>), and the
  generic lemmas on lists and results that several components use.
\<close>

section \<open>Types\<close>

text \<open>
  A \<open>Uuid\<close> is 16 bytes ordered lexicographically, which is the order of the 128-bit
  number they spell. An \<open>OffsetDateTime\<close> is its count of nanoseconds since the Unix
  epoch; a machine integer that a handler only compares is an \<open>int\<close> and every parse
  checks its range. Strings are the bytes of the UTF-8 text.
\<close>

type_synonym uuid = "128 word"
type_synonym timestamp = int

abbreviation nil_uuid :: uuid where
  "nil_uuid \<equiv> 0"

definition i64_min :: int where "i64_min = - (2 ^ 63)"
definition i64_max :: int where "i64_max = 2 ^ 63 - 1"
definition i128_min :: int where "i128_min = - (2 ^ 127)"
definition i128_max :: int where "i128_max = 2 ^ 127 - 1"

named_theorems text_simps \<open>equations of the string functions of the standard library\<close>
named_theorems repo_simps \<open>unfolding rules of the repository statements\<close>

section \<open>Results\<close>

text \<open>\<open>Result<T, E>\<close> is the sum type \<open>'e + 'a\<close>, with \<open>Inl\<close> the error.\<close>

fun is_ok :: "'e + 'a \<Rightarrow> bool" where
  "is_ok (Inl _) = False"
| "is_ok (Inr _) = True"

lemma is_ok_iff: "is_ok r \<longleftrightarrow> (\<exists>x. r = Inr x)"
  by (cases r) auto

definition bind_res :: "'e + 'a \<Rightarrow> ('a \<Rightarrow> 'e + 'b) \<Rightarrow> 'e + 'b" where
  "bind_res r f = (case r of Inl e \<Rightarrow> Inl e | Inr x \<Rightarrow> f x)"

lemma bind_res_simps [simp]:
  "bind_res (Inl e) f = Inl e"
  "bind_res (Inr x) f = f x"
  by (simp_all add: bind_res_def)

lemma bind_res_Inr: "bind_res r f = Inr y \<longleftrightarrow> (\<exists>x. r = Inr x \<and> f x = Inr y)"
  by (cases r) auto

definition ok_or :: "'a option \<Rightarrow> 'e \<Rightarrow> 'e + 'a" where
  "ok_or q e = (case q of None \<Rightarrow> Inl e | Some x \<Rightarrow> Inr x)"

lemma ok_or_simps [simp]:
  "ok_or None e = Inl e"
  "ok_or (Some x) e = Inr x"
  by (simp_all add: ok_or_def)

lemma ok_or_Inr [simp]: "ok_or q e = Inr x \<longleftrightarrow> q = Some x"
  by (cases q) auto

section \<open>Decimal text of integers\<close>

definition digit_char :: "nat \<Rightarrow> char" where
  "digit_char d = char_of (48 + d)"

definition is_digit :: "char \<Rightarrow> bool" where
  "is_digit c \<longleftrightarrow> 48 \<le> (of_char c :: nat) \<and> (of_char c :: nat) \<le> 57"

definition digit_val :: "char \<Rightarrow> nat" where
  "digit_val c = of_char c - 48"

lemma digit_char_ok: "d < 10 \<Longrightarrow> is_digit (digit_char d) \<and> digit_val (digit_char d) = d"
  by (simp add: is_digit_def digit_val_def digit_char_def)

fun show_nat :: "nat \<Rightarrow> string" where
  "show_nat n = (if n < 10 then [digit_char n] else show_nat (n div 10) @ [digit_char (n mod 10)])"

declare show_nat.simps [simp del]

definition show_int :: "int \<Rightarrow> string" where
  "show_int i = (if i < 0 then CHR ''-'' # show_nat (nat (- i)) else show_nat (nat i))"

fun parse_digits :: "nat \<Rightarrow> string \<Rightarrow> nat option" where
  "parse_digits acc [] = Some acc"
| "parse_digits acc (c # cs) =
     (if is_digit c then parse_digits (10 * acc + digit_val c) cs else None)"

text \<open>
  \<open>from_str\<close> of a signed integer type with range \<open>lo..hi\<close>: an optional sign, at
  least one digit, and the value in range.
\<close>

definition parse_signed :: "int \<Rightarrow> int \<Rightarrow> string \<Rightarrow> int option" where
  "parse_signed lo hi s =
     (let (neg, ds) = (case s of
            [] \<Rightarrow> (False, [])
          | c # cs \<Rightarrow> if c = CHR ''-'' then (True, cs)
                      else if c = CHR ''+'' then (False, cs) else (False, s))
      in if ds = [] then None
         else case parse_digits 0 ds of
                None \<Rightarrow> None
              | Some n \<Rightarrow> let i = (if neg then - int n else int n)
                          in if lo \<le> i \<and> i \<le> hi then Some i else None)"

lemma parse_digits_append:
  "parse_digits acc (xs @ ys) =
     (case parse_digits acc xs of None \<Rightarrow> None | Some a \<Rightarrow> parse_digits a ys)"
  by (induction xs arbitrary: acc) auto

lemma show_nat_nonempty [simp]: "show_nat n \<noteq> []"
  by (subst show_nat.simps) simp

lemma show_nat_digits: "c \<in> set (show_nat n) \<Longrightarrow> is_digit c"
proof (induction n rule: show_nat.induct)
  case (1 n)
  show ?case
    using 1 digit_char_ok [of n] digit_char_ok [of "n mod 10"]
    by (subst (asm) (2) show_nat.simps) (auto split: if_splits)
qed

lemma parse_show_nat: "parse_digits 0 (show_nat n) = Some n"
proof (induction n rule: show_nat.induct)
  case (1 n)
  show ?case
  proof (cases "n < 10")
    case True
    then show ?thesis
      using digit_char_ok [of n] by (subst show_nat.simps) simp
  next
    case False
    with 1 have "parse_digits 0 (show_nat (n div 10)) = Some (n div 10)" by simp
    with False show ?thesis
      using digit_char_ok [of "n mod 10"]
      by (subst show_nat.simps) (simp add: parse_digits_append)
  qed
qed

lemma not_digit_sign [simp]: "\<not> is_digit CHR ''-''" "\<not> is_digit CHR ''+''"
    "\<not> is_digit CHR ''|''" "\<not> is_digit CHR '':''" "\<not> is_digit CHR ''*''" "\<not> is_digit CHR ''?''"
  by (simp_all add: is_digit_def)

lemma show_nat_hd: "show_nat n = c # cs \<Longrightarrow> is_digit c"
  using show_nat_digits [of c n] by simp

lemma show_int_nonempty [simp]: "show_int i \<noteq> []"
  by (simp add: show_int_def)

lemma show_int_chars: "c \<in> set (show_int i) \<Longrightarrow> is_digit c \<or> c = CHR ''-''"
  by (auto simp: show_int_def dest: show_nat_digits split: if_splits)

lemma show_int_not: "\<not> is_digit c \<Longrightarrow> c \<noteq> CHR ''-'' \<Longrightarrow> c \<notin> set (show_int i)"
  using show_int_chars by blast

lemma show_int_no_sep [simp]:
  "CHR ''|'' \<notin> set (show_int i)" "CHR '':'' \<notin> set (show_int i)" "CHR ''*'' \<notin> set (show_int i)"
  by (simp_all add: show_int_not)

theorem parse_show_int: "lo \<le> i \<Longrightarrow> i \<le> hi \<Longrightarrow> parse_signed lo hi (show_int i) = Some i"
proof (cases "i < 0")
  case True
  assume "lo \<le> i" "i \<le> hi"
  with True show ?thesis
    by (simp add: parse_signed_def show_int_def parse_show_nat)
next
  case False
  assume r: "lo \<le> i" "i \<le> hi"
  obtain c cs where s: "show_nat (nat i) = c # cs"
    by (cases "show_nat (nat i)") auto
  then have "is_digit c" by (rule show_nat_hd)
  then have "c \<noteq> CHR ''-''" "c \<noteq> CHR ''+''" by auto
  with False r s parse_show_nat [of "nat i"] show ?thesis
    by (simp add: parse_signed_def show_int_def)
qed

lemma show_nat_inject [simp]: "show_nat m = show_nat n \<longleftrightarrow> m = n"
  by (metis parse_show_nat option.inject)

lemma show_int_inject [simp]: "show_int i = show_int j \<longleftrightarrow> i = j"
proof -
  have "parse_signed (min i j) (max i j) (show_int k) = Some k" if "k = i \<or> k = j" for k
    using that by (intro parse_show_int) auto
  then show ?thesis by (metis option.inject)
qed

section \<open>Splitting and prefixes\<close>

text \<open>\<open>s.splitn(n, c).collect()\<close>: at most \<open>n\<close> parts, the last one holding the rest.\<close>

fun splitn :: "nat \<Rightarrow> char \<Rightarrow> string \<Rightarrow> string list" where
  "splitn 0 c s = []"
| "splitn (Suc 0) c s = [s]"
| "splitn (Suc (Suc n)) c s =
     (if c \<in> set s
      then takeWhile (\<lambda>x. x \<noteq> c) s # splitn (Suc n) c (tl (dropWhile (\<lambda>x. x \<noteq> c) s))
      else [s])"

lemma splitn_2: "splitn 2 c s =
  (if c \<in> set s then [takeWhile (\<lambda>x. x \<noteq> c) s, tl (dropWhile (\<lambda>x. x \<noteq> c) s)] else [s])"
  by (simp add: numeral_2_eq_2)

lemma splitn_2_sep [text_simps]: "c \<notin> set xs \<Longrightarrow> splitn 2 c (xs @ c # ys) = [xs, ys]"
  by (auto simp: splitn_2 takeWhile_append dropWhile_append takeWhile_eq_all_conv
        dropWhile_eq_Nil_conv)

lemma splitn_2_none [text_simps]: "c \<notin> set s \<Longrightarrow> splitn 2 c s = [s]"
  by (simp add: splitn_2)

lemma splitn_3_sep [text_simps]:
  "c \<notin> set xs \<Longrightarrow> c \<notin> set ys \<Longrightarrow> splitn 3 c (xs @ c # ys @ c # zs) = [xs, ys, zs]"
  using splitn_2_sep [of c ys zs]
  by (auto simp: numeral_3_eq_3 numeral_2_eq_2 takeWhile_append dropWhile_append
        takeWhile_eq_all_conv dropWhile_eq_Nil_conv)

definition strip_prefix :: "string \<Rightarrow> string \<Rightarrow> string option" where
  "strip_prefix p s = (if take (length p) s = p then Some (drop (length p) s) else None)"

lemma strip_prefix_append [simp]: "strip_prefix p (p @ s) = Some s"
  by (simp add: strip_prefix_def)

lemma strip_prefix_Some: "strip_prefix p s = Some t \<longleftrightarrow> s = p @ t"
  by (auto simp: strip_prefix_def split: if_splits) (metis append_take_drop_id)

text \<open>\<open>parts.join(":")\<close>.\<close>

fun join_with :: "string \<Rightarrow> string list \<Rightarrow> string" where
  "join_with sep [] = []"
| "join_with sep [x] = x"
| "join_with sep (x # y # xs) = x @ sep @ join_with sep (y # xs)"

section \<open>UTF-8\<close>

text \<open>
  The test of \<open>String::from_utf8\<close>: the byte ranges of well-formed UTF-8 (no overlong
  forms, no surrogates, nothing above U+10FFFF).
\<close>

definition cont_byte :: "nat \<Rightarrow> bool" where
  "cont_byte b \<longleftrightarrow> 128 \<le> b \<and> b \<le> 191"

definition utf8_step :: "nat list \<Rightarrow> nat list option" where
  "utf8_step bs =
     (case bs of
        [] \<Rightarrow> None
      | a # bs1 \<Rightarrow>
          if a < 128 then Some bs1
          else case bs1 of
            [] \<Rightarrow> None
          | b # bs2 \<Rightarrow>
              if 194 \<le> a \<and> a \<le> 223 then (if cont_byte b then Some bs2 else None)
              else case bs2 of
                [] \<Rightarrow> None
              | c # bs3 \<Rightarrow>
                  if 224 \<le> a \<and> a \<le> 239
                  then (if cont_byte b \<and> cont_byte c \<and> (a = 224 \<longrightarrow> 160 \<le> b) \<and> (a = 237 \<longrightarrow> b \<le> 159)
                        then Some bs3 else None)
                  else case bs3 of
                    [] \<Rightarrow> None
                  | d # bs4 \<Rightarrow>
                      if 240 \<le> a \<and> a \<le> 244 \<and> cont_byte b \<and> cont_byte c \<and> cont_byte d
                         \<and> (a = 240 \<longrightarrow> 144 \<le> b) \<and> (a = 244 \<longrightarrow> b \<le> 143)
                      then Some bs4 else None)"

lemma utf8_step_shorter: "utf8_step bs = Some r \<Longrightarrow> length r < length bs"
  by (auto simp: utf8_step_def split: list.splits if_splits)

function valid_utf8_bytes :: "nat list \<Rightarrow> bool" where
  "valid_utf8_bytes bs =
     (if bs = [] then True
      else case utf8_step bs of None \<Rightarrow> False | Some r \<Rightarrow> valid_utf8_bytes r)"
  by pat_completeness auto
termination
  by (relation "measure length") (auto dest: utf8_step_shorter)

declare valid_utf8_bytes.simps [simp del]

lemma valid_utf8_bytes_Nil [simp]: "valid_utf8_bytes []"
  by (simp add: valid_utf8_bytes.simps)

lemma valid_utf8_bytes_ascii [simp]: "a < 128 \<Longrightarrow> valid_utf8_bytes (a # bs) = valid_utf8_bytes bs"
  by (subst valid_utf8_bytes.simps) (simp add: utf8_step_def)

definition valid_utf8 :: "string \<Rightarrow> bool" where
  "valid_utf8 s \<longleftrightarrow> valid_utf8_bytes (map of_char s)"

lemma utf8_step_append: "utf8_step bs = Some r \<Longrightarrow> utf8_step (bs @ ys) = Some (r @ ys)"
  by (cases bs; cases "tl bs"; cases "tl (tl bs)"; cases "tl (tl (tl bs))")
    (simp_all add: utf8_step_def split: if_split_asm)

lemma valid_utf8_bytes_append:
  "valid_utf8_bytes xs \<Longrightarrow> valid_utf8_bytes ys \<Longrightarrow> valid_utf8_bytes (xs @ ys)"
proof (induction xs rule: valid_utf8_bytes.induct)
  case (1 xs)
  show ?case
  proof (cases "xs = []")
    case False
    with "1.prems"(1) obtain r where r: "utf8_step xs = Some r" "valid_utf8_bytes r"
      by (subst (asm) valid_utf8_bytes.simps) (auto split: option.splits)
    with False 1 have "valid_utf8_bytes (r @ ys)" by blast
    with False utf8_step_append [OF r(1)] show ?thesis
      by (subst valid_utf8_bytes.simps) simp
  qed (use 1 in simp)
qed

lemma valid_utf8_append: "valid_utf8 s \<Longrightarrow> valid_utf8 t \<Longrightarrow> valid_utf8 (s @ t)"
  by (simp add: valid_utf8_def valid_utf8_bytes_append)

text \<open>
  \<open>String::from_utf8_lossy\<close>: well-formed characters are kept, and each maximal ill-formed
  part becomes U+FFFD.
\<close>

definition second_ok :: "nat \<Rightarrow> nat \<Rightarrow> bool" where
  "second_ok a b \<longleftrightarrow> cont_byte b \<and> (a = 224 \<longrightarrow> 160 \<le> b) \<and> (a = 237 \<longrightarrow> b \<le> 159)
     \<and> (a = 240 \<longrightarrow> 144 \<le> b) \<and> (a = 244 \<longrightarrow> b \<le> 143)"

definition ill_formed_length :: "nat list \<Rightarrow> nat" where
  "ill_formed_length bs =
     (case bs of
        a # b # c # _ \<Rightarrow>
          if 224 \<le> a \<and> a \<le> 244 \<and> second_ok a b then (if 240 \<le> a \<and> cont_byte c then 3 else 2) else 1
      | [a, b] \<Rightarrow> if 224 \<le> a \<and> a \<le> 244 \<and> second_ok a b then 2 else 1
      | _ \<Rightarrow> 1)"

function utf8_lossy_bytes :: "nat list \<Rightarrow> nat list" where
  "utf8_lossy_bytes bs =
     (if bs = [] then []
      else case utf8_step bs of
             Some r \<Rightarrow> take (length bs - length r) bs @ utf8_lossy_bytes r
           | None \<Rightarrow> [239, 191, 189] @ utf8_lossy_bytes (drop (ill_formed_length bs) bs))"
  by pat_completeness auto
termination
proof (relation "measure length")
  show "(drop (ill_formed_length bs) bs, bs) \<in> measure length" if "bs \<noteq> []" for bs
    using that by (auto simp: ill_formed_length_def split: list.splits)
qed (auto dest: utf8_step_shorter)

declare utf8_lossy_bytes.simps [simp del]

definition utf8_lossy :: "string \<Rightarrow> string" where
  "utf8_lossy s = map char_of (utf8_lossy_bytes (map of_char s))"

lemma utf8_step_suffix:
  "utf8_step bs = Some r \<Longrightarrow> take (length bs - length r) bs @ r = bs"
  by (auto simp: utf8_step_def split: list.splits if_splits)

lemma utf8_lossy_bytes_valid: "valid_utf8_bytes bs \<Longrightarrow> utf8_lossy_bytes bs = bs"
proof (induction bs rule: valid_utf8_bytes.induct)
  case (1 bs)
  show ?case
  proof (cases "bs = []")
    case True
    then show ?thesis by (simp add: utf8_lossy_bytes.simps)
  next
    case False
    with "1.prems" obtain r where r: "utf8_step bs = Some r" "valid_utf8_bytes r"
      by (subst (asm) valid_utf8_bytes.simps) (auto split: option.splits)
    with False 1 have "utf8_lossy_bytes r = r" by blast
    with False r utf8_step_suffix [OF r(1)] show ?thesis
      by (subst utf8_lossy_bytes.simps) simp
  qed
qed

lemma utf8_lossy_valid: "valid_utf8 s \<Longrightarrow> utf8_lossy s = s"
  by (simp add: utf8_lossy_def valid_utf8_def utf8_lossy_bytes_valid)

definition ascii :: "string \<Rightarrow> bool" where
  "ascii s \<longleftrightarrow> (\<forall>c \<in> set s. (of_char c :: nat) < 128)"

lemma ascii_valid_utf8: "ascii s \<Longrightarrow> valid_utf8 s"
  by (induction s) (auto simp: ascii_def valid_utf8_def)

lemma ascii_simps [simp]:
  "ascii []"
  "ascii (c # s) \<longleftrightarrow> (of_char c :: nat) < 128 \<and> ascii s"
  "ascii (s @ t) \<longleftrightarrow> ascii s \<and> ascii t"
  by (auto simp: ascii_def)

lemma ascii_show_nat: "ascii (show_nat n)"
  by (auto simp: ascii_def is_digit_def dest!: show_nat_digits)

lemma ascii_show_int [simp]: "ascii (show_int i)"
  using ascii_show_nat by (auto simp: show_int_def)

section \<open>Casts\<close>

text \<open>\<open>i as usize\<close> on a 64-bit target: the value modulo \<open>2^64\<close>.\<close>

definition as_usize :: "int \<Rightarrow> nat" where
  "as_usize i = nat (i mod 2 ^ 64)"

lemma as_usize_id [simp]: "0 \<le> i \<Longrightarrow> i < 2 ^ 64 \<Longrightarrow> as_usize i = nat i"
  by (simp add: as_usize_def)

section \<open>Lists\<close>

lemma find_map_update:
  assumes "\<And>x. key (f x) = key x"
  shows "List.find (\<lambda>x. key x = k) (map (\<lambda>x. if key x = k then f x else x) xs) =
         map_option f (List.find (\<lambda>x. key x = k) xs)"
  using assms by (induction xs) auto

lemma find_map_other:
  assumes "\<And>x. key (f x) = key x" and "k \<noteq> k'"
  shows "List.find (\<lambda>x. key x = k) (map (\<lambda>x. if key x = k' then f x else x) xs) =
         List.find (\<lambda>x. key x = k) xs"
  using assms by (induction xs) auto

lemma find_Some_mem: "List.find P xs = Some x \<Longrightarrow> x \<in> set xs \<and> P x"
  by (induction xs) (auto split: if_splits)

lemma find_None_mem: "List.find P xs = None \<longleftrightarrow> (\<forall>x \<in> set xs. \<not> P x)"
  by (induction xs) auto

lemma find_append: "List.find P (xs @ ys) =
  (case List.find P xs of None \<Rightarrow> List.find P ys | Some x \<Rightarrow> Some x)"
  by (induction xs) auto

lemma find_filter_other:
  "(\<And>x. P x \<Longrightarrow> Q x) \<Longrightarrow> List.find P (filter Q xs) = List.find P xs"
  by (induction xs) auto

lemma find_distinct:
  "distinct (map key xs) \<Longrightarrow> x \<in> set xs \<Longrightarrow> List.find (\<lambda>y. key y = key x) xs = Some x"
  by (induction xs) (auto simp: image_iff)

lemma take_append_last:
  "drop (length xs + 1 - Suc n) (xs @ [x]) = drop (length xs - n) xs @ [x]"
  by simp

end
