(* ===== verification/Steps.thy ===== *)
theory Steps
  imports Prelude
begin

text \<open>
  Fallible, state-changing code: a sequence of steps, each a function from the state to a result and
  the state after it. A step that fails ends the sequence there, with what earlier steps did kept,
  as \<open>?\<close> does. \<open>svc_ok\<close> and \<open>svc_err\<close> collect the inversion rules for success and failure.
\<close>

type_synonym ('s, 'e, 'a) steps = "'s \<Rightarrow> ('e + 'a) \<times> 's"

definition svc_return :: "'a \<Rightarrow> ('s, 'e, 'a) steps" where
  "svc_return v w = (Inr v, w)"

definition svc_bind :: "('s, 'e, 'a) steps \<Rightarrow> ('a \<Rightarrow> ('s, 'e, 'b) steps) \<Rightarrow> ('s, 'e, 'b) steps" where
  "svc_bind m f w = (case m w of (Inl err, w1) \<Rightarrow> (Inl err, w1) | (Inr v, w1) \<Rightarrow> f v w1)"

definition svc_lift :: "'e + 'a \<Rightarrow> ('s, 'e, 'a) steps" where
  "svc_lift r w = (r, w)"

text \<open>\<open>if refused { return Err(err) }\<close>\<close>

definition svc_refuse :: "bool \<Rightarrow> 'e \<Rightarrow> ('s, 'e, unit) steps" where
  "svc_refuse refused err w = (if refused then (Inl err, w) else (Inr (), w))"

definition svc_modify :: "('s \<Rightarrow> 's) \<Rightarrow> ('s, 'e, unit) steps" where
  "svc_modify f w = (Inr (), f w)"

named_theorems svc_ok
named_theorems svc_err

lemma svc_bind_ok [svc_ok]:
  "svc_bind m f w = (Inr v, w') \<longleftrightarrow> (\<exists>x w1. m w = (Inr x, w1) \<and> f x w1 = (Inr v, w'))"
  by (auto simp: svc_bind_def split: sum.splits prod.splits)

lemma svc_bind_err [svc_err]:
  "svc_bind m f w = (Inl err, w') \<longleftrightarrow>
     m w = (Inl err, w') \<or> (\<exists>x w1. m w = (Inr x, w1) \<and> f x w1 = (Inl err, w'))"
  by (auto simp: svc_bind_def split: sum.splits prod.splits)

lemma svc_simple_ok [svc_ok]:
  "svc_return x w1 = (Inr v1, w1') \<longleftrightarrow> x = v1 \<and> w1' = w1"
  "svc_lift r w2 = (Inr v2, w2') \<longleftrightarrow> r = Inr v2 \<and> w2' = w2"
  "svc_refuse refused e w3 = (Inr u3, w3') \<longleftrightarrow> \<not> refused \<and> w3' = w3"
  "svc_modify f w4 = (Inr u4, w4') \<longleftrightarrow> w4' = f w4"
  by (auto simp: svc_return_def svc_lift_def svc_refuse_def svc_modify_def)

lemma svc_simple_err [svc_err]:
  "svc_return x w1 = (Inl err1, w1') \<longleftrightarrow> False"
  "svc_lift r w2 = (Inl err2, w2') \<longleftrightarrow> r = Inl err2 \<and> w2' = w2"
  "svc_refuse refused e w3 = (Inl err3, w3') \<longleftrightarrow> refused \<and> err3 = e \<and> w3' = w3"
  "svc_modify f w4 = (Inl err4, w4') \<longleftrightarrow> False"
  by (auto simp: svc_return_def svc_lift_def svc_refuse_def svc_modify_def)

end
