(* ===== verification/Pagination.thy ===== *)
theory Pagination
  imports Prelude "HOL-Library.Product_Lexorder"
begin

text \<open>
  \<open>shared/pagination.rs\<close> and \<open>shared/repository.rs\<close>: opaque cursors and their five
  shapes, the clamped page limit, the page built from one row too many, the sort order, and
  the keyset condition with its ORDER BY and LIMIT. The base64 and uuid crates, the range of
  \<open>OffsetDateTime\<close> and the text of an \<open>f32\<close> are the fields of a \<open>codec\<close>; what
  the code relies on is \<open>codec_laws\<close>. The locale \<open>keyset_feed\<close> is the contract between a
  repository that fetches the rows after a cursor and the client that follows cursors.
\<close>

section \<open>The text codecs\<close>

record codec =
  b64_encode :: "string \<Rightarrow> string"
  b64_decode :: "string \<Rightarrow> string option"
  uuid_show :: "uuid \<Rightarrow> string"
  uuid_parse :: "string \<Rightarrow> uuid option"
  ts_ok :: "timestamp \<Rightarrow> bool"
  rank_show :: "32 word \<Rightarrow> string"
  rank_parse :: "string \<Rightarrow> 32 word option"

definition no_sep :: "string \<Rightarrow> bool" where
  "no_sep s \<longleftrightarrow> CHR ''|'' \<notin> set s \<and> CHR '':'' \<notin> set s \<and>
     CHR ''*'' \<notin> set s \<and> CHR ''?'' \<notin> set s"

definition codec_laws :: "codec \<Rightarrow> bool" where
  "codec_laws c \<longleftrightarrow>
     (\<forall>s. b64_decode c (b64_encode c s) = Some s) \<and>
     (\<forall>u. uuid_parse c (uuid_show c u) = Some u) \<and>
     (\<forall>u. ascii (uuid_show c u) \<and> no_sep (uuid_show c u)) \<and>
     (\<forall>s u. uuid_parse c s = Some u \<longrightarrow> CHR ''|'' \<notin> set s) \<and>
     (\<forall>t. ts_ok c t \<longrightarrow> i128_min \<le> t \<and> t \<le> i128_max) \<and>
     (\<forall>r. ascii (rank_show c r) \<and> CHR ''|'' \<notin> set (rank_show c r))"

lemma codec_lawsD:
  assumes "codec_laws c"
  shows "b64_decode c (b64_encode c s) = Some s"
    and "uuid_parse c (uuid_show c u) = Some u"
    and "ascii (uuid_show c u)" and "no_sep (uuid_show c u)"
    and "uuid_parse c s = Some u \<Longrightarrow> CHR ''|'' \<notin> set s"
    and "ts_ok c t \<Longrightarrow> i128_min \<le> t \<and> t \<le> i128_max"
    and "ascii (rank_show c r)" and "CHR ''|'' \<notin> set (rank_show c r)"
  using assms by (auto simp: codec_laws_def)

lemma uuid_show_inject: "codec_laws c \<Longrightarrow> uuid_show c u = uuid_show c v \<longleftrightarrow> u = v"
  by (metis codec_lawsD(2) option.inject)

text \<open>
  A codec that satisfies the laws, for closed examples: the identity in place of base64 and
  decimal numbers in place of hyphenated hexadecimal ones.
\<close>

definition plain_codec :: codec where
  "plain_codec = \<lparr>b64_encode = id, b64_decode = Some,
     uuid_show = (\<lambda>u. show_nat (unat u)),
     uuid_parse = (\<lambda>s. if CHR ''|'' \<in> set s then None else map_option of_nat (parse_digits 0 s)),
     ts_ok = (\<lambda>t. 0 \<le> t \<and> t < 2 ^ 80),
     rank_show = (\<lambda>r. show_nat (unat r)),
     rank_parse = (\<lambda>s. map_option of_nat (parse_digits 0 s))\<rparr>"

lemma show_nat_not: "\<not> is_digit x \<Longrightarrow> x \<notin> set (show_nat n)"
  using show_nat_digits by blast

lemma plain_codec_laws: "codec_laws plain_codec"
  by (simp add: codec_laws_def plain_codec_def no_sep_def show_nat_not parse_show_nat
      ascii_show_nat i128_min_def i128_max_def split: if_splits)

section \<open>Cursors\<close>

type_synonym cursor = string

datatype cursor_error = InvalidEncoding | InvalidShape | InvalidTimestamp

definition from_timestamp_id :: "codec \<Rightarrow> timestamp \<Rightarrow> uuid \<Rightarrow> cursor" where
  "from_timestamp_id c ts i = b64_encode c (show_int ts @ ''|'' @ uuid_show c i)"

definition from_two_timestamps_id :: "codec \<Rightarrow> timestamp \<Rightarrow> timestamp \<Rightarrow> uuid \<Rightarrow> cursor" where
  "from_two_timestamps_id c ts1 ts2 i =
     b64_encode c (show_int ts1 @ '':'' @ show_int ts2 @ ''|'' @ uuid_show c i)"

definition from_score_id :: "codec \<Rightarrow> int \<Rightarrow> uuid \<Rightarrow> cursor" where
  "from_score_id c score i = b64_encode c (''score:'' @ show_int score @ ''|'' @ uuid_show c i)"

definition from_name_id :: "codec \<Rightarrow> string \<Rightarrow> uuid \<Rightarrow> cursor" where
  "from_name_id c name i = b64_encode c (''name:'' @ name @ ''|'' @ uuid_show c i)"

definition from_rank_timestamp_id :: "codec \<Rightarrow> 32 word \<Rightarrow> timestamp \<Rightarrow> uuid \<Rightarrow> cursor" where
  "from_rank_timestamp_id c rank ts i =
     b64_encode c (''rank:'' @ rank_show c rank @ ''|'' @ show_int ts @ ''|'' @ uuid_show c i)"

text \<open>The two steps every decoder starts with: base64, then UTF-8.\<close>

definition decode_text :: "codec \<Rightarrow> cursor \<Rightarrow> cursor_error + string" where
  "decode_text c cur =
     (case b64_decode c cur of
        None \<Rightarrow> Inl InvalidEncoding
      | Some bytes \<Rightarrow> if valid_utf8 bytes then Inr bytes else Inl InvalidEncoding)"

definition timestamp_of :: "codec \<Rightarrow> int \<Rightarrow> cursor_error + timestamp" where
  "timestamp_of c nanos = (if ts_ok c nanos then Inr nanos else Inl InvalidTimestamp)"

definition to_timestamp_id :: "codec \<Rightarrow> cursor \<Rightarrow> cursor_error + (timestamp \<times> uuid)" where
  "to_timestamp_id c cur =
     bind_res (decode_text c cur) (\<lambda>s.
       case splitn 2 CHR ''|'' s of
         [p0, p1] \<Rightarrow>
           bind_res (ok_or (parse_signed i128_min i128_max p0) InvalidShape) (\<lambda>nanos.
           bind_res (ok_or (uuid_parse c p1) InvalidShape) (\<lambda>i.
           bind_res (timestamp_of c nanos) (\<lambda>ts. Inr (ts, i))))
       | _ \<Rightarrow> Inl InvalidShape)"

definition to_two_timestamps_id ::
    "codec \<Rightarrow> cursor \<Rightarrow> cursor_error + (timestamp \<times> timestamp \<times> uuid)" where
  "to_two_timestamps_id c cur =
     bind_res (decode_text c cur) (\<lambda>s.
       case splitn 2 CHR ''|'' s of
         [p0, p1] \<Rightarrow>
           (case splitn 2 CHR '':'' p0 of
              [t0, t1] \<Rightarrow>
                bind_res (ok_or (parse_signed i128_min i128_max t0) InvalidShape) (\<lambda>n1.
                bind_res (ok_or (parse_signed i128_min i128_max t1) InvalidShape) (\<lambda>n2.
                bind_res (ok_or (uuid_parse c p1) InvalidShape) (\<lambda>i.
                bind_res (timestamp_of c n1) (\<lambda>ts1.
                bind_res (timestamp_of c n2) (\<lambda>ts2. Inr (ts1, ts2, i))))))
            | _ \<Rightarrow> Inl InvalidShape)
       | _ \<Rightarrow> Inl InvalidShape)"

definition to_score_id :: "codec \<Rightarrow> cursor \<Rightarrow> cursor_error + (int \<times> uuid)" where
  "to_score_id c cur =
     bind_res (decode_text c cur) (\<lambda>s0.
     bind_res (ok_or (strip_prefix ''score:'' s0) InvalidShape) (\<lambda>s.
       case splitn 2 CHR ''|'' s of
         [p0, p1] \<Rightarrow>
           bind_res (ok_or (parse_signed i64_min i64_max p0) InvalidShape) (\<lambda>score.
           bind_res (ok_or (uuid_parse c p1) InvalidShape) (\<lambda>i. Inr (score, i)))
       | _ \<Rightarrow> Inl InvalidShape))"

definition to_name_id :: "codec \<Rightarrow> cursor \<Rightarrow> cursor_error + (string \<times> uuid)" where
  "to_name_id c cur =
     bind_res (decode_text c cur) (\<lambda>s0.
     bind_res (ok_or (strip_prefix ''name:'' s0) InvalidShape) (\<lambda>s.
       case splitn 2 CHR ''|'' s of
         [p0, p1] \<Rightarrow>
           bind_res (ok_or (uuid_parse c p1) InvalidShape) (\<lambda>i. Inr (p0, i))
       | _ \<Rightarrow> Inl InvalidShape))"

definition to_rank_timestamp_id ::
    "codec \<Rightarrow> cursor \<Rightarrow> cursor_error + (32 word \<times> timestamp \<times> uuid)" where
  "to_rank_timestamp_id c cur =
     bind_res (decode_text c cur) (\<lambda>s0.
     bind_res (ok_or (strip_prefix ''rank:'' s0) InvalidShape) (\<lambda>s.
       case splitn 3 CHR ''|'' s of
         [p0, p1, p2] \<Rightarrow>
           bind_res (ok_or (rank_parse c p0) InvalidShape) (\<lambda>rank.
           bind_res (ok_or (parse_signed i128_min i128_max p1) InvalidShape) (\<lambda>nanos.
           bind_res (ok_or (uuid_parse c p2) InvalidShape) (\<lambda>i.
           bind_res (timestamp_of c nanos) (\<lambda>ts. Inr (rank, ts, i)))))
       | _ \<Rightarrow> Inl InvalidShape))"

text \<open>Helpers: what a codec under the laws makes of the separators.\<close>

lemma decode_encode:
  "codec_laws c \<Longrightarrow> valid_utf8 s \<Longrightarrow> decode_text c (b64_encode c s) = Inr s"
  by (simp add: decode_text_def codec_lawsD)

lemma no_bar_colon: "CHR ''|'' \<notin> set (show_int a @ CHR '':'' # show_int b)"
  by simp

lemmas cursor_roundtrip_simps =
  decode_encode ascii_valid_utf8 codec_lawsD splitn_2_sep splitn_3_sep parse_show_int timestamp_of_def

text \<open>C15. Decoding a cursor gives back what was encoded, for each of the shapes the feeds use: a
  timestamp and an id, two timestamps and an id, and a 64-bit score and an id. The codec is
  any that satisfies the documented laws; the timestamps are those \<open>OffsetDateTime\<close> holds.
\<close>

theorem cursor_roundtrip:
  assumes "codec_laws c" and "ts_ok c ts" and "ts_ok c ts2"
    and "i64_min \<le> score" and "score \<le> i64_max"
  shows "to_timestamp_id c (from_timestamp_id c ts i) = Inr (ts, i) \<and>
         to_two_timestamps_id c (from_two_timestamps_id c ts ts2 i) = Inr (ts, ts2, i) \<and>
         to_score_id c (from_score_id c score i) = Inr (score, i)"
proof (intro conjI)
  have r: "i128_min \<le> ts" "ts \<le> i128_max" "i128_min \<le> ts2" "ts2 \<le> i128_max"
    using codec_lawsD(6) [OF assms(1)] assms(2,3) by auto
  show "to_timestamp_id c (from_timestamp_id c ts i) = Inr (ts, i)"
    using assms r
    by (simp add: to_timestamp_id_def from_timestamp_id_def cursor_roundtrip_simps)
  show "to_score_id c (from_score_id c score i) = Inr (score, i)"
    using assms
    by (simp add: to_score_id_def from_score_id_def cursor_roundtrip_simps strip_prefix_def)
  have "splitn 2 CHR ''|'' (show_int ts @ '':'' @ show_int ts2 @ ''|'' @ uuid_show c i) =
        [show_int ts @ CHR '':'' # show_int ts2, uuid_show c i]"
    using splitn_2_sep [OF no_bar_colon, of ts ts2 "uuid_show c i"] by simp
  then show "to_two_timestamps_id c (from_two_timestamps_id c ts ts2 i) = Inr (ts, ts2, i)"
    using assms r
    by (simp add: to_two_timestamps_id_def from_two_timestamps_id_def cursor_roundtrip_simps)
qed

theorem cursor_roundtrip_witness:
  "to_timestamp_id plain_codec (from_timestamp_id plain_codec 1716768000 7) = Inr (1716768000, 7)"
proof -
  have "ts_ok plain_codec 1716768000" "ts_ok plain_codec 5"
    by (simp_all add: plain_codec_def)
  from cursor_roundtrip [OF plain_codec_laws this, of "-3" 7]
  show ?thesis by (simp add: i64_min_def i64_max_def)
qed

lemma timestamp_cursor_roundtrip:
  "codec_laws c \<Longrightarrow> ts_ok c ts \<Longrightarrow> to_timestamp_id c (from_timestamp_id c ts i) = Inr (ts, i)"
  using codec_lawsD(6) [of c ts]
  by (simp add: to_timestamp_id_def from_timestamp_id_def cursor_roundtrip_simps)

lemma score_cursor_roundtrip:
  "codec_laws c \<Longrightarrow> i64_min \<le> s \<Longrightarrow> s \<le> i64_max \<Longrightarrow>
   to_score_id c (from_score_id c s i) = Inr (s, i)"
  by (simp add: to_score_id_def from_score_id_def cursor_roundtrip_simps strip_prefix_def)

text \<open>C32. A name cursor decodes to the name and id it was made from exactly when the name has no
  bar: the decoder splits at the first bar, so a name that contains one is refused with
  \<open>InvalidShape\<close> although the server itself issued the cursor.
\<close>

theorem name_cursor_roundtrip:
  assumes "codec_laws c" and "valid_utf8 name"
  shows "to_name_id c (from_name_id c name i) =
         (if CHR ''|'' \<in> set name then Inl InvalidShape else Inr (name, i))"
proof (cases "CHR ''|'' \<in> set name")
  case False
  have "valid_utf8 (''name:'' @ name @ ''|'' @ uuid_show c i)"
    using assms by (intro valid_utf8_append) (simp_all add: ascii_valid_utf8 codec_lawsD)
  with False assms show ?thesis
    by (simp add: to_name_id_def from_name_id_def decode_encode strip_prefix_def
        splitn_2_sep codec_lawsD)
next
  case True
  then obtain xs ys where n: "name = xs @ CHR ''|'' # ys" and xs: "CHR ''|'' \<notin> set xs"
    by (metis split_list_first)
  have "uuid_parse c (ys @ CHR ''|'' # uuid_show c i) = None"
    using codec_lawsD(5) [OF assms(1), of "ys @ CHR ''|'' # uuid_show c i"]
    by (cases "uuid_parse c (ys @ CHR ''|'' # uuid_show c i)") auto
  moreover have "splitn 2 CHR ''|'' (name @ CHR ''|'' # uuid_show c i) =
        [xs, ys @ CHR ''|'' # uuid_show c i]"
    using splitn_2_sep [OF xs, of "ys @ CHR ''|'' # uuid_show c i"] by (simp add: n)
  moreover have "valid_utf8 (''name:'' @ name @ ''|'' @ uuid_show c i)"
    using assms by (intro valid_utf8_append) (simp_all add: ascii_valid_utf8 codec_lawsD)
  ultimately show ?thesis
    using True assms by (simp add: to_name_id_def from_name_id_def decode_encode strip_prefix_def)
qed

theorem name_cursor_roundtrip_witness:
  "to_name_id plain_codec (from_name_id plain_codec ''Ada'' 7) = Inr (''Ada'', 7) \<and>
   to_name_id plain_codec (from_name_id plain_codec ''A|B'' 7) = Inl InvalidShape"
proof -
  have "valid_utf8 ''Ada''" "valid_utf8 ''A|B''"
    by (simp_all add: ascii_valid_utf8)
  then show ?thesis
    using name_cursor_roundtrip [OF plain_codec_laws, of "''Ada''" 7]
      name_cursor_roundtrip [OF plain_codec_laws, of "''A|B''" 7] by simp
qed

section \<open>Page parameters\<close>

record cursor_params =
  cp_cursor :: "cursor option"
  cp_limit :: "int option"

definition clamp :: "int \<Rightarrow> int \<Rightarrow> int \<Rightarrow> int" where
  "clamp lo hi x = (if x < lo then lo else if hi < x then hi else x)"

definition page_limit :: "cursor_params \<Rightarrow> int" where
  "page_limit p = clamp 1 100 (case cp_limit p of None \<Rightarrow> 20 | Some l \<Rightarrow> l)"

definition limit_plus_one :: "cursor_params \<Rightarrow> int" where
  "limit_plus_one p = page_limit p + 1"

lemma page_limit_bounds: "1 \<le> page_limit p \<and> page_limit p \<le> 100"
  by (simp add: page_limit_def clamp_def)

lemma page_limit_small: "1 \<le> page_limit p \<and> page_limit p \<le> 500"
  using page_limit_bounds [of p] by linarith

lemma as_usize_page_limit [simp]: "as_usize (page_limit p) = nat (page_limit p)"
  using page_limit_bounds [of p] by (intro as_usize_id) simp_all

lemma nat_limit_plus_one: "nat (limit_plus_one p) = Suc (nat (page_limit p))"
  using page_limit_bounds [of p] unfolding limit_plus_one_def by linarith

lemma page_limit_cursor: "page_limit \<lparr>cp_cursor = a, cp_limit = l\<rparr> = page_limit \<lparr>cp_cursor = None, cp_limit = l\<rparr>"
  by (simp add: page_limit_def)

section \<open>Pages\<close>

record 'r cursor_page =
  data :: "'r list"
  next_cursor :: "cursor option"
  has_next_page :: bool

definition last_opt :: "'a list \<Rightarrow> 'a option" where
  "last_opt xs = (if xs = [] then None else Some (last xs))"

definition from_rows :: "'r list \<Rightarrow> int \<Rightarrow> ('r \<Rightarrow> cursor) \<Rightarrow> 'r cursor_page" where
  "from_rows rows limit encode_cursor =
     (let has_next = length rows > as_usize limit;
          rows' = (if has_next then take (as_usize limit) rows else rows);
          next = (if has_next then map_option encode_cursor (last_opt rows') else None)
      in \<lparr>data = rows', next_cursor = next, has_next_page = has_next\<rparr>)"

section \<open>Sort order and the keyset condition\<close>

datatype order = Desc | Asc

definition order_default :: order where "order_default = Desc"

fun order_sql :: "order \<Rightarrow> string" where
  "order_sql Desc = ''DESC NULLS LAST''"
| "order_sql Asc = ''ASC NULLS FIRST''"

fun cursor_op :: "order \<Rightarrow> string" where
  "cursor_op Desc = ''<''"
| "cursor_op Asc = ''>''"

text \<open>
  What the database makes of the fragments: the comparison operator, applied to row values
  (lexicographically), and the direction of a sort whose columns are not null. A sort by
  unique keys has one result.
\<close>

definition sql_cmp :: "string \<Rightarrow> 'k::linorder \<Rightarrow> 'k \<Rightarrow> bool" where
  "sql_cmp op_str a b = (if op_str = ''<'' then a < b else a > b)"

definition sql_order_by :: "string \<Rightarrow> ('r \<Rightarrow> 'k::linorder) \<Rightarrow> 'r list \<Rightarrow> 'r list" where
  "sql_order_by dir key rows =
     (if take 4 dir = ''DESC'' then rev (sort_key key rows) else sort_key key rows)"

definition push_cursor_condition ::
    "('r \<Rightarrow> timestamp) \<Rightarrow> ('r \<Rightarrow> uuid) \<Rightarrow> timestamp option \<Rightarrow> uuid option \<Rightarrow> order \<Rightarrow> 'r \<Rightarrow> bool" where
  "push_cursor_condition ts_col id_col cursor_ts cursor_id order r =
     (case (cursor_ts, cursor_id) of
        (Some ts, Some i) \<Rightarrow> sql_cmp (cursor_op order) (ts_col r, id_col r) (ts, i)
      | _ \<Rightarrow> True)"

definition push_order_and_limit ::
    "('r \<Rightarrow> timestamp) \<Rightarrow> ('r \<Rightarrow> uuid) \<Rightarrow> order \<Rightarrow> int \<Rightarrow> 'r list \<Rightarrow> 'r list" where
  "push_order_and_limit ts_col id_col order limit1 rows =
     take (nat limit1) (sql_order_by (order_sql order) (\<lambda>r. (ts_col r, id_col r)) rows)"

lemma push_cursor_condition_simps:
  "push_cursor_condition ts_col id_col None q ord = (\<lambda>r. True)"
  "push_cursor_condition ts_col id_col (Some ts) (Some i) ord =
     (\<lambda>r. sql_cmp (cursor_op ord) (ts_col r, id_col r) (ts, i))"
  by (simp_all add: push_cursor_condition_def fun_eq_iff)

lemma filter_strict_sorted:
  fixes key :: "'r \<Rightarrow> 'k::linorder"
  assumes "sorted (map key (xs @ r # ys))" and "distinct (map key (xs @ r # ys))"
  shows "filter (\<lambda>x. key x > key r) (xs @ r # ys) = ys"
    and "filter (\<lambda>x. key x < key r) (xs @ r # ys) = xs"
proof -
  have nx: "key r \<notin> key ` set xs" and ny: "key r \<notin> key ` set ys"
    using assms(2) by auto
  have lt: "key x < key r" if x: "x \<in> set xs" for x
  proof -
    have "key x \<le> key r" using assms(1) x by (simp add: sorted_append)
    moreover have "key x \<noteq> key r" using nx x by (metis imageI)
    ultimately show ?thesis by simp
  qed
  have gt: "key r < key y" if y: "y \<in> set ys" for y
  proof -
    have "key r \<le> key y" using assms(1) y by (simp add: sorted_append)
    moreover have "key y \<noteq> key r" using ny y by (metis imageI)
    ultimately show ?thesis by simp
  qed
  have "filter (\<lambda>x. key x > key r) xs = []" "filter (\<lambda>x. key x > key r) ys = ys"
    using lt gt by (simp_all add: filter_empty_conv filter_id_conv less_imp_not_less)
  then show "filter (\<lambda>x. key x > key r) (xs @ r # ys) = ys" by simp
  have "filter (\<lambda>x. key x < key r) xs = xs" "filter (\<lambda>x. key x < key r) ys = []"
    using lt gt by (simp_all add: filter_empty_conv filter_id_conv less_imp_not_less)
  then show "filter (\<lambda>x. key x < key r) (xs @ r # ys) = xs" by simp
qed

text \<open>
  The rows beyond a row of the sorted result, by the keyset condition, are its suffix.
\<close>

lemma keyset_suffix:
  fixes key :: "'r \<Rightarrow> 'k::linorder"
  assumes d: "distinct (map key rows)"
    and s: "sql_order_by (order_sql ord) key rows = xs @ r # ys"
  shows "sql_order_by (order_sql ord) key (filter (\<lambda>x. sql_cmp (cursor_op ord) (key x) (key r)) rows) = ys"
proof (cases ord)
  case Asc
  with s have e: "sort_key key rows = xs @ r # ys" by (simp add: sql_order_by_def)
  have "sorted (map key (xs @ r # ys))" "distinct (map key (xs @ r # ys))"
    using d by (simp_all add: e [symmetric] distinct_map)
  from filter_strict_sorted(1) [OF this] Asc e show ?thesis
    by (simp add: sql_order_by_def sql_cmp_def filter_sort [symmetric])
next
  case Desc
  with s have e: "sort_key key rows = rev ys @ r # rev xs"
    by (simp add: sql_order_by_def) (metis append.assoc append_Cons append_Nil rev.simps(2) rev_append rev_rev_ident)
  have "sorted (map key (rev ys @ r # rev xs))" "distinct (map key (rev ys @ r # rev xs))"
    using d by (simp_all add: e [symmetric] distinct_map)
  from filter_strict_sorted(2) [OF this] Desc e show ?thesis
    by (simp add: sql_order_by_def sql_cmp_def filter_sort [symmetric])
qed

lemma set_sql_order_by [simp]: "set (sql_order_by dir key rows) = set rows"
  by (simp add: sql_order_by_def)

lemma length_sql_order_by [simp]: "length (sql_order_by dir key rows) = length rows"
  by (simp add: sql_order_by_def)

section \<open>Following cursors\<close>

text \<open>
  A client asks for the first page and then for the page of each \<open>nextCursor\<close> until
  there is none. The fuel bounds the number of requests.
\<close>

fun follow :: "nat \<Rightarrow> (cursor option \<Rightarrow> 'e + 'r cursor_page) \<Rightarrow> cursor option \<Rightarrow> ('e + 'r list) option" where
  "follow 0 fetch cur = None"
| "follow (Suc n) fetch cur =
     (case fetch cur of
        Inl e \<Rightarrow> Some (Inl e)
      | Inr p \<Rightarrow> (case next_cursor p of
                   None \<Rightarrow> Some (Inr (data p))
                 | Some c \<Rightarrow> (case follow n fetch (Some c) of
                              None \<Rightarrow> None
                            | Some (Inl e) \<Rightarrow> Some (Inl e)
                            | Some (Inr rest) \<Rightarrow> Some (Inr (data p @ rest)))))"

text \<open>
  The contract of a keyset feed: \<open>rows t\<close> is the whole result, a fetch without a cursor
  reads its first \<open>limit + 1\<close> rows, and a fetch with the cursor of a row reads the
  \<open>limit + 1\<close> rows after it.
\<close>

locale keyset_feed =
  fixes invar :: "'t \<Rightarrow> bool"
    and rows :: "'t \<Rightarrow> 'r list"
    and limit :: "'t \<Rightarrow> int"
    and enc :: "'t \<Rightarrow> 'r \<Rightarrow> cursor"
    and fetch :: "'t \<Rightarrow> cursor option \<Rightarrow> 'e + 'r cursor_page"
  assumes limit_range: "invar t \<Longrightarrow> 1 \<le> limit t \<and> limit t \<le> 500"
    and fetch_first: "invar t \<Longrightarrow>
      fetch t None = Inr (from_rows (take (Suc (nat (limit t))) (rows t)) (limit t) (enc t))"
    and fetch_next: "invar t \<Longrightarrow> rows t = xs @ r # ys \<Longrightarrow>
      fetch t (Some (enc t r)) = Inr (from_rows (take (Suc (nat (limit t))) ys) (limit t) (enc t))"
begin

lemma page_of_suffix:
  assumes "1 \<le> l" "l \<le> 500"
  shows "from_rows (take (Suc (nat l)) ys) l e =
    (if length ys \<le> nat l then \<lparr>data = ys, next_cursor = None, has_next_page = False\<rparr>
     else \<lparr>data = take (nat l) ys, next_cursor = Some (e (last (take (nat l) ys))),
           has_next_page = True\<rparr>)"
  using assms by (auto simp: from_rows_def Let_def last_opt_def as_usize_def min_def)

lemma follow_suffix:
  assumes inv: "invar t"
  shows "rows t = xs @ ys \<Longrightarrow> length ys < fuel \<Longrightarrow>
     (xs = [] \<and> cur = None) \<or> (xs \<noteq> [] \<and> cur = Some (enc t (last xs))) \<Longrightarrow>
     follow fuel (fetch t) cur = Some (Inr ys)"
proof (induction fuel arbitrary: xs ys cur)
  case (Suc fuel)
  let ?l = "nat (limit t)"
  note lim = limit_range [OF inv]
  have f: "fetch t cur = Inr (from_rows (take (Suc ?l) ys) (limit t) (enc t))"
  proof (cases "xs = []")
    case True
    with Suc.prems fetch_first [OF inv] show ?thesis by simp
  next
    case False
    then have "rows t = butlast xs @ last xs # ys" using Suc.prems(1) by simp
    from fetch_next [OF inv this] Suc.prems(3) False show ?thesis by simp
  qed
  note f = f [unfolded page_of_suffix [OF lim [THEN conjunct1] lim [THEN conjunct2]]]
  show ?case
  proof (cases "length ys \<le> ?l")
    case True
    with f show ?thesis by simp
  next
    case False
    let ?p = "take ?l ys"
    have ne: "?p \<noteq> []" using lim False by (cases ys) auto
    have "follow fuel (fetch t) (Some (enc t (last ?p))) = Some (Inr (drop ?l ys))"
    proof (rule Suc.IH)
      show "rows t = (xs @ ?p) @ drop ?l ys" using Suc.prems(1) by simp
      show "length (drop ?l ys) < fuel" using Suc.prems(2) lim False unfolding length_drop by linarith
      show "(xs @ ?p = [] \<and> Some (enc t (last ?p)) = None) \<or>
            (xs @ ?p \<noteq> [] \<and> Some (enc t (last ?p)) = Some (enc t (last (xs @ ?p))))"
        using ne by simp
    qed
    with f False show ?thesis by simp
  qed
qed simp

lemma follow_all: "invar t \<Longrightarrow> length (rows t) < fuel \<Longrightarrow> follow fuel (fetch t) None = Some (Inr (rows t))"
  using follow_suffix [of t "[]" "rows t" fuel None] by simp

lemma page_size: "invar t \<Longrightarrow> fetch t None = Inr p \<Longrightarrow> length (data p) \<le> nat (limit t)"
  using limit_range [of t] by (auto simp: fetch_first page_of_suffix)

end

text \<open>
  The feed of the shared repository helpers: decode the cursor, keep the rows beyond it, sort,
  cut at \<open>limit + 1\<close>, and build the page with a timestamp cursor. A feed is given by its
  codec, its order, its page parameters, its two columns and its table.
\<close>

definition ts_feed ::
    "codec \<times> order \<times> int option \<times> ('r \<Rightarrow> timestamp) \<times> ('r \<Rightarrow> uuid) \<times> 'r list \<Rightarrow>
     cursor option \<Rightarrow> cursor_error + 'r cursor_page" where
  "ts_feed = (\<lambda>(c, ord, lim, ts_col, id_col, table) cur.
     let params = \<lparr>cp_cursor = cur, cp_limit = lim\<rparr>
     in bind_res (case cp_cursor params of
                    None \<Rightarrow> Inr (None, None)
                  | Some s \<Rightarrow> bind_res (to_timestamp_id c s) (\<lambda>(ts, i). Inr (Some ts, Some i)))
        (\<lambda>(cursor_ts, cursor_id).
           Inr (from_rows
             (push_order_and_limit ts_col id_col ord (limit_plus_one params)
               (filter (push_cursor_condition ts_col id_col cursor_ts cursor_id ord) table))
             (page_limit params)
             (\<lambda>r. from_timestamp_id c (ts_col r) (id_col r)))))"

definition ts_feed_invar ::
    "codec \<times> order \<times> int option \<times> ('r \<Rightarrow> timestamp) \<times> ('r \<Rightarrow> uuid) \<times> 'r list \<Rightarrow> bool" where
  "ts_feed_invar = (\<lambda>(c, ord, lim, ts_col, id_col, table).
     codec_laws c \<and> distinct (map (\<lambda>r. (ts_col r, id_col r)) table) \<and> (\<forall>r \<in> set table. ts_ok c (ts_col r)))"

definition ts_feed_rows ::
    "codec \<times> order \<times> int option \<times> ('r \<Rightarrow> timestamp) \<times> ('r \<Rightarrow> uuid) \<times> 'r list \<Rightarrow> 'r list" where
  "ts_feed_rows = (\<lambda>(c, ord, lim, ts_col, id_col, table).
     sql_order_by (order_sql ord) (\<lambda>r. (ts_col r, id_col r)) table)"

interpretation ts: keyset_feed ts_feed_invar ts_feed_rows
    "\<lambda>(c, ord, lim, ts_col, id_col, table). page_limit \<lparr>cp_cursor = None, cp_limit = lim\<rparr>"
    "\<lambda>(c, ord, lim, ts_col, id_col, table) r. from_timestamp_id c (ts_col r) (id_col r)"
    ts_feed
proof (unfold_locales, goal_cases)
  case (1 t)
  then show ?case using page_limit_small by (auto split: prod.splits)
next
  case (2 t)
  then show ?case
    by (auto simp: ts_feed_def ts_feed_rows_def push_order_and_limit_def push_cursor_condition_simps
        nat_limit_plus_one Let_def split: prod.splits)
next
  case (3 t xs r ys)
  obtain c ord lim ts_col id_col table where t: "t = (c, ord, lim, ts_col, id_col, table)"
    by (cases t)
  let ?key = "\<lambda>r. (ts_col r, id_col r)"
  from 3 have laws: "codec_laws c" and d: "distinct (map ?key table)"
    and s: "sql_order_by (order_sql ord) ?key table = xs @ r # ys"
    by (auto simp: t ts_feed_invar_def ts_feed_rows_def)
  have "r \<in> set table"
    using arg_cong [OF s, of set] by auto
  with 3 have "ts_ok c (ts_col r)" by (simp add: t ts_feed_invar_def)
  with laws keyset_suffix [OF d s] show ?case
    by (simp add: t ts_feed_def timestamp_cursor_roundtrip push_order_and_limit_def
        push_cursor_condition_simps nat_limit_plus_one page_limit_cursor [of "Some _"])
qed

text \<open>C1. Cursor pagination loses and repeats nothing: over any table whose (timestamp, id) keys
  are distinct, in either direction and for any requested page size, a client that follows
  \<open>nextCursor\<close> from the first page until there is none receives every row exactly once, in
  the order of the sorted table, within one request more than there are rows.
\<close>

theorem pagination_complete:
  assumes "codec_laws c" and "distinct (map (\<lambda>r. (ts_col r, id_col r)) table)"
    and "\<forall>r \<in> set table. ts_ok c (ts_col r)" and "length table < fuel"
  shows "follow fuel (ts_feed (c, ord, lim, ts_col, id_col, table)) None =
         Some (Inr (sql_order_by (order_sql ord) (\<lambda>r. (ts_col r, id_col r)) table))"
  using ts.follow_all [of "(c, ord, lim, ts_col, id_col, table)" fuel] assms
  by (simp add: ts_feed_invar_def ts_feed_rows_def)

theorem pagination_complete_witness:
  "follow 4 (ts_feed (plain_codec, Desc, Some 2, fst, snd, [(30, 1), (10, 2), (20, 3)])) None =
   Some (Inr [(30, 1), (20, 3), (10, 2)])"
proof -
  let ?t = "[(30, 1), (10, 2), (20, 3)] :: (timestamp \<times> uuid) list"
  have d: "distinct (map (\<lambda>r. (fst r, snd r)) ?t)" by simp
  have t: "\<forall>r \<in> set ?t. ts_ok plain_codec (fst r)" by (simp add: plain_codec_def)
  have s: "sql_order_by (order_sql Desc) (\<lambda>r. (fst r, snd r)) ?t = [(30, 1), (20, 3), (10, 2)]"
    by (simp add: sql_order_by_def sort_key_def)
  show ?thesis
    using pagination_complete [OF plain_codec_laws d t, of 4 Desc "Some 2"] unfolding s by simp
qed

text \<open>The page size a client asks for is clamped to 1..100, 20 when absent, so a page never
  holds more than 100 rows whatever the query string says.
\<close>

theorem page_size_bounded:
  "page_limit p = (case cp_limit p of None \<Rightarrow> 20 | Some l \<Rightarrow> max 1 (min 100 l)) \<and>
   length (data (from_rows rows (page_limit p) enc)) \<le> 100"
  using page_limit_bounds [of p]
  by (auto simp: page_limit_def clamp_def from_rows_def Let_def split: option.splits)

end
