(* ===== verification/Broadcast_Errors.thy ===== *)
theory Broadcast_Errors
  imports Pagination
begin

text \<open>
  \<open>modules/broadcast/errors.rs\<close> with the response helpers of \<open>shared/errors.rs\<close>: the
  error values every broadcast operation returns, their display text, and the HTTP status and
  code each is answered with. Errors of third-party crates are carried as their text.
\<close>

datatype cache_error = LockTimeout nat | CacheRedis string

fun cache_error_text :: "cache_error \<Rightarrow> string" where
  "cache_error_text (LockTimeout n) = ''Failed to acquire lock after '' @ show_nat n @ '' retries''"
| "cache_error_text (CacheRedis e) = ''Redis error: '' @ e"

fun cursor_error_text :: "cursor_error \<Rightarrow> string" where
  "cursor_error_text InvalidEncoding = ''Invalid cursor encoding''"
| "cursor_error_text InvalidShape = ''Invalid cursor shape''"
| "cursor_error_text InvalidTimestamp = ''Invalid timestamp in cursor''"

datatype broadcast_error =
    NotLive | AlreadyLive | NotParticipant | AlreadyParticipant | AlreadyAParticipant
  | JoinInProgress | InvalidTimeZone string | StartTimeInPast | RecordingNotAvailable
  | BroadcastStillLive | InvalidId
  | NotCreator | CreatorCannotJoin | CannotEnd | CannotAddSelfAsCohost
  | CohostLimitExceeded nat | OneOrMoreUsersNotFound | CannotModifyLiveBroadcast
  | InvitationNotYours
  | NotFound | UserNotFound | InvitationNotFound
  | AlreadyCohost | DuplicateInvitation
  | TooManyReconnects
  | LiveKitUnavailable
  | ServiceConfigMissing | CursorErr cursor_error | CacheErr cache_error
  | LiveKitAccess string | LiveKit string | RedisErr string | Database string | Internal string
  | ValidationError "(string \<times> string list) list"

definition MAX_COHOSTS :: nat where "MAX_COHOSTS = 3"

fun broadcast_error_text :: "broadcast_error \<Rightarrow> string" where
  "broadcast_error_text NotLive = ''Broadcast is not currently live''"
| "broadcast_error_text AlreadyLive = ''Broadcast is already live''"
| "broadcast_error_text NotParticipant = ''You are not a participant in this broadcast''"
| "broadcast_error_text AlreadyParticipant = ''You are already a participant in this broadcast''"
| "broadcast_error_text AlreadyAParticipant =
     ''Already in a broadcast. You must leave current broadcast before joining another''"
| "broadcast_error_text JoinInProgress = ''A join request is already in progress''"
| "broadcast_error_text (InvalidTimeZone z) = ''Invalid time zone: '' @ z"
| "broadcast_error_text StartTimeInPast = ''start_time must be in the future''"
| "broadcast_error_text RecordingNotAvailable = ''Recording not available for this broadcast''"
| "broadcast_error_text BroadcastStillLive = ''Cannot publish a broadcast that is still live''"
| "broadcast_error_text InvalidId = ''No or invalid broadcast ID''"
| "broadcast_error_text NotCreator = ''Only the broadcast creator can perform this action''"
| "broadcast_error_text CreatorCannotJoin = ''You cannot join a broadcast you created''"
| "broadcast_error_text CannotEnd = ''Only the creator or admin can end this broadcast''"
| "broadcast_error_text CannotAddSelfAsCohost = ''Cannot add yourself as a cohost''"
| "broadcast_error_text (CohostLimitExceeded n) =
     ''Cohost limit exceeded. Maximum '' @ show_nat n @ '' cohosts allowed''"
| "broadcast_error_text OneOrMoreUsersNotFound = ''One or more users were not found''"
| "broadcast_error_text CannotModifyLiveBroadcast =
     ''Cannot modify a broadcast that is currently live''"
| "broadcast_error_text InvitationNotYours = ''This invitation is not addressed to you''"
| "broadcast_error_text NotFound = ''Broadcast not found''"
| "broadcast_error_text UserNotFound = ''User not found''"
| "broadcast_error_text InvitationNotFound = ''Cohost invitation not found''"
| "broadcast_error_text AlreadyCohost = ''User is already a co-host of this broadcast''"
| "broadcast_error_text DuplicateInvitation =
     ''This user already has a pending co-host invitation''"
| "broadcast_error_text TooManyReconnects = ''Too many reconnection attempts. Wait 30 seconds''"
| "broadcast_error_text LiveKitUnavailable =
     ''Could not connect to media server. Please try again''"
| "broadcast_error_text ServiceConfigMissing = ''Broadcast service configuration missing''"
| "broadcast_error_text (CursorErr e) = ''Cursor error: '' @ cursor_error_text e"
| "broadcast_error_text (CacheErr e) = ''Cache error: '' @ cache_error_text e"
| "broadcast_error_text (LiveKitAccess e) = e"
| "broadcast_error_text (LiveKit e) = e"
| "broadcast_error_text (RedisErr e) = e"
| "broadcast_error_text (Database e) = e"
| "broadcast_error_text (Internal e) = e"
| "broadcast_error_text (ValidationError es) = ''Validation error''"

section \<open>HTTP responses\<close>

text \<open>\<open>MenoResponse\<close>; the payload of a validation error is its map of field messages.\<close>

record meno_response =
  status_code :: nat
  code :: string
  message :: string
  data_fields :: "(string \<times> string list) list option"
  ok_status :: bool

definition error_response :: "nat \<Rightarrow> string \<Rightarrow> string \<Rightarrow> meno_response" where
  "error_response sc cd msg =
     \<lparr>status_code = sc, code = cd, message = msg, data_fields = None, ok_status = False\<rparr>"

definition validation_error_response :: "(string \<times> string list) list \<Rightarrow> meno_response" where
  "validation_error_response errs =
     \<lparr>status_code = 422, code = ''VALIDATION_ERROR'', message = ''One or more fields are invalid'',
      data_fields = Some errs, ok_status = False\<rparr>"

fun into_response :: "broadcast_error \<Rightarrow> meno_response" where
  "into_response NotLive = error_response 400 ''BROADCAST_NOT_LIVE'' (broadcast_error_text NotLive)"
| "into_response AlreadyParticipant =
     error_response 400 ''ALREADY_PARTICIPANT'' (broadcast_error_text AlreadyParticipant)"
| "into_response AlreadyAParticipant =
     error_response 400 ''ALREADY_A_PARTICIPANT'' (broadcast_error_text AlreadyAParticipant)"
| "into_response AlreadyLive =
     error_response 400 ''BROADCAST_ALREADY_LIVE'' (broadcast_error_text AlreadyLive)"
| "into_response NotParticipant =
     error_response 400 ''NOT_PARTICIPANT'' (broadcast_error_text NotParticipant)"
| "into_response JoinInProgress =
     error_response 400 ''JOIN_IN_PROGRESS'' (broadcast_error_text JoinInProgress)"
| "into_response (InvalidTimeZone z) =
     error_response 400 ''INVALID_TIME_ZONE'' (broadcast_error_text (InvalidTimeZone z))"
| "into_response StartTimeInPast =
     error_response 400 ''START_TIME_IN_PAST'' (broadcast_error_text StartTimeInPast)"
| "into_response RecordingNotAvailable =
     error_response 400 ''RECORDING_NOT_AVAILABLE'' (broadcast_error_text RecordingNotAvailable)"
| "into_response BroadcastStillLive =
     error_response 400 ''BROADCAST_STILL_LIVE'' (broadcast_error_text BroadcastStillLive)"
| "into_response InvalidId =
     error_response 400 ''INVALID_BROADCAST_ID'' (broadcast_error_text InvalidId)"
| "into_response NotCreator =
     error_response 403 ''NOT_BROADCAST_CREATOR'' (broadcast_error_text NotCreator)"
| "into_response CreatorCannotJoin =
     error_response 403 ''CREATOR_CANNOT_JOIN'' (broadcast_error_text CreatorCannotJoin)"
| "into_response CannotEnd =
     error_response 403 ''CANNOT_END_BROADCAST'' (broadcast_error_text CannotEnd)"
| "into_response CannotAddSelfAsCohost =
     error_response 403 ''CANNOT_ADD_SELF_AS_COHOST'' (broadcast_error_text CannotAddSelfAsCohost)"
| "into_response CannotModifyLiveBroadcast =
     error_response 403 ''CANNOT_MODIFY_LIVE_BROADCAST''
       (broadcast_error_text CannotModifyLiveBroadcast)"
| "into_response (CohostLimitExceeded n) =
     error_response 403 ''COHOST_LIMIT_REACHED''
       (''Cohost limit exceeded. Max '' @ show_nat MAX_COHOSTS @ '' cohosts allowed'')"
| "into_response InvitationNotYours =
     error_response 403 ''INVITATION_NOT_YOURS'' (broadcast_error_text InvitationNotYours)"
| "into_response NotFound =
     error_response 404 ''BROADCAST_NOT_FOUND'' (broadcast_error_text NotFound)"
| "into_response UserNotFound =
     error_response 404 ''USER_NOT_FOUND'' (broadcast_error_text UserNotFound)"
| "into_response OneOrMoreUsersNotFound =
     error_response 404 ''ONE_OR_MORE_USERS_NOT_FOUND''
       (broadcast_error_text OneOrMoreUsersNotFound)"
| "into_response InvitationNotFound =
     error_response 404 ''INVITATION_NOT_FOUND'' (broadcast_error_text InvitationNotFound)"
| "into_response AlreadyCohost =
     error_response 409 ''ALREADY_BROADCAST_COHOST'' (broadcast_error_text AlreadyCohost)"
| "into_response DuplicateInvitation =
     error_response 409 ''DUPLICATE_INVITATION'' (broadcast_error_text DuplicateInvitation)"
| "into_response TooManyReconnects =
     error_response 429 ''TOO_MANY_REQUESTS'' (broadcast_error_text TooManyReconnects)"
| "into_response LiveKitUnavailable =
     error_response 503 ''BROADCAST_SERVICE_UNAVAILABLE'' (broadcast_error_text LiveKitUnavailable)"
| "into_response ServiceConfigMissing =
     error_response 500 ''INTERNAL_ERROR'' ''An internal error occurred''"
| "into_response (Database e) =
     error_response 500 ''INTERNAL_ERROR'' ''An internal error occurred''"
| "into_response (RedisErr e) =
     error_response 500 ''INTERNAL_ERROR'' ''An internal error occurred''"
| "into_response (CacheErr e) =
     error_response 500 ''INTERNAL_ERROR'' ''An internal error occurred''"
| "into_response (CursorErr e) =
     error_response 500 ''INTERNAL_ERROR'' ''An internal error occurred''"
| "into_response (LiveKit e) =
     error_response 503 ''BROADCAST_SERVICE_UNAVAILABLE'' ''Media service unavailable''"
| "into_response (LiveKitAccess e) =
     error_response 500 ''INTERNAL_ERROR'' ''An internal error occurred''"
| "into_response (Internal e) =
     error_response 500 ''INTERNAL_ERROR'' ''An internal error occurred''"
| "into_response (ValidationError errs) = validation_error_response errs"

text \<open>The errors whose text comes from a backend: a database, Redis or LiveKit message.\<close>

fun backend_text :: "broadcast_error \<Rightarrow> string option" where
  "backend_text (LiveKitAccess e) = Some e"
| "backend_text (LiveKit e) = Some e"
| "backend_text (RedisErr e) = Some e"
| "backend_text (Database e) = Some e"
| "backend_text (Internal e) = Some e"
| "backend_text (CacheErr e) = Some (cache_error_text e)"
| "backend_text _ = None"

text \<open>Every error is answered with a failure status of the 4xx or 5xx classes, and an answer never
  shows a backend's text: for the errors that carry one, the body is one of two fixed messages,
  whatever the text was.
\<close>

theorem error_responses_safe:
  "status_code (into_response e) \<in> {400, 403, 404, 409, 422, 429, 500, 503} \<and>
   \<not> ok_status (into_response e) \<and>
   (backend_text e = None \<or>
    into_response e \<in> {error_response 500 ''INTERNAL_ERROR'' ''An internal error occurred'',
                       error_response 503 ''BROADCAST_SERVICE_UNAVAILABLE'' ''Media service unavailable''})"
  by (cases e) (simp_all add: error_response_def validation_error_response_def)

end
