(* ===== verification/Broadcast_Model.thy ===== *)
theory Broadcast_Model
  imports Broadcast_Errors
begin

text \<open>
  \<open>modules/broadcast/model.rs\<close>: the rows of the broadcast tables, the status, role,
  invitation and end-reason enums with their text forms, and the derived state of a broadcast.
\<close>

section \<open>Enums\<close>

datatype broadcast_status = Active | Inactive

definition lower_char :: "char \<Rightarrow> char" where
  "lower_char c = (if 65 \<le> (of_char c :: nat) \<and> (of_char c :: nat) \<le> 90
                   then char_of ((of_char c :: nat) + 32) else c)"

text \<open>\<open>to_lowercase\<close>, for the comparison with an ASCII word that the code makes.\<close>

definition to_lowercase :: "string \<Rightarrow> string" where
  "to_lowercase s = map lower_char s"

definition status_from_string :: "string \<Rightarrow> broadcast_status" where
  "status_from_string s = (if to_lowercase s = ''active'' then Active else Inactive)"

datatype participant_role = Host | Cohost | Participant | NoRole

definition participant_role_default :: participant_role where
  "participant_role_default = NoRole"

fun role_priority :: "participant_role \<Rightarrow> int" where
  "role_priority Host = 0"
| "role_priority Cohost = 1"
| "role_priority Participant = 2"
| "role_priority NoRole = 3"

definition role_from_string :: "string \<Rightarrow> participant_role" where
  "role_from_string s =
     (if s = ''host'' then Host
      else if s = ''cohost'' then Cohost
      else if s = ''participant'' then Participant
      else NoRole)"

fun role_to_string :: "participant_role \<Rightarrow> string" where
  "role_to_string Host = ''host''"
| "role_to_string Cohost = ''cohost''"
| "role_to_string Participant = ''participant''"
| "role_to_string NoRole = ''none''"

datatype invitation_status = Pending | Accepted | Declined

datatype end_reason = Normal | HostDisconnected | AdminForced | QuotaExceeded | NoReason

definition end_reason_from_string :: "string \<Rightarrow> end_reason" where
  "end_reason_from_string s =
     (if s = ''normal'' then Normal
      else if s = ''host_disconnected'' then HostDisconnected
      else if s = ''admin_forced'' then AdminForced
      else if s = ''quota_exceeded'' then QuotaExceeded
      else Normal)"

fun end_reason_to_string :: "end_reason \<Rightarrow> string" where
  "end_reason_to_string Normal = ''normal''"
| "end_reason_to_string HostDisconnected = ''host_disconnected''"
| "end_reason_to_string AdminForced = ''admin_forced''"
| "end_reason_to_string QuotaExceeded = ''quota_exceeded''"
| "end_reason_to_string NoReason = ''none''"

datatype broadcast_state = Live | Reconnecting | Ended | Scheduled | Draft

section \<open>Rows\<close>

record broadcast =
  b_id :: uuid
  b_title :: string
  b_description :: "string option"
  b_status :: broadcast_status
  b_creator_id :: uuid
  b_time_zone :: "string option"
  b_image_url :: "string option"
  b_image_id :: "string option"
  b_broadcast_token :: "string option"
  b_total_participants :: "int option"
  b_start_time :: "timestamp option"
  b_end_time :: "timestamp option"
  b_recording_enabled :: bool
  b_recording_key :: "string option"
  b_recording_url :: "string option"
  b_published_at :: "timestamp option"
  b_end_reason :: end_reason
  b_created_at :: timestamp
  b_updated_at :: timestamp
  b_deleted_at :: "timestamp option"

record broadcast_participant =
  p_broadcast_id :: uuid
  p_participant_id :: uuid
  p_role :: participant_role
  p_joined_at :: timestamp
  p_left_at :: "timestamp option"
  p_last_listen_position_seconds :: int
  p_last_listened_at :: "timestamp option"

record broadcast_cohost =
  c_broadcast_id :: uuid
  c_cohost_id :: uuid
  c_invited_by :: uuid
  c_invited_at :: timestamp
  c_removed_at :: "timestamp option"

record broadcast_bookmark =
  bm_user_id :: uuid
  bm_broadcast_id :: uuid
  bm_saved_at :: timestamp

record user_summary =
  us_id :: uuid
  us_full_name :: string
  us_bio :: "string option"
  us_avatar_id :: "string option"
  us_avatar_url :: "string option"

record broadcast_context =
  cx_participant_id :: "uuid option"
  cx_is_reconnecting :: bool
  cx_live_count :: int
  cx_total_count :: int
  cx_participant_role :: participant_role
  cx_participant_is_in_room :: bool
  cx_is_subscribed_to_creator :: bool
  cx_is_bookmarked :: bool
  cx_time_remaining_seconds :: "int option"
  cx_last_listened_at :: "timestamp option"

definition broadcast_context_default :: broadcast_context where
  "broadcast_context_default =
     \<lparr>cx_participant_id = None, cx_is_reconnecting = False, cx_live_count = 0, cx_total_count = 0,
      cx_participant_role = participant_role_default, cx_participant_is_in_room = False,
      cx_is_subscribed_to_creator = False, cx_is_bookmarked = False,
      cx_time_remaining_seconds = None, cx_last_listened_at = None\<rparr>"

section \<open>Methods of a broadcast\<close>

text \<open>\<open>OffsetDateTime::now_utc()\<close> is the argument \<open>now\<close>.\<close>

definition can_be_scheduled :: "timestamp \<Rightarrow> broadcast \<Rightarrow> bool" where
  "can_be_scheduled now b = (case b_start_time b of Some st \<Rightarrow> st > now | None \<Rightarrow> False)"

definition get_partial_state :: "timestamp \<Rightarrow> broadcast \<Rightarrow> broadcast_state" where
  "get_partial_state now b =
     (case b_status b of
        Active \<Rightarrow> Live
      | Inactive \<Rightarrow>
          if b_end_time b \<noteq> None then Ended
          else if (case b_start_time b of Some st \<Rightarrow> st > now | None \<Rightarrow> False) then Scheduled
          else Draft)"

definition is_active :: "broadcast \<Rightarrow> bool" where
  "is_active b \<longleftrightarrow> b_status b = Active"

definition is_not_active :: "broadcast \<Rightarrow> bool" where
  "is_not_active b \<longleftrightarrow> b_status b \<noteq> Active"

lemma is_not_active_iff [simp]: "is_not_active b \<longleftrightarrow> \<not> is_active b"
  by (simp add: is_active_def is_not_active_def)

section \<open>Text forms\<close>

text \<open>C23. Roles and end reasons survive the database column: reading back the stored text gives the
  value that was written, for every role, and for every end reason that is a reason (the
  \<open>none\<close> of a broadcast that has not ended reads back as \<open>normal\<close>). Any other text in a
  role column is read as no role, so an unknown role never grants a privilege.
\<close>

theorem column_roundtrip:
  "role_from_string (role_to_string r) = r \<and>
   end_reason_from_string (end_reason_to_string er) = (if er = NoReason then Normal else er) \<and>
   (s \<in> range role_to_string \<or> role_from_string s = NoRole)"
proof (intro conjI)
  show "role_from_string (role_to_string r) = r"
    by (cases r) (simp_all add: role_from_string_def)
  show "end_reason_from_string (end_reason_to_string er) = (if er = NoReason then Normal else er)"
    by (cases er) (simp_all add: end_reason_from_string_def)
  show "s \<in> range role_to_string \<or> role_from_string s = NoRole"
    unfolding role_from_string_def by (metis rangeI role_to_string.simps)
qed

lemma role_text_inject [simp]: "role_to_string r = role_to_string r' \<longleftrightarrow> r = r'"
  by (cases r; cases r') simp_all

end
