(* ===== verification/Circuit_Breaker.thy ===== *)
theory Circuit_Breaker
  imports Prelude
begin

text \<open>
  \<open>shared/services/livekit/circuit_breaker.rs\<close>: the breaker in front of the LiveKit API,
  with its atomics at their widths, the invariant of its fields, and its refinement of a
  three-state machine that keeps in each state only what matters there. \<open>Instant\<close>s are
  nanoseconds of a monotonic clock, passed as \<open>now\<close>.
\<close>

section \<open>State and operations\<close>

datatype circuit_state = Closed | Open | HalfOpen

fun circuit_as_u8 :: "circuit_state \<Rightarrow> 8 word" where
  "circuit_as_u8 Closed = 0"
| "circuit_as_u8 Open = 1"
| "circuit_as_u8 HalfOpen = 2"

definition circuit_from_u8 :: "8 word \<Rightarrow> circuit_state" where
  "circuit_from_u8 v = (if v = 0 then Closed else if v = 1 then Open
                        else if v = 2 then HalfOpen else Closed)"

lemma circuit_from_as [simp]: "circuit_from_u8 (circuit_as_u8 s) = s"
  by (cases s) (simp_all add: circuit_from_u8_def)

record circuit_breaker =
  cb_state :: "8 word"
  cb_failure_count :: "64 word"
  cb_success_count :: "64 word"
  cb_last_failure_at :: "int option"
  cb_failure_threshold :: "64 word"
  cb_success_threshold :: "64 word"
  cb_open_duration :: int

definition nanos_per_sec :: int where "nanos_per_sec = 1000000000"

definition cb_new :: "64 word \<Rightarrow> 64 word \<Rightarrow> circuit_breaker" where
  "cb_new failure_threshold open_duration_secs =
     \<lparr>cb_state = circuit_as_u8 Closed, cb_failure_count = 0, cb_success_count = 0,
      cb_last_failure_at = None, cb_failure_threshold = failure_threshold,
      cb_success_threshold = 2, cb_open_duration = uint open_duration_secs * nanos_per_sec\<rparr>"

definition cb_get_state :: "circuit_breaker \<Rightarrow> circuit_state" where
  "cb_get_state b = circuit_from_u8 (cb_state b)"

definition cb_open_message :: string where
  "cb_open_message = ''LiveKit circuit breaker is Open '' @ map char_of [226, 128, 148 :: nat] @ '' failing fast''"

definition cb_check :: "int \<Rightarrow> circuit_breaker \<Rightarrow> (string + unit) \<times> circuit_breaker" where
  "cb_check now b =
     (case cb_get_state b of
        Closed \<Rightarrow> (Inr (), b)
      | Open \<Rightarrow>
          (case cb_last_failure_at b of
             Some t \<Rightarrow>
               if cb_open_duration b \<le> max 0 (now - t)
               then (Inr (), b\<lparr>cb_state := circuit_as_u8 HalfOpen\<rparr>)
               else (Inl cb_open_message, b)
           | None \<Rightarrow> (Inl cb_open_message, b))
      | HalfOpen \<Rightarrow> (Inr (), b))"

definition cb_on_success :: "circuit_breaker \<Rightarrow> circuit_breaker" where
  "cb_on_success b =
     (case cb_get_state b of
        HalfOpen \<Rightarrow>
          (let successes = cb_success_count b + 1;
               b1 = b\<lparr>cb_success_count := successes\<rparr>
           in if cb_success_threshold b \<le> successes
              then b1\<lparr>cb_state := circuit_as_u8 Closed, cb_failure_count := 0, cb_success_count := 0\<rparr>
              else b1)
      | _ \<Rightarrow> b\<lparr>cb_failure_count := 0\<rparr>)"

definition cb_on_failure :: "int \<Rightarrow> circuit_breaker \<Rightarrow> circuit_breaker" where
  "cb_on_failure now b =
     (let failures = cb_failure_count b + 1;
          b1 = b\<lparr>cb_failure_count := failures, cb_last_failure_at := Some now\<rparr>
      in if cb_failure_threshold b \<le> failures \<or> cb_get_state b = HalfOpen
         then b1\<lparr>cb_state := circuit_as_u8 Open, cb_success_count := 0\<rparr>
         else b1)"

section \<open>Invariant\<close>

definition cb_inv :: "circuit_breaker \<Rightarrow> bool" where
  "cb_inv b \<longleftrightarrow>
     cb_state b \<in> {0, 1, 2} \<and> 0 < cb_failure_threshold b \<and> cb_success_threshold b = 2 \<and>
     (cb_get_state b = Closed \<longrightarrow> cb_failure_count b < cb_failure_threshold b) \<and>
     (cb_get_state b = Open \<longrightarrow> cb_last_failure_at b \<noteq> None) \<and>
     (cb_get_state b = HalfOpen \<longrightarrow> cb_success_count b < 2) \<and>
     (cb_get_state b \<noteq> HalfOpen \<longrightarrow> cb_success_count b = 0)"

lemma circuit_from_u8_simps [simp]:
  "circuit_from_u8 0 = Closed" "circuit_from_u8 1 = Open" "circuit_from_u8 2 = HalfOpen"
  by (simp_all add: circuit_from_u8_def)

lemmas cb_defs = cb_get_state_def cb_check_def cb_on_success_def cb_on_failure_def Let_def

lemma cb_cases:
  assumes "cb_inv b"
  obtains "cb_state b = 0" "cb_failure_count b < cb_failure_threshold b" "cb_success_count b = 0"
      "0 < cb_failure_threshold b" "cb_success_threshold b = 2"
  | t where "cb_state b = 1" "cb_last_failure_at b = Some t" "cb_success_count b = 0"
      "0 < cb_failure_threshold b" "cb_success_threshold b = 2"
  | "cb_state b = 2" "cb_success_count b = 0 \<or> cb_success_count b = 1"
      "0 < cb_failure_threshold b" "cb_success_threshold b = 2"
proof -
  have "cb_success_count b < 2 \<longrightarrow> cb_success_count b = 0 \<or> cb_success_count b = 1"
    by unat_arith
  with assms that show thesis
    by (auto simp: cb_inv_def cb_get_state_def)
qed

lemma word_two_not_le_one [simp]: "\<not> 2 \<le> (1 :: 64 word)" "(1 :: 64 word) < 2"
  by unat_arith+

lemma cb_new_inv: "0 < ft \<Longrightarrow> cb_inv (cb_new ft secs)"
  by (simp add: cb_inv_def cb_new_def cb_get_state_def)

lemma cb_check_inv: "cb_inv b \<Longrightarrow> cb_inv (snd (cb_check now b))"
  by (erule cb_cases) (auto simp: cb_defs cb_inv_def)

lemma cb_on_success_inv: "cb_inv b \<Longrightarrow> cb_inv (cb_on_success b)"
  by (frule cb_cases) (auto simp: cb_defs cb_inv_def)

lemma cb_on_failure_inv: "cb_inv b \<Longrightarrow> cb_inv (cb_on_failure now b)"
  by (frule cb_cases) (auto simp: cb_defs cb_inv_def not_le)

section \<open>The abstract machine\<close>

text \<open>
  Closed with the number of failures in a row, open since the last failure, or half open with
  the number of successful probes.
\<close>

datatype breaker_spec = Counting nat | Tripped int | Probing nat

fun spec_check :: "int \<Rightarrow> int \<Rightarrow> breaker_spec \<Rightarrow> bool \<times> breaker_spec" where
  "spec_check d now (Counting n) = (True, Counting n)"
| "spec_check d now (Tripped t) =
     (if d \<le> max 0 (now - t) then (True, Probing 0) else (False, Tripped t))"
| "spec_check d now (Probing k) = (True, Probing k)"

fun spec_success :: "breaker_spec \<Rightarrow> breaker_spec" where
  "spec_success (Counting n) = Counting 0"
| "spec_success (Tripped t) = Tripped t"
| "spec_success (Probing k) = (if k = 0 then Probing 1 else Counting 0)"

fun spec_failure :: "nat \<Rightarrow> int \<Rightarrow> breaker_spec \<Rightarrow> breaker_spec" where
  "spec_failure ft now (Counting n) = (if ft \<le> Suc n then Tripped now else Counting (Suc n))"
| "spec_failure ft now (Tripped t) = Tripped now"
| "spec_failure ft now (Probing k) = Tripped now"

definition breaker_abs :: "circuit_breaker \<Rightarrow> breaker_spec" where
  "breaker_abs b =
     (case cb_get_state b of
        Closed \<Rightarrow> Counting (unat (cb_failure_count b))
      | Open \<Rightarrow> Tripped (case cb_last_failure_at b of Some t \<Rightarrow> t | None \<Rightarrow> 0)
      | HalfOpen \<Rightarrow> Probing (unat (cb_success_count b)))"

datatype breaker_event = Check int | Success | Failure int

fun cb_step :: "circuit_breaker \<Rightarrow> breaker_event \<Rightarrow> circuit_breaker" where
  "cb_step b (Check now) = snd (cb_check now b)"
| "cb_step b Success = cb_on_success b"
| "cb_step b (Failure now) = cb_on_failure now b"

fun spec_step :: "nat \<Rightarrow> int \<Rightarrow> breaker_spec \<Rightarrow> breaker_event \<Rightarrow> breaker_spec" where
  "spec_step ft d s (Check now) = snd (spec_check d now s)"
| "spec_step ft d s Success = spec_success s"
| "spec_step ft d s (Failure now) = spec_failure ft now s"

lemma unat_Suc_less: "x < (y :: 64 word) \<Longrightarrow> unat (x + 1) = Suc (unat x)"
  by unat_arith

lemma cb_step_inv: "cb_inv b \<Longrightarrow> cb_inv (cb_step b e)"
  by (cases e) (simp_all add: cb_check_inv cb_on_success_inv cb_on_failure_inv)

lemma cb_step_params [simp]:
  "cb_failure_threshold (cb_step b e) = cb_failure_threshold b"
  "cb_open_duration (cb_step b e) = cb_open_duration b"
  by (cases e; auto simp: cb_defs split: circuit_state.split option.split)+

lemma cb_check_refines:
  "cb_inv b \<Longrightarrow> spec_check (cb_open_duration b) now (breaker_abs b) =
     (is_ok (fst (cb_check now b)), breaker_abs (snd (cb_check now b)))"
  by (erule cb_cases) (auto simp: cb_defs breaker_abs_def)

lemma cb_on_success_refines:
  "cb_inv b \<Longrightarrow> breaker_abs (cb_on_success b) = spec_success (breaker_abs b)"
  by (frule cb_cases) (auto simp: cb_defs breaker_abs_def cb_inv_def)

lemma cb_on_failure_refines:
  assumes "cb_inv b"
  shows "breaker_abs (cb_on_failure now b) =
         spec_failure (unat (cb_failure_threshold b)) now (breaker_abs b)"
  using assms
proof (rule cb_cases)
  assume c: "cb_state b = 0" "cb_failure_count b < cb_failure_threshold b"
  then show ?thesis
    using unat_Suc_less [OF c(2)] by (auto simp: cb_defs breaker_abs_def word_le_nat_alt)
qed (auto simp: cb_defs breaker_abs_def)

lemma cb_step_refines:
  "cb_inv b \<Longrightarrow> breaker_abs (cb_step b e) =
     spec_step (unat (cb_failure_threshold b)) (cb_open_duration b) (breaker_abs b) e"
  by (cases e) (simp_all add: cb_check_refines cb_on_success_refines cb_on_failure_refines)

text \<open>C4. Over any sequence of checks, successes and failures from a fresh breaker, the atomics
  implement the abstract machine: the state they encode is exactly the one that counts
  consecutive failures when closed, remembers the last failure when open and counts successful
  probes when half open; and the breaker lets a request through exactly when that machine does.
\<close>

theorem breaker_refines_spec:
  assumes "0 < ft"
  shows "breaker_abs (foldl cb_step (cb_new ft secs) es) =
           foldl (spec_step (unat ft) (uint secs * nanos_per_sec)) (Counting 0) es \<and>
         is_ok (fst (cb_check now (foldl cb_step (cb_new ft secs) es))) =
           fst (spec_check (uint secs * nanos_per_sec) now
             (foldl (spec_step (unat ft) (uint secs * nanos_per_sec)) (Counting 0) es))"
proof -
  have "cb_inv (foldl cb_step b es) \<and>
      cb_failure_threshold (foldl cb_step b es) = cb_failure_threshold b \<and>
      cb_open_duration (foldl cb_step b es) = cb_open_duration b \<and>
      breaker_abs (foldl cb_step b es) =
      foldl (spec_step (unat (cb_failure_threshold b)) (cb_open_duration b)) (breaker_abs b) es"
    if "cb_inv b" for b
    using that by (induction es arbitrary: b) (simp_all add: cb_step_inv cb_step_refines)
  from this [OF cb_new_inv [OF assms]] show ?thesis
    using cb_check_refines [of "foldl cb_step (cb_new ft secs) es" now]
    by (simp add: cb_new_def breaker_abs_def cb_get_state_def)
qed

theorem breaker_refines_spec_witness:
  "breaker_abs (foldl cb_step (cb_new 3 30) [Failure 1, Failure 2, Failure 5]) = Tripped 5"
proof -
  have "(0 :: 64 word) < 3" by simp
  from breaker_refines_spec [OF this, of 30 "[Failure 1, Failure 2, Failure 5]"]
  show ?thesis by simp
qed

text \<open>Once open, the breaker fails fast: until the open duration has passed since the last
  failure, every check is refused and changes nothing; from then on a check is let through as a
  probe, two successful probes close the breaker with clean counters, and one failed probe
  opens it again.
\<close>

theorem breaker_recovery:
  assumes "cb_inv b" and "cb_get_state b = Open" and "cb_last_failure_at b = Some t"
    and "0 < cb_open_duration b"
  shows "if now - t < cb_open_duration b
         then cb_check now b = (Inl cb_open_message, b)
         else fst (cb_check now b) = Inr () \<and>
              cb_get_state (snd (cb_check now b)) = HalfOpen \<and>
              cb_get_state (cb_on_success (cb_on_success (snd (cb_check now b)))) = Closed \<and>
              cb_failure_count (cb_on_success (cb_on_success (snd (cb_check now b)))) = 0 \<and>
              cb_get_state (cb_on_failure later (snd (cb_check now b))) = Open"
  using assms(1)
proof (rule cb_cases)
  fix t'
  assume "cb_state b = 1" "cb_success_count b = 0" "cb_success_threshold b = 2"
  then show ?thesis using assms(3,4) by (auto simp: cb_defs)
qed (use assms(2) in \<open>simp_all add: cb_get_state_def\<close>)

theorem breaker_recovery_witness:
  "cb_check 20 (foldl cb_step (cb_new 1 30) [Failure 10]) =
     (Inl cb_open_message, foldl cb_step (cb_new 1 30) [Failure 10])"
proof -
  let ?b = "foldl cb_step (cb_new 1 30) [Failure 10]"
  have "cb_inv ?b" by (simp add: cb_on_failure_inv cb_new_inv)
  moreover have "cb_get_state ?b = Open" "cb_last_failure_at ?b = Some 10"
    "cb_open_duration ?b = 30000000000"
    by (simp_all add: cb_defs cb_new_def nanos_per_sec_def)
  ultimately show ?thesis
    using breaker_recovery [of ?b 10 20 0] by simp
qed

section \<open>Contract of a guard\<close>

text \<open>
  What a caller of the breaker relies on: an invariant that the three operations keep, and a
  check that either lets the request through or refuses it and changes nothing. The caller is
  written once over the contract: it checks, makes the call only when let through, and reports
  the outcome.
\<close>

locale call_guard =
  fixes inv :: "'g \<Rightarrow> bool"
    and check :: "int \<Rightarrow> 'g \<Rightarrow> ('e + unit) \<times> 'g"
    and on_success :: "'g \<Rightarrow> 'g"
    and on_failure :: "int \<Rightarrow> 'g \<Rightarrow> 'g"
  assumes check_inv: "inv g \<Longrightarrow> inv (snd (check now g))"
    and success_inv: "inv g \<Longrightarrow> inv (on_success g)"
    and failure_inv: "inv g \<Longrightarrow> inv (on_failure now g)"
    and refused_same: "fst (check now g) = Inl e \<Longrightarrow> snd (check now g) = g"
begin

definition guarded :: "int \<Rightarrow> int \<Rightarrow> bool \<Rightarrow> 'g \<Rightarrow> bool \<times> bool \<times> 'g" where
  "guarded now later outcome g =
     (case check now g of
        (Inl _, g1) \<Rightarrow> (False, False, g1)
      | (Inr _, g1) \<Rightarrow> (True, outcome, if outcome then on_success g1 else on_failure later g1))"

lemma guarded_inv: "inv g \<Longrightarrow> inv (snd (snd (guarded now later outcome g)))"
  using check_inv [of g now] success_inv [of "snd (check now g)"]
    failure_inv [of "snd (check now g)" later]
  by (auto simp: guarded_def split: prod.splits sum.splits)

lemma guarded_refused: "fst (guarded now later outcome g) = False \<Longrightarrow> snd (snd (guarded now later outcome g)) = g"
  using refused_same [of now g] by (auto simp: guarded_def split: prod.splits sum.splits)

end

interpretation breaker: call_guard cb_inv cb_check cb_on_success cb_on_failure
proof (unfold_locales, goal_cases)
  case (4 now g e)
  then show ?case
    by (auto simp: cb_check_def split: circuit_state.splits option.splits if_splits)
qed (simp_all add: cb_check_inv cb_on_success_inv cb_on_failure_inv)

end
