(* ===== verification/Redis_Store.thy ===== *)
theory Redis_Store
  imports Prelude "HOL-Library.AList"
begin

text \<open>
  \<open>shared/services/redis/mod.rs\<close>: the wrappers every module uses to talk to Redis. The
  server is its keyspace: a map from keys to a value with an optional expiry instant, and the
  commands have their documented effect on it (\<open>cmd_\<close> definitions). A wrapper adds what the
  Rust code adds: the JSON text of values, the expiry option, defaults, and the error of a
  command that fails. Which commands fail is part of the environment.
\<close>

section \<open>The server\<close>

datatype rvalue = RStr string | RList "string list" | RSet "string list" | RHash "(string \<times> string) list"

type_synonym keyspace = "string \<Rightarrow> (rvalue \<times> int option) option"

text \<open>Time is in milliseconds; \<open>r_down cmd key\<close> holds where the command fails.\<close>

record redis_env =
  r_now :: int
  r_down :: "string \<Rightarrow> string \<Rightarrow> bool"

type_synonym fred_error = string

definition unreachable_error :: fred_error where "unreachable_error = ''IO Error''"
definition wrong_type :: fred_error where
  "wrong_type = ''WRONGTYPE Operation against a key holding the wrong kind of value''"
definition not_integer :: fred_error where
  "not_integer = ''ERR value is not an integer or out of range''"

definition entry :: "int \<Rightarrow> keyspace \<Rightarrow> string \<Rightarrow> (rvalue \<times> int option) option" where
  "entry now db k =
     (case db k of
        None \<Rightarrow> None
      | Some (v, None) \<Rightarrow> Some (v, None)
      | Some (v, Some t) \<Rightarrow> if now < t then Some (v, Some t) else None)"

definition cmd_get :: "int \<Rightarrow> string \<Rightarrow> keyspace \<Rightarrow> fred_error + string option" where
  "cmd_get now k db =
     (case entry now db k of
        None \<Rightarrow> Inr None
      | Some (RStr s, _) \<Rightarrow> Inr (Some s)
      | Some _ \<Rightarrow> Inl wrong_type)"

definition cmd_set :: "int \<Rightarrow> string \<Rightarrow> string \<Rightarrow> int option \<Rightarrow> keyspace \<Rightarrow> keyspace" where
  "cmd_set now k v ex db = db(k := Some (RStr v, map_option (\<lambda>s. now + s * 1000) ex))"

definition cmd_del :: "int \<Rightarrow> string \<Rightarrow> keyspace \<Rightarrow> int \<times> keyspace" where
  "cmd_del now k db = (if entry now db k = None then 0 else 1, db(k := None))"

definition cmd_exists :: "int \<Rightarrow> string \<Rightarrow> keyspace \<Rightarrow> bool" where
  "cmd_exists now k db = (entry now db k \<noteq> None)"

definition cmd_incrby :: "int \<Rightarrow> string \<Rightarrow> int \<Rightarrow> keyspace \<Rightarrow> (fred_error + int) \<times> keyspace" where
  "cmd_incrby now k d db =
     (case entry now db k of
        None \<Rightarrow> (Inr d, db(k := Some (RStr (show_int d), None)))
      | Some (RStr s, ex) \<Rightarrow>
          (case parse_signed i64_min i64_max s of
             None \<Rightarrow> (Inl not_integer, db)
           | Some n \<Rightarrow>
               if i64_min \<le> n + d \<and> n + d \<le> i64_max
               then (Inr (n + d), db(k := Some (RStr (show_int (n + d)), ex)))
               else (Inl not_integer, db))
      | Some _ \<Rightarrow> (Inl wrong_type, db))"

definition cmd_expire :: "int \<Rightarrow> string \<Rightarrow> int \<Rightarrow> keyspace \<Rightarrow> keyspace" where
  "cmd_expire now k ttl db =
     (case entry now db k of
        None \<Rightarrow> db
      | Some (v, _) \<Rightarrow> if ttl \<le> 0 then db(k := None) else db(k := Some (v, Some (now + ttl * 1000))))"

definition list_at :: "int \<Rightarrow> string \<Rightarrow> keyspace \<Rightarrow> (fred_error + string list \<times> int option)" where
  "list_at now k db =
     (case entry now db k of
        None \<Rightarrow> Inr ([], None)
      | Some (RList xs, ex) \<Rightarrow> Inr (xs, ex)
      | Some _ \<Rightarrow> Inl wrong_type)"

definition put_list :: "string \<Rightarrow> string list \<Rightarrow> int option \<Rightarrow> keyspace \<Rightarrow> keyspace" where
  "put_list k xs ex db = db(k := (if xs = [] then None else Some (RList xs, ex)))"

text \<open>The part of a list between two inclusive indices, negative ones counting from the end.\<close>

definition list_range :: "int \<Rightarrow> int \<Rightarrow> 'a list \<Rightarrow> 'a list" where
  "list_range start stop xs =
     (let n = int (length xs);
          a = (if start < 0 then max 0 (n + start) else start);
          b = (if stop < 0 then n + stop else stop)
      in if b < a then [] else take (nat (b - a + 1)) (drop (nat a) xs))"

definition set_at :: "int \<Rightarrow> string \<Rightarrow> keyspace \<Rightarrow> (fred_error + string list \<times> int option)" where
  "set_at now k db =
     (case entry now db k of
        None \<Rightarrow> Inr ([], None)
      | Some (RSet xs, ex) \<Rightarrow> Inr (xs, ex)
      | Some _ \<Rightarrow> Inl wrong_type)"

definition put_set :: "string \<Rightarrow> string list \<Rightarrow> int option \<Rightarrow> keyspace \<Rightarrow> keyspace" where
  "put_set k xs ex db = db(k := (if xs = [] then None else Some (RSet xs, ex)))"

definition cmd_hset :: "int \<Rightarrow> string \<Rightarrow> (string \<times> string) list \<Rightarrow> keyspace \<Rightarrow> (fred_error + unit) \<times> keyspace" where
  "cmd_hset now k fvs db =
     (case entry now db k of
        None \<Rightarrow> (Inr (), db(k := Some (RHash (foldr (\<lambda>(f, v). AList.update f v) fvs []), None)))
      | Some (RHash h, ex) \<Rightarrow> (Inr (), db(k := Some (RHash (foldr (\<lambda>(f, v). AList.update f v) fvs h), ex)))
      | Some _ \<Rightarrow> (Inl wrong_type, db))"

definition cmd_hgetall :: "int \<Rightarrow> string \<Rightarrow> keyspace \<Rightarrow> fred_error + (string \<times> string) list" where
  "cmd_hgetall now k db =
     (case entry now db k of
        None \<Rightarrow> Inr []
      | Some (RHash h, _) \<Rightarrow> Inr h
      | Some _ \<Rightarrow> Inl wrong_type)"

section \<open>The wrappers\<close>

text \<open>\<open>?\<close> on a command: its error when it fails, else what it does.\<close>

definition guarded_cmd ::
    "redis_env \<Rightarrow> string \<Rightarrow> string \<Rightarrow> keyspace \<Rightarrow> (fred_error + 'a) \<times> keyspace \<Rightarrow> (fred_error + 'a) \<times> keyspace" where
  "guarded_cmd e cmd k db r = (if r_down e cmd k then (Inl unreachable_error, db) else r)"

definition redis_get ::
    "redis_env \<Rightarrow> (string \<Rightarrow> 'a option) \<Rightarrow> string \<Rightarrow> keyspace \<Rightarrow> fred_error + 'a option" where
  "redis_get e from_json k db =
     (if r_down e ''GET'' k then Inl unreachable_error
      else bind_res (cmd_get (r_now e) k db) (\<lambda>d.
        case d of
          Some json \<Rightarrow> (case from_json json of Some v \<Rightarrow> Inr (Some v) | None \<Rightarrow> Inl ''Parse Error'')
        | None \<Rightarrow> Inr None))"

definition redis_set ::
    "redis_env \<Rightarrow> ('a \<Rightarrow> string) \<Rightarrow> string \<Rightarrow> 'a \<Rightarrow> int option \<Rightarrow> keyspace \<Rightarrow> (fred_error + unit) \<times> keyspace" where
  "redis_set e to_json k v ex db =
     guarded_cmd e ''SET'' k db (Inr (), cmd_set (r_now e) k (to_json v) ex db)"

definition redis_del :: "redis_env \<Rightarrow> string \<Rightarrow> keyspace \<Rightarrow> (fred_error + int) \<times> keyspace" where
  "redis_del e k db =
     guarded_cmd e ''DEL'' k db (case cmd_del (r_now e) k db of (n, db') \<Rightarrow> (Inr n, db'))"

definition redis_exists :: "redis_env \<Rightarrow> string \<Rightarrow> keyspace \<Rightarrow> fred_error + bool" where
  "redis_exists e k db =
     (if r_down e ''EXISTS'' k then Inl unreachable_error else Inr (cmd_exists (r_now e) k db))"

definition incr_and_expire_if_first ::
    "redis_env \<Rightarrow> string \<Rightarrow> int \<Rightarrow> keyspace \<Rightarrow> (fred_error + int) \<times> keyspace" where
  "incr_and_expire_if_first e k ttl db =
     guarded_cmd e ''EVAL'' k db
       (case cmd_incrby (r_now e) k 1 db of
          (Inl err, db1) \<Rightarrow> (Inl err, db1)
        | (Inr count, db1) \<Rightarrow>
            (Inr count, if count = 1 then cmd_expire (r_now e) k ttl db1 else db1))"

definition get_i64 :: "redis_env \<Rightarrow> string \<Rightarrow> keyspace \<Rightarrow> fred_error + int" where
  "get_i64 e k db =
     (if r_down e ''GET'' k then Inl unreachable_error
      else bind_res (cmd_get (r_now e) k db) (\<lambda>d.
        case d of
          None \<Rightarrow> Inr 0
        | Some s \<Rightarrow> (case parse_signed i64_min i64_max s of Some n \<Rightarrow> Inr n | None \<Rightarrow> Inl ''Parse Error'')))"

definition redis_incr :: "redis_env \<Rightarrow> string \<Rightarrow> keyspace \<Rightarrow> (fred_error + int) \<times> keyspace" where
  "redis_incr e k db = guarded_cmd e ''INCR'' k db (cmd_incrby (r_now e) k 1 db)"

definition redis_decr :: "redis_env \<Rightarrow> string \<Rightarrow> keyspace \<Rightarrow> (fred_error + int) \<times> keyspace" where
  "redis_decr e k db = guarded_cmd e ''DECR'' k db (cmd_incrby (r_now e) k (- 1) db)"

definition redis_set_ex ::
    "redis_env \<Rightarrow> string \<Rightarrow> string \<Rightarrow> 64 word \<Rightarrow> keyspace \<Rightarrow> (fred_error + unit) \<times> keyspace" where
  "redis_set_ex e k v ttl_secs db =
     guarded_cmd e ''SET'' k db (Inr (), cmd_set (r_now e) k v (Some (sint ttl_secs)) db)"

definition redis_expire ::
    "redis_env \<Rightarrow> string \<Rightarrow> int \<Rightarrow> keyspace \<Rightarrow> (fred_error + unit) \<times> keyspace" where
  "redis_expire e k ttl db = guarded_cmd e ''EXPIRE'' k db (Inr (), cmd_expire (r_now e) k ttl db)"

definition redis_lpush ::
    "redis_env \<Rightarrow> string \<Rightarrow> string \<Rightarrow> keyspace \<Rightarrow> (fred_error + unit) \<times> keyspace" where
  "redis_lpush e k v db =
     guarded_cmd e ''LPUSH'' k db
       (case list_at (r_now e) k db of
          Inl err \<Rightarrow> (Inl err, db)
        | Inr (xs, ex) \<Rightarrow> (Inr (), put_list k (v # xs) ex db))"

definition redis_ltrim ::
    "redis_env \<Rightarrow> string \<Rightarrow> int \<Rightarrow> int \<Rightarrow> keyspace \<Rightarrow> (fred_error + unit) \<times> keyspace" where
  "redis_ltrim e k start stop db =
     guarded_cmd e ''LTRIM'' k db
       (case list_at (r_now e) k db of
          Inl err \<Rightarrow> (Inl err, db)
        | Inr (xs, ex) \<Rightarrow> (Inr (), put_list k (list_range start stop xs) ex db))"

definition redis_sadd ::
    "redis_env \<Rightarrow> string \<Rightarrow> string list \<Rightarrow> keyspace \<Rightarrow> (fred_error + int) \<times> keyspace" where
  "redis_sadd e k ms db =
     guarded_cmd e ''SADD'' k db
       (case set_at (r_now e) k db of
          Inl err \<Rightarrow> (Inl err, db)
        | Inr (xs, ex) \<Rightarrow>
            (let new = filter (\<lambda>m. m \<notin> set xs) (remdups ms)
             in (Inr (int (length new)), put_set k (xs @ new) ex db)))"

definition redis_srem ::
    "redis_env \<Rightarrow> string \<Rightarrow> string list \<Rightarrow> keyspace \<Rightarrow> (fred_error + int) \<times> keyspace" where
  "redis_srem e k ms db =
     guarded_cmd e ''SREM'' k db
       (case set_at (r_now e) k db of
          Inl err \<Rightarrow> (Inl err, db)
        | Inr (xs, ex) \<Rightarrow>
            (let kept = filter (\<lambda>m. m \<notin> set ms) xs
             in (Inr (int (length xs) - int (length kept)), put_set k kept ex db)))"

definition redis_scard :: "redis_env \<Rightarrow> string \<Rightarrow> keyspace \<Rightarrow> fred_error + int" where
  "redis_scard e k db =
     (if r_down e ''SCARD'' k then Inl unreachable_error
      else bind_res (set_at (r_now e) k db) (\<lambda>(xs, _). Inr (int (length xs))))"

definition redis_sismember :: "redis_env \<Rightarrow> string \<Rightarrow> string \<Rightarrow> keyspace \<Rightarrow> fred_error + bool" where
  "redis_sismember e k m db =
     (if r_down e ''SISMEMBER'' k then Inl unreachable_error
      else bind_res (set_at (r_now e) k db) (\<lambda>(xs, _). Inr (m \<in> set xs)))"

definition redis_smembers :: "redis_env \<Rightarrow> string \<Rightarrow> keyspace \<Rightarrow> fred_error + string list" where
  "redis_smembers e k db =
     (if r_down e ''SMEMBERS'' k then Inl unreachable_error
      else bind_res (set_at (r_now e) k db) (\<lambda>(xs, _). Inr xs))"

definition redis_hset ::
    "redis_env \<Rightarrow> string \<Rightarrow> (string \<times> string) list \<Rightarrow> keyspace \<Rightarrow> (fred_error + unit) \<times> keyspace" where
  "redis_hset e k fvs db = guarded_cmd e ''HSET'' k db (cmd_hset (r_now e) k fvs db)"

definition redis_hgetall :: "redis_env \<Rightarrow> string \<Rightarrow> keyspace \<Rightarrow> fred_error + (string \<times> string) list" where
  "redis_hgetall e k db =
     (if r_down e ''HGETALL'' k then Inl unreachable_error else cmd_hgetall (r_now e) k db)"

section \<open>Deleting by pattern\<close>

text \<open>Glob matching of the patterns the code uses: literals, \<open>?\<close> and \<open>*\<close>.\<close>

fun glob :: "string \<Rightarrow> string \<Rightarrow> bool" where
  "glob [] s \<longleftrightarrow> s = []"
| "glob (p # ps) s \<longleftrightarrow>
     (if p = CHR ''*'' then glob ps s \<or> (case s of [] \<Rightarrow> False | _ # s' \<Rightarrow> glob (p # ps) s')
      else case s of [] \<Rightarrow> False | c # s' \<Rightarrow> (p = CHR ''?'' \<or> p = c) \<and> glob ps s')"

definition plain_text :: "string \<Rightarrow> bool" where
  "plain_text p \<longleftrightarrow> CHR ''*'' \<notin> set p \<and> CHR ''?'' \<notin> set p"

lemma glob_star [simp]: "glob ''*'' s"
  by (induction s) auto

lemma glob_prefix: "plain_text p \<Longrightarrow> glob (p @ ''*'') s \<longleftrightarrow> prefix p s"
proof (induction p arbitrary: s)
  case (Cons a p)
  then show ?case by (cases s) (auto simp: plain_text_def)
next
  case Nil
  then show ?case using glob_star by simp
qed

text \<open>
  The loop over \<open>SCAN\<close> pages. The replies are the server's: each is an error or the next
  cursor with a page of keys; the loop unlinks the page and stops at cursor \<open>"0"\<close>. It has not
  returned (\<open>None\<close>) while the server has sent no such cursor. Both wrappers that scan
  (\<open>invalidate_all_user_keys\<close> and \<open>delete_by_pattern\<close>) are this loop.
\<close>

type_synonym scan_reply = "fred_error + (string \<times> string list)"

definition unlink :: "string list \<Rightarrow> keyspace \<Rightarrow> keyspace" where
  "unlink ks db = (\<lambda>k. if k \<in> set ks then None else db k)"

fun scan_unlink ::
    "redis_env \<Rightarrow> scan_reply list \<Rightarrow> nat \<Rightarrow> keyspace \<Rightarrow> ((fred_error + nat) \<times> keyspace) option" where
  "scan_unlink e [] deleted db = None"
| "scan_unlink e (Inl err # rs) deleted db = Some (Inl err, db)"
| "scan_unlink e (Inr (cursor, keys) # rs) deleted db =
     (if keys \<noteq> [] \<and> r_down e ''UNLINK'' (hd keys) then Some (Inl unreachable_error, db)
      else
        (let db1 = (if keys = [] then db else unlink keys db);
             deleted1 = (if keys = [] then deleted else deleted + length keys)
         in if cursor = ''0'' then Some (Inr deleted1, db1) else scan_unlink e rs deleted1 db1))"

text \<open>
  \<open>SCAN\<close> pages for a pattern: what the pattern's glob selects from each page the server walks.
\<close>

definition delete_by_pattern ::
    "redis_env \<Rightarrow> (string \<Rightarrow> scan_reply list) \<Rightarrow> string \<Rightarrow> keyspace \<Rightarrow> ((fred_error + nat) \<times> keyspace) option" where
  "delete_by_pattern e scan pattern db = scan_unlink e (scan pattern) 0 db"

definition invalidate_all_user_keys ::
    "redis_env \<Rightarrow> (string \<Rightarrow> scan_reply list) \<Rightarrow> (uuid \<Rightarrow> string) \<Rightarrow> uuid \<Rightarrow> keyspace \<Rightarrow>
     ((fred_error + nat) \<times> keyspace) option" where
  "invalidate_all_user_keys e scan show_uuid user_id db =
     scan_unlink e (scan (''u:'' @ show_uuid user_id @ '':*'')) 0 db"

text \<open>
  The documented guarantee of \<open>SCAN\<close> with a pattern: the iteration ends with cursor
  \<open>"0"\<close>, returns only matching keys, and returns every matching key that is there throughout.
\<close>

definition scan_ok :: "string \<Rightarrow> keyspace \<Rightarrow> scan_reply list \<Rightarrow> bool" where
  "scan_ok pattern db rs \<longleftrightarrow>
     (\<exists>pages lastp. rs = map Inr pages @ [Inr (''0'', lastp)] \<and>
        (\<forall>(c, ks) \<in> set pages. c \<noteq> ''0'') \<and>
        (\<forall>k \<in> set (concat (map snd pages) @ lastp). glob pattern k) \<and>
        (\<forall>k. db k \<noteq> None \<longrightarrow> glob pattern k \<longrightarrow> k \<in> set (concat (map snd pages) @ lastp)))"

lemma scan_unlink_pages:
  assumes "\<And>k. \<not> r_down e ''UNLINK'' k" and "\<forall>(c, ks) \<in> set pages. c \<noteq> ''0''"
  shows "scan_unlink e (map Inr pages @ [Inr (''0'', lastp)]) n db =
    Some (Inr (n + length (concat (map snd pages) @ lastp)),
          unlink (concat (map snd pages) @ lastp) db)"
  using assms(2)
proof (induction pages arbitrary: n db)
  case Nil
  then show ?case using assms(1) by (auto simp: unlink_def)
next
  case (Cons a pages)
  have u: "unlink (xs @ ys) db = unlink ys (unlink xs db)" for xs ys db
    by (auto simp: unlink_def fun_eq_iff)
  show ?case
    using Cons assms(1) by (cases a) (auto simp: Let_def u unlink_def [of "[]"])
qed

text \<open>
  Deleting by pattern removes exactly the matching keys: when the server iterates as
  documented and unlinking works, the loop returns, no key that matches the pattern is left, and
  every key that does not match is untouched.
\<close>

lemma delete_by_pattern_exact:
  assumes "scan_ok pattern db (scan pattern)" and "\<forall>k. \<not> r_down e ''UNLINK'' k"
  shows "\<exists>n db'. delete_by_pattern e scan pattern db = Some (Inr n, db') \<and>
           (\<forall>k. db' k = (if glob pattern k then None else db k))"
proof -
  from assms(1) obtain pages lastp where p:
    "scan pattern = map Inr pages @ [Inr (''0'', lastp)]" "\<forall>(c, ks) \<in> set pages. c \<noteq> ''0''"
    and sound: "\<forall>k \<in> set (concat (map snd pages) @ lastp). glob pattern k"
    and complete: "\<forall>k. db k \<noteq> None \<longrightarrow> glob pattern k \<longrightarrow> k \<in> set (concat (map snd pages) @ lastp)"
    unfolding scan_ok_def by blast
  have "unlink (concat (map snd pages) @ lastp) db k = (if glob pattern k then None else db k)" for k
    using sound complete by (cases "db k = None") (auto simp: unlink_def)
  then show ?thesis
    using scan_unlink_pages [OF _ p(2), of e lastp 0 db] assms(2)
    by (auto simp: delete_by_pattern_def p(1))
qed

section \<open>The contract of a cache\<close>

text \<open>
  What the modules that cache a value under a key rely on: within its lifetime a stored value is
  read back, afterwards it is not, and storing under one key does not touch another. Times are
  milliseconds, lifetimes seconds.
\<close>

locale ttl_cache =
  fixes read :: "int \<Rightarrow> string \<Rightarrow> 'db \<Rightarrow> 'v option"
    and store :: "int \<Rightarrow> string \<Rightarrow> 'v \<Rightarrow> int \<Rightarrow> 'db \<Rightarrow> 'db"
    and remove :: "int \<Rightarrow> string \<Rightarrow> 'db \<Rightarrow> 'db"
  assumes read_store: "read t' k (store t k v ttl db) = (if t' < t + ttl * 1000 then Some v else None)"
    and read_store_other: "k \<noteq> k' \<Longrightarrow> read t' k' (store t k v ttl db) = read t' k' db"
    and read_remove: "read t' k (remove t k db) = None"
    and read_remove_other: "k \<noteq> k' \<Longrightarrow> read t' k' (remove t k db) = read t' k' db"
begin

text \<open>Read through the cache: a hit is returned, a miss is fetched and stored.\<close>

definition read_through :: "int \<Rightarrow> string \<Rightarrow> int \<Rightarrow> 'v \<Rightarrow> 'db \<Rightarrow> 'v \<times> 'db" where
  "read_through t k ttl fresh db =
     (case read t k db of Some v \<Rightarrow> (v, db) | None \<Rightarrow> (fresh, store t k fresh ttl db))"

lemma read_through_again:
  assumes "read t k db = None" and "t' < t + ttl * 1000"
  shows "read_through t' k ttl' fresh' (snd (read_through t k ttl fresh db)) =
         (fresh, snd (read_through t k ttl fresh db))"
  using assms by (simp add: read_through_def read_store)

lemma read_through_expired:
  assumes "read t k db = None" and "t + ttl * 1000 \<le> t'"
  shows "fst (read_through t' k ttl' fresh' (snd (read_through t k ttl fresh db))) = fresh'"
  using assms by (simp add: read_through_def read_store)

lemma remove_forces_fetch: "fst (read_through t' k ttl fresh (remove t k db)) = fresh"
  by (simp add: read_through_def read_remove)

end

text \<open>The wrappers on a server that answers, with any JSON text that reads back.\<close>

definition up :: "int \<Rightarrow> redis_env" where
  "up t = \<lparr>r_now = t, r_down = (\<lambda>_ _. False)\<rparr>"

lemma up_simps [simp]: "r_now (up t) = t" "r_down (up t) c k = False"
  by (simp_all add: up_def)

definition read_str :: "int \<Rightarrow> string \<Rightarrow> keyspace \<Rightarrow> string option" where
  "read_str t k db = (case redis_get (up t) Some k db of Inr v \<Rightarrow> v | Inl _ \<Rightarrow> None)"

lemma entry_set: "entry t' (cmd_set t k v ex db) k' =
  (if k' = k then (case ex of None \<Rightarrow> Some (RStr v, None)
                   | Some s \<Rightarrow> if t' < t + s * 1000 then Some (RStr v, Some (t + s * 1000)) else None)
   else entry t' db k')"
  by (auto simp: entry_def cmd_set_def split: option.splits)

lemma entry_update_other: "k \<noteq> k' \<Longrightarrow> entry t (db(k := v)) k' = entry t db k'"
  by (simp add: entry_def)

lemma entry_del [simp]: "entry t (db(k := None)) k = None"
  by (simp add: entry_def)

interpretation strings: ttl_cache read_str
    "\<lambda>t k v ttl db. snd (redis_set (up t) id k v (Some ttl) db)"
    "\<lambda>t k db. snd (redis_del (up t) k db)"
  by unfold_locales
    (auto simp: read_str_def redis_get_def redis_set_def redis_del_def guarded_cmd_def cmd_get_def
      cmd_del_def entry_set entry_update_other)

declare glob.simps [simp del]

end
