(* ===== verification/Redis_Keys.thy ===== *)
theory Redis_Keys
  imports Redis_Store Pagination
begin

text \<open>
  \<open>shared/services/redis/keys.rs\<close>: the text of every key the service stores under, and
  the facts that keep one kind of entry from another's. The text of a uuid is the codec's.
\<close>

type_synonym redis_key = string

section \<open>The keys\<close>

definition key_live_count :: "codec \<Rightarrow> uuid \<Rightarrow> redis_key" where
  "key_live_count c b = ''b:'' @ uuid_show c b @ '':live''"

definition key_host_grace :: "codec \<Rightarrow> uuid \<Rightarrow> redis_key" where
  "key_host_grace c b = ''b:'' @ uuid_show c b @ '':grace''"

definition key_grace_started :: "codec \<Rightarrow> uuid \<Rightarrow> redis_key" where
  "key_grace_started c b = ''b:'' @ uuid_show c b @ '':grace_start''"

definition key_disconnect_count :: "codec \<Rightarrow> uuid \<Rightarrow> redis_key" where
  "key_disconnect_count c b = ''b:'' @ uuid_show c b @ '':disc_count''"

definition key_started_at :: "codec \<Rightarrow> uuid \<Rightarrow> redis_key" where
  "key_started_at c b = ''b:'' @ uuid_show c b @ '':start''"

definition key_recording_ready :: "codec \<Rightarrow> uuid \<Rightarrow> redis_key" where
  "key_recording_ready c b = ''recording:'' @ uuid_show c b"

definition key_broadcast :: "codec \<Rightarrow> uuid \<Rightarrow> redis_key" where
  "key_broadcast c b = ''b:'' @ uuid_show c b"

definition key_presence :: "codec \<Rightarrow> uuid \<Rightarrow> redis_key" where
  "key_presence c u = ''u:'' @ uuid_show c u @ '':online''"

definition key_ws_buffer :: "codec \<Rightarrow> uuid \<Rightarrow> redis_key" where
  "key_ws_buffer c u = ''u:'' @ uuid_show c u @ '':ws_buf''"

definition key_quota :: "codec \<Rightarrow> uuid \<Rightarrow> string \<Rightarrow> redis_key" where
  "key_quota c u date = ''u:'' @ uuid_show c u @ '':quota:'' @ date"

definition key_profile :: "codec \<Rightarrow> uuid \<Rightarrow> redis_key" where
  "key_profile c u = ''u:'' @ uuid_show c u @ '':profile''"

definition key_user_providers :: "codec \<Rightarrow> uuid \<Rightarrow> redis_key" where
  "key_user_providers c u = ''u:'' @ uuid_show c u @ '':providers''"

definition key_session :: "codec \<Rightarrow> uuid \<Rightarrow> redis_key" where
  "key_session c u = ''u:'' @ uuid_show c u @ '':session''"

definition key_reconnect_rate :: "codec \<Rightarrow> uuid \<Rightarrow> redis_key" where
  "key_reconnect_rate c u = ''rate:reconnect:'' @ uuid_show c u"

definition key_rate_limit :: "string \<Rightarrow> string \<Rightarrow> redis_key" where
  "key_rate_limit pre ident = ''rate:'' @ pre @ '':'' @ ident"

definition key_oauth2_state :: "string \<Rightarrow> redis_key" where
  "key_oauth2_state st = ''oauth2:'' @ st"

definition key_otp :: "string \<Rightarrow> string \<Rightarrow> redis_key" where
  "key_otp email otp_type = ''otp:'' @ otp_type @ '':'' @ email"

definition key_search_results :: "string \<Rightarrow> int \<Rightarrow> int \<Rightarrow> redis_key" where
  "key_search_results query page limit = query @ '':'' @ show_int page @ '':'' @ show_int limit"

definition key_block_list :: "codec \<Rightarrow> string \<Rightarrow> uuid \<Rightarrow> redis_key" where
  "key_block_list c pre i = ''block-list:'' @ pre @ '':'' @ uuid_show c i"

definition key_lock :: "string \<Rightarrow> redis_key" where
  "key_lock cache_key = ''lock:'' @ cache_key"

definition key_idempotency :: "codec \<Rightarrow> uuid \<Rightarrow> redis_key" where
  "key_idempotency c k = ''idem:'' @ uuid_show c k"

definition key_cursor_cache :: "codec \<Rightarrow> string \<Rightarrow> uuid \<Rightarrow> string \<Rightarrow> int \<Rightarrow> string" where
  "key_cursor_cache c md owner cursor limit =
     ''cursor:'' @ md @ '':'' @ uuid_show c owner @ '':'' @ cursor @ '':'' @ show_int limit"

definition key_unread_count :: "codec \<Rightarrow> uuid \<Rightarrow> redis_key" where
  "key_unread_count c u = ''u:'' @ uuid_show c u @ '':unread''"

lemmas key_defs =
  key_live_count_def key_host_grace_def key_grace_started_def key_disconnect_count_def
  key_started_at_def key_recording_ready_def key_broadcast_def key_presence_def
  key_ws_buffer_def key_quota_def key_profile_def key_user_providers_def key_session_def
  key_reconnect_rate_def key_rate_limit_def key_oauth2_state_def key_otp_def
  key_block_list_def key_lock_def key_idempotency_def key_cursor_cache_def
  key_unread_count_def

section \<open>Namespaces\<close>

text \<open>A uuid's text has no colon, so it can be read off a key that starts with it.\<close>

lemma append_colon_inject:
  assumes "CHR '':'' \<notin> set xs" and "CHR '':'' \<notin> set ys"
  shows "xs @ CHR '':'' # s = ys @ CHR '':'' # t \<longleftrightarrow> xs = ys \<and> s = t"
proof
  assume e: "xs @ CHR '':'' # s = ys @ CHR '':'' # t"
  have "takeWhile (\<lambda>x. x \<noteq> CHR '':'') (zs @ CHR '':'' # w) = zs" if "CHR '':'' \<notin> set zs" for zs w :: string
    using that by (induction zs) auto
  with e assms have "xs = ys" by metis
  with e show "xs = ys \<and> s = t" by simp
qed simp

lemma uuid_colon_inject:
  assumes "codec_laws c"
  shows "uuid_show c u @ CHR '':'' # s = uuid_show c v @ CHR '':'' # t \<longleftrightarrow> u = v \<and> s = t"
  using append_colon_inject codec_lawsD(4) [OF assms] uuid_show_inject [OF assms]
  by (simp add: no_sep_def)

lemma uuid_no_colon: "codec_laws c \<Longrightarrow> uuid_show c u \<noteq> xs @ CHR '':'' # ys"
  using codec_lawsD(4) [of c u] by (auto simp: no_sep_def)

lemma uuid_no_colon': "codec_laws c \<Longrightarrow> xs @ CHR '':'' # ys \<noteq> uuid_show c u"
  using uuid_no_colon by metis

lemma user_prefix:
  assumes "codec_laws c"
  shows "prefix (''u:'' @ uuid_show c u @ '':'') (''u:'' @ uuid_show c v @ CHR '':'' # t) \<longleftrightarrow> u = v"
  using uuid_colon_inject [OF assms] by (auto simp: prefix_def)

text \<open>The two families of keys whose members are told apart by id and suffix.\<close>

definition user_keys :: "codec \<Rightarrow> uuid \<Rightarrow> string \<Rightarrow> redis_key set" where
  "user_keys c u date = {key_presence c u, key_ws_buffer c u, key_quota c u date, key_profile c u,
     key_user_providers c u, key_session c u, key_unread_count c u}"

definition broadcast_keys :: "codec \<Rightarrow> uuid \<Rightarrow> redis_key set" where
  "broadcast_keys c b = {key_live_count c b, key_host_grace c b, key_grace_started c b,
     key_disconnect_count c b, key_started_at c b, key_broadcast c b}"

lemma user_glob:
  assumes "codec_laws c"
  shows "glob (''u:'' @ uuid_show c u @ '':*'') k \<longleftrightarrow> prefix (''u:'' @ uuid_show c u @ '':'') k"
proof -
  have "plain_text (''u:'' @ uuid_show c u @ '':'')"
    using codec_lawsD(4) [OF assms, of u] by (simp add: plain_text_def no_sep_def)
  from glob_prefix [OF this, of k] show ?thesis by simp
qed

lemma user_keys_prefix:
  assumes "codec_laws c" and "k \<in> user_keys c v date"
  shows "prefix (''u:'' @ uuid_show c u @ '':'') k \<longleftrightarrow> u = v"
  using assms(2) user_prefix [OF assms(1)]
  by (auto simp: user_keys_def key_defs)

lemma broadcast_keys_prefix: "k \<in> broadcast_keys c b \<Longrightarrow> \<not> prefix (''u:'' @ s) k"
  by (auto simp: broadcast_keys_def key_defs)

text \<open>Invalidating a user's keys is exact: when the server scans as documented and unlinking
  works, every key of that user is gone afterwards, whatever it held, and the keys of every other
  user and of every broadcast, and the rate-limit, idempotency, lock, otp and block-list keys, are
  as they were.
\<close>

theorem user_invalidation_isolated:
  assumes laws: "codec_laws c" and uv: "u \<noteq> v"
    and scan: "scan_ok (''u:'' @ uuid_show c u @ '':*'') db (scan (''u:'' @ uuid_show c u @ '':*''))"
    and unlinks: "\<forall>k. \<not> r_down e ''UNLINK'' k"
  shows "\<exists>n db'. invalidate_all_user_keys e scan (uuid_show c) u db = Some (Inr n, db') \<and>
    (\<forall>k. k \<in> user_keys c u date \<longrightarrow> db' k = None) \<and>
    (\<forall>k. k \<in> user_keys c v date \<union> broadcast_keys c b \<union>
        {key_reconnect_rate c u, key_rate_limit pre ident, key_idempotency c i, key_lock lk,
         key_otp email ty, key_block_list c pre i} \<longrightarrow> db' k = db k)"
proof -
  let ?p = "''u:'' @ uuid_show c u @ '':''"
  from delete_by_pattern_exact [of "?p @ ''*''" db scan e] scan unlinks obtain n db' where
    r: "invalidate_all_user_keys e scan (uuid_show c) u db = Some (Inr n, db')"
    and d: "\<And>k. db' k = (if prefix ?p k then None else db k)"
    using user_glob [OF laws] unfolding delete_by_pattern_def invalidate_all_user_keys_def by auto
  have "\<forall>k \<in> {key_reconnect_rate c u, key_rate_limit pre ident, key_idempotency c i, key_lock lk,
         key_otp email ty, key_block_list c pre i}. \<not> prefix ?p k"
    by (simp add: key_defs)
  then show ?thesis
    using r d uv user_keys_prefix [OF laws, of _ u date u] user_keys_prefix [OF laws, of _ v date u]
      broadcast_keys_prefix [of _ c b "uuid_show c u @ '':''"]
    by auto
qed

theorem user_invalidation_isolated_witness:
  "\<exists>n db'. invalidate_all_user_keys (up 0) (\<lambda>_. [Inr (''0'', [key_session plain_codec 1])])
       (uuid_show plain_codec) 1
       [key_session plain_codec 1 \<mapsto> (RStr ''s'', None), key_session plain_codec 2 \<mapsto> (RStr ''t'', None)]
       = Some (Inr n, db') \<and>
     (\<forall>k. k \<in> user_keys plain_codec 1 [] \<longrightarrow> db' k = None)"
proof -
  let ?db = "[key_session plain_codec 1 \<mapsto> (RStr ''s'', None),
     key_session plain_codec 2 \<mapsto> (RStr ''t'', None)] :: keyspace"
  let ?pat = "''u:'' @ uuid_show plain_codec 1 @ '':*''"
  have m: "glob ?pat (key_session plain_codec u) \<longleftrightarrow> u = 1" for u
    unfolding user_glob [OF plain_codec_laws] key_session_def
    using user_prefix [OF plain_codec_laws, of 1 u "''session''"] by auto
  have "scan_ok ?pat ?db [Inr (''0'', [key_session plain_codec 1])]"
    unfolding scan_ok_def using m [of 1] m [of 2]
    by (intro exI [of _ "[]"] exI [of _ "[key_session plain_codec 1]"])
      (auto split: if_splits)
  note scan = this
  have ne: "(1 :: uuid) \<noteq> 2" by simp
  have un: "\<forall>k. \<not> r_down (up 0) ''UNLINK'' k" by simp
  show ?thesis
    using user_invalidation_isolated [where c = plain_codec and u = 1 and v = 2 and db = ?db and
        scan = "\<lambda>_. [Inr (''0'', [key_session plain_codec 1])]" and e = "up 0" and date = "[]",
        OF plain_codec_laws ne scan un] by blast
qed

end
