(* ===== verification/Coalescing.thy ===== *)
theory Coalescing
  imports Redis_Keys
begin

text \<open>
  \<open>shared/services/redis/coalescing.rs\<close>: the cache in front of the expensive queries. The
  first caller of a missing key takes a lock, fetches, and stores the result in a spawned task
  that also releases the lock; the others poll the cache and fall back to a fetch of their own.
  The fetch is the caller's future: its outcome is an argument. The keyspace each poll sees is
  the environment's, because other callers run while this one sleeps.
\<close>

definition LOCK_TTL_SECS :: int where "LOCK_TTL_SECS = 5"
definition LOCK_RETRY_MS :: int where "LOCK_RETRY_MS = 50"
definition LOCK_MAX_RETRIES :: nat where "LOCK_MAX_RETRIES = 40"

section \<open>The lock\<close>

text \<open>
  The script is \<open>SET key '1' NX EX ttl\<close>: it returns 1 when the key was absent and 0
  otherwise; a failing call counts as 0.
\<close>

definition try_acquire_lock :: "redis_env \<Rightarrow> string \<Rightarrow> int \<Rightarrow> keyspace \<Rightarrow> bool \<times> keyspace" where
  "try_acquire_lock e cache_key ttl_secs db =
     (let k = key_lock cache_key
      in if r_down e ''EVAL'' k then (False, db)
         else if entry (r_now e) db k = None
              then (True, cmd_set (r_now e) k ''1'' (Some ttl_secs) db)
              else (False, db))"

definition release_lock :: "redis_env \<Rightarrow> string \<Rightarrow> keyspace \<Rightarrow> keyspace" where
  "release_lock e cache_key db = snd (redis_del e (key_lock cache_key) db)"

section \<open>The cached call\<close>

datatype 'a coalesce_task = StoreAndRelease string 'a int

text \<open>The spawned task: store the result, then release the lock whether or not that worked.\<close>

fun run_coalesce_task ::
    "redis_env \<Rightarrow> ('a \<Rightarrow> string) \<Rightarrow> 'a coalesce_task \<Rightarrow> keyspace \<Rightarrow> keyspace" where
  "run_coalesce_task e to_json (StoreAndRelease cache_key v ttl) db =
     release_lock e cache_key (snd (redis_set e to_json cache_key v (Some ttl) db))"

definition at_poll :: "redis_env \<Rightarrow> nat \<Rightarrow> redis_env" where
  "at_poll e attempt = e\<lparr>r_now := r_now e + LOCK_RETRY_MS * int attempt\<rparr>"

fun poll_cache ::
    "redis_env \<Rightarrow> (string \<Rightarrow> 'a option) \<Rightarrow> string \<Rightarrow> (nat \<Rightarrow> keyspace) \<Rightarrow> nat \<Rightarrow> nat \<Rightarrow> (nat \<times> 'a) option" where
  "poll_cache e from_json key seen 0 attempt = None"
| "poll_cache e from_json key seen (Suc n) attempt =
     (case redis_get (at_poll e attempt) from_json key (seen attempt) of
        Inr (Some cached) \<Rightarrow> Some (attempt, cached)
      | _ \<Rightarrow> poll_cache e from_json key seen n (Suc attempt))"

definition coalesce_cache ::
    "redis_env \<Rightarrow> (string \<Rightarrow> 'a option) \<Rightarrow> string \<Rightarrow> int \<Rightarrow> (nat \<Rightarrow> keyspace) \<Rightarrow> ('e + 'a) \<Rightarrow>
     keyspace \<Rightarrow> ('e + 'a) \<times> keyspace \<times> 'a coalesce_task option" where
  "coalesce_cache e from_json cache_key ttl_secs seen fetched db =
     (case redis_get e from_json cache_key db of
        Inr (Some cached) \<Rightarrow> (Inr cached, db, None)
      | _ \<Rightarrow>
          (case try_acquire_lock e cache_key LOCK_TTL_SECS db of
             (True, db1) \<Rightarrow>
               (case fetched of
                  Inl err \<Rightarrow> (Inl err, db1, None)
                | Inr v \<Rightarrow> (Inr v, db1, Some (StoreAndRelease cache_key v ttl_secs)))
           | (False, db1) \<Rightarrow>
               (case poll_cache e from_json cache_key seen LOCK_MAX_RETRIES 1 of
                  Some (_, cached) \<Rightarrow> (Inr cached, db1, None)
                | None \<Rightarrow> (fetched, db1, None))))"

lemma poll_cache_Some:
  "poll_cache e from_json key seen n i = Some (j, v) \<Longrightarrow>
     i \<le> j \<and> j < i + n \<and> redis_get (at_poll e j) from_json key (seen j) = Inr (Some v) \<and>
     (\<forall>l. i \<le> l \<and> l < j \<longrightarrow> (\<forall>w. redis_get (at_poll e l) from_json key (seen l) \<noteq> Inr (Some w)))"
proof (induction n arbitrary: i)
  case (Suc n)
  show ?case
  proof (cases "\<exists>w. redis_get (at_poll e i) from_json key (seen i) = Inr (Some w)")
    case True
    with Suc.prems show ?thesis by auto
  next
    case False
    with Suc.prems have "poll_cache e from_json key seen n (Suc i) = Some (j, v)"
      by (auto split: sum.splits option.splits)
    from Suc.IH [OF this] False show ?thesis
      by (metis Suc_leD add_Suc_right add_Suc_shift le_antisym not_less_eq_eq)
  qed
qed simp

lemma poll_cache_None:
  "poll_cache e from_json key seen n i = None \<Longrightarrow> i \<le> l \<Longrightarrow> l < i + n \<Longrightarrow>
     redis_get (at_poll e l) from_json key (seen l) \<noteq> Inr (Some w)"
proof (induction n arbitrary: i)
  case (Suc n)
  then show ?case
    by (cases "l = i") (auto split: sum.splits option.splits)
qed simp

text \<open>A coalesced call answers with what is cached, what it fetched, or what another caller
  stored while it waited, and with nothing else: a value comes from the cache now, from a poll of
  the cache at one of the 40 instants 50 ms apart, or from the fetch; an error is the fetch's own.
  In particular Redis being down never makes the call fail.
\<close>

theorem coalesce_result_sound:
  "(case fst (coalesce_cache e from_json key ttl seen fetched db) of
      Inl err \<Rightarrow> fetched = Inl err
    | Inr v \<Rightarrow> redis_get e from_json key db = Inr (Some v) \<or> fetched = Inr v \<or>
        (\<exists>i. 1 \<le> i \<and> i \<le> 40 \<and>
           redis_get (e\<lparr>r_now := r_now e + 50 * int i\<rparr>) from_json key (seen i) = Inr (Some v)))"
proof -
  have p: "1 \<le> i \<and> i \<le> 40 \<and> redis_get (e\<lparr>r_now := r_now e + 50 * int i\<rparr>) from_json key (seen i) = Inr (Some v)"
    if "poll_cache e from_json key seen LOCK_MAX_RETRIES 1 = Some (i, v)" for i v
    using poll_cache_Some [OF that] by (simp add: LOCK_MAX_RETRIES_def at_poll_def LOCK_RETRY_MS_def)
  show ?thesis
    using p by (auto simp: coalesce_cache_def split: sum.splits option.splits prod.splits bool.splits)
qed

lemma entry_key_neq: "k \<noteq> k' \<Longrightarrow> entry t (cmd_set t' k v ex db) k' = entry t db k'"
  by (simp add: entry_def cmd_set_def)

lemma lock_neq [simp]: "key_lock k \<noteq> k" "k \<noteq> key_lock k"
  using arg_cong [of "key_lock k" k length] by (auto simp: key_lock_def)

text \<open>After a miss that wins the lock, the value is fetched once: when the task of the winner
  has run on a reachable Redis, a later call within the lifetime is answered from the cache with
  that value and leaves the keyspace alone, whatever its own fetch would have given.
\<close>

theorem coalesce_then_hit:
  assumes json: "\<forall>v. from_json (to_json v) = Some v"
    and won: "coalesce_cache (up t) from_json key ttl seen (Inr v) db = (Inr v, db1, Some task)"
    and time: "t' < t1 + ttl * 1000"
  shows "coalesce_cache (up t') from_json key ttl seen' fetched' (run_coalesce_task (up t1) to_json task db1) =
           (Inr v, run_coalesce_task (up t1) to_json task db1, None) \<and>
         entry t' (run_coalesce_task (up t1) to_json task db1) (key_lock key) = None"
proof -
  from won have task: "task = StoreAndRelease key v ttl"
    by (auto simp: coalesce_cache_def split: sum.splits option.splits prod.splits bool.splits)
  let ?db = "run_coalesce_task (up t1) to_json task db1"
  have db: "?db = (cmd_set t1 key (to_json v) (Some ttl) db1)(key_lock key := None)"
    by (simp add: task release_lock_def redis_set_def redis_del_def guarded_cmd_def cmd_del_def)
  have "entry t' ?db key = Some (RStr (to_json v), Some (t1 + ttl * 1000))"
    using time by (simp add: db entry_update_other entry_set)
  then have "redis_get (up t') from_json key ?db = Inr (Some v)"
    using json by (simp add: redis_get_def cmd_get_def)
  moreover have "entry t' ?db (key_lock key) = None" by (simp add: db)
  ultimately show ?thesis by (simp add: coalesce_cache_def)
qed

theorem coalesce_then_hit_witness:
  "\<exists>db1 task. coalesce_cache (up 0) Some ''k'' 60 (\<lambda>_. Map.empty) (Inr ''v'' :: string + string) Map.empty
       = (Inr ''v'', db1, Some task) \<and>
     fst (coalesce_cache (up 9) Some ''k'' 60 (\<lambda>_. Map.empty) (Inl ''gone'')
       (run_coalesce_task (up 3) id task db1)) = Inr ''v''"
proof -
  let ?r = "coalesce_cache (up 0) Some ''k'' 60 (\<lambda>_. Map.empty) (Inr ''v'' :: string + string) Map.empty"
  have w: "?r = (Inr ''v'', fst (snd ?r), Some (StoreAndRelease ''k'' ''v'' 60))"
    by (simp add: coalesce_cache_def redis_get_def cmd_get_def entry_def try_acquire_lock_def Let_def)
  have j: "\<forall>v. Some (id v) = Some v" by simp
  have h: "fst (coalesce_cache (up 9) Some ''k'' 60 (\<lambda>_. Map.empty) (Inl ''gone'')
       (run_coalesce_task (up 3) id (StoreAndRelease ''k'' ''v'' 60) (fst (snd ?r)))) = Inr ''v''"
    using coalesce_then_hit [OF j w, of 9 3 "\<lambda>_. Map.empty" "Inl ''gone''"]
    by (simp only: fst_conv)
  show ?thesis
  proof (intro exI conjI)
    show "?r = (Inr ''v'', fst (snd ?r), Some (StoreAndRelease ''k'' ''v'' 60))" by (rule w)
    show "fst (coalesce_cache (up 9) Some ''k'' 60 (\<lambda>_. Map.empty) (Inl ''gone'')
       (run_coalesce_task (up 3) id (StoreAndRelease ''k'' ''v'' 60) (fst (snd ?r)))) = Inr ''v''"
      by (rule h)
  qed
qed

text \<open>When the winner's fetch fails, the error is returned at once and the lock stays: no task is
  spawned to release it, so until its 5 seconds are over every other caller of the key loses.
\<close>

theorem failed_fetch_keeps_lock:
  assumes "redis_get (up t) from_json key db = Inr None" and "entry t db (key_lock key) = None"
    and "t \<le> t'" and "t' < t + 5000"
  shows "\<exists>db1. coalesce_cache (up t) from_json key ttl seen (Inl err) db = (Inl err, db1, None) \<and>
           try_acquire_lock (up t') key LOCK_TTL_SECS db1 = (False, db1)"
  using assms
  by (simp add: coalesce_cache_def try_acquire_lock_def Let_def entry_set LOCK_TTL_SECS_def)

theorem failed_fetch_keeps_lock_witness:
  "\<exists>db1. coalesce_cache (up 0) (Some :: string \<Rightarrow> string option) ''k'' 60 (\<lambda>_. Map.empty)
       (Inl ''db down'') Map.empty = (Inl ''db down'', db1, None) \<and>
     try_acquire_lock (up 4000) ''k'' LOCK_TTL_SECS db1 = (False, db1)"
proof (rule failed_fetch_keeps_lock)
  show "redis_get (up 0) Some ''k'' Map.empty = Inr None"
    by (simp add: redis_get_def cmd_get_def entry_def)
qed (simp_all add: entry_def)

section \<open>Concurrent callers\<close>

text \<open>
  Any number of callers of one key. A step is a caller that tries the lock, a winner whose task
  stores and releases, a winner whose fetch fails, or the passing of time; time does not pass the
  lifetime of the lock of a caller that is still fetching.
\<close>

datatype phase = Idle | Fetching int

record callers =
  cl_now :: int
  cl_db :: keyspace
  cl_phase :: "nat \<Rightarrow> phase"

inductive coalesce_step :: "string \<Rightarrow> callers \<Rightarrow> callers \<Rightarrow> bool" for key where
  acquire: "cl_phase s i = Idle \<Longrightarrow>
     try_acquire_lock (up (cl_now s)) key LOCK_TTL_SECS (cl_db s) = (True, db) \<Longrightarrow>
     coalesce_step key s (s\<lparr>cl_db := db, cl_phase := (cl_phase s)(i := Fetching (cl_now s))\<rparr>)"
| refused: "try_acquire_lock (up (cl_now s)) key LOCK_TTL_SECS (cl_db s) = (False, db) \<Longrightarrow>
     coalesce_step key s (s\<lparr>cl_db := db\<rparr>)"
| finish: "cl_phase s i = Fetching t \<Longrightarrow>
     coalesce_step key s (s\<lparr>cl_db := run_coalesce_task (up (cl_now s)) id (StoreAndRelease key v ttl) (cl_db s),
       cl_phase := (cl_phase s)(i := Idle)\<rparr>)"
| failed: "cl_phase s i = Fetching t \<Longrightarrow>
     coalesce_step key s (s\<lparr>cl_phase := (cl_phase s)(i := Idle)\<rparr>)"
| tick: "0 \<le> d \<Longrightarrow> (\<And>i t. cl_phase s i = Fetching t \<Longrightarrow> cl_now s + d < t + LOCK_TTL_SECS * 1000) \<Longrightarrow>
     coalesce_step key s (s\<lparr>cl_now := cl_now s + d\<rparr>)"

inductive_cases coalesce_stepE: "coalesce_step key s s'"

inductive coalesce_reachable :: "string \<Rightarrow> callers \<Rightarrow> bool" for key where
  start: "(\<And>i. cl_phase s i = Idle) \<Longrightarrow> coalesce_reachable key s"
| step: "coalesce_reachable key s \<Longrightarrow> coalesce_step key s s' \<Longrightarrow> coalesce_reachable key s'"

text \<open>The lock of a fetching caller is in the keyspace, and no other caller is fetching.\<close>

definition lock_inv :: "string \<Rightarrow> callers \<Rightarrow> bool" where
  "lock_inv key s \<longleftrightarrow>
     (\<forall>i t. cl_phase s i = Fetching t \<longrightarrow>
        cl_now s < t + LOCK_TTL_SECS * 1000 \<and>
        cl_db s (key_lock key) = Some (RStr ''1'', Some (t + LOCK_TTL_SECS * 1000)) \<and>
        (\<forall>j. cl_phase s j \<noteq> Idle \<longrightarrow> j = i))"

lemma lock_inv_step: "coalesce_step key s s' \<Longrightarrow> lock_inv key s \<Longrightarrow> lock_inv key s'"
proof (induction rule: coalesce_step.induct)
  case (acquire s i db)
  have free: "entry (cl_now s) (cl_db s) (key_lock key) = None"
    and db: "db = cmd_set (cl_now s) (key_lock key) ''1'' (Some LOCK_TTL_SECS) (cl_db s)"
    using acquire.hyps(2) by (auto simp: try_acquire_lock_def Let_def split: if_splits)
  have "cl_phase s j = Idle" for j
    using acquire.prems free by (cases "cl_phase s j") (auto simp: lock_inv_def entry_def)
  with db show ?case
    by (auto simp: lock_inv_def cmd_set_def LOCK_TTL_SECS_def)
next
  case (refused s db)
  then have "db = cl_db s" by (auto simp: try_acquire_lock_def Let_def split: if_splits)
  with refused show ?case by (simp add: lock_inv_def)
next
  case (finish s i t v ttl)
  then show ?case by (auto simp: lock_inv_def)
next
  case (failed s i t)
  then show ?case by (auto simp: lock_inv_def)
next
  case (tick d s)
  then show ?case by (auto simp: lock_inv_def)
qed

lemma coalesce_reachable_inv: "coalesce_reachable key s \<Longrightarrow> lock_inv key s"
  by (induction rule: coalesce_reachable.induct) (auto simp: lock_inv_def [of key] dest: lock_inv_step)



text \<open>The bound on the fetch is needed: the lock has no owner, so a winner that outlives it releases
  the lock of the caller that took over, and a third caller acquires while that one still fetches.
\<close>

theorem slow_winner_breaks_exclusion:
  assumes "try_acquire_lock (up t) key LOCK_TTL_SECS db = (True, db1)" and "t + 5000 \<le> t'"
  shows "\<exists>db2. try_acquire_lock (up t') key LOCK_TTL_SECS db1 = (True, db2) \<and>
           fst (try_acquire_lock (up t') key LOCK_TTL_SECS
                  (run_coalesce_task (up t') to_json (StoreAndRelease key v ttl) db2))"
proof -
  have db1: "db1 = cmd_set t (key_lock key) ''1'' (Some LOCK_TTL_SECS) db"
    using assms(1) by (auto simp: try_acquire_lock_def Let_def split: if_splits)
  have "entry t' db1 (key_lock key) = None"
    using assms(2) by (simp add: db1 entry_set LOCK_TTL_SECS_def)
  then have "try_acquire_lock (up t') key LOCK_TTL_SECS db1 =
      (True, cmd_set t' (key_lock key) ''1'' (Some LOCK_TTL_SECS) db1)"
    by (simp add: try_acquire_lock_def Let_def)
  then show ?thesis
    by (auto simp: try_acquire_lock_def Let_def release_lock_def redis_set_def redis_del_def
        guarded_cmd_def cmd_del_def)
qed

theorem slow_winner_breaks_exclusion_witness:
  "\<exists>db1 db2. try_acquire_lock (up 0) ''k'' LOCK_TTL_SECS Map.empty = (True, db1) \<and>
     try_acquire_lock (up 6000) ''k'' LOCK_TTL_SECS db1 = (True, db2) \<and>
     fst (try_acquire_lock (up 6000) ''k'' LOCK_TTL_SECS
            (run_coalesce_task (up 6000) id (StoreAndRelease ''k'' ''v'' 60) db2))"
proof -
  let ?db1 = "cmd_set 0 (key_lock ''k'') ''1'' (Some LOCK_TTL_SECS) Map.empty"
  have a: "try_acquire_lock (up 0) ''k'' LOCK_TTL_SECS Map.empty = (True, ?db1)"
    by (simp add: try_acquire_lock_def Let_def entry_def)
  from slow_winner_breaks_exclusion [OF a, of 6000 id "''v''" 60] a show ?thesis by auto
qed

end
