(* ===== verification/Rate_Limit.thy ===== *)
theory Rate_Limit
  imports Redis_Keys
begin

text \<open>
  \<open>shared/middleware/rate_limit.rs\<close>: the sliding-window limiter, its Lua script, and the
  middleware that admits or rejects a request. The script computes
  \<open>math.floor(prev_count * weight)\<close> in double precision; that product is the argument
  \<open>carry\<close>, of which only \<open>0 \<le> carry\<close> and \<open>carry 0 = 0\<close> are ever used.
\<close>

record rate_limit_config =
  rl_limit :: nat
  rl_window_secs :: nat

definition RATE_LIMIT_PREFIX :: string where "RATE_LIMIT_PREFIX = ''RT''"

definition rate_limit_config_new :: "nat \<Rightarrow> nat \<Rightarrow> rate_limit_config" where
  "rate_limit_config_new limit window_secs = \<lparr>rl_limit = limit, rl_window_secs = window_secs\<rparr>"

section \<open>The script\<close>

type_synonym carry = "int \<Rightarrow> nat \<Rightarrow> nat \<Rightarrow> int"

definition rl_script ::
    "redis_env \<Rightarrow> carry \<Rightarrow> string \<Rightarrow> string \<Rightarrow> int \<Rightarrow> nat \<Rightarrow> nat \<Rightarrow> nat \<Rightarrow> keyspace \<Rightarrow>
     (fred_error + int \<times> int) \<times> keyspace" where
  "rl_script e carry current_key previous_key tokens window_secs now limit db =
     (case cmd_incrby (r_now e) current_key tokens db of
        (Inl err, db1) \<Rightarrow> (Inl err, db1)
      | (Inr current_count, db1) \<Rightarrow>
          (let db2 = cmd_expire (r_now e) current_key (int window_secs * 2) db1
           in case cmd_get (r_now e) previous_key db2 of
                Inl err \<Rightarrow> (Inl err, db2)
              | Inr reply \<Rightarrow>
                  (case parse_signed i64_min i64_max (case reply of None \<Rightarrow> ''0'' | Some s \<Rightarrow> s) of
                     None \<Rightarrow> (Inl ''ERR attempt to perform arithmetic on a nil value'', db2)
                   | Some prev_count \<Rightarrow>
                       (let window_ms = window_secs * 1000;
                            time_in_window = now mod window_ms;
                            estimated = current_count + carry prev_count (window_ms - time_in_window) window_ms
                        in if estimated > int limit then (Inr (0, current_count), db2)
                           else (Inr (int limit - estimated, current_count), db2)))))"

text \<open>
  The checks around it: \<open>now\<close> in milliseconds and the product \<open>window_secs * 1000\<close> are
  \<open>u64\<close> (the product wraps in a release build), and a zero divisor panics.
\<close>

datatype rl_outcome = Panicked | Failed string | Remaining nat

definition u64_mul :: "nat \<Rightarrow> nat \<Rightarrow> nat" where
  "u64_mul a b = (a * b) mod 2 ^ 64"

definition window_key :: "string \<Rightarrow> nat \<Rightarrow> string" where
  "window_key base_key w = base_key @ '':'' @ show_nat w"

definition check_rate_limit ::
    "redis_env \<Rightarrow> carry \<Rightarrow> nat \<Rightarrow> string \<Rightarrow> rate_limit_config \<Rightarrow> keyspace \<Rightarrow> rl_outcome \<times> keyspace" where
  "check_rate_limit e carry now base_key config db =
     (let window_ms = u64_mul (rl_window_secs config) 1000
      in if window_ms = 0 then (Panicked, db)
         else
           (let current_window = now div window_ms;
                prev_window = current_window - 1;
                current_key = window_key base_key current_window;
                previous_key = window_key base_key prev_window
            in if r_down e ''EVAL'' current_key then (Failed unreachable_error, db)
               else case rl_script e carry current_key previous_key 1 (rl_window_secs config) now (rl_limit config) db of
                      (Inl err, db1) \<Rightarrow> (Failed err, db1)
                    | (Inr (remaining, _), db1) \<Rightarrow> (Remaining (nat remaining), db1)))"

section \<open>The middleware\<close>

text \<open>
  What the client sees: the handler's response, with the two headers when the limiter answered,
  or the 429 response with its retry header.
\<close>

datatype 'r rl_response =
    PassedWith 'r nat nat
  | Passed 'r
  | TooManyRequests nat nat
  | ConnectionReset

definition rate_limit_middleware ::
    "redis_env \<Rightarrow> carry \<Rightarrow> nat \<Rightarrow> rate_limit_config \<Rightarrow> string \<Rightarrow> 'r \<Rightarrow> keyspace \<Rightarrow> 'r rl_response \<times> keyspace" where
  "rate_limit_middleware e carry now config identifier handler_response db =
     (case check_rate_limit e carry now (RATE_LIMIT_PREFIX @ '':'' @ identifier) config db of
        (Remaining remaining, db1) \<Rightarrow>
          if remaining > 0 then (PassedWith handler_response remaining (rl_limit config), db1)
          else (TooManyRequests (rl_window_secs config) (rl_limit config), db1)
      | (Failed _, db1) \<Rightarrow> (Passed handler_response, db1)
      | (Panicked, db1) \<Rightarrow> (ConnectionReset, db1))"

text \<open>
  The identifier: the last 16 bytes of a bearer token at least that long, else the first address
  of \<open>X-Forwarded-For\<close>, else a constant. A header is the text \<open>to_str\<close> gives, which is
  visible ASCII, so a byte index is a character boundary.
\<close>

definition trim :: "string \<Rightarrow> string" where
  "trim s = rev (dropWhile (\<lambda>c. c = CHR '' '' \<or> c = CHR 0x09)
              (rev (dropWhile (\<lambda>c. c = CHR '' '' \<or> c = CHR 0x09) s)))"

definition extract_identifier :: "string option \<Rightarrow> string option \<Rightarrow> string" where
  "extract_identifier authorization forwarded_for =
     (let from_ip = (case forwarded_for of
                       Some ip \<Rightarrow> trim (takeWhile (\<lambda>c. c \<noteq> CHR '','') ip)
                     | None \<Rightarrow> ''unknown'')
      in case authorization of
           Some auth_str \<Rightarrow>
             (case strip_prefix ''Bearer '' auth_str of
                Some token \<Rightarrow>
                  if 16 \<le> length token then drop (length token - 16) token else from_ip
              | None \<Rightarrow> from_ip)
         | None \<Rightarrow> from_ip)"

section \<open>Requests of one client in one window\<close>

fun rl_seq :: "carry \<Rightarrow> string \<Rightarrow> rate_limit_config \<Rightarrow> nat list \<Rightarrow> keyspace \<Rightarrow> rl_outcome list" where
  "rl_seq carry base_key config [] db = []"
| "rl_seq carry base_key config (now # ts) db =
     (case check_rate_limit (up (int now)) carry now base_key config db of
        (o1, db1) \<Rightarrow> o1 # rl_seq carry base_key config ts db1)"

definition admitted :: "rl_outcome \<Rightarrow> bool" where
  "admitted r \<longleftrightarrow> (\<exists>n. r = Remaining n \<and> 0 < n)"

lemma window_key_inject [simp]: "window_key b w = window_key b w' \<longleftrightarrow> w = w'"
  by (simp add: window_key_def)

text \<open>The counter of a window: how many requests the current key has counted.\<close>

definition window_count :: "int \<Rightarrow> string \<Rightarrow> keyspace \<Rightarrow> int \<Rightarrow> bool" where
  "window_count t k db n \<longleftrightarrow>
     (case entry t db k of
        None \<Rightarrow> n = 0
      | Some (v, ex) \<Rightarrow> v = RStr (show_int n) \<and> 0 \<le> n \<and> n \<le> i64_max)"

lemma window_count_incr:
  assumes "window_count t k db n" and "n + 1 \<le> i64_max" and "0 < ttl"
  shows "\<exists>db1. cmd_incrby t k 1 db = (Inr (n + 1), db1) \<and>
           cmd_expire t k ttl db1 = db(k := Some (RStr (show_int (n + 1)), Some (t + ttl * 1000)))"
proof (cases "entry t db k")
  case None
  with assms show ?thesis
    by (simp add: window_count_def cmd_incrby_def cmd_expire_def entry_def)
next
  case (Some a)
  obtain ex where a: "a = (RStr (show_int n), ex)" and n: "0 \<le> n"
    using assms(1) Some by (cases a) (auto simp: window_count_def)
  have p: "parse_signed i64_min i64_max (show_int n) = Some n"
    using n assms(2) by (intro parse_show_int) (simp_all add: i64_min_def)
  have ex: "case ex of None \<Rightarrow> True | Some x \<Rightarrow> t < x"
    using Some a by (auto simp: entry_def split: option.splits if_splits)
  show ?thesis
    using Some a p n assms(2,3) ex
    by (auto simp: cmd_incrby_def cmd_expire_def entry_def i64_min_def split: option.splits)
qed

lemma window_count_get:
  assumes "window_count t k db p"
  shows "\<exists>reply. cmd_get t k db = Inr reply \<and>
     parse_signed i64_min i64_max (case reply of None \<Rightarrow> ''0'' | Some s \<Rightarrow> s) = Some p \<and> 0 \<le> p"
proof (cases "entry t db k")
  case None
  have "parse_signed i64_min i64_max ''0'' = Some 0"
    by (simp add: parse_signed_def is_digit_def digit_val_def i64_min_def i64_max_def)
  with None assms show ?thesis by (simp add: window_count_def cmd_get_def)
next
  case (Some a)
  with assms have "parse_signed i64_min i64_max (show_int p) = Some p"
    by (intro parse_show_int) (auto simp: window_count_def i64_min_def)
  with Some assms show ?thesis
    by (cases a) (auto simp: window_count_def cmd_get_def)
qed

lemma window_count_other: "k \<noteq> k' \<Longrightarrow> window_count t k (db(k' := v)) n = window_count t k db n"
  by (simp add: window_count_def entry_def)

text \<open>One request: the count goes up by one whatever the answer is.\<close>

lemma check_rate_limit_step:
  assumes W: "rl_window_secs config * 1000 < 2 ^ 64" "0 < rl_window_secs config"
    and w: "now div (rl_window_secs config * 1000) = w" "0 < w"
    and cur: "window_count (int now) (window_key base w) db n" "n + 1 \<le> i64_max"
    and prev: "window_count (int now) (window_key base (w - 1)) db p"
  shows "\<exists>a W. check_rate_limit (up (int now)) carry now base config db =
     (Remaining (nat (int (rl_limit config) - (n + 1 + carry p a W))),
      db(window_key base w := Some (RStr (show_int (n + 1)),
           Some (int now + int (rl_window_secs config) * 2 * 1000))))"
proof -
  let ?k = "window_key base w" and ?p = "window_key base (w - 1)"
  let ?db = "db(?k := Some (RStr (show_int (n + 1)), Some (int now + int (rl_window_secs config) * 2 * 1000)))"
  have ne: "?p \<noteq> ?k" using w(2) by simp
  from window_count_incr [OF cur, of "int (rl_window_secs config) * 2"] W(2) obtain db1 where
    i: "cmd_incrby (int now) ?k 1 db = (Inr (n + 1), db1)"
    and x: "cmd_expire (int now) ?k (int (rl_window_secs config) * 2) db1 = ?db"
    by auto
  have "window_count (int now) ?p ?db p"
    using prev ne by (simp add: window_count_other)
  from window_count_get [OF this] obtain reply where
    "cmd_get (int now) ?p ?db = Inr reply"
    "parse_signed i64_min i64_max (case reply of None \<Rightarrow> ''0'' | Some s \<Rightarrow> s) = Some p" by blast
  with i x W w show ?thesis
    by (intro exI [of _ "rl_window_secs config * 1000 - now mod (rl_window_secs config * 1000)"]
        exI [of _ "rl_window_secs config * 1000"])
      (auto simp: check_rate_limit_def Let_def u64_mul_def rl_script_def)
qed

lemma window_count_bumped:
  "t < T \<Longrightarrow> 0 \<le> n \<Longrightarrow> n \<le> i64_max \<Longrightarrow> window_count t k (db(k := Some (RStr (show_int n), Some T))) n"
  by (simp add: window_count_def entry_def)

lemma same_window:
  fixes W :: nat
  assumes "0 < W" and "t div W = w" and "t' div W = w"
  shows "t' < t + 2 * W"
proof -
  have "t' < Suc w * W" using assms by (metis div_less_iff_less_mult lessI)
  moreover have "w * W \<le> t" using assms by (metis div_times_less_eq_dividend)
  ultimately show ?thesis by simp
qed

text \<open>A window under way: its key counts \<open>n\<close>, and the previous key holds a count.\<close>

definition in_window :: "string \<Rightarrow> rate_limit_config \<Rightarrow> nat \<Rightarrow> nat list \<Rightarrow> keyspace \<Rightarrow> int \<Rightarrow> bool" where
  "in_window base config w ts db n \<longleftrightarrow>
     0 < rl_window_secs config \<and> rl_window_secs config * 1000 < 2 ^ 64 \<and> 0 < w \<and>
     0 \<le> n \<and> n + int (length ts) \<le> i64_max \<and>
     (\<forall>t \<in> set ts. t div (rl_window_secs config * 1000) = w \<and>
        window_count (int t) (window_key base w) db n \<and>
        (\<exists>p. window_count (int t) (window_key base (w - 1)) db p))"

lemma in_window_step:
  assumes "in_window base config w (now # ts) db n"
  shows "\<exists>p a W db1. window_count (int now) (window_key base (w - 1)) db p \<and>
     check_rate_limit (up (int now)) carry now base config db =
       (Remaining (nat (int (rl_limit config) - (n + 1 + carry p a W))), db1) \<and>
     in_window base config w ts db1 (n + 1) \<and>
     (\<forall>k. k \<noteq> window_key base w \<longrightarrow> db1 k = db k)"
proof -
  let ?k = "window_key base w" and ?W = "rl_window_secs config * 1000"
  from assms obtain p where p: "window_count (int now) (window_key base (w - 1)) db p"
    by (auto simp: in_window_def)
  let ?db = "db(?k := Some (RStr (show_int (n + 1)), Some (int now + int (rl_window_secs config) * 2 * 1000)))"
  have "\<exists>a W. check_rate_limit (up (int now)) carry now base config db =
       (Remaining (nat (int (rl_limit config) - (n + 1 + carry p a W))), ?db)"
    using assms by (intro check_rate_limit_step p) (auto simp: in_window_def)
  moreover have "in_window base config w ts ?db (n + 1)"
    unfolding in_window_def
  proof (intro conjI ballI)
    fix t assume t: "t \<in> set ts"
    have "t < now + 2 * ?W"
      using assms t by (intro same_window [of ?W now w t]) (auto simp: in_window_def)
    then show "window_count (int t) ?k ?db (n + 1)"
      using assms by (intro window_count_bumped) (auto simp: in_window_def)
    show "\<exists>p. window_count (int t) (window_key base (w - 1)) ?db p"
      using assms t by (auto simp: in_window_def window_count_other)
  qed (use assms in \<open>auto simp: in_window_def\<close>)
  ultimately show ?thesis using p by fastforce
qed

lemma rl_admitted_bound:
  assumes carry: "\<And>p a W. 0 \<le> p \<Longrightarrow> 0 \<le> carry p a W"
  shows "in_window base config w ts db n \<Longrightarrow>
     length (filter admitted (rl_seq carry base config ts db)) \<le> nat (int (rl_limit config) - 1 - n)"
proof (induction ts arbitrary: db n)
  case (Cons now ts)
  from in_window_step [OF Cons.prems, of carry] obtain p a W db1 where
    p: "window_count (int now) (window_key base (w - 1)) db p"
    and c: "check_rate_limit (up (int now)) carry now base config db =
       (Remaining (nat (int (rl_limit config) - (n + 1 + carry p a W))), db1)"
    and i: "in_window base config w ts db1 (n + 1)" by blast
  have "0 \<le> carry p a W" using carry window_count_get [OF p] by blast
  with Cons.IH [OF i] c show ?case by (auto simp: admitted_def)
qed simp


lemma in_window_fresh:
  assumes "0 < rl_window_secs config" and "rl_window_secs config * 1000 < 2 ^ 64" and "0 < w"
    and "int (length ts) \<le> i64_max" and "\<forall>t \<in> set ts. t div (rl_window_secs config * 1000) = w"
    and "db (window_key base w) = None" and "db (window_key base (w - 1)) = None"
  shows "in_window base config w ts db 0"
  using assms by (auto simp: in_window_def window_count_def entry_def)


lemma rl_seq_fresh:
  assumes carry: "\<And>a W. carry 0 a W = 0"
  shows "in_window base config w ts db n \<Longrightarrow> db (window_key base (w - 1)) = None \<Longrightarrow>
     rl_seq carry base config ts db =
       map (\<lambda>k. Remaining (nat (int (rl_limit config) - n - int k))) [1..<Suc (length ts)]"
proof (induction ts arbitrary: db n)
  case (Cons now ts)
  from in_window_step [OF Cons.prems(1), of carry] obtain p a W db1 where
    p: "window_count (int now) (window_key base (w - 1)) db p"
    and c: "check_rate_limit (up (int now)) carry now base config db =
       (Remaining (nat (int (rl_limit config) - (n + 1 + carry p a W))), db1)"
    and i: "in_window base config w ts db1 (n + 1)"
    and o: "\<forall>k. k \<noteq> window_key base w \<longrightarrow> db1 k = db k" by blast
  have "p = 0" using p Cons.prems(2) by (simp add: window_count_def entry_def)
  moreover have "window_key base (w - 1) \<noteq> window_key base w"
    using Cons.prems(1) by (auto simp: in_window_def)
  then have "db1 (window_key base (w - 1)) = None" using o Cons.prems(2) by simp
  note Cons.IH [OF i this]
  moreover have "[1..<Suc (length (now # ts))] = 1 # map Suc [1..<Suc (length ts)]"
    by (simp add: map_Suc_upt upt_conv_Cons del: upt_Suc)
  ultimately show ?case
    using c carry by (simp add: algebra_simps del: upt_Suc)
qed simp

text \<open>C34. What the limit means exactly: with nothing carried over from the previous window, the k-th
  request of a window is told that \<open>limit - k\<close> remain, and the middleware admits only a positive
  remainder. So the request that would use the last unit of the limit is rejected: a limit of
  \<open>n\<close> admits \<open>n - 1\<close> requests, and a limit of 1 admits none.
\<close>

theorem rate_limit_admits_one_less:
  assumes "\<forall>a W. carry 0 a W = 0" and "in_window base config w ts db 0"
    and "db (window_key base (w - 1)) = None" and "rl_limit config \<le> length ts" and "0 < rl_limit config"
  shows "length (filter admitted (rl_seq carry base config ts db)) = rl_limit config - 1"
proof -
  let ?l = "rl_limit config"
  have "rl_seq carry base config ts db = map (\<lambda>k. Remaining (nat (int ?l - int k))) [1..<Suc (length ts)]"
    using rl_seq_fresh [of carry base config w ts db 0] assms(1-3) by simp
  moreover have "[1..<Suc (length ts)] = [1..<?l] @ [?l..<Suc (length ts)]"
    using assms(4,5) upt_add_eq_append [of 1 ?l "Suc (length ts) - ?l"] by simp
  moreover have "filter (\<lambda>k. admitted (Remaining (nat (int ?l - int k)))) [1..<?l] = [1..<?l]"
    by (auto simp: filter_id_conv admitted_def)
  moreover have "filter (\<lambda>k. admitted (Remaining (nat (int ?l - int k)))) [?l..<Suc (length ts)] = []"
    by (auto simp: filter_empty_conv admitted_def)
  ultimately show ?thesis by (simp add: filter_map o_def del: upt_Suc)
qed

theorem rate_limit_admits_one_less_witness:
  "length (filter admitted (rl_seq (\<lambda>p a W. p * int a div int W) ''RT:x'' \<lparr>rl_limit = 3, rl_window_secs = 60\<rparr>
     [60000, 60001, 60002, 60003] Map.empty)) = 2"
proof -
  let ?c = "\<lparr>rl_limit = 3, rl_window_secs = 60\<rparr>"
  have "in_window ''RT:x'' ?c 1 [60000, 60001, 60002, 60003] Map.empty 0"
    by (rule in_window_fresh) (simp_all add: i64_max_def)
  then show ?thesis
    using rate_limit_admits_one_less [where carry = "\<lambda>p a W. p * int a div int W" and config = ?c] by fastforce
qed

end
