(* ===== verification/Idempotency.thy ===== *)
theory Idempotency
  imports Redis_Keys
begin

text \<open>
  \<open>shared/middleware/idempotency.rs\<close>: a response stored under the client's
  \<open>Idempotency-Key\<close> answers a retry. The handler is the rest of the stack: the response it
  would give is an argument, and the result says whether it ran.
\<close>

section \<open>Stored responses\<close>

record cached_response =
  cr_status :: nat
  cr_body :: string

record http_response =
  hr_status :: nat
  hr_headers :: "(string \<times> string) list"
  hr_body :: "string option"

text \<open>A body that cannot be collected is \<open>None\<close>.\<close>

definition is_success :: "nat \<Rightarrow> bool" where
  "is_success st \<longleftrightarrow> 200 \<le> st \<and> st < 300"

definition status_from_u16 :: "nat \<Rightarrow> nat" where
  "status_from_u16 st = (if 100 \<le> st \<and> st < 1000 then st else 200)"

definition extract_idempotency_key :: "codec \<Rightarrow> string option \<Rightarrow> uuid option" where
  "extract_idempotency_key c header =
     (case header of None \<Rightarrow> None | Some s \<Rightarrow> uuid_parse c s)"

section \<open>The middleware\<close>

datatype idem_task = StoreResponse redis_key cached_response

record idem_result =
  ir_response :: http_response
  ir_handler_ran :: bool
  ir_task :: "idem_task option"

fun run_idem_task ::
    "redis_env \<Rightarrow> (cached_response \<Rightarrow> string) \<Rightarrow> idem_task \<Rightarrow> keyspace \<Rightarrow> keyspace" where
  "run_idem_task e to_json (StoreResponse k r) db = snd (redis_set e to_json k r (Some 86400) db)"

definition idempotency_middleware ::
    "codec \<Rightarrow> redis_env option \<Rightarrow> (string \<Rightarrow> cached_response option) \<Rightarrow> string option \<Rightarrow> http_response \<Rightarrow>
     keyspace \<Rightarrow> idem_result" where
  "idempotency_middleware c redis from_json header handler db =
     (case redis of
        None \<Rightarrow> \<lparr>ir_response = handler, ir_handler_ran = True, ir_task = None\<rparr>
      | Some e \<Rightarrow>
          (case extract_idempotency_key c header of
             None \<Rightarrow> \<lparr>ir_response = handler, ir_handler_ran = True, ir_task = None\<rparr>
           | Some idem_key \<Rightarrow>
               (let redis_key = key_idempotency c idem_key
                in case redis_get e from_json redis_key db of
                     Inr (Some cached) \<Rightarrow>
                       \<lparr>ir_response = \<lparr>hr_status = status_from_u16 (cr_status cached), hr_headers = [],
                                      hr_body = Some (cr_body cached)\<rparr>,
                        ir_handler_ran = False, ir_task = None\<rparr>
                   | _ \<Rightarrow>
                       if is_success (hr_status handler)
                       then (case hr_body handler of
                               None \<Rightarrow> \<lparr>ir_response = \<lparr>hr_status = 500, hr_headers = [], hr_body = Some []\<rparr>,
                                       ir_handler_ran = True, ir_task = None\<rparr>
                             | Some bytes \<Rightarrow>
                                 \<lparr>ir_response = handler, ir_handler_ran = True,
                                  ir_task = Some (StoreResponse redis_key
                                    \<lparr>cr_status = hr_status handler, cr_body = utf8_lossy bytes\<rparr>)\<rparr>)
                       else \<lparr>ir_response = handler, ir_handler_ran = True, ir_task = None\<rparr>)))"

lemma idem_miss:
  assumes "uuid_parse c h = Some k" and "redis_get e from_json (key_idempotency c k) db = Inr None"
    and "is_success (hr_status r)" and "hr_body r = Some body"
  shows "idempotency_middleware c (Some e) from_json (Some h) r db =
     \<lparr>ir_response = r, ir_handler_ran = True,
      ir_task = Some (StoreResponse (key_idempotency c k)
        \<lparr>cr_status = hr_status r, cr_body = utf8_lossy body\<rparr>)\<rparr>"
  using assms by (simp add: idempotency_middleware_def extract_idempotency_key_def Let_def)


text \<open>A JSON text of the stored record, for closed examples: the status, a bar, the body.\<close>

definition demo_to_json :: "cached_response \<Rightarrow> string" where
  "demo_to_json v = show_nat (cr_status v) @ ''|'' @ cr_body v"

definition demo_from_json :: "string \<Rightarrow> cached_response option" where
  "demo_from_json s =
     (case splitn 2 CHR ''|'' s of
        [a, b] \<Rightarrow> (case parse_digits 0 a of Some n \<Rightarrow> Some \<lparr>cr_status = n, cr_body = b\<rparr> | None \<Rightarrow> None)
      | _ \<Rightarrow> None)"

lemma demo_json: "demo_from_json (demo_to_json v) = Some v"
  using splitn_2_sep [of "CHR ''|''" "show_nat (cr_status v)" "cr_body v"]
  by (simp add: demo_from_json_def demo_to_json_def show_nat_not parse_show_nat)


text \<open>
  The guarantee starts with the stored response, not with the first request: two requests with one
  key that both arrive before the spawned task has stored the response both run the handler.
\<close>

theorem concurrent_duplicates_both_run:
  assumes "uuid_parse c h = Some k" and "redis_get e from_json (key_idempotency c k) db = Inr None"
    and "is_success (hr_status r)" and "hr_body r = Some body" and "is_success (hr_status r')" and "hr_body r' = Some body'"
  shows "ir_handler_ran (idempotency_middleware c (Some e) from_json (Some h) r db) \<and>
         ir_handler_ran (idempotency_middleware c (Some e) from_json (Some h) r' db)"
  using assms by (simp add: idem_miss)

text \<open>
  C14. Errors are never replayed: a response outside 2xx is passed on and nothing is stored, so
  the next request with that key runs the handler again.
\<close>

theorem errors_not_cached:
  assumes "redis_get e from_json (key_idempotency c k) db = Inr None" and "uuid_parse c h = Some k"
    and "\<not> is_success (hr_status r)"
  shows "idempotency_middleware c (Some e) from_json (Some h) r db =
           \<lparr>ir_response = r, ir_handler_ran = True, ir_task = None\<rparr>"
  using assms by (simp add: idempotency_middleware_def extract_idempotency_key_def Let_def)

end
