(* ===== verification/Livekit.thy ===== *)
theory Livekit
  imports Circuit_Breaker Broadcast_Model
begin

text \<open>
  \<open>shared/services/livekit/mod.rs\<close> and \<open>dto.rs\<close>: the client of the media server.
  The server itself and the signing of its tokens are third-party: a request that leaves the
  process is a \<open>lk_call\<close>, the server's reply and the signer are arguments (\<open>lk_env\<close>), and an
  operation returns its result, the calls it made and the breaker it leaves behind.
\<close>

section \<open>Roles and grants\<close>

datatype livekit_role = RHost | RCohost | RParticipant

fun livekit_role_text :: "livekit_role \<Rightarrow> string" where
  "livekit_role_text RHost = ''host''"
| "livekit_role_text RCohost = ''cohost''"
| "livekit_role_text RParticipant = ''participant''"

fun livekit_role_try_from :: "participant_role \<Rightarrow> broadcast_error + livekit_role" where
  "livekit_role_try_from Host = Inr RHost"
| "livekit_role_try_from Cohost = Inr RCohost"
| "livekit_role_try_from Participant = Inr RParticipant"
| "livekit_role_try_from NoRole = Inl NotParticipant"

text \<open>The grants the code sets; the remaining ones keep the library's defaults.\<close>

record video_grants =
  vg_room :: string
  vg_room_join :: bool
  vg_can_subscribe :: bool
  vg_can_publish :: bool
  vg_room_admin :: bool

fun get_grant :: "livekit_role \<Rightarrow> string \<Rightarrow> video_grants" where
  "get_grant RHost room =
     \<lparr>vg_room = room, vg_room_join = True, vg_can_subscribe = True, vg_can_publish = True,
      vg_room_admin = True\<rparr>"
| "get_grant RCohost room =
     \<lparr>vg_room = room, vg_room_join = True, vg_can_subscribe = True, vg_can_publish = True,
      vg_room_admin = False\<rparr>"
| "get_grant RParticipant room =
     \<lparr>vg_room = room, vg_room_join = True, vg_can_subscribe = True, vg_can_publish = False,
      vg_room_admin = False\<rparr>"

record token_claims =
  tc_identity :: string
  tc_name :: string
  tc_grants :: video_grants
  tc_attributes :: "(string \<times> string) list"
  tc_ttl_secs :: int

definition LIVEKIT_ACCESS_TOKEN_TTL :: int where "LIVEKIT_ACCESS_TOKEN_TTL = 21600"

section \<open>The server as seen by the client\<close>

record room_options =
  ro_max_participants :: nat
  ro_empty_timeout :: nat
  ro_metadata :: string

record participant_permission =
  pp_can_subscribe :: bool
  pp_can_publish :: bool
  pp_can_publish_data :: bool

datatype lk_call =
    CreateRoom string room_options
  | DeleteRoom string
  | ListParticipants string
  | RemoveParticipant string string
  | UpdateParticipant string string participant_permission
  | MutePublishedTrack string string string bool

text \<open>
  \<open>lk_check_now\<close> and \<open>lk_fail_now\<close> are the two instants at which an operation reads the
  monotonic clock, \<open>lk_utc_now\<close> the wall clock; \<open>lk_reply\<close> is the outcome of a call and
  \<open>lk_listing\<close> the identities and join times (Unix seconds) of a room.
\<close>

record lk_env =
  lk_check_now :: int
  lk_fail_now :: int
  lk_utc_now :: timestamp
  lk_reply :: "lk_call \<Rightarrow> string + unit"
  lk_listing :: "string \<Rightarrow> (string \<times> int) list"
  lk_sign :: "token_claims \<Rightarrow> string + string"

definition livekit_new :: circuit_breaker where
  "livekit_new = cb_new 3 30"

section \<open>Tokens\<close>

definition mint_token_with_attributes ::
    "codec \<Rightarrow> lk_env \<Rightarrow> uuid \<Rightarrow> string \<Rightarrow> uuid \<Rightarrow> livekit_role \<Rightarrow> (string \<times> string) list \<Rightarrow> string + string" where
  "mint_token_with_attributes c le user_id user_name broadcast_id role attributes =
     (let room_name = uuid_show c broadcast_id;
          identity = uuid_show c user_id;
          grant = get_grant role room_name
      in lk_sign le \<lparr>tc_identity = identity, tc_name = user_name, tc_grants = grant,
                     tc_attributes = attributes, tc_ttl_secs = LIVEKIT_ACCESS_TOKEN_TTL\<rparr>)"

definition mint_token ::
    "codec \<Rightarrow> lk_env \<Rightarrow> uuid \<Rightarrow> string \<Rightarrow> uuid \<Rightarrow> livekit_role \<Rightarrow> string + string" where
  "mint_token c le user_id user_name broadcast_id role =
     (let room_name = uuid_show c broadcast_id;
          identity = uuid_show c user_id;
          grant = get_grant role room_name
      in lk_sign le \<lparr>tc_identity = identity, tc_name = user_name, tc_grants = grant,
                     tc_attributes = [], tc_ttl_secs = LIVEKIT_ACCESS_TOKEN_TTL\<rparr>)"

definition mint_host_token :: "codec \<Rightarrow> lk_env \<Rightarrow> user_summary \<Rightarrow> uuid \<Rightarrow> string + string" where
  "mint_host_token c le host broadcast_id =
     mint_token c le (us_id host) (us_full_name host) broadcast_id RHost"

definition mint_cohost_token :: "codec \<Rightarrow> lk_env \<Rightarrow> user_summary \<Rightarrow> uuid \<Rightarrow> string + string" where
  "mint_cohost_token c le host broadcast_id =
     mint_token c le (us_id host) (us_full_name host) broadcast_id RCohost"

definition mint_participant_token :: "codec \<Rightarrow> lk_env \<Rightarrow> user_summary \<Rightarrow> uuid \<Rightarrow> string + string" where
  "mint_participant_token c le host broadcast_id =
     mint_token c le (us_id host) (us_full_name host) broadcast_id RParticipant"

section \<open>Rooms, behind the breaker\<close>

type_synonym 'a lk_result = "(broadcast_error + 'a) \<times> lk_call list \<times> circuit_breaker"

definition create_room :: "codec \<Rightarrow> lk_env \<Rightarrow> uuid \<Rightarrow> circuit_breaker \<Rightarrow> unit lk_result" where
  "create_room c le broadcast_id b =
     (case cb_check (lk_check_now le) b of
        (Inl _, b1) \<Rightarrow> (Inl LiveKitUnavailable, [], b1)
      | (Inr _, b1) \<Rightarrow>
          (let room_name = uuid_show c broadcast_id;
               options = \<lparr>ro_max_participants = 10000, ro_empty_timeout = 300, ro_metadata = room_name\<rparr>;
               call = CreateRoom room_name options
           in case lk_reply le call of
                Inr _ \<Rightarrow> (Inr (), [call], cb_on_success b1)
              | Inl e \<Rightarrow> (Inl (LiveKit e), [call], cb_on_failure (lk_fail_now le) b1)))"

definition delete_room :: "codec \<Rightarrow> lk_env \<Rightarrow> uuid \<Rightarrow> circuit_breaker \<Rightarrow> unit lk_result" where
  "delete_room c le broadcast_id b =
     (case cb_check (lk_check_now le) b of
        (Inl _, b1) \<Rightarrow> (Inl LiveKitUnavailable, [], b1)
      | (Inr _, b1) \<Rightarrow>
          (let call = DeleteRoom (uuid_show c broadcast_id)
           in case lk_reply le call of
                Inr _ \<Rightarrow> (Inr (), [call], cb_on_success b1)
              | Inl e \<Rightarrow> (Inl (LiveKit e), [call], cb_on_failure (lk_fail_now le) b1)))"

section \<open>Participants, without the breaker\<close>

record livekit_participant_info =
  lp_id :: uuid
  lp_joined_at :: timestamp

definition from_unix_timestamp :: "codec \<Rightarrow> int \<Rightarrow> timestamp option" where
  "from_unix_timestamp c secs = (if ts_ok c (secs * 1000000000) then Some (secs * 1000000000) else None)"

fun collect_participants ::
    "codec \<Rightarrow> timestamp \<Rightarrow> (string \<times> int) list \<Rightarrow> livekit_participant_info list" where
  "collect_participants c now [] = []"
| "collect_participants c now ((identity, joined_at) # ps) =
     (case uuid_parse c identity of
        Some i \<Rightarrow>
          \<lparr>lp_id = i,
           lp_joined_at = (case from_unix_timestamp c joined_at of Some t \<Rightarrow> t | None \<Rightarrow> now)\<rparr> #
          collect_participants c now ps
      | None \<Rightarrow> collect_participants c now ps)"

definition list_participants ::
    "codec \<Rightarrow> lk_env \<Rightarrow> uuid \<Rightarrow> (broadcast_error + livekit_participant_info list) \<times> lk_call list" where
  "list_participants c le broadcast_id =
     (let room_name = uuid_show c broadcast_id; call = ListParticipants room_name
      in case lk_reply le call of
           Inl e \<Rightarrow> (Inl (LiveKit e), [call])
         | Inr _ \<Rightarrow> (Inr (collect_participants c (lk_utc_now le) (lk_listing le room_name)), [call]))"

definition lk_unit_call :: "lk_env \<Rightarrow> lk_call \<Rightarrow> (broadcast_error + unit) \<times> lk_call list" where
  "lk_unit_call le call =
     (case lk_reply le call of Inl e \<Rightarrow> (Inl (LiveKit e), [call]) | Inr _ \<Rightarrow> (Inr (), [call]))"

definition remove_participant ::
    "codec \<Rightarrow> lk_env \<Rightarrow> uuid \<Rightarrow> uuid \<Rightarrow> (broadcast_error + unit) \<times> lk_call list" where
  "remove_participant c le broadcast_id user_id =
     lk_unit_call le (RemoveParticipant (uuid_show c broadcast_id) (uuid_show c user_id))"

definition update_permission ::
    "codec \<Rightarrow> lk_env \<Rightarrow> uuid \<Rightarrow> uuid \<Rightarrow> bool \<Rightarrow> (broadcast_error + unit) \<times> lk_call list" where
  "update_permission c le broadcast_id user_id can_publish =
     lk_unit_call le (UpdateParticipant (uuid_show c broadcast_id) (uuid_show c user_id)
       \<lparr>pp_can_subscribe = True, pp_can_publish = False, pp_can_publish_data = can_publish\<rparr>)"

definition mute_participant ::
    "codec \<Rightarrow> lk_env \<Rightarrow> uuid \<Rightarrow> uuid \<Rightarrow> string \<Rightarrow> bool \<Rightarrow> (broadcast_error + unit) \<times> lk_call list" where
  "mute_participant c le broadcast_id user_id track_sid muted =
     lk_unit_call le (MutePublishedTrack (uuid_show c broadcast_id) (uuid_show c user_id) track_sid muted)"

section \<open>Room requests and the breaker\<close>

text \<open>Any sequence of room requests, each in its own environment.\<close>

datatype room_op = OpenRoom uuid | CloseRoom uuid

fun room_call :: "codec \<Rightarrow> room_op \<Rightarrow> lk_call" where
  "room_call c (OpenRoom i) = CreateRoom (uuid_show c i)
     \<lparr>ro_max_participants = 10000, ro_empty_timeout = 300, ro_metadata = uuid_show c i\<rparr>"
| "room_call c (CloseRoom i) = DeleteRoom (uuid_show c i)"

fun room_step :: "codec \<Rightarrow> lk_env \<times> room_op \<Rightarrow> circuit_breaker \<Rightarrow> unit lk_result" where
  "room_step c (le, OpenRoom i) b = create_room c le i b"
| "room_step c (le, CloseRoom i) b = delete_room c le i b"

fun room_run ::
    "codec \<Rightarrow> (lk_env \<times> room_op) list \<Rightarrow> circuit_breaker \<Rightarrow>
     (broadcast_error + unit) list \<times> lk_call list \<times> circuit_breaker" where
  "room_run c [] b = ([], [], b)"
| "room_run c (x # xs) b =
     (case room_step c x b of (r, calls, b1) \<Rightarrow>
        (case room_run c xs b1 of (rs, cs, b2) \<Rightarrow> (r # rs, calls @ cs, b2)))"

text \<open>Both requests are the guarded caller of the breaker's contract.\<close>

lemma room_step_guarded:
  "room_step c (le, op) b =
     (case breaker.guarded (lk_check_now le) (lk_fail_now le) (is_ok (lk_reply le (room_call c op))) b of
        (False, _, b1) \<Rightarrow> (Inl LiveKitUnavailable, [], b1)
      | (True, _, b1) \<Rightarrow>
          (case lk_reply le (room_call c op) of Inr _ \<Rightarrow> Inr () | Inl e \<Rightarrow> Inl (LiveKit e),
           [room_call c op], b1))"
  by (cases op)
    (auto simp: create_room_def delete_room_def breaker.guarded_def Let_def split: prod.splits sum.splits)

lemma room_run_state: "snd (snd (room_run c (x # xs) b)) = snd (snd (room_run c xs (snd (snd (room_step c x b)))))"
  by (simp add: case_prod_beta)

lemma room_run_step:
  "room_step c x b = (r, cs, b1) \<Longrightarrow> room_run c xs b1 = (rs, cs', b2) \<Longrightarrow>
     room_run c (x # xs) b = (r # rs, cs @ cs', b2)"
  by simp

lemma room_step_state:
  "snd (snd (room_step c (le, op) b)) =
     snd (snd (breaker.guarded (lk_check_now le) (lk_fail_now le) (is_ok (lk_reply le (room_call c op))) b))"
  by (auto simp: room_step_guarded split: prod.splits bool.splits)

lemma room_step_inv: "cb_inv b \<Longrightarrow> cb_inv (snd (snd (room_step c x b)))"
  by (cases x) (simp add: room_step_state breaker.guarded_inv)

lemma room_run_inv: "cb_inv b \<Longrightarrow> cb_inv (snd (snd (room_run c xs b)))"
  by (induction xs arbitrary: b) (simp_all add: room_run_state room_step_inv del: room_run.simps(2))

lemma room_step_params:
  "cb_failure_threshold (snd (snd (room_step c x b))) = cb_failure_threshold b"
  "cb_open_duration (snd (snd (room_step c x b))) = cb_open_duration b"
  using cb_step_params [of b "Check (lk_check_now (fst x))"]
    cb_step_params [of "snd (cb_check (lk_check_now (fst x)) b)" Success]
    cb_step_params [of "snd (cb_check (lk_check_now (fst x)) b)" "Failure (lk_fail_now (fst x))"]
  by (cases x; cases "snd x"; auto simp: create_room_def delete_room_def Let_def split: prod.splits sum.splits)+

lemma room_run_params:
  "cb_failure_threshold (snd (snd (room_run c xs b))) = cb_failure_threshold b"
  "cb_open_duration (snd (snd (room_run c xs b))) = cb_open_duration b"
  by (induction xs arbitrary: b)
    (simp_all add: room_run_state room_step_params del: room_run.simps(2))

lemma room_step_abs:
  assumes "cb_inv b"
  shows "room_step c (le, op) b =
     (if fst (spec_check (cb_open_duration b) (lk_check_now le) (breaker_abs b))
      then (case lk_reply le (room_call c op) of Inr _ \<Rightarrow> Inr () | Inl e \<Rightarrow> Inl (LiveKit e),
            [room_call c op], snd (snd (room_step c (le, op) b)))
      else (Inl LiveKitUnavailable, [], b))"
  using cb_check_refines [OF assms, of "lk_check_now le"]
    breaker.guarded_refused [of "lk_check_now le" "lk_fail_now le" "is_ok (lk_reply le (room_call c op))" b]
  by (auto simp: room_step_guarded breaker.guarded_def split: prod.splits sum.splits)

lemma room_step_next:
  assumes "cb_inv b"
  shows "breaker_abs (snd (snd (room_step c (le, op) b))) =
     (let (ok, s) = spec_check (cb_open_duration b) (lk_check_now le) (breaker_abs b)
      in if \<not> ok then breaker_abs b
         else if is_ok (lk_reply le (room_call c op)) then spec_success s
         else spec_failure (unat (cb_failure_threshold b)) (lk_fail_now le) s)"
proof -
  let ?g = "snd (cb_check (lk_check_now le) b)"
  have c: "spec_check (cb_open_duration b) (lk_check_now le) (breaker_abs b) =
      (is_ok (fst (cb_check (lk_check_now le) b)), breaker_abs ?g)"
    by (rule cb_check_refines [OF assms])
  have "cb_inv ?g" by (rule cb_check_inv [OF assms])
  note n = cb_on_success_refines [OF this] cb_on_failure_refines [OF this, of "lk_fail_now le"]
  have p: "cb_failure_threshold ?g = cb_failure_threshold b"
    using cb_step_params(1) [of b "Check (lk_check_now le)"] by simp
  have "fst (cb_check (lk_check_now le) b) = Inl e \<Longrightarrow> ?g = b" for e
    by (rule breaker.refused_same)
  with c n p show ?thesis
    by (cases "cb_check (lk_check_now le) b"; cases "fst (cb_check (lk_check_now le) b)")
      (auto simp: room_step_guarded breaker.guarded_def Let_def)
qed

lemma livekit_run:
  assumes "b = snd (snd (room_run c pre livekit_new))"
  shows "cb_inv b" "cb_failure_threshold b = 3" "cb_open_duration b = 30000000000"
proof -
  have "cb_inv livekit_new" by (simp add: livekit_new_def cb_new_inv)
  then show "cb_inv b" using assms room_run_inv by simp
  show "cb_failure_threshold b = 3" "cb_open_duration b = 30000000000"
    using room_run_params [of c pre livekit_new] assms
    by (simp_all add: livekit_new_def cb_new_def nanos_per_sec_def)
qed

lemma tripped_refuses:
  assumes "cb_inv b" and "breaker_abs b = Tripped t" and "cb_open_duration b = d" and "0 < d"
    and "list_all (\<lambda>x. lk_check_now (fst x) - t < d) xs"
  shows "room_run c xs b = (replicate (length xs) (Inl LiveKitUnavailable), [], b)"
  using assms(5)
proof (induction xs)
  case (Cons x xs)
  obtain le op where x: "x = (le, op)" by (cases x)
  have "room_step c x b = (Inl LiveKitUnavailable, [], b)"
    using Cons.prems assms(2-4) by (subst x, subst room_step_abs [OF assms(1)]) (simp add: x max_def)
  with Cons show ?case by simp
qed simp

text \<open>C20. The media server is left alone while it fails: whatever room requests came before, once the
  breaker counts no failures, three requests that the server fails open it, and from then on
  every request whose check falls within 30 seconds of the third failure is answered
  \<open>LiveKitUnavailable\<close> without a call to the server and leaves the breaker as it is.
\<close>

theorem livekit_fails_fast:
  assumes b: "b = snd (snd (room_run c pre livekit_new))" and zero: "breaker_abs b = Counting 0"
    and fails: "lk_reply l1 (room_call c o1) = Inl e1" "lk_reply l2 (room_call c o2) = Inl e2"
      "lk_reply l3 (room_call c o3) = Inl e3"
    and later: "list_all (\<lambda>x. lk_check_now (fst x) - lk_fail_now l3 < 30000000000) xs"
  shows "\<exists>b'. room_run c ([(l1, o1), (l2, o2), (l3, o3)] @ xs) b =
     ([Inl (LiveKit e1), Inl (LiveKit e2), Inl (LiveKit e3)] @ replicate (length xs) (Inl LiveKitUnavailable),
      [room_call c o1, room_call c o2, room_call c o3], b')"
proof -
  note inv0 = livekit_run [OF b]
  let ?s = "\<lambda>x b. snd (snd (room_step c x b))"
  let ?b1 = "?s (l1, o1) b" and ?b2 = "?s (l2, o2) (?s (l1, o1) b)"
  let ?b3 = "?s (l3, o3) (?s (l2, o2) (?s (l1, o1) b))"
  have inv: "cb_inv ?b1" "cb_inv ?b2" "cb_inv ?b3"
    using inv0(1) by (simp_all add: room_step_inv)
  have par: "cb_failure_threshold ?b1 = 3" "cb_failure_threshold ?b2 = 3"
      "cb_open_duration ?b1 = 30000000000" "cb_open_duration ?b2 = 30000000000"
      "cb_open_duration ?b3 = 30000000000"
    by (simp_all add: room_step_params inv0)
  have a1: "breaker_abs ?b1 = Counting 1"
    using room_step_next [OF inv0(1), of c l1 o1] zero fails(1) inv0(2) by simp
  have a2: "breaker_abs ?b2 = Counting 2"
    using room_step_next [OF inv(1), of c l2 o2] a1 fails(2) par by simp
  have a3: "breaker_abs ?b3 = Tripped (lk_fail_now l3)"
    using room_step_next [OF inv(2), of c l3 o3] a2 fails(3) par by simp
  have "room_step c (l1, o1) b = (Inl (LiveKit e1), [room_call c o1], ?b1)"
    by (subst room_step_abs [OF inv0(1)]) (simp add: zero fails)
  moreover have "room_step c (l2, o2) ?b1 = (Inl (LiveKit e2), [room_call c o2], ?b2)"
    by (subst room_step_abs [OF inv(1)]) (simp add: a1 fails)
  moreover have "room_step c (l3, o3) ?b2 = (Inl (LiveKit e3), [room_call c o3], ?b3)"
    by (subst room_step_abs [OF inv(2)]) (simp add: a2 fails)
  moreover have "room_run c xs ?b3 = (replicate (length xs) (Inl LiveKitUnavailable), [], ?b3)"
    by (rule tripped_refuses [OF inv(3) a3 par(5) _ later]) simp
  ultimately have "room_run c ((l1, o1) # (l2, o2) # (l3, o3) # xs) b =
     (Inl (LiveKit e1) # Inl (LiveKit e2) # Inl (LiveKit e3) # replicate (length xs) (Inl LiveKitUnavailable),
      [room_call c o1] @ [room_call c o2] @ [room_call c o3] @ [], ?b3)"
    by (intro room_run_step)
  then show ?thesis by simp
qed

definition failing_env :: "int \<Rightarrow> lk_env" where
  "failing_env t =
     \<lparr>lk_check_now = t, lk_fail_now = t, lk_utc_now = t, lk_reply = (\<lambda>call. Inl ''timeout''),
      lk_listing = (\<lambda>room. []), lk_sign = (\<lambda>claims. Inr ''jwt'')\<rparr>"

theorem livekit_fails_fast_witness:
  "\<exists>b'. room_run plain_codec ([(failing_env 1, OpenRoom 7), (failing_env 2, OpenRoom 8),
        (failing_env 3, CloseRoom 9)] @ [(failing_env 30000000002, OpenRoom 7)]) livekit_new =
     ([Inl (LiveKit ''timeout''), Inl (LiveKit ''timeout''), Inl (LiveKit ''timeout'')] @
        replicate (length [(failing_env 30000000002, OpenRoom 7)]) (Inl LiveKitUnavailable),
      [room_call plain_codec (OpenRoom 7), room_call plain_codec (OpenRoom 8),
       room_call plain_codec (CloseRoom 9)], b')"
  by (rule livekit_fails_fast [where pre = "[]"])
    (simp_all add: failing_env_def livekit_new_def cb_new_def breaker_abs_def cb_get_state_def)

section \<open>What a token allows\<close>

text \<open>C29. A token allows what its role allows, for that room alone: everyone may join and subscribe,
  exactly hosts and cohosts may publish, exactly hosts administer the room, every token names its
  holder and expires after six hours, and the only participant role without a token is
  \<open>NoRole\<close>, whose error is \<open>NotParticipant\<close>.
\<close>

theorem token_grants:
  "(livekit_role_try_from role = Inl err) = (role = NoRole \<and> NotParticipant = err) \<and>
   (\<forall>r. livekit_role_try_from role = Inr r \<longrightarrow>
      mint_token c le uid name bid r =
        lk_sign le \<lparr>tc_identity = uuid_show c uid, tc_name = name,
          tc_grants = \<lparr>vg_room = uuid_show c bid, vg_room_join = True, vg_can_subscribe = True,
                       vg_can_publish = (role \<in> {Host, Cohost}), vg_room_admin = (role = Host)\<rparr>,
          tc_attributes = [], tc_ttl_secs = 6 * 60 * 60\<rparr>)"
  by (cases role) (simp_all add: mint_token_def LIVEKIT_ACCESS_TOKEN_TTL_def)

theorem token_grants_witness:
  "mint_token plain_codec (failing_env 0) 4 ''ann'' 7 RCohost = Inr ''jwt''"
  using token_grants [of Cohost undefined plain_codec "failing_env 0" 4 "''ann''" 7]
  by (simp add: failing_env_def)

end
