(* ===== verification/Ws_Model.thy ===== *)
theory Ws_Model
  imports Broadcast_Model
begin

text \<open>
  \<open>shared/services/ws/model.rs\<close>, \<open>errors.rs\<close> and \<open>dto.rs\<close>: the events of the
  websocket protocol and their names, the payloads the server sends, the error codes, and the
  heartbeat and grace-period configurations. A payload's data is a JSON value.
\<close>

section \<open>Events\<close>

datatype ws_event =
    Heartbeat | NewBroadcast | EndedBroadcast | ScheduledBroadcast
  | BroadcastDeleted | BroadcastError | HostDisconnectedEvent | HostReconnected
  | ParticipantJoined | ParticipantLeft | ParticipantKicked | NumberOfLiveParticipants
  | CohostInvitation | CohostAccepted | CohostDeclined | CohostDemotion
  | NewCohost | RemovedCohost | RecordingReady | RecordingPublished
  | Notification | HomeInvalidated | NewMessage | EditedMessage
  | DeletedMessage | NewReaction | SendMessage | EditMessage
  | DeleteMessage | SendReaction

text \<open>The arms of \<open>from_str\<close>, in order.\<close>

definition ws_event_arms :: "(string \<times> ws_event) list" where
  "ws_event_arms =
     [(''heartbeat'', Heartbeat),
      (''newBroadcast'', NewBroadcast),
      (''endedBroadcast'', EndedBroadcast),
      (''scheduledBroadcast'', ScheduledBroadcast),
      (''broadcastDeleted'', BroadcastDeleted),
      (''broadcastError'', BroadcastError),
      (''hostDisconnected'', HostDisconnectedEvent),
      (''hostReconnected'', HostReconnected),
      (''participantJoined'', ParticipantJoined),
      (''participantLeft'', ParticipantLeft),
      (''participantKicked'', ParticipantKicked),
      (''numberOfLiveParticipants'', NumberOfLiveParticipants),
      (''cohostInvitation'', CohostInvitation),
      (''cohostAccepted'', CohostAccepted),
      (''cohostDeclined'', CohostDeclined),
      (''newCohost'', NewCohost),
      (''removedCohost'', RemovedCohost),
      (''cohostDemotion'', CohostDemotion),
      (''recordingReady'', RecordingReady),
      (''recordingPublished'', RecordingPublished),
      (''notification'', Notification),
      (''homeInvalidated'', HomeInvalidated),
      (''newMessage'', NewMessage),
      (''editedMessage'', EditedMessage),
      (''deletedMessage'', DeletedMessage),
      (''newReaction'', NewReaction),
      (''sendMessage'', SendMessage),
      (''editMessage'', EditMessage),
      (''deleteMessage'', DeleteMessage),
      (''sendReaction'', SendReaction)]"

definition ws_event_from_str :: "string \<Rightarrow> string + ws_event" where
  "ws_event_from_str s =
     (case map_of ws_event_arms s of
        Some e \<Rightarrow> Inr e
      | None \<Rightarrow> Inl (''Unknown WebSocket event: '' @ s))"

fun ws_event_text :: "ws_event \<Rightarrow> string" where
  "ws_event_text Heartbeat = ''heartbeat''"
| "ws_event_text NewBroadcast = ''newBroadcast''"
| "ws_event_text EndedBroadcast = ''endedBroadcast''"
| "ws_event_text ScheduledBroadcast = ''scheduledBroadcast''"
| "ws_event_text BroadcastDeleted = ''broadcastDeleted''"
| "ws_event_text BroadcastError = ''broadcastError''"
| "ws_event_text HostDisconnectedEvent = ''hostDisconnected''"
| "ws_event_text HostReconnected = ''hostReconnected''"
| "ws_event_text ParticipantJoined = ''participantJoined''"
| "ws_event_text ParticipantLeft = ''participantLeft''"
| "ws_event_text ParticipantKicked = ''participantKicked''"
| "ws_event_text NumberOfLiveParticipants = ''numberOfLiveParticipants''"
| "ws_event_text CohostInvitation = ''cohostInvitation''"
| "ws_event_text CohostAccepted = ''cohostAccepted''"
| "ws_event_text CohostDeclined = ''cohostDeclined''"
| "ws_event_text CohostDemotion = ''cohostDemotion''"
| "ws_event_text NewCohost = ''newCohost''"
| "ws_event_text RemovedCohost = ''removedCohost''"
| "ws_event_text RecordingReady = ''recordingReady''"
| "ws_event_text RecordingPublished = ''recordingPublished''"
| "ws_event_text Notification = ''notification''"
| "ws_event_text HomeInvalidated = ''homeInvalidated''"
| "ws_event_text NewMessage = ''newMessage''"
| "ws_event_text EditedMessage = ''editedMessage''"
| "ws_event_text DeletedMessage = ''deletedMessage''"
| "ws_event_text NewReaction = ''newReaction''"
| "ws_event_text SendMessage = ''sendMessage''"
| "ws_event_text EditMessage = ''editMessage''"
| "ws_event_text DeleteMessage = ''deleteMessage''"
| "ws_event_text SendReaction = ''sendReaction''"

lemma ws_event_from_text [simp]: "ws_event_from_str (ws_event_text e) = Inr e"
  by (cases e; hypsubst; code_simp)

text \<open>Event names round-trip: the name an event is shown with reads back as that event, and a text
  that reads as an event is exactly that event's name, so no two events share a name and no
  other text is accepted.
\<close>

theorem ws_event_names:
  "ws_event_from_str (ws_event_text e) = Inr e \<and>
   (ws_event_from_str s = Inr e) = (s = ws_event_text e)"
proof -
  have b: "(t, e) \<in> set ws_event_arms \<Longrightarrow> t = ws_event_text e" for t
    by (auto simp: ws_event_arms_def)
  have "ws_event_from_str s = Inr e \<Longrightarrow> s = ws_event_text e"
    by (rule b) (auto simp: ws_event_from_str_def split: option.splits intro: map_of_SomeD)
  then show ?thesis by auto
qed

section \<open>Payloads\<close>

datatype json =
    JNull | JBool bool | JInt int | JStr string | JArr "json list" | JObj "(string \<times> json) list"

record ws_payload =
  pl_event :: ws_event
  pl_data :: json

datatype ws_error_code =
    TokenExpired | BroadcastForciblyEnded | KickedFromRoom | RoomNotFound | MediaServerError
  | Unsupported

fun ws_error_code_text :: "ws_error_code \<Rightarrow> string" where
  "ws_error_code_text TokenExpired = ''TOKEN_EXPIRED''"
| "ws_error_code_text BroadcastForciblyEnded = ''BROADCAST_FORCIBLY_ENDED''"
| "ws_error_code_text KickedFromRoom = ''KICKED_FROM_ROOM''"
| "ws_error_code_text RoomNotFound = ''ROOM_NOT_FOUND''"
| "ws_error_code_text MediaServerError = ''MEDIA_SERVER_ERROR''"
| "ws_error_code_text Unsupported = ''UNSUPPORTED''"

definition is_recoverable :: "ws_error_code \<Rightarrow> bool" where
  "is_recoverable ec = (case ec of TokenExpired \<Rightarrow> True | MediaServerError \<Rightarrow> True | _ \<Rightarrow> False)"

record ws_error =
  we_broadcast_id :: uuid
  we_code :: ws_error_code
  we_message :: string
  we_recoverable :: bool
  we_data :: "json option"

definition json_uuid :: "codec \<Rightarrow> uuid \<Rightarrow> json" where
  "json_uuid c i = JStr (uuid_show c i)"

definition ws_error_json :: "codec \<Rightarrow> ws_error \<Rightarrow> json" where
  "ws_error_json c e =
     JObj [(''broadcastId'', json_uuid c (we_broadcast_id e)),
           (''code'', JStr (ws_error_code_text (we_code e))),
           (''message'', JStr (we_message e)),
           (''recoverable'', JBool (we_recoverable e)),
           (''data'', case we_data e of Some d \<Rightarrow> d | None \<Rightarrow> JNull)]"

definition payload_new :: "ws_event \<Rightarrow> json \<Rightarrow> ws_payload" where
  "payload_new event body = \<lparr>pl_event = event, pl_data = body\<rparr>"

definition payload_error :: "codec \<Rightarrow> uuid \<Rightarrow> ws_error_code \<Rightarrow> string \<Rightarrow> ws_payload" where
  "payload_error c broadcast_id ec msg =
     payload_new BroadcastError
       (ws_error_json c \<lparr>we_broadcast_id = broadcast_id, we_code = ec, we_message = msg,
                         we_recoverable = is_recoverable ec, we_data = None\<rparr>)"

text \<open>The JSON form of the current instant is the time library's: it is an argument.\<close>

definition payload_notification :: "codec \<Rightarrow> json \<Rightarrow> uuid \<Rightarrow> string \<Rightarrow> string \<Rightarrow> ws_payload" where
  "payload_notification c now_json user_id title body =
     payload_new Notification
       (JObj [(''userId'', json_uuid c user_id), (''title'', JStr title), (''body'', JStr body),
              (''timestamp'', now_json)])"

definition payload_host_disconnected :: "codec \<Rightarrow> uuid \<Rightarrow> 64 word \<Rightarrow> 64 word \<Rightarrow> ws_payload" where
  "payload_host_disconnected c broadcast_id grace_period disconnect_count =
     payload_new HostDisconnectedEvent
       (JObj [(''broadcastId'', json_uuid c broadcast_id), (''gracePeriodInSecs'', JInt (uint grace_period)),
              (''disconnectCount'', JInt (uint disconnect_count))])"

definition payload_host_reconnected :: "codec \<Rightarrow> uuid \<Rightarrow> ws_payload" where
  "payload_host_reconnected c broadcast_id =
     payload_new HostReconnected (JObj [(''broadcastId'', json_uuid c broadcast_id)])"

definition payload_number_of_live_participants :: "codec \<Rightarrow> uuid \<Rightarrow> int \<Rightarrow> ws_payload" where
  "payload_number_of_live_participants c broadcast_id count =
     payload_new NumberOfLiveParticipants
       (JObj [(''broadcastId'', json_uuid c broadcast_id), (''count'', JInt count)])"

definition payload_ended_broadcast :: "codec \<Rightarrow> uuid \<Rightarrow> end_reason \<Rightarrow> ws_payload" where
  "payload_ended_broadcast c broadcast_id reason =
     payload_new EndedBroadcast
       (JObj [(''broadcastId'', json_uuid c broadcast_id), (''reason'', JStr (end_reason_to_string reason))])"

definition payload_cohost_accepted :: "codec \<Rightarrow> uuid \<Rightarrow> uuid \<Rightarrow> string \<Rightarrow> ws_payload" where
  "payload_cohost_accepted c broadcast_id user_id user_name =
     payload_new CohostAccepted
       (JObj [(''broadcastId'', json_uuid c broadcast_id), (''userId'', json_uuid c user_id),
              (''userName'', JStr user_name)])"

definition payload_cohost_declined :: "codec \<Rightarrow> uuid \<Rightarrow> uuid \<Rightarrow> ws_payload" where
  "payload_cohost_declined c broadcast_id user_id =
     payload_new CohostDeclined
       (JObj [(''broadcastId'', json_uuid c broadcast_id), (''userId'', json_uuid c user_id)])"

definition payload_cohost_invitation :: "codec \<Rightarrow> uuid \<Rightarrow> string \<Rightarrow> ws_payload" where
  "payload_cohost_invitation c broadcast_id token =
     payload_new NewCohost
       (JObj [(''broadcastId'', json_uuid c broadcast_id), (''token'', JStr token)])"

definition payload_cohost_demotion :: "codec \<Rightarrow> uuid \<Rightarrow> string \<Rightarrow> ws_payload" where
  "payload_cohost_demotion c broadcast_id token =
     payload_new CohostDemotion
       (JObj [(''broadcastId'', json_uuid c broadcast_id), (''token'', JStr token)])"

definition payload_recording_ready :: "codec \<Rightarrow> uuid \<Rightarrow> ws_payload" where
  "payload_recording_ready c broadcast_id =
     payload_new RecordingReady (JObj [(''broadcastId'', json_uuid c broadcast_id)])"

definition payload_home_invalidated :: "json \<Rightarrow> ws_payload" where
  "payload_home_invalidated now_json = payload_new HomeInvalidated (JObj [(''timestamp'', now_json)])"

definition payload_deleted_message :: "codec \<Rightarrow> uuid \<Rightarrow> uuid \<Rightarrow> ws_payload" where
  "payload_deleted_message c broadcast_id message_id =
     payload_new DeletedMessage
       (JObj [(''messageId'', json_uuid c message_id), (''broadcastId'', json_uuid c broadcast_id)])"

record participant_ws_data =
  pw_broadcast_id :: uuid
  pw_user_id :: uuid
  pw_full_name :: string
  pw_bio :: "string option"
  pw_avatar_url :: "string option"

definition json_opt_str :: "string option \<Rightarrow> json" where
  "json_opt_str s = (case s of Some t \<Rightarrow> JStr t | None \<Rightarrow> JNull)"

definition participant_ws_json :: "codec \<Rightarrow> participant_ws_data \<Rightarrow> json" where
  "participant_ws_json c p =
     JObj [(''broadcastId'', json_uuid c (pw_broadcast_id p)), (''userId'', json_uuid c (pw_user_id p)),
           (''fullName'', JStr (pw_full_name p)), (''bio'', json_opt_str (pw_bio p)),
           (''avatarUrl'', json_opt_str (pw_avatar_url p))]"

section \<open>Timings\<close>

record heartbeat_config =
  ping_interval_secs :: "64 word"
  host_pong_timeout_secs :: "64 word"
  listener_pong_timeout_secs :: "64 word"
  max_missed_pings :: "32 word"

definition heartbeat_default :: heartbeat_config where
  "heartbeat_default =
     \<lparr>ping_interval_secs = 25, host_pong_timeout_secs = 60, listener_pong_timeout_secs = 20,
      max_missed_pings = 2\<rparr>"

record grace_period_config =
  tier1_secs :: "64 word"
  tier2_secs :: "64 word"
  tier3_secs :: "64 word"
  tier4_plus_secs :: "64 word"

definition grace_default :: grace_period_config where
  "grace_default = \<lparr>tier1_secs = 120, tier2_secs = 90, tier3_secs = 60, tier4_plus_secs = 30\<rparr>"

definition get_grace_seconds :: "grace_period_config \<Rightarrow> 64 word \<Rightarrow> 64 word" where
  "get_grace_seconds g disconnect_count =
     (if disconnect_count = 1 then tier1_secs g
      else if disconnect_count = 2 then tier2_secs g
      else if disconnect_count = 3 then tier3_secs g
      else tier4_plus_secs g)"

text \<open>The grace period shrinks with every disconnect: by default the first one leaves two minutes,
  a later one never more than an earlier one, and none less than thirty seconds.
\<close>

theorem grace_shrinks:
  "unat (get_grace_seconds grace_default 1) = 120 \<and> 30 \<le> get_grace_seconds grace_default n \<and>
   (0 < n \<and> n \<le> m \<longrightarrow> get_grace_seconds grace_default m \<le> get_grace_seconds grace_default n)"
proof -
  have "n = 1" if "0 < n" "n \<le> 1" for n :: "64 word"
    using that by unat_arith
  moreover have "n = 1 \<or> n = 2" if "0 < n" "n \<le> 2" for n :: "64 word"
    using that by unat_arith
  moreover have "n = 1 \<or> n = 2 \<or> n = 3" if "0 < n" "n \<le> 3" for n :: "64 word"
    using that by unat_arith
  moreover have "\<not> 3 \<le> (1 :: 64 word)" "\<not> 2 \<le> (1 :: 64 word)" "\<not> 3 \<le> (2 :: 64 word)" by unat_arith+
  ultimately show ?thesis
    by (auto simp: get_grace_seconds_def grace_default_def)
qed

theorem grace_shrinks_witness:
  "get_grace_seconds grace_default 7 \<le> get_grace_seconds grace_default 2"
  using grace_shrinks [of 2 7] by simp

end
