(* ===== verification/Ws_Service.thy ===== *)
theory Ws_Service
  imports Ws_Model Redis_Keys "HOL-Library.AList"
begin

text \<open>
  \<open>shared/services/ws/mod.rs\<close>: the connections of one API instance. The two concurrent maps
  are association lists (the order is the map's iteration order); the sending half of a
  connection's channel is a handle, and an operation that sends returns the list of
  (handle, payload) pairs it sent, in order. A send to a closed channel is ignored by the code
  and appears in that list like any other.
\<close>

definition MAX_WS_CONNECTIONS_PER_USER :: nat where "MAX_WS_CONNECTIONS_PER_USER = 5"
definition MESSAGE_BUFFER_SIZE :: int where "MESSAGE_BUFFER_SIZE = 50"
definition MESSAGE_BUFFER_TTL_SECS :: int where "MESSAGE_BUFFER_TTL_SECS = 300"

section \<open>State\<close>

record connection_sender =
  cs_conn_id :: "64 word"
  cs_sender :: nat

record ws_service =
  ws_clients :: "(uuid \<times> connection_sender list) list"
  ws_rooms :: "(uuid \<times> uuid list) list"
  ws_conn_seq :: "64 word"

type_synonym sends = "(nat \<times> ws_payload) list"

definition ws_new :: ws_service where
  "ws_new = \<lparr>ws_clients = [], ws_rooms = [], ws_conn_seq = 0\<rparr>"

definition or_nil :: "'a list option \<Rightarrow> 'a list" where
  "or_nil r = (case r of Some xs \<Rightarrow> xs | None \<Rightarrow> [])"

lemma or_nil_simps [simp]: "or_nil None = []" "or_nil (Some xs) = xs"
  by (simp_all add: or_nil_def)

definition conns :: "ws_service \<Rightarrow> uuid \<Rightarrow> connection_sender list" where
  "conns s u = or_nil (map_of (ws_clients s) u)"

definition members :: "ws_service \<Rightarrow> uuid \<Rightarrow> uuid list" where
  "members s b = or_nil (map_of (ws_rooms s) b)"

section \<open>Connections\<close>

definition ws_register :: "uuid \<Rightarrow> nat \<Rightarrow> ws_service \<Rightarrow> 64 word option \<times> ws_service" where
  "ws_register user_id sender s =
     (let es = conns s user_id;
          s1 = s\<lparr>ws_clients := AList.update user_id es (ws_clients s)\<rparr>
      in if MAX_WS_CONNECTIONS_PER_USER \<le> length es then (None, s1)
         else
           (let conn_id = ws_conn_seq s1
            in (Some conn_id,
                s1\<lparr>ws_conn_seq := conn_id + 1,
                   ws_clients := AList.update user_id
                     (es @ [\<lparr>cs_conn_id = conn_id, cs_sender = sender\<rparr>]) (ws_clients s1)\<rparr>)))"

text \<open>
  \<open>unregister\<close> works in two critical sections: it filters the entry, and when that left it
  empty it releases the entry and then removes the user.
\<close>

definition unregister_retain :: "uuid \<Rightarrow> 64 word \<Rightarrow> ws_service \<Rightarrow> bool \<times> ws_service" where
  "unregister_retain user_id conn_id s =
     (case map_of (ws_clients s) user_id of
        None \<Rightarrow> (False, s)
      | Some es \<Rightarrow>
          (let es' = filter (\<lambda>c. cs_conn_id c \<noteq> conn_id) es
           in (es' = [], s\<lparr>ws_clients := AList.update user_id es' (ws_clients s)\<rparr>)))"

definition unregister_remove :: "uuid \<Rightarrow> ws_service \<Rightarrow> ws_service" where
  "unregister_remove user_id s = s\<lparr>ws_clients := AList.delete user_id (ws_clients s)\<rparr>"

definition ws_unregister :: "uuid \<Rightarrow> 64 word \<Rightarrow> ws_service \<Rightarrow> ws_service" where
  "ws_unregister user_id conn_id s =
     (case unregister_retain user_id conn_id s of
        (became_empty, s1) \<Rightarrow> if became_empty then unregister_remove user_id s1 else s1)"

definition is_online :: "ws_service \<Rightarrow> uuid \<Rightarrow> bool" where
  "is_online s user_id \<longleftrightarrow> map_of (ws_clients s) user_id \<noteq> None"

definition connection_count :: "ws_service \<Rightarrow> uuid \<Rightarrow> nat" where
  "connection_count s user_id =
     (case map_of (ws_clients s) user_id of None \<Rightarrow> 0 | Some v \<Rightarrow> length v)"

definition get_online_users :: "ws_service \<Rightarrow> uuid list" where
  "get_online_users s = map fst (ws_clients s)"

section \<open>Rooms\<close>

text \<open>The local halves of \<open>join_room\<close> and \<open>leave_room\<close>.\<close>

definition room_insert :: "uuid \<Rightarrow> uuid \<Rightarrow> ws_service \<Rightarrow> ws_service" where
  "room_insert broadcast_id user_id s =
     s\<lparr>ws_rooms := AList.update broadcast_id (List.insert user_id (members s broadcast_id)) (ws_rooms s)\<rparr>"

definition room_remove :: "uuid \<Rightarrow> uuid \<Rightarrow> ws_service \<Rightarrow> ws_service" where
  "room_remove broadcast_id user_id s =
     (case map_of (ws_rooms s) broadcast_id of
        None \<Rightarrow> s
      | Some room \<Rightarrow>
          (let room' = removeAll user_id room
           in if room' = [] then s\<lparr>ws_rooms := AList.delete broadcast_id (ws_rooms s)\<rparr>
              else s\<lparr>ws_rooms := AList.update broadcast_id room' (ws_rooms s)\<rparr>))"

definition add_local_room_member :: "uuid \<Rightarrow> uuid \<Rightarrow> ws_service \<Rightarrow> bool \<times> ws_service" where
  "add_local_room_member broadcast_id user_id s =
     (let room = members s broadcast_id; was_empty = (room = [])
      in (was_empty,
          s\<lparr>ws_rooms := AList.update broadcast_id (List.insert user_id room) (ws_rooms s)\<rparr>))"

definition remove_local_room_member :: "uuid \<Rightarrow> uuid \<Rightarrow> ws_service \<Rightarrow> bool \<times> ws_service" where
  "remove_local_room_member broadcast_id user_id s =
     (case map_of (ws_rooms s) broadcast_id of
        None \<Rightarrow> (False, s)
      | Some room \<Rightarrow>
          (let room' = removeAll user_id room; became_empty = (room' = [])
           in (became_empty,
               if became_empty then s\<lparr>ws_rooms := AList.delete broadcast_id (ws_rooms s)\<rparr>
               else s\<lparr>ws_rooms := AList.update broadcast_id room' (ws_rooms s)\<rparr>)))"

definition clear_local_room :: "uuid \<Rightarrow> ws_service \<Rightarrow> uuid list \<times> ws_service" where
  "clear_local_room broadcast_id s =
     (or_nil (map_of (ws_rooms s) broadcast_id),
      s\<lparr>ws_rooms := AList.delete broadcast_id (ws_rooms s)\<rparr>)"

section \<open>Delivery\<close>

definition send_each :: "connection_sender list \<Rightarrow> ws_payload \<Rightarrow> sends" where
  "send_each senders payload = map (\<lambda>c. (cs_sender c, payload)) senders"

definition send_to_room :: "uuid \<Rightarrow> ws_payload \<Rightarrow> ws_service \<Rightarrow> sends" where
  "send_to_room broadcast_id payload s =
     (case map_of (ws_rooms s) broadcast_id of
        None \<Rightarrow> []
      | Some room \<Rightarrow>
          concat (map (\<lambda>u. case map_of (ws_clients s) u of
                             Some senders \<Rightarrow> send_each senders payload | None \<Rightarrow> []) room))"

text \<open>
  A payload is stored as the text \<open>serde_json\<close> gives it, when it gives one; the three commands
  run one after the other and their failures are ignored.
\<close>

definition buffer_message ::
    "codec \<Rightarrow> redis_env \<Rightarrow> (ws_payload \<Rightarrow> string option) \<Rightarrow> uuid \<Rightarrow> ws_payload \<Rightarrow> keyspace \<Rightarrow> keyspace" where
  "buffer_message c e to_json user_id payload db =
     (let key = key_ws_buffer c user_id
      in case to_json payload of
           None \<Rightarrow> db
         | Some json \<Rightarrow>
             (let db1 = snd (redis_lpush e key json db);
                  db2 = snd (redis_ltrim e key 0 MESSAGE_BUFFER_SIZE db1)
              in snd (redis_expire e key MESSAGE_BUFFER_TTL_SECS db2)))"

definition send_to_user ::
    "codec \<Rightarrow> redis_env \<Rightarrow> (ws_payload \<Rightarrow> string option) \<Rightarrow> uuid \<Rightarrow> ws_payload \<Rightarrow> ws_service \<Rightarrow> keyspace \<Rightarrow>
     sends \<times> keyspace" where
  "send_to_user c e to_json user_id payload s db =
     (case map_of (ws_clients s) user_id of
        Some senders \<Rightarrow> (send_each senders payload, db)
      | None \<Rightarrow> ([], buffer_message c e to_json user_id payload db))"

fun send_to_users ::
    "codec \<Rightarrow> redis_env \<Rightarrow> (ws_payload \<Rightarrow> string option) \<Rightarrow> uuid list \<Rightarrow> ws_payload \<Rightarrow> ws_service \<Rightarrow>
     keyspace \<Rightarrow> sends \<times> keyspace" where
  "send_to_users c e to_json [] payload s db = ([], db)"
| "send_to_users c e to_json (u # us) payload s db =
     (case map_of (ws_clients s) u of
        Some senders \<Rightarrow>
          (case send_to_users c e to_json us payload s db of
             (out, db1) \<Rightarrow> (send_each senders payload @ out, db1))
      | None \<Rightarrow> send_to_users c e to_json us payload s (buffer_message c e to_json u payload db))"

definition hub_broadcast_all :: "ws_payload \<Rightarrow> ws_service \<Rightarrow> sends" where
  "hub_broadcast_all payload s = concat (map (\<lambda>(_, senders). send_each senders payload) (ws_clients s))"

definition send_error ::
    "codec \<Rightarrow> redis_env \<Rightarrow> (ws_payload \<Rightarrow> string option) \<Rightarrow> uuid \<Rightarrow> uuid \<Rightarrow> ws_error_code \<Rightarrow> string \<Rightarrow>
     ws_service \<Rightarrow> keyspace \<Rightarrow> sends \<times> keyspace" where
  "send_error c e to_json user_id broadcast_id ec msg s db =
     send_to_user c e to_json user_id (payload_error c broadcast_id ec msg) s db"

definition send_unsupported_error ::
    "codec \<Rightarrow> redis_env \<Rightarrow> (ws_payload \<Rightarrow> string option) \<Rightarrow> uuid \<Rightarrow> string \<Rightarrow> ws_service \<Rightarrow> keyspace \<Rightarrow>
     sends \<times> keyspace" where
  "send_unsupported_error c e to_json user_id msg s db =
     send_error c e to_json user_id nil_uuid Unsupported msg s db"

definition close_all_connections :: "ws_service \<Rightarrow> sends" where
  "close_all_connections s =
     hub_broadcast_all (payload_new BroadcastError
       (JObj [(''code'', JStr ''SERVER_SHUTDOWN''), (''recoverable'', JBool True)])) s"

text \<open>The drain script reads the whole list and deletes the key, atomically.\<close>

definition drain_message_buffer ::
    "codec \<Rightarrow> redis_env \<Rightarrow> (string \<Rightarrow> ws_payload option) \<Rightarrow> uuid \<Rightarrow> keyspace \<Rightarrow> ws_payload list \<times> keyspace" where
  "drain_message_buffer c e from_json user_id db =
     (let key = key_ws_buffer c user_id
      in if r_down e ''EVAL'' key then ([], db)
         else case list_at (r_now e) key db of
                Inl _ \<Rightarrow> ([], db)
              | Inr (items, _) \<Rightarrow>
                  (List.map_filter from_json (rev (list_range 0 (- 1) items)),
                   snd (cmd_del (r_now e) key db)))"

section \<open>Invariant of the registry\<close>

lemma conns_update [simp]: "conns (s\<lparr>ws_clients := AList.update u es (ws_clients s)\<rparr>) v = (if v = u then es else conns s v)"
  by (simp add: conns_def update_conv')

lemma conns_delete [simp]: "conns (s\<lparr>ws_clients := AList.delete u (ws_clients s)\<rparr>) v = (if v = u then [] else conns s v)"
  by (simp add: conns_def delete_conv')

lemma members_update [simp]:
  "members (s\<lparr>ws_rooms := AList.update b r (ws_rooms s)\<rparr>) b' = (if b' = b then r else members s b')"
  by (simp add: members_def update_conv')

lemma members_delete [simp]:
  "members (s\<lparr>ws_rooms := AList.delete b (ws_rooms s)\<rparr>) b' = (if b' = b then [] else members s b')"
  by (simp add: members_def delete_conv')

lemma conns_seq [simp]: "conns (s\<lparr>ws_conn_seq := n\<rparr>) = conns s" "conns (s\<lparr>ws_rooms := r\<rparr>) = conns s"
  by (simp_all add: conns_def fun_eq_iff)

lemma map_of_conns:
  "map_of (ws_clients s) u = Some es \<Longrightarrow> conns s u = es" "map_of (ws_clients s) u = None \<Longrightarrow> conns s u = []"
  by (simp_all add: conns_def)

text \<open>No connection id belongs to two users.\<close>

definition owner_unique :: "(uuid \<Rightarrow> connection_sender list) \<Rightarrow> bool" where
  "owner_unique f \<longleftrightarrow>
     (\<forall>u v x y. x \<in> set (f u) \<longrightarrow> y \<in> set (f v) \<longrightarrow> cs_conn_id x = cs_conn_id y \<longrightarrow> u = v)"

lemma owner_unique_mono:
  "owner_unique f \<Longrightarrow> (\<And>u. set (g u) \<subseteq> set (f u)) \<Longrightarrow> owner_unique g"
  by (auto simp: owner_unique_def) (meson subsetD)

lemma owner_unique_add:
  "owner_unique f \<Longrightarrow> (\<And>v x. x \<in> set (f v) \<Longrightarrow> cs_conn_id x \<noteq> cs_conn_id y) \<Longrightarrow>
     owner_unique (f(u := f u @ [y]))"
  by (simp add: owner_unique_def) metis

definition ws_inv :: "ws_service \<Rightarrow> bool" where
  "ws_inv s \<longleftrightarrow>
     distinct (map fst (ws_clients s)) \<and> distinct (map fst (ws_rooms s)) \<and>
     (\<forall>u. map_of (ws_clients s) u \<noteq> Some [] \<and> length (conns s u) \<le> MAX_WS_CONNECTIONS_PER_USER \<and>
          distinct (map cs_conn_id (conns s u)) \<and>
          (\<forall>x \<in> set (conns s u). cs_conn_id x < ws_conn_seq s)) \<and>
     owner_unique (conns s) \<and>
     (\<forall>b. map_of (ws_rooms s) b \<noteq> Some [] \<and> distinct (members s b))"

lemma ws_new_inv: "ws_inv ws_new"
  by (simp add: ws_inv_def ws_new_def conns_def members_def owner_unique_def)

lemma map_of_update_Some:
  "map_of (AList.update k v al) k' = (if k' = k then Some v else map_of al k')"
  "map_of (AList.delete k al) k' = (if k' = k then None else map_of al k')"
  by (simp_all add: update_conv' delete_conv')

lemma update_update [simp]: "AList.update k v (AList.update k w al) = AList.update k v al"
  by (induction al) auto

lemma unat_succ: "unat (n :: 64 word) + 1 < 2 ^ 64 \<Longrightarrow> unat (n + 1) = unat n + 1"
  by (simp add: unat_word_ariths)

lemma word_less_succ: "x \<le> (n :: 64 word) \<Longrightarrow> unat n + 1 < 2 ^ 64 \<Longrightarrow> x < n + 1"
  by (simp add: word_less_nat_alt word_le_nat_alt unat_succ)

lemma ws_register_cases:
  "ws_register u ch s =
     (if length (conns s u) < MAX_WS_CONNECTIONS_PER_USER
      then (Some (ws_conn_seq s),
            s\<lparr>ws_clients := AList.update u
                 (conns s u @ [\<lparr>cs_conn_id = ws_conn_seq s, cs_sender = ch\<rparr>]) (ws_clients s),
               ws_conn_seq := ws_conn_seq s + 1\<rparr>)
      else (None, s\<lparr>ws_clients := AList.update u (conns s u) (ws_clients s)\<rparr>))"
  by (cases s) (simp add: ws_register_def Let_def not_le)

lemma ws_clients_inv:
  assumes "ws_inv s" and "conns (s\<lparr>ws_clients := cl, ws_conn_seq := n\<rparr>) = f" and "distinct (map fst cl)" and "ws_conn_seq s \<le> n"
    and "\<And>u. map_of cl u \<noteq> Some [] \<and> length (f u) \<le> MAX_WS_CONNECTIONS_PER_USER \<and>
      distinct (map cs_conn_id (f u)) \<and> (\<forall>x \<in> set (f u). cs_conn_id x < n)"
    and "owner_unique f"
  shows "ws_inv (s\<lparr>ws_clients := cl, ws_conn_seq := n\<rparr>)"
proof -
  have "members (s\<lparr>ws_clients := cl, ws_conn_seq := n\<rparr>) b = members s b" for b
    by (simp add: members_def)
  then show ?thesis
    using assms(1,3-6) unfolding ws_inv_def assms(2) by simp
qed

lemma ws_invD:
  assumes "ws_inv s"
  shows "distinct (map fst (ws_clients s))" "map_of (ws_clients s) u \<noteq> Some []"
    "length (conns s u) \<le> MAX_WS_CONNECTIONS_PER_USER" "distinct (map cs_conn_id (conns s u))"
    "x \<in> set (conns s u) \<Longrightarrow> cs_conn_id x < ws_conn_seq s" "owner_unique (conns s)"
    "distinct (members s b)" "distinct (map fst (ws_rooms s))" "map_of (ws_rooms s) b \<noteq> Some []"
  using assms unfolding ws_inv_def by blast+

lemma ws_register_inv:
  assumes inv: "ws_inv s" and seq: "unat (ws_conn_seq s) + 1 < 2 ^ 64"
  shows "ws_inv (snd (ws_register u ch s))"
proof (cases "length (conns s u) < MAX_WS_CONNECTIONS_PER_USER")
  case True
  let ?new = "\<lparr>cs_conn_id = ws_conn_seq s, cs_sender = ch\<rparr>"
  have fresh: "cs_conn_id x \<noteq> ws_conn_seq s" if "x \<in> set (conns s v)" for x v
    using ws_invD(5) [OF inv that] by simp
  have "ws_inv (s\<lparr>ws_clients := AList.update u (conns s u @ [?new]) (ws_clients s), ws_conn_seq := ws_conn_seq s + 1\<rparr>)"
  proof (rule ws_clients_inv [OF inv, where f = "(conns s)(u := conns s u @ [?new])"], goal_cases)
    case (4 v)
    have "distinct (map cs_conn_id (conns s u @ [?new]))"
      using ws_invD(4) [OF inv, of u] by (auto dest: fresh)
    moreover have "cs_conn_id x < ws_conn_seq s + 1" if "x \<in> set (conns s w)" for x w
      using ws_invD(5) [OF inv that] by (intro word_less_succ [OF _ seq]) simp
    moreover have "ws_conn_seq s < ws_conn_seq s + 1" by (rule word_less_succ [OF _ seq]) simp
    ultimately show ?case
      using True ws_invD(2-4) [OF inv, of v] by (simp add: map_of_update_Some)
  next
    case 5
    show ?case by (rule owner_unique_add [OF ws_invD(6) [OF inv]]) (simp add: fresh)
  next
    case 3
    show ?case using word_less_succ [OF _ seq, of "ws_conn_seq s"] by simp
  qed (auto simp: distinct_update ws_invD [OF inv] fun_eq_iff conns_def update_conv')
  with True show ?thesis by (simp add: ws_register_cases)
next
  case False
  then have ne: "conns s u \<noteq> []" by (auto simp: MAX_WS_CONNECTIONS_PER_USER_def)
  have "ws_inv (s\<lparr>ws_clients := AList.update u (conns s u) (ws_clients s), ws_conn_seq := ws_conn_seq s\<rparr>)"
  proof (rule ws_clients_inv [OF inv, where f = "conns s"], goal_cases)
    case 1
    show ?case by (auto simp: conns_def fun_eq_iff update_conv')
  qed (use ne in \<open>auto simp: distinct_update ws_invD [OF inv] map_of_update_Some dest: ws_invD(5) [OF inv]\<close>)
  with False show ?thesis by (simp add: ws_register_cases)
qed

lemma ws_register_seq:
  "unat (ws_conn_seq s) + 1 < 2 ^ 64 \<Longrightarrow> unat (ws_conn_seq (snd (ws_register u ch s))) \<le> unat (ws_conn_seq s) + 1"
  using unat_succ [of "ws_conn_seq s"] by (simp add: ws_register_cases)

lemma ws_unregister_conns:
  "conns (ws_unregister u cid s) v = (if v = u then filter (\<lambda>x. cs_conn_id x \<noteq> cid) (conns s u) else conns s v)"
  by (auto simp: ws_unregister_def unregister_retain_def unregister_remove_def Let_def conns_def
      update_conv' delete_conv' split: option.splits)

lemma ws_unregister_rest [simp]:
  "ws_rooms (ws_unregister u cid s) = ws_rooms s" "ws_conn_seq (ws_unregister u cid s) = ws_conn_seq s"
  by (simp_all add: ws_unregister_def unregister_retain_def unregister_remove_def Let_def split: option.splits)

lemma ws_unregister_map:
  "map_of (ws_clients (ws_unregister u cid s)) v =
     (if v = u then (let es = filter (\<lambda>x. cs_conn_id x \<noteq> cid) (conns s u) in if es = [] then None else Some es)
      else map_of (ws_clients s) v)"
  by (auto simp: ws_unregister_def unregister_retain_def unregister_remove_def Let_def map_of_update_Some
      map_of_conns split: option.splits)

lemma ws_unregister_inv:
  assumes inv: "ws_inv s"
  shows "ws_inv (ws_unregister u cid s)"
proof -
  let ?s = "ws_unregister u cid s"
  have eq: "?s = s\<lparr>ws_clients := ws_clients ?s, ws_conn_seq := ws_conn_seq s\<rparr>"
    by (simp add: ws_unregister_def unregister_retain_def unregister_remove_def Let_def split: option.splits)
  have d: "distinct (map fst (ws_clients ?s))"
    using ws_invD(1) [OF inv]
    by (auto simp: ws_unregister_def unregister_retain_def unregister_remove_def Let_def
        distinct_update distinct_delete split: option.splits)
  have f: "conns ?s = (\<lambda>v. if v = u then filter (\<lambda>x. cs_conn_id x \<noteq> cid) (conns s u) else conns s v)"
    by (rule ext) (rule ws_unregister_conns)
  have len: "length (filter P (conns s u)) \<le> MAX_WS_CONNECTIONS_PER_USER" for P
    using ws_invD(3) [OF inv, of u] by (meson le_trans length_filter_le)
  show ?thesis
  proof (subst eq, rule ws_clients_inv [OF inv, where f = "conns ?s"], goal_cases)
    case 1
    show ?case by (simp add: conns_def fun_eq_iff)
  next
    case (4 v)
    show ?case
      using len ws_invD(2-4) [OF inv, of v] ws_invD(5) [OF inv] by (auto simp: f ws_unregister_map Let_def distinct_map_filter)
  next
    case 5
    show ?case by (rule owner_unique_mono [OF ws_invD(6) [OF inv]]) (auto simp: f)
  qed (auto simp: d)
qed

lemma ws_rooms_inv:
  assumes "ws_inv s" and "distinct (map fst r)" and "\<And>b. map_of r b \<noteq> Some [] \<and> distinct (or_nil (map_of r b))"
  shows "ws_inv (s\<lparr>ws_rooms := r\<rparr>)"
  using assms by (auto simp: ws_inv_def members_def)

lemma room_update_inv:
  "ws_inv s \<Longrightarrow> distinct r \<Longrightarrow> r \<noteq> [] \<Longrightarrow> ws_inv (s\<lparr>ws_rooms := AList.update b r (ws_rooms s)\<rparr>)"
  by (rule ws_rooms_inv)
    (auto simp: ws_inv_def distinct_update map_of_update_Some members_def)

lemma room_delete_inv:
  "ws_inv s \<Longrightarrow> ws_inv (s\<lparr>ws_rooms := AList.delete b (ws_rooms s)\<rparr>)"
  by (rule ws_rooms_inv)
    (auto simp: ws_inv_def distinct_delete map_of_update_Some members_def)

lemma members_Some: "map_of (ws_rooms s) b = Some r \<Longrightarrow> members s b = r"
  by (simp add: members_def)

lemma List_insert_nonempty [simp]: "List.insert x xs \<noteq> []"
  by (auto simp: List.insert_def)

lemma room_ops_inv:
  assumes "ws_inv s"
  shows "ws_inv (room_insert b u s)" "ws_inv (room_remove b u s)"
    "ws_inv (snd (add_local_room_member b u s))" "ws_inv (snd (remove_local_room_member b u s))"
    "ws_inv (snd (clear_local_room b s))"
  using assms ws_invD(7) [OF assms, of b]
  by (auto simp: room_insert_def room_remove_def add_local_room_member_def remove_local_room_member_def
      clear_local_room_def Let_def room_update_inv room_delete_inv distinct_insert
      distinct_removeAll members_Some split: option.splits)

section \<open>The registry over time\<close>

datatype ws_op =
    Register uuid nat | Unregister uuid "64 word"
  | RoomIn uuid uuid | RoomOut uuid uuid | AddLocal uuid uuid | RemoveLocal uuid uuid | ClearRoom uuid

fun ws_op_step :: "ws_service \<Rightarrow> ws_op \<Rightarrow> ws_service" where
  "ws_op_step s (Register u ch) = snd (ws_register u ch s)"
| "ws_op_step s (Unregister u cid) = ws_unregister u cid s"
| "ws_op_step s (RoomIn b u) = room_insert b u s"
| "ws_op_step s (RoomOut b u) = room_remove b u s"
| "ws_op_step s (AddLocal b u) = snd (add_local_room_member b u s)"
| "ws_op_step s (RemoveLocal b u) = snd (remove_local_room_member b u s)"
| "ws_op_step s (ClearRoom b) = snd (clear_local_room b s)"

lemma room_ops_seq [simp]:
  "ws_conn_seq (room_insert b u s) = ws_conn_seq s" "ws_conn_seq (room_remove b u s) = ws_conn_seq s"
  "ws_conn_seq (snd (add_local_room_member b u s)) = ws_conn_seq s"
  "ws_conn_seq (snd (remove_local_room_member b u s)) = ws_conn_seq s"
  "ws_conn_seq (snd (clear_local_room b s)) = ws_conn_seq s"
  by (simp_all add: room_insert_def room_remove_def add_local_room_member_def remove_local_room_member_def
      clear_local_room_def Let_def split: option.splits)

lemma ws_op_step_inv:
  assumes "ws_inv s" and "unat (ws_conn_seq s) + 1 < 2 ^ 64"
  shows "ws_inv (ws_op_step s op) \<and> unat (ws_conn_seq (ws_op_step s op)) \<le> unat (ws_conn_seq s) + 1"
  using assms ws_register_inv [OF assms] ws_register_seq [OF assms(2)]
  by (cases op) (simp_all add: room_ops_inv ws_unregister_inv)

lemma ws_ops_inv:
  "length ops < 2 ^ 64 - 1 \<Longrightarrow>
     ws_inv (foldl ws_op_step ws_new ops) \<and> unat (ws_conn_seq (foldl ws_op_step ws_new ops)) \<le> length ops"
proof (induction ops rule: rev_induct)
  case Nil
  then show ?case by (simp add: ws_new_inv) (simp add: ws_new_def)
next
  case (snoc op ops)
  let ?s = "foldl ws_op_step ws_new ops"
  from snoc have i: "ws_inv ?s" "unat (ws_conn_seq ?s) \<le> length ops" by auto
  with snoc.prems have "unat (ws_conn_seq ?s) + 1 < 2 ^ 64" by simp
  from ws_op_step_inv [OF i(1) this, of op] i(2) show ?case by simp
qed

lemma distinct_map_inj: "distinct (map f xs) \<Longrightarrow> x \<in> set xs \<Longrightarrow> y \<in> set xs \<Longrightarrow> f x = f y \<Longrightarrow> x = y"
  by (auto simp: distinct_map inj_on_def)

text \<open>C12. The registry keeps its promises over every sequence of operations on an instance (shorter than
  the 64-bit id counter): no user has more than five connections and a sixth is refused, exactly
  then; a user is online exactly while one of their connections is registered; and a connection
  id belongs to one connection of one user, so unregistering one never removes another.
\<close>

theorem registry_sound:
  assumes "length ops < 2 ^ 64 - 1" and "s = foldl ws_op_step ws_new ops"
  shows "connection_count s u \<le> 5 \<and>
     (fst (ws_register u ch s) = None) = (connection_count s u = 5) \<and>
     is_online s u = (0 < connection_count s u) \<and>
     (\<forall>v x y. x \<in> set (conns s u) \<longrightarrow> y \<in> set (conns s v) \<longrightarrow> cs_conn_id x = cs_conn_id y \<longrightarrow> u = v \<and> x = y)"
proof -
  have inv: "ws_inv s" using ws_ops_inv [OF assms(1)] assms(2) by simp
  have c: "connection_count s u = length (conns s u)"
    by (simp add: connection_count_def conns_def split: option.split)
  have len: "length (conns s u) \<le> 5"
    using ws_invD(3) [OF inv, of u] by (simp add: MAX_WS_CONNECTIONS_PER_USER_def)
  have "is_online s u = (conns s u \<noteq> [])"
    using ws_invD(2) [OF inv, of u] by (cases "map_of (ws_clients s) u") (auto simp: is_online_def conns_def)
  moreover have "u = v \<and> x = y"
    if "x \<in> set (conns s u)" "y \<in> set (conns s v)" "cs_conn_id x = cs_conn_id y" for v x y
    using that ws_invD(6) [OF inv] distinct_map_inj [OF ws_invD(4) [OF inv, of u]]
    unfolding owner_unique_def by metis
  ultimately show ?thesis
    using len by (auto simp: c ws_register_cases MAX_WS_CONNECTIONS_PER_USER_def)
qed

theorem registry_sound_witness:
  "connection_count (foldl ws_op_step ws_new (replicate 7 (Register 4 0) @ [Unregister 4 2])) 4 \<le> 5"
  using registry_sound [where ops = "replicate 7 (Register 4 0) @ [Unregister 4 2]" and u = 4, OF _ refl]
  by simp

text \<open>Unregistering is not atomic: a connection that registers between its two critical sections,
  when the user's last connection is closing, is accepted with an id and then dropped with the
  user's entry, so the user is offline while the new connection is open.
\<close>

theorem unregister_race_drops_connection:
  assumes "map_of (ws_clients s) u = Some [x]" and "ws_register u ch (snd (unregister_retain u (cs_conn_id x) s)) = (r, s2)"
  shows "fst (unregister_retain u (cs_conn_id x) s) \<and> r = Some (ws_conn_seq s) \<and>
     \<not> is_online (unregister_remove u s2) u"
  using assms
  by (auto simp: unregister_retain_def unregister_remove_def ws_register_def Let_def is_online_def conns_def
      map_of_update_Some MAX_WS_CONNECTIONS_PER_USER_def split: if_splits)

theorem unregister_race_drops_connection_witness:
  "let s = snd (ws_register 4 0 ws_new);
       s1 = snd (unregister_retain 4 0 s);
       s2 = snd (ws_register 4 1 s1)
   in connection_count s2 4 = 1 \<and> \<not> is_online (unregister_remove 4 s2) 4"
proof -
  let ?s = "snd (ws_register 4 0 ws_new)"
  have m: "map_of (ws_clients ?s) 4 = Some [\<lparr>cs_conn_id = 0, cs_sender = 0\<rparr>]"
    by (simp add: ws_register_def ws_new_def conns_def MAX_WS_CONNECTIONS_PER_USER_def)
  show ?thesis
    using unregister_race_drops_connection [OF m prod.collapse [symmetric], of 1]
    by (simp add: ws_register_def ws_new_def conns_def MAX_WS_CONNECTIONS_PER_USER_def unregister_retain_def
        connection_count_def)
qed

section \<open>The offline buffer\<close>

lemma buffer_message_step:
  assumes "to_json p = Some j" and "entry t db (key_ws_buffer c u) = Some (RList xs, ex) \<or>
      entry t db (key_ws_buffer c u) = None \<and> xs = []"
  shows "buffer_message c (up t) to_json u p db =
     db(key_ws_buffer c u := Some (RList (take 51 (j # xs)), Some (t + 300000)))"
proof -
  let ?k = "key_ws_buffer c u"
  have live: "entry t (db(?k := Some (v, ex))) ?k = Some (v, ex)" if "entry t db ?k = Some (w, ex)" for v w ex
    using that by (auto simp: entry_def split: option.splits prod.splits if_splits)
  have new: "entry t (db(?k := Some (v, None))) ?k = Some (v, None)" for v
    by (simp add: entry_def)
  have r: "list_range 0 50 ys = take 51 ys" for ys :: "string list"
    by (simp add: list_range_def)
  note defs = buffer_message_def Let_def redis_lpush_def redis_ltrim_def redis_expire_def guarded_cmd_def
    list_at_def put_list_def cmd_expire_def r MESSAGE_BUFFER_SIZE_def MESSAGE_BUFFER_TTL_SECS_def assms(1)
  from assms(2) show ?thesis
  proof
    assume h: "entry t db ?k = Some (RList xs, ex)"
    show ?thesis by (simp add: defs h live [OF h])
  next
    assume h: "entry t db ?k = None \<and> xs = []"
    show ?thesis by (simp add: defs h new)
  qed
qed

text \<open>Messages buffered one after the other, each at its instant.\<close>

fun buffer_all ::
    "codec \<Rightarrow> (ws_payload \<Rightarrow> string option) \<Rightarrow> uuid \<Rightarrow> (int \<times> ws_payload) list \<Rightarrow> keyspace \<Rightarrow> keyspace" where
  "buffer_all c to_json u [] db = db"
| "buffer_all c to_json u ((t, p) # tps) db =
     buffer_all c to_json u tps (buffer_message c (up t) to_json u p db)"

lemma buffer_all_append:
  "buffer_all c to_json u (xs @ ys) db = buffer_all c to_json u ys (buffer_all c to_json u xs db)"
  by (induction xs arbitrary: db) auto

lemma take_cons_take: "take (Suc n) (x # take (Suc n) xs) = take (Suc n) (x # xs)"
  by (simp add: min_def)

lemma last_live:
  "list_all (\<lambda>tp. t0 \<le> fst tp \<and> fst tp < t0 + 300000) tps \<Longrightarrow> t < t0 + (300000 :: int) \<Longrightarrow>
     tps = [] \<or> t < fst (last tps) + 300000"
  by (cases tps rule: rev_cases) auto

lemma entry_at:
  "db k = (if b then None else Some (v, Some ex)) \<Longrightarrow> b \<or> t < ex \<Longrightarrow>
     entry t db k = (if b then None else Some (v, Some ex))"
  by (auto simp: entry_def)

lemma buffer_all_state:
  assumes "list_all (\<lambda>tp. t0 \<le> fst tp \<and> fst tp < t0 + 300000) tps" and "db (key_ws_buffer c u) = None"
  shows "buffer_all c (\<lambda>p. Some (f p)) u tps db (key_ws_buffer c u) =
     (if tps = [] then None
      else Some (RList (take 51 (rev (map (f \<circ> snd) tps))), Some (fst (last tps) + 300000)))"
  using assms(1)
proof (induction tps rule: rev_induct)
  case (snoc tp tps)
  obtain t p where tp: "tp = (t, p)" by (cases tp)
  let ?k = "key_ws_buffer c u" and ?db = "buffer_all c (\<lambda>p. Some (f p)) u tps db"
  let ?xs = "take 51 (rev (map (f \<circ> snd) tps))"
  have l: "list_all (\<lambda>tp. t0 \<le> fst tp \<and> fst tp < t0 + 300000) tps" "t < t0 + 300000"
    using snoc.prems by (simp_all add: tp)
  have "entry t ?db ?k = (if tps = [] then None else Some (RList ?xs, Some (fst (last tps) + 300000)))"
    using entry_at [where k = ?k and db = ?db, OF snoc.IH [OF l(1)] last_live [OF l]] .
  then have "buffer_message c (up t) (\<lambda>p. Some (f p)) u p ?db =
      ?db(?k := Some (RList (take 51 (f p # ?xs)), Some (t + 300000)))"
    by (intro buffer_message_step) auto
  then show ?case
    using take_cons_take [of 50 "f p" "rev (map (f \<circ> snd) tps)"] by (simp add: buffer_all_append tp)
qed (use assms(2) in simp)

lemma rev_take_rev: "rev (take n (rev xs)) = drop (length xs - n) xs"
  by (simp add: rev_take)

text \<open>C26. The offline buffer replays what it kept, once and in order: for any messages buffered within
  five minutes of each other, the drain returns the most recent 51 of them, oldest first, and a
  second drain returns nothing. The documentation promises the last \<open>MESSAGE_BUFFER_SIZE\<close>, 50.
\<close>

theorem buffer_replays_in_order:
  assumes "list_all (\<lambda>tp. from_json (f (snd tp)) = Some (snd tp)) tps"
    and "list_all (\<lambda>tp. t0 \<le> fst tp \<and> fst tp < t0 + 300000) tps" and "t0 \<le> t \<and> t < t0 + 300000"
    and "db (key_ws_buffer c u) = None"
  shows "drain_message_buffer c (up t) from_json u (buffer_all c (\<lambda>p. Some (f p)) u tps db) =
       (drop (length tps - 51) (map snd tps),
        (buffer_all c (\<lambda>p. Some (f p)) u tps db)(key_ws_buffer c u := None)) \<and>
     fst (drain_message_buffer c (up t') from_json u
            (snd (drain_message_buffer c (up t) from_json u (buffer_all c (\<lambda>p. Some (f p)) u tps db)))) = []"
proof -
  let ?k = "key_ws_buffer c u" and ?db = "buffer_all c (\<lambda>p. Some (f p)) u tps db"
  have e: "entry t ?db ?k = (if tps = [] then None
      else Some (RList (take 51 (rev (map (f \<circ> snd) tps))), Some (fst (last tps) + 300000)))"
    using last_live [OF assms(2), of t] assms(3)
    by (intro entry_at buffer_all_state [where c = c and u = u and f = f and db = db, OF assms(2,4)]) simp
  have r: "list_range 0 (- 1) xs = xs" for xs :: "string list"
    by (auto simp: list_range_def)
  have m: "List.map_filter from_json (map (f \<circ> snd) xs) = map snd xs"
    if "list_all (\<lambda>tp. from_json (f (snd tp)) = Some (snd tp)) xs" for xs :: "(int \<times> ws_payload) list"
    using that by (induction xs) (simp_all add: map_filter_simps)
  have "list_all (\<lambda>tp. from_json (f (snd tp)) = Some (snd tp)) (drop (length tps - 51) tps)"
    using assms(1) by (auto simp: list_all_iff dest: in_set_dropD)
  note m = m [OF this]
  have "rev (take 51 (rev (map (f \<circ> snd) tps))) = map (f \<circ> snd) (drop (length tps - 51) tps)"
    by (simp only: rev_take_rev length_map drop_map)
  with e r m have "drain_message_buffer c (up t) from_json u ?db =
      (drop (length tps - 51) (map snd tps), ?db(?k := None))"
    by (simp add: drain_message_buffer_def list_at_def cmd_del_def Let_def drop_map map_filter_simps)
  then show ?thesis
    by (simp add: drain_message_buffer_def list_at_def Let_def list_range_def map_filter_simps)
qed

text \<open>Texts of three payloads, for a closed example.\<close>

definition demo_payload :: "ws_event \<Rightarrow> ws_payload" where
  "demo_payload ev = payload_new ev JNull"

definition demo_payload_parse :: "string \<Rightarrow> ws_payload option" where
  "demo_payload_parse s =
     (case ws_event_from_str s of Inr ev \<Rightarrow> Some (demo_payload ev) | Inl _ \<Rightarrow> None)"

theorem buffer_replays_in_order_witness:
  "fst (drain_message_buffer plain_codec (up 9) demo_payload_parse 4
     (buffer_all plain_codec (\<lambda>p. Some (ws_event_text (pl_event p))) 4
       (replicate 2 (5, demo_payload NewMessage) @ replicate 51 (6, demo_payload NewReaction)) Map.empty)) =
   replicate 51 (demo_payload NewReaction)"
proof -
  let ?tps = "replicate 2 (5 :: int, demo_payload NewMessage) @ replicate 51 (6, demo_payload NewReaction)"
  have "list_all (\<lambda>tp. demo_payload_parse (ws_event_text (pl_event (snd tp))) = Some (snd tp)) ?tps"
    by (simp add: list_all_iff demo_payload_parse_def demo_payload_def payload_new_def del: ws_event_text.simps)
  moreover have "list_all (\<lambda>tp. 0 \<le> fst tp \<and> fst tp < 0 + 300000) ?tps" by (simp add: list_all_iff)
  ultimately show ?thesis
    using buffer_replays_in_order [where ?t0.0 = 0 and t = 9 and db = Map.empty and c = plain_codec and u = 4
        and tps = ?tps and from_json = demo_payload_parse and f = "\<lambda>p. ws_event_text (pl_event p)"]
    by simp
qed

end
