(* ===== verification/Ws_Pubsub.thy ===== *)
theory Ws_Pubsub
  imports Ws_Service
begin

text \<open>
  \<open>shared/services/ws/pubsub.rs\<close> with \<open>WsService::join_room\<close> and \<open>leave_room\<close>: the bridge
  between the API instances. An instance is its connection registry with the channels and
  patterns its subscriber holds. Redis delivers a published text once per matching subscription;
  the receive loop of an instance handles the texts in the order they arrive. The outcome of each
  \<open>PUBLISH\<close> attempt and of each (un)subscription, and the JSON form of an envelope, are arguments.
\<close>

definition WS_MAIN_CHANNEL :: string where "WS_MAIN_CHANNEL = ''meno:ws:events''"
definition WS_ROOM_CHANNEL_PREFIX :: string where "WS_ROOM_CHANNEL_PREFIX = ''meno:ws:room:''"
definition WS_ROOM_PATTERN :: string where "WS_ROOM_PATTERN = ''meno:ws:room:*''"
definition ROOM_MEMBERSHIP_TTL_SECS :: int where "ROOM_MEMBERSHIP_TTL_SECS = 3600"
definition MAX_PUBLISH_RETRIES :: nat where "MAX_PUBLISH_RETRIES = 3"

datatype envelope = EnvRoom uuid ws_payload | EnvUser uuid ws_payload | EnvBroadcast ws_payload

definition room_member_key :: "codec \<Rightarrow> uuid \<Rightarrow> string" where
  "room_member_key c broadcast_id = ''room:'' @ uuid_show c broadcast_id @ '':members''"

definition room_channel :: "codec \<Rightarrow> uuid \<Rightarrow> string" where
  "room_channel c broadcast_id = WS_ROOM_CHANNEL_PREFIX @ uuid_show c broadcast_id"

record api_instance =
  in_hub :: ws_service
  in_channels :: "string list"
  in_patterns :: "string list"

record bridge_env =
  be_redis :: redis_env
  be_sub_ok :: "string \<Rightarrow> bool"
  be_pub_ok :: "string \<Rightarrow> nat \<Rightarrow> bool"
  be_pipeline_ok :: bool
  be_to_json :: "envelope \<Rightarrow> string option"

section \<open>Publishing\<close>

text \<open>
  The retry loop: whether the message was published, and the pauses (in ms) between attempts.
\<close>

function publish_loop :: "(nat \<Rightarrow> bool) \<Rightarrow> nat \<Rightarrow> bool \<times> nat list" where
  "publish_loop ok attempts =
     (let attempts1 = attempts + 1
      in if ok attempts1 then (True, [])
         else if MAX_PUBLISH_RETRIES \<le> attempts1 then (False, [])
         else (case publish_loop ok attempts1 of (r, pauses) \<Rightarrow> (r, 100 * attempts1 # pauses)))"
  by auto
termination by (relation "measure (\<lambda>(ok, n). MAX_PUBLISH_RETRIES - n)") auto

declare publish_loop.simps [simp del]

text \<open>What reaches Redis: the channel and the text of each published envelope.\<close>

type_synonym published = "(string \<times> string) list"

definition publish :: "bridge_env \<Rightarrow> string \<Rightarrow> envelope \<Rightarrow> published" where
  "publish be channel env =
     (case be_to_json be env of
        None \<Rightarrow> []
      | Some json \<Rightarrow> (if fst (publish_loop (be_pub_ok be json) 0) then [(channel, json)] else []))"

definition publish_to_room :: "codec \<Rightarrow> bridge_env \<Rightarrow> uuid \<Rightarrow> ws_payload \<Rightarrow> published" where
  "publish_to_room c be broadcast_id payload =
     publish be (room_channel c broadcast_id) (EnvRoom broadcast_id payload)"

definition publish_to_user :: "bridge_env \<Rightarrow> uuid \<Rightarrow> ws_payload \<Rightarrow> published" where
  "publish_to_user be user_id payload = publish be WS_MAIN_CHANNEL (EnvUser user_id payload)"

definition publish_to_users :: "bridge_env \<Rightarrow> uuid list \<Rightarrow> ws_payload \<Rightarrow> published" where
  "publish_to_users be user_ids payload =
     (if user_ids = [] then []
      else if length user_ids \<le> 10 then concat (map (\<lambda>uid. publish_to_user be uid payload) user_ids)
      else
        (let queued = List.map_filter (\<lambda>uid. be_to_json be (EnvUser uid payload)) user_ids
         in if be_pipeline_ok be then map (\<lambda>json. (WS_MAIN_CHANNEL, json)) queued else []))"

definition bridge_broadcast_all :: "bridge_env \<Rightarrow> ws_payload \<Rightarrow> published" where
  "bridge_broadcast_all be payload = publish be WS_MAIN_CHANNEL (EnvBroadcast payload)"

section \<open>Room membership\<close>

definition subscribe :: "bridge_env \<Rightarrow> string \<Rightarrow> api_instance \<Rightarrow> api_instance" where
  "subscribe be channel i =
     (if be_sub_ok be channel then i\<lparr>in_channels := List.insert channel (in_channels i)\<rparr> else i)"

definition unsubscribe :: "bridge_env \<Rightarrow> string \<Rightarrow> api_instance \<Rightarrow> api_instance" where
  "unsubscribe be channel i =
     (if be_sub_ok be channel then i\<lparr>in_channels := removeAll channel (in_channels i)\<rparr> else i)"

type_synonym 'a bridge_result = "(fred_error + 'a) \<times> api_instance \<times> keyspace"

definition bridge_join_room :: "codec \<Rightarrow> bridge_env \<Rightarrow> uuid \<Rightarrow> uuid \<Rightarrow> api_instance \<Rightarrow> keyspace \<Rightarrow> unit bridge_result" where
  "bridge_join_room c be user_id broadcast_id i db =
     (let key = room_member_key c broadcast_id
      in case redis_sadd (be_redis be) key [uuid_show c user_id] db of
           (Inl err, db1) \<Rightarrow> (Inl err, i, db1)
         | (Inr _, db1) \<Rightarrow>
             (case redis_expire (be_redis be) key ROOM_MEMBERSHIP_TTL_SECS db1 of
                (Inl err, db2) \<Rightarrow> (Inl err, i, db2)
              | (Inr _, db2) \<Rightarrow>
                  (case add_local_room_member broadcast_id user_id (in_hub i) of
                     (first, hub1) \<Rightarrow>
                       (let i1 = i\<lparr>in_hub := hub1\<rparr>
                        in (Inr (), if first then subscribe be (room_channel c broadcast_id) i1 else i1, db2)))))"

definition bridge_leave_room :: "codec \<Rightarrow> bridge_env \<Rightarrow> uuid \<Rightarrow> uuid \<Rightarrow> api_instance \<Rightarrow> keyspace \<Rightarrow> unit bridge_result" where
  "bridge_leave_room c be user_id broadcast_id i db =
     (let key = room_member_key c broadcast_id
      in case redis_srem (be_redis be) key [uuid_show c user_id] db of
           (Inl err, db1) \<Rightarrow> (Inl err, i, db1)
         | (Inr _, db1) \<Rightarrow>
             (case redis_scard (be_redis be) key db1 of
                Inl err \<Rightarrow> (Inl err, i, db1)
              | Inr n \<Rightarrow>
                  (let db2 = (if n = 0 then snd (redis_del (be_redis be) key db1) else db1)
                   in case remove_local_room_member broadcast_id user_id (in_hub i) of
                        (became_empty, hub1) \<Rightarrow>
                          (let i1 = i\<lparr>in_hub := hub1\<rparr>
                           in (Inr (), if became_empty then unsubscribe be (room_channel c broadcast_id) i1 else i1,
                               db2)))))"

definition ws_join_room :: "codec \<Rightarrow> bridge_env \<Rightarrow> uuid \<Rightarrow> uuid \<Rightarrow> api_instance \<Rightarrow> keyspace \<Rightarrow> api_instance \<times> keyspace" where
  "ws_join_room c be user_id broadcast_id i db =
     snd (bridge_join_room c be user_id broadcast_id (i\<lparr>in_hub := room_insert broadcast_id user_id (in_hub i)\<rparr>) db)"

definition ws_leave_room :: "codec \<Rightarrow> bridge_env \<Rightarrow> uuid \<Rightarrow> uuid \<Rightarrow> api_instance \<Rightarrow> keyspace \<Rightarrow> api_instance \<times> keyspace" where
  "ws_leave_room c be user_id broadcast_id i db =
     snd (bridge_leave_room c be user_id broadcast_id (i\<lparr>in_hub := room_remove broadcast_id user_id (in_hub i)\<rparr>) db)"

definition init_room :: "codec \<Rightarrow> redis_env \<Rightarrow> uuid \<Rightarrow> uuid list \<Rightarrow> keyspace \<Rightarrow> (fred_error + unit) \<times> keyspace" where
  "init_room c e broadcast_id initial_participant_ids db =
     (if initial_participant_ids = [] then (Inr (), db)
      else
        (let key = room_member_key c broadcast_id; ids = map (uuid_show c) initial_participant_ids
         in case redis_sadd e key ids db of
              (Inl err, db1) \<Rightarrow> (Inl err, db1)
            | (Inr _, db1) \<Rightarrow> redis_expire e key ROOM_MEMBERSHIP_TTL_SECS db1))"

definition destroy_room :: "codec \<Rightarrow> redis_env \<Rightarrow> uuid \<Rightarrow> keyspace \<Rightarrow> (fred_error + unit) \<times> keyspace" where
  "destroy_room c e broadcast_id db = (Inr (), snd (redis_del e (room_member_key c broadcast_id) db))"

definition teardown_local_room :: "codec \<Rightarrow> bridge_env \<Rightarrow> uuid \<Rightarrow> api_instance \<Rightarrow> api_instance" where
  "teardown_local_room c be broadcast_id i =
     (case clear_local_room broadcast_id (in_hub i) of
        (gone, hub1) \<Rightarrow>
          (let i1 = i\<lparr>in_hub := hub1\<rparr>
           in if gone \<noteq> [] then unsubscribe be (room_channel c broadcast_id) i1 else i1))"

definition is_room_member :: "codec \<Rightarrow> redis_env \<Rightarrow> uuid \<Rightarrow> uuid \<Rightarrow> keyspace \<Rightarrow> fred_error + bool" where
  "is_room_member c e broadcast_id user_id db =
     redis_sismember e (room_member_key c broadcast_id) (uuid_show c user_id) db"

definition room_member_count :: "codec \<Rightarrow> redis_env \<Rightarrow> uuid \<Rightarrow> keyspace \<Rightarrow> fred_error + int" where
  "room_member_count c e broadcast_id db = redis_scard e (room_member_key c broadcast_id) db"

section \<open>Receiving\<close>

definition deliver_locally ::
    "codec \<Rightarrow> bridge_env \<Rightarrow> (ws_payload \<Rightarrow> string option) \<Rightarrow> envelope \<Rightarrow> api_instance \<Rightarrow> keyspace \<Rightarrow>
     sends \<times> api_instance \<times> keyspace" where
  "deliver_locally c be pl_json env i db =
     (case env of
        EnvRoom room_id payload \<Rightarrow>
          (let ended = (pl_event payload \<in> {EndedBroadcast, BroadcastDeleted});
               out = send_to_room room_id payload (in_hub i)
           in (out, if ended then teardown_local_room c be room_id i else i, db))
      | EnvUser user_id payload \<Rightarrow>
          (case send_to_user c (be_redis be) pl_json user_id payload (in_hub i) db of
             (out, db1) \<Rightarrow> (out, i, db1))
      | EnvBroadcast payload \<Rightarrow> (hub_broadcast_all payload (in_hub i), i, db))"

text \<open>What the receiver yields: a message (\<open>None\<close> for one that is not text), a lag, the end.\<close>

datatype rx_event = RxMessage "string option" | RxLagged nat | RxClosed

fun run_subscriber_loop ::
    "codec \<Rightarrow> bridge_env \<Rightarrow> (ws_payload \<Rightarrow> string option) \<Rightarrow> (string \<Rightarrow> envelope option) \<Rightarrow> rx_event list \<Rightarrow>
     api_instance \<Rightarrow> keyspace \<Rightarrow> sends \<times> api_instance \<times> keyspace" where
  "run_subscriber_loop c be pl_json from_json [] i db = ([], i, db)"
| "run_subscriber_loop c be pl_json from_json (RxClosed # rs) i db = ([], i, db)"
| "run_subscriber_loop c be pl_json from_json (RxLagged n # rs) i db =
     run_subscriber_loop c be pl_json from_json rs i db"
| "run_subscriber_loop c be pl_json from_json (RxMessage m # rs) i db =
     (case Option.bind m from_json of
        None \<Rightarrow> run_subscriber_loop c be pl_json from_json rs i db
      | Some env \<Rightarrow>
          (case deliver_locally c be pl_json env i db of
             (out, i1, db1) \<Rightarrow>
               (case run_subscriber_loop c be pl_json from_json rs i1 db1 of
                  (out', i2, db2) \<Rightarrow> (out @ out', i2, db2))))"

text \<open>The subscriptions made at start-up, and the copies of a published text Redis sends an instance.\<close>

definition spawn_subscriber_loop :: "bridge_env \<Rightarrow> (string \<Rightarrow> bool) \<Rightarrow> api_instance \<Rightarrow> api_instance" where
  "spawn_subscriber_loop be psub_ok i =
     (let i1 = subscribe be WS_MAIN_CHANNEL i
      in if psub_ok WS_ROOM_PATTERN
         then i1\<lparr>in_patterns := List.insert WS_ROOM_PATTERN (in_patterns i1)\<rparr> else i1)"

definition copies :: "api_instance \<Rightarrow> string \<Rightarrow> nat" where
  "copies i channel =
     (if channel \<in> set (in_channels i) then 1 else 0) + length (filter (\<lambda>p. glob p channel) (in_patterns i))"

definition arrivals :: "api_instance \<Rightarrow> published \<Rightarrow> rx_event list" where
  "arrivals i out = concat (map (\<lambda>(channel, json). replicate (copies i channel) (RxMessage (Some json))) out)"

section \<open>Publishing is bounded\<close>

lemma publish_loop_unfold:
  "publish_loop ok 0 =
     (if ok 1 then (True, []) else if ok 2 then (True, [100]) else (ok 3, [100, 200]))"
  by (simp add: publish_loop.simps [of ok 0] publish_loop.simps [of ok 1] publish_loop.simps [of ok 2]
      publish_loop.simps [of ok "Suc 0"]
      publish_loop.simps [of ok "Suc (Suc 0)"] MAX_PUBLISH_RETRIES_def numeral_2_eq_2 numeral_3_eq_3)

text \<open>A publish always returns, after at most three attempts and 300 ms of pauses; the text reaches
  Redis at most once, and it does exactly when the envelope has a text and one of the first three
  attempts succeeds.
\<close>

theorem publish_bounded:
  "publish be channel env =
     (case be_to_json be env of
        Some json \<Rightarrow> if be_pub_ok be json 1 \<or> be_pub_ok be json 2 \<or> be_pub_ok be json 3 then [(channel, json)] else []
      | None \<Rightarrow> []) \<and>
   sum_list (snd (publish_loop ok 0)) \<le> 300 \<and>
   (fst (publish_loop ok 0) = (ok 1 \<or> ok 2 \<or> ok 3))"
  by (simp add: publish_def publish_loop_unfold split: option.split)

section \<open>Contract of a hub\<close>

text \<open>
  What the bridge relies on when it keeps an instance subscribed to the rooms of its local
  members: adding tells whether the member is the first, removing whether it was the last,
  clearing who was there. Under this contract the bridge's rule (subscribe at the first member,
  unsubscribe at the last) makes the subscriptions exactly the non-empty rooms.
\<close>

locale room_hub =
  fixes inv :: "'h \<Rightarrow> bool"
    and mem :: "'h \<Rightarrow> 'b \<Rightarrow> 'u set"
    and add :: "'b \<Rightarrow> 'u \<Rightarrow> 'h \<Rightarrow> bool \<times> 'h"
    and remove :: "'b \<Rightarrow> 'u \<Rightarrow> 'h \<Rightarrow> bool \<times> 'h"
    and clear :: "'b \<Rightarrow> 'h \<Rightarrow> 'u list \<times> 'h"
  assumes add_inv: "inv h \<Longrightarrow> inv (snd (add b u h))"
    and remove_inv: "inv h \<Longrightarrow> inv (snd (remove b u h))"
    and clear_inv: "inv h \<Longrightarrow> inv (snd (clear b h))"
    and add_first: "inv h \<Longrightarrow> fst (add b u h) \<longleftrightarrow> mem h b = {}"
    and add_mem: "inv h \<Longrightarrow> mem (snd (add b u h)) = (mem h)(b := insert u (mem h b))"
    and remove_last: "inv h \<Longrightarrow> fst (remove b u h) \<longleftrightarrow> mem h b \<noteq> {} \<and> mem h b \<subseteq> {u}"
    and remove_mem: "inv h \<Longrightarrow> mem (snd (remove b u h)) = (mem h)(b := mem h b - {u})"
    and clear_gone: "inv h \<Longrightarrow> set (fst (clear b h)) = mem h b"
    and clear_mem: "inv h \<Longrightarrow> mem (snd (clear b h)) = (mem h)(b := {})"
begin

definition tracks :: "'b set \<Rightarrow> 'h \<Rightarrow> bool" where
  "tracks subs h \<longleftrightarrow> inv h \<and> subs = {b. mem h b \<noteq> {}}"

lemma tracks_add:
  "tracks subs h \<Longrightarrow> tracks (if fst (add b u h) then insert b subs else subs) (snd (add b u h))"
  by (auto simp: tracks_def add_inv add_first add_mem)

lemma tracks_remove:
  "tracks subs h \<Longrightarrow> tracks (if fst (remove b u h) then subs - {b} else subs) (snd (remove b u h))"
  by (auto simp: tracks_def remove_inv remove_last remove_mem)

lemma tracks_clear:
  "tracks subs h \<Longrightarrow> tracks (if fst (clear b h) \<noteq> [] then subs - {b} else subs) (snd (clear b h))"
  using clear_gone [of h b] by (auto simp: tracks_def clear_inv clear_mem)

end

lemma removeAll_Nil [simp]: "removeAll u xs = [] \<longleftrightarrow> set xs \<subseteq> {u}"
  by (induction xs) auto

interpretation hub: room_hub ws_inv "\<lambda>s b. set (members s b)" add_local_room_member
    remove_local_room_member clear_local_room
proof (unfold_locales, goal_cases)
  case (6 h b u)
  then have "map_of (ws_rooms h) b \<noteq> Some []" by (rule ws_invD)
  then show ?case
    by (cases "map_of (ws_rooms h) b") (auto simp: remove_local_room_member_def members_def Let_def)
next
  case (5 h b u)
  show ?case by (auto simp: add_local_room_member_def Let_def fun_eq_iff)
next
  case (7 h b u)
  show ?case
    by (cases "map_of (ws_rooms h) b")
      (auto simp: remove_local_room_member_def Let_def fun_eq_iff members_def update_conv' delete_conv')
next
  case (8 h b)
  show ?case by (simp add: clear_local_room_def members_def)
next
  case (9 h b)
  show ?case by (auto simp: clear_local_room_def fun_eq_iff)
next
  case (4 h b u)
  show ?case by (simp add: add_local_room_member_def Let_def)
qed (simp_all add: room_ops_inv)

section \<open>Subscriptions follow the rooms, when only the bridge touches them\<close>

datatype bridge_op = BridgeJoin uuid uuid | BridgeLeave uuid uuid | BridgeTeardown uuid

fun bridge_step :: "codec \<Rightarrow> api_instance \<times> keyspace \<Rightarrow> bridge_env \<times> bridge_op \<Rightarrow> api_instance \<times> keyspace" where
  "bridge_step c (i, db) (be, BridgeJoin u b) = snd (bridge_join_room c be u b i db)"
| "bridge_step c (i, db) (be, BridgeLeave u b) = snd (bridge_leave_room c be u b i db)"
| "bridge_step c (i, db) (be, BridgeTeardown b) = (teardown_local_room c be b i, db)"

definition room_subs :: "codec \<Rightarrow> api_instance \<Rightarrow> uuid set" where
  "room_subs c i = {b. room_channel c b \<in> set (in_channels i)}"

lemma room_channel_inject: "codec_laws c \<Longrightarrow> room_channel c b = room_channel c b' \<longleftrightarrow> b = b'"
  by (auto simp: room_channel_def uuid_show_inject)

lemma room_subs_simps [simp]:
  "room_subs c (i\<lparr>in_hub := h\<rparr>) = room_subs c i"
  "codec_laws c \<Longrightarrow> be_sub_ok be (room_channel c b) \<Longrightarrow>
     room_subs c (subscribe be (room_channel c b) i) = insert b (room_subs c i)"
  "codec_laws c \<Longrightarrow> be_sub_ok be (room_channel c b) \<Longrightarrow>
     room_subs c (unsubscribe be (room_channel c b) i) = room_subs c i - {b}"
  "in_hub (subscribe be ch i) = in_hub i" "in_hub (unsubscribe be ch i) = in_hub i"
  by (auto simp: room_subs_def subscribe_def unsubscribe_def room_channel_inject)

lemma bridge_join_cases:
  "fst (snd (bridge_join_room c be u b i db)) = i \<or>
   fst (snd (bridge_join_room c be u b i db)) =
     (let i1 = i\<lparr>in_hub := snd (add_local_room_member b u (in_hub i))\<rparr>
      in if fst (add_local_room_member b u (in_hub i)) then subscribe be (room_channel c b) i1 else i1)"
  by (auto simp: bridge_join_room_def Let_def split: prod.splits sum.splits)

lemma bridge_leave_cases:
  "fst (snd (bridge_leave_room c be u b i db)) = i \<or>
   fst (snd (bridge_leave_room c be u b i db)) =
     (let i1 = i\<lparr>in_hub := snd (remove_local_room_member b u (in_hub i))\<rparr>
      in if fst (remove_local_room_member b u (in_hub i)) then unsubscribe be (room_channel c b) i1 else i1)"
  by (auto simp: bridge_leave_room_def Let_def split: prod.splits sum.splits)

definition subs_match :: "codec \<Rightarrow> api_instance \<Rightarrow> bool" where
  "subs_match c i \<longleftrightarrow> hub.tracks (room_subs c i) (in_hub i)"

lemma bridge_step_subs:
  assumes "codec_laws c" and "\<And>b. be_sub_ok be (room_channel c b)" and "subs_match c i"
  shows "subs_match c (fst (bridge_step c (i, db) (be, op)))"
proof (cases op)
  case (BridgeJoin u b)
  then show ?thesis
    using bridge_join_cases [of c be u b i db] assms hub.tracks_add [of "room_subs c i" "in_hub i" b u]
    by (auto simp: subs_match_def Let_def split: if_splits)
next
  case (BridgeLeave u b)
  then show ?thesis
    using bridge_leave_cases [of c be u b i db] assms hub.tracks_remove [of "room_subs c i" "in_hub i" b u]
    by (auto simp: subs_match_def Let_def split: if_splits)
next
  case (BridgeTeardown b)
  then show ?thesis
    using assms hub.tracks_clear [of "room_subs c i" "in_hub i" b]
    by (auto simp: subs_match_def teardown_local_room_def Let_def split: prod.splits if_splits)
qed

text \<open>Left to itself the bridge keeps its subscriptions right: from a fresh instance, over any
  sequence of its joins, leaves and teardowns, with Redis commands failing or not, the instance
  holds the channel of a room exactly while the room has a local member.
\<close>

theorem bridge_subscriptions_match:
  assumes "codec_laws c" and "list_all (\<lambda>(be, op). \<forall>b. be_sub_ok be (room_channel c b)) ops"
    and "i = fst (foldl (bridge_step c) (\<lparr>in_hub = ws_new, in_channels = [WS_MAIN_CHANNEL], in_patterns = ps\<rparr>, db) ops)"
  shows "room_channel c b \<in> set (in_channels i) \<longleftrightarrow> members (in_hub i) b \<noteq> []"
proof -
  have "list_all (\<lambda>(be, op). \<forall>b. be_sub_ok be (room_channel c b)) ops \<Longrightarrow> subs_match c (fst s) \<Longrightarrow>
      subs_match c (fst (foldl (bridge_step c) s ops))" for s
  proof (induction ops arbitrary: s)
    case (Cons x ops)
    obtain be op i0 db0 where x: "x = (be, op)" "s = (i0, db0)" by (cases x, cases s)
    with Cons.prems have "subs_match c (fst (bridge_step c s x))"
      by (auto intro!: bridge_step_subs [OF assms(1)])
    with Cons show ?case by simp
  qed simp
  moreover have "subs_match c \<lparr>in_hub = ws_new, in_channels = [WS_MAIN_CHANNEL], in_patterns = ps\<rparr>"
    by (simp add: subs_match_def hub.tracks_def ws_new_inv room_subs_def)
      (simp add: ws_new_def members_def room_channel_def WS_MAIN_CHANNEL_def WS_ROOM_CHANNEL_PREFIX_def)
  ultimately have "subs_match c i" using assms(2,3) by simp
  then show ?thesis by (auto simp: subs_match_def hub.tracks_def room_subs_def)
qed

definition demo_bridge :: bridge_env where
  "demo_bridge = \<lparr>be_redis = up 0, be_sub_ok = (\<lambda>ch. True), be_pub_ok = (\<lambda>json n. 1 < n),
     be_pipeline_ok = True, be_to_json = (\<lambda>env. Some ''envelope'')\<rparr>"

theorem bridge_subscriptions_match_witness:
  "room_channel plain_codec 7 \<in> set (in_channels (fst (foldl (bridge_step plain_codec)
     (\<lparr>in_hub = ws_new, in_channels = [WS_MAIN_CHANNEL], in_patterns = []\<rparr>, Map.empty)
     [(demo_bridge, BridgeJoin 4 7)]))) \<longleftrightarrow>
   members (in_hub (fst (foldl (bridge_step plain_codec)
     (\<lparr>in_hub = ws_new, in_channels = [WS_MAIN_CHANNEL], in_patterns = []\<rparr>, Map.empty)
     [(demo_bridge, BridgeJoin 4 7)]))) 7 \<noteq> []"
  by (rule bridge_subscriptions_match [OF plain_codec_laws _ refl]) (simp add: demo_bridge_def)

section \<open>The service joins first\<close>

text \<open>
  \<open>WsService\<close> puts the member into the local room before it asks the bridge, so the bridge
  never sees a first member.
\<close>

lemma room_insert_member: "members (room_insert b u s) b \<noteq> []"
  by (simp add: room_insert_def)

lemma ws_join_channels:
  "in_channels (fst (ws_join_room c be u b i db)) = in_channels i \<and>
   in_patterns (fst (ws_join_room c be u b i db)) = in_patterns i"
  using room_insert_member [of b u "in_hub i"]
  by (auto simp: ws_join_room_def bridge_join_room_def add_local_room_member_def Let_def
      split: prod.splits sum.splits)

lemma ws_join_members:
  "u \<in> set (members (in_hub (fst (ws_join_room c be u b i db))) b)"
  by (auto simp: ws_join_room_def bridge_join_room_def add_local_room_member_def Let_def room_insert_def
      split: prod.splits sum.splits)

lemma glob_room_channel: "glob WS_ROOM_PATTERN (room_channel c b)"
proof -
  have p: "WS_ROOM_PATTERN = WS_ROOM_CHANNEL_PREFIX @ ''*''"
    by (simp add: WS_ROOM_PATTERN_def WS_ROOM_CHANNEL_PREFIX_def)
  have "plain_text WS_ROOM_CHANNEL_PREFIX"
    by (simp add: plain_text_def WS_ROOM_CHANNEL_PREFIX_def)
  from glob_prefix [OF this] show ?thesis by (simp add: p room_channel_def)
qed

lemma deliver_once:
  "copies i ch = 1 \<Longrightarrow> from_json json = Some env \<Longrightarrow>
     run_subscriber_loop c be pl_json from_json (arrivals i [(ch, json)]) i db = deliver_locally c be pl_json env i db"
  by (simp add: arrivals_def split: prod.split)

text \<open>C2. A room message reaches each connection once: on an instance started as the server starts it,
  whatever users have joined through \<open>WsService::join_room\<close> and whatever Redis did, a payload
  published to a room is sent exactly once to every connection of every local member, because no
  join has subscribed the instance to the room's own channel and only the pattern delivers.
\<close>

theorem room_message_delivered_once:
  assumes start: "in_channels i0 = [WS_MAIN_CHANNEL]" "in_patterns i0 = [WS_ROOM_PATTERN]"
    and joins: "(i, db) = foldl (\<lambda>(i, db) (be, u, b). ws_join_room c be u b i db) (i0, db0) js"
    and pub: "publish_to_room c be b payload = [(room_channel c b, json)]" and json: "from_json json = Some (EnvRoom b payload)"
  shows "fst (run_subscriber_loop c be' pl_json from_json (arrivals i (publish_to_room c be b payload)) i db) =
     concat (map (\<lambda>u. map (\<lambda>x. (cs_sender x, payload)) (conns (in_hub i) u)) (members (in_hub i) b))"
proof -
  have "in_channels (fst (foldl (\<lambda>(i, db) (be, u, b). ws_join_room c be u b i db) s js)) = in_channels (fst s) \<and>
      in_patterns (fst (foldl (\<lambda>(i, db) (be, u, b). ws_join_room c be u b i db) s js)) = in_patterns (fst s)" for s
    by (induction js arbitrary: s) (simp_all add: ws_join_channels split_beta)
  from this [of "(i0, db0)"] have "in_channels i = [WS_MAIN_CHANNEL]" "in_patterns i = [WS_ROOM_PATTERN]"
    using start joins [symmetric] by simp_all
  then have "copies i (room_channel c b) = 1"
    by (simp add: copies_def glob_room_channel) (simp add: room_channel_def WS_MAIN_CHANNEL_def WS_ROOM_CHANNEL_PREFIX_def)
  note d = deliver_once [where from_json = from_json and json = json, OF this json, of c be' pl_json db]
  have "(\<lambda>u. case map_of (ws_clients s) u of None \<Rightarrow> [] | Some es \<Rightarrow> send_each es payload) =
      (\<lambda>u. map (\<lambda>x. (cs_sender x, payload)) (conns s u))" for s
    by (auto simp: fun_eq_iff conns_def send_each_def split: option.split)
  then show ?thesis
    by (simp add: pub d deliver_locally_def send_to_room_def members_def split: option.split)
qed

definition demo_env_from_json :: "string \<Rightarrow> envelope option" where
  "demo_env_from_json s = (if s = ''envelope'' then Some (EnvRoom 7 (demo_payload NewMessage)) else None)"

definition demo_instance :: api_instance where
  "demo_instance = \<lparr>in_hub = snd (ws_register 4 11 (snd (ws_register 4 10 ws_new))),
     in_channels = [WS_MAIN_CHANNEL], in_patterns = [WS_ROOM_PATTERN]\<rparr>"

theorem room_message_delivered_once_witness:
  "let (i, db) = ws_join_room plain_codec demo_bridge 4 7 demo_instance Map.empty
   in fst (run_subscriber_loop plain_codec demo_bridge (\<lambda>p. None) demo_env_from_json
        (arrivals i (publish_to_room plain_codec demo_bridge 7 (demo_payload NewMessage))) i db) =
      [(10, demo_payload NewMessage), (11, demo_payload NewMessage)]"
proof -
  obtain i db where j: "ws_join_room plain_codec demo_bridge 4 7 demo_instance Map.empty = (i, db)"
    by (cases "ws_join_room plain_codec demo_bridge 4 7 demo_instance Map.empty")
  have p: "publish_to_room plain_codec demo_bridge 7 (demo_payload NewMessage) =
      [(room_channel plain_codec 7, ''envelope'')]"
    by (simp add: publish_to_room_def publish_def publish_loop_unfold demo_bridge_def)
  have h: "in_hub i = room_insert 7 4 (in_hub demo_instance) \<or>
      in_hub i = snd (add_local_room_member 7 4 (room_insert 7 4 (in_hub demo_instance)))"
    using j by (auto simp: ws_join_room_def bridge_join_room_def Let_def split: prod.splits sum.splits if_splits)
  then have m: "members (in_hub i) 7 = [4]" "conns (in_hub i) 4 = [\<lparr>cs_conn_id = 0, cs_sender = 10\<rparr>, \<lparr>cs_conn_id = 1, cs_sender = 11\<rparr>]"
    by (auto simp: demo_instance_def room_insert_def add_local_room_member_def Let_def members_def conns_def
        ws_register_def ws_new_def MAX_WS_CONNECTIONS_PER_USER_def)
  show ?thesis
    using room_message_delivered_once [where ?i0.0 = demo_instance and js = "[(demo_bridge, 4, 7)]"
        and ?db0.0 = Map.empty and i = i and db = db and c = plain_codec and be = demo_bridge and be' = demo_bridge
        and b = 7 and payload = "demo_payload NewMessage" and json = "''envelope''" and from_json = demo_env_from_json
        and pl_json = "\<lambda>p. None"] j
    by (simp add: demo_instance_def p demo_env_from_json_def m)
qed

text \<open>The subscription the bridge is written to make would break that: an instance that holds both
  the room's channel and the pattern receives two copies of every room message.
\<close>

theorem channel_and_pattern_duplicate:
  assumes "be_sub_ok be (room_channel c b)" and "members (in_hub i) b = []" and "in_patterns i = [WS_ROOM_PATTERN]"
    and "fst (bridge_join_room c be u b i db) = Inr ()"
  shows "arrivals (fst (snd (bridge_join_room c be u b i db))) [(room_channel c b, json)] =
     [RxMessage (Some json), RxMessage (Some json)]"
  using assms
  by (auto simp: bridge_join_room_def add_local_room_member_def Let_def arrivals_def copies_def subscribe_def
      glob_room_channel numeral_2_eq_2 split: prod.splits sum.splits)

theorem channel_and_pattern_duplicate_witness:
  "arrivals (fst (snd (bridge_join_room plain_codec demo_bridge 4 7 demo_instance Map.empty)))
     [(room_channel plain_codec 7, ''x'')] = [RxMessage (Some ''x''), RxMessage (Some ''x'')]"
  by (rule channel_and_pattern_duplicate)
    (simp_all add: demo_bridge_def demo_instance_def members_def ws_register_def ws_new_def Let_def conns_def
      MAX_WS_CONNECTIONS_PER_USER_def bridge_join_room_def redis_sadd_def redis_expire_def guarded_cmd_def set_at_def
      entry_def split: prod.split)

section \<open>The end of a room\<close>

text \<open>Every instance forgets a room on its own when the broadcast's end reaches it: the message that
  says so is still sent to the members, and afterwards nobody is in the local room.
\<close>

theorem ended_room_is_cleared:
  assumes "pl_event payload = EndedBroadcast \<or> pl_event payload = BroadcastDeleted"
    and "from_json json = Some (EnvRoom b payload)"
  shows "fst (run_subscriber_loop c be pl_json from_json [RxMessage (Some json)] i db) =
           send_to_room b payload (in_hub i) \<and>
         members (in_hub (fst (snd (run_subscriber_loop c be pl_json from_json [RxMessage (Some json)] i db)))) b = [] \<and>
         (b' \<noteq> b \<longrightarrow>
           members (in_hub (fst (snd (run_subscriber_loop c be pl_json from_json [RxMessage (Some json)] i db)))) b' =
           members (in_hub i) b')"
  using assms
  by (auto simp: deliver_locally_def Let_def teardown_local_room_def clear_local_room_def split: prod.split)

theorem ended_room_is_cleared_witness:
  "members (in_hub (fst (snd (run_subscriber_loop plain_codec demo_bridge (\<lambda>p. None)
     (\<lambda>s. Some (EnvRoom 7 (demo_payload EndedBroadcast))) [RxMessage (Some ''end'')] demo_instance Map.empty)))) 7 = []"
  using ended_room_is_cleared [where payload = "demo_payload EndedBroadcast" and json = "''end''" and b = 7
      and from_json = "\<lambda>s. Some (EnvRoom 7 (demo_payload EndedBroadcast))" and c = plain_codec and be = demo_bridge
      and pl_json = "\<lambda>p. None" and i = demo_instance and db = Map.empty]
  by (simp add: demo_payload_def payload_new_def)

end
