(* ===== verification/Broadcast_Repo.thy ===== *)
theory Broadcast_Repo
  imports Broadcast_Model
begin

text \<open>
  \<open>modules/broadcast/repository.rs\<close> over the tables of \<open>packages/db/migrations\<close>: each
  query and statement with what its SQL does to the rows, the primary and foreign keys, the
  trigger that keeps \<open>broadcasts.total_participants\<close>, and transactions. Whether a statement
  fails for another reason (a lost connection, say) is part of the environment: \<open>re_fault\<close> gives
  the error text. Rows come in table order where the SQL does not order them.
\<close>

section \<open>Tables\<close>

record user_row =
  u_summary :: user_summary
  u_deleted_at :: "timestamp option"

record db =
  d_users :: "user_row list"
  d_broadcasts :: "broadcast list"
  d_participants :: "broadcast_participant list"
  d_cohosts :: "broadcast_cohost list"
  d_bookmarks :: "broadcast_bookmark list"
  d_subscribers :: "(uuid \<times> uuid) list"

datatype stmt =
    SqlBegin | SqlCommit | SqlCreate | SqlUpdate | SqlDelete | SqlSetActive | SqlSetInactive
  | SqlFindById | SqlFindHosted | SqlAddCohosts | SqlRemoveCohost | SqlGetCohosts
  | SqlIsActiveHost | SqlIsCohost | SqlUpsertParticipant | SqlRemoveParticipant
  | SqlFindParticipant | SqlFindActiveParticipant | SqlIsSubscribed | SqlIsBookmarked
  | SqlSubscriberIds | SqlParticipantIds | SqlClearParticipants | SqlParticipantRoles
  | SqlTotalParticipants | SqlUsersBatch | SqlUserSummary | SqlFindBroadcasts
  | SqlFindParticipants | SqlFindLiveParticipants

text \<open>
  \<open>re_db_now\<close> is SQL's \<open>NOW()\<close>, \<open>re_new_id\<close> the next \<open>gen_random_uuid()\<close> and
  \<open>re_new_end_reason\<close> what a fresh row's \<open>end_reason\<close> column decodes to.
\<close>

record repo_env =
  re_db_now :: timestamp
  re_new_id :: uuid
  re_new_end_reason :: end_reason
  re_fault :: "stmt \<Rightarrow> string option"

definition sql :: "repo_env \<Rightarrow> stmt \<Rightarrow> 'a \<Rightarrow> broadcast_error + 'a" where
  "sql e st v = (case re_fault e st of Some err \<Rightarrow> Inl (Database err) | None \<Rightarrow> Inr v)"

definition row_not_found :: string where
  "row_not_found = ''no rows returned by a query that expected to return at least one row''"
definition fk_violation :: string where
  "fk_violation = ''insert or update on table violates foreign key constraint''"
definition pk_violation :: string where
  "pk_violation = ''duplicate key value violates unique constraint''"

type_synonym 'a repo_action = "db \<Rightarrow> (broadcast_error + 'a) \<times> db"

text \<open>A statement that writes: its own effect, or the error and no effect.\<close>

definition exec :: "repo_env \<Rightarrow> stmt \<Rightarrow> ((string + 'a) \<times> db) \<Rightarrow> 'a repo_action" where
  "exec e st r d =
     (case re_fault e st of
        Some err \<Rightarrow> (Inl (Database err), d)
      | None \<Rightarrow> (case r of (Inl err, _) \<Rightarrow> (Inl (Database err), d) | (Inr v, d') \<Rightarrow> (Inr v, d')))"

definition then_do :: "'a repo_action \<Rightarrow> ('a \<Rightarrow> 'b repo_action) \<Rightarrow> 'b repo_action" where
  "then_do m f d = (case m d of (Inl err, d1) \<Rightarrow> (Inl err, d1) | (Inr v, d1) \<Rightarrow> f v d1)"

text \<open>\<open>begin\<close>, the body, \<open>commit\<close>: an error anywhere drops the transaction, which rolls back.\<close>

definition in_tx :: "repo_env \<Rightarrow> 'a repo_action \<Rightarrow> 'a repo_action" where
  "in_tx e body d =
     (case sql e SqlBegin () of
        Inl err \<Rightarrow> (Inl err, d)
      | Inr _ \<Rightarrow>
          (case body d of
             (Inl err, _) \<Rightarrow> (Inl err, d)
           | (Inr v, d1) \<Rightarrow>
               (case sql e SqlCommit () of Inl err \<Rightarrow> (Inl err, d) | Inr _ \<Rightarrow> (Inr v, d1))))"

definition user_exists :: "db \<Rightarrow> uuid \<Rightarrow> bool" where
  "user_exists d i \<longleftrightarrow> (\<exists>u \<in> set (d_users d). us_id (u_summary u) = i)"

definition broadcast_exists :: "db \<Rightarrow> uuid \<Rightarrow> bool" where
  "broadcast_exists d i \<longleftrightarrow> (\<exists>b \<in> set (d_broadcasts d). b_id b = i)"

text \<open>
  \<open>UPDATE broadcasts ... WHERE id = $1\<close>; the row trigger also sets \<open>updated_at\<close>.
\<close>

definition update_broadcast :: "repo_env \<Rightarrow> uuid \<Rightarrow> (broadcast \<Rightarrow> broadcast) \<Rightarrow> db \<Rightarrow> db" where
  "update_broadcast e i f d =
     d\<lparr>d_broadcasts := map (\<lambda>b. if b_id b = i then (f b)\<lparr>b_updated_at := re_db_now e\<rparr> else b) (d_broadcasts d)\<rparr>"

definition broadcast_row :: "db \<Rightarrow> uuid \<Rightarrow> broadcast option" where
  "broadcast_row d i = find (\<lambda>b. b_id b = i) (d_broadcasts d)"

definition returning :: "db \<Rightarrow> uuid \<Rightarrow> (string + broadcast) \<times> db" where
  "returning d i = (case broadcast_row d i of Some b \<Rightarrow> (Inr b, d) | None \<Rightarrow> (Inl row_not_found, d))"

section \<open>Broadcasts\<close>

record create_broadcast_input =
  ci_title :: string
  ci_description :: "string option"
  ci_image_id :: "string option"
  ci_image_url :: "string option"
  ci_time_zone :: "string option"
  ci_start_time :: "timestamp option"
  ci_recording_enabled :: bool
  ci_creator_id :: uuid

record update_broadcast_input =
  ui_broadcast_id :: uuid
  ui_title :: "string option"
  ui_description :: "string option"
  ui_image_id :: "string option"
  ui_image_url :: "string option"
  ui_time_zone :: "string option"
  ui_start_time :: "timestamp option"
  ui_recording_enabled :: "bool option"

record set_active_input =
  si_broadcast_id :: uuid
  si_broadcast_token :: string
  si_start_time :: timestamp

record upsert_participant_input =
  pi_broadcast_id :: uuid
  pi_participant_id :: uuid
  pi_role :: participant_role
  pi_joined_at :: timestamp

text \<open>The row as the insert and the column defaults make it.\<close>

definition new_broadcast :: "repo_env \<Rightarrow> create_broadcast_input \<Rightarrow> broadcast" where
  "new_broadcast e inp =
     \<lparr>b_id = re_new_id e, b_title = ci_title inp, b_description = ci_description inp,
      b_status = Inactive, b_creator_id = ci_creator_id inp, b_time_zone = ci_time_zone inp,
      b_image_url = ci_image_url inp, b_image_id = ci_image_id inp, b_broadcast_token = None,
      b_total_participants = Some 0, b_start_time = ci_start_time inp, b_end_time = None,
      b_recording_enabled = ci_recording_enabled inp, b_recording_key = None,
      b_recording_url = None, b_published_at = None, b_end_reason = re_new_end_reason e,
      b_created_at = re_db_now e, b_updated_at = re_db_now e, b_deleted_at = None\<rparr>"

definition repo_create :: "repo_env \<Rightarrow> create_broadcast_input \<Rightarrow> broadcast repo_action" where
  "repo_create e inp d =
     exec e SqlCreate
       (if broadcast_exists d (re_new_id e) then (Inl pk_violation, d)
        else if \<not> user_exists d (ci_creator_id inp) then (Inl fk_violation, d)
        else (Inr (new_broadcast e inp), d\<lparr>d_broadcasts := d_broadcasts d @ [new_broadcast e inp]\<rparr>)) d"

definition set_if :: "'v option \<Rightarrow> ('v \<Rightarrow> 'b \<Rightarrow> 'b) \<Rightarrow> 'b \<Rightarrow> 'b" where
  "set_if v f b = (case v of Some x \<Rightarrow> f x b | None \<Rightarrow> b)"

definition apply_update :: "update_broadcast_input \<Rightarrow> broadcast \<Rightarrow> broadcast" where
  "apply_update inp b =
     set_if (ui_recording_enabled inp) (\<lambda>v b. b\<lparr>b_recording_enabled := v\<rparr>)
     (set_if (ui_start_time inp) (\<lambda>v b. b\<lparr>b_start_time := Some v\<rparr>)
     (set_if (ui_time_zone inp) (\<lambda>v b. b\<lparr>b_time_zone := Some v\<rparr>)
     (set_if (ui_image_url inp) (\<lambda>v b. b\<lparr>b_image_url := Some v\<rparr>)
     (set_if (ui_image_id inp) (\<lambda>v b. b\<lparr>b_image_id := Some v\<rparr>)
     (set_if (ui_description inp) (\<lambda>v b. b\<lparr>b_description := Some v\<rparr>)
     (set_if (ui_title inp) (\<lambda>v b. b\<lparr>b_title := v\<rparr>) b))))))"

definition repo_update :: "repo_env \<Rightarrow> update_broadcast_input \<Rightarrow> broadcast repo_action" where
  "repo_update e inp d =
     exec e SqlUpdate
       (returning (update_broadcast e (ui_broadcast_id inp) (apply_update inp) d) (ui_broadcast_id inp)) d"

definition repo_delete :: "repo_env \<Rightarrow> uuid \<Rightarrow> unit repo_action" where
  "repo_delete e broadcast_id d =
     exec e SqlDelete
       (Inr (), d\<lparr>d_broadcasts := map (\<lambda>b. if b_id b = broadcast_id \<and> b_deleted_at b = None
          then b\<lparr>b_deleted_at := Some (re_db_now e), b_updated_at := re_db_now e\<rparr> else b) (d_broadcasts d)\<rparr>) d"

definition repo_set_active :: "repo_env \<Rightarrow> set_active_input \<Rightarrow> broadcast repo_action" where
  "repo_set_active e inp d =
     exec e SqlSetActive
       (returning
         (update_broadcast e (si_broadcast_id inp)
           (\<lambda>b. b\<lparr>b_status := Active, b_broadcast_token := Some (si_broadcast_token inp),
                   b_start_time := Some (si_start_time inp)\<rparr>) d)
         (si_broadcast_id inp)) d"

definition repo_set_inactive :: "repo_env \<Rightarrow> uuid \<Rightarrow> end_reason \<Rightarrow> unit repo_action" where
  "repo_set_inactive e broadcast_id reason d =
     exec e SqlSetInactive
       (Inr (), update_broadcast e broadcast_id
          (\<lambda>b. b\<lparr>b_status := Inactive, b_end_time := Some (re_db_now e), b_end_reason := reason\<rparr>) d) d"

definition live_row :: "db \<Rightarrow> uuid \<Rightarrow> broadcast option" where
  "live_row d i = find (\<lambda>b. b_id b = i \<and> b_deleted_at b = None) (d_broadcasts d)"

definition repo_find_by_id :: "repo_env \<Rightarrow> uuid \<Rightarrow> db \<Rightarrow> broadcast_error + broadcast option" where
  "repo_find_by_id e i d = sql e SqlFindById (live_row d i)"

definition repo_find_by_id_or_error :: "repo_env \<Rightarrow> uuid \<Rightarrow> db \<Rightarrow> broadcast_error + broadcast" where
  "repo_find_by_id_or_error e i d = bind_res (repo_find_by_id e i d) (\<lambda>r. ok_or r NotFound)"

definition repo_find_active_broadcast_hosted_by_id ::
    "repo_env \<Rightarrow> uuid \<Rightarrow> db \<Rightarrow> broadcast_error + broadcast option" where
  "repo_find_active_broadcast_hosted_by_id e user_id d =
     sql e SqlFindHosted
       (find (\<lambda>b. b_creator_id b = user_id \<and> b_status b = Active \<and> b_deleted_at b = None) (d_broadcasts d))"

definition repo_is_active_host :: "repo_env \<Rightarrow> uuid \<Rightarrow> db \<Rightarrow> broadcast_error + bool" where
  "repo_is_active_host e user_id d =
     sql e SqlIsActiveHost
       (list_ex (\<lambda>b. b_creator_id b = user_id \<and> b_status b = Active \<and> b_deleted_at b = None) (d_broadcasts d))"

section \<open>Participants\<close>

definition is_row :: "uuid \<Rightarrow> uuid \<Rightarrow> broadcast_participant \<Rightarrow> bool" where
  "is_row b u p \<longleftrightarrow> p_broadcast_id p = b \<and> p_participant_id p = u"

definition participant_row :: "db \<Rightarrow> uuid \<Rightarrow> uuid \<Rightarrow> broadcast_participant option" where
  "participant_row d b u = find (is_row b u) (d_participants d)"

text \<open>
  The count trigger: \<open>total_participants + delta\<close> on the broadcast's row (\<open>NULL\<close> stays \<open>NULL\<close>).
\<close>

definition bump_total :: "repo_env \<Rightarrow> uuid \<Rightarrow> int \<Rightarrow> db \<Rightarrow> db" where
  "bump_total e b delta =
     update_broadcast e b (\<lambda>r. r\<lparr>b_total_participants := map_option (\<lambda>n. n + delta) (b_total_participants r)\<rparr>)"

definition repo_upsert_participant :: "repo_env \<Rightarrow> upsert_participant_input \<Rightarrow> unit repo_action" where
  "repo_upsert_participant e inp d =
     exec e SqlUpsertParticipant
       (let b = pi_broadcast_id inp; u = pi_participant_id inp
        in case participant_row d b u of
             Some _ \<Rightarrow>
               (Inr (), d\<lparr>d_participants := map (\<lambda>p. if is_row b u p
                  then p\<lparr>p_role := pi_role inp, p_joined_at := pi_joined_at inp\<rparr> else p) (d_participants d)\<rparr>)
           | None \<Rightarrow>
               if \<not> broadcast_exists d b \<or> \<not> user_exists d u then (Inl fk_violation, d)
               else (Inr (), bump_total e b 1 (d\<lparr>d_participants := d_participants d @
                  [\<lparr>p_broadcast_id = b, p_participant_id = u, p_role = pi_role inp,
                    p_joined_at = pi_joined_at inp, p_left_at = None,
                    p_last_listen_position_seconds = 0, p_last_listened_at = None\<rparr>]\<rparr>))) d"

definition repo_remove_participant :: "repo_env \<Rightarrow> uuid \<Rightarrow> uuid \<Rightarrow> unit repo_action" where
  "repo_remove_participant e b u d =
     exec e SqlRemoveParticipant
       (case participant_row d b u of
          None \<Rightarrow> (Inr (), d)
        | Some _ \<Rightarrow>
            (Inr (), bump_total e b (- 1) (d\<lparr>d_participants :=
               filter (\<lambda>p. \<not> is_row b u p) (d_participants d)\<rparr>))) d"

definition repo_find_participant ::
    "repo_env \<Rightarrow> uuid \<Rightarrow> uuid \<Rightarrow> db \<Rightarrow> broadcast_error + broadcast_participant option" where
  "repo_find_participant e b u d = sql e SqlFindParticipant (participant_row d b u)"

definition repo_find_active_participant ::
    "repo_env \<Rightarrow> uuid \<Rightarrow> db \<Rightarrow> broadcast_error + broadcast_participant option" where
  "repo_find_active_participant e u d =
     sql e SqlFindActiveParticipant
       (find (\<lambda>p. p_participant_id p = u \<and> p_left_at p = None) (d_participants d))"

definition repo_get_participant_ids :: "repo_env \<Rightarrow> uuid \<Rightarrow> db \<Rightarrow> broadcast_error + uuid list" where
  "repo_get_participant_ids e b d =
     sql e SqlParticipantIds
       (map p_participant_id (filter (\<lambda>p. p_broadcast_id p = b \<and> p_left_at p = None) (d_participants d)))"

definition repo_get_participant_ids_and_clear :: "repo_env \<Rightarrow> uuid \<Rightarrow> uuid list repo_action" where
  "repo_get_participant_ids_and_clear e b d =
     exec e SqlClearParticipants
       (let present = filter (\<lambda>p. p_broadcast_id p = b \<and> p_left_at p = None) (d_participants d)
        in (Inr (map p_participant_id (sort_key p_joined_at present)),
            d\<lparr>d_participants := map (\<lambda>p. if p_broadcast_id p = b \<and> p_left_at p = None
               then p\<lparr>p_left_at := Some (re_db_now e)\<rparr> else p) (d_participants d)\<rparr>)) d"

definition repo_get_participant_roles ::
    "repo_env \<Rightarrow> uuid \<Rightarrow> db \<Rightarrow> broadcast_error + (uuid \<times> participant_role) list" where
  "repo_get_participant_roles e b d =
     sql e SqlParticipantRoles
       (map (\<lambda>p. (p_participant_id p, p_role p))
         (filter (\<lambda>p. p_broadcast_id p = b \<and> p_left_at p = None) (d_participants d)))"

definition repo_get_total_participants :: "repo_env \<Rightarrow> uuid \<Rightarrow> db \<Rightarrow> broadcast_error + int" where
  "repo_get_total_participants e b d =
     sql e SqlTotalParticipants (int (length (filter (\<lambda>p. p_broadcast_id p = b) (d_participants d))))"

section \<open>Cohosts\<close>

definition cohost_listed :: "db \<Rightarrow> uuid \<Rightarrow> uuid \<Rightarrow> bool" where
  "cohost_listed d b u \<longleftrightarrow> (\<exists>r \<in> set (d_cohosts d). c_broadcast_id r = b \<and> c_cohost_id r = u)"

text \<open>\<open>INSERT ... SELECT UNNEST ... ON CONFLICT DO NOTHING\<close>: the ids one by one, known ones skipped.\<close>

fun insert_cohosts :: "repo_env \<Rightarrow> uuid \<Rightarrow> uuid \<Rightarrow> uuid list \<Rightarrow> db \<Rightarrow> db" where
  "insert_cohosts e b inviter [] d = d"
| "insert_cohosts e b inviter (u # us) d =
     insert_cohosts e b inviter us
       (if cohost_listed d b u then d
        else d\<lparr>d_cohosts := d_cohosts d @
          [\<lparr>c_broadcast_id = b, c_cohost_id = u, c_invited_by = inviter, c_invited_at = re_db_now e,
            c_removed_at = None\<rparr>]\<rparr>)"

definition repo_add_cohosts :: "repo_env \<Rightarrow> uuid \<Rightarrow> uuid list \<Rightarrow> uuid \<Rightarrow> unit repo_action" where
  "repo_add_cohosts e b cohost_ids invited_by d =
     (if cohost_ids = [] then (Inr (), d)
      else exec e SqlAddCohosts
        (if \<not> broadcast_exists d b \<or> \<not> user_exists d invited_by \<or> \<not> list_all (user_exists d) cohost_ids
         then (Inl fk_violation, d)
         else (Inr (), insert_cohosts e b invited_by cohost_ids d)) d)"

definition repo_remove_cohost :: "repo_env \<Rightarrow> uuid \<Rightarrow> uuid \<Rightarrow> unit repo_action" where
  "repo_remove_cohost e b u d =
     exec e SqlRemoveCohost
       (Inr (), d\<lparr>d_cohosts := filter (\<lambda>r. \<not> (c_broadcast_id r = b \<and> c_cohost_id r = u)) (d_cohosts d)\<rparr>) d"

definition repo_is_cohost :: "repo_env \<Rightarrow> uuid \<Rightarrow> uuid \<Rightarrow> db \<Rightarrow> broadcast_error + bool" where
  "repo_is_cohost e b u d = sql e SqlIsCohost (cohost_listed d b u)"

section \<open>Users\<close>

definition summary_of :: "db \<Rightarrow> uuid \<Rightarrow> user_summary option" where
  "summary_of d i =
     map_option u_summary (find (\<lambda>u. us_id (u_summary u) = i \<and> u_deleted_at u = None) (d_users d))"

definition repo_find_user_summary :: "repo_env \<Rightarrow> uuid \<Rightarrow> db \<Rightarrow> broadcast_error + user_summary option" where
  "repo_find_user_summary e i d = sql e SqlUserSummary (summary_of d i)"

definition repo_find_users_batch :: "repo_env \<Rightarrow> uuid list \<Rightarrow> db \<Rightarrow> broadcast_error + user_summary list" where
  "repo_find_users_batch e ids d =
     (if ids = [] then Inr []
      else sql e SqlUsersBatch
        (map u_summary (filter (\<lambda>u. us_id (u_summary u) \<in> set ids \<and> u_deleted_at u = None) (d_users d))))"

definition repo_get_cohosts :: "repo_env \<Rightarrow> uuid \<Rightarrow> db \<Rightarrow> broadcast_error + user_summary list" where
  "repo_get_cohosts e b d =
     sql e SqlGetCohosts
       (concat (map (\<lambda>r. map u_summary
            (filter (\<lambda>u. us_id (u_summary u) = c_cohost_id r \<and> u_deleted_at u = None) (d_users d)))
          (filter (\<lambda>r. c_broadcast_id r = b \<and> c_removed_at r = None) (d_cohosts d))))"

definition repo_is_subscribed :: "repo_env \<Rightarrow> uuid \<Rightarrow> uuid \<Rightarrow> db \<Rightarrow> broadcast_error + bool" where
  "repo_is_subscribed e subscriber_id creator_id d =
     sql e SqlIsSubscribed ((subscriber_id, creator_id) \<in> set (d_subscribers d))"

definition repo_is_bookmarked :: "repo_env \<Rightarrow> uuid \<Rightarrow> uuid \<Rightarrow> db \<Rightarrow> broadcast_error + bool" where
  "repo_is_bookmarked e user_id broadcast_id d =
     sql e SqlIsBookmarked
       (list_ex (\<lambda>m. bm_user_id m = user_id \<and> bm_broadcast_id m = broadcast_id) (d_bookmarks d))"

definition repo_get_subscriber_ids :: "repo_env \<Rightarrow> uuid \<Rightarrow> db \<Rightarrow> broadcast_error + uuid list" where
  "repo_get_subscriber_ids e subscription_id d =
     sql e SqlSubscriberIds (map fst (filter (\<lambda>(s, t). t = subscription_id) (d_subscribers d)))"

section \<open>Lookups after writes\<close>

lemma exec_cases:
  assumes "exec e st r d = (Inr v, d')"
  shows "re_fault e st = None \<and> r = (Inr v, d')"
  using assms by (auto simp: exec_def split: option.splits sum.splits prod.splits)

lemma exec_Inl: "exec e st r d = (Inl err, d') \<Longrightarrow> d' = d"
  by (auto simp: exec_def split: option.splits sum.splits prod.splits)

lemma then_do_Inr:
  "then_do m f d = (Inr v, d') \<longleftrightarrow> (\<exists>w d1. m d = (Inr w, d1) \<and> f w d1 = (Inr v, d'))"
  by (auto simp: then_do_def split: sum.splits prod.splits)

lemma in_tx_Inr: "in_tx e body d = (Inr v, d') \<Longrightarrow> body d = (Inr v, d')"
  by (auto simp: in_tx_def split: sum.splits prod.splits)

lemma in_tx_Inl: "in_tx e body d = (Inl err, d') \<Longrightarrow> d' = d"
  by (auto simp: in_tx_def split: sum.splits prod.splits)

lemma sql_Inr [simp]: "sql e st v = Inr w \<longleftrightarrow> re_fault e st = None \<and> v = w"
  by (auto simp: sql_def split: option.splits)

lemma update_broadcast_rest [simp]:
  "d_users (update_broadcast e i f d) = d_users d"
  "d_participants (update_broadcast e i f d) = d_participants d"
  "d_cohosts (update_broadcast e i f d) = d_cohosts d"
  "d_bookmarks (update_broadcast e i f d) = d_bookmarks d"
  "d_subscribers (update_broadcast e i f d) = d_subscribers d"
  by (simp_all add: update_broadcast_def)

lemma broadcast_row_update:
  assumes "\<And>b. b_id (f b) = b_id b"
  shows "broadcast_row (update_broadcast e i f d) j =
     (if j = i then map_option (\<lambda>b. (f b)\<lparr>b_updated_at := re_db_now e\<rparr>) (broadcast_row d i)
      else broadcast_row d j)"
proof (cases "j = i")
  case True
  with find_map_update [where key = b_id and k = i and f = "\<lambda>b. (f b)\<lparr>b_updated_at := re_db_now e\<rparr>"] assms
  show ?thesis by (simp add: broadcast_row_def update_broadcast_def)
next
  case False
  with find_map_other [where key = b_id and k = j and k' = i and f = "\<lambda>b. (f b)\<lparr>b_updated_at := re_db_now e\<rparr>"] assms
  show ?thesis by (simp add: broadcast_row_def update_broadcast_def)
qed

lemma bump_total_rest [simp]:
  "d_users (bump_total e b n d) = d_users d" "d_participants (bump_total e b n d) = d_participants d"
  "d_cohosts (bump_total e b n d) = d_cohosts d" "d_bookmarks (bump_total e b n d) = d_bookmarks d"
  "d_subscribers (bump_total e b n d) = d_subscribers d"
  by (simp_all add: bump_total_def)

lemma participant_row_rest [simp]:
  "participant_row (update_broadcast e i f d) b u = participant_row d b u"
  "participant_row (bump_total e i n d) b u = participant_row d b u"
  "participant_row (d\<lparr>d_cohosts := cs\<rparr>) b u = participant_row d b u"
  "participant_row (d\<lparr>d_broadcasts := bs\<rparr>) b u = participant_row d b u"
  by (simp_all add: participant_row_def)

lemma is_row_unique: "is_row b u p \<Longrightarrow> is_row b' u' p \<longleftrightarrow> b = b' \<and> u = u'"
  by (auto simp: is_row_def)

lemma participant_row_append:
  "participant_row (d\<lparr>d_participants := ps @ [p]\<rparr>) b u =
     (case participant_row (d\<lparr>d_participants := ps\<rparr>) b u of
        Some q \<Rightarrow> Some q
      | None \<Rightarrow> if is_row b u p then Some p else None)"
  by (auto simp: participant_row_def find_append split: option.split)

lemma find_row_map:
  assumes "\<And>p. is_row b u (f p) = is_row b u p"
  shows "find (is_row b u) (map f ps) = map_option f (find (is_row b u) ps)"
  using assms by (induction ps) auto

lemma participant_row_map:
  assumes "\<And>p. is_row b u (f p) = is_row b u p"
  shows "participant_row (d\<lparr>d_participants := map f (d_participants d)\<rparr>) b u = map_option f (participant_row d b u)"
  using find_row_map [of b u f, OF assms] by (simp add: participant_row_def)

lemma find_row_filter:
  "find (is_row b u) (filter (\<lambda>p. \<not> is_row b' u' p) ps) =
     (if b = b' \<and> u = u' then None else find (is_row b u) ps)"
  by (induction ps) (auto simp: is_row_unique)

lemma participant_row_filter:
  "participant_row (d\<lparr>d_participants := filter (\<lambda>p. \<not> is_row b' u' p) (d_participants d)\<rparr>) b u =
     (if b = b' \<and> u = u' then None else participant_row d b u)"
  by (simp add: participant_row_def find_row_filter)

lemma participant_row_SomeD:
  "participant_row d b u = Some p \<Longrightarrow> p \<in> set (d_participants d) \<and> is_row b u p"
  unfolding participant_row_def by (rule find_Some_mem)

lemma upsert_row:
  assumes "repo_upsert_participant e inp d = (Inr v, d')"
  shows "participant_row d' b u =
     (if b = pi_broadcast_id inp \<and> u = pi_participant_id inp
      then Some (case participant_row d b u of
             Some p \<Rightarrow> p\<lparr>p_role := pi_role inp, p_joined_at := pi_joined_at inp\<rparr>
           | None \<Rightarrow> \<lparr>p_broadcast_id = b, p_participant_id = u, p_role = pi_role inp,
                      p_joined_at = pi_joined_at inp, p_left_at = None,
                      p_last_listen_position_seconds = 0, p_last_listened_at = None\<rparr>)
      else participant_row d b u)"
proof (cases "participant_row d (pi_broadcast_id inp) (pi_participant_id inp)")
  case None
  with exec_cases [OF assms [unfolded repo_upsert_participant_def]] have
    "d' = bump_total e (pi_broadcast_id inp) 1 (d\<lparr>d_participants := d_participants d @
        [\<lparr>p_broadcast_id = pi_broadcast_id inp, p_participant_id = pi_participant_id inp, p_role = pi_role inp,
          p_joined_at = pi_joined_at inp, p_left_at = None, p_last_listen_position_seconds = 0,
          p_last_listened_at = None\<rparr>]\<rparr>)"
    by (auto simp: Let_def split: if_splits)
  with None show ?thesis
    by (auto simp: participant_row_append is_row_def split: option.split)
next
  case (Some q)
  let ?f = "\<lambda>p. if is_row (pi_broadcast_id inp) (pi_participant_id inp) p
        then p\<lparr>p_role := pi_role inp, p_joined_at := pi_joined_at inp\<rparr> else p"
  from Some exec_cases [OF assms [unfolded repo_upsert_participant_def]] have
    d': "d' = d\<lparr>d_participants := map ?f (d_participants d)\<rparr>"
    by (auto simp: Let_def)
  have "participant_row d' b u = map_option ?f (participant_row d b u)"
    unfolding d' by (rule participant_row_map) (simp add: is_row_def)
  moreover have "is_row b u q'" if "participant_row d b u = Some q'" for q'
    using participant_row_SomeD [OF that] by simp
  ultimately show ?thesis
    using Some by (cases "participant_row d b u") (auto simp: is_row_unique)
qed

lemma remove_row:
  assumes "repo_remove_participant e b' u' d = (Inr v, d')"
  shows "participant_row d' b u = (if b = b' \<and> u = u' then None else participant_row d b u)"
  using exec_cases [OF assms [unfolded repo_remove_participant_def]]
  by (auto simp: participant_row_filter split: option.splits)

section \<open>Integrity of the tables\<close>

definition count_of :: "db \<Rightarrow> uuid \<Rightarrow> int" where
  "count_of d b = int (length (filter (\<lambda>p. p_broadcast_id p = b) (d_participants d)))"

definition participant_key :: "broadcast_participant \<Rightarrow> uuid \<times> uuid" where
  "participant_key p = (p_broadcast_id p, p_participant_id p)"

definition cohost_key :: "broadcast_cohost \<Rightarrow> uuid \<times> uuid" where
  "cohost_key r = (c_broadcast_id r, c_cohost_id r)"

definition total_ok :: "db \<Rightarrow> broadcast \<Rightarrow> bool" where
  "total_ok d b \<longleftrightarrow> (\<forall>n. b_total_participants b = Some n \<longrightarrow> n = count_of d (b_id b))"

definition repo_inv :: "db \<Rightarrow> bool" where
  "repo_inv d \<longleftrightarrow>
     distinct (map b_id (d_broadcasts d)) \<and> distinct (map participant_key (d_participants d)) \<and>
     distinct (map cohost_key (d_cohosts d)) \<and>
     (\<forall>p \<in> set (d_participants d). broadcast_exists d (p_broadcast_id p) \<and> user_exists d (p_participant_id p)) \<and>
     (\<forall>r \<in> set (d_cohosts d). broadcast_exists d (c_broadcast_id r) \<and> user_exists d (c_cohost_id r)) \<and>
     (\<forall>b \<in> set (d_broadcasts d). user_exists d (b_creator_id b) \<and> total_ok d b)"

text \<open>Every statement of the repository that writes.\<close>

inductive db_step :: "db \<Rightarrow> db \<Rightarrow> bool" where
  create: "repo_create e inp d = (r, d') \<Longrightarrow> db_step d d'"
| update: "repo_update e upd d = (r, d') \<Longrightarrow> db_step d d'"
| delete: "repo_delete e b d = (r', d') \<Longrightarrow> db_step d d'"
| set_active: "repo_set_active e sa d = (r, d') \<Longrightarrow> db_step d d'"
| set_inactive: "repo_set_inactive e b reason d = (r', d') \<Longrightarrow> db_step d d'"
| add_cohosts: "repo_add_cohosts e b us inviter d = (r', d') \<Longrightarrow> db_step d d'"
| remove_cohost: "repo_remove_cohost e b u d = (r', d') \<Longrightarrow> db_step d d'"
| upsert: "repo_upsert_participant e ups d = (r', d') \<Longrightarrow> db_step d d'"
| remove: "repo_remove_participant e b u d = (r', d') \<Longrightarrow> db_step d d'"
| clear: "repo_get_participant_ids_and_clear e b d = (ids, d') \<Longrightarrow> db_step d d'"

inductive_cases db_stepE: "db_step d d'"

lemma exec_Inr_or_same:
  "exec e st r d = (x, d') \<Longrightarrow> d' = d \<or> (\<exists>v. r = (Inr v, d'))"
  by (auto simp: exec_def split: option.splits sum.splits prod.splits)

lemma broadcast_exists_ids: "broadcast_exists d i \<longleftrightarrow> i \<in> set (map b_id (d_broadcasts d))"
  by (auto simp: broadcast_exists_def)

lemma update_broadcast_ids:
  "(\<And>b. b_id (f b) = b_id b) \<Longrightarrow> map b_id (d_broadcasts (update_broadcast e i f d)) = map b_id (d_broadcasts d)"
  by (simp add: update_broadcast_def)

lemma broadcast_exists_update:
  "(\<And>b. b_id (f b) = b_id b) \<Longrightarrow> broadcast_exists (update_broadcast e i f d) j = broadcast_exists d j"
  by (simp only: broadcast_exists_ids update_broadcast_ids)

lemma user_exists_cong: "d_users d' = d_users d \<Longrightarrow> user_exists d' u = user_exists d u"
  by (simp add: user_exists_def)

lemma repo_inv_update:
  assumes inv: "repo_inv d" and id: "\<And>b. b_id (f b) = b_id b" "\<And>b. b_creator_id (f b) = b_creator_id b"
    and tot: "\<And>b. b_total_participants (f b) = b_total_participants b"
  shows "repo_inv (update_broadcast e i f d)"
proof -
  let ?d = "update_broadcast e i f d"
  have ex: "broadcast_exists ?d j = broadcast_exists d j" "user_exists ?d u = user_exists d u" for j u
    using id by (simp_all add: user_exists_def broadcast_exists_update)
  have "map b_id (d_broadcasts ?d) = map b_id (d_broadcasts d)"
    using id by (simp add: update_broadcast_def)
  moreover have "user_exists d (b_creator_id b) \<and> total_ok ?d b" if "b \<in> set (d_broadcasts ?d)" for b
    using that inv id tot by (auto simp: repo_inv_def update_broadcast_def total_ok_def count_of_def)
  ultimately show ?thesis using inv by (simp add: repo_inv_def ex)
qed

lemma repo_inv_returning:
  "repo_inv d0 \<Longrightarrow> exec e st (returning d0 i) d = (x, d') \<Longrightarrow> repo_inv d \<Longrightarrow> repo_inv d'"
  by (auto dest!: exec_Inr_or_same simp: returning_def split: option.splits)

lemma repo_inv_create:
  assumes inv: "repo_inv d" and st: "repo_create e inp d = (r, d')"
  shows "repo_inv d'"
  using exec_Inr_or_same [OF st [unfolded repo_create_def]]
proof
  assume "\<exists>v. (if broadcast_exists d (re_new_id e) then (Inl pk_violation, d)
        else if \<not> user_exists d (ci_creator_id inp) then (Inl fk_violation, d)
        else (Inr (new_broadcast e inp), d\<lparr>d_broadcasts := d_broadcasts d @ [new_broadcast e inp]\<rparr>)) = (Inr v, d')"
  then have new: "\<not> broadcast_exists d (re_new_id e)" "user_exists d (ci_creator_id inp)"
    and d': "d' = d\<lparr>d_broadcasts := d_broadcasts d @ [new_broadcast e inp]\<rparr>"
    by (auto split: if_splits)
  have none: "filter (\<lambda>p. p_broadcast_id p = re_new_id e) (d_participants d) = []"
    using inv new(1) by (auto simp: repo_inv_def filter_empty_conv)
  show ?thesis
    using inv new none
    by (auto simp: repo_inv_def d' broadcast_exists_def user_exists_def total_ok_def count_of_def new_broadcast_def)
qed (use inv in simp)

lemma repo_inv_map:
  assumes inv: "repo_inv d" and "\<And>b. b_id (f b) = b_id b" "\<And>b. b_creator_id (f b) = b_creator_id b"
    "\<And>b. b_total_participants (f b) = b_total_participants b"
  shows "repo_inv (d\<lparr>d_broadcasts := map f (d_broadcasts d)\<rparr>)"
  using assms by (auto simp: repo_inv_def broadcast_exists_ids user_exists_def total_ok_def count_of_def comp_def)

lemma repo_inv_delete:
  assumes "repo_inv d" and "repo_delete e b d = (r, d')"
  shows "repo_inv d'"
  using exec_Inr_or_same [OF assms(2) [unfolded repo_delete_def]] assms(1)
  by (auto intro!: repo_inv_map)

lemma repo_inv_set_update:
  "repo_inv d \<Longrightarrow> repo_update e inp d = (r, d') \<Longrightarrow> repo_inv d'"
  unfolding repo_update_def
  by (rule repo_inv_returning [OF repo_inv_update]) (auto simp: apply_update_def set_if_def split: option.splits)

lemma repo_inv_set_active:
  "repo_inv d \<Longrightarrow> repo_set_active e inp d = (r, d') \<Longrightarrow> repo_inv d'"
  unfolding repo_set_active_def by (rule repo_inv_returning [OF repo_inv_update]) auto

lemma repo_inv_set_inactive:
  assumes "repo_inv d" and "repo_set_inactive e b reason d = (r, d')"
  shows "repo_inv d'"
  using exec_Inr_or_same [OF assms(2) [unfolded repo_set_inactive_def]] assms(1)
  by (auto intro!: repo_inv_update)

text \<open>Writes of the participants table keep the count because the trigger follows the rows.\<close>

lemma bump_total_ids [simp]: "map b_id (d_broadcasts (bump_total e b n d)) = map b_id (d_broadcasts d)"
  by (simp add: bump_total_def update_broadcast_ids)

lemma repo_inv_bump:
  assumes inv: "repo_inv d"
    and keys: "distinct (map participant_key ps)"
    and refs: "\<forall>p \<in> set ps. broadcast_exists d (p_broadcast_id p) \<and> user_exists d (p_participant_id p)"
    and count: "\<And>j. int (length (filter (\<lambda>p. p_broadcast_id p = j) ps)) = count_of d j + (if j = b then n else 0)"
  shows "repo_inv (bump_total e b n (d\<lparr>d_participants := ps\<rparr>))"
proof -
  let ?d = "bump_total e b n (d\<lparr>d_participants := ps\<rparr>)"
  have ex: "broadcast_exists ?d j = broadcast_exists d j" "user_exists ?d u = user_exists d u" for j u
    by (simp_all add: broadcast_exists_ids user_exists_def)
  have "user_exists d (b_creator_id r) \<and> total_ok ?d r" if "r \<in> set (d_broadcasts ?d)" for r
    using that inv count
    by (auto simp: repo_inv_def bump_total_def update_broadcast_def total_ok_def count_of_def)
  then show ?thesis
    using inv keys refs by (simp add: repo_inv_def ex)
qed

lemma is_row_key: "is_row b u p \<longleftrightarrow> participant_key p = (b, u)"
  by (auto simp: is_row_def participant_key_def)

lemma participant_row_None: "participant_row d b u = None \<longleftrightarrow> (b, u) \<notin> participant_key ` set (d_participants d)"
  by (force simp: participant_row_def find_None_mem is_row_key)

lemma repo_inv_participants:
  assumes inv: "repo_inv d" and keys: "map participant_key ps = map participant_key (d_participants d)"
  shows "repo_inv (d\<lparr>d_participants := ps\<rparr>)"
proof -
  have m: "map p_broadcast_id ps = map p_broadcast_id (d_participants d)"
    using arg_cong [OF keys, of "map fst"] by (simp add: participant_key_def comp_def)
  have len: "length (filter (\<lambda>p. p_broadcast_id p = j) ps) = length (filter (\<lambda>p. p_broadcast_id p = j) (d_participants d))" for j
    using arg_cong [OF m, of "\<lambda>xs. length (filter (\<lambda>x. x = j) xs)"] by (simp add: filter_map comp_def)
  have "\<exists>q \<in> set (d_participants d). participant_key q = participant_key p" if "p \<in> set ps" for p
  proof -
    have "participant_key p \<in> set (map participant_key ps)" using that by simp
    then have "participant_key p \<in> set (map participant_key (d_participants d))" by (simp only: keys)
    then show ?thesis by force
  qed
  then have "\<forall>p \<in> set ps. broadcast_exists d (p_broadcast_id p) \<and> user_exists d (p_participant_id p)"
    using inv by (fastforce simp: repo_inv_def participant_key_def)
  then show ?thesis
    using inv keys by (auto simp: repo_inv_def broadcast_exists_def user_exists_def total_ok_def count_of_def len)
qed

lemma repo_inv_upsert:
  assumes inv: "repo_inv d" and st: "repo_upsert_participant e inp d = (r, d')"
  shows "repo_inv d'"
proof (cases "d' = d")
  case False
  let ?b = "pi_broadcast_id inp" and ?u = "pi_participant_id inp"
  let ?new = "\<lparr>p_broadcast_id = ?b, p_participant_id = ?u, p_role = pi_role inp,
      p_joined_at = pi_joined_at inp, p_left_at = None, p_last_listen_position_seconds = 0, p_last_listened_at = None\<rparr>"
  note w = exec_Inr_or_same [OF st [unfolded repo_upsert_participant_def Let_def]]
  show ?thesis
  proof (cases "participant_row d ?b ?u")
    case None
    with w False have ex: "broadcast_exists d ?b" "user_exists d ?u"
      and d': "d' = bump_total e ?b 1 (d\<lparr>d_participants := d_participants d @ [?new]\<rparr>)"
      by (auto split: if_splits)
    show ?thesis
      unfolding d'
      by (rule repo_inv_bump [OF inv])
        (use inv None ex in \<open>auto simp: repo_inv_def participant_row_None participant_key_def count_of_def\<close>)
  next
    case (Some q)
    with w False have "d' = d\<lparr>d_participants := map (\<lambda>p. if is_row ?b ?u p
        then p\<lparr>p_role := pi_role inp, p_joined_at := pi_joined_at inp\<rparr> else p) (d_participants d)\<rparr>"
      by auto
    then show ?thesis
      by (simp add: repo_inv_participants [OF inv] participant_key_def)
  qed
qed (use inv in simp)

lemma filter_key_count:
  "distinct (map participant_key ps) \<Longrightarrow> p \<in> set ps \<Longrightarrow> is_row b u p \<Longrightarrow>
     int (length (filter (\<lambda>p. p_broadcast_id p = j) (filter (\<lambda>p. \<not> is_row b u p) ps))) =
     int (length (filter (\<lambda>p. p_broadcast_id p = j) ps)) + (if j = b then - 1 else 0)"
proof (induction ps)
  case (Cons q ps)
  show ?case
  proof (cases "is_row b u q")
    case True
    with Cons.prems have "\<forall>x \<in> set ps. \<not> is_row b u x" by (force simp: is_row_key)
    then have "filter (\<lambda>p. \<not> is_row b u p) ps = ps" by (simp add: filter_id_conv)
    with True show ?thesis by (auto simp: is_row_def)
  next
    case False
    with Cons show ?thesis by auto
  qed
qed simp

lemma repo_inv_remove:
  assumes inv: "repo_inv d" and st: "repo_remove_participant e b u d = (r, d')"
  shows "repo_inv d'"
proof (cases "participant_row d b u")
  case None
  with exec_Inr_or_same [OF st [unfolded repo_remove_participant_def]] inv show ?thesis by auto
next
  case (Some q)
  let ?ps = "filter (\<lambda>p. \<not> is_row b u p) (d_participants d)"
  have "repo_inv (bump_total e b (- 1) (d\<lparr>d_participants := ?ps\<rparr>))"
  proof (rule repo_inv_bump [OF inv], goal_cases)
    case (3 j)
    show ?case
      using filter_key_count [of "d_participants d" q b u j] inv participant_row_SomeD [OF Some]
      by (simp add: repo_inv_def count_of_def)
  qed (use inv in \<open>auto simp: repo_inv_def distinct_map_filter\<close>)
  with exec_Inr_or_same [OF st [unfolded repo_remove_participant_def]] inv Some show ?thesis by auto
qed

lemma repo_inv_clear:
  assumes inv: "repo_inv d" and st: "repo_get_participant_ids_and_clear e b d = (r, d')"
  shows "repo_inv d'"
  using exec_Inr_or_same [OF st [unfolded repo_get_participant_ids_and_clear_def Let_def]] inv
  by (auto intro!: repo_inv_participants simp: participant_key_def)

lemma repo_inv_cohosts:
  assumes "repo_inv d" and "distinct (map cohost_key cs)"
    and "\<forall>r \<in> set cs. broadcast_exists d (c_broadcast_id r) \<and> user_exists d (c_cohost_id r)"
  shows "repo_inv (d\<lparr>d_cohosts := cs\<rparr>)"
  using assms by (simp add: repo_inv_def broadcast_exists_def user_exists_def total_ok_def count_of_def)

lemma insert_cohosts_inv:
  assumes "repo_inv d" and "broadcast_exists d b" and "list_all (user_exists d) us"
  shows "repo_inv (insert_cohosts e b inviter us d)"
  using assms
proof (induction us arbitrary: d)
  case (Cons u us)
  show ?case
  proof (cases "cohost_listed d b u")
    case True
    with Cons show ?thesis by simp
  next
    case False
    let ?r = "\<lparr>c_broadcast_id = b, c_cohost_id = u, c_invited_by = inviter, c_invited_at = re_db_now e, c_removed_at = None\<rparr>"
    have "repo_inv (d\<lparr>d_cohosts := d_cohosts d @ [?r]\<rparr>)"
      by (rule repo_inv_cohosts [OF Cons.prems(1)])
        (use Cons.prems False in \<open>auto simp: repo_inv_def cohost_listed_def cohost_key_def\<close>)
    with Cons False show ?thesis
      by (simp add: broadcast_exists_def user_exists_def)
  qed
qed simp

lemma repo_inv_add_cohosts:
  assumes inv: "repo_inv d" and st: "repo_add_cohosts e b us inviter d = (r, d')"
  shows "repo_inv d'"
proof (cases "us = []")
  case True
  with st inv show ?thesis by (simp add: repo_add_cohosts_def)
next
  case False
  with st have "exec e SqlAddCohosts
        (if \<not> broadcast_exists d b \<or> \<not> user_exists d inviter \<or> \<not> list_all (user_exists d) us
         then (Inl fk_violation, d) else (Inr (), insert_cohosts e b inviter us d)) d = (r, d')"
    by (simp add: repo_add_cohosts_def)
  from exec_Inr_or_same [OF this] inv show ?thesis
    by (auto split: if_splits intro: insert_cohosts_inv)
qed

lemma repo_inv_remove_cohost:
  assumes inv: "repo_inv d" and st: "repo_remove_cohost e b u d = (r, d')"
  shows "repo_inv d'"
  using exec_Inr_or_same [OF st [unfolded repo_remove_cohost_def]] inv
  by (auto intro!: repo_inv_cohosts simp: distinct_map_filter) (auto simp: repo_inv_def distinct_map_filter)

lemma db_step_inv: "db_step d d' \<Longrightarrow> repo_inv d \<Longrightarrow> repo_inv d'"
  by (induction rule: db_step.induct)
    (blast intro: repo_inv_create repo_inv_set_update repo_inv_delete repo_inv_set_active repo_inv_set_inactive
      repo_inv_add_cohosts repo_inv_remove_cohost repo_inv_upsert repo_inv_remove repo_inv_clear)+

text \<open>C3. The tables stay sound under every write of the repository, failed ones included: ids and key
  pairs are unique, participants and cohosts refer to existing broadcasts and users, and the
  counter \<open>total_participants\<close> of a broadcast, which only the trigger maintains, is the number of
  its participant rows.
\<close>

theorem tables_stay_sound:
  assumes "db_step\<^sup>*\<^sup>* d d'" and "repo_inv d"
  shows "repo_inv d' \<and>
    (\<forall>b n. broadcast_row d' b = Some r \<longrightarrow> b_total_participants r = Some n \<longrightarrow>
       repo_get_total_participants e b d' = (case re_fault e SqlTotalParticipants of None \<Rightarrow> Inr n | Some err \<Rightarrow> Inl (Database err)))"
proof -
  have inv: "repo_inv d'" using assms by (induction rule: rtranclp_induct) (auto intro: db_step_inv)
  have "n = count_of d' b" if "broadcast_row d' b = Some r" "b_total_participants r = Some n" for b n
    using that inv unfolding broadcast_row_def by (auto simp: repo_inv_def total_ok_def dest!: find_Some_mem)
  then show ?thesis
    using inv by (auto simp: repo_get_total_participants_def sql_def count_of_def split: option.split)
qed

definition demo_user :: "uuid \<Rightarrow> string \<Rightarrow> user_row" where
  "demo_user i name = \<lparr>u_summary = \<lparr>us_id = i, us_full_name = name, us_bio = None, us_avatar_id = None,
     us_avatar_url = None\<rparr>, u_deleted_at = None\<rparr>"

definition demo_db :: db where
  "demo_db = \<lparr>d_users = [demo_user 1 ''ann'', demo_user 2 ''bob'', demo_user 3 ''cy''], d_broadcasts = [],
     d_participants = [], d_cohosts = [], d_bookmarks = [], d_subscribers = []\<rparr>"

definition demo_repo :: repo_env where
  "demo_repo = \<lparr>re_db_now = 100, re_new_id = 7, re_new_end_reason = NoReason, re_fault = (\<lambda>st. None)\<rparr>"

definition demo_create :: create_broadcast_input where
  "demo_create = \<lparr>ci_title = ''talk'', ci_description = None, ci_image_id = None, ci_image_url = None,
     ci_time_zone = None, ci_start_time = None, ci_recording_enabled = False, ci_creator_id = 1\<rparr>"

lemma demo_db_inv: "repo_inv demo_db"
  by (simp add: repo_inv_def demo_db_def)

theorem tables_stay_sound_witness:
  "repo_inv (snd (repo_upsert_participant demo_repo
     \<lparr>pi_broadcast_id = 7, pi_participant_id = 2, pi_role = Participant, pi_joined_at = 100\<rparr>
     (snd (repo_create demo_repo demo_create demo_db))))"
proof -
  have "db_step demo_db (snd (repo_create demo_repo demo_create demo_db))"
    by (rule db_step.create [OF prod.collapse [symmetric]])
  moreover have "db_step (snd (repo_create demo_repo demo_create demo_db)) (snd (repo_upsert_participant demo_repo
     \<lparr>pi_broadcast_id = 7, pi_participant_id = 2, pi_role = Participant, pi_joined_at = 100\<rparr>
     (snd (repo_create demo_repo demo_create demo_db))))"
    by (rule db_step.upsert [OF prod.collapse [symmetric]])
  ultimately show ?thesis
    using tables_stay_sound [OF converse_rtranclp_into_rtranclp [OF _ r_into_rtranclp] demo_db_inv] by blast
qed

end
