(* ===== verification/Broadcast_Dto.thy ===== *)
theory Broadcast_Dto
  imports Broadcast_Model
begin

text \<open>
  \<open>modules/broadcast/dto.rs\<close>: the requests, responses and queries of the broadcast module, the
  keys its lists are cached under, and the deserializers of query parameters. The hash of a
  keyword (\<open>DefaultHasher\<close>, printed in hexadecimal) and the date parsers of the \<open>time\<close> crate are
  arguments. Field names carry a prefix per type.
\<close>

section \<open>Requests and responses\<close>

record create_broadcast_request =
  cr_title :: string
  cr_description :: "string option"
  cr_image_id :: "string option"
  cr_image_url :: "string option"
  cr_time_zone :: "string option"
  cr_start_time :: "timestamp option"
  cr_recording_enabled :: "bool option"
  cr_cohosts :: "uuid list option"

record update_broadcast_request =
  ur_title :: "string option"
  ur_description :: "string option"
  ur_image_id :: "string option"
  ur_image_url :: "string option"
  ur_start_time :: "timestamp option"
  ur_time_zone :: "string option"
  ur_recording_enabled :: "bool option"
  ur_cohosts :: "uuid list option"

record broadcast_response =
  br_id :: uuid
  br_title :: string
  br_description :: "string option"
  br_time_zone :: "string option"
  br_image_url :: "string option"
  br_image_id :: "string option"
  br_created_at :: timestamp
  br_start_time :: "timestamp option"
  br_end_time :: "timestamp option"
  br_published_at :: "timestamp option"
  br_duration_seconds :: "int option"
  br_status :: broadcast_status
  br_state :: broadcast_state
  br_participant_role :: participant_role
  br_is_subscribed_to_creator :: bool
  br_is_bookmarked :: bool
  br_live_participants_count :: int
  br_total_participants :: int
  br_recording_enabled :: bool
  br_recording_url :: "string option"
  br_end_reason :: end_reason
  br_time_remaining_seconds :: "int option"
  br_last_listened_at :: "timestamp option"
  br_creator :: user_summary
  br_cohosts :: "user_summary list"

record broadcast_session_response =
  bs_broadcast :: broadcast_response
  bs_token :: string

record cohost_session_response =
  cs_user :: user_summary
  cs_token :: string

record leave_broadcast_response =
  lv_success :: bool
  lv_broadcast_id :: uuid
  lv_user_id :: uuid
  lv_left_at :: timestamp

record refresh_token_response =
  rt_broadcast_id :: uuid
  rt_token :: string
  rt_expires_at :: timestamp

record end_broadcast_response =
  eb_broadcast_id :: uuid
  eb_broadcast_title :: string
  eb_broadcast_image_url :: "string option"
  eb_creator_id :: uuid
  eb_ended_reason :: end_reason
  eb_ended_at :: timestamp
  eb_duration_secs :: int
  eb_total_participants :: int
  eb_recording_enabled :: bool
  eb_recording_ready :: bool

record participant_list_item =
  pl_id :: uuid
  pl_full_name :: string
  pl_avatar_id :: "string option"
  pl_avatar_url :: "string option"
  pl_role :: participant_role
  pl_joined_at :: timestamp

section \<open>Queries\<close>

datatype broadcast_sort_by = SortCreatedAt | SortTitle | SortStartTime | SortEndTime | SortTotalParticipants

datatype participant_sort_by = SortRole | SortJoinedAt | SortName

definition broadcast_sort_default :: broadcast_sort_by where "broadcast_sort_default = SortCreatedAt"
definition participant_sort_default :: participant_sort_by where "participant_sort_default = SortRole"

record broadcast_query =
  bq_creator_id :: "uuid option"
  bq_status :: "broadcast_status option"
  bq_keywords :: "string option"
  bq_only_subscriptions :: "bool option"
  bq_start_time_gt :: "timestamp option"
  bq_start_time_lt :: "timestamp option"
  bq_start_time_gte :: "timestamp option"
  bq_start_time_lte :: "timestamp option"
  bq_end_time_gt :: "timestamp option"
  bq_end_time_lt :: "timestamp option"
  bq_end_time_gte :: "timestamp option"
  bq_end_time_lte :: "timestamp option"
  bq_start_time_exists :: "bool option"
  bq_end_time_exists :: "bool option"
  bq_sort_by :: "broadcast_sort_by option"
  bq_order :: "order option"
  bq_pagination :: cursor_params

record participant_query =
  pq_keywords :: "string option"
  pq_role :: "participant_role option"
  pq_sort_by :: "participant_sort_by option"
  pq_order :: "order option"
  pq_pagination :: cursor_params

definition or_default :: "'a option \<Rightarrow> 'a \<Rightarrow> 'a" where
  "or_default q d = (case q of Some x \<Rightarrow> x | None \<Rightarrow> d)"

definition effective_order :: "broadcast_query \<Rightarrow> order" where
  "effective_order q = or_default (bq_order q) order_default"

definition effective_sort :: "broadcast_query \<Rightarrow> broadcast_sort_by" where
  "effective_sort q = or_default (bq_sort_by q) broadcast_sort_default"

section \<open>Cache keys\<close>

text \<open>The \<open>Debug\<close> forms that go into a key.\<close>

fun debug_status :: "broadcast_status \<Rightarrow> string" where
  "debug_status Active = ''Active''"
| "debug_status Inactive = ''Inactive''"

fun debug_broadcast_sort :: "broadcast_sort_by \<Rightarrow> string" where
  "debug_broadcast_sort SortCreatedAt = ''CreatedAt''"
| "debug_broadcast_sort SortTitle = ''Title''"
| "debug_broadcast_sort SortStartTime = ''StartTime''"
| "debug_broadcast_sort SortEndTime = ''EndTime''"
| "debug_broadcast_sort SortTotalParticipants = ''TotalParticipants''"

fun debug_participant_sort :: "participant_sort_by \<Rightarrow> string" where
  "debug_participant_sort SortRole = ''Role''"
| "debug_participant_sort SortJoinedAt = ''JoinedAt''"
| "debug_participant_sort SortName = ''Name''"

fun debug_order :: "order \<Rightarrow> string" where
  "debug_order Desc = ''Desc''"
| "debug_order Asc = ''Asc''"

fun debug_role :: "participant_role \<Rightarrow> string" where
  "debug_role Host = ''Host''"
| "debug_role Cohost = ''Cohost''"
| "debug_role Participant = ''Participant''"
| "debug_role NoRole = ''None''"

definition unix_timestamp :: "timestamp \<Rightarrow> int" where
  "unix_timestamp t = t div 1000000000"

text \<open>\<open>parts.push(format!("{}={}", tag, value))\<close> when the field is there.\<close>

definition seg :: "string \<Rightarrow> ('a \<Rightarrow> string) \<Rightarrow> 'a option \<Rightarrow> string list" where
  "seg tag f v = (case v of Some x \<Rightarrow> [tag @ ''='' @ f x] | None \<Rightarrow> [])"

definition show_bool :: "bool \<Rightarrow> string" where
  "show_bool b = (if b then ''1'' else ''0'')"

definition list_key_filters :: "codec \<Rightarrow> (string \<Rightarrow> string) \<Rightarrow> broadcast_query \<Rightarrow> string list" where
  "list_key_filters c kw_hex q =
     seg ''cid'' (uuid_show c) (bq_creator_id q) @
     seg ''kw'' kw_hex (bq_keywords q) @
     seg ''s'' debug_status (bq_status q) @
     seg ''stgt'' (show_int \<circ> unix_timestamp) (bq_start_time_gt q) @
     seg ''stge'' (show_int \<circ> unix_timestamp) (bq_start_time_gte q) @
     seg ''stlt'' (show_int \<circ> unix_timestamp) (bq_start_time_lt q) @
     seg ''stle'' (show_int \<circ> unix_timestamp) (bq_start_time_lte q) @
     seg ''etgt'' (show_int \<circ> unix_timestamp) (bq_end_time_gt q) @
     seg ''etge'' (show_int \<circ> unix_timestamp) (bq_end_time_gte q) @
     seg ''etlt'' (show_int \<circ> unix_timestamp) (bq_end_time_lt q) @
     seg ''etle'' (show_int \<circ> unix_timestamp) (bq_end_time_lte q) @
     seg ''ste'' show_bool (bq_start_time_exists q) @
     seg ''ete'' show_bool (bq_end_time_exists q) @
     [''sb='' @ debug_broadcast_sort (or_default (bq_sort_by q) broadcast_sort_default),
      ''ord='' @ debug_order (or_default (bq_order q) order_default)]"

definition broadcast_list_cache_key :: "codec \<Rightarrow> (string \<Rightarrow> string) \<Rightarrow> broadcast_query \<Rightarrow> string option" where
  "broadcast_list_cache_key c kw_hex q =
     (if bq_only_subscriptions q = Some True then None
      else
        (let cursor_str = or_default (cp_cursor (bq_pagination q)) [];
             parts = list_key_filters c kw_hex q @
               [''cur='' @ cursor_str, ''lim='' @ show_int (page_limit (bq_pagination q))]
         in Some (if parts = [] then ''bc:list:all'' else ''bc:list:'' @ join_with '':'' parts)))"

definition participant_list_key ::
    "codec \<Rightarrow> (string \<Rightarrow> string) \<Rightarrow> string \<Rightarrow> uuid \<Rightarrow> participant_query \<Rightarrow> string" where
  "participant_list_key c kw_hex pre broadcast_id q =
     (let parts = seg ''kw'' kw_hex (pq_keywords q) @ seg ''s'' debug_role (pq_role q) @
            (case pq_sort_by q of None \<Rightarrow> [] | Some SortRole \<Rightarrow> []
             | Some s \<Rightarrow> [''sb='' @ debug_participant_sort s]) @
            (case pq_order q of None \<Rightarrow> [] | Some Desc \<Rightarrow> [] | Some ord \<Rightarrow> [''ob='' @ debug_order ord])
      in ''bc:'' @ pre @ '':'' @ uuid_show c broadcast_id @ '':'' @ join_with '':'' parts)"

definition participant_key_all :: "codec \<Rightarrow> (string \<Rightarrow> string) \<Rightarrow> uuid \<Rightarrow> participant_query \<Rightarrow> string" where
  "participant_key_all c kw_hex = participant_list_key c kw_hex ''participants''"

definition participant_key_live :: "codec \<Rightarrow> (string \<Rightarrow> string) \<Rightarrow> uuid \<Rightarrow> participant_query \<Rightarrow> string" where
  "participant_key_live c kw_hex = participant_list_key c kw_hex ''live_participants''"

section \<open>Deserializers\<close>

text \<open>What serde hands the flexible visitor.\<close>

datatype date_input = DateI64 int | DateU64 "64 word" | DateStr string | DateAbsent

definition visit_i64 :: "codec \<Rightarrow> int \<Rightarrow> string + timestamp option" where
  "visit_i64 c v =
     (if ts_ok c (v * 1000000000) then Inr (Some (v * 1000000000))
      else Inl (''Unix timestamp '' @ show_int v @ '' is out of range''))"

definition deserialize_flexible_datetime ::
    "codec \<Rightarrow> (string \<Rightarrow> timestamp option) \<Rightarrow> (string \<Rightarrow> timestamp option) \<Rightarrow> (string \<Rightarrow> timestamp option) \<Rightarrow>
     date_input \<Rightarrow> string + timestamp option" where
  "deserialize_flexible_datetime c rfc3339 date_midnight iso_local inp =
     (case inp of
        DateI64 v \<Rightarrow> visit_i64 c v
      | DateU64 v \<Rightarrow> visit_i64 c (sint v)
      | DateAbsent \<Rightarrow> Inr None
      | DateStr v \<Rightarrow>
          (case rfc3339 v of
             Some dt \<Rightarrow> Inr (Some dt)
           | None \<Rightarrow>
               (case date_midnight v of
                  Some dt \<Rightarrow> Inr (Some dt)
                | None \<Rightarrow>
                    (case iso_local v of
                       Some dt \<Rightarrow> Inr (Some dt)
                     | None \<Rightarrow> Inl (''invalid datetime '' @ [CHR 0x27] @ v @ [CHR 0x27] @
                         '': expected YYYY-MM-DD, RFC 3339, or Unix timestamp'')))))"

text \<open>\<open>match s.to_lowercase()\<close> over an optional text: absent and empty are \<open>None\<close>.\<close>

definition match_lowercase :: "(string \<times> 'a) list \<Rightarrow> (string \<Rightarrow> string) \<Rightarrow> string option \<Rightarrow> string + 'a option" where
  "match_lowercase arms err s =
     (case map_option to_lowercase s of
        None \<Rightarrow> Inr None
      | Some t \<Rightarrow> if t = [] then Inr None
                else (case map_of arms t of Some v \<Rightarrow> Inr (Some v) | None \<Rightarrow> Inl (err t)))"

definition quoted :: "string \<Rightarrow> string" where
  "quoted s = [CHR 0x27] @ s @ [CHR 0x27]"

definition deserialize_sort_by :: "string option \<Rightarrow> string + broadcast_sort_by option" where
  "deserialize_sort_by = match_lowercase
     [(''title'', SortTitle), (''start_time'', SortStartTime), (''end_time'', SortEndTime),
      (''created_at'', SortCreatedAt), (''total_participants'', SortTotalParticipants)]
     (\<lambda>other. ''unknown sort_by '' @ quoted other @ '': expected one of title, start_time, end_time'')"

definition deserialize_order :: "string option \<Rightarrow> string + order option" where
  "deserialize_order = match_lowercase [(''asc'', Asc), (''desc'', Desc)]
     (\<lambda>other. ''unknown order_by '' @ quoted other @ '': expected '' @ quoted ''asc'' @ '' or '' @ quoted ''desc'')"

definition deserialize_participant_role :: "string option \<Rightarrow> string + participant_role option" where
  "deserialize_participant_role = match_lowercase
     [(''host'', Host), (''cohost'', Cohost), (''participant'', Participant)]
     (\<lambda>other. ''unknown role '' @ quoted other @ '': expected host, cohost, or participant'')"

definition deserialize_sort_by_participant :: "string option \<Rightarrow> string + participant_sort_by option" where
  "deserialize_sort_by_participant = match_lowercase
     [(''role'', SortRole), (''joined_at'', SortJoinedAt), (''name'', SortName)]
     (\<lambda>other. ''unknown sort_by '' @ quoted other @ '': expected role, joined_at, or name'')"

section \<open>Keys tell queries apart\<close>

definition has_tag :: "string \<Rightarrow> string \<Rightarrow> bool" where
  "has_tag tag part \<longleftrightarrow> takeWhile (\<lambda>x. x \<noteq> CHR ''='') part = tag"

definition plain_tag :: "string \<Rightarrow> bool" where
  "plain_tag tag \<longleftrightarrow> CHR ''='' \<notin> set tag"

lemma has_tag_simp: "plain_tag t \<Longrightarrow> has_tag tag (t @ CHR ''='' # v) \<longleftrightarrow> t = tag"
  by (auto simp: has_tag_def plain_tag_def takeWhile_append2 takeWhile_append)

lemma find_seg:
  "plain_tag t \<Longrightarrow> find (has_tag tag) (seg t f v @ rest) =
     (if t = tag
      then (case v of Some x \<Rightarrow> Some (t @ ''='' @ f x) | None \<Rightarrow> find (has_tag tag) rest)
      else find (has_tag tag) rest)"
  by (auto simp: seg_def has_tag_simp split: option.split)

text \<open>A part of the key before the cursor: a tag other than \<open>cur\<close>, and no colon.\<close>

definition filter_part :: "string \<Rightarrow> bool" where
  "filter_part p \<longleftrightarrow> CHR '':'' \<notin> set p \<and> CHR ''='' \<in> set p \<and> \<not> has_tag ''cur'' p"

definition glue :: "string list \<Rightarrow> string \<Rightarrow> string" where
  "glue ps rest = concat (map (\<lambda>p. p @ '':'') ps) @ rest"

lemma join_glue: "join_with '':'' (ps @ [x, y]) = glue ps (x @ '':'' @ y)"
proof (induction ps)
  case (Cons p ps)
  then show ?case by (cases ps) (simp_all add: glue_def)
qed (simp add: glue_def)

lemma takeWhile_sep: "c \<in> set p \<Longrightarrow> takeWhile (\<lambda>x. x \<noteq> c) (p @ q) = takeWhile (\<lambda>x. x \<noteq> c) p"
  by (simp add: takeWhile_append1)

lemma takeWhile_stop: "c \<notin> set p \<Longrightarrow> takeWhile (\<lambda>x. x \<noteq> c) (p @ c # q) = p"
  by (induction p) auto

lemma colon_split:
  assumes "CHR '':'' \<notin> set p" and "CHR '':'' \<notin> set p'" and "p @ CHR '':'' # q = p' @ CHR '':'' # q'"
  shows "p = p' \<and> q = q'"
proof -
  have "p = p'"
    using arg_cong [OF assms(3), of "takeWhile (\<lambda>x. x \<noteq> CHR '':'')"] assms(1,2) by (simp add: takeWhile_stop)
  with assms(3) show ?thesis by simp
qed

lemma glue_not_cur: "filter_part p \<Longrightarrow> p @ '':'' @ r \<noteq> ''cur='' @ r'"
proof
  assume p: "filter_part p" and eq: "p @ '':'' @ r = ''cur='' @ r'"
  have "takeWhile (\<lambda>x. x \<noteq> CHR ''='') p = ''cur''"
    using arg_cong [OF eq, of "takeWhile (\<lambda>x. x \<noteq> CHR ''='')"] p by (simp add: filter_part_def takeWhile_sep)
  with p show False by (simp add: filter_part_def has_tag_def)
qed

lemma glue_inject:
  "list_all filter_part ps \<Longrightarrow> list_all filter_part ps' \<Longrightarrow> glue ps (''cur='' @ r) = glue ps' (''cur='' @ r') \<Longrightarrow>
     ps = ps' \<and> r = r'"
proof (induction ps arbitrary: ps')
  case Nil
  then show ?case
    using glue_not_cur [of "hd ps'" "glue (tl ps') (''cur='' @ r')" r] by (cases ps') (auto simp: glue_def)
next
  case (Cons p ps)
  show ?case
  proof (cases ps')
    case Nil
    then show ?thesis
      using Cons.prems glue_not_cur [of p "glue ps (''cur='' @ r)" r'] by (auto simp: glue_def)
  next
    case (Cons p' qs)
    with Cons.prems have "p @ CHR '':'' # glue ps (''cur='' @ r) = p' @ CHR '':'' # glue qs (''cur='' @ r')"
      by (simp add: glue_def)
    from colon_split [OF _ _ this] Cons.prems Cons
    have "p = p'" "glue ps (''cur='' @ r) = glue qs (''cur='' @ r')" by (simp_all add: filter_part_def)
    with Cons.IH [of qs] Cons.prems Cons show ?thesis by simp
  qed
qed

lemma last_colon:
  assumes "xs @ CHR '':'' # ys = xs' @ CHR '':'' # ys'" and "CHR '':'' \<notin> set ys" and "CHR '':'' \<notin> set ys'"
  shows "xs = xs' \<and> ys = ys'"
  using colon_split [of "rev ys" "rev ys'" "rev xs" "rev xs'"] arg_cong [OF assms(1), of rev] assms(2,3) by simp

lemma filter_part_seg:
  "plain_tag t \<Longrightarrow> t \<noteq> ''cur'' \<Longrightarrow> CHR '':'' \<notin> set t \<Longrightarrow> (\<And>x. CHR '':'' \<notin> set (f x)) \<Longrightarrow>
     list_all filter_part (seg t f v)"
  by (auto simp: seg_def filter_part_def has_tag_simp split: option.split)

lemma show_plain [simp]:
  "CHR '':'' \<notin> set (debug_status s)" "CHR '':'' \<notin> set (show_bool b)"
  "CHR '':'' \<notin> set (debug_broadcast_sort bs)" "CHR '':'' \<notin> set (debug_order ord)"
  by (cases s; cases bs; cases ord; simp add: show_bool_def)+

lemma debug_inject [simp]:
  "debug_status s = debug_status s' \<longleftrightarrow> s = s'" "show_bool b = show_bool b' \<longleftrightarrow> b = b'"
  "debug_broadcast_sort bs = debug_broadcast_sort bs' \<longleftrightarrow> bs = bs'" "debug_order ord = debug_order ord' \<longleftrightarrow> ord = ord'"
  by (cases s; cases s'; simp) (simp_all add: show_bool_def, (cases bs; cases bs'; simp), (cases ord; cases ord'; simp))

lemma list_key_filters_parts:
  assumes "codec_laws c" and "\<And>s. CHR '':'' \<notin> set (kw_hex s)"
  shows "list_all filter_part (list_key_filters c kw_hex q)"
proof -
  have u: "CHR '':'' \<notin> set (uuid_show c u)" for u
    using codec_lawsD(4) [OF assms(1), of u] by (simp add: no_sep_def)
  have "filter_part (''sb='' @ debug_broadcast_sort s)" "filter_part (''ord='' @ debug_order r)" for s r
    by (simp_all add: filter_part_def has_tag_def)
  then show ?thesis
    by (simp add: list_key_filters_def filter_part_seg plain_tag_def u assms(2))
qed

lemma list_key_fields:
  "find (has_tag ''cid'') (list_key_filters c kw_hex q) =
     (case bq_creator_id q of Some x \<Rightarrow> Some (''cid='' @ (uuid_show c) x) | None \<Rightarrow> None)"
  "find (has_tag ''kw'') (list_key_filters c kw_hex q) =
     (case bq_keywords q of Some x \<Rightarrow> Some (''kw='' @ kw_hex x) | None \<Rightarrow> None)"
  "find (has_tag ''s'') (list_key_filters c kw_hex q) =
     (case bq_status q of Some x \<Rightarrow> Some (''s='' @ debug_status x) | None \<Rightarrow> None)"
  "find (has_tag ''stgt'') (list_key_filters c kw_hex q) =
     (case bq_start_time_gt q of Some x \<Rightarrow> Some (''stgt='' @ (show_int \<circ> unix_timestamp) x) | None \<Rightarrow> None)"
  "find (has_tag ''stge'') (list_key_filters c kw_hex q) =
     (case bq_start_time_gte q of Some x \<Rightarrow> Some (''stge='' @ (show_int \<circ> unix_timestamp) x) | None \<Rightarrow> None)"
  "find (has_tag ''stlt'') (list_key_filters c kw_hex q) =
     (case bq_start_time_lt q of Some x \<Rightarrow> Some (''stlt='' @ (show_int \<circ> unix_timestamp) x) | None \<Rightarrow> None)"
  "find (has_tag ''stle'') (list_key_filters c kw_hex q) =
     (case bq_start_time_lte q of Some x \<Rightarrow> Some (''stle='' @ (show_int \<circ> unix_timestamp) x) | None \<Rightarrow> None)"
  "find (has_tag ''etgt'') (list_key_filters c kw_hex q) =
     (case bq_end_time_gt q of Some x \<Rightarrow> Some (''etgt='' @ (show_int \<circ> unix_timestamp) x) | None \<Rightarrow> None)"
  "find (has_tag ''etge'') (list_key_filters c kw_hex q) =
     (case bq_end_time_gte q of Some x \<Rightarrow> Some (''etge='' @ (show_int \<circ> unix_timestamp) x) | None \<Rightarrow> None)"
  "find (has_tag ''etlt'') (list_key_filters c kw_hex q) =
     (case bq_end_time_lt q of Some x \<Rightarrow> Some (''etlt='' @ (show_int \<circ> unix_timestamp) x) | None \<Rightarrow> None)"
  "find (has_tag ''etle'') (list_key_filters c kw_hex q) =
     (case bq_end_time_lte q of Some x \<Rightarrow> Some (''etle='' @ (show_int \<circ> unix_timestamp) x) | None \<Rightarrow> None)"
  "find (has_tag ''ste'') (list_key_filters c kw_hex q) =
     (case bq_start_time_exists q of Some x \<Rightarrow> Some (''ste='' @ show_bool x) | None \<Rightarrow> None)"
  "find (has_tag ''ete'') (list_key_filters c kw_hex q) =
     (case bq_end_time_exists q of Some x \<Rightarrow> Some (''ete='' @ show_bool x) | None \<Rightarrow> None)"
  "find (has_tag ''sb'') (list_key_filters c kw_hex q) = Some (''sb='' @ debug_broadcast_sort (effective_sort q))"
  "find (has_tag ''ord'') (list_key_filters c kw_hex q) = Some (''ord='' @ debug_order (effective_order q))"
  unfolding list_key_filters_def effective_sort_def effective_order_def
  by (simp_all add: find_seg plain_tag_def split: option.split) (simp_all add: has_tag_def)

lemma option_text_eq:
  "(case v of Some x \<Rightarrow> Some (t @ f x) | None \<Rightarrow> None) = (case w of Some x \<Rightarrow> Some (t @ f x) | None \<Rightarrow> None) \<longleftrightarrow>
     map_option f v = map_option f w"
  by (cases v; cases w) simp_all

text \<open>What a list key distinguishes: every filter (times in whole seconds), sort, order, cursor, limit.\<close>

definition same_listing :: "(string \<Rightarrow> string) \<Rightarrow> broadcast_query \<Rightarrow> broadcast_query \<Rightarrow> bool" where
  "same_listing kw_hex q q' \<longleftrightarrow>
     bq_creator_id q = bq_creator_id q' \<and> map_option kw_hex (bq_keywords q) = map_option kw_hex (bq_keywords q') \<and>
     bq_status q = bq_status q' \<and>
     map_option unix_timestamp (bq_start_time_gt q) = map_option unix_timestamp (bq_start_time_gt q') \<and>
     map_option unix_timestamp (bq_start_time_gte q) = map_option unix_timestamp (bq_start_time_gte q') \<and>
     map_option unix_timestamp (bq_start_time_lt q) = map_option unix_timestamp (bq_start_time_lt q') \<and>
     map_option unix_timestamp (bq_start_time_lte q) = map_option unix_timestamp (bq_start_time_lte q') \<and>
     map_option unix_timestamp (bq_end_time_gt q) = map_option unix_timestamp (bq_end_time_gt q') \<and>
     map_option unix_timestamp (bq_end_time_gte q) = map_option unix_timestamp (bq_end_time_gte q') \<and>
     map_option unix_timestamp (bq_end_time_lt q) = map_option unix_timestamp (bq_end_time_lt q') \<and>
     map_option unix_timestamp (bq_end_time_lte q) = map_option unix_timestamp (bq_end_time_lte q') \<and>
     bq_start_time_exists q = bq_start_time_exists q' \<and> bq_end_time_exists q = bq_end_time_exists q' \<and>
     effective_sort q = effective_sort q' \<and> effective_order q = effective_order q'"

lemma map_option_inj: "(\<And>x y. f x = f y \<longleftrightarrow> x = y) \<Longrightarrow> map_option f v = map_option f w \<longleftrightarrow> v = w"
  by (cases v; cases w) simp_all

lemma map_option_stamp:
  "map_option (show_int \<circ> unix_timestamp) v = map_option (show_int \<circ> unix_timestamp) w \<longleftrightarrow>
     map_option unix_timestamp v = map_option unix_timestamp w"
  by (cases v; cases w) simp_all

lemma list_key_filters_same:
  assumes "codec_laws c"
  shows "list_key_filters c kw_hex q = list_key_filters c kw_hex q' \<longleftrightarrow> same_listing kw_hex q q'"
proof
  assume eq: "list_key_filters c kw_hex q = list_key_filters c kw_hex q'"
  have f: "find (has_tag t) (list_key_filters c kw_hex q) = find (has_tag t) (list_key_filters c kw_hex q')" for t
    by (simp add: eq)
  show "same_listing kw_hex q q'"
    unfolding same_listing_def
    using f [of "''cid''"] f [of "''kw''"] f [of "''s''"] f [of "''stgt''"] f [of "''stge''"] f [of "''stlt''"]
      f [of "''stle''"] f [of "''etgt''"] f [of "''etge''"] f [of "''etlt''"] f [of "''etle''"] f [of "''ste''"]
      f [of "''ete''"] f [of "''sb''"] f [of "''ord''"]
    unfolding list_key_fields option_text_eq map_option_stamp
    by (simp add: map_option_inj uuid_show_inject [OF assms])
next
  have s: "seg t (show_int \<circ> unix_timestamp) v = seg t show_int (map_option unix_timestamp v)" for t v
    by (cases v) (simp_all add: seg_def)
  have k: "seg t kw_hex v = seg t id (map_option kw_hex v)" for t v
    by (cases v) (simp_all add: seg_def)
  assume "same_listing kw_hex q q'"
  then show "list_key_filters c kw_hex q = list_key_filters c kw_hex q'"
    unfolding same_listing_def effective_sort_def effective_order_def list_key_filters_def s k
    by (elim conjE) (simp only: cong: option.case_cong)
qed

lemma list_key_split:
  "broadcast_list_cache_key c kw_hex q = Some k \<Longrightarrow>
     k = ''bc:list:'' @ glue (list_key_filters c kw_hex q)
       (''cur='' @ or_default (cp_cursor (bq_pagination q)) [] @ CHR '':'' # ''lim='' @ show_int (page_limit (bq_pagination q)))"
  by (auto simp: broadcast_list_cache_key_def join_glue [simplified] Let_def split: if_splits)

text \<open>Cached broadcast lists do not collide: two queries share a cache key exactly when they ask the
  same thing, that is they agree on every filter (keywords up to their hash, times up to the
  second), on the effective sort and order, and on cursor and limit, whatever text the client put
  into the cursor; and a personalised query has no key at all.
\<close>

theorem list_cache_key_exact:
  assumes laws: "codec_laws c" and hex: "\<forall>s. CHR '':'' \<notin> set (kw_hex s)"
    and key: "broadcast_list_cache_key c kw_hex q = Some k"
  shows "broadcast_list_cache_key c kw_hex q' = Some k \<longleftrightarrow>
     bq_only_subscriptions q' \<noteq> Some True \<and> same_listing kw_hex q q' \<and>
     or_default (cp_cursor (bq_pagination q)) [] = or_default (cp_cursor (bq_pagination q')) [] \<and>
     page_limit (bq_pagination q) = page_limit (bq_pagination q')"
    (is "?l \<longleftrightarrow> ?r")
proof
  let ?cur = "\<lambda>q. or_default (cp_cursor (bq_pagination q)) []" and ?lim = "\<lambda>q. page_limit (bq_pagination q)"
  have parts: "list_all filter_part (list_key_filters c kw_hex p)" for p
    using list_key_filters_parts [OF laws] hex by simp
  assume l: ?l
  have "glue (list_key_filters c kw_hex q) (''cur='' @ ?cur q @ CHR '':'' # ''lim='' @ show_int (?lim q)) =
      glue (list_key_filters c kw_hex q') (''cur='' @ ?cur q' @ CHR '':'' # ''lim='' @ show_int (?lim q'))"
    using list_key_split [OF key] list_key_split [OF l] by simp
  from glue_inject [OF parts parts this]
  have fs: "list_key_filters c kw_hex q = list_key_filters c kw_hex q'"
    and r: "?cur q @ CHR '':'' # ''lim='' @ show_int (?lim q) = ?cur q' @ CHR '':'' # ''lim='' @ show_int (?lim q')"
    by simp_all
  have "?cur q = ?cur q' \<and> ''lim='' @ show_int (?lim q) = ''lim='' @ show_int (?lim q')"
    by (rule last_colon [OF r]) simp_all
  moreover have "bq_only_subscriptions q' \<noteq> Some True"
    using l by (auto simp: broadcast_list_cache_key_def)
  ultimately show ?r using fs list_key_filters_same [OF laws] by simp
next
  assume r: ?r
  then have "list_key_filters c kw_hex q = list_key_filters c kw_hex q'"
    using list_key_filters_same [OF laws] by simp
  with r key show ?l by (auto simp: broadcast_list_cache_key_def Let_def split: if_splits)
qed

definition empty_query :: broadcast_query where
  "empty_query = \<lparr>bq_creator_id = None, bq_status = None, bq_keywords = None, bq_only_subscriptions = None,
     bq_start_time_gt = None, bq_start_time_lt = None, bq_start_time_gte = None, bq_start_time_lte = None,
     bq_end_time_gt = None, bq_end_time_lt = None, bq_end_time_gte = None, bq_end_time_lte = None,
     bq_start_time_exists = None, bq_end_time_exists = None, bq_sort_by = None, bq_order = None,
     bq_pagination = \<lparr>cp_cursor = None, cp_limit = None\<rparr>\<rparr>"

theorem list_cache_key_exact_witness:
  "broadcast_list_cache_key plain_codec (\<lambda>s. ''0'') (empty_query\<lparr>bq_sort_by := Some SortCreatedAt\<rparr>) =
     broadcast_list_cache_key plain_codec (\<lambda>s. ''0'') empty_query \<and>
   broadcast_list_cache_key plain_codec (\<lambda>s. ''0'') (empty_query\<lparr>bq_creator_id := Some 4\<rparr>) \<noteq>
     broadcast_list_cache_key plain_codec (\<lambda>s. ''0'') empty_query"
proof -
  obtain k where k: "broadcast_list_cache_key plain_codec (\<lambda>s. ''0'') empty_query = Some k"
    by (simp add: broadcast_list_cache_key_def empty_query_def Let_def)
  have h: "\<forall>s. CHR '':'' \<notin> set ((\<lambda>s :: string. ''0'') s)" by simp
  note r = list_cache_key_exact [OF plain_codec_laws h k]
  show ?thesis
    unfolding k r
    by (simp add: empty_query_def same_listing_def effective_sort_def effective_order_def broadcast_sort_default_def
        or_default_def)
qed

text \<open>The participant list's key leaves out the cursor and the limit, and does not tell the explicit
  descending order from the default (which is ascending): two requests for different pages, or in
  opposite orders, are answered from one cache entry.
\<close>

theorem participant_key_ignores_page:
  "participant_key_all c kw_hex b (q\<lparr>pq_pagination := page\<rparr>) = participant_key_all c kw_hex b q \<and>
   participant_key_all c kw_hex b (q\<lparr>pq_order := Some Desc\<rparr>) = participant_key_all c kw_hex b (q\<lparr>pq_order := None\<rparr>)"
  by (simp add: participant_key_all_def participant_list_key_def)

section \<open>Parameters\<close>

lemma match_lowercase_cases:
  "match_lowercase arms err s = Inr (Some v) \<Longrightarrow> \<exists>t. s = Some t \<and> (to_lowercase t, v) \<in> set arms"
  by (auto simp: match_lowercase_def split: option.splits if_splits dest: map_of_SomeD)

text \<open>Order and sort parameters are read without regard to case, absent and empty ones mean the
  default, and anything else is rejected with the offending text: a parameter never silently
  selects an order the client did not name.
\<close>

theorem order_param_exact:
  "(deserialize_order s = Inr (Some Asc)) = (map_option to_lowercase s = Some ''asc'') \<and>
   (deserialize_order s = Inr (Some Desc)) = (map_option to_lowercase s = Some ''desc'') \<and>
   (deserialize_order s = Inr None) = (s = None \<or> map_option to_lowercase s = Some []) \<and>
   (isl (deserialize_order s) = (map_option to_lowercase s \<notin> {None, Some [], Some ''asc'', Some ''desc''}))"
  by (cases s) (auto simp: deserialize_order_def match_lowercase_def)

end
