(* ===== verification/Broadcast_Cache.thy ===== *)
theory Broadcast_Cache
  imports Redis_Keys Broadcast_Dto
begin

text \<open>
  \<open>modules/broadcast/cache.rs\<close>: the live counter and the other Redis entries of a broadcast, and
  the invalidation of cached lists. The JSON text of a timestamp is an argument; \<open>SCAN\<close> replies
  are the server's, per pattern.
\<close>

section \<open>Entries of a broadcast\<close>

definition redis_unit :: "(fred_error + 'a) \<times> keyspace \<Rightarrow> (broadcast_error + unit) \<times> keyspace" where
  "redis_unit r = (case r of (Inl err, db) \<Rightarrow> (Inl (RedisErr err), db) | (Inr _, db) \<Rightarrow> (Inr (), db))"

definition set_started_at ::
    "codec \<Rightarrow> redis_env \<Rightarrow> (timestamp \<Rightarrow> string) \<Rightarrow> uuid \<Rightarrow> timestamp \<Rightarrow> keyspace \<Rightarrow> (broadcast_error + unit) \<times> keyspace" where
  "set_started_at c e to_json broadcast_id at db =
     redis_unit (redis_set e to_json (key_started_at c broadcast_id) at None db)"

definition set_live_count :: "codec \<Rightarrow> redis_env \<Rightarrow> uuid \<Rightarrow> keyspace \<Rightarrow> (broadcast_error + unit) \<times> keyspace" where
  "set_live_count c e broadcast_id db =
     redis_unit (redis_set e show_int (key_live_count c broadcast_id) 1 None db)"

text \<open>
  \<open>serde_json::from_str::<i64>\<close>: surrounding white space is skipped; no sign but a minus, no leading
  zeros, no fraction.
\<close>

definition json_space :: "char \<Rightarrow> bool" where
  "json_space ch \<longleftrightarrow> ch \<in> {CHR '' '', CHR 0x09, CHR 0x0A, CHR 0x0D}"

definition json_i64 :: "string \<Rightarrow> int option" where
  "json_i64 s =
     (let t = rev (dropWhile json_space (rev (dropWhile json_space s)))
      in case parse_signed i64_min i64_max t of
           Some n \<Rightarrow> if show_int n = t then Some n else None
         | None \<Rightarrow> None)"

definition get_live_count :: "codec \<Rightarrow> redis_env \<Rightarrow> uuid \<Rightarrow> keyspace \<Rightarrow> broadcast_error + int option" where
  "get_live_count c e broadcast_id db =
     (case redis_get e json_i64 (key_live_count c broadcast_id) db of
        Inl err \<Rightarrow> Inl (RedisErr err)
      | Inr count \<Rightarrow> Inr count)"

definition unwrap_or :: "'e + 'a \<Rightarrow> 'a \<Rightarrow> 'a" where
  "unwrap_or r d = (case r of Inr v \<Rightarrow> v | Inl _ \<Rightarrow> d)"

lemma unwrap_or_simps [simp]: "unwrap_or (Inr v) d = v" "unwrap_or (Inl err) d = d"
  by (simp_all add: unwrap_or_def)

definition increment_live_count ::
    "codec \<Rightarrow> redis_env \<Rightarrow> uuid \<Rightarrow> keyspace \<Rightarrow> (broadcast_error + int) \<times> keyspace" where
  "increment_live_count c e broadcast_id db =
     (case redis_incr e (key_live_count c broadcast_id) db of (r, db1) \<Rightarrow> (Inr (unwrap_or r 1), db1))"

definition decrement_live_count ::
    "codec \<Rightarrow> redis_env \<Rightarrow> uuid \<Rightarrow> keyspace \<Rightarrow> (broadcast_error + int) \<times> keyspace" where
  "decrement_live_count c e broadcast_id db =
     (let key = key_live_count c broadcast_id
      in case redis_decr e key db of
           (r, db1) \<Rightarrow>
             (let remaining = max 0 (unwrap_or r 0)
              in (Inr remaining, if remaining = 0 then snd (redis_del e key db1) else db1)))"

definition delete_live_count :: "codec \<Rightarrow> redis_env \<Rightarrow> uuid \<Rightarrow> keyspace \<Rightarrow> (broadcast_error + unit) \<times> keyspace" where
  "delete_live_count c e broadcast_id db = (Inr (), snd (redis_del e (key_live_count c broadcast_id) db))"

definition delete_host_grace :: "codec \<Rightarrow> redis_env \<Rightarrow> uuid \<Rightarrow> keyspace \<Rightarrow> (broadcast_error + unit) \<times> keyspace" where
  "delete_host_grace c e broadcast_id db = (Inr (), snd (redis_del e (key_host_grace c broadcast_id) db))"

fun del_keys :: "redis_env \<Rightarrow> string list \<Rightarrow> keyspace \<Rightarrow> keyspace" where
  "del_keys e [] db = db"
| "del_keys e (k # ks) db = del_keys e ks (snd (redis_del e k db))"

definition clear_broadcast_cache :: "codec \<Rightarrow> redis_env \<Rightarrow> uuid \<Rightarrow> keyspace \<Rightarrow> keyspace" where
  "clear_broadcast_cache c e broadcast_id db =
     del_keys e [key_live_count c broadcast_id, key_host_grace c broadcast_id, key_started_at c broadcast_id] db"

section \<open>Invalidation\<close>

text \<open>
  The task of \<open>invalidate_list_caches\<close>: the four patterns in turn; a failure is logged and the next
  pattern is tried. It has not ended (\<open>None\<close>) while the server keeps one of its scans going.
\<close>

fun delete_patterns :: "redis_env \<Rightarrow> (string \<Rightarrow> scan_reply list) \<Rightarrow> string list \<Rightarrow> keyspace \<Rightarrow> keyspace option" where
  "delete_patterns e scan [] db = Some db"
| "delete_patterns e scan (p # ps) db =
     (case delete_by_pattern e scan p db of
        None \<Rightarrow> None
      | Some (_, db1) \<Rightarrow> delete_patterns e scan ps db1)"

definition invalidate_list_caches :: "redis_env \<Rightarrow> (string \<Rightarrow> scan_reply list) \<Rightarrow> keyspace \<Rightarrow> keyspace option" where
  "invalidate_list_caches e scan db =
     delete_patterns e scan [''home:now_live:*'', ''home:recently_live:*'', ''bl:*'', ''pl:*''] db"

definition invalidate_broadcast_cache :: "codec \<Rightarrow> redis_env \<Rightarrow> uuid \<Rightarrow> keyspace \<Rightarrow> keyspace" where
  "invalidate_broadcast_cache c e broadcast_id db = snd (redis_del e (key_broadcast c broadcast_id) db)"

section \<open>The live counter\<close>

lemma json_i64_show [simp]: "i64_min \<le> n \<Longrightarrow> n \<le> i64_max \<Longrightarrow> json_i64 (show_int n) = Some n"
proof -
  assume n: "i64_min \<le> n" "n \<le> i64_max"
  have sp: "\<not> json_space ch" if "ch \<in> set (show_int n)" for ch
    using show_int_chars [OF that] by (auto simp: json_space_def is_digit_def)
  have d: "dropWhile json_space xs = xs" if "set xs \<subseteq> set (show_int n)" for xs
    using that sp by (cases xs) auto
  show ?thesis
    unfolding json_i64_def Let_def using parse_show_int [OF n] d [of "show_int n"] d [of "rev (show_int n)"]
    by simp
qed

text \<open>What the counter's entry means: absent is zero.\<close>

definition counts :: "codec \<Rightarrow> uuid \<Rightarrow> keyspace \<Rightarrow> nat \<Rightarrow> bool" where
  "counts c b db n \<longleftrightarrow>
     db (key_live_count c b) = (if n = 0 then None else Some (RStr (show_int (int n)), None))"

datatype count_op = Joined | Left

fun count_step :: "codec \<Rightarrow> uuid \<Rightarrow> keyspace \<Rightarrow> int \<times> count_op \<Rightarrow> keyspace" where
  "count_step c b db (t, Joined) = snd (increment_live_count c (up t) b db)"
| "count_step c b db (t, Left) = snd (decrement_live_count c (up t) b db)"

fun spec_count :: "nat \<Rightarrow> count_op \<Rightarrow> nat" where
  "spec_count n Joined = n + 1"
| "spec_count n Left = n - 1"

lemma counts_incr:
  assumes "counts c b db n" and "int n < i64_max"
  shows "fst (increment_live_count c (up t) b db) = Inr (int (n + 1))"
    and "counts c b (snd (increment_live_count c (up t) b db)) (n + 1)"
  using assms
  by (auto simp: counts_def increment_live_count_def redis_incr_def guarded_cmd_def cmd_incrby_def entry_def
      parse_show_int i64_min_def i64_max_def add.commute split: if_splits)

lemma counts_decr:
  assumes "counts c b db n" and "int n \<le> i64_max"
  shows "fst (decrement_live_count c (up t) b db) = Inr (int (n - 1))"
    and "counts c b (snd (decrement_live_count c (up t) b db)) (n - 1)"
  using assms
  by (auto simp: counts_def decrement_live_count_def redis_decr_def redis_del_def cmd_del_def guarded_cmd_def
      cmd_incrby_def entry_def parse_show_int i64_min_def i64_max_def Let_def of_nat_diff split: if_splits)

lemma counts_run:
  assumes "counts c b db n" and "int n + int (length ops) \<le> i64_max"
  shows "counts c b (foldl (count_step c b) db ops) (foldl spec_count n (map snd ops))"
  using assms
proof (induction ops arbitrary: db n)
  case (Cons x ops)
  obtain t opn where x: "x = (t, opn)" by (cases x)
  have "counts c b (count_step c b db x) (spec_count n opn) \<and> int (spec_count n opn) \<le> int n + 1"
    using Cons.prems counts_incr(2) [of c b db n t] counts_decr(2) [of c b db n t] by (cases opn) (simp_all add: x)
  with Cons.IH [of "count_step c b db x" "spec_count n opn"] Cons.prems show ?case by (simp add: x)
qed simp

lemma counts_get:
  assumes "counts c b db n" and "int n \<le> i64_max"
  shows "get_live_count c (up t) b db = Inr (if n = 0 then None else Some (int n))"
  using assms
  by (simp add: counts_def get_live_count_def redis_get_def cmd_get_def entry_def i64_min_def)

lemma spec_count_le: "foldl spec_count n ops \<le> n + length ops"
proof (induction ops arbitrary: n)
  case (Cons x ops)
  from Cons [of "spec_count n x"] show ?case by (cases x) auto
qed simp

text \<open>The live counter is exact: from the start of a broadcast, over any sequence of joins and leaves
  on a reachable Redis, the stored count is one for the host plus the joins minus the leaves,
  never below zero, and the entry disappears exactly when the count reaches zero.
\<close>

theorem live_count_exact:
  assumes "length ops < 2 ^ 63 - 1"
  shows "get_live_count c (up t) b (foldl (count_step c b) (snd (set_live_count c (up t0) b db)) ops) =
     (case foldl spec_count 1 (map snd ops) of 0 \<Rightarrow> Inr None | Suc n \<Rightarrow> Inr (Some (int (Suc n))))"
proof -
  have "counts c b (snd (set_live_count c (up t0) b db)) 1"
    by (simp add: counts_def set_live_count_def redis_unit_def redis_set_def guarded_cmd_def cmd_set_def)
  from counts_get [OF counts_run [OF this], of ops t] spec_count_le [of 1 "map snd ops"] assms
  show ?thesis by (simp add: i64_max_def split: nat.split)
qed

theorem live_count_exact_witness:
  "get_live_count plain_codec (up 9) 7 (foldl (count_step plain_codec 7)
     (snd (set_live_count plain_codec (up 0) 7 Map.empty)) [(1, Joined), (2, Joined), (3, Left)]) = Inr (Some 2)"
  using live_count_exact [of "[(1, Joined), (2, Joined), (3, Left)]" plain_codec 9 7 0 Map.empty] by simp

section \<open>What invalidation reaches\<close>

text \<open>The replies of \<open>SCAN MATCH\<close> contain matching keys only.\<close>

definition scan_sound :: "(string \<Rightarrow> scan_reply list) \<Rightarrow> bool" where
  "scan_sound scan \<longleftrightarrow> (\<forall>p cur ks. Inr (cur, ks) \<in> set (scan p) \<longrightarrow> list_all (glob p) ks)"

lemma scan_unlink_other:
  assumes "scan_unlink e rs n db = Some (r, db')" and "\<And>cur ks. Inr (cur, ks) \<in> set rs \<Longrightarrow> k \<notin> set ks"
  shows "db' k = db k"
  using assms
proof (induction e rs n db rule: scan_unlink.induct)
  case (3 e cursor keys rs deleted db)
  have "k \<notin> set keys" and rest: "\<And>cur ks. Inr (cur, ks) \<in> set rs \<Longrightarrow> k \<notin> set ks"
    using "3.prems"(2) by auto
  then have u: "unlink keys db k = db k" by (simp add: unlink_def)
  from "3.prems"(1) "3.IH" [OF _ refl refl _ _ rest] u show ?case
    by (auto simp: Let_def split: if_splits)
qed auto

lemma delete_patterns_other:
  assumes "scan_sound scan" and "delete_patterns e scan ps db = Some db'" and "\<forall>p \<in> set ps. \<not> glob p k"
  shows "db' k = db k"
  using assms(2,3)
proof (induction ps arbitrary: db)
  case (Cons p ps)
  from Cons.prems(1) obtain r db1 where d: "delete_by_pattern e scan p db = Some (r, db1)"
    and rest: "delete_patterns e scan ps db1 = Some db'"
    by (auto split: option.splits)
  have "db1 k = db k"
    using d Cons.prems(2) assms(1) unfolding delete_by_pattern_def
    by (intro scan_unlink_other) (auto simp: scan_sound_def list_all_iff)
  with Cons.IH [OF rest] Cons.prems(2) show ?case by simp
qed simp

lemma list_patterns_prefix:
  assumes "p \<in> set [''home:now_live:*'', ''home:recently_live:*'', ''bl:*'', ''pl:*'']" and "glob p k"
  shows "\<not> prefix ''bc:'' k"
proof -
  have "glob (q @ ''*'') k \<Longrightarrow> prefix q k" if "q \<in> {''home:now_live:'', ''home:recently_live:'', ''bl:'', ''pl:''}" for q
    using glob_prefix [of q k] that by (auto simp: plain_text_def)
  from this [of "''home:now_live:''"] this [of "''home:recently_live:''"] this [of "''bl:''"] this [of "''pl:''"]
  show ?thesis using assms by (auto simp: prefix_def)
qed

lemma list_keys_prefix:
  "broadcast_list_cache_key c kw_hex q = Some k \<Longrightarrow> prefix ''bc:'' k"
  "prefix ''bc:'' (participant_key_all c kw_hex b pq)"
  by (auto simp: broadcast_list_cache_key_def participant_key_all_def participant_list_key_def Let_def split: if_splits)

text \<open>C39. The invalidation does not reach the lists it is for: whatever is cached under the key of a
  broadcast list, of the now-live or recently-live page (\<open>bc:now_live:\<close>, \<open>bc:recently_live:\<close>) or of a
  participant list is still there after \<open>invalidate_list_caches\<close> has run, because none of its four
  patterns matches a key that starts with \<open>bc:\<close>. Only the lifetime of the entry ends it.
\<close>

theorem list_invalidation_misses_lists:
  assumes "scan_sound scan" and "invalidate_list_caches e scan db = Some db'"
    and "broadcast_list_cache_key c kw_hex q = Some k"
  shows "db' k = db k \<and> db' (participant_key_all c kw_hex b pq) = db (participant_key_all c kw_hex b pq) \<and>
     db' (''bc:now_live:'' @ rest) = db (''bc:now_live:'' @ rest) \<and>
     db' (''bc:recently_live:'' @ rest) = db (''bc:recently_live:'' @ rest)"
proof -
  have other: "db' k' = db k'" if "prefix ''bc:'' k'" for k'
    using delete_patterns_other [OF assms(1) assms(2) [unfolded invalidate_list_caches_def], of k']
      list_patterns_prefix [of _ k'] that by blast
  show ?thesis
    using other [OF list_keys_prefix(1) [OF assms(3)]] other [OF list_keys_prefix(2)]
      other [of "''bc:now_live:'' @ rest"] other [of "''bc:recently_live:'' @ rest"] by simp
qed

theorem list_invalidation_misses_lists_witness:
  "\<exists>k db'. broadcast_list_cache_key plain_codec (\<lambda>s. ''0'') empty_query = Some k \<and>
     invalidate_list_caches (up 0) (\<lambda>p. [Inr (''0'', if p = ''bl:*'' then [''bl:1''] else [])])
       [k \<mapsto> (RStr ''page'', None), ''bl:1'' \<mapsto> (RStr ''x'', None)] = Some db' \<and>
     db' k = Some (RStr ''page'', None) \<and> db' ''bl:1'' = None"
proof -
  obtain k where k: "broadcast_list_cache_key plain_codec (\<lambda>s. ''0'') empty_query = Some k"
    by (simp add: broadcast_list_cache_key_def empty_query_def Let_def)
  let ?scan = "\<lambda>p. [Inr (''0'', if p = ''bl:*'' then [''bl:1''] else [])] :: scan_reply list"
  let ?db = "[k \<mapsto> (RStr ''page'', None), ''bl:1'' \<mapsto> (RStr ''x'', None)] :: keyspace"
  have g: "glob ''bl:*'' ''bl:1''"
    using glob_prefix [of "''bl:''" "''bl:1''"] by (simp add: plain_text_def)
  have s: "scan_sound ?scan"
    using g by (auto simp: scan_sound_def)
  obtain db' where r: "invalidate_list_caches (up 0) ?scan ?db = Some db'" and gone: "db' ''bl:1'' = None"
    by (simp add: invalidate_list_caches_def delete_by_pattern_def unlink_def Let_def)
  have "k \<noteq> ''bl:1''" using list_keys_prefix(1) [OF k] by auto
  with list_invalidation_misses_lists [OF s r k, of 0 "\<lparr>pq_keywords = None, pq_role = None, pq_sort_by = None,
      pq_order = None, pq_pagination = \<lparr>cp_cursor = None, cp_limit = None\<rparr>\<rparr>" "[]"] k r gone
  show ?thesis by auto
qed

end
