(* ===== verification/Broadcast_Service.thy ===== *)
theory Broadcast_Service
  imports Steps Livekit Ws_Pubsub Broadcast_Repo Broadcast_Cache Coalescing
begin

text \<open>
  \<open>modules/broadcast/service.rs\<close>: the operations of the broadcast module over the whole state they
  touch: the tables, Redis, this instance's connections, the circuit breaker, what was published,
  queued and asked of the media server, and the tasks spawned but not yet run. Every operation is a
  sequence of fallible steps; a step that fails ends the operation there, with what earlier steps
  did kept, as \<open>?\<close> does. Operations are atomic; spawned tasks run later, in any order.
\<close>

section \<open>State and environment\<close>

record fanout_job =
  fj_broadcast_id :: uuid
  fj_creator_id :: uuid
  fj_title :: string
  fj_image_url :: "string option"

datatype svc_task =
    InvalidateLists
  | InvalidateBroadcast uuid
  | AfterStart uuid timestamp broadcast_response
  | AfterEnd uuid
  | AfterJoin uuid user_summary
  | AfterLeave uuid user_summary
  | AfterDelete uuid broadcast user_summary bool
  | InviteCohost uuid uuid string
  | DropLiveCount uuid
  | AnnounceRemoved uuid user_summary
  | CacheBroadcast "broadcast_response coalesce_task"
  | CacheLive "livekit_participant_info list coalesce_task"

record world =
  w_db :: db
  w_keys :: keyspace
  w_inst :: api_instance
  w_breaker :: circuit_breaker
  w_calls :: "lk_call list"
  w_published :: published
  w_jobs :: "fanout_job list"
  w_tasks :: "svc_task list"

text \<open>
  One operation's environment: \<open>se_now\<close> is the clock in its body, \<open>se_later\<close> when its response is
  built; \<open>se_repo_after\<close> the database for the statements after the commit. JSON forms are serde's and
  \<open>se_lowercase\<close> is the standard library's Unicode lower-casing.
\<close>

record svc_env =
  se_codec :: codec
  se_now :: timestamp
  se_later :: timestamp
  se_repo :: repo_env
  se_repo_after :: repo_env
  se_bridge :: bridge_env
  se_lk :: lk_env
  se_job_ok :: bool
  se_scan :: "string \<Rightarrow> scan_reply list"
  se_seen :: "nat \<Rightarrow> keyspace"
  se_time_json :: "timestamp \<Rightarrow> string"
  se_stamp :: "timestamp \<Rightarrow> json"
  se_lowercase :: "string \<Rightarrow> string"
  se_response_json :: "broadcast_response \<Rightarrow> json"
  se_response_text :: "broadcast_response \<Rightarrow> string"
  se_response_parse :: "string \<Rightarrow> broadcast_response option"
  se_listing_text :: "livekit_participant_info list \<Rightarrow> string"
  se_listing_parse :: "string \<Rightarrow> livekit_participant_info list option"

abbreviation se_redis :: "svc_env \<Rightarrow> redis_env" where
  "se_redis e \<equiv> be_redis (se_bridge e)"

section \<open>Steps\<close>

type_synonym 'a svc = "(world, broadcast_error, 'a) steps"

definition svc_read :: "(db \<Rightarrow> broadcast_error + 'a) \<Rightarrow> 'a svc" where
  "svc_read q w = (q (w_db w), w)"

text \<open>\<open>query?.ok_or(err)?\<close>\<close>

definition svc_find :: "(db \<Rightarrow> broadcast_error + 'a option) \<Rightarrow> broadcast_error \<Rightarrow> 'a svc" where
  "svc_find q err w = (bind_res (q (w_db w)) (\<lambda>r. ok_or r err), w)"

definition svc_write :: "'a repo_action \<Rightarrow> 'a svc" where
  "svc_write act w = (case act (w_db w) of (r, d) \<Rightarrow> (r, w\<lparr>w_db := d\<rparr>))"

definition spawn :: "svc_task \<Rightarrow> unit svc" where
  "spawn t = svc_modify (\<lambda>w. w\<lparr>w_tasks := w_tasks w @ [t]\<rparr>)"

definition invalidate :: "uuid \<Rightarrow> unit svc" where
  "invalidate broadcast_id = svc_bind (spawn InvalidateLists) (\<lambda>_. spawn (InvalidateBroadcast broadcast_id))"

text \<open>A breaker-guarded call, and one whose failure is ignored (\<open>let _ = ...\<close>).\<close>

definition svc_room :: "(circuit_breaker \<Rightarrow> 'a lk_result) \<Rightarrow> 'a svc" where
  "svc_room f w =
     (case f (w_breaker w) of (r, calls, b) \<Rightarrow> (r, w\<lparr>w_calls := w_calls w @ calls, w_breaker := b\<rparr>))"

definition svc_call :: "(broadcast_error + unit) \<times> lk_call list \<Rightarrow> unit svc" where
  "svc_call r = svc_modify (\<lambda>w. w\<lparr>w_calls := w_calls w @ snd r\<rparr>)"

definition svc_publish :: "published \<Rightarrow> unit svc" where
  "svc_publish out = svc_modify (\<lambda>w. w\<lparr>w_published := w_published w @ out\<rparr>)"

text \<open>\<open>map_err(BroadcastError::LiveKitAccess)\<close>\<close>

definition access :: "string + string \<Rightarrow> broadcast_error + string" where
  "access r = (case r of Inl err \<Rightarrow> Inl (LiveKitAccess err) | Inr t \<Rightarrow> Inr t)"

section \<open>Responses\<close>

definition secs_between :: "timestamp \<Rightarrow> timestamp \<Rightarrow> int" where
  "secs_between start stop =
     (if start \<le> stop then (stop - start) div 1000000000 else - ((start - stop) div 1000000000))"

definition build_response ::
    "timestamp \<Rightarrow> broadcast \<Rightarrow> user_summary \<Rightarrow> user_summary list \<Rightarrow> broadcast_context \<Rightarrow> broadcast_response" where
  "build_response now b creator cohosts ctx =
     (let state =
            (if b_status b = Active then (if cx_is_reconnecting ctx then Reconnecting else Live)
             else get_partial_state now b);
          duration =
            (case (b_start_time b, b_end_time b) of
               (Some start, Some stop) \<Rightarrow> Some (secs_between start stop)
             | _ \<Rightarrow> None)
      in \<lparr>br_id = b_id b, br_title = b_title b, br_description = b_description b,
          br_time_zone = b_time_zone b, br_image_url = b_image_url b, br_image_id = b_image_id b,
          br_created_at = b_created_at b, br_start_time = b_start_time b, br_end_time = b_end_time b,
          br_published_at = b_published_at b, br_duration_seconds = duration, br_status = b_status b,
          br_state = state, br_participant_role = cx_participant_role ctx,
          br_is_subscribed_to_creator = cx_is_subscribed_to_creator ctx,
          br_is_bookmarked = cx_is_bookmarked ctx, br_live_participants_count = cx_live_count ctx,
          br_total_participants = cx_total_count ctx, br_recording_enabled = b_recording_enabled b,
          br_recording_url = b_recording_url b, br_end_reason = b_end_reason b,
          br_time_remaining_seconds = cx_time_remaining_seconds ctx,
          br_last_listened_at = cx_last_listened_at ctx, br_creator = creator, br_cohosts = cohosts\<rparr>)"

definition build_ctx ::
    "svc_env \<Rightarrow> broadcast \<Rightarrow> uuid option \<Rightarrow> participant_role option \<Rightarrow> int \<Rightarrow> int \<Rightarrow> broadcast_context svc" where
  "build_ctx e b participant_id role live_count total_count w =
     (let is_reconnecting =
            unwrap_or (redis_exists (se_redis e) (key_host_grace (se_codec e) (b_id b)) (w_keys w)) False;
          viewer =
            (case participant_id of
               None \<Rightarrow> Inr (False, False)
             | Some pid \<Rightarrow>
                 bind_res (repo_is_subscribed (se_repo_after e) pid (b_creator_id b) (w_db w)) (\<lambda>is_sub.
                 bind_res (repo_is_bookmarked (se_repo_after e) pid (b_creator_id b) (w_db w)) (\<lambda>is_bm.
                 Inr (is_sub, is_bm))))
      in (bind_res viewer (\<lambda>(is_subscribed, is_bookmarked).
            Inr \<lparr>cx_participant_id = participant_id, cx_is_reconnecting = is_reconnecting,
                 cx_live_count = live_count, cx_total_count = total_count,
                 cx_participant_role = or_default role Participant, cx_participant_is_in_room = False,
                 cx_is_subscribed_to_creator = is_subscribed, cx_is_bookmarked = is_bookmarked,
                 cx_time_remaining_seconds = None, cx_last_listened_at = None\<rparr>), w))"

text \<open>The context a creator sees of a broadcast that is not running.\<close>

definition creator_ctx :: "uuid \<Rightarrow> broadcast_context" where
  "creator_ctx creator_id =
     broadcast_context_default\<lparr>cx_participant_id := Some creator_id, cx_participant_role := Host,
       cx_is_subscribed_to_creator := False, cx_is_bookmarked := False, cx_live_count := 0, cx_total_count := 0\<rparr>"

definition deduplicate_cohosts :: "svc_env \<Rightarrow> uuid list \<Rightarrow> uuid \<Rightarrow> user_summary list svc" where
  "deduplicate_cohosts e cohost_ids creator_id =
     (if cohost_ids = [] then svc_return []
      else
        svc_bind (svc_refuse (3 < length cohost_ids) (CohostLimitExceeded MAX_COHOSTS)) (\<lambda>_.
        svc_bind (svc_refuse (creator_id \<in> set cohost_ids) CannotAddSelfAsCohost) (\<lambda>_.
          (let deduped = remdups_adj (sort cohost_ids)
           in svc_bind (svc_read (repo_find_users_batch (se_repo e) deduped)) (\<lambda>users.
              svc_bind (svc_refuse (length users \<noteq> length deduped) OneOrMoreUsersNotFound) (\<lambda>_.
              svc_return users))))))"

section \<open>Creating, changing, deleting\<close>

definition broadcast_create :: "svc_env \<Rightarrow> create_broadcast_request \<Rightarrow> uuid \<Rightarrow> broadcast_response svc" where
  "broadcast_create e req creator_id =
     svc_bind (svc_read (repo_is_active_host (se_repo e) creator_id)) (\<lambda>hosting.
     svc_bind (svc_refuse hosting AlreadyLive) (\<lambda>_.
     svc_bind (svc_refuse (case cr_start_time req of Some st \<Rightarrow> st \<le> se_now e | None \<Rightarrow> False) StartTimeInPast) (\<lambda>_.
     (let cohost_ids = or_default (cr_cohosts req) [] in
     svc_bind (deduplicate_cohosts e cohost_ids creator_id) (\<lambda>cohosts.
     svc_bind (svc_write (in_tx (se_repo e)
       (then_do (repo_create (se_repo e)
          \<lparr>ci_title = cr_title req, ci_description = cr_description req, ci_image_id = cr_image_id req,
           ci_image_url = cr_image_url req, ci_time_zone = cr_time_zone req, ci_start_time = cr_start_time req,
           ci_recording_enabled = or_default (cr_recording_enabled req) False, ci_creator_id = creator_id\<rparr>) (\<lambda>b.
        then_do (if cohost_ids = [] then Pair (Inr ())
                 else repo_add_cohosts (se_repo e) (b_id b) cohost_ids creator_id) (\<lambda>_.
        Pair (Inr b)))))) (\<lambda>b.
     svc_bind (svc_find (repo_find_user_summary (se_repo_after e) (b_creator_id b)) UserNotFound) (\<lambda>creator.
     svc_return (build_response (se_later e) b creator cohosts (creator_ctx creator_id)))))))))"

definition broadcast_update :: "svc_env \<Rightarrow> update_broadcast_request \<Rightarrow> uuid \<Rightarrow> uuid \<Rightarrow> broadcast_response svc" where
  "broadcast_update e req broadcast_id creator_id =
     svc_bind (svc_find (repo_find_by_id (se_repo e) broadcast_id) NotFound) (\<lambda>b0.
     svc_bind (svc_find (repo_find_user_summary (se_repo e) creator_id) UserNotFound) (\<lambda>creator.
     svc_bind (svc_refuse (b_creator_id b0 \<noteq> creator_id) NotCreator) (\<lambda>_.
     svc_bind (svc_refuse (b_status b0 = Active) CannotModifyLiveBroadcast) (\<lambda>_.
     (let cohost_ids = or_default (ur_cohosts req) [] in
     svc_bind (deduplicate_cohosts e cohost_ids creator_id) (\<lambda>cohosts.
     svc_bind (svc_write (in_tx (se_repo e)
       (then_do (repo_update (se_repo e)
          \<lparr>ui_broadcast_id = broadcast_id, ui_title = ur_title req, ui_description = ur_description req,
           ui_image_id = ur_image_id req, ui_image_url = ur_image_url req, ui_time_zone = ur_time_zone req,
           ui_start_time = ur_start_time req, ui_recording_enabled = ur_recording_enabled req\<rparr>) (\<lambda>b.
        then_do (if cohost_ids = [] then Pair (Inr ())
                 else repo_add_cohosts (se_repo e) (b_id b) cohost_ids creator_id) (\<lambda>_.
        Pair (Inr b)))))) (\<lambda>b.
     svc_bind (invalidate broadcast_id) (\<lambda>_.
     svc_return (build_response (se_later e) b creator cohosts (creator_ctx creator_id))))))))))"

definition broadcast_delete :: "svc_env \<Rightarrow> uuid \<Rightarrow> uuid \<Rightarrow> unit svc" where
  "broadcast_delete e broadcast_id creator_id =
     svc_bind (svc_find (repo_find_by_id (se_repo e) broadcast_id) NotFound) (\<lambda>b.
     svc_bind (svc_find (repo_find_user_summary (se_repo e) creator_id) UserNotFound) (\<lambda>creator.
     if b_deleted_at b \<noteq> None then svc_return ()
     else
       svc_bind (svc_refuse (b_status b = Active) CannotModifyLiveBroadcast) (\<lambda>_.
       svc_bind (svc_refuse (b_creator_id b \<noteq> creator_id) NotCreator) (\<lambda>_.
       svc_bind (svc_write (repo_delete (se_repo e) broadcast_id)) (\<lambda>_.
       spawn (AfterDelete broadcast_id b creator (can_be_scheduled (se_now e) b)))))))"

section \<open>Starting and ending\<close>

definition push_fanout :: "svc_env \<Rightarrow> fanout_job \<Rightarrow> unit svc" where
  "push_fanout e job = svc_modify (\<lambda>w. if se_job_ok e then w\<lparr>w_jobs := w_jobs w @ [job]\<rparr> else w)"

definition seed_room :: "svc_env \<Rightarrow> uuid \<Rightarrow> uuid \<Rightarrow> unit svc" where
  "seed_room e broadcast_id user_id =
     svc_modify (\<lambda>w. w\<lparr>w_keys := snd (init_room (se_codec e) (se_redis e) broadcast_id [user_id] (w_keys w))\<rparr>)"

definition broadcast_start :: "svc_env \<Rightarrow> uuid \<Rightarrow> uuid \<Rightarrow> broadcast_session_response svc" where
  "broadcast_start e broadcast_id user_id =
     svc_bind (svc_find (repo_find_by_id (se_repo e) broadcast_id) NotFound) (\<lambda>b0.
     svc_bind (svc_find (repo_find_user_summary (se_repo e) user_id) UserNotFound) (\<lambda>creator.
     svc_bind (svc_refuse (b_creator_id b0 \<noteq> user_id) NotCreator) (\<lambda>_.
     svc_bind (svc_refuse (b_status b0 = Active) AlreadyLive) (\<lambda>_.
     svc_bind (svc_room (create_room (se_codec e) (se_lk e) broadcast_id)) (\<lambda>_.
     svc_bind (svc_lift (access (mint_host_token (se_codec e) (se_lk e) creator broadcast_id))) (\<lambda>token.
     svc_bind (svc_write (in_tx (se_repo e)
       (then_do (repo_set_active (se_repo e)
          \<lparr>si_broadcast_id = broadcast_id, si_broadcast_token = token, si_start_time = se_now e\<rparr>) (\<lambda>b.
        then_do (repo_upsert_participant (se_repo e)
          \<lparr>pi_broadcast_id = broadcast_id, pi_participant_id = us_id creator, pi_role = Host,
           pi_joined_at = se_now e\<rparr>) (\<lambda>_.
        Pair (Inr b)))))) (\<lambda>b.
     svc_bind (invalidate broadcast_id) (\<lambda>_.
     svc_bind (seed_room e broadcast_id (us_id creator)) (\<lambda>_.
     svc_bind (push_fanout e \<lparr>fj_broadcast_id = broadcast_id, fj_creator_id = b_creator_id b,
       fj_title = b_title b, fj_image_url = b_image_url b\<rparr>) (\<lambda>_.
     svc_bind (svc_read (repo_get_cohosts (se_repo_after e) broadcast_id)) (\<lambda>cohosts.
     (let resp = build_response (se_later e) b creator cohosts
            (broadcast_context_default\<lparr>cx_participant_id := Some (us_id creator), cx_participant_role := Host,
               cx_live_count := 1, cx_total_count := 1\<rparr>) in
     svc_bind (spawn (AfterStart broadcast_id (se_now e) resp)) (\<lambda>_.
     svc_return \<lparr>bs_broadcast = resp, bs_token = token\<rparr>)))))))))))))"

definition broadcast_end :: "svc_env \<Rightarrow> uuid \<Rightarrow> uuid \<Rightarrow> end_broadcast_response svc" where
  "broadcast_end e broadcast_id user_id =
     svc_bind (svc_read (repo_find_by_id_or_error (se_repo e) broadcast_id)) (\<lambda>b.
     svc_bind (svc_refuse (b_creator_id b \<noteq> user_id) CannotEnd) (\<lambda>_.
     svc_bind (svc_refuse (b_status b \<noteq> Active) NotLive) (\<lambda>_.
     (let duration = (case b_start_time b of Some st \<Rightarrow> secs_between st (se_now e) | None \<Rightarrow> 0) in
     svc_bind (svc_write (in_tx (se_repo e)
       (then_do (repo_get_participant_ids_and_clear (se_repo e) broadcast_id) (\<lambda>ids.
        then_do (repo_set_inactive (se_repo e) broadcast_id Normal) (\<lambda>_.
        Pair (Inr ids)))))) (\<lambda>ids.
     svc_bind (invalidate broadcast_id) (\<lambda>_.
     svc_bind (spawn (AfterEnd broadcast_id)) (\<lambda>_ w.
       (let ready =
              (if b_recording_enabled b
               then unwrap_or (redis_exists (se_redis e) (key_recording_ready (se_codec e) broadcast_id) (w_keys w)) False
               else False)
        in (Inr \<lparr>eb_broadcast_id = broadcast_id, eb_broadcast_title = b_title b,
                 eb_broadcast_image_url = b_image_url b, eb_creator_id = b_creator_id b,
                 eb_ended_reason = Normal, eb_ended_at = se_now e, eb_duration_secs = duration,
                 eb_total_participants = int (length ids), eb_recording_enabled = b_recording_enabled b,
                 eb_recording_ready = ready\<rparr>, w)))))))))"

section \<open>Joining and leaving\<close>

definition enter_room :: "svc_env \<Rightarrow> uuid \<Rightarrow> uuid \<Rightarrow> unit svc" where
  "enter_room e user_id broadcast_id = svc_modify (\<lambda>w.
     case ws_join_room (se_codec e) (se_bridge e) user_id broadcast_id (w_inst w) (w_keys w) of
       (i, k) \<Rightarrow> w\<lparr>w_inst := i, w_keys := k\<rparr>)"

definition exit_room :: "svc_env \<Rightarrow> uuid \<Rightarrow> uuid \<Rightarrow> unit svc" where
  "exit_room e user_id broadcast_id = svc_modify (\<lambda>w.
     case ws_leave_room (se_codec e) (se_bridge e) user_id broadcast_id (w_inst w) (w_keys w) of
       (i, k) \<Rightarrow> w\<lparr>w_inst := i, w_keys := k\<rparr>)"

fun join_livekit_role :: "participant_role \<Rightarrow> livekit_role" where
  "join_livekit_role Cohost = RCohost"
| "join_livekit_role Participant = RParticipant"
| "join_livekit_role _ = RParticipant"

definition live_count_read :: "svc_env \<Rightarrow> uuid \<Rightarrow> int option svc" where
  "live_count_read e broadcast_id w = (get_live_count (se_codec e) (se_redis e) broadcast_id (w_keys w), w)"

definition broadcast_join :: "svc_env \<Rightarrow> uuid \<Rightarrow> uuid \<Rightarrow> broadcast_session_response svc" where
  "broadcast_join e broadcast_id user_id =
     svc_bind (svc_find (repo_find_by_id (se_repo e) broadcast_id) NotFound) (\<lambda>b.
     svc_bind (svc_find (repo_find_user_summary (se_repo e) user_id) UserNotFound) (\<lambda>user.
     svc_bind (svc_read (repo_is_cohost (se_repo e) broadcast_id user_id)) (\<lambda>is_cohost.
     svc_bind (svc_refuse (b_status b \<noteq> Active) NotLive) (\<lambda>_.
     svc_bind (svc_refuse (b_creator_id b = user_id) CreatorCannotJoin) (\<lambda>_.
     svc_bind (svc_read (repo_find_active_participant (se_repo e) user_id)) (\<lambda>present.
     svc_bind (case present of
         Some p \<Rightarrow> svc_lift (Inl (if p_broadcast_id p = broadcast_id then AlreadyParticipant else AlreadyAParticipant))
       | None \<Rightarrow> svc_return ()) (\<lambda>_.
     (let role = (if is_cohost then Cohost else Participant) in
     svc_bind (svc_lift (access (mint_token (se_codec e) (se_lk e) user_id (us_full_name user) broadcast_id
         (join_livekit_role role)))) (\<lambda>token.
     svc_bind (svc_write (in_tx (se_repo e) (repo_upsert_participant (se_repo e)
         \<lparr>pi_broadcast_id = broadcast_id, pi_participant_id = user_id, pi_role = role,
          pi_joined_at = se_now e\<rparr>))) (\<lambda>_.
     svc_bind (invalidate broadcast_id) (\<lambda>_.
     svc_bind (enter_room e user_id (b_id b)) (\<lambda>_.
     svc_bind (spawn (AfterJoin (b_id b) user)) (\<lambda>_.
     svc_bind (svc_find (repo_find_user_summary (se_repo_after e) (b_creator_id b)) UserNotFound) (\<lambda>creator.
     svc_bind (svc_read (repo_get_cohosts (se_repo_after e) broadcast_id)) (\<lambda>cohosts.
     svc_bind (svc_read (repo_get_total_participants (se_repo_after e) broadcast_id)) (\<lambda>total_count.
     svc_bind (live_count_read e broadcast_id) (\<lambda>live_count.
     svc_bind (build_ctx e b (Some user_id) (Some role) (or_default live_count 1) total_count) (\<lambda>ctx.
     svc_return \<lparr>bs_broadcast = build_response (se_later e) b creator cohosts ctx,
                 bs_token = token\<rparr>))))))))))))))))))"

definition broadcast_leave :: "svc_env \<Rightarrow> uuid \<Rightarrow> uuid \<Rightarrow> leave_broadcast_response svc" where
  "broadcast_leave e broadcast_id user_id =
     svc_bind (svc_find (repo_find_by_id (se_repo e) broadcast_id) NotFound) (\<lambda>b.
     svc_bind (svc_find (repo_find_user_summary (se_repo e) user_id) UserNotFound) (\<lambda>user.
     svc_bind (svc_find (repo_find_participant (se_repo e) broadcast_id user_id) NotParticipant) (\<lambda>p.
     if is_not_active b \<or> p_left_at p \<noteq> None
     then svc_return \<lparr>lv_success = True, lv_broadcast_id = broadcast_id, lv_user_id = user_id,
                      lv_left_at = or_default (p_left_at p) (se_now e)\<rparr>
     else
       svc_bind (svc_write (repo_remove_participant (se_repo e) broadcast_id user_id)) (\<lambda>_.
       svc_bind (invalidate broadcast_id) (\<lambda>_.
       svc_bind (exit_room e user_id broadcast_id) (\<lambda>_.
       svc_bind (spawn (AfterLeave broadcast_id user)) (\<lambda>_.
       svc_return \<lparr>lv_success = True, lv_broadcast_id = broadcast_id, lv_user_id = user_id,
                   lv_left_at = se_later e\<rparr>)))))))"

section \<open>Cohosts\<close>

definition broadcast_add_cohost :: "svc_env \<Rightarrow> uuid \<Rightarrow> uuid \<Rightarrow> uuid \<Rightarrow> cohost_session_response svc" where
  "broadcast_add_cohost e broadcast_id requester_id cohost_id =
     svc_bind (svc_read (repo_is_cohost (se_repo e) broadcast_id cohost_id)) (\<lambda>already.
     svc_bind (svc_refuse already AlreadyCohost) (\<lambda>_.
     svc_bind (svc_find (repo_find_by_id (se_repo e) broadcast_id) NotFound) (\<lambda>b.
     svc_bind (svc_find (repo_find_user_summary (se_repo e) cohost_id) UserNotFound) (\<lambda>cohost.
     svc_bind (\<lambda>w. svc_refuse (case repo_get_cohosts (se_repo e) broadcast_id (w_db w) of
         Inr cohosts \<Rightarrow> length cohosts = MAX_COHOSTS | Inl _ \<Rightarrow> False) (CohostLimitExceeded MAX_COHOSTS) w) (\<lambda>_.
     svc_bind (svc_refuse (b_status b \<noteq> Active) NotLive) (\<lambda>_.
     svc_bind (svc_refuse (b_creator_id b \<noteq> requester_id) NotCreator) (\<lambda>_.
     svc_bind (svc_refuse (b_creator_id b = cohost_id) CannotAddSelfAsCohost) (\<lambda>_.
     svc_bind (svc_lift (access (mint_cohost_token (se_codec e) (se_lk e) cohost broadcast_id))) (\<lambda>token.
     svc_bind (svc_write (in_tx (se_repo e)
       (then_do (repo_add_cohosts (se_repo e) broadcast_id [cohost_id] requester_id) (\<lambda>_.
        repo_upsert_participant (se_repo e)
          \<lparr>pi_broadcast_id = broadcast_id, pi_participant_id = cohost_id, pi_role = Cohost,
           pi_joined_at = se_now e\<rparr>)))) (\<lambda>_.
     svc_bind (spawn (InviteCohost broadcast_id cohost_id token)) (\<lambda>_.
     svc_return \<lparr>cs_user = cohost, cs_token = token\<rparr>)))))))))))"

definition broadcast_remove_cohost :: "svc_env \<Rightarrow> uuid \<Rightarrow> uuid \<Rightarrow> uuid \<Rightarrow> bool \<Rightarrow> unit svc" where
  "broadcast_remove_cohost e broadcast_id cohost_id requester_id remove_from_room =
     svc_bind (svc_find (repo_find_by_id (se_repo e) broadcast_id) NotFound) (\<lambda>b.
     svc_bind (svc_find (repo_find_user_summary (se_repo e) cohost_id) UserNotFound) (\<lambda>cohost_user.
     svc_bind (svc_read (repo_is_cohost (se_repo e) broadcast_id cohost_id)) (\<lambda>is_cohost.
     svc_bind (svc_refuse (b_status b \<noteq> Active) NotLive) (\<lambda>_.
     svc_bind (svc_refuse (b_creator_id b \<noteq> requester_id) NotCreator) (\<lambda>_.
     if \<not> is_cohost then svc_return ()
     else
       svc_bind (svc_write (in_tx (se_repo e)
         (then_do (repo_remove_cohost (se_repo e) broadcast_id cohost_id) (\<lambda>_.
          if remove_from_room then repo_remove_participant (se_repo e) broadcast_id cohost_id
          else repo_upsert_participant (se_repo e)
            \<lparr>pi_broadcast_id = broadcast_id, pi_participant_id = cohost_id, pi_role = Participant,
             pi_joined_at = se_now e\<rparr>)))) (\<lambda>_.
       svc_bind
         (if remove_from_room then
            svc_bind (svc_call (remove_participant (se_codec e) (se_lk e) broadcast_id cohost_id)) (\<lambda>_.
            spawn (DropLiveCount broadcast_id))
          else
            svc_bind (svc_call (update_permission (se_codec e) (se_lk e) broadcast_id cohost_id False)) (\<lambda>_.
            svc_bind (svc_lift (access (mint_participant_token (se_codec e) (se_lk e) cohost_user broadcast_id)))
              (\<lambda>new_token.
            svc_publish (publish_to_user (se_bridge e) cohost_id
              (payload_cohost_demotion (se_codec e) broadcast_id new_token))))) (\<lambda>_.
       spawn (AnnounceRemoved broadcast_id cohost_user))))))))"

end
