(* ===== verification/Broadcast_Tasks.thy ===== *)
theory Broadcast_Tasks
  imports Broadcast_Service
begin

text \<open>
  The rest of \<open>modules/broadcast/service.rs\<close> that works on one broadcast: what the spawned tasks do,
  token renewal, the single-broadcast view and the thin wrappers over the repository.
\<close>

section \<open>Spawned tasks\<close>

definition user_summary_json :: "codec \<Rightarrow> user_summary \<Rightarrow> json" where
  "user_summary_json c u =
     JObj [(''id'', json_uuid c (us_id u)), (''full_name'', JStr (us_full_name u)), (''bio'', json_opt_str (us_bio u)),
           (''avatar_id'', json_opt_str (us_avatar_id u)), (''avatar_url'', json_opt_str (us_avatar_url u))]"

definition set_keys :: "keyspace \<Rightarrow> world \<Rightarrow> world" where
  "set_keys k w = w\<lparr>w_keys := k\<rparr>"

definition add_published :: "published \<Rightarrow> world \<Rightarrow> world" where
  "add_published out w = w\<lparr>w_published := w_published w @ out\<rparr>"

definition after_start :: "svc_env \<Rightarrow> uuid \<Rightarrow> timestamp \<Rightarrow> broadcast_response \<Rightarrow> world \<Rightarrow> world" where
  "after_start e broadcast_id now resp w =
     (let creator_id = us_id (br_creator resp);
          k1 = snd (set_started_at (se_codec e) (se_redis e) (se_time_json e) broadcast_id now (w_keys w));
          k2 = snd (set_live_count (se_codec e) (se_redis e) broadcast_id k1);
          told =
            (case repo_get_subscriber_ids (se_repo e) creator_id (w_db w) of
               Inr sub_ids \<Rightarrow>
                 if sub_ids = [] then []
                 else publish_to_users (se_bridge e) sub_ids (payload_new NewBroadcast (se_response_json e resp))
             | Inl _ \<Rightarrow> [])
      in add_published (told @ bridge_broadcast_all (se_bridge e) (payload_home_invalidated (se_stamp e (se_now e))))
           (set_keys k2 w))"

definition after_end :: "svc_env \<Rightarrow> uuid \<Rightarrow> world \<Rightarrow> world" where
  "after_end e broadcast_id w =
     (let w1 = snd (svc_room (delete_room (se_codec e) (se_lk e) broadcast_id) w);
          k1 = snd (delete_live_count (se_codec e) (se_redis e) broadcast_id (w_keys w1));
          k2 = snd (delete_host_grace (se_codec e) (se_redis e) broadcast_id k1);
          out = publish_to_room (se_codec e) (se_bridge e) broadcast_id
                  (payload_ended_broadcast (se_codec e) broadcast_id Normal);
          k3 = snd (destroy_room (se_codec e) (se_redis e) broadcast_id k2)
      in add_published out (set_keys k3 w1))"

definition after_join :: "svc_env \<Rightarrow> uuid \<Rightarrow> user_summary \<Rightarrow> world \<Rightarrow> world" where
  "after_join e broadcast_id user w =
     (case increment_live_count (se_codec e) (se_redis e) broadcast_id (w_keys w) of
        (r, k) \<Rightarrow>
          (let new_count = unwrap_or r 1
           in add_published
                (publish_to_room (se_codec e) (se_bridge e) broadcast_id
                   (payload_new ParticipantJoined (user_summary_json (se_codec e) user)) @
                 publish_to_room (se_codec e) (se_bridge e) broadcast_id
                   (payload_number_of_live_participants (se_codec e) broadcast_id new_count))
                (set_keys k w)))"

definition after_leave :: "svc_env \<Rightarrow> uuid \<Rightarrow> user_summary \<Rightarrow> world \<Rightarrow> world" where
  "after_leave e broadcast_id user w =
     add_published
       (publish_to_room (se_codec e) (se_bridge e) broadcast_id
          (payload_new ParticipantLeft (user_summary_json (se_codec e) user)))
       (set_keys (snd (decrement_live_count (se_codec e) (se_redis e) broadcast_id (w_keys w))) w)"

definition after_delete :: "svc_env \<Rightarrow> uuid \<Rightarrow> broadcast \<Rightarrow> user_summary \<Rightarrow> bool \<Rightarrow> world \<Rightarrow> world" where
  "after_delete e broadcast_id b creator is_scheduled w =
     (let k = del_keys (se_redis e) [key_live_count (se_codec e) broadcast_id, key_host_grace (se_codec e) broadcast_id,
            key_started_at (se_codec e) broadcast_id] (w_keys w);
          told =
            (if is_scheduled then
               (case repo_get_subscriber_ids (se_repo e) (us_id creator) (w_db w) of
                  Inl _ \<Rightarrow> []
                | Inr sub_ids \<Rightarrow>
                    if sub_ids = [] then []
                    else publish_to_users (se_bridge e) sub_ids (payload_new BroadcastDeleted
                      (JObj [(''broadcastId'', json_uuid (se_codec e) (b_id b)), (''broadcastTitle'', JStr (b_title b)),
                        (''message'', JStr (''The broadcast scheduled by '' @ us_full_name creator @
                           '' has been cancelled.''))])))
             else [])
      in add_published told (set_keys k w))"

definition drop_live_count :: "svc_env \<Rightarrow> uuid \<Rightarrow> world \<Rightarrow> world" where
  "drop_live_count e broadcast_id w =
     (case redis_decr (se_redis e) (key_live_count (se_codec e) broadcast_id) (w_keys w) of
        (r, k) \<Rightarrow>
          (let remaining = max 0 (unwrap_or r 0)
           in add_published
                (publish_to_room (se_codec e) (se_bridge e) broadcast_id
                   (payload_number_of_live_participants (se_codec e) broadcast_id remaining))
                (set_keys k w)))"

text \<open>A task whose scan has not ended has not run.\<close>

fun run_task :: "svc_env \<Rightarrow> svc_task \<Rightarrow> world \<Rightarrow> world" where
  "run_task e InvalidateLists w =
     (case invalidate_list_caches (se_redis e) (se_scan e) (w_keys w) of None \<Rightarrow> w | Some k \<Rightarrow> set_keys k w)"
| "run_task e (InvalidateBroadcast b) w =
     set_keys (invalidate_broadcast_cache (se_codec e) (se_redis e) b (w_keys w)) w"
| "run_task e (AfterStart b now resp) w = after_start e b now resp w"
| "run_task e (AfterEnd b) w = after_end e b w"
| "run_task e (AfterJoin b user) w = after_join e b user w"
| "run_task e (AfterLeave b user) w = after_leave e b user w"
| "run_task e (AfterDelete i b creator sched) w = after_delete e i b creator sched w"
| "run_task e (InviteCohost b cohost token) w =
     add_published (publish_to_user (se_bridge e) cohost (payload_cohost_invitation (se_codec e) b token)) w"
| "run_task e (DropLiveCount b) w = drop_live_count e b w"
| "run_task e (AnnounceRemoved b user) w =
     add_published (publish_to_room (se_codec e) (se_bridge e) b
       (payload_new RemovedCohost (user_summary_json (se_codec e) user))) w"
| "run_task e (CacheBroadcast t) w = set_keys (run_coalesce_task (se_redis e) (se_response_text e) t (w_keys w)) w"
| "run_task e (CacheLive t) w = set_keys (run_coalesce_task (se_redis e) (se_listing_text e) t (w_keys w)) w"

section \<open>Token renewal\<close>

definition current_role :: "broadcast \<Rightarrow> uuid \<Rightarrow> broadcast_participant option \<Rightarrow> broadcast_error + participant_role" where
  "current_role b user_id p =
     (if b_creator_id b = user_id then Inr Host
      else case p of
        None \<Rightarrow> Inl NotParticipant
      | Some q \<Rightarrow> if p_left_at q \<noteq> None then Inl NotParticipant else Inr (p_role q))"

definition broadcast_refresh_token :: "svc_env \<Rightarrow> uuid \<Rightarrow> uuid \<Rightarrow> refresh_token_response svc" where
  "broadcast_refresh_token e broadcast_id user_id =
     svc_bind (svc_find (repo_find_by_id (se_repo e) broadcast_id) NotFound) (\<lambda>b.
     svc_bind (svc_find (repo_find_user_summary (se_repo e) user_id) UserNotFound) (\<lambda>user.
     svc_bind (svc_refuse (\<not> is_active b) NotLive) (\<lambda>_.
     svc_bind (if b_creator_id b = user_id then svc_return Host
               else svc_bind (svc_read (repo_find_participant (se_repo e) broadcast_id user_id)) (\<lambda>p.
                 svc_lift (current_role b user_id p))) (\<lambda>role.
     svc_bind (svc_lift (case livekit_role_try_from role of Inl _ \<Rightarrow> Inl NotParticipant | Inr r \<Rightarrow> Inr r)) (\<lambda>lk_role.
     svc_bind (svc_lift (access (mint_token_with_attributes (se_codec e) (se_lk e) user_id (us_full_name user)
       broadcast_id lk_role [(''meno_role'', role_to_string role),
         (''meno_broadcast_id'', uuid_show (se_codec e) broadcast_id)]))) (\<lambda>token.
     svc_return \<lparr>rt_broadcast_id = broadcast_id, rt_token = token,
                 rt_expires_at = se_later e + 6 * 60 * 60 * 1000000000\<rparr>))))))"

section \<open>One broadcast\<close>

text \<open>The fetch behind the cached view: no viewer, so neither subscription nor bookmark is asked.\<close>

definition fetch_broadcast :: "svc_env \<Rightarrow> uuid \<Rightarrow> broadcast_response svc" where
  "fetch_broadcast e broadcast_id =
     svc_bind (svc_find (repo_find_by_id (se_repo e) broadcast_id) NotFound) (\<lambda>b.
     svc_bind (svc_find (repo_find_user_summary (se_repo e) (b_creator_id b)) UserNotFound) (\<lambda>creator.
     svc_bind (svc_read (repo_get_cohosts (se_repo e) broadcast_id)) (\<lambda>cohosts.
     svc_bind (svc_read (repo_get_total_participants (se_repo e) broadcast_id)) (\<lambda>total_count.
     svc_bind (if is_active b then svc_bind (live_count_read e broadcast_id) (\<lambda>n. svc_return (or_default n 1))
               else svc_return 0) (\<lambda>live_count.
     svc_bind (build_ctx e b None None live_count total_count) (\<lambda>ctx.
     svc_return (build_response (se_later e) b creator cohosts ctx)))))))"

definition get_broadcast :: "svc_env \<Rightarrow> uuid \<Rightarrow> broadcast_response svc" where
  "get_broadcast e broadcast_id w =
     (case coalesce_cache (se_redis e) (se_response_parse e) (key_broadcast (se_codec e) broadcast_id) 60
             (se_seen e) (fst (fetch_broadcast e broadcast_id w)) (w_keys w) of
        (r, k, task) \<Rightarrow>
          (r, w\<lparr>w_keys := k, w_tasks := w_tasks w @
             (case task of Some t \<Rightarrow> [CacheBroadcast t] | None \<Rightarrow> [])\<rparr>))"

section \<open>Wrappers\<close>

definition find_active_hosted_by :: "svc_env \<Rightarrow> uuid \<Rightarrow> broadcast option svc" where
  "find_active_hosted_by e user_id = svc_read (repo_find_active_broadcast_hosted_by_id (se_repo e) user_id)"

definition find_active_participant :: "svc_env \<Rightarrow> uuid \<Rightarrow> broadcast_participant option svc" where
  "find_active_participant e user_id = svc_read (repo_find_active_participant (se_repo e) user_id)"

definition service_remove_participant :: "svc_env \<Rightarrow> uuid \<Rightarrow> uuid \<Rightarrow> unit svc" where
  "service_remove_participant e broadcast_id user_id =
     svc_write (repo_remove_participant (se_repo e) broadcast_id user_id)"

definition get_participants_ids :: "svc_env \<Rightarrow> uuid \<Rightarrow> uuid list svc" where
  "get_participants_ids e broadcast_id = svc_read (repo_get_participant_ids (se_repo e) broadcast_id)"

definition get_subscriber_ids :: "svc_env \<Rightarrow> uuid \<Rightarrow> uuid list svc" where
  "get_subscriber_ids e creator_id = svc_read (repo_get_subscriber_ids (se_repo e) creator_id)"

definition service_find_by_id :: "svc_env \<Rightarrow> uuid \<Rightarrow> broadcast option svc" where
  "service_find_by_id e broadcast_id = svc_read (repo_find_by_id (se_repo e) broadcast_id)"

definition service_is_active_host :: "svc_env \<Rightarrow> uuid \<Rightarrow> bool svc" where
  "service_is_active_host e user_id = svc_read (repo_is_active_host (se_repo e) user_id)"

end
