(* ===== verification/Broadcast_Rules.thy ===== *)
theory Broadcast_Rules
  imports Broadcast_Tasks
begin

text \<open>
  How the operations of the broadcast service are reasoned about: inversion rules for the steps
  (\<open>svc_ok\<close> for success, \<open>svc_err\<close> for failure), and for each operation what it can do to the tables,
  as one lemma: nothing, or one statement or transaction under the guards the code checks.
\<close>

lemma svc_query_ok [svc_ok]:
  "svc_read q w = (Inr v, w') \<longleftrightarrow> q (w_db w) = Inr v \<and> w' = w"
  "svc_find g e w = (Inr x, w') \<longleftrightarrow> g (w_db w) = Inr (Some x) \<and> w' = w"
  by (auto simp: svc_read_def svc_find_def bind_res_Inr)

lemma svc_query_err [svc_err]:
  "svc_read q w = (Inl err, w') \<longleftrightarrow> q (w_db w) = Inl err \<and> w' = w"
  "svc_find g e w = (Inl err, w') \<longleftrightarrow>
     (g (w_db w) = Inl err \<or> g (w_db w) = Inr None \<and> err = e) \<and> w' = w"
  by (auto simp: svc_read_def svc_find_def bind_res_def
      ok_or_def split: sum.splits option.splits)

lemma access_ok [svc_ok]: "access r = Inr t \<longleftrightarrow> r = Inr t"
  by (cases r) (auto simp: access_def)

lemma access_err [svc_err]: "access r = Inl err \<longleftrightarrow> (\<exists>m. r = Inl m \<and> err = LiveKitAccess m)"
  by (cases r) (auto simp: access_def)

lemma role_token_ok [svc_ok]:
  "(case livekit_role_try_from role of Inl m \<Rightarrow> Inl NotParticipant | Inr r \<Rightarrow> Inr r) = Inr lr \<longleftrightarrow>
     livekit_role_try_from role = Inr lr"
  by (cases role) simp_all

text \<open>Steps that leave the tables alone.\<close>

definition quiet :: "'a svc \<Rightarrow> bool" where
  "quiet m \<longleftrightarrow> (\<forall>w r w'. m w = (r, w') \<longrightarrow> w_db w' = w_db w)"

lemma quietD: "quiet m \<Longrightarrow> m w = (r, w') \<Longrightarrow> w_db w' = w_db w"
  by (auto simp: quiet_def)

lemma quiet_bind: "quiet m \<Longrightarrow> (\<And>x. quiet (f x)) \<Longrightarrow> quiet (svc_bind m f)"
  by (fastforce simp: quiet_def svc_bind_def split: sum.splits prod.splits)

lemma quiet_modify: "(\<And>w. w_db (f w) = w_db w) \<Longrightarrow> quiet (svc_modify f)"
  by (auto simp: quiet_def svc_modify_def)

lemma quiet_steps [intro, simp]:
  "quiet (svc_return x)" "quiet (svc_lift r)" "quiet (svc_refuse p err)" "quiet (svc_read q)" "quiet (svc_find g err)"
  by (auto simp: quiet_def svc_return_def svc_lift_def svc_refuse_def svc_read_def svc_find_def)

lemma quiet_effects [intro, simp]:
  "quiet (spawn t)" "quiet (invalidate b)" "quiet (svc_room f)" "quiet (svc_call c)" "quiet (svc_publish out)"
  "quiet (push_fanout e job)" "quiet (seed_room e b u)" "quiet (enter_room e u b)" "quiet (exit_room e u b)"
  by (auto intro!: quiet_bind quiet_modify simp: spawn_def invalidate_def svc_call_def svc_publish_def
      push_fanout_def seed_room_def enter_room_def exit_room_def split: prod.splits)
    (auto simp: quiet_def svc_room_def split: prod.splits)

lemma quiet_reads [intro, simp]:
  "quiet (live_count_read e b)" "quiet (build_ctx e row pid role n m)" "quiet (deduplicate_cohosts e ids u)"
  by (auto intro!: quiet_bind simp: deduplicate_cohosts_def Let_def)
    (auto simp: quiet_def live_count_read_def build_ctx_def Let_def)

text \<open>A write in the middle of quiet steps.\<close>

lemma svc_write_eq: "svc_write act w = (r, w') \<longleftrightarrow> (\<exists>d. act (w_db w) = (r, d) \<and> w' = w\<lparr>w_db := d\<rparr>)"
  by (auto simp: svc_write_def split: prod.splits)

definition writes :: "(db \<Rightarrow> db \<Rightarrow> bool) \<Rightarrow> 'a svc \<Rightarrow> bool" where
  "writes R m \<longleftrightarrow> (\<forall>w r w'. m w = (r, w') \<longrightarrow> w_db w' = w_db w \<or> R (w_db w) (w_db w'))"

lemma writesD: "writes R m \<Longrightarrow> m w = (r, w') \<Longrightarrow> w_db w' = w_db w \<or> R (w_db w) (w_db w')"
  by (auto simp: writes_def)

lemma writes_db: "writes R m \<Longrightarrow> w_db (snd (m w)) = w_db w \<or> R (w_db w) (w_db (snd (m w)))"
  by (metis prod.collapse writesD)

lemma writes_quiet: "quiet m \<Longrightarrow> writes R m"
  by (auto simp: quiet_def writes_def)

text \<open>What a successful step tells of the tables it saw.\<close>

definition tells :: "'a svc \<Rightarrow> ('a \<Rightarrow> db \<Rightarrow> bool) \<Rightarrow> bool" where
  "tells m F \<longleftrightarrow> (\<forall>w v w'. m w = (Inr v, w') \<longrightarrow> w_db w' = w_db w \<and> F v (w_db w))"

lemma writes_after:
  assumes "tells m F" and "quiet m" and "\<And>x. writes (\<lambda>d d'. F x d \<longrightarrow> R d d') (f x)"
  shows "writes R (svc_bind m f)"
  unfolding writes_def
proof (intro allI impI)
  fix w r w' assume b: "svc_bind m f w = (r, w')"
  show "w_db w' = w_db w \<or> R (w_db w) (w_db w')"
  proof (cases "m w")
    case (Pair s w1)
    show ?thesis
    proof (cases s)
      case (Inl err)
      with Pair b quietD [OF assms(2) Pair] show ?thesis by (simp add: svc_bind_def)
    next
      case (Inr x)
      with Pair b have f: "f x w1 = (r, w')" by (simp add: svc_bind_def)
      have "w_db w1 = w_db w \<and> F x (w_db w)" using assms(1) Pair Inr unfolding tells_def by blast
      with writesD [OF assms(3) f] show ?thesis by auto
    qed
  qed
qed

lemma tells_steps:
  "tells (svc_return x) (\<lambda>v d. v = x)" "tells (svc_lift r) (\<lambda>v d. r = Inr v)"
  "tells (svc_refuse p err) (\<lambda>v d. \<not> p)" "tells (svc_read q) (\<lambda>v d. q d = Inr v)"
  "tells (svc_find g err) (\<lambda>v d. g d = Inr (Some v))"
  by (auto simp: tells_def svc_ok)

lemma tells_quiet: "quiet m \<Longrightarrow> tells m (\<lambda>v d. True)"
  by (auto simp: tells_def quiet_def)

lemmas writes_step = writes_after [OF tells_steps(1)] writes_after [OF tells_steps(2)]
  writes_after [OF tells_steps(3)] writes_after [OF tells_steps(4)] writes_after [OF tells_steps(5)]

lemma writes_here:
  assumes "\<And>d r d'. act d = (r, d') \<Longrightarrow> d' = d \<or> R d d'" and "\<And>x. quiet (f x)"
  shows "writes R (svc_bind (svc_write act) f)"
  unfolding writes_def
proof (intro allI impI)
  fix w r w' assume b: "svc_bind (svc_write act) f w = (r, w')"
  obtain s d where a: "act (w_db w) = (s, d)" by fastforce
  have "w_db w' = d"
    using b a quietD [OF assms(2)] by (cases s) (fastforce simp: svc_bind_def svc_write_def)+
  with assms(1) [OF a] show "w_db w' = w_db w \<or> R (w_db w) (w_db w')" by simp
qed

lemma writes_skip: "quiet m \<Longrightarrow> (\<And>x. writes R (f x)) \<Longrightarrow> writes R (svc_bind m f)"
  by (rule writes_after [OF tells_quiet]) auto

lemma writes_if: "(p \<Longrightarrow> writes R m) \<Longrightarrow> (\<not> p \<Longrightarrow> writes R n) \<Longrightarrow> writes R (if p then m else n)"
  by simp

lemma in_tx_effect:
  assumes "in_tx e body d = (r, d')" and "\<And>v. body d = (Inr v, d') \<Longrightarrow> R"
  shows "d' = d \<or> R"
proof (cases r)
  case (Inl err)
  with in_tx_Inl assms(1) show ?thesis by metis
next
  case (Inr v)
  with in_tx_Inr assms(1) have "body d = (Inr v, d')" by metis
  with assms(2) show ?thesis by simp
qed

section \<open>What each operation can do to the tables\<close>

definition create_input :: "create_broadcast_request \<Rightarrow> uuid \<Rightarrow> create_broadcast_input" where
  "create_input req creator_id =
     \<lparr>ci_title = cr_title req, ci_description = cr_description req, ci_image_id = cr_image_id req,
      ci_image_url = cr_image_url req, ci_time_zone = cr_time_zone req, ci_start_time = cr_start_time req,
      ci_recording_enabled = or_default (cr_recording_enabled req) False, ci_creator_id = creator_id\<rparr>"

definition update_input :: "update_broadcast_request \<Rightarrow> uuid \<Rightarrow> update_broadcast_input" where
  "update_input req broadcast_id =
     \<lparr>ui_broadcast_id = broadcast_id, ui_title = ur_title req, ui_description = ur_description req,
      ui_image_id = ur_image_id req, ui_image_url = ur_image_url req, ui_time_zone = ur_time_zone req,
      ui_start_time = ur_start_time req, ui_recording_enabled = ur_recording_enabled req\<rparr>"

text \<open>A broadcast row of the given creator that is (or is not) running.\<close>

definition owned :: "db \<Rightarrow> uuid \<Rightarrow> uuid \<Rightarrow> bool \<Rightarrow> bool" where
  "owned d b u running \<longleftrightarrow> (\<exists>r. live_row d b = Some r \<and> b_creator_id r = u \<and> is_active r = running)"

definition created :: "svc_env \<Rightarrow> create_broadcast_request \<Rightarrow> uuid \<Rightarrow> db \<Rightarrow> db \<Rightarrow> bool" where
  "created e req u d d' \<longleftrightarrow>
     (\<exists>b d1. repo_create (se_repo e) (create_input req u) d = (Inr b, d1) \<and>
        (d' = d1 \<or> repo_add_cohosts (se_repo e) (b_id b) (or_default (cr_cohosts req) []) u d1 = (Inr (), d')))"

definition updated :: "svc_env \<Rightarrow> update_broadcast_request \<Rightarrow> uuid \<Rightarrow> uuid \<Rightarrow> db \<Rightarrow> db \<Rightarrow> bool" where
  "updated e req i u d d' \<longleftrightarrow> owned d i u False \<and>
     (\<exists>b d1. repo_update (se_repo e) (update_input req i) d = (Inr b, d1) \<and>
        (or_default (ur_cohosts req) [] = [] \<and> d' = d1 \<or>
         repo_add_cohosts (se_repo e) (b_id b) (or_default (ur_cohosts req) []) u d1 = (Inr (), d')))"

definition deleted :: "svc_env \<Rightarrow> uuid \<Rightarrow> uuid \<Rightarrow> db \<Rightarrow> db \<Rightarrow> bool" where
  "deleted e i u d d' \<longleftrightarrow> owned d i u False \<and> repo_delete (se_repo e) i d = (Inr (), d')"

definition started :: "svc_env \<Rightarrow> uuid \<Rightarrow> uuid \<Rightarrow> db \<Rightarrow> db \<Rightarrow> bool" where
  "started e i u d d' \<longleftrightarrow> owned d i u False \<and>
     (\<exists>b token d1. repo_set_active (se_repo e)
        \<lparr>si_broadcast_id = i, si_broadcast_token = token, si_start_time = se_now e\<rparr> d = (Inr b, d1) \<and>
      repo_upsert_participant (se_repo e)
        \<lparr>pi_broadcast_id = i, pi_participant_id = u, pi_role = Host, pi_joined_at = se_now e\<rparr> d1 = (Inr (), d'))"

definition ended :: "svc_env \<Rightarrow> uuid \<Rightarrow> uuid \<Rightarrow> db \<Rightarrow> db \<Rightarrow> bool" where
  "ended e i u d d' \<longleftrightarrow> owned d i u True \<and>
     (\<exists>ids d1. repo_get_participant_ids_and_clear (se_repo e) i d = (Inr ids, d1) \<and>
        repo_set_inactive (se_repo e) i Normal d1 = (Inr (), d'))"

definition joined :: "svc_env \<Rightarrow> uuid \<Rightarrow> uuid \<Rightarrow> db \<Rightarrow> db \<Rightarrow> bool" where
  "joined e i u d d' \<longleftrightarrow>
     (\<exists>r. live_row d i = Some r \<and> is_active r \<and> b_creator_id r \<noteq> u) \<and>
     repo_upsert_participant (se_repo e)
       \<lparr>pi_broadcast_id = i, pi_participant_id = u, pi_role = (if cohost_listed d i u then Cohost else Participant),
        pi_joined_at = se_now e\<rparr> d = (Inr (), d')"

definition left :: "svc_env \<Rightarrow> uuid \<Rightarrow> uuid \<Rightarrow> db \<Rightarrow> db \<Rightarrow> bool" where
  "left e i u d d' \<longleftrightarrow> repo_remove_participant (se_repo e) i u d = (Inr (), d')"

definition promoted :: "svc_env \<Rightarrow> uuid \<Rightarrow> uuid \<Rightarrow> uuid \<Rightarrow> db \<Rightarrow> db \<Rightarrow> bool" where
  "promoted e i u x d d' \<longleftrightarrow> owned d i u True \<and> x \<noteq> u \<and>
     (\<exists>d1. repo_add_cohosts (se_repo e) i [x] u d = (Inr (), d1) \<and>
        repo_upsert_participant (se_repo e)
          \<lparr>pi_broadcast_id = i, pi_participant_id = x, pi_role = Cohost, pi_joined_at = se_now e\<rparr> d1 = (Inr (), d'))"

definition demoted :: "svc_env \<Rightarrow> uuid \<Rightarrow> uuid \<Rightarrow> uuid \<Rightarrow> db \<Rightarrow> db \<Rightarrow> bool" where
  "demoted e i u x d d' \<longleftrightarrow> owned d i u True \<and>
     (\<exists>d1. repo_remove_cohost (se_repo e) i x d = (Inr (), d1) \<and>
        (repo_remove_participant (se_repo e) i x d1 = (Inr (), d') \<or>
         repo_upsert_participant (se_repo e)
           \<lparr>pi_broadcast_id = i, pi_participant_id = x, pi_role = Participant, pi_joined_at = se_now e\<rparr> d1 = (Inr (), d')))"

lemma find_user_id: "repo_find_user_summary e u d = Inr (Some s) \<Longrightarrow> us_id s = u"
  by (auto simp: repo_find_user_summary_def summary_of_def dest!: find_Some_mem)

lemmas guards = owned_def repo_find_by_id_def is_active_def find_user_id

lemmas svc_writes =
  writes_after [OF tells_steps(1) quiet_steps(1)] writes_after [OF tells_steps(2) quiet_steps(2)]
  writes_after [OF tells_steps(3) quiet_steps(3)] writes_after [OF tells_steps(4) quiet_steps(4)]
  writes_after [OF tells_steps(5) quiet_steps(5)]
  writes_skip [OF quiet_effects(3)] writes_skip [OF quiet_reads(3)]
  writes_if writes_quiet [OF quiet_steps(1)] writes_here

lemma quiet_pure [intro, simp]: "quiet (\<lambda>w. (Inr (f w), w))"
  by (simp add: quiet_def)

lemma exec_unit: "exec e st x d = (r, d') \<Longrightarrow> d' = d \<or> r = Inr ()"
  by (cases r) (auto dest: exec_Inl)

lemma remove_unit: "repo_remove_participant e b u d = (r, d') \<Longrightarrow> d' = d \<or> r = Inr ()"
  by (auto simp: repo_remove_participant_def dest: exec_unit)

lemma delete_unit: "repo_delete e b d = (r, d') \<Longrightarrow> d' = d \<or> r = Inr ()"
  by (auto simp: repo_delete_def dest: exec_unit)

lemma start_writes: "writes (started e i u) (broadcast_start e i u)"
  unfolding broadcast_start_def Let_def
  by (intro svc_writes; (erule in_tx_effect)?)
    (fastforce intro!: quiet_bind simp: then_do_Inr started_def guards)+

lemma end_writes: "writes (ended e i u) (broadcast_end e i u)"
  unfolding broadcast_end_def Let_def
  by (intro svc_writes; (erule in_tx_effect)?)
    (fastforce intro!: quiet_bind simp: then_do_Inr ended_def guards repo_find_by_id_or_error_def bind_res_Inr)+

lemma join_writes: "writes (joined e i u) (broadcast_join e i u)"
  unfolding broadcast_join_def Let_def
  apply (intro svc_writes)
  apply (rule writes_skip)
   apply (simp split: option.split)
  apply (intro svc_writes; (erule in_tx_effect)?)
   apply (fastforce intro!: quiet_bind simp: joined_def guards repo_is_cohost_def)+
  done

lemma leave_writes: "writes (left e i u) (broadcast_leave e i u)"
  unfolding broadcast_leave_def Let_def
  by (intro svc_writes) (auto intro!: quiet_bind simp: left_def dest: remove_unit)

lemma delete_writes: "writes (deleted e i u) (broadcast_delete e i u)"
  unfolding broadcast_delete_def Let_def
  by (intro svc_writes) (auto simp: deleted_def guards dest: delete_unit)

lemma create_writes: "writes (created e req u) (broadcast_create e req u)"
  unfolding broadcast_create_def Let_def create_input_def [symmetric]
  by (intro svc_writes; (erule in_tx_effect)?)
    (fastforce intro!: quiet_bind simp: then_do_Inr created_def split: if_splits)+

lemma update_writes: "writes (updated e req i u) (broadcast_update e req i u)"
  unfolding broadcast_update_def Let_def update_input_def [symmetric]
  by (intro svc_writes; (erule in_tx_effect)?)
    (fastforce intro!: quiet_bind simp: then_do_Inr updated_def guards split: if_splits)+

lemma add_cohost_writes: "writes (promoted e i u x) (broadcast_add_cohost e i u x)"
  unfolding broadcast_add_cohost_def Let_def
  apply (intro svc_writes)
  apply (rule writes_skip)
   apply (simp add: quiet_def svc_refuse_def)
  apply (intro svc_writes; (erule in_tx_effect)?)
   apply (fastforce intro!: quiet_bind simp: then_do_Inr promoted_def guards)+
  done

lemma remove_cohost_writes: "writes (demoted e i u x) (broadcast_remove_cohost e i x u out)"
  unfolding broadcast_remove_cohost_def Let_def
  by (intro svc_writes; (erule in_tx_effect)?)
    (fastforce intro!: quiet_bind simp: then_do_Inr demoted_def guards split: if_splits)+

end
