(* ===== verification/Broadcast_Frames.thy ===== *)
theory Broadcast_Frames
  imports Broadcast_Rules
begin

text \<open>
  What each statement of the repository changes and what it leaves: the participants, the cohort of
  cohosts, the creators and the running broadcasts. The participants table is the keyed table the
  service relies on; its contract is the locale \<open>member_table\<close>.
\<close>

section \<open>The contract of the participants table\<close>

locale member_table =
  fixes row :: "'d \<Rightarrow> 'k \<Rightarrow> 'v option"
    and upsert :: "'k \<Rightarrow> 'i \<Rightarrow> 'd \<Rightarrow> 'd option"
    and remove :: "'k \<Rightarrow> 'd \<Rightarrow> 'd option"
    and fresh :: "'k \<Rightarrow> 'i \<Rightarrow> 'v"
    and change :: "'i \<Rightarrow> 'v \<Rightarrow> 'v"
  assumes row_upsert: "upsert k x d = Some d' \<Longrightarrow>
      row d' k' = (if k' = k then Some (case row d k of Some v \<Rightarrow> change x v | None \<Rightarrow> fresh k x) else row d k')"
    and row_remove: "remove k d = Some d' \<Longrightarrow> row d' k' = (if k' = k then None else row d k')"
begin

lemma upsert_then_remove:
  assumes "row d k = None" and "upsert k x d = Some d1" and "remove k d1 = Some d2"
  shows "row d2 k' = row d k'"
  using row_remove [OF assms(3), of k'] row_upsert [OF assms(2), of k'] assms(1) by (cases "k' = k") auto

lemma upsert_keeps:
  assumes "\<And>v. keep (change x v) = keep v" and "row d k = Some v" and "upsert k x d = Some d1"
  shows "\<exists>v'. row d1 k = Some v' \<and> keep v' = keep v"
  using row_upsert [OF assms(3), of k] assms(1,2) by auto

lemma remove_then_upsert:
  assumes "remove k d = Some d1" and "upsert k x d1 = Some d2"
  shows "row d2 k = Some (fresh k x)"
  using row_upsert [OF assms(2), of k] row_remove [OF assms(1), of k] by simp

end

text \<open>The repository's table, keyed by broadcast and user, written with a role and an instant.\<close>

definition fresh_participant :: "uuid \<times> uuid \<Rightarrow> participant_role \<times> timestamp \<Rightarrow> broadcast_participant" where
  "fresh_participant k x = \<lparr>p_broadcast_id = fst k, p_participant_id = snd k, p_role = fst x, p_joined_at = snd x,
     p_left_at = None, p_last_listen_position_seconds = 0, p_last_listened_at = None\<rparr>"

definition done_db :: "(broadcast_error + unit) \<times> db \<Rightarrow> db option" where
  "done_db r = (case r of (Inr _, d) \<Rightarrow> Some d | (Inl _, _) \<Rightarrow> None)"

definition upsert_input :: "uuid \<times> uuid \<Rightarrow> participant_role \<times> timestamp \<Rightarrow> upsert_participant_input" where
  "upsert_input k x = \<lparr>pi_broadcast_id = fst k, pi_participant_id = snd k, pi_role = fst x, pi_joined_at = snd x\<rparr>"

lemma done_db_Some: "done_db r = Some d \<longleftrightarrow> r = (Inr (), d)"
  by (auto simp: done_db_def split: prod.splits sum.splits)

interpretation participants: member_table
    "\<lambda>d k. participant_row d (fst k) (snd k)"
    "\<lambda>k x d. done_db (repo_upsert_participant e (upsert_input k x) d)"
    "\<lambda>k d. done_db (repo_remove_participant e' (fst k) (snd k) d)"
    fresh_participant
    "\<lambda>x p. p\<lparr>p_role := fst x, p_joined_at := snd x\<rparr>"
  for e e'
proof unfold_locales
  fix k :: "uuid \<times> uuid" and x d d' k'
  assume "done_db (repo_upsert_participant e (upsert_input k x) d) = Some d'"
  then have u: "repo_upsert_participant e (upsert_input k x) d = (Inr (), d')" by (simp add: done_db_Some)
  show "participant_row d' (fst k') (snd k') =
     (if k' = k then Some (case participant_row d (fst k) (snd k) of
          Some p \<Rightarrow> p\<lparr>p_role := fst x, p_joined_at := snd x\<rparr> | None \<Rightarrow> fresh_participant k x)
      else participant_row d (fst k') (snd k'))"
    unfolding upsert_row [OF u]
    by (cases k; cases k') (auto simp: upsert_input_def fresh_participant_def split: option.split)
next
  fix k :: "uuid \<times> uuid" and d d' k'
  assume "done_db (repo_remove_participant e' (fst k) (snd k) d) = Some d'"
  then have "repo_remove_participant e' (fst k) (snd k) d = (Inr (), d')" by (simp add: done_db_Some)
  from remove_row [OF this] show "participant_row d' (fst k') (snd k') =
      (if k' = k then None else participant_row d (fst k') (snd k'))"
    by (cases k; cases k') auto
qed

section \<open>Creators, cohosts and rows under each statement\<close>

definition hosted :: "db \<Rightarrow> uuid \<Rightarrow> uuid \<Rightarrow> bool" where
  "hosted d b u \<longleftrightarrow> (\<exists>r \<in> set (d_broadcasts d). b_id r = b \<and> b_creator_id r = u)"

text \<open>A statement that touches neither participants nor cohosts and keeps every creator.\<close>

definition same_people :: "db \<Rightarrow> db \<Rightarrow> bool" where
  "same_people d d' \<longleftrightarrow> d_participants d' = d_participants d \<and> d_cohosts d' = d_cohosts d \<and>
     (\<forall>b u. hosted d b u \<longrightarrow> hosted d' b u)"

lemma same_people_rows:
  assumes "same_people d d'"
  shows "participant_row d' b u = participant_row d b u" "cohost_listed d' b u = cohost_listed d b u"
  using assms by (simp_all add: same_people_def participant_row_def cohost_listed_def)

lemma hosted_pairs: "hosted d b u \<longleftrightarrow> (b, u) \<in> set (map (\<lambda>r. (b_id r, b_creator_id r)) (d_broadcasts d))"
  by (auto simp: hosted_def)

lemma hosted_update:
  assumes "\<And>r. b_id (f r) = b_id r" and "\<And>r. b_creator_id (f r) = b_creator_id r"
  shows "hosted (update_broadcast e i f d) b u = hosted d b u"
proof -
  have "map (\<lambda>r. (b_id r, b_creator_id r)) (d_broadcasts (update_broadcast e i f d)) =
      map (\<lambda>r. (b_id r, b_creator_id r)) (d_broadcasts d)"
    using assms by (simp add: update_broadcast_def)
  then show ?thesis unfolding hosted_pairs by simp
qed

lemma same_people_update:
  assumes "\<And>r. b_id (f r) = b_id r" and "\<And>r. b_creator_id (f r) = b_creator_id r"
  shows "same_people d (update_broadcast e i f d)"
  using hosted_update [of f, OF assms] by (simp add: same_people_def)

lemma returning_ok: "returning d i = (Inr b, d') \<longleftrightarrow> d' = d \<and> broadcast_row d i = Some b"
  by (auto simp: returning_def split: option.splits)

lemma people_create: "repo_create e inp d = (Inr b, d') \<Longrightarrow> same_people d d'"
  by (auto simp: repo_create_def same_people_def hosted_def dest!: exec_cases split: if_splits)

lemma people_update: "repo_update e inp d = (Inr b, d') \<Longrightarrow> same_people d d'"
  unfolding repo_update_def
  by (auto dest!: exec_cases simp: returning_ok intro!: same_people_update)
    (auto simp: apply_update_def set_if_def split: option.splits)

lemma same_people_map:
  assumes "\<And>r. b_id (f r) = b_id r" and "\<And>r. b_creator_id (f r) = b_creator_id r"
  shows "same_people d (d\<lparr>d_broadcasts := map f (d_broadcasts d)\<rparr>)"
proof -
  have "map (\<lambda>r. (b_id r, b_creator_id r)) (map f (d_broadcasts d)) = map (\<lambda>r. (b_id r, b_creator_id r)) (d_broadcasts d)"
    using assms by simp
  then show ?thesis unfolding same_people_def hosted_pairs by simp
qed

lemma people_delete: "repo_delete e i d = (Inr x, d') \<Longrightarrow> same_people d d'"
  by (auto simp: repo_delete_def dest!: exec_cases intro!: same_people_map)

lemma people_set_active: "repo_set_active e inp d = (Inr b, d') \<Longrightarrow> same_people d d'"
  unfolding repo_set_active_def by (auto dest!: exec_cases simp: returning_ok intro!: same_people_update)

lemma people_set_inactive: "repo_set_inactive e i reason d = (Inr x, d') \<Longrightarrow> same_people d d'"
  unfolding repo_set_inactive_def by (auto dest!: exec_cases intro!: same_people_update)

lemma hosted_bump: "hosted (bump_total e i n d) b u = hosted d b u"
  unfolding bump_total_def by (rule hosted_update) auto

lemma upsert_frame:
  assumes "repo_upsert_participant e inp d = (Inr x, d')"
  shows "d_cohosts d' = d_cohosts d" "hosted d' b u = hosted d b u"
  using exec_cases [OF assms [unfolded repo_upsert_participant_def Let_def]]
  by (auto simp: hosted_bump split: option.splits if_splits) (auto simp: hosted_def)

lemma remove_frame:
  assumes "repo_remove_participant e i v d = (Inr x, d')"
  shows "d_cohosts d' = d_cohosts d" "hosted d' b u = hosted d b u"
  using exec_cases [OF assms [unfolded repo_remove_participant_def]]
  by (auto simp: hosted_bump split: option.splits) (auto simp: hosted_def)

lemma clear_row:
  assumes "repo_get_participant_ids_and_clear e i d = (Inr ids, d')"
  shows "participant_row d' b u =
     map_option (\<lambda>p. if b = i \<and> p_left_at p = None then p\<lparr>p_left_at := Some (re_db_now e)\<rparr> else p) (participant_row d b u)"
proof -
  let ?f = "\<lambda>p. if p_broadcast_id p = i \<and> p_left_at p = None then p\<lparr>p_left_at := Some (re_db_now e)\<rparr> else p"
  have d': "d' = d\<lparr>d_participants := map ?f (d_participants d)\<rparr>"
    using exec_cases [OF assms [unfolded repo_get_participant_ids_and_clear_def Let_def]] by simp
  have "participant_row d' b u = map_option ?f (participant_row d b u)"
    unfolding d' by (rule participant_row_map) (simp add: is_row_def)
  then show ?thesis
    by (cases "participant_row d b u") (auto dest!: participant_row_SomeD simp: is_row_def)
qed

lemma clear_frame:
  assumes "repo_get_participant_ids_and_clear e i d = (Inr ids, d')"
  shows "d_cohosts d' = d_cohosts d" "d_broadcasts d' = d_broadcasts d" "d_users d' = d_users d"
  using exec_cases [OF assms [unfolded repo_get_participant_ids_and_clear_def Let_def]] by auto

lemma insert_cohosts_listed:
  "cohost_listed (insert_cohosts e i inviter us d) b u = (cohost_listed d b u \<or> b = i \<and> u \<in> set us)"
  by (induction us arbitrary: d) (auto simp: cohost_listed_def)

lemma insert_cohosts_frame [simp]:
  "d_participants (insert_cohosts e i inviter us d) = d_participants d"
  "d_broadcasts (insert_cohosts e i inviter us d) = d_broadcasts d"
  "d_users (insert_cohosts e i inviter us d) = d_users d"
  by (induction us arbitrary: d) auto

lemma add_cohosts_frame:
  assumes "repo_add_cohosts e i us inviter d = (Inr x, d')"
  shows "d_participants d' = d_participants d" "d_broadcasts d' = d_broadcasts d"
    "cohost_listed d' b u = (cohost_listed d b u \<or> b = i \<and> u \<in> set us)"
  using assms unfolding repo_add_cohosts_def
  by (auto split: if_splits dest!: exec_cases simp: insert_cohosts_listed)

lemma remove_cohost_frame:
  assumes "repo_remove_cohost e i v d = (Inr x, d')"
  shows "d_participants d' = d_participants d" "d_broadcasts d' = d_broadcasts d"
    "cohost_listed d' b u = (cohost_listed d b u \<and> \<not> (b = i \<and> u = v))"
  using exec_cases [OF assms [unfolded repo_remove_cohost_def]] by (auto simp: cohost_listed_def)

lemma same_participants_row: "d_participants d' = d_participants d \<Longrightarrow> participant_row d' b u = participant_row d b u"
  by (simp add: participant_row_def)

lemma same_cohosts_listed: "d_cohosts d' = d_cohosts d \<Longrightarrow> cohost_listed d' b u = cohost_listed d b u"
  by (simp add: cohost_listed_def)

lemma same_broadcasts_hosted: "d_broadcasts d' = d_broadcasts d \<Longrightarrow> hosted d' b u = hosted d b u"
  by (simp add: hosted_def)

lemma live_row_SomeD:
  "live_row d i = Some r \<Longrightarrow> r \<in> set (d_broadcasts d) \<and> b_id r = i \<and> b_deleted_at r = None"
  unfolding live_row_def by (auto dest: find_Some_mem)

lemma owned_hosted: "owned d i u running \<Longrightarrow> hosted d i u"
  by (auto simp: owned_def hosted_def dest!: live_row_SomeD)

end
