(* ===== verification/Broadcast_Lifecycle.thy ===== *)
theory Broadcast_Lifecycle
  imports Broadcast_Frames
begin

text \<open>
  The broadcast service as a state machine: every operation by any user, in any environment, and
  every spawned task. Its invariants: the tables are sound, a privileged role is always justified,
  and a running broadcast is complete.
\<close>

section \<open>Steps\<close>

inductive svc_step :: "world \<Rightarrow> world \<Rightarrow> bool" where
  create: "broadcast_create e req u w = (r, w') \<Longrightarrow> svc_step w w'"
| update: "broadcast_update e upd i u w = (r, w') \<Longrightarrow> svc_step w w'"
| delete: "broadcast_delete e i u w = (ru, w') \<Longrightarrow> svc_step w w'"
| start: "broadcast_start e i u w = (rs, w') \<Longrightarrow> svc_step w w'"
| finish: "broadcast_end e i u w = (re, w') \<Longrightarrow> svc_step w w'"
| join: "broadcast_join e i u w = (rs, w') \<Longrightarrow> svc_step w w'"
| leave: "broadcast_leave e i u w = (rl, w') \<Longrightarrow> svc_step w w'"
| add_cohost: "broadcast_add_cohost e i u x w = (rc, w') \<Longrightarrow> svc_step w w'"
| remove_cohost: "broadcast_remove_cohost e i x u out w = (ru, w') \<Longrightarrow> svc_step w w'"
| refresh: "broadcast_refresh_token e i u w = (rt, w') \<Longrightarrow> svc_step w w'"
| view: "get_broadcast e i w = (r, w') \<Longrightarrow> svc_step w w'"
| kick: "service_remove_participant e i u w = (ru, w') \<Longrightarrow> svc_step w w'"
| task: "t \<in> set (w_tasks w) \<Longrightarrow> w' = run_task e t (w\<lparr>w_tasks := remove1 t (w_tasks w)\<rparr>) \<Longrightarrow> svc_step w w'"

inductive_cases svc_stepE: "svc_step w w'"

text \<open>All a step can do to the tables.\<close>

definition db_effect :: "db \<Rightarrow> db \<Rightarrow> bool" where
  "db_effect d d' \<longleftrightarrow> d' = d \<or> (\<exists>e req u. created e req u d d') \<or> (\<exists>e req i u. updated e req i u d d') \<or>
     (\<exists>e i u. deleted e i u d d') \<or> (\<exists>e i u. started e i u d d') \<or> (\<exists>e i u. ended e i u d d') \<or>
     (\<exists>e i u. joined e i u d d') \<or> (\<exists>e i u. left e i u d d') \<or> (\<exists>e i u x. promoted e i u x d d') \<or>
     (\<exists>e i u x. demoted e i u x d d')"

lemma quiet_refresh: "quiet (broadcast_refresh_token e i u)"
  unfolding broadcast_refresh_token_def by (auto intro!: quiet_bind)

lemma quiet_view: "quiet (get_broadcast e i)"
  by (auto simp: quiet_def get_broadcast_def split: prod.splits)

lemma kick_writes: "writes (left e i u) (service_remove_participant e i u)"
  by (auto simp: writes_def service_remove_participant_def svc_write_eq left_def dest: remove_unit)

lemma run_task_db [simp]: "w_db (run_task e t w) = w_db w"
  by (cases t)
    (auto simp: set_keys_def add_published_def after_start_def after_end_def after_join_def after_leave_def
      after_delete_def drop_live_count_def Let_def svc_room_def split: option.splits prod.splits)

lemma svc_step_effect: "svc_step w w' \<Longrightarrow> db_effect (w_db w) (w_db w')"
proof (induction rule: svc_step.induct)
  case (create e req u w r w')
  with writesD [OF create_writes] show ?case unfolding db_effect_def by metis
next
  case (update e upd i u w r w')
  with writesD [OF update_writes] show ?case unfolding db_effect_def by metis
next
  case (delete e i u w r w')
  with writesD [OF delete_writes] show ?case unfolding db_effect_def by metis
next
  case (start e i u w r w')
  with writesD [OF start_writes] show ?case unfolding db_effect_def by metis
next
  case (finish e i u w r w')
  with writesD [OF end_writes] show ?case unfolding db_effect_def by metis
next
  case (join e i u w r w')
  with writesD [OF join_writes] show ?case unfolding db_effect_def by metis
next
  case (leave e i u w r w')
  with writesD [OF leave_writes] show ?case unfolding db_effect_def by metis
next
  case (add_cohost e i u x w r w')
  with writesD [OF add_cohost_writes] show ?case unfolding db_effect_def by metis
next
  case (remove_cohost e i x u out w r w')
  with writesD [OF remove_cohost_writes] show ?case unfolding db_effect_def by metis
next
  case (kick e i u w r w')
  with writesD [OF kick_writes] show ?case unfolding db_effect_def by metis
next
  case (refresh e i u w r w')
  with quietD [OF quiet_refresh] show ?case unfolding db_effect_def by metis
next
  case (view e i w r w')
  with quietD [OF quiet_view] show ?case unfolding db_effect_def by metis
qed (simp add: db_effect_def)

section \<open>Privileges\<close>

definition roles_justified :: "db \<Rightarrow> bool" where
  "roles_justified d \<longleftrightarrow> (\<forall>b u p. participant_row d b u = Some p \<longrightarrow>
     (p_role p = Host \<longrightarrow> hosted d b u) \<and> (p_role p = Cohost \<longrightarrow> cohost_listed d b u))"

lemma roles_same_people: "roles_justified d \<Longrightarrow> same_people d d' \<Longrightarrow> roles_justified d'"
  by (simp add: roles_justified_def same_people_rows) (simp add: same_people_def)

lemma roles_upsert:
  assumes "roles_justified d" and "repo_upsert_participant e inp d = (Inr x, d')"
    and "pi_role inp = Host \<Longrightarrow> hosted d (pi_broadcast_id inp) (pi_participant_id inp)"
    and "pi_role inp = Cohost \<Longrightarrow> cohost_listed d (pi_broadcast_id inp) (pi_participant_id inp)"
  shows "roles_justified d'"
  using assms(1,3,4) unfolding roles_justified_def upsert_row [OF assms(2)] upsert_frame(2) [OF assms(2)]
    same_cohosts_listed [OF upsert_frame(1) [OF assms(2)]]
  by (auto split: if_splits option.splits)

lemma roles_remove:
  assumes "roles_justified d" and "repo_remove_participant e i v d = (Inr x, d')"
  shows "roles_justified d'"
  using assms(1) unfolding roles_justified_def remove_row [OF assms(2)] remove_frame(2) [OF assms(2)]
    same_cohosts_listed [OF remove_frame(1) [OF assms(2)]]
  by auto

lemma roles_clear:
  assumes "roles_justified d" and "repo_get_participant_ids_and_clear e i d = (Inr ids, d')"
  shows "roles_justified d'"
  using assms(1) unfolding roles_justified_def clear_row [OF assms(2)]
    same_broadcasts_hosted [OF clear_frame(2) [OF assms(2)]] same_cohosts_listed [OF clear_frame(1) [OF assms(2)]]
  by (auto split: if_splits)

lemma roles_add_cohosts:
  assumes "roles_justified d" and "repo_add_cohosts e i us inviter d = (Inr x, d')"
  shows "roles_justified d'"
  using assms(1) unfolding roles_justified_def same_participants_row [OF add_cohosts_frame(1) [OF assms(2)]]
    same_broadcasts_hosted [OF add_cohosts_frame(2) [OF assms(2)]] add_cohosts_frame(3) [OF assms(2)]
  by auto

lemma roles_demoted:
  assumes r: "roles_justified d" and c: "repo_remove_cohost e i x d = (Inr y, d1)"
    and p: "repo_remove_participant e i x d1 = (Inr z, d') \<or>
      repo_upsert_participant e \<lparr>pi_broadcast_id = i, pi_participant_id = x, pi_role = Participant, pi_joined_at = t\<rparr> d1
        = (Inr z, d')"
  shows "roles_justified d'"
proof -
  have d1: "participant_row d1 b u = participant_row d b u" "hosted d1 b u = hosted d b u"
      "cohost_listed d1 b u = (cohost_listed d b u \<and> \<not> (b = i \<and> u = x))" for b u
    using remove_cohost_frame [OF c] by (simp_all add: participant_row_def hosted_def)
  from p show ?thesis
  proof
    assume q: "repo_remove_participant e i x d1 = (Inr z, d')"
    show ?thesis
      using r unfolding roles_justified_def remove_row [OF q] remove_frame(2) [OF q]
        same_cohosts_listed [OF remove_frame(1) [OF q]] d1 by auto
  next
    assume q: "repo_upsert_participant e
        \<lparr>pi_broadcast_id = i, pi_participant_id = x, pi_role = Participant, pi_joined_at = t\<rparr> d1 = (Inr z, d')"
    show ?thesis
      using r unfolding roles_justified_def upsert_row [OF q] upsert_frame(2) [OF q]
        same_cohosts_listed [OF upsert_frame(1) [OF q]] d1 by (auto split: if_splits option.splits)
  qed
qed

lemma roles_effect:
  assumes r: "roles_justified d" and s: "db_effect d d'"
  shows "roles_justified d'"
  using s unfolding db_effect_def
proof (elim disjE exE)
  fix e req u assume "created e req u d d'"
  then show ?thesis
    unfolding created_def by (auto intro: roles_same_people [OF r] roles_add_cohosts dest!: people_create)
next
  fix e req i u assume "updated e req i u d d'"
  then show ?thesis
    unfolding updated_def by (auto intro: roles_same_people [OF r] roles_add_cohosts dest!: people_update)
next
  fix e i u assume "deleted e i u d d'"
  then show ?thesis unfolding deleted_def by (auto intro: roles_same_people [OF r] dest!: people_delete)
next
  fix e i u assume "started e i u d d'"
  then obtain b token d1 where o: "owned d i u False"
    and a: "repo_set_active (se_repo e) \<lparr>si_broadcast_id = i, si_broadcast_token = token, si_start_time = se_now e\<rparr> d = (Inr b, d1)"
    and p: "repo_upsert_participant (se_repo e)
        \<lparr>pi_broadcast_id = i, pi_participant_id = u, pi_role = Host, pi_joined_at = se_now e\<rparr> d1 = (Inr (), d')"
    unfolding started_def by blast
  note sp = people_set_active [OF a]
  show ?thesis
    by (rule roles_upsert [OF roles_same_people [OF r sp] p]) (use sp owned_hosted [OF o] in \<open>simp_all add: same_people_def\<close>)
next
  fix e i u assume "ended e i u d d'"
  then show ?thesis
    unfolding ended_def by (auto intro: roles_same_people roles_clear [OF r] dest!: people_set_inactive)
next
  fix e i u assume "joined e i u d d'"
  then show ?thesis unfolding joined_def by (auto intro!: roles_upsert [OF r] split: if_splits)
next
  fix e i u assume "left e i u d d'"
  then show ?thesis unfolding left_def by (rule roles_remove [OF r])
next
  fix e i u x assume "promoted e i u x d d'"
  then obtain d1 where a: "repo_add_cohosts (se_repo e) i [x] u d = (Inr (), d1)"
    and p: "repo_upsert_participant (se_repo e)
          \<lparr>pi_broadcast_id = i, pi_participant_id = x, pi_role = Cohost, pi_joined_at = se_now e\<rparr> d1 = (Inr (), d')"
    unfolding promoted_def by blast
  show ?thesis
    by (rule roles_upsert [OF roles_add_cohosts [OF r a] p]) (simp_all add: add_cohosts_frame(3) [OF a])
next
  fix e i u x assume "demoted e i u x d d'"
  then show ?thesis unfolding demoted_def using roles_demoted [OF r] by blast
qed (use r in simp)

section \<open>Sound tables, complete rows\<close>

lemma repo_inv_created: "repo_inv d \<Longrightarrow> created e req u d d' \<Longrightarrow> repo_inv d'"
  unfolding created_def by (auto intro: repo_inv_create repo_inv_add_cohosts)

lemma repo_inv_updated: "repo_inv d \<Longrightarrow> updated e req i u d d' \<Longrightarrow> repo_inv d'"
  unfolding updated_def by (auto intro: repo_inv_set_update repo_inv_add_cohosts)

lemma repo_inv_started: "repo_inv d \<Longrightarrow> started e i u d d' \<Longrightarrow> repo_inv d'"
  unfolding started_def by (auto intro: repo_inv_set_active repo_inv_upsert)

lemma repo_inv_ended: "repo_inv d \<Longrightarrow> ended e i u d d' \<Longrightarrow> repo_inv d'"
  unfolding ended_def by (auto intro: repo_inv_clear repo_inv_set_inactive)

lemma repo_inv_promoted: "repo_inv d \<Longrightarrow> promoted e i u x d d' \<Longrightarrow> repo_inv d'"
  unfolding promoted_def by (auto intro: repo_inv_add_cohosts repo_inv_upsert)

lemma repo_inv_demoted: "repo_inv d \<Longrightarrow> demoted e i u x d d' \<Longrightarrow> repo_inv d'"
  unfolding demoted_def by (auto intro: repo_inv_remove_cohost repo_inv_remove repo_inv_upsert)

lemma repo_inv_effect: "repo_inv d \<Longrightarrow> db_effect d d' \<Longrightarrow> repo_inv d'"
  unfolding db_effect_def deleted_def joined_def left_def
  by (elim disjE exE conjE)
    (blast intro: repo_inv_created repo_inv_updated repo_inv_started repo_inv_ended repo_inv_promoted
      repo_inv_demoted repo_inv_delete repo_inv_upsert repo_inv_remove)+

text \<open>A running broadcast has started, has its token and is not deleted.\<close>

definition complete :: "broadcast \<Rightarrow> bool" where
  "complete r \<longleftrightarrow> (b_status r = Active \<longrightarrow> b_start_time r \<noteq> None \<and> b_broadcast_token r \<noteq> None \<and> b_deleted_at r = None)"

definition rows_complete :: "db \<Rightarrow> bool" where
  "rows_complete d \<longleftrightarrow> list_all complete (d_broadcasts d)"

lemma rows_complete_update:
  assumes "rows_complete d" and "\<And>r. r \<in> set (d_broadcasts d) \<Longrightarrow> b_id r = i \<Longrightarrow> complete r \<Longrightarrow> complete (f r)"
  shows "rows_complete (update_broadcast e i f d)"
  using assms by (auto simp: rows_complete_def update_broadcast_def list_all_iff) (auto simp: complete_def)

lemma rows_complete_same: "rows_complete d \<Longrightarrow> d_broadcasts d' = d_broadcasts d \<Longrightarrow> rows_complete d'"
  by (simp add: rows_complete_def)

lemma rows_complete_participants: "rows_complete (d\<lparr>d_participants := ps\<rparr>) = rows_complete d"
  by (simp add: rows_complete_def)

lemma rows_complete_bump:
  assumes "rows_complete d"
  shows "rows_complete (bump_total e i n (d\<lparr>d_participants := ps\<rparr>))"
  unfolding bump_total_def
  by (rule rows_complete_update) (use assms in \<open>auto simp: rows_complete_def complete_def\<close>)

lemma rows_upsert:
  assumes "rows_complete d" and "repo_upsert_participant e inp d = (Inr x, d')"
  shows "rows_complete d'"
  using exec_cases [OF assms(2) [unfolded repo_upsert_participant_def Let_def]] assms(1)
  by (auto simp: rows_complete_bump rows_complete_participants split: option.splits if_splits)

lemma rows_remove:
  assumes "rows_complete d" and "repo_remove_participant e b u d = (Inr x, d')"
  shows "rows_complete d'"
  using exec_cases [OF assms(2) [unfolded repo_remove_participant_def]] assms(1)
  by (auto simp: rows_complete_bump split: option.splits)

lemma row_unique:
  assumes "repo_inv d" and "live_row d i = Some r" and "r' \<in> set (d_broadcasts d)" and "b_id r' = i"
  shows "r' = r"
  using assms live_row_SomeD [OF assms(2)] unfolding repo_inv_def
  by (metis (no_types, lifting) distinct_map inj_onD)

lemma rows_set_active:
  assumes "rows_complete d" and "repo_inv d" and "live_row d i = Some r"
    and "repo_set_active e \<lparr>si_broadcast_id = i, si_broadcast_token = tk, si_start_time = t\<rparr> d = (Inr b, d')"
  shows "rows_complete d'"
proof -
  let ?f = "\<lambda>b. b\<lparr>b_status := Active, b_broadcast_token := Some tk, b_start_time := Some t\<rparr>"
  have d': "d' = update_broadcast e i ?f d"
    using assms(4) unfolding repo_set_active_def by (auto dest!: exec_cases simp: returning_ok)
  show ?thesis
    unfolding d'
  proof (rule rows_complete_update [OF assms(1)])
    fix r' assume "r' \<in> set (d_broadcasts d)" "b_id r' = i"
    with row_unique [OF assms(2,3)] live_row_SomeD [OF assms(3)] show "complete (?f r')"
      by (simp add: complete_def)
  qed
qed

lemma rows_delete:
  assumes "rows_complete d" and "repo_inv d" and "live_row d i = Some r" and "\<not> is_active r"
    and "repo_delete e i d = (Inr x, d')"
  shows "rows_complete d'"
proof -
  have i: "b_status r' \<noteq> Active" if "r' \<in> set (d_broadcasts d)" "b_id r' = i" for r'
    using row_unique [OF assms(2,3) that] assms(4) by (simp add: is_active_def)
  show ?thesis
    using assms(1,5) i by (auto simp: repo_delete_def rows_complete_def list_all_iff dest!: exec_cases)
      (simp add: complete_def)
qed

lemma rows_create: "rows_complete d \<Longrightarrow> repo_create e inp d = (Inr b, d') \<Longrightarrow> rows_complete d'"
  by (auto simp: repo_create_def rows_complete_def new_broadcast_def complete_def split: if_splits dest!: exec_cases)

lemma rows_changed: "rows_complete d \<Longrightarrow> repo_update e inp d = (Inr b, d') \<Longrightarrow> rows_complete d'"
  unfolding repo_update_def
  by (auto dest!: exec_cases simp: returning_ok intro!: rows_complete_update)
    (auto simp: apply_update_def set_if_def complete_def split: option.splits)

lemma rows_set_inactive: "rows_complete d \<Longrightarrow> repo_set_inactive e i reason d = (Inr x, d') \<Longrightarrow> rows_complete d'"
  unfolding repo_set_inactive_def by (auto dest!: exec_cases intro!: rows_complete_update simp: complete_def)

lemma rows_effect:
  assumes c: "rows_complete d" and inv: "repo_inv d" and s: "db_effect d d'"
  shows "rows_complete d'"
  using s unfolding db_effect_def
proof (elim disjE exE)
  fix e req u assume "created e req u d d'"
  then show ?thesis
    unfolding created_def by (metis rows_create [OF c] rows_complete_same add_cohosts_frame(2))
next
  fix e req i u assume "updated e req i u d d'"
  then show ?thesis
    unfolding updated_def by (metis rows_changed [OF c] rows_complete_same add_cohosts_frame(2))
next
  fix e i u assume "deleted e i u d d'"
  then show ?thesis unfolding deleted_def owned_def by (auto intro: rows_delete [OF c inv])
next
  fix e i u assume "started e i u d d'"
  then show ?thesis unfolding started_def owned_def by (auto intro: rows_upsert rows_set_active [OF c inv])
next
  fix e i u assume "ended e i u d d'"
  then show ?thesis
    unfolding ended_def by (metis rows_set_inactive rows_complete_same [OF c] clear_frame(2))
next
  fix e i u assume "joined e i u d d'"
  then show ?thesis unfolding joined_def by (auto intro: rows_upsert [OF c])
next
  fix e i u assume "left e i u d d'"
  then show ?thesis unfolding left_def by (rule rows_remove [OF c])
next
  fix e i u x assume "promoted e i u x d d'"
  then show ?thesis
    unfolding promoted_def by (metis rows_upsert rows_complete_same [OF c] add_cohosts_frame(2))
next
  fix e i u x assume "demoted e i u x d d'"
  then show ?thesis
    unfolding demoted_def by (metis rows_upsert rows_remove rows_complete_same [OF c] remove_cohost_frame(2))
qed (use c in simp)

definition service_inv :: "world \<Rightarrow> bool" where
  "service_inv w \<longleftrightarrow> repo_inv (w_db w) \<and> roles_justified (w_db w) \<and> rows_complete (w_db w)"

lemma service_inv_step: "svc_step w w' \<Longrightarrow> service_inv w \<Longrightarrow> service_inv w'"
  unfolding service_inv_def
  by (blast dest: svc_step_effect intro: repo_inv_effect roles_effect rows_effect)

lemma service_inv_steps: "svc_step\<^sup>*\<^sup>* w w' \<Longrightarrow> service_inv w \<Longrightarrow> service_inv w'"
  by (induction rule: rtranclp_induct) (auto intro: service_inv_step)

lemma service_inv_empty:
  "repo_inv (w_db w) \<Longrightarrow> d_participants (w_db w) = [] \<Longrightarrow> d_broadcasts (w_db w) = [] \<Longrightarrow> service_inv w"
  by (simp add: service_inv_def roles_justified_def rows_complete_def participant_row_def)

end
