(* ===== verification/Broadcast_Demo.thy ===== *)
theory Broadcast_Demo
  imports Broadcast_Lifecycle
begin

text \<open>
  A small run of the service, used to show that the hypotheses of its properties can hold: a
  creator (1) creates broadcast 7 and starts it, a user (2) joins.
\<close>

definition demo_lk :: lk_env where
  "demo_lk = \<lparr>lk_check_now = 0, lk_fail_now = 0, lk_utc_now = 0, lk_reply = (\<lambda>_. Inr ()), lk_listing = (\<lambda>_. []),
     lk_sign = (\<lambda>_. Inr ''jwt'')\<rparr>"

text \<open>Redis answers reads only: the service must work without it, and the run stays small.\<close>

definition read_only_redis :: redis_env where
  "read_only_redis = \<lparr>r_now = 0, r_down = (\<lambda>cmd k. cmd \<noteq> ''GET'')\<rparr>"

definition demo_env :: svc_env where
  "demo_env = \<lparr>se_codec = plain_codec, se_now = 5000000000, se_later = 5000000001, se_repo = demo_repo,
     se_repo_after = demo_repo, se_bridge = demo_bridge\<lparr>be_redis := read_only_redis\<rparr>, se_lk = demo_lk, se_job_ok = True,
     se_scan = (\<lambda>_. [Inr (''0'', [])]), se_seen = (\<lambda>_. Map.empty), se_time_json = show_int,
     se_stamp = (\<lambda>t. JInt t), se_lowercase = to_lowercase, se_response_json = (\<lambda>_. JNull),
     se_response_text = (\<lambda>_. ''x''), se_response_parse = (\<lambda>_. None),
     se_listing_text = (\<lambda>_. ''[]''), se_listing_parse = (\<lambda>_. Some [])\<rparr>"

definition demo_world :: world where
  "demo_world = \<lparr>w_db = demo_db, w_keys = Map.empty, w_inst = demo_instance, w_breaker = livekit_new,
     w_calls = [], w_published = [], w_jobs = [], w_tasks = []\<rparr>"

definition demo_request :: create_broadcast_request where
  "demo_request = \<lparr>cr_title = ''talk'', cr_description = None, cr_image_id = None, cr_image_url = None,
     cr_time_zone = None, cr_start_time = None, cr_recording_enabled = None, cr_cohosts = None\<rparr>"

definition demo_created :: world where
  "demo_created = snd (broadcast_create demo_env demo_request 1 demo_world)"

definition demo_started :: world where
  "demo_started = snd (broadcast_start demo_env 7 1 demo_created)"

text \<open>The same broadcast given outright: running since 4 s, with its host present.\<close>

definition demo_row :: broadcast where
  "demo_row = (new_broadcast demo_repo demo_create)\<lparr>b_status := Active, b_broadcast_token := Some ''jwt'',
     b_start_time := Some 4000000000, b_total_participants := Some 1\<rparr>"

definition demo_member :: "uuid \<Rightarrow> participant_role \<Rightarrow> timestamp option \<Rightarrow> broadcast_participant" where
  "demo_member u role t = \<lparr>p_broadcast_id = 7, p_participant_id = u, p_role = role, p_joined_at = 4000000000,
     p_left_at = t, p_last_listen_position_seconds = 0, p_last_listened_at = None\<rparr>"

definition demo_live :: "broadcast \<Rightarrow> broadcast_participant list \<Rightarrow> world" where
  "demo_live row ps = demo_world\<lparr>w_db := demo_db\<lparr>d_broadcasts := [row], d_participants := ps\<rparr>\<rparr>"

lemma run_succeeds: "\<not> isl (fst x) \<Longrightarrow> \<exists>v. x = (Inr v, snd x)"
  by (cases x; cases "fst x") auto

end
