(* ===== verification/Broadcast_Outcomes.thy ===== *)
theory Broadcast_Outcomes
  imports Broadcast_Demo
begin

text \<open>
  What the outcome of a request tells about the tables: a calculus of atomic operations, and the
  effect of starting, ending, joining and leaving on the rows.
\<close>

section \<open>Atomic operations\<close>

text \<open>An error leaves the tables as they were; success has the stated effect.\<close>

definition atomic :: "(db \<Rightarrow> db \<Rightarrow> bool) \<Rightarrow> 'a svc \<Rightarrow> bool" where
  "atomic R m \<longleftrightarrow> (\<forall>w. case m w of (Inl err, w') \<Rightarrow> w_db w' = w_db w | (Inr v, w') \<Rightarrow> R (w_db w) (w_db w'))"

lemma atomicD: "atomic R m \<Longrightarrow> m w = (Inl err, w') \<Longrightarrow> w_db w' = w_db w"
  "atomic R m \<Longrightarrow> m w = (Inr v, w1) \<Longrightarrow> R (w_db w) (w_db w1)"
  unfolding atomic_def by (auto dest: spec [of _ w])

lemma atomic_case: "atomic R m \<Longrightarrow> case m w of (Inl err, w') \<Rightarrow> w_db w' = w_db w | (Inr v, w') \<Rightarrow> R (w_db w) (w_db w')"
  unfolding atomic_def by (rule spec)

text \<open>Steps that cannot fail.\<close>

definition unfailing :: "'a svc \<Rightarrow> bool" where
  "unfailing m \<longleftrightarrow> (\<forall>w. \<exists>v w'. m w = (Inr v, w'))"

lemma unfailing_steps [intro, simp]:
  "unfailing (svc_return x)" "unfailing (svc_modify f)" "unfailing (\<lambda>w. (Inr (g w), w))"
  by (auto simp: unfailing_def svc_return_def svc_modify_def)

lemma unfailing_bind: "unfailing m \<Longrightarrow> (\<And>x. unfailing (f x)) \<Longrightarrow> unfailing (svc_bind m f)"
  unfolding unfailing_def svc_bind_def by (metis (no_types, lifting) case_prod_conv sum.case(2))

lemma unfailing_effects [intro, simp]:
  "unfailing (spawn t)" "unfailing (invalidate b)" "unfailing (svc_call c)" "unfailing (svc_publish out)"
  "unfailing (push_fanout e job)" "unfailing (seed_room e b u)" "unfailing (enter_room e u b)" "unfailing (exit_room e u b)"
  by (auto intro!: unfailing_bind simp: spawn_def invalidate_def svc_call_def svc_publish_def push_fanout_def
      seed_room_def enter_room_def exit_room_def)

lemma atomic_after:
  assumes "tells m F" and "quiet m" and "\<And>x. atomic (\<lambda>d d'. F x d \<longrightarrow> R d d') (f x)"
  shows "atomic R (svc_bind m f)"
  unfolding atomic_def
proof
  fix w :: world
  obtain s w1 where m: "m w = (s, w1)" by fastforce
  note q = quietD [OF assms(2) m]
  show "case svc_bind m f w of (Inl err, w') \<Rightarrow> w_db w' = w_db w | (Inr v, w') \<Rightarrow> R (w_db w) (w_db w')"
  proof (cases s)
    case (Inl err)
    with m q show ?thesis by (simp add: svc_bind_def)
  next
    case (Inr x)
    with assms(1) m have "F x (w_db w)" unfolding tells_def by blast
    with Inr m q atomicD [OF assms(3), where w = w1] show ?thesis
      by (cases "f x w1") (auto simp: svc_bind_def split: sum.splits)
  qed
qed

lemma atomic_here:
  assumes "\<And>d err d'. act d = (Inl err, d') \<Longrightarrow> d' = d" and "\<And>d v d'. act d = (Inr v, d') \<Longrightarrow> R d d'"
    and "\<And>x. quiet (f x)" and "\<And>x. unfailing (f x)"
  shows "atomic R (svc_bind (svc_write act) f)"
  unfolding atomic_def
proof
  fix w :: world
  obtain s d where a: "act (w_db w) = (s, d)" by fastforce
  show "case svc_bind (svc_write act) f w of (Inl err, w') \<Rightarrow> w_db w' = w_db w | (Inr v, w') \<Rightarrow> R (w_db w) (w_db w')"
  proof (cases s)
    case (Inl err)
    with a assms(1) [of "w_db w"] show ?thesis by (simp add: svc_bind_def svc_write_def)
  next
    case (Inr x)
    from assms(4) obtain v w' where f: "f x (w\<lparr>w_db := d\<rparr>) = (Inr v, w')" unfolding unfailing_def by blast
    with Inr a quietD [OF assms(3) f] assms(2) [of "w_db w"] show ?thesis
      by (simp add: svc_bind_def svc_write_def)
  qed
qed

lemma atomic_return: "(\<And>d. R d d) \<Longrightarrow> atomic R (svc_return x)"
  by (simp add: atomic_def svc_return_def)

lemma atomic_if: "(p \<Longrightarrow> atomic R m) \<Longrightarrow> (\<not> p \<Longrightarrow> atomic R n) \<Longrightarrow> atomic R (if p then m else n)"
  by simp

lemma tx_rolls_back: "in_tx e body d = (Inl err, d') \<Longrightarrow> d' = d"
  by (rule in_tx_Inl)

lemmas svc_atomic =
  atomic_after [OF tells_steps(3) quiet_steps(3)] atomic_after [OF tells_steps(4) quiet_steps(4)]
  atomic_after [OF tells_steps(5) quiet_steps(5)] atomic_after [OF tells_steps(2) quiet_steps(2)]
  atomic_after [OF tells_quiet [OF quiet_reads(3)] quiet_reads(3)] atomic_if atomic_return atomic_here

lemma in_tx_ok: "in_tx e body d = (Inr v, d') \<Longrightarrow> (body d = (Inr v, d') \<Longrightarrow> P) \<Longrightarrow> P"
  using in_tx_Inr by metis

lemma end_atomic: "atomic (ended e i u) (broadcast_end e i u)"
  unfolding broadcast_end_def Let_def
  by (intro svc_atomic; (erule in_tx_Inl | erule in_tx_ok)?)
    (fastforce intro!: quiet_bind unfailing_bind simp: then_do_Inr ended_def guards repo_find_by_id_or_error_def bind_res_Inr)+

lemma update_atomic: "atomic (updated e req i u) (broadcast_update e req i u)"
  unfolding broadcast_update_def Let_def update_input_def [symmetric]
  by (intro svc_atomic; (erule in_tx_Inl | erule in_tx_ok)?)
    (fastforce intro!: quiet_bind unfailing_bind simp: then_do_Inr updated_def guards split: if_splits)+

lemma remove_rolls_back: "repo_remove_participant e b u d = (Inl err, d') \<Longrightarrow> d' = d"
  by (auto simp: repo_remove_participant_def dest: exec_Inl)

lemma delete_rolls_back: "repo_delete e b d = (Inl err, d') \<Longrightarrow> d' = d"
  by (auto simp: repo_delete_def dest: exec_Inl)

lemma delete_atomic: "atomic (deleted e i u) (broadcast_delete e i u)"
  unfolding broadcast_delete_def Let_def
  by (intro svc_atomic)
    (auto simp: deleted_def guards dest: delete_rolls_back live_row_SomeD)

lemma leave_atomic: "atomic (\<lambda>d d'. d' = d \<or> left e i u d d') (broadcast_leave e i u)"
  unfolding broadcast_leave_def Let_def
  by (intro svc_atomic) (auto intro!: quiet_bind unfailing_bind simp: left_def dest: remove_rolls_back)

lemma add_cohost_atomic: "atomic (promoted e i u x) (broadcast_add_cohost e i u x)"
  unfolding broadcast_add_cohost_def Let_def
  apply (intro svc_atomic)
  apply (rule atomic_after [OF tells_quiet])
    apply (simp add: quiet_def svc_refuse_def)
   apply (simp add: quiet_def svc_refuse_def)
  apply (intro svc_atomic; (erule in_tx_Inl | erule in_tx_ok)?)
     apply (fastforce intro!: quiet_bind unfailing_bind simp: then_do_Inr promoted_def guards)+
  done

section \<open>Rows after a change\<close>

lemma live_row_update:
  assumes "\<And>b. b_id (f b) = b_id b" and "\<And>b. b_deleted_at (f b) = b_deleted_at b"
  shows "live_row (update_broadcast e i f d) j =
     (if j = i then map_option (\<lambda>b. (f b)\<lparr>b_updated_at := re_db_now e\<rparr>) (live_row d i) else live_row d j)"
proof -
  have "find (\<lambda>b. b_id b = j \<and> b_deleted_at b = None)
      (map (\<lambda>b. if b_id b = i then (f b)\<lparr>b_updated_at := re_db_now e\<rparr> else b) bs) =
    (if j = i then map_option (\<lambda>b. (f b)\<lparr>b_updated_at := re_db_now e\<rparr>) (find (\<lambda>b. b_id b = i \<and> b_deleted_at b = None) bs)
     else find (\<lambda>b. b_id b = j \<and> b_deleted_at b = None) bs)" for bs
    using assms by (induction bs) auto
  then show ?thesis by (simp add: live_row_def update_broadcast_def)
qed

lemma live_row_bump: "live_row (bump_total e i n d) j =
     (if j = i then map_option (\<lambda>r. r\<lparr>b_total_participants := map_option (\<lambda>k. k + n) (b_total_participants r),
        b_updated_at := re_db_now e\<rparr>) (live_row d i) else live_row d j)"
  unfolding bump_total_def by (subst live_row_update) simp_all

lemma live_row_same [simp]: "live_row (d\<lparr>d_participants := ps\<rparr>) j = live_row d j" "live_row (d\<lparr>d_cohosts := cs\<rparr>) j = live_row d j"
  by (simp_all add: live_row_def)

lemma live_row_bump_other: "j \<noteq> i \<Longrightarrow> live_row (bump_total e i n d) j = live_row d j"
  by (simp add: live_row_bump)

text \<open>A write to the participants changes at most the counter and the update instant of a row.\<close>

definition same_show :: "broadcast \<Rightarrow> broadcast \<Rightarrow> bool" where
  "same_show r r' \<longleftrightarrow> r'\<lparr>b_total_participants := b_total_participants r, b_updated_at := b_updated_at r\<rparr> = r"

lemma same_show_refl [simp]: "same_show r r"
  by (simp add: same_show_def)

lemma same_show_fields:
  assumes "same_show r r'"
  shows "b_status r' = b_status r" "b_creator_id r' = b_creator_id r" "b_start_time r' = b_start_time r"
    "b_end_time r' = b_end_time r" "b_broadcast_token r' = b_broadcast_token r" "b_id r' = b_id r"
    "b_deleted_at r' = b_deleted_at r" "b_end_reason r' = b_end_reason r"
  using assms unfolding same_show_def by (cases r; cases r'; simp)+

lemma upsert_live_row:
  assumes "repo_upsert_participant e inp d = (Inr x, d')" and "live_row d j = Some r"
  shows "\<exists>r'. live_row d' j = Some r' \<and> same_show r r'"
  using exec_cases [OF assms(1) [unfolded repo_upsert_participant_def Let_def]] assms(2)
  by (auto simp: live_row_bump same_show_def split: option.splits if_splits)

lemma remove_live_row:
  assumes "repo_remove_participant e i v d = (Inr x, d')" and "live_row d j = Some r"
  shows "\<exists>r'. live_row d' j = Some r' \<and> same_show r r'"
  using exec_cases [OF assms(1) [unfolded repo_remove_participant_def]] assms(2)
  by (auto simp: live_row_bump same_show_def split: option.splits)

lemma upsert_live_other:
  assumes "repo_upsert_participant e inp d = (Inr x, d')" and "j \<noteq> pi_broadcast_id inp"
  shows "live_row d' j = live_row d j"
  using exec_cases [OF assms(1) [unfolded repo_upsert_participant_def Let_def]] assms(2)
  by (auto simp: live_row_bump split: option.splits if_splits)

lemma live_row_is_row: "repo_inv d \<Longrightarrow> live_row d i = Some r \<Longrightarrow> broadcast_row d i = Some r"
  using live_row_SomeD [of d i r] find_distinct [of b_id "d_broadcasts d" r]
  by (auto simp: repo_inv_def broadcast_row_def)

lemma set_active_row:
  assumes "repo_inv d" and "live_row d i = Some r"
    and "repo_set_active e \<lparr>si_broadcast_id = i, si_broadcast_token = tk, si_start_time = t\<rparr> d = (Inr b, d')"
  shows "b = r\<lparr>b_status := Active, b_broadcast_token := Some tk, b_start_time := Some t, b_updated_at := re_db_now e\<rparr>"
    "live_row d' j = (if j = i then Some b else live_row d j)"
proof -
  let ?f = "\<lambda>b. b\<lparr>b_status := Active, b_broadcast_token := Some tk, b_start_time := Some t\<rparr>"
  have d': "d' = update_broadcast e i ?f d" and b: "broadcast_row d' i = Some b"
    using assms(3) unfolding repo_set_active_def by (auto dest!: exec_cases simp: returning_ok)
  then show 1: "b = r\<lparr>b_status := Active, b_broadcast_token := Some tk, b_start_time := Some t, b_updated_at := re_db_now e\<rparr>"
    using live_row_is_row [OF assms(1,2)] by (simp add: broadcast_row_update)
  show "live_row d' j = (if j = i then Some b else live_row d j)"
    unfolding d' by (subst live_row_update) (use assms(2) 1 in simp_all)
qed

lemma set_inactive_row:
  assumes "repo_set_inactive e i reason d = (Inr x, d')"
  shows "live_row d' j = (if j = i then map_option (\<lambda>b. b\<lparr>b_status := Inactive, b_end_time := Some (re_db_now e),
      b_end_reason := reason, b_updated_at := re_db_now e\<rparr>) (live_row d i) else live_row d j)"
proof -
  have "d' = update_broadcast e i (\<lambda>b. b\<lparr>b_status := Inactive, b_end_time := Some (re_db_now e), b_end_reason := reason\<rparr>) d"
    using exec_cases [OF assms [unfolded repo_set_inactive_def]] by simp
  then show ?thesis by (simp add: live_row_update)
qed

section \<open>The operations from inside\<close>

lemma effects_ok [svc_ok]:
  "spawn t w = (Inr x, w') \<longleftrightarrow> w' = w\<lparr>w_tasks := w_tasks w @ [t]\<rparr>"
  "invalidate b w = (Inr x, w') \<longleftrightarrow> w' = w\<lparr>w_tasks := w_tasks w @ [InvalidateLists, InvalidateBroadcast b]\<rparr>"
  "push_fanout e job w = (Inr x, w') \<longleftrightarrow> w' = w\<lparr>w_jobs := w_jobs w @ (if se_job_ok e then [job] else [])\<rparr>"
  "seed_room e b u w = (Inr x, w') \<longleftrightarrow>
     w' = w\<lparr>w_keys := snd (init_room (se_codec e) (se_redis e) b [u] (w_keys w))\<rparr>"
  by (auto simp: spawn_def invalidate_def push_fanout_def seed_room_def svc_modify_def svc_bind_def)

lemma store_ok [svc_ok]:
  "svc_write act w = (Inr v, w') \<longleftrightarrow> (\<exists>d. act (w_db w) = (Inr v, d) \<and> w' = w\<lparr>w_db := d\<rparr>)"
  "svc_room f w = (Inr u, w') \<longleftrightarrow>
     (\<exists>calls b. f (w_breaker w) = (Inr u, calls, b) \<and> w' = w\<lparr>w_calls := w_calls w @ calls, w_breaker := b\<rparr>)"
  by (auto simp: svc_write_def svc_room_def split: prod.splits)

lemma in_tx_then:
  assumes "in_tx e (then_do m f) d = (Inr v, d')"
  obtains x d1 where "m d = (Inr x, d1)" "f x d1 = (Inr v, d')"
  using in_tx_Inr [OF assms] by (auto simp: then_do_Inr)

text \<open>What a successful start went through.\<close>

lemma start_ok:
  assumes "broadcast_start e i u w = (Inr s, w')"
  obtains r b d1 where "live_row (w_db w) i = Some r" "b_creator_id r = u" "b_status r = Inactive"
    "repo_set_active (se_repo e) \<lparr>si_broadcast_id = i, si_broadcast_token = bs_token s, si_start_time = se_now e\<rparr> (w_db w)
       = (Inr b, d1)"
    "repo_upsert_participant (se_repo e)
       \<lparr>pi_broadcast_id = i, pi_participant_id = u, pi_role = Host, pi_joined_at = se_now e\<rparr> d1 = (Inr (), w_db w')"
    "\<exists>creator cohosts ctx. bs_broadcast s = build_response (se_later e) b creator cohosts ctx \<and> \<not> cx_is_reconnecting ctx"
    "AfterStart i (se_now e) (bs_broadcast s) \<in> set (w_tasks w')"
proof -
  from assms show ?thesis
    unfolding broadcast_start_def Let_def svc_ok
    apply (clarsimp simp: then_do_Inr repo_find_by_id_def dest!: in_tx_Inr)
    apply (drule find_user_id)
    apply (rule that, assumption)
         apply (auto simp: broadcast_context_default_def intro: broadcast_status.exhaust)
    apply (intro exI conjI, rule refl, simp)
    done
qed


lemma end_ok:
  assumes "broadcast_end e i u w = (Inr resp, w')"
  obtains r ids d1 where "live_row (w_db w) i = Some r" "b_creator_id r = u" "b_status r = Active"
    "repo_get_participant_ids_and_clear (se_repo e) i (w_db w) = (Inr ids, d1)"
    "repo_set_inactive (se_repo e) i Normal d1 = (Inr (), w_db w')"
    "eb_total_participants resp = int (length ids)"
    "eb_duration_secs resp = (case b_start_time r of Some st \<Rightarrow> secs_between st (se_now e) | None \<Rightarrow> 0)"
    "set (w_tasks w') = set (w_tasks w) \<union> {InvalidateLists, InvalidateBroadcast i, AfterEnd i}"
proof -
  from assms show ?thesis
    unfolding broadcast_end_def Let_def svc_ok
    apply (clarsimp simp: then_do_Inr repo_find_by_id_def repo_find_by_id_or_error_def bind_res_Inr dest!: in_tx_Inr)
    apply (rule that, assumption)
          apply auto
    done
qed

lemma join_ok:
  assumes "broadcast_join e i u w = (Inr s, w')"
  obtains r where "live_row (w_db w) i = Some r" "b_creator_id r \<noteq> u" "b_status r = Active"
    "\<And>p. p \<in> set (d_participants (w_db w)) \<Longrightarrow> p_participant_id p = u \<Longrightarrow> p_left_at p \<noteq> None"
    "repo_upsert_participant (se_repo e) \<lparr>pi_broadcast_id = i, pi_participant_id = u,
       pi_role = (if cohost_listed (w_db w) i u then Cohost else Participant), pi_joined_at = se_now e\<rparr> (w_db w)
       = (Inr (), w_db w')"
proof -
  have q: "quiet (enter_room e u b)" for b by simp
  from assms show ?thesis
    unfolding broadcast_join_def Let_def svc_ok
    apply (clarsimp simp: repo_find_by_id_def repo_is_cohost_def repo_find_active_participant_def svc_ok
        find_None_mem split: option.splits dest!: in_tx_Inr)
    apply (drule quietD [OF q])
    apply (drule quietD [OF quiet_reads(1)])
    apply (drule quietD [OF quiet_reads(2)])
    apply (rule that, assumption)
       apply auto
    done
qed

lemma leave_ok:
  assumes "broadcast_leave e i u w = (Inr l, w')" and "live_row (w_db w) i = Some r" and "b_status r = Active"
    and "participant_row (w_db w) i u = Some p" and "p_left_at p = None"
  shows "repo_remove_participant (se_repo e) i u (w_db w) = (Inr (), w_db w')"
proof -
  have q: "quiet (exit_room e u i)" by simp
  from assms show ?thesis
    unfolding broadcast_leave_def svc_ok
    by (auto simp: repo_find_by_id_def repo_find_participant_def is_active_def svc_ok dest: quietD [OF q])
qed

section \<open>When a start succeeds\<close>

lemma started_row:
  assumes "broadcast_start e i u w = (Inr s, w')" and "repo_inv (w_db w)"
  obtains b r where "live_row (w_db w') i = Some r" "same_show b r" "b_status b = Active" "b_creator_id b = u"
    "b_start_time b = Some (se_now e)" "b_broadcast_token b = Some (bs_token s)"
    "\<exists>creator cohosts ctx. bs_broadcast s = build_response (se_later e) b creator cohosts ctx \<and> \<not> cx_is_reconnecting ctx"
proof -
  from assms(1) obtain r b d1 where r: "live_row (w_db w) i = Some r" "b_creator_id r = u"
    and a: "repo_set_active (se_repo e)
        \<lparr>si_broadcast_id = i, si_broadcast_token = bs_token s, si_start_time = se_now e\<rparr> (w_db w) = (Inr b, d1)"
    and p: "repo_upsert_participant (se_repo e)
        \<lparr>pi_broadcast_id = i, pi_participant_id = u, pi_role = Host, pi_joined_at = se_now e\<rparr> d1 = (Inr (), w_db w')"
    and s: "\<exists>creator cohosts ctx. bs_broadcast s = build_response (se_later e) b creator cohosts ctx \<and>
        \<not> cx_is_reconnecting ctx"
    by (rule start_ok)
  note b = set_active_row [OF assms(2) r(1) a]
  from upsert_live_row [OF p, of i b] b(2) obtain r' where "live_row (w_db w') i = Some r'" "same_show b r'"
    by auto
  then show ?thesis using that r(2) b(1) s by auto
qed

lemma users_kept:
  "repo_upsert_participant e inp d = (Inr x, d') \<Longrightarrow> d_users d' = d_users d"
  "repo_set_active e sa d = (Inr b, d1) \<Longrightarrow> d_users d1 = d_users d"
  unfolding repo_upsert_participant_def repo_set_active_def Let_def
  by (auto dest!: exec_cases simp: returning_ok split: option.splits if_splits)

lemma upsert_succeeds:
  assumes "re_fault e SqlUpsertParticipant = None" and "broadcast_exists d (pi_broadcast_id inp)"
    and "user_exists d (pi_participant_id inp)"
  shows "\<exists>d'. repo_upsert_participant e inp d = (Inr (), d')"
  using assms by (cases "participant_row d (pi_broadcast_id inp) (pi_participant_id inp)")
    (simp_all add: repo_upsert_participant_def exec_def Let_def)

text \<open>An owner's start succeeds when the database, the media server and the signer answer.\<close>

lemma start_succeeds:
  assumes inv: "repo_inv (w_db w)" and r: "live_row (w_db w) i = Some r" "b_creator_id r = u" "b_status r = Inactive"
    and f: "\<forall>st. re_fault (se_repo e) st = None" "re_fault (se_repo_after e) SqlGetCohosts = None"
    and u: "summary_of (w_db w) u = Some c"
    and room: "create_room (se_codec e) (se_lk e) i (w_breaker w) = (Inr (), calls, cb)"
    and tk: "mint_host_token (se_codec e) (se_lk e) c i = Inr token"
  shows "\<exists>s w'. broadcast_start e i u w = (Inr s, w')"
proof -
  have c: "us_id c = u" using u by (auto simp: summary_of_def dest!: find_Some_mem)
  have ue: "user_exists (w_db w) u"
    using u by (auto simp: summary_of_def user_exists_def dest!: find_Some_mem)
  note br = live_row_is_row [OF inv r(1)]
  let ?d1 = "update_broadcast (se_repo e) i (\<lambda>b. b\<lparr>b_status := Active, b_broadcast_token := Some token,
      b_start_time := Some (se_now e)\<rparr>) (w_db w)"
  obtain b where a: "repo_set_active (se_repo e)
      \<lparr>si_broadcast_id = i, si_broadcast_token = token, si_start_time = se_now e\<rparr> (w_db w) = (Inr b, ?d1)"
    using f(1) br by (auto simp: repo_set_active_def exec_def returning_def broadcast_row_update)
  have "broadcast_exists (w_db w) i"
    using live_row_SomeD [OF r(1)] by (auto simp: broadcast_exists_def)
  then have "broadcast_exists ?d1 i" "user_exists ?d1 u"
    using ue user_exists_cong [of ?d1 "w_db w" u] by (simp_all add: broadcast_exists_update)
  then obtain d2 where p: "repo_upsert_participant (se_repo e)
        \<lparr>pi_broadcast_id = i, pi_participant_id = u, pi_role = Host, pi_joined_at = se_now e\<rparr> ?d1 = (Inr (), d2)"
    using f(1) upsert_succeeds [where e = "se_repo e" and d = ?d1
        and inp = "\<lparr>pi_broadcast_id = i, pi_participant_id = u, pi_role = Host, pi_joined_at = se_now e\<rparr>"] by auto
  show ?thesis
    using r f u room tk c a p
    by (simp add: broadcast_start_def svc_bind_def svc_find_def svc_refuse_def svc_room_def svc_lift_def svc_write_def
        svc_read_def bind_res_def ok_or_def invalidate_def spawn_def svc_modify_def seed_room_def push_fanout_def
        repo_get_cohosts_def repo_find_by_id_def repo_find_user_summary_def sql_def access_def in_tx_def then_do_def
        svc_return_def Let_def)
qed

lemma refresh_succeeds:
  assumes "live_row (w_db w) i = Some r" "b_creator_id r = u" "b_status r = Active"
    and "\<forall>st. re_fault (se_repo e) st = None" and "summary_of (w_db w) u = Some c"
    and "\<forall>claims. lk_sign (se_lk e) claims = Inr token"
  shows "broadcast_refresh_token e i u w = (Inr \<lparr>rt_broadcast_id = i, rt_token = token,
     rt_expires_at = se_later e + 21600000000000\<rparr>, w)"
  using assms
  by (simp add: broadcast_refresh_token_def svc_bind_def svc_find_def svc_refuse_def svc_lift_def svc_return_def
      bind_res_def ok_or_def repo_find_by_id_def repo_find_user_summary_def sql_def access_def is_active_def
      mint_token_with_attributes_def Let_def)

section \<open>The demo run\<close>

lemma demo_db_of_created:
  "w_db demo_created = demo_db\<lparr>d_broadcasts := [new_broadcast demo_repo demo_create]\<rparr> \<and> w_breaker demo_created = livekit_new"
  by code_simp

lemma demo_created_row: "live_row (w_db demo_created) 7 = Some (new_broadcast demo_repo demo_create)"
  by (simp add: demo_db_of_created live_row_def new_broadcast_def demo_repo_def)

lemma demo_created_inv: "repo_inv (w_db demo_created)"
  by (simp add: demo_db_of_created demo_db_def repo_inv_def total_ok_def count_of_def user_exists_def demo_user_def
      new_broadcast_def demo_create_def demo_repo_def)

lemma demo_no_fault: "\<forall>st. re_fault (se_repo demo_env) st = None" "re_fault (se_repo_after demo_env) st = None"
  by (simp_all add: demo_env_def demo_repo_def)

lemma demo_room: "create_room (se_codec demo_env) (se_lk demo_env) 7 livekit_new =
    (Inr (), fst (snd (create_room (se_codec demo_env) (se_lk demo_env) 7 livekit_new)),
     snd (snd (create_room (se_codec demo_env) (se_lk demo_env) 7 livekit_new)))"
  by code_simp

lemma demo_sign: "lk_sign (se_lk demo_env) claims = Inr ''jwt''"
  by (simp add: demo_env_def demo_lk_def)

lemma demo_start_ok: "\<exists>s. broadcast_start demo_env 7 1 demo_created = (Inr s, demo_started)"
proof -
  have "\<exists>s w'. broadcast_start demo_env 7 1 demo_created = (Inr s, w')"
  proof (rule start_succeeds [OF demo_created_inv demo_created_row _ _ demo_no_fault])
    show "summary_of (w_db demo_created) 1 = Some (u_summary (demo_user 1 ''ann''))"
      by (simp add: demo_db_of_created demo_db_def summary_of_def demo_user_def)
    show "create_room (se_codec demo_env) (se_lk demo_env) 7 (w_breaker demo_created) =
        (Inr (), fst (snd (create_room (se_codec demo_env) (se_lk demo_env) 7 livekit_new)),
         snd (snd (create_room (se_codec demo_env) (se_lk demo_env) 7 livekit_new)))"
      unfolding demo_db_of_created [THEN conjunct2] by (rule demo_room)
  qed (simp_all add: new_broadcast_def demo_create_def mint_host_token_def mint_token_def Let_def demo_sign)
  then show ?thesis unfolding demo_started_def by (metis snd_conv)
qed

lemma demo_started_row: "\<exists>r. live_row (w_db demo_started) 7 = Some r \<and> b_creator_id r = 1 \<and> b_status r = Active"
proof -
  from demo_start_ok obtain s where "broadcast_start demo_env 7 1 demo_created = (Inr s, demo_started)" ..
  from started_row [OF this demo_created_inv] show ?thesis by (metis same_show_fields(1,2))
qed

lemma demo_refresh: "broadcast_refresh_token demo_env 7 1 demo_started =
    (Inr \<lparr>rt_broadcast_id = 7, rt_token = ''jwt'', rt_expires_at = 21605000000001\<rparr>, demo_started)"
proof -
  from demo_start_ok obtain s where s: "broadcast_start demo_env 7 1 demo_created = (Inr s, demo_started)" ..
  have u: "summary_of (w_db demo_started) 1 = Some (u_summary (demo_user 1 ''ann''))"
    using s
  proof (rule start_ok)
    fix b d1
    assume "repo_set_active (se_repo demo_env)
        \<lparr>si_broadcast_id = 7, si_broadcast_token = bs_token s, si_start_time = se_now demo_env\<rparr> (w_db demo_created) = (Inr b, d1)"
      and "repo_upsert_participant (se_repo demo_env)
        \<lparr>pi_broadcast_id = 7, pi_participant_id = 1, pi_role = Host, pi_joined_at = se_now demo_env\<rparr> d1 = (Inr (), w_db demo_started)"
    from users_kept(1) [OF this(2)] users_kept(2) [OF this(1)] show ?thesis
      by (simp add: demo_db_of_created demo_db_def summary_of_def demo_user_def)
  qed
  from demo_started_row obtain r where "live_row (w_db demo_started) 7 = Some r" "b_creator_id r = 1" "b_status r = Active"
    by blast
  from refresh_succeeds [OF this demo_no_fault(1) u, of "''jwt''"] show ?thesis
    by (simp add: demo_sign) (simp add: demo_env_def)
qed

end
