(* ===== verification/Broadcast_Properties.thy ===== *)
theory Broadcast_Properties
  imports Broadcast_Outcomes
begin

text \<open>
  What the broadcast service promises across its parts: who can change a broadcast, what a failed
  request leaves behind, what starting, ending, joining and leaving do, and who may publish.
\<close>

section \<open>Authority\<close>

text \<open>C5. Only its creator changes a broadcast: for anybody else, in any environment, updating, deleting,
  starting and ending it and adding or removing its cohosts leave every table as it is.
\<close>

theorem only_creator_changes:
  assumes "live_row (w_db w) i = Some r" and "b_creator_id r \<noteq> u"
  shows "w_db (snd (broadcast_update e upd i u w)) = w_db w \<and> w_db (snd (broadcast_delete e i u w)) = w_db w \<and>
     w_db (snd (broadcast_start e i u w)) = w_db w \<and> w_db (snd (broadcast_end e i u w)) = w_db w \<and>
     w_db (snd (broadcast_add_cohost e i u x w)) = w_db w \<and>
     w_db (snd (broadcast_remove_cohost e i x u out w)) = w_db w"
proof -
  have n: "\<not> owned (w_db w) i u running" for running
    using assms by (simp add: owned_def)
  show ?thesis
    using n writes_db [OF update_writes [of e upd i u], of w] writes_db [OF delete_writes [of e i u], of w]
      writes_db [OF start_writes [of e i u], of w] writes_db [OF end_writes [of e i u], of w]
      writes_db [OF add_cohost_writes [of e i u x], of w] writes_db [OF remove_cohost_writes [of e i u x out], of w]
    by (simp add: updated_def deleted_def started_def ended_def promoted_def demoted_def)
qed

theorem only_creator_changes_witness:
  "w_db (snd (broadcast_start demo_env 7 2 demo_created)) = w_db demo_created"
  using only_creator_changes [OF demo_created_row, where u = 2 and e = demo_env]
  by (simp add: new_broadcast_def demo_create_def)

lemma refresh_claims:
  assumes "broadcast_refresh_token e i u w = (Inr resp, w')" and "roles_justified (w_db w)"
  shows "\<exists>role lr name attrs. livekit_role_try_from role = Inr lr \<and>
     lk_sign (se_lk e) \<lparr>tc_identity = uuid_show (se_codec e) u, tc_name = name,
        tc_grants = get_grant lr (uuid_show (se_codec e) i), tc_attributes = attrs, tc_ttl_secs = LIVEKIT_ACCESS_TOKEN_TTL\<rparr>
       = Inr (rt_token resp) \<and>
     (role = Host \<longrightarrow> hosted (w_db w) i u) \<and> (role = Cohost \<longrightarrow> cohost_listed (w_db w) i u)"
proof -
  from assms(1) obtain b role lr and user :: user_summary where b: "live_row (w_db w) i = Some b"
    and role: "(b_creator_id b = u \<and> role = Host) \<or> b_creator_id b \<noteq> u \<and>
        (\<exists>p. participant_row (w_db w) i u = Some p \<and> role = p_role p)"
    and lr: "livekit_role_try_from role = Inr lr"
    and tk: "mint_token_with_attributes (se_codec e) (se_lk e) u (us_full_name user) i lr
       [(''meno_role'', role_to_string role), (''meno_broadcast_id'', uuid_show (se_codec e) i)] = Inr (rt_token resp)"
    unfolding broadcast_refresh_token_def svc_ok if_distrib [of "\<lambda>m. m _ = _"]
    by (cases "b_creator_id b = u")
      (fastforce simp: svc_ok repo_find_by_id_def repo_find_participant_def current_role_def
        split: if_splits option.splits)+
  have "(role = Host \<longrightarrow> hosted (w_db w) i u) \<and> (role = Cohost \<longrightarrow> cohost_listed (w_db w) i u)"
    using role assms(2) live_row_SomeD [OF b] by (auto simp: roles_justified_def hosted_def)
  with lr tk show ?thesis
    unfolding mint_token_with_attributes_def Let_def by blast
qed


lemma demo_steps: "svc_step\<^sup>*\<^sup>* demo_world demo_started"
proof -
  have "svc_step demo_world demo_created" unfolding demo_created_def by (rule svc_step.create [OF prod.collapse [symmetric]])
  moreover have "svc_step demo_created demo_started"
    unfolding demo_started_def by (rule svc_step.start [OF prod.collapse [symmetric]])
  ultimately show ?thesis by (meson converse_rtranclp_into_rtranclp rtranclp.rtrancl_refl)
qed


section \<open>Well-formed rows\<close>

text \<open>C9. Every broadcast row the service can reach from empty tables is well-formed: one that is running has a
  start time and its token and is not deleted, its creator is a user, and its counter of participants,
  when the database keeps one, is the number of its participant rows.
\<close>

theorem running_is_well_formed:
  assumes "svc_step\<^sup>*\<^sup>* w0 w" and "repo_inv (w_db w0)"
    and "d_participants (w_db w0) = []" and "d_broadcasts (w_db w0) = []"
    and "r \<in> set (d_broadcasts (w_db w))"
  shows "(b_status r = Inactive \<or> b_start_time r \<noteq> None \<and> b_broadcast_token r \<noteq> None \<and> b_deleted_at r = None) \<and>
    user_exists (w_db w) (b_creator_id r) \<and> b_total_participants r \<in> {None, Some (count_of (w_db w) (b_id r))}"
proof -
  have "service_inv w" using service_inv_steps [OF assms(1) service_inv_empty [OF assms(2-4)]] .
  then show ?thesis
    using assms(5) by (cases "b_status r"; cases "b_total_participants r")
      (auto simp: service_inv_def rows_complete_def list_all_iff complete_def repo_inv_def total_ok_def)
qed

theorem running_is_well_formed_witness:
  "\<exists>r \<in> set (d_broadcasts (w_db demo_started)). user_exists (w_db demo_started) (b_creator_id r)"
proof -
  have i: "repo_inv (w_db demo_world)" "d_participants (w_db demo_world) = []" "d_broadcasts (w_db demo_world) = []"
    by (simp_all add: demo_world_def demo_db_inv) (simp_all add: demo_db_def)
  from demo_started_row live_row_SomeD obtain r where r: "r \<in> set (d_broadcasts (w_db demo_started))" by blast
  from running_is_well_formed [OF demo_steps i r] r show ?thesis by blast
qed

end
