(* ===== verification/Broadcast_Effects.thy ===== *)
theory Broadcast_Effects
  imports Broadcast_Properties
begin

text \<open>
  What a request to the broadcast service does when it succeeds and when it fails: the properties
  of starting, ending, changing, joining and leaving, and where the service does not keep them.
\<close>

section \<open>Errors\<close>

text \<open>C7. Updating, deleting, ending, leaving and adding a cohost are atomic: in any environment an error
  leaves every table as it was, and a success means that exactly the statements of the request have
  run, under its guards.
\<close>

theorem failed_operations_atomic:
  "(case broadcast_update e upd i u w of (Inl err, w') \<Rightarrow> w_db w' = w_db w | (Inr r, w') \<Rightarrow> updated e upd i u (w_db w) (w_db w')) \<and>
   (case broadcast_delete e i u w of (Inl err, w') \<Rightarrow> w_db w' = w_db w | (Inr _, w') \<Rightarrow> deleted e i u (w_db w) (w_db w')) \<and>
   (case broadcast_end e i u w of (Inl err, w') \<Rightarrow> w_db w' = w_db w | (Inr r, w') \<Rightarrow> ended e i u (w_db w) (w_db w')) \<and>
   (case broadcast_leave e i u w of (Inl err, w') \<Rightarrow> w_db w' = w_db w
     | (Inr r, w') \<Rightarrow> w_db w' = w_db w \<or> left e i u (w_db w) (w_db w')) \<and>
   (case broadcast_add_cohost e i u x w of (Inl err, w') \<Rightarrow> w_db w' = w_db w
     | (Inr r, w') \<Rightarrow> promoted e i u x (w_db w) (w_db w'))"
  by (intro conjI update_atomic [THEN atomic_case] delete_atomic [THEN atomic_case] end_atomic [THEN atomic_case]
      leave_atomic [THEN atomic_case] add_cohost_atomic [THEN atomic_case])

section \<open>Starting\<close>

lemma start_effect:
  assumes "broadcast_start e i u w = (Inr s, w')" and "repo_inv (w_db w)"
  shows "(\<exists>r p. live_row (w_db w') i = Some r \<and> b_status r = Active \<and> b_creator_id r = u \<and>
       b_start_time r = Some (se_now e) \<and> b_broadcast_token r = Some (bs_token s) \<and>
       participant_row (w_db w') i u = Some p \<and> p_role p = Host) \<and>
     br_state (bs_broadcast s) = Live \<and> AfterStart i (se_now e) (bs_broadcast s) \<in> set (w_tasks w') \<and>
     (\<forall>j. j = i \<or> live_row (w_db w') j = live_row (w_db w) j)"
proof -
  obtain b r where r: "live_row (w_db w') i = Some r" "same_show b r" "b_status b = Active" "b_creator_id b = u"
      "b_start_time b = Some (se_now e)" "b_broadcast_token b = Some (bs_token s)"
    and resp: "\<exists>creator cohosts ctx. bs_broadcast s = build_response (se_later e) b creator cohosts ctx \<and>
        \<not> cx_is_reconnecting ctx"
    by (rule started_row [OF assms])
  have live: "br_state (bs_broadcast s) = Live" using resp r(3) by (auto simp: build_response_def)
  from assms(1) obtain d1 where p: "repo_upsert_participant (se_repo e)
        \<lparr>pi_broadcast_id = i, pi_participant_id = u, pi_role = Host, pi_joined_at = se_now e\<rparr> d1 = (Inr (), w_db w')"
    and a: "\<And>j. j \<noteq> i \<Longrightarrow> live_row d1 j = live_row (w_db w) j"
    and t: "AfterStart i (se_now e) (bs_broadcast s) \<in> set (w_tasks w')"
    using set_active_row(2) [OF assms(2)] by (elim start_ok) auto
  have "\<exists>p. participant_row (w_db w') i u = Some p \<and> p_role p = Host"
    by (simp add: upsert_row [OF p] split: option.split)
  with r same_show_fields [OF r(2)] live t a upsert_live_other [OF p] show ?thesis by auto
qed

text \<open>Starting puts the broadcast on air: afterwards its row is running since this instant with the
  token just handed out, its creator is a host among the participants, the response says it is live,
  the follow-up task is queued, and no other broadcast's row has changed.
\<close>

theorem start_goes_live:
  assumes "broadcast_start e i u w = (Inr s, w')" and "repo_inv (w_db w)"
  shows "(\<exists>r p. live_row (w_db w') i = Some r \<and> b_status r = Active \<and> b_creator_id r = u \<and>
       b_start_time r = Some (se_now e) \<and> b_broadcast_token r = Some (bs_token s) \<and>
       participant_row (w_db w') i u = Some p \<and> p_role p = Host) \<and>
     br_state (bs_broadcast s) = Live \<and> AfterStart i (se_now e) (bs_broadcast s) \<in> set (w_tasks w') \<and>
     (\<forall>j. j = i \<or> live_row (w_db w') j = live_row (w_db w) j)"
  by (rule start_effect [OF assms])

theorem start_goes_live_witness: "\<exists>r. live_row (w_db demo_started) 7 = Some r \<and> b_status r = Active"
proof -
  from demo_start_ok obtain s where "broadcast_start demo_env 7 1 demo_created = (Inr s, demo_started)" ..
  from start_goes_live [OF this demo_created_inv] show ?thesis by blast
qed

section \<open>Ending\<close>

lemma end_effect:
  assumes "broadcast_end e i u w = (Inr resp, w')"
  shows "(\<exists>r. live_row (w_db w') i = Some r \<and> b_status r = Inactive \<and> b_end_reason r = Normal \<and>
       b_end_time r = Some (re_db_now (se_repo e))) \<and>
     (\<forall>p \<in> set (d_participants (w_db w')). p_broadcast_id p = i \<longrightarrow> p_left_at p \<noteq> None) \<and>
     eb_total_participants resp =
       int (length (filter (\<lambda>p. p_broadcast_id p = i \<and> p_left_at p = None) (d_participants (w_db w)))) \<and>
     AfterEnd i \<in> set (w_tasks w')"
proof -
  from assms obtain r ids d1 where r: "live_row (w_db w) i = Some r"
    and c: "repo_get_participant_ids_and_clear (se_repo e) i (w_db w) = (Inr ids, d1)"
    and s: "repo_set_inactive (se_repo e) i Normal d1 = (Inr (), w_db w')"
    and n: "eb_total_participants resp = int (length ids)"
    and t: "set (w_tasks w') = set (w_tasks w) \<union> {InvalidateLists, InvalidateBroadcast i, AfterEnd i}"
    by (rule end_ok)
  let ?f = "\<lambda>p. if p_broadcast_id p = i \<and> p_left_at p = None then p\<lparr>p_left_at := Some (re_db_now (se_repo e))\<rparr> else p"
  note c' = exec_cases [OF c [unfolded repo_get_participant_ids_and_clear_def Let_def], THEN conjunct2]
  have ids: "length ids = length (filter (\<lambda>p. p_broadcast_id p = i \<and> p_left_at p = None) (d_participants (w_db w)))"
    using c' by (metis (no_types, lifting) Pair_inject length_map length_sort sum.inject(2))
  have d1: "d1 = (w_db w)\<lparr>d_participants := map ?f (d_participants (w_db w))\<rparr>"
    using c' by simp
  have p: "d_participants (w_db w') = d_participants d1" using people_set_inactive [OF s] by (simp add: same_people_def)
  have "live_row d1 i = Some r" using r d1 by simp
  then have row: "\<exists>r. live_row (w_db w') i = Some r \<and> b_status r = Inactive \<and> b_end_reason r = Normal \<and>
      b_end_time r = Some (re_db_now (se_repo e))"
    by (simp add: set_inactive_row [OF s])
  have gone: "\<forall>p \<in> set (d_participants (w_db w')). p_broadcast_id p = i \<longrightarrow> p_left_at p \<noteq> None"
  proof
    fix q assume "q \<in> set (d_participants (w_db w'))"
    moreover have "d_participants (w_db w') = map ?f (d_participants (w_db w))" by (simp add: p d1)
    ultimately obtain q0 where "q = ?f q0" by (simp only: set_map) (erule imageE, blast)
    then show "p_broadcast_id q = i \<longrightarrow> p_left_at q \<noteq> None" by simp
  qed
  show ?thesis by (intro conjI row gone) (simp_all only: n ids t insertI1 insertI2 UnI2)
qed

text \<open>Ending takes the broadcast off air: its row is no longer running and has its end time and the
  normal end reason, nobody is present in it any more, the response counts exactly those who were, and
  the task that closes the room is queued.
\<close>

theorem end_clears:
  assumes "broadcast_end e i u w = (Inr resp, w')"
  shows "(\<exists>r. live_row (w_db w') i = Some r \<and> b_status r = Inactive \<and> b_end_reason r = Normal \<and>
       b_end_time r = Some (re_db_now (se_repo e))) \<and>
     (\<forall>p \<in> set (d_participants (w_db w')). p_broadcast_id p = i \<longrightarrow> p_left_at p \<noteq> None) \<and>
     eb_total_participants resp =
       int (length (filter (\<lambda>p. p_broadcast_id p = i \<and> p_left_at p = None) (d_participants (w_db w)))) \<and>
     AfterEnd i \<in> set (w_tasks w')"
  by (rule end_effect [OF assms])

lemma demo_now: "re_db_now (se_repo demo_env) = 100"
  by (simp add: demo_env_def demo_repo_def)

theorem end_clears_witness:
  "\<exists>r (w' :: world). live_row (w_db w') 7 = Some r \<and> b_status r = Inactive \<and> b_end_time r = Some 100"
proof -
  let ?w = "demo_live demo_row [demo_member 1 Host None]"
  let ?x = "broadcast_end demo_env 7 1 ?w"
  have "\<not> isl (fst ?x)" by code_simp
  from run_succeeds [OF this] obtain resp where "?x = (Inr resp, snd ?x)" ..
  from end_clears [OF this, THEN conjunct1] show ?thesis unfolding demo_now by blast
qed

text \<open>C8. A running broadcast can always be ended by its creator: as long as the database answers, the request
  succeeds, whatever Redis, the media server or the other requests before it have done.
\<close>

theorem creator_can_end:
  assumes "owned (w_db w) i u True" and "\<forall>st. re_fault (se_repo e) st = None"
  shows "\<exists>resp w'. broadcast_end e i u w = (Inr resp, w') \<and> \<not> owned (w_db w') i u True"
proof -
  from assms(1) obtain r where r: "live_row (w_db w) i = Some r" "b_creator_id r = u" "b_status r = Active"
    by (auto simp: owned_def is_active_def)
  obtain resp w' where ok: "broadcast_end e i u w = (Inr resp, w')"
    using r assms(2)
    by (auto simp: broadcast_end_def svc_bind_def svc_read_def svc_refuse_def svc_write_def repo_find_by_id_or_error_def
        repo_find_by_id_def bind_res_def ok_or_def Let_def in_tx_def then_do_def exec_def sql_def
        repo_get_participant_ids_and_clear_def repo_set_inactive_def invalidate_def spawn_def svc_modify_def
        split: sum.splits option.splits prod.splits)
  with end_effect [OF ok] show ?thesis by (auto simp: owned_def is_active_def)
qed

lemma demo_live_row: "live_row (w_db (demo_live r ps)) (b_id r) = (if b_deleted_at r = None then Some r else None)"
  by (simp add: live_row_def demo_live_def demo_world_def)

lemma demo_row_fields [simp]: "b_id demo_row = 7" "b_creator_id demo_row = 1" "b_status demo_row = Active"
  "b_deleted_at demo_row = None" "b_start_time demo_row = Some 4000000000" "b_end_time demo_row = None"
  by (simp_all add: demo_row_def new_broadcast_def demo_create_def demo_repo_def)

lemma demo_owned: "owned (w_db (demo_live demo_row ps)) 7 1 True"
  using demo_live_row [of demo_row ps] by (simp add: owned_def is_active_def)

theorem creator_can_end_witness:
  "\<exists>resp w'. broadcast_end demo_env 7 1 (demo_live demo_row []) = (Inr resp, w') \<and> \<not> owned (w_db w') 7 1 True"
  by (rule creator_can_end [OF demo_owned demo_no_fault(1)])

section \<open>Joining and leaving\<close>

text \<open>Joining and leaving again undoes the visit: a user who had no row, joins and leaves has none
  afterwards, every other participant's row and the list of cohosts are as before, and the broadcast
  is still running.
\<close>

theorem join_leave_restores:
  assumes "broadcast_join e i u w = (Inr s, w1)" and "broadcast_leave e' i u w1 = (Inr l, w2)"
    and "participant_row (w_db w) i u = None"
  shows "participant_row (w_db w2) b v = participant_row (w_db w) b v \<and> d_cohosts (w_db w2) = d_cohosts (w_db w) \<and>
    (\<exists>r. live_row (w_db w2) i = Some r \<and> b_status r = Active)"
proof -
  let ?x = "(if cohost_listed (w_db w) i u then Cohost else Participant, se_now e)"
  from assms(1) obtain r where r: "live_row (w_db w) i = Some r" "b_status r = Active"
    and up: "repo_upsert_participant (se_repo e) \<lparr>pi_broadcast_id = i, pi_participant_id = u,
       pi_role = (if cohost_listed (w_db w) i u then Cohost else Participant), pi_joined_at = se_now e\<rparr> (w_db w)
       = (Inr (), w_db w1)"
    by (rule join_ok)
  from upsert_live_row [OF up r(1)] r(2) obtain r1 where r1: "live_row (w_db w1) i = Some r1" "b_status r1 = Active"
    using same_show_fields by metis
  from up assms(3) obtain p where p: "participant_row (w_db w1) i u = Some p" "p_left_at p = None"
    by (simp add: upsert_row [OF up])
  note rm = leave_ok [OF assms(2) r1 p]
  have "participant_row (w_db w2) (fst (b, v)) (snd (b, v)) = participant_row (w_db w) (fst (b, v)) (snd (b, v))"
  proof (rule participants.upsert_then_remove [where k = "(i, u)"])
    show "participant_row (w_db w) (fst (i, u)) (snd (i, u)) = None" using assms(3) by simp
    show "done_db (repo_upsert_participant (se_repo e) (upsert_input (i, u) ?x) (w_db w)) = Some (w_db w1)"
      using up by (simp add: done_db_Some upsert_input_def)
    show "done_db (repo_remove_participant (se_repo e') (fst (i, u)) (snd (i, u)) (w_db w1)) = Some (w_db w2)"
      using rm by (simp add: done_db_Some)
  qed
  moreover have "d_cohosts (w_db w2) = d_cohosts (w_db w)"
    by (simp add: upsert_frame(1) [OF up] remove_frame(1) [OF rm])
  moreover have "\<exists>r. live_row (w_db w2) i = Some r \<and> b_status r = Active"
    using remove_live_row [OF rm r1(1)] r1(2) same_show_fields by metis
  ultimately show ?thesis by simp
qed

definition demo_joined :: world where
  "demo_joined = demo_live demo_row [demo_member 2 Participant None, demo_member 1 Host None]"

lemma demo_join_runs: "\<exists>s. broadcast_join demo_env 7 2 (demo_live demo_row ps) =
    (Inr s, snd (broadcast_join demo_env 7 2 (demo_live demo_row ps)))"
  if "ps = [demo_member 1 Host None] \<or> ps = [demo_member 2 Participant (Some 4), demo_member 1 Host None]"
proof -
  have "\<not> isl (fst (broadcast_join demo_env 7 2 (demo_live demo_row [demo_member 1 Host None])))" by code_simp
  moreover have "\<not> isl (fst (broadcast_join demo_env 7 2 (demo_live demo_row
      [demo_member 2 Participant (Some 4), demo_member 1 Host None])))" by code_simp
  ultimately show ?thesis using that run_succeeds by blast
qed

theorem join_leave_restores_witness:
  "\<exists>s w1 l w2. broadcast_join demo_env 7 2 (demo_live demo_row [demo_member 1 Host None]) = (Inr s, w1) \<and>
     broadcast_leave demo_env 7 2 w1 = (Inr l, w2) \<and> participant_row (w_db w2) 7 2 = None"
proof -
  let ?w = "demo_live demo_row [demo_member 1 Host None]"
  obtain s where j: "broadcast_join demo_env 7 2 ?w = (Inr s, snd (broadcast_join demo_env 7 2 ?w))"
    using demo_join_runs [of "[demo_member 1 Host None]"] by auto
  have "\<not> isl (fst (broadcast_leave demo_env 7 2 (snd (broadcast_join demo_env 7 2 ?w))))" by code_simp
  from run_succeeds [OF this] obtain l where
    l: "broadcast_leave demo_env 7 2 (snd (broadcast_join demo_env 7 2 ?w)) =
      (Inr l, snd (broadcast_leave demo_env 7 2 (snd (broadcast_join demo_env 7 2 ?w))))" ..
  have n: "participant_row (w_db ?w) 7 2 = None" by code_simp
  have "participant_row (w_db (snd (broadcast_leave demo_env 7 2 (snd (broadcast_join demo_env 7 2 ?w))))) 7 2 = None"
    using join_leave_restores [OF j l n, THEN conjunct1, of 7 2] n by (rule trans)
  with j l show ?thesis by blast
qed

text \<open>Who comes back to a restarted broadcast is not seen: ending it marks everyone as having left, and
  the join that later succeeds changes role and instant of the old row but keeps the mark, so the
  user who has just joined is refused a new token as no participant and is on no list of the present.
\<close>

theorem rejoin_not_recognised:
  assumes "broadcast_join e i u w = (Inr s, w1)"
    and "participant_row (w_db w) i u = Some p" and "p_left_at p \<noteq> None"
    and "\<forall>st. re_fault (se_repo e') st = None"
  shows "(fst (broadcast_refresh_token e' i u w1) = Inl NotParticipant \<or> summary_of (w_db w1) u = None) \<and>
    (\<exists>q. participant_row (w_db w1) i u = Some q \<and> p_left_at q = p_left_at p \<and> p_joined_at q = se_now e)"
proof
  from assms(1) obtain r where r: "live_row (w_db w) i = Some r" "b_status r = Active" "b_creator_id r \<noteq> u"
    and up: "repo_upsert_participant (se_repo e) \<lparr>pi_broadcast_id = i, pi_participant_id = u,
       pi_role = (if cohost_listed (w_db w) i u then Cohost else Participant), pi_joined_at = se_now e\<rparr> (w_db w)
       = (Inr (), w_db w1)"
    by (rule join_ok)
  from upsert_row [OF up, of i u] assms(2) obtain q where
    q: "participant_row (w_db w1) i u = Some q" "p_left_at q = p_left_at p" "p_joined_at q = se_now e" by simp
  then show "\<exists>q. participant_row (w_db w1) i u = Some q \<and> p_left_at q = p_left_at p \<and> p_joined_at q = se_now e" by blast
  from upsert_live_row [OF up r(1)] r obtain r1 where
    r1: "live_row (w_db w1) i = Some r1" "b_status r1 = Active" "b_creator_id r1 \<noteq> u"
    using same_show_fields by metis
  show "fst (broadcast_refresh_token e' i u w1) = Inl NotParticipant \<or> summary_of (w_db w1) u = None"
    using r1 q assms(3,4)
    by (cases "summary_of (w_db w1) u")
      (auto simp: broadcast_refresh_token_def svc_bind_def svc_find_def svc_read_def svc_refuse_def svc_lift_def
        repo_find_by_id_def repo_find_user_summary_def repo_find_participant_def sql_def bind_res_def ok_or_def
        is_active_def current_role_def)
qed

theorem rejoin_not_recognised_witness:
  "fst (broadcast_refresh_token demo_env 7 2 (snd (broadcast_join demo_env 7 2
     (demo_live demo_row [demo_member 2 Participant (Some 4), demo_member 1 Host None])))) = Inl NotParticipant"
proof -
  let ?w = "demo_live demo_row [demo_member 2 Participant (Some 4), demo_member 1 Host None]"
  obtain s where j: "broadcast_join demo_env 7 2 ?w = (Inr s, snd (broadcast_join demo_env 7 2 ?w))"
    using demo_join_runs [of "[demo_member 2 Participant (Some 4), demo_member 1 Host None]"] by auto
  have p: "participant_row (w_db ?w) 7 2 = Some (demo_member 2 Participant (Some 4))" by code_simp
  have "p_left_at (demo_member 2 Participant (Some 4)) \<noteq> None" by (simp add: demo_member_def)
  from rejoin_not_recognised [OF j p this demo_no_fault(1), THEN conjunct1] show ?thesis
  proof
    assume "summary_of (w_db (snd (broadcast_join demo_env 7 2 ?w))) 2 = None"
    moreover have "summary_of (w_db (snd (broadcast_join demo_env 7 2 ?w))) 2 \<noteq> None" by code_simp
    ultimately show ?thesis by simp
  qed
qed

section \<open>Changing cohosts\<close>

text \<open>An update only ever adds cohosts: afterwards exactly the earlier ones and the listed ones are
  cohosts, at most three are added at a time, and never the creator. Nothing bounds the total.
\<close>

theorem update_extends_cohosts:
  assumes "broadcast_update e req i u w = (Inr resp, w')"
  shows "(cohost_listed (w_db w') i v \<longleftrightarrow> cohost_listed (w_db w) i v \<or> v \<in> set (or_default (ur_cohosts req) [])) \<and>
    length (or_default (ur_cohosts req) []) \<le> 3 \<and> u \<notin> set (or_default (ur_cohosts req) [])"
proof
  from atomicD(2) [OF update_atomic assms] obtain b d1 where
    b: "repo_update (se_repo e) (update_input req i) (w_db w) = (Inr b, d1)"
    and c: "or_default (ur_cohosts req) [] = [] \<and> w_db w' = d1 \<or>
         repo_add_cohosts (se_repo e) (b_id b) (or_default (ur_cohosts req) []) u d1 = (Inr (), w_db w')"
    unfolding updated_def by blast
  have "b_id b = i"
    using b by (auto simp: repo_update_def returning_ok broadcast_row_def update_input_def dest!: exec_cases find_Some_mem)
  with c show "cohost_listed (w_db w') i v \<longleftrightarrow> cohost_listed (w_db w) i v \<or> v \<in> set (or_default (ur_cohosts req) [])"
    using people_update [OF b] add_cohosts_frame(3) same_people_rows(2) by auto
  show "length (or_default (ur_cohosts req) []) \<le> 3 \<and> u \<notin> set (or_default (ur_cohosts req) [])"
    using assms unfolding broadcast_update_def Let_def svc_ok
    by (auto simp: deduplicate_cohosts_def svc_ok split: if_splits)
qed

definition demo_draft :: world where
  "demo_draft = (demo_live (demo_row\<lparr>b_status := Inactive\<rparr>) [])\<lparr>w_db := (w_db (demo_live (demo_row\<lparr>b_status := Inactive\<rparr>) []))
     \<lparr>d_cohosts := [\<lparr>c_broadcast_id = 7, c_cohost_id = 4, c_invited_by = 1, c_invited_at = 4, c_removed_at = None\<rparr>]\<rparr>\<rparr>"

definition demo_update :: update_broadcast_request where
  "demo_update = \<lparr>ur_title = None, ur_description = None, ur_image_id = None, ur_image_url = None,
     ur_start_time = None, ur_time_zone = None, ur_recording_enabled = None, ur_cohosts = Some [3, 2]\<rparr>"

theorem update_extends_cohosts_witness:
  "cohost_listed (w_db (snd (broadcast_update demo_env demo_update 7 1 demo_draft))) 7 3"
proof -
  have "\<not> isl (fst (broadcast_update demo_env demo_update 7 1 demo_draft))" by code_simp
  from run_succeeds [OF this] obtain resp where "broadcast_update demo_env demo_update 7 1 demo_draft =
    (Inr resp, snd (broadcast_update demo_env demo_update 7 1 demo_draft))" ..
  from update_extends_cohosts [OF this, THEN conjunct1, of 3] show ?thesis
    by (simp add: demo_update_def or_default_def)
qed

section \<open>The cached view\<close>



section \<open>What starting does not check\<close>

text \<open>A user may host two running broadcasts at once: creating one is refused while they are live, but
  starting one only looks at that broadcast. Whenever somebody who is live elsewhere starts another
  broadcast, both are running afterwards.
\<close>

theorem start_ignores_other_broadcasts:
  assumes "broadcast_start e i u w = (Inr s, w')" and "repo_inv (w_db w)"
    and "live_row (w_db w) j = Some r" and "b_creator_id r = u" and "b_status r = Active"
  shows "j \<noteq> i \<and> owned (w_db w') i u True \<and> owned (w_db w') j u True \<and>
    (re_fault (se_repo e') SqlIsActiveHost = None \<longrightarrow> fst (broadcast_create e' req u w) = Inl AlreadyLive)"
proof (intro conjI impI)
  from assms(1) obtain r0 where r0: "live_row (w_db w) i = Some r0" "b_status r0 = Inactive"
    by (rule start_ok) blast
  with assms(3,5) show ji: "j \<noteq> i" by auto
  note g = start_effect [OF assms(1,2)]
  from g show "owned (w_db w') i u True" by (auto simp: owned_def is_active_def)
  from g ji have "live_row (w_db w') j = live_row (w_db w) j" by auto
  with assms(3-5) show "owned (w_db w') j u True" by (simp add: owned_def is_active_def)
  show "fst (broadcast_create e' req u w) = Inl AlreadyLive" if "re_fault (se_repo e') SqlIsActiveHost = None"
    using that assms(3-5) live_row_SomeD [OF assms(3)]
    by (auto simp: broadcast_create_def svc_bind_def svc_read_def svc_refuse_def repo_is_active_host_def sql_def list_ex_iff)
qed

definition demo_busy :: world where
  "demo_busy = demo_world\<lparr>w_db := demo_db\<lparr>d_broadcasts :=
     [demo_row\<lparr>b_status := Inactive, b_end_time := Some 3000000000, b_total_participants := Some 0\<rparr>,
      demo_row\<lparr>b_id := 8, b_total_participants := Some 0\<rparr>]\<rparr>\<rparr>"

lemma demo_busy_inv: "repo_inv (w_db demo_busy)"
  by (simp add: demo_busy_def demo_world_def demo_db_def repo_inv_def total_ok_def count_of_def user_exists_def demo_user_def)

lemma demo_busy_row: "live_row (w_db demo_busy) 7 =
    Some (demo_row\<lparr>b_status := Inactive, b_end_time := Some 3000000000, b_total_participants := Some 0\<rparr>)"
  by (simp add: demo_busy_def demo_world_def live_row_def)

lemma demo_busy_start: "\<exists>s. broadcast_start demo_env 7 1 demo_busy = (Inr s, snd (broadcast_start demo_env 7 1 demo_busy))"
proof -
  have "\<exists>s w'. broadcast_start demo_env 7 1 demo_busy = (Inr s, w')"
  proof (rule start_succeeds [OF demo_busy_inv demo_busy_row _ _ demo_no_fault])
    show "summary_of (w_db demo_busy) 1 = Some (u_summary (demo_user 1 ''ann''))"
      by (simp add: demo_busy_def demo_db_def summary_of_def demo_user_def)
    show "create_room (se_codec demo_env) (se_lk demo_env) 7 (w_breaker demo_busy) =
        (Inr (), fst (snd (create_room (se_codec demo_env) (se_lk demo_env) 7 livekit_new)),
         snd (snd (create_room (se_codec demo_env) (se_lk demo_env) 7 livekit_new)))"
      using demo_room by (simp add: demo_busy_def demo_world_def)
  qed (simp_all add: mint_host_token_def mint_token_def Let_def demo_sign)
  then show ?thesis by (metis snd_conv)
qed

theorem start_ignores_other_broadcasts_witness:
  "owned (w_db (snd (broadcast_start demo_env 7 1 demo_busy))) 7 1 True \<and>
   owned (w_db (snd (broadcast_start demo_env 7 1 demo_busy))) 8 1 True"
proof -
  from demo_busy_start obtain s where
    s: "broadcast_start demo_env 7 1 demo_busy = (Inr s, snd (broadcast_start demo_env 7 1 demo_busy))" ..
  have "live_row (w_db demo_busy) 8 = Some (demo_row\<lparr>b_id := 8, b_total_participants := Some 0\<rparr>)"
    by (simp add: demo_busy_def demo_world_def live_row_def)
  from start_ignores_other_broadcasts [OF s demo_busy_inv this] show ?thesis by simp
qed

text \<open>Restarting a broadcast that has ended keeps its old end time: the response of the running broadcast
  then states a duration, from the new start back to the old end, so a negative number of seconds or
  zero.
\<close>

theorem restart_keeps_end_time:
  assumes "broadcast_start e i u w = (Inr s, w')" and "repo_inv (w_db w)"
    and "live_row (w_db w) i = Some r" and "b_end_time r = Some t"
  shows "br_duration_seconds (bs_broadcast s) = Some (secs_between (se_now e) t) \<and> br_state (bs_broadcast s) = Live"
proof -
  from assms(1) obtain r' b d1 where r: "live_row (w_db w) i = Some r'"
    and a: "repo_set_active (se_repo e)
        \<lparr>si_broadcast_id = i, si_broadcast_token = bs_token s, si_start_time = se_now e\<rparr> (w_db w) = (Inr b, d1)"
    and s: "\<exists>creator cohosts ctx. bs_broadcast s = build_response (se_later e) b creator cohosts ctx \<and>
        \<not> cx_is_reconnecting ctx"
    by (rule start_ok)
  from r assms(3) have "live_row (w_db w) i = Some r" "r' = r" by simp_all
  from set_active_row(1) [OF assms(2) this(1) a] s assms(4) show ?thesis by (auto simp: build_response_def)
qed

theorem restart_keeps_end_time_witness:
  "\<exists>s. fst (broadcast_start demo_env 7 1 demo_busy) = Inr s \<and> br_duration_seconds (bs_broadcast s) = Some (- 2)"
proof -
  from demo_busy_start obtain s where
    s: "broadcast_start demo_env 7 1 demo_busy = (Inr s, snd (broadcast_start demo_env 7 1 demo_busy))" ..
  have "br_duration_seconds (bs_broadcast s) = Some (secs_between (se_now demo_env) 3000000000)"
    using restart_keeps_end_time [OF s demo_busy_inv demo_busy_row, of 3000000000] by simp
  moreover have "secs_between (se_now demo_env) 3000000000 = - 2" by (simp add: secs_between_def demo_env_def)
  ultimately show ?thesis using s by (metis fst_conv)
qed

text \<open>Starting is not atomic: when the query for the cohosts fails after the commit, the caller gets an
  error although the broadcast is running, and the follow-up task that sets its counters and tells the
  subscribers is never queued.
\<close>

theorem start_error_after_commit:
  assumes "broadcast_start e i u w = (Inr s, w1)" and "repo_inv (w_db w)"
    and "re_fault ra SqlGetCohosts = Some msg"
  shows "\<exists>w2. broadcast_start (e\<lparr>se_repo_after := ra\<rparr>) i u w = (Inl (Database msg), w2) \<and>
     owned (w_db w2) i u True \<and> (\<forall>now resp. AfterStart i now resp \<in> set (w_tasks w2) \<longrightarrow> AfterStart i now resp \<in> set (w_tasks w))"
proof -
  have "\<exists>w2. broadcast_start (e\<lparr>se_repo_after := ra\<rparr>) i u w = (Inl (Database msg), w2) \<and> w_db w2 = w_db w1 \<and>
     w_tasks w2 = w_tasks w @ [InvalidateLists, InvalidateBroadcast i]"
    using assms(1,3) unfolding broadcast_start_def Let_def svc_ok
    apply clarsimp
    apply (simp add: svc_bind_def svc_find_def svc_refuse_def svc_room_def svc_lift_def svc_write_def svc_read_def
      bind_res_def ok_or_def invalidate_def spawn_def svc_modify_def seed_room_def push_fanout_def repo_get_cohosts_def sql_def
      access_def)
    done
  then show ?thesis using start_effect [OF assms(1,2)] by (auto simp: owned_def is_active_def)
qed

theorem start_error_after_commit_witness:
  "\<exists>w2. (broadcast_start (demo_env\<lparr>se_repo_after := demo_repo\<lparr>re_fault := (\<lambda>st. if st = SqlGetCohosts then Some ''lost'' else None)\<rparr>\<rparr>)
     7 1 demo_created) = (Inl (Database ''lost''), w2) \<and> owned (w_db w2) 7 1 True"
proof -
  from demo_start_ok obtain s where s: "broadcast_start demo_env 7 1 demo_created = (Inr s, demo_started)" ..
  let ?ra = "demo_repo\<lparr>re_fault := (\<lambda>st. if st = SqlGetCohosts then Some ''lost'' else None)\<rparr>"
  have "re_fault ?ra SqlGetCohosts = Some ''lost''" by simp
  from start_error_after_commit [OF s demo_created_inv this] show ?thesis by auto
qed

end
