(* ===== verification/Chat_Repo.thy ===== *)
theory Chat_Repo
  imports Broadcast_Repo
begin

text \<open>
  \<open>modules/chat\<close> below its service: the error values and their answers (\<open>errors.rs\<close>), requests,
  responses and the edit window (\<open>dto.rs\<close>), and the statements over \<open>chat_messages\<close> and
  \<open>chat_reactions\<close> (\<open>repository.rs\<close>, migration 0006). Texts are UTF-8 byte strings; lengths count
  characters, as the validator and the columns do.
\<close>

section \<open>Errors\<close>

datatype chat_error =
    EditWindowExpired | MessageNotFound | ChatBroadcastNotFound | BroadcastNotLive | NotBroadcastParticipant
  | NotSender | CannotSendMessageToSelf | ChatUserNotFound | ChatCursor cursor_error | ChatCache cache_error
  | ChatDatabase string | ChatRedis string | ChatInternal string | ChatValidation "(string \<times> string list) list"

fun chat_error_text :: "chat_error \<Rightarrow> string" where
  "chat_error_text EditWindowExpired = ''Message editing window has expired''"
| "chat_error_text MessageNotFound = ''Message not found''"
| "chat_error_text ChatBroadcastNotFound = ''Broadcast not found''"
| "chat_error_text BroadcastNotLive = ''Broadcast is not currently live''"
| "chat_error_text NotBroadcastParticipant = ''You are not a participant in this broadcast''"
| "chat_error_text NotSender = ''You can only edit your own messages''"
| "chat_error_text CannotSendMessageToSelf = ''You cannot send a message to yourself.''"
| "chat_error_text ChatUserNotFound = ''User not found''"
| "chat_error_text (ChatCursor e) = ''Cursor error: '' @ cursor_error_text e"
| "chat_error_text (ChatCache e) = ''Cache error: '' @ cache_error_text e"
| "chat_error_text (ChatDatabase e) = e"
| "chat_error_text (ChatRedis e) = e"
| "chat_error_text (ChatInternal e) = e"
| "chat_error_text (ChatValidation errs) = ''Validation error''"

fun chat_into_response :: "chat_error \<Rightarrow> meno_response" where
  "chat_into_response EditWindowExpired =
     error_response 400 ''EDIT_WINDOW_EXPIRED'' (chat_error_text EditWindowExpired)"
| "chat_into_response MessageNotFound =
     error_response 404 ''MESSAGE_NOT_FOUND'' (chat_error_text MessageNotFound)"
| "chat_into_response ChatBroadcastNotFound =
     error_response 404 ''BROADCAST_NOT_FOUND'' (chat_error_text ChatBroadcastNotFound)"
| "chat_into_response NotBroadcastParticipant =
     error_response 403 ''NOT_BROADCAST_PARTICIPANT'' (chat_error_text NotBroadcastParticipant)"
| "chat_into_response NotSender =
     error_response 403 ''NOT_MESSAGE_SENDER'' (chat_error_text NotSender)"
| "chat_into_response BroadcastNotLive =
     error_response 400 ''BROADCAST_NOT_LIVE'' (chat_error_text BroadcastNotLive)"
| "chat_into_response CannotSendMessageToSelf =
     error_response 400 ''CANNOT_SEND_MESSAGE_TO_SELF'' (chat_error_text CannotSendMessageToSelf)"
| "chat_into_response ChatUserNotFound =
     error_response 404 ''USER_NOT_FOUND'' (chat_error_text ChatUserNotFound)"
| "chat_into_response (ChatDatabase e) = error_response 500 ''INTERNAL_ERROR'' ''An internal error occurred''"
| "chat_into_response (ChatRedis e) = error_response 500 ''INTERNAL_ERROR'' ''An internal error occurred''"
| "chat_into_response (ChatCache e) = error_response 500 ''INTERNAL_ERROR'' ''An internal error occurred''"
| "chat_into_response (ChatInternal e) = error_response 500 ''INTERNAL_ERROR'' ''An internal error occurred''"
| "chat_into_response (ChatCursor e) = error_response 500 ''INTERNAL_ERROR'' ''An internal error occurred''"
| "chat_into_response (ChatValidation errs) = validation_error_response errs"

section \<open>Data\<close>

record chat_message =
  m_id :: uuid
  m_sender_id :: uuid
  m_broadcast_id :: uuid
  m_content :: string
  m_created_at :: timestamp
  m_updated_at :: "timestamp option"
  m_deleted_at :: "timestamp option"

record chat_reaction =
  x_id :: uuid
  x_sender_id :: uuid
  x_broadcast_id :: uuid
  x_content :: string
  x_created_at :: timestamp

record send_message_request =
  sm_broadcast_id :: uuid
  sm_sender_id :: uuid
  sm_content :: string

record edit_message_request =
  em_broadcast_id :: uuid
  em_message_id :: uuid
  em_sender_id :: uuid
  em_content :: string

record delete_message_request =
  dm_broadcast_id :: uuid
  dm_message_id :: uuid
  dm_sender_id :: uuid

record send_reaction_request =
  sr_broadcast_id :: uuid
  sr_sender_id :: uuid
  sr_content :: string

record chat_message_query =
  cq_broadcast_id :: uuid
  cq_pagination :: cursor_params

record chat_message_row =
  mr_id :: uuid
  mr_content :: string
  mr_broadcast_id :: uuid
  mr_created_at :: timestamp
  mr_updated_at :: "timestamp option"
  mr_deleted_at :: "timestamp option"
  mr_sender_id :: uuid
  mr_sender_name :: string
  mr_sender_bio :: "string option"
  mr_sender_avatar_id :: "string option"
  mr_sender_avatar_url :: "string option"

record chat_message_response =
  mg_id :: uuid
  mg_content :: string
  mg_broadcast_id :: uuid
  mg_sender :: user_summary
  mg_created_at :: timestamp
  mg_updated_at :: "timestamp option"
  mg_is_edited :: bool

definition message_response :: "chat_message_row \<Rightarrow> chat_message_response" where
  "message_response row =
     \<lparr>mg_id = mr_id row, mg_content = mr_content row, mg_broadcast_id = mr_broadcast_id row,
      mg_sender = \<lparr>us_id = mr_sender_id row, us_full_name = mr_sender_name row, us_bio = mr_sender_bio row,
        us_avatar_id = mr_sender_avatar_id row, us_avatar_url = mr_sender_avatar_url row\<rparr>,
      mg_created_at = mr_created_at row, mg_updated_at = mr_updated_at row,
      mg_is_edited = (mr_updated_at row \<noteq> None)\<rparr>"

definition CHAT_MESSAGE_EDIT_WINDOW_SECONDS :: int where "CHAT_MESSAGE_EDIT_WINDOW_SECONDS = 900"

definition can_be_edited :: "timestamp \<Rightarrow> chat_message_row \<Rightarrow> bool" where
  "can_be_edited now row =
     (if mr_created_at row > now then False
      else (now - mr_created_at row) div 1000000000 \<le> CHAT_MESSAGE_EDIT_WINDOW_SECONDS)"

text \<open>\<open>chars().count()\<close>: the bytes that do not continue a character.\<close>

definition char_count :: "string \<Rightarrow> nat" where
  "char_count s = length (filter (\<lambda>b. \<not> cont_byte (of_char b)) s)"

definition content_ok :: "nat \<Rightarrow> string \<Rightarrow> bool" where
  "content_ok most s \<longleftrightarrow> 1 \<le> char_count s \<and> char_count s \<le> most"

section \<open>Statements\<close>

record chat_db =
  c_messages :: "chat_message list"
  c_reactions :: "chat_reaction list"

datatype chat_stmt =
    SqlCreateMessage | SqlUpdateMessage | SqlFindMessages | SqlFindMessage | SqlDeleteMessage
  | SqlCreateReaction | SqlIsParticipant | SqlIsActiveBroadcast

text \<open>\<open>ch_new_id\<close> is the next \<open>gen_random_uuid()\<close>, \<open>ch_db_now\<close> is \<open>NOW()\<close>.\<close>

record chat_env =
  ch_db_now :: timestamp
  ch_new_id :: uuid
  ch_fault :: "chat_stmt \<Rightarrow> string option"

definition chat_sql :: "chat_env \<Rightarrow> chat_stmt \<Rightarrow> 'a \<Rightarrow> chat_error + 'a" where
  "chat_sql e st v = (case ch_fault e st of Some err \<Rightarrow> Inl (ChatDatabase err) | None \<Rightarrow> Inr v)"

definition value_too_long :: string where
  "value_too_long = ''value too long for type character varying''"

text \<open>\<open>JOIN users u ON u.id = m.sender_id\<close>; the second form also asks that the user is not deleted.\<close>

definition join_sender :: "user_row list \<Rightarrow> chat_message \<Rightarrow> chat_message_row list" where
  "join_sender us m =
     map (\<lambda>u. \<lparr>mr_id = m_id m, mr_content = m_content m, mr_broadcast_id = m_broadcast_id m,
        mr_created_at = m_created_at m, mr_updated_at = m_updated_at m, mr_deleted_at = m_deleted_at m,
        mr_sender_id = m_sender_id m, mr_sender_name = us_full_name (u_summary u), mr_sender_bio = us_bio (u_summary u),
        mr_sender_avatar_id = us_avatar_id (u_summary u), mr_sender_avatar_url = us_avatar_url (u_summary u)\<rparr>)
       (filter (\<lambda>u. us_id (u_summary u) = m_sender_id m) us)"

definition join_live_sender :: "user_row list \<Rightarrow> chat_message \<Rightarrow> chat_message_row list" where
  "join_live_sender us m = join_sender (filter (\<lambda>u. u_deleted_at u = None) us) m"

fun first_row :: "'a list \<Rightarrow> 'a option" where
  "first_row [] = None"
| "first_row (r # rs) = Some r"

definition new_message :: "chat_env \<Rightarrow> uuid \<Rightarrow> uuid \<Rightarrow> string \<Rightarrow> chat_message" where
  "new_message e broadcast_id sender_id content =
     \<lparr>m_id = ch_new_id e, m_sender_id = sender_id, m_broadcast_id = broadcast_id, m_content = content,
      m_created_at = ch_db_now e, m_updated_at = None, m_deleted_at = None\<rparr>"

definition insert_fault :: "db \<Rightarrow> uuid \<Rightarrow> uuid \<Rightarrow> uuid \<Rightarrow> uuid list \<Rightarrow> nat \<Rightarrow> string \<Rightarrow> string option" where
  "insert_fault d broadcast_id sender_id new_id ids most content =
     (if most < char_count content then Some value_too_long
      else if new_id \<in> set ids then Some pk_violation
      else if \<not> user_exists d sender_id \<or> \<not> broadcast_exists d broadcast_id then Some fk_violation
      else None)"

text \<open>An insert whose join with the sender finds no row cannot happen: the foreign key demands the user.\<close>

definition create_message ::
    "chat_env \<Rightarrow> db \<Rightarrow> uuid \<Rightarrow> uuid \<Rightarrow> string \<Rightarrow> chat_db \<Rightarrow> (chat_error + chat_message_row) \<times> chat_db" where
  "create_message e d broadcast_id sender_id content cd =
     (case ch_fault e SqlCreateMessage of
        Some err \<Rightarrow> (Inl (ChatDatabase err), cd)
      | None \<Rightarrow>
          (case insert_fault d broadcast_id sender_id (ch_new_id e) (map m_id (c_messages cd)) 256 content of
             Some err \<Rightarrow> (Inl (ChatDatabase err), cd)
           | None \<Rightarrow>
               (let m = new_message e broadcast_id sender_id content;
                    cd1 = cd\<lparr>c_messages := c_messages cd @ [m]\<rparr>
                in case first_row (join_sender (d_users d) m) of
                     Some row \<Rightarrow> (Inr row, cd1)
                   | None \<Rightarrow> (Inl (ChatDatabase row_not_found), cd1))))"

text \<open>\<open>WHERE id = $1 AND sender_id = $2 AND deleted_at IS NULL\<close>\<close>

definition own_message :: "uuid \<Rightarrow> uuid \<Rightarrow> chat_message \<Rightarrow> bool" where
  "own_message message_id sender_id m \<longleftrightarrow> m_id m = message_id \<and> m_sender_id m = sender_id \<and> m_deleted_at m = None"

definition update_message ::
    "chat_env \<Rightarrow> db \<Rightarrow> uuid \<Rightarrow> uuid \<Rightarrow> string \<Rightarrow> chat_db \<Rightarrow> (chat_error + chat_message_row option) \<times> chat_db" where
  "update_message e d message_id sender_id content cd =
     (case ch_fault e SqlUpdateMessage of
        Some err \<Rightarrow> (Inl (ChatDatabase err), cd)
      | None \<Rightarrow>
          if 256 < char_count content \<and> (\<exists>m \<in> set (c_messages cd). own_message message_id sender_id m)
          then (Inl (ChatDatabase value_too_long), cd)
          else
            (let edit = (\<lambda>m. m\<lparr>m_content := content, m_updated_at := Some (ch_db_now e)\<rparr>);
                 hits = map edit (filter (own_message message_id sender_id) (c_messages cd))
             in (Inr (first_row (concat (map (join_sender (d_users d)) hits))),
                 cd\<lparr>c_messages := map (\<lambda>m. if own_message message_id sender_id m then edit m else m) (c_messages cd)\<rparr>)))"

text \<open>The row trigger of migration 0001 sets \<open>updated_at\<close> on every update, this one included.\<close>

definition soft_delete_message ::
    "chat_env \<Rightarrow> uuid \<Rightarrow> uuid \<Rightarrow> chat_db \<Rightarrow> (chat_error + bool) \<times> chat_db" where
  "soft_delete_message e message_id sender_id cd =
     (case ch_fault e SqlDeleteMessage of
        Some err \<Rightarrow> (Inl (ChatDatabase err), cd)
      | None \<Rightarrow>
          (Inr (length (filter (own_message message_id sender_id) (c_messages cd)) = 1),
           cd\<lparr>c_messages := map (\<lambda>m. if own_message message_id sender_id m
                then m\<lparr>m_deleted_at := Some (ch_db_now e), m_updated_at := Some (ch_db_now e)\<rparr> else m) (c_messages cd)\<rparr>))"

definition find_message_by_id :: "chat_env \<Rightarrow> db \<Rightarrow> uuid \<Rightarrow> chat_db \<Rightarrow> chat_error + chat_message_row option" where
  "find_message_by_id e d message_id cd =
     chat_sql e SqlFindMessage
       (first_row (concat (map (join_sender (d_users d))
         (filter (\<lambda>m. m_id m = message_id \<and> m_deleted_at m = None) (c_messages cd)))))"

definition create_reaction ::
    "chat_env \<Rightarrow> db \<Rightarrow> uuid \<Rightarrow> uuid \<Rightarrow> string \<Rightarrow> chat_db \<Rightarrow> (chat_error + chat_reaction) \<times> chat_db" where
  "create_reaction e d broadcast_id sender_id content cd =
     (case ch_fault e SqlCreateReaction of
        Some err \<Rightarrow> (Inl (ChatDatabase err), cd)
      | None \<Rightarrow>
          (case insert_fault d broadcast_id sender_id (ch_new_id e) (map x_id (c_reactions cd)) 32 content of
             Some err \<Rightarrow> (Inl (ChatDatabase err), cd)
           | None \<Rightarrow>
               (let x = \<lparr>x_id = ch_new_id e, x_sender_id = sender_id, x_broadcast_id = broadcast_id,
                         x_content = content, x_created_at = ch_db_now e\<rparr>
                in (Inr x, cd\<lparr>c_reactions := c_reactions cd @ [x]\<rparr>))))"

definition is_broadcast_participant :: "chat_env \<Rightarrow> db \<Rightarrow> uuid \<Rightarrow> uuid \<Rightarrow> chat_error + bool" where
  "is_broadcast_participant e d broadcast_id participant_id =
     chat_sql e SqlIsParticipant
       (list_ex (\<lambda>p. is_row broadcast_id participant_id p \<and> p_left_at p = None) (d_participants d))"

definition is_active_broadcast :: "chat_env \<Rightarrow> db \<Rightarrow> uuid \<Rightarrow> chat_error + bool" where
  "is_active_broadcast e d broadcast_id =
     chat_sql e SqlIsActiveBroadcast
       (list_ex (\<lambda>b. b_id b = broadcast_id \<and> b_status b = Active \<and> b_end_time b = None \<and> b_deleted_at b = None)
         (d_broadcasts d))"

text \<open>The messages a listing shows, before cursor, order and limit.\<close>

definition shown_messages :: "db \<Rightarrow> uuid \<Rightarrow> chat_db \<Rightarrow> chat_message_row list" where
  "shown_messages d broadcast_id cd =
     concat (map (join_live_sender (d_users d))
       (filter (\<lambda>m. m_broadcast_id m = broadcast_id \<and> m_deleted_at m = None) (c_messages cd)))"

definition find_messages ::
    "codec \<Rightarrow> chat_env \<Rightarrow> db \<Rightarrow> uuid \<Rightarrow> chat_message_query \<Rightarrow> chat_db \<Rightarrow> chat_error + chat_message_response list" where
  "find_messages c e d broadcast_id q cd =
     bind_res
       (case cp_cursor (cq_pagination q) of
          None \<Rightarrow> Inr (None, None)
        | Some cur \<Rightarrow>
            (case to_timestamp_id c cur of
               Inl err \<Rightarrow> Inl (ChatCursor err) | Inr (ts, i) \<Rightarrow> Inr (Some ts, Some i)))
       (\<lambda>(cursor_ts, cursor_id).
          chat_sql e SqlFindMessages
            (map message_response
              (push_order_and_limit mr_created_at mr_id Desc (limit_plus_one (cq_pagination q))
                (filter (push_cursor_condition mr_created_at mr_id cursor_ts cursor_id Desc)
                  (shown_messages d broadcast_id cd)))))"

end
