(* ===== verification/Chat_Service.thy ===== *)
theory Chat_Service
  imports Chat_Repo Broadcast_Rules
begin

text \<open>
  \<open>modules/chat/service.rs\<close>, \<open>cache.rs\<close> and the socket handlers of \<open>handlers.rs\<close>, over the state of the
  server: the broadcast service's world, the chat tables, what was sent to local connections, queued
  end-of-broadcast jobs and spawned tasks.
\<close>

section \<open>State\<close>

record end_job =
  ej_broadcast_id :: uuid
  ej_host_id :: uuid
  ej_reason :: string

datatype app_task = InvalidateChat uuid | CacheChat "chat_message_response cursor_page coalesce_task"

record app =
  ap_world :: world
  ap_chat :: chat_db
  ap_sent :: sends
  ap_end_jobs :: "end_job list"
  ap_tasks :: "app_task list"

text \<open>
  \<open>ae_to_json\<close> is \<open>serde_json\<close> on a payload; \<open>ae_invalid\<close> is the debug text of the validator's errors for a
  content.
\<close>

record app_env =
  ae_svc :: svc_env
  ae_chat :: chat_env
  ae_to_json :: "ws_payload \<Rightarrow> string option"
  ae_from_json :: "string \<Rightarrow> ws_payload option"
  ae_invalid :: "string \<Rightarrow> string"
  ae_page_text :: "chat_message_response cursor_page \<Rightarrow> string"
  ae_page_parse :: "string \<Rightarrow> chat_message_response cursor_page option"
  ae_end_job_ok :: bool

type_synonym 'a chat = "(app, chat_error, 'a) steps"

definition set_world :: "(world \<Rightarrow> world) \<Rightarrow> app \<Rightarrow> app" where
  "set_world f a = a\<lparr>ap_world := f (ap_world a)\<rparr>"

definition chat_read :: "(db \<Rightarrow> chat_db \<Rightarrow> chat_error + 'a) \<Rightarrow> 'a chat" where
  "chat_read q a = (q (w_db (ap_world a)) (ap_chat a), a)"

definition chat_find :: "(db \<Rightarrow> chat_db \<Rightarrow> chat_error + 'a option) \<Rightarrow> chat_error \<Rightarrow> 'a chat" where
  "chat_find q err a = (bind_res (q (w_db (ap_world a)) (ap_chat a)) (\<lambda>r. ok_or r err), a)"

definition chat_write :: "(db \<Rightarrow> chat_db \<Rightarrow> (chat_error + 'a) \<times> chat_db) \<Rightarrow> 'a chat" where
  "chat_write act a = (case act (w_db (ap_world a)) (ap_chat a) of (r, cd) \<Rightarrow> (r, a\<lparr>ap_chat := cd\<rparr>))"

definition invalidate_chat :: "uuid \<Rightarrow> unit chat" where
  "invalidate_chat broadcast_id = svc_modify (\<lambda>a. a\<lparr>ap_tasks := ap_tasks a @ [InvalidateChat broadcast_id]\<rparr>)"

definition tell_room :: "app_env \<Rightarrow> uuid \<Rightarrow> ws_payload \<Rightarrow> unit chat" where
  "tell_room e broadcast_id payload = svc_modify (set_world (\<lambda>w. w\<lparr>w_published := w_published w @
     publish_to_room (se_codec (ae_svc e)) (se_bridge (ae_svc e)) broadcast_id payload\<rparr>))"

section \<open>Messages on the wire\<close>

definition message_json :: "app_env \<Rightarrow> chat_message_response \<Rightarrow> json" where
  "message_json e m =
     (let c = se_codec (ae_svc e); at = se_stamp (ae_svc e)
      in JObj [(''id'', json_uuid c (mg_id m)), (''content'', JStr (mg_content m)),
           (''broadcast_id'', json_uuid c (mg_broadcast_id m)), (''sender'', user_summary_json c (mg_sender m)),
           (''created_at'', at (mg_created_at m)),
           (''updated_at'', case mg_updated_at m of Some t \<Rightarrow> at t | None \<Rightarrow> JNull),
           (''is_edited'', JBool (mg_is_edited m))])"

definition reaction_json :: "app_env \<Rightarrow> chat_reaction \<Rightarrow> json" where
  "reaction_json e x =
     (let c = se_codec (ae_svc e)
      in JObj [(''id'', json_uuid c (x_id x)), (''content'', JStr (x_content x)),
           (''broadcast_id'', json_uuid c (x_broadcast_id x)), (''sender_id'', json_uuid c (x_sender_id x)),
           (''created_at'', se_stamp (ae_svc e) (x_created_at x))])"

section \<open>Operations\<close>

definition send_message :: "app_env \<Rightarrow> send_message_request \<Rightarrow> chat_message_response chat" where
  "send_message e req =
     svc_bind (chat_read (\<lambda>d cd. is_active_broadcast (ae_chat e) d (sm_broadcast_id req))) (\<lambda>is_active.
     svc_bind (chat_read (\<lambda>d cd. is_broadcast_participant (ae_chat e) d (sm_broadcast_id req) (sm_sender_id req)))
       (\<lambda>is_participant.
     svc_bind (svc_refuse (\<not> is_active) BroadcastNotLive) (\<lambda>_.
     svc_bind (svc_refuse (\<not> is_participant) NotBroadcastParticipant) (\<lambda>_.
     svc_bind (chat_write (\<lambda>d. create_message (ae_chat e) d (sm_broadcast_id req) (sm_sender_id req) (sm_content req)))
       (\<lambda>row.
     svc_bind (invalidate_chat (sm_broadcast_id req)) (\<lambda>_.
     (let response = message_response row in
     svc_bind (tell_room e (sm_broadcast_id req) (payload_new NewMessage (message_json e response))) (\<lambda>_.
     svc_return response))))))))"

definition edit_message :: "app_env \<Rightarrow> edit_message_request \<Rightarrow> chat_message_response chat" where
  "edit_message e req =
     svc_bind (chat_find (\<lambda>d cd. find_message_by_id (ae_chat e) d (em_message_id req) cd) MessageNotFound) (\<lambda>msg.
     svc_bind (chat_read (\<lambda>d cd. is_active_broadcast (ae_chat e) d (em_broadcast_id req))) (\<lambda>is_active.
     svc_bind (svc_refuse (\<not> is_active) BroadcastNotLive) (\<lambda>_.
     svc_bind (svc_refuse (em_sender_id req \<noteq> mr_sender_id msg) NotSender) (\<lambda>_.
     svc_bind (svc_refuse (\<not> can_be_edited (se_now (ae_svc e)) msg) EditWindowExpired) (\<lambda>_.
     svc_bind (chat_write (\<lambda>d. update_message (ae_chat e) d (em_message_id req) (em_sender_id req) (em_content req)))
       (\<lambda>updated.
     svc_bind (svc_lift (ok_or updated MessageNotFound)) (\<lambda>row.
     (let response = message_response row in
     svc_bind (invalidate_chat (em_broadcast_id req)) (\<lambda>_.
     svc_bind (tell_room e (em_broadcast_id req) (payload_new EditedMessage (message_json e response))) (\<lambda>_.
     svc_return response))))))))))"

definition delete_message :: "app_env \<Rightarrow> delete_message_request \<Rightarrow> unit chat" where
  "delete_message e req =
     svc_bind (chat_write (\<lambda>d. soft_delete_message (ae_chat e) (dm_message_id req) (dm_sender_id req))) (\<lambda>deleted.
     svc_bind (svc_refuse (\<not> deleted) NotSender) (\<lambda>_.
     svc_bind (invalidate_chat (dm_broadcast_id req)) (\<lambda>_.
     tell_room e (dm_broadcast_id req)
       (payload_deleted_message (se_codec (ae_svc e)) (dm_broadcast_id req) (dm_message_id req)))))"

definition send_reaction :: "app_env \<Rightarrow> send_reaction_request \<Rightarrow> chat_reaction chat" where
  "send_reaction e req =
     svc_bind (chat_read (\<lambda>d cd. is_active_broadcast (ae_chat e) d (sr_broadcast_id req))) (\<lambda>is_active.
     svc_bind (svc_refuse (\<not> is_active) BroadcastNotLive) (\<lambda>_.
     svc_bind (chat_read (\<lambda>d cd. is_broadcast_participant (ae_chat e) d (sr_broadcast_id req) (sr_sender_id req)))
       (\<lambda>is_participant.
     svc_bind (svc_refuse (\<not> is_participant) NotBroadcastParticipant) (\<lambda>_.
     svc_bind (chat_write (\<lambda>d. create_reaction (ae_chat e) d (sr_broadcast_id req) (sr_sender_id req) (sr_content req)))
       (\<lambda>x.
     svc_bind (tell_room e (sr_broadcast_id req) (payload_new NewReaction (reaction_json e x))) (\<lambda>_.
     svc_return x))))))"

section \<open>History\<close>

definition chat_list_cache_key :: "codec \<Rightarrow> uuid \<Rightarrow> string option \<Rightarrow> int \<Rightarrow> string" where
  "chat_list_cache_key c broadcast_id cursor limit =
     (let start = ''chat:'' @ uuid_show c broadcast_id @ '':msgs:cur='';
          stop = '':lim='' @ show_int limit
      in case cursor of
           Some cur \<Rightarrow> if cur \<noteq> [] then start @ cur @ stop else start @ ''_start'' @ stop
         | None \<Rightarrow> start @ ''_start'' @ stop)"

definition chat_is_live :: "app_env \<Rightarrow> uuid \<Rightarrow> keyspace \<Rightarrow> bool" where
  "chat_is_live e broadcast_id k =
     unwrap_or (redis_exists (se_redis (ae_svc e)) (key_live_count (se_codec (ae_svc e)) broadcast_id) k) False"

definition fetch_messages ::
    "app_env \<Rightarrow> chat_message_query \<Rightarrow> app \<Rightarrow> chat_error + chat_message_response cursor_page" where
  "fetch_messages e q a =
     bind_res (find_messages (se_codec (ae_svc e)) (ae_chat e) (w_db (ap_world a)) (cq_broadcast_id q) q (ap_chat a))
       (\<lambda>rows. Inr (from_rows rows (page_limit (cq_pagination q))
          (\<lambda>r. from_timestamp_id (se_codec (ae_svc e)) (mg_created_at r) (mg_id r))))"

definition get_messages ::
    "app_env \<Rightarrow> uuid \<Rightarrow> chat_message_query \<Rightarrow> chat_message_response cursor_page chat" where
  "get_messages e user_id q =
     svc_bind (chat_read (\<lambda>d cd. is_broadcast_participant (ae_chat e) d (cq_broadcast_id q) user_id)) (\<lambda>present.
     svc_bind (svc_refuse (\<not> present) NotBroadcastParticipant) (\<lambda>_ a.
       (let w = ap_world a; s = ae_svc e;
            cursor_str = (case cp_cursor (cq_pagination q) of Some t \<Rightarrow> t | None \<Rightarrow> '''');
            key = chat_list_cache_key (se_codec s) (cq_broadcast_id q) (Some cursor_str) (page_limit (cq_pagination q));
            ttl = (if chat_is_live e (cq_broadcast_id q) (w_keys w) then 10 else 60)
        in case coalesce_cache (se_redis s) (ae_page_parse e) key ttl (se_seen s) (fetch_messages e q a) (w_keys w) of
             (r, k, task) \<Rightarrow>
               (r, set_world (set_keys k) (a\<lparr>ap_tasks := ap_tasks a @
                  (case task of Some t \<Rightarrow> [CacheChat t] | None \<Rightarrow> [])\<rparr>)))))"

text \<open>The spawned tasks.\<close>

definition chat_pattern :: "codec \<Rightarrow> uuid \<Rightarrow> string" where
  "chat_pattern c broadcast_id = ''chat:'' @ uuid_show c broadcast_id @ '':msgs:*''"

fun run_app_task :: "app_env \<Rightarrow> app_task \<Rightarrow> keyspace \<Rightarrow> keyspace" where
  "run_app_task e (InvalidateChat b) k =
     (case delete_by_pattern (se_redis (ae_svc e)) (se_scan (ae_svc e)) (chat_pattern (se_codec (ae_svc e)) b) k of
        None \<Rightarrow> k | Some (_, k1) \<Rightarrow> k1)"
| "run_app_task e (CacheChat t) k = run_coalesce_task (se_redis (ae_svc e)) (ae_page_text e) t k"

section \<open>Socket handlers\<close>

definition send_ws_error :: "app_env \<Rightarrow> uuid \<Rightarrow> uuid \<Rightarrow> ws_error_code \<Rightarrow> string \<Rightarrow> app \<Rightarrow> app" where
  "send_ws_error e user_id broadcast_id ec msg a =
     (case send_error (se_codec (ae_svc e)) (se_redis (ae_svc e)) (ae_to_json e) user_id broadcast_id ec msg
             (in_hub (w_inst (ap_world a))) (w_keys (ap_world a)) of
        (out, k) \<Rightarrow> set_world (set_keys k) (a\<lparr>ap_sent := ap_sent a @ out\<rparr>))"

definition handle_validation_error :: "app_env \<Rightarrow> uuid \<Rightarrow> uuid \<Rightarrow> string \<Rightarrow> app \<Rightarrow> app" where
  "handle_validation_error e user_id broadcast_id content a =
     send_ws_error e user_id broadcast_id Unsupported (''Validation error: '' @ ae_invalid e content) a"

fun send_error_code :: "chat_error \<Rightarrow> ws_error_code" where
  "send_error_code BroadcastNotLive = BroadcastForciblyEnded"
| "send_error_code NotBroadcastParticipant = KickedFromRoom"
| "send_error_code _ = Unsupported"

fun edit_error_code :: "chat_error \<Rightarrow> ws_error_code" where
  "edit_error_code NotSender = KickedFromRoom"
| "edit_error_code BroadcastNotLive = BroadcastForciblyEnded"
| "edit_error_code _ = Unsupported"

fun delete_error_code :: "chat_error \<Rightarrow> ws_error_code" where
  "delete_error_code NotSender = KickedFromRoom"
| "delete_error_code _ = Unsupported"

definition answer_errors ::
    "app_env \<Rightarrow> uuid \<Rightarrow> uuid \<Rightarrow> (chat_error \<Rightarrow> ws_error_code) \<Rightarrow> (chat_error + 'a) \<times> app \<Rightarrow> app" where
  "answer_errors e user_id broadcast_id ec r =
     (case r of
        (Inr _, a) \<Rightarrow> a
      | (Inl err, a) \<Rightarrow> send_ws_error e user_id broadcast_id (ec err) (chat_error_text err) a)"

definition handle_ws_send_message :: "app_env \<Rightarrow> send_message_request \<Rightarrow> app \<Rightarrow> app" where
  "handle_ws_send_message e req a =
     (if \<not> content_ok 256 (sm_content req)
      then handle_validation_error e (sm_sender_id req) (sm_broadcast_id req) (sm_content req) a
      else answer_errors e (sm_sender_id req) (sm_broadcast_id req) send_error_code (send_message e req a))"

definition handle_ws_edit_message :: "app_env \<Rightarrow> edit_message_request \<Rightarrow> app \<Rightarrow> app" where
  "handle_ws_edit_message e req a =
     (if \<not> content_ok 256 (em_content req)
      then handle_validation_error e (em_sender_id req) (em_broadcast_id req) (em_content req) a
      else answer_errors e (em_sender_id req) (em_broadcast_id req) edit_error_code (edit_message e req a))"

definition handle_ws_delete_message :: "app_env \<Rightarrow> delete_message_request \<Rightarrow> app \<Rightarrow> app" where
  "handle_ws_delete_message e req a =
     answer_errors e (dm_sender_id req) (dm_broadcast_id req) delete_error_code (delete_message e req a)"

definition handle_ws_send_reaction :: "app_env \<Rightarrow> send_reaction_request \<Rightarrow> app \<Rightarrow> app" where
  "handle_ws_send_reaction e req a =
     (if \<not> content_ok 32 (sr_content req)
      then handle_validation_error e (sr_sender_id req) (sr_broadcast_id req) (sr_content req) a
      else answer_errors e (sr_sender_id req) (sr_broadcast_id req) send_error_code (send_reaction e req a))"

end
