(* ===== verification/Chat_Demo.thy ===== *)
theory Chat_Demo
  imports Chat_Service Broadcast_Demo
begin

text \<open>A small chat the examples share: broadcast 7 on air with its host, user 1, and three messages.\<close>

definition demo_chat_env :: app_env where
  "demo_chat_env = \<lparr>ae_svc = demo_env,
     ae_chat = \<lparr>ch_db_now = 5000000000, ch_new_id = 40, ch_fault = (\<lambda>_. None)\<rparr>,
     ae_to_json = (\<lambda>_. Some ''{}''), ae_from_json = (\<lambda>_. None), ae_invalid = (\<lambda>_. ''length''),
     ae_page_text = (\<lambda>_. ''page''), ae_page_parse = (\<lambda>_. None), ae_end_job_ok = True\<rparr>"

definition demo_message :: "uuid \<Rightarrow> string \<Rightarrow> timestamp \<Rightarrow> timestamp option \<Rightarrow> chat_message" where
  "demo_message i content at gone = \<lparr>m_id = i, m_sender_id = 1, m_broadcast_id = 7, m_content = content,
     m_created_at = at, m_updated_at = None, m_deleted_at = gone\<rparr>"

definition demo_chat :: chat_db where
  "demo_chat = \<lparr>c_messages = [demo_message 31 ''one'' 4100000000 None, demo_message 32 ''two'' 4200000000 None,
     demo_message 33 ''three'' 4300000000 (Some 4400000000)], c_reactions = []\<rparr>"

definition demo_app :: app where
  "demo_app = \<lparr>ap_world = demo_live demo_row [demo_member 1 Host None], ap_chat = demo_chat, ap_sent = [],
     ap_end_jobs = [], ap_tasks = []\<rparr>"

end
