(* ===== verification/Chat_Properties.thy ===== *)
theory Chat_Properties
  imports Chat_Demo Broadcast_Effects
begin

text \<open>
  What the chat keeps: whose messages can change, who may post, what the history shows and in which
  order, and that its caches are invalidated.
\<close>

section \<open>Steps of the chat\<close>

lemma chat_ok [svc_ok]:
  "chat_read q a = (Inr v, a') \<longleftrightarrow> q (w_db (ap_world a)) (ap_chat a) = Inr v \<and> a' = a"
  "chat_find qf err a = (Inr x, a') \<longleftrightarrow> qf (w_db (ap_world a)) (ap_chat a) = Inr (Some x) \<and> a' = a"
  "chat_write act a = (Inr y, a') \<longleftrightarrow>
     (\<exists>cd. act (w_db (ap_world a)) (ap_chat a) = (Inr y, cd) \<and> a' = a\<lparr>ap_chat := cd\<rparr>)"
  "invalidate_chat b a = (Inr u, a') \<longleftrightarrow> a' = a\<lparr>ap_tasks := ap_tasks a @ [InvalidateChat b]\<rparr>"
  "tell_room e b p a = (Inr u, a') \<longleftrightarrow> a' = set_world (\<lambda>w. w\<lparr>w_published := w_published w @
     publish_to_room (se_codec (ae_svc e)) (se_bridge (ae_svc e)) b p\<rparr>) a"
  by (auto simp: chat_read_def chat_find_def chat_write_def invalidate_chat_def tell_room_def svc_modify_def
      bind_res_Inr split: prod.splits)

lemma chat_err [svc_err]:
  "chat_read q a = (Inl err, a') \<longleftrightarrow> q (w_db (ap_world a)) (ap_chat a) = Inl err \<and> a' = a"
  "chat_find qf e a = (Inl err, a') \<longleftrightarrow>
     (qf (w_db (ap_world a)) (ap_chat a) = Inl err \<or> qf (w_db (ap_world a)) (ap_chat a) = Inr None \<and> err = e) \<and> a' = a"
  "chat_write act a = (Inl err, a') \<longleftrightarrow>
     (\<exists>cd. act (w_db (ap_world a)) (ap_chat a) = (Inl err, cd) \<and> a' = a\<lparr>ap_chat := cd\<rparr>)"
  "invalidate_chat b a = (Inl err, a') \<longleftrightarrow> False"
  "tell_room ev b p a = (Inl err, a') \<longleftrightarrow> False"
  by (auto simp: chat_read_def chat_find_def chat_write_def invalidate_chat_def tell_room_def svc_modify_def
      bind_res_def ok_or_def split: prod.splits sum.splits option.splits)

lemma chat_sql_Inr [simp]: "chat_sql e st v = Inr w \<longleftrightarrow> ch_fault e st = None \<and> v = w"
  by (auto simp: chat_sql_def split: option.splits)

lemma set_world_chat [simp]:
  "ap_chat (set_world f a) = ap_chat a" "ap_world (set_world f a) = f (ap_world a)"
  "ap_sent (set_world f a) = ap_sent a" "ap_tasks (set_world f a) = ap_tasks a"
  "ap_end_jobs (set_world f a) = ap_end_jobs a"
  by (simp_all add: set_world_def)

lemma send_ws_error_chat [simp]: "ap_chat (send_ws_error e u b ec msg a) = ap_chat a"
  "w_db (ap_world (send_ws_error e u b ec msg a)) = w_db (ap_world a)"
  "ap_tasks (send_ws_error e u b ec msg a) = ap_tasks a"
  "w_published (ap_world (send_ws_error e u b ec msg a)) = w_published (ap_world a)"
  by (auto simp: send_ws_error_def set_keys_def split: prod.splits)

section \<open>Posting\<close>

lemma join_exists:
  "user_exists d (m_sender_id m) \<Longrightarrow> \<exists>row. first_row (join_sender (d_users d) m) = Some row"
proof -
  assume "user_exists d (m_sender_id m)"
  then have "filter (\<lambda>u. us_id (u_summary u) = m_sender_id m) (d_users d) \<noteq> []"
    by (auto simp: user_exists_def filter_empty_conv)
  then show ?thesis unfolding join_sender_def
    by (cases "filter (\<lambda>u. us_id (u_summary u) = m_sender_id m) (d_users d)") auto
qed

lemma first_row_SomeD: "first_row rs = Some r \<Longrightarrow> r \<in> set rs"
  by (cases rs) auto

lemma join_rowD:
  "r \<in> set (join_sender us m) \<Longrightarrow> mr_id r = m_id m \<and> mr_content r = m_content m \<and> mr_broadcast_id r = m_broadcast_id m \<and>
     mr_created_at r = m_created_at m \<and> mr_updated_at r = m_updated_at m \<and> mr_deleted_at r = m_deleted_at m \<and>
     mr_sender_id r = m_sender_id m"
  by (auto simp: join_sender_def)

lemma create_message_cases:
  assumes "create_message e d b u content cd = (r, cd')"
  shows "(\<exists>err. r = Inl err) \<and> cd' = cd \<or>
    (\<exists>row. r = Inr row \<and> cd' = cd\<lparr>c_messages := c_messages cd @ [new_message e b u content]\<rparr> \<and>
       row \<in> set (join_sender (d_users d) (new_message e b u content)) \<and> ch_new_id e \<notin> m_id ` set (c_messages cd) \<and>
       user_exists d u \<and> broadcast_exists d b \<and> char_count content \<le> 256)"
proof (cases "ch_fault e SqlCreateMessage")
  case (Some err)
  with assms show ?thesis by (auto simp: create_message_def)
next
  case None
  show ?thesis
  proof (cases "insert_fault d b u (ch_new_id e) (map m_id (c_messages cd)) 256 content")
    case (Some err)
    with None assms show ?thesis by (auto simp: create_message_def)
  next
    case n: None
    then have x: "user_exists d u" "broadcast_exists d b" "ch_new_id e \<notin> m_id ` set (c_messages cd)"
        "char_count content \<le> 256"
      by (auto simp: insert_fault_def split: if_splits)
    obtain row where row: "first_row (join_sender (d_users d) (new_message e b u content)) = Some row"
      using join_exists [of d "new_message e b u content"] x(1) by (auto simp: new_message_def)
    with None n assms x first_row_SomeD [OF row] show ?thesis by (auto simp: create_message_def Let_def)
  qed
qed

lemma send_effect:
  "(case send_message e req a of
      (Inl err, a') \<Rightarrow> a' = a
    | (Inr resp, a') \<Rightarrow>
        (\<exists>p \<in> set (d_participants (w_db (ap_world a))). is_row (sm_broadcast_id req) (sm_sender_id req) p \<and> p_left_at p = None) \<and>
        (\<exists>b \<in> set (d_broadcasts (w_db (ap_world a))). b_id b = sm_broadcast_id req \<and> b_status b = Active) \<and>
        c_messages (ap_chat a') = c_messages (ap_chat a) @
          [new_message (ae_chat e) (sm_broadcast_id req) (sm_sender_id req) (sm_content req)] \<and>
        ch_new_id (ae_chat e) \<notin> m_id ` set (c_messages (ap_chat a)) \<and>
        mg_id resp = ch_new_id (ae_chat e) \<and> mg_content resp = sm_content req \<and> us_id (mg_sender resp) = sm_sender_id req \<and>
        ap_tasks a' = ap_tasks a @ [InvalidateChat (sm_broadcast_id req)] \<and>
        w_published (ap_world a') = w_published (ap_world a) @
          publish_to_room (se_codec (ae_svc e)) (se_bridge (ae_svc e)) (sm_broadcast_id req)
            (payload_new NewMessage (message_json e resp)))"
proof (cases "send_message e req a")
  case (Pair r a')
  show ?thesis
  proof (cases r)
    case (Inl err)
    have "send_message e req a = (Inl err, a')" using Pair Inl by simp
    then have "a' = a"
      unfolding send_message_def Let_def svc_err svc_ok
      by (auto dest!: create_message_cases)
    with Pair Inl show ?thesis by simp
  next
    case (Inr resp)
    have "send_message e req a = (Inr resp, a')" using Pair Inr by simp
    then obtain row cd where g:
        "list_ex (\<lambda>p. is_row (sm_broadcast_id req) (sm_sender_id req) p \<and> p_left_at p = None) (d_participants (w_db (ap_world a)))"
        "list_ex (\<lambda>b. b_id b = sm_broadcast_id req \<and> b_status b = Active \<and> b_end_time b = None \<and> b_deleted_at b = None)
          (d_broadcasts (w_db (ap_world a)))"
      and c: "create_message (ae_chat e) (w_db (ap_world a)) (sm_broadcast_id req) (sm_sender_id req) (sm_content req) (ap_chat a)
          = (Inr row, cd)"
      and resp: "resp = message_response row"
      and a': "a' = set_world (\<lambda>w. w\<lparr>w_published := w_published w @
          publish_to_room (se_codec (ae_svc e)) (se_bridge (ae_svc e)) (sm_broadcast_id req)
            (payload_new NewMessage (message_json e resp))\<rparr>)
          (a\<lparr>ap_chat := cd, ap_tasks := ap_tasks a @ [InvalidateChat (sm_broadcast_id req)]\<rparr>)"
      unfolding send_message_def Let_def svc_ok
      by (auto simp: is_active_broadcast_def is_broadcast_participant_def)
    from create_message_cases [OF c] have m: "cd = (ap_chat a)\<lparr>c_messages := c_messages (ap_chat a) @
          [new_message (ae_chat e) (sm_broadcast_id req) (sm_sender_id req) (sm_content req)]\<rparr>"
        "row \<in> set (join_sender (d_users (w_db (ap_world a)))
          (new_message (ae_chat e) (sm_broadcast_id req) (sm_sender_id req) (sm_content req)))"
        "ch_new_id (ae_chat e) \<notin> m_id ` set (c_messages (ap_chat a))" by auto
    show ?thesis
      using Pair Inr g m join_rowD [OF m(2)] a' resp
      by (auto simp: list_ex_iff message_response_def new_message_def)
  qed
qed


section \<open>Editing and deleting\<close>

lemma hit_found:
  assumes "find_message_by_id ce d i cd = Inr (Some row)" and "u = mr_sender_id row"
  obtains m where "m \<in> set (c_messages cd)" "own_message i u m" "mr_created_at row = m_created_at m"
    "\<exists>r. first_row (join_sender (d_users d) m) = Some r"
proof -
  from assms(1) have "row \<in> set (concat (map (join_sender (d_users d))
      (filter (\<lambda>m. m_id m = i \<and> m_deleted_at m = None) (c_messages cd))))"
    by (auto simp: find_message_by_id_def dest: first_row_SomeD)
  then obtain m where m: "m \<in> set (c_messages cd)" "m_id m = i" "m_deleted_at m = None"
    and row: "row \<in> set (join_sender (d_users d) m)" by auto
  from row have "\<exists>r. first_row (join_sender (d_users d) m) = Some r"
    by (cases "join_sender (d_users d) m") auto
  with m join_rowD [OF row] assms(2) that [of m] show ?thesis by (auto simp: own_message_def)
qed

lemma update_message_cases:
  assumes "update_message ce d i u content cd = (r, cd')"
    and "m \<in> set (c_messages cd)" "own_message i u m" "\<exists>x. first_row (join_sender (d_users d) m) = Some x"
  shows "(\<exists>err. r = Inl err) \<and> cd' = cd \<or>
    (\<exists>row. r = Inr (Some row) \<and> mr_id row = i \<and> mr_sender_id row = u \<and> mr_content row = content \<and>
       mr_updated_at row = Some (ch_db_now ce) \<and> char_count content \<le> 256 \<and>
       cd' = cd\<lparr>c_messages := map (\<lambda>m. if own_message i u m
         then m\<lparr>m_content := content, m_updated_at := Some (ch_db_now ce)\<rparr> else m) (c_messages cd)\<rparr>)"
proof -
  let ?edit = "\<lambda>m. m\<lparr>m_content := content, m_updated_at := Some (ch_db_now ce)\<rparr>"
  let ?rows = "concat (map (join_sender (d_users d)) (map ?edit (filter (own_message i u) (c_messages cd))))"
  from assms(4) have "join_sender (d_users d) m \<noteq> []" by auto
  then have "join_sender (d_users d) (?edit m) \<noteq> []" by (simp add: join_sender_def)
  with assms(2,3) have "?rows \<noteq> []" by auto
  then obtain row where row: "first_row ?rows = Some row" by (cases ?rows) auto
  from first_row_SomeD [OF row] obtain m' where "own_message i u m'" "row \<in> set (join_sender (d_users d) (?edit m'))"
    by auto
  with join_rowD [OF this(2)] have "mr_id row = i \<and> mr_sender_id row = u \<and> mr_content row = content \<and>
      mr_updated_at row = Some (ch_db_now ce)" by (simp add: own_message_def)
  with assms row show ?thesis
    by (auto simp: update_message_def Let_def split: option.splits if_splits)
qed

lemma edit_effect:
  "(case edit_message e req a of
      (Inl err, a') \<Rightarrow> a' = a
    | (Inr resp, a') \<Rightarrow>
        (\<exists>m \<in> set (c_messages (ap_chat a)). own_message (em_message_id req) (em_sender_id req) m \<and>
           m_created_at m \<le> se_now (ae_svc e) \<and> se_now (ae_svc e) - m_created_at m < 901 * 1000000000) \<and>
        (\<exists>b \<in> set (d_broadcasts (w_db (ap_world a))). b_id b = em_broadcast_id req \<and> b_status b = Active) \<and>
        c_messages (ap_chat a') = map (\<lambda>m. if own_message (em_message_id req) (em_sender_id req) m
           then m\<lparr>m_content := em_content req, m_updated_at := Some (ch_db_now (ae_chat e))\<rparr> else m) (c_messages (ap_chat a)) \<and>
        mg_id resp = em_message_id req \<and> mg_content resp = em_content req \<and> mg_is_edited resp \<and>
        ap_tasks a' = ap_tasks a @ [InvalidateChat (em_broadcast_id req)] \<and>
        w_published (ap_world a') = w_published (ap_world a) @
          publish_to_room (se_codec (ae_svc e)) (se_bridge (ae_svc e)) (em_broadcast_id req)
            (payload_new EditedMessage (message_json e resp)))"
proof (cases "edit_message e req a")
  case (Pair r a')
  show ?thesis
  proof (cases r)
    case (Inl err)
    have "edit_message e req a = (Inl err, a')" using Pair Inl by simp
    then have "a' = a"
      unfolding edit_message_def Let_def svc_err svc_ok
      by (auto elim!: hit_found dest!: update_message_cases simp: ok_or_def)
    with Pair Inl show ?thesis by simp
  next
    case (Inr resp)
    have "edit_message e req a = (Inr resp, a')" using Pair Inr by simp
    then obtain msg row cd where f: "find_message_by_id (ae_chat e) (w_db (ap_world a)) (em_message_id req) (ap_chat a) = Inr (Some msg)"
      and act: "list_ex (\<lambda>b. b_id b = em_broadcast_id req \<and> b_status b = Active \<and> b_end_time b = None \<and> b_deleted_at b = None)
          (d_broadcasts (w_db (ap_world a)))"
      and s: "em_sender_id req = mr_sender_id msg" and w: "can_be_edited (se_now (ae_svc e)) msg"
      and u: "update_message (ae_chat e) (w_db (ap_world a)) (em_message_id req) (em_sender_id req) (em_content req) (ap_chat a)
          = (Inr (Some row), cd)"
      and resp: "resp = message_response row"
      and a': "a' = set_world (\<lambda>w. w\<lparr>w_published := w_published w @
          publish_to_room (se_codec (ae_svc e)) (se_bridge (ae_svc e)) (em_broadcast_id req)
            (payload_new EditedMessage (message_json e resp))\<rparr>)
          (a\<lparr>ap_chat := cd, ap_tasks := ap_tasks a @ [InvalidateChat (em_broadcast_id req)]\<rparr>)"
      unfolding edit_message_def Let_def svc_ok
      by (auto simp: is_active_broadcast_def ok_or_def split: option.splits)
    from f s obtain m where m: "m \<in> set (c_messages (ap_chat a))" "own_message (em_message_id req) (em_sender_id req) m"
        "mr_created_at msg = m_created_at m" "\<exists>x. first_row (join_sender (d_users (w_db (ap_world a))) m) = Some x"
      by (rule hit_found)
    have t: "m_created_at m \<le> se_now (ae_svc e) \<and> se_now (ae_svc e) - m_created_at m < 901 * 1000000000"
      using w m(3) by (auto simp: can_be_edited_def CHAT_MESSAGE_EDIT_WINDOW_SECONDS_def split: if_splits)
    have act': "\<exists>b \<in> set (d_broadcasts (w_db (ap_world a))). b_id b = em_broadcast_id req \<and> b_status b = Active"
      using act by (auto simp: list_ex_iff)
    show ?thesis
      using Pair Inr update_message_cases [OF u m(1,2,4)] m t act' a' resp
      by (auto simp: message_response_def)
  qed
qed

text \<open>An edit that is accepted rewrites the text and the edit time of the named message and nothing else,
  was asked for by its sender, less than 901 seconds after it was posted, while the broadcast named in the request was
  running; the history cache of that broadcast is queued for invalidation and its room is told. A
  refused edit changes nothing.
\<close>

theorem edit_message_exact:
  "(case edit_message e req a of
      (Inl err, a') \<Rightarrow> a' = a
    | (Inr resp, a') \<Rightarrow>
        (\<exists>m \<in> set (c_messages (ap_chat a)). own_message (em_message_id req) (em_sender_id req) m \<and>
           m_created_at m \<le> se_now (ae_svc e) \<and> se_now (ae_svc e) - m_created_at m < 901 * 1000000000) \<and>
        (\<exists>b \<in> set (d_broadcasts (w_db (ap_world a))). b_id b = em_broadcast_id req \<and> b_status b = Active) \<and>
        c_messages (ap_chat a') = map (\<lambda>m. if own_message (em_message_id req) (em_sender_id req) m
           then m\<lparr>m_content := em_content req, m_updated_at := Some (ch_db_now (ae_chat e))\<rparr> else m) (c_messages (ap_chat a)) \<and>
        mg_id resp = em_message_id req \<and> mg_content resp = em_content req \<and> mg_is_edited resp \<and>
        ap_tasks a' = ap_tasks a @ [InvalidateChat (em_broadcast_id req)] \<and>
        w_published (ap_world a') = w_published (ap_world a) @
          publish_to_room (se_codec (ae_svc e)) (se_bridge (ae_svc e)) (em_broadcast_id req)
            (payload_new EditedMessage (message_json e resp)))"
  by (rule edit_effect)

lemma distinct_hit:
  "distinct (map m_id ms) \<Longrightarrow> length (filter (own_message i u) ms) \<noteq> 1 \<Longrightarrow> m \<in> set ms \<Longrightarrow> \<not> own_message i u m"
proof (induction ms)
  case (Cons x ms)
  have "filter (own_message i u) ms = []" if "own_message i u x"
  proof -
    have "m_id x \<notin> m_id ` set ms" using Cons.prems(1) by simp
    then have "\<not> own_message i u y" if "y \<in> set ms" for y
      using that \<open>own_message i u x\<close> by (metis own_message_def image_eqI)
    then show ?thesis by (simp add: filter_empty_conv)
  qed
  with Cons show ?case by (cases "own_message i u x") auto
qed simp

lemma delete_effect:
  assumes "distinct (map m_id (c_messages (ap_chat a)))"
  shows "(case delete_message e req a of
      (Inl err, a') \<Rightarrow> a' = a
    | (Inr _, a') \<Rightarrow>
        (\<exists>m \<in> set (c_messages (ap_chat a)). own_message (dm_message_id req) (dm_sender_id req) m) \<and>
        (\<forall>d b. dm_message_id req \<notin> mr_id ` set (shown_messages d b (ap_chat a'))) \<and>
        (\<forall>i < length (c_messages (ap_chat a)). m_id (c_messages (ap_chat a) ! i) \<noteq> dm_message_id req \<longrightarrow>
           c_messages (ap_chat a') ! i = c_messages (ap_chat a) ! i) \<and>
        ap_tasks a' = ap_tasks a @ [InvalidateChat (dm_broadcast_id req)] \<and>
        w_published (ap_world a') = w_published (ap_world a) @
          publish_to_room (se_codec (ae_svc e)) (se_bridge (ae_svc e)) (dm_broadcast_id req)
            (payload_deleted_message (se_codec (ae_svc e)) (dm_broadcast_id req) (dm_message_id req)))"
proof (cases "delete_message e req a")
  case (Pair r a')
  let ?own = "own_message (dm_message_id req) (dm_sender_id req)"
  let ?f = "\<lambda>m. if ?own m then m\<lparr>m_deleted_at := Some (ch_db_now (ae_chat e)), m_updated_at := Some (ch_db_now (ae_chat e))\<rparr> else m"
  note sd = soft_delete_message_def
  show ?thesis
  proof (cases r)
    case (Inl err)
    have d: "delete_message e req a = (Inl err, a')" using Pair Inl by simp
    have same: "map ?f (c_messages (ap_chat a)) = c_messages (ap_chat a)"
      if "length (filter ?own (c_messages (ap_chat a))) \<noteq> 1"
      using distinct_hit [OF assms that] by (intro map_idI) auto
    have "a' = a"
      using d same unfolding delete_message_def svc_err svc_ok
      by (auto simp: sd split: option.splits)
    with Pair Inl show ?thesis by simp
  next
    case (Inr u)
    have "delete_message e req a = (Inr u, a')" using Pair Inr by simp
    then have n: "length (filter ?own (c_messages (ap_chat a))) = 1"
      and cd: "ap_chat a' = (ap_chat a)\<lparr>c_messages := map ?f (c_messages (ap_chat a))\<rparr>"
      and t: "ap_tasks a' = ap_tasks a @ [InvalidateChat (dm_broadcast_id req)]"
      and p: "w_published (ap_world a') = w_published (ap_world a) @
          publish_to_room (se_codec (ae_svc e)) (se_bridge (ae_svc e)) (dm_broadcast_id req)
            (payload_deleted_message (se_codec (ae_svc e)) (dm_broadcast_id req) (dm_message_id req))"
      unfolding delete_message_def svc_ok
      by (auto simp: sd split: option.splits)
    from n have "filter ?own (c_messages (ap_chat a)) \<noteq> []" by auto
    then obtain m where m: "m \<in> set (c_messages (ap_chat a))" "?own m" by (auto simp: filter_empty_conv)
    have only: "?own x" if "x \<in> set (c_messages (ap_chat a))" "m_id x = dm_message_id req" for x
    proof -
      from m that have "m_id x = m_id m" by (simp add: own_message_def)
      with m(1) that(1) assms have "x = m" by (metis distinct_map inj_on_eq_iff)
      with m(2) show ?thesis by simp
    qed
    have "dm_message_id req \<notin> mr_id ` set (shown_messages d b (ap_chat a'))" for d b
    proof
      assume "dm_message_id req \<in> mr_id ` set (shown_messages d b (ap_chat a'))"
      then obtain y row where y: "y \<in> set (c_messages (ap_chat a'))" "m_deleted_at y = None" "m_id y = dm_message_id req"
        by (fastforce simp: shown_messages_def join_live_sender_def dest: join_rowD)
      from y(1) cd obtain x where "x \<in> set (c_messages (ap_chat a))" "y = ?f x" by auto
      with y only [of x] show False by (auto split: if_splits)
    qed
    moreover have "c_messages (ap_chat a') ! i = c_messages (ap_chat a) ! i"
      if "i < length (c_messages (ap_chat a))" "m_id (c_messages (ap_chat a) ! i) \<noteq> dm_message_id req" for i
      using that cd by (simp add: own_message_def)
    ultimately show ?thesis using Pair Inr m t p by auto
  qed
qed

text \<open>
  A deletion that is accepted marks the named message of the sender, which is then in no listing of any
  broadcast, leaves every other message alone, queues the invalidation and tells the room; a refused
  one changes nothing.
\<close>

theorem delete_message_exact:
  assumes "distinct (map m_id (c_messages (ap_chat a)))"
  shows "(case delete_message e req a of
      (Inl err, a') \<Rightarrow> a' = a
    | (Inr _, a') \<Rightarrow>
        (\<exists>m \<in> set (c_messages (ap_chat a)). own_message (dm_message_id req) (dm_sender_id req) m) \<and>
        (\<forall>d b. dm_message_id req \<notin> mr_id ` set (shown_messages d b (ap_chat a'))) \<and>
        (\<forall>i < length (c_messages (ap_chat a)). m_id (c_messages (ap_chat a) ! i) \<noteq> dm_message_id req \<longrightarrow>
           c_messages (ap_chat a') ! i = c_messages (ap_chat a) ! i) \<and>
        ap_tasks a' = ap_tasks a @ [InvalidateChat (dm_broadcast_id req)] \<and>
        w_published (ap_world a') = w_published (ap_world a) @
          publish_to_room (se_codec (ae_svc e)) (se_bridge (ae_svc e)) (dm_broadcast_id req)
            (payload_deleted_message (se_codec (ae_svc e)) (dm_broadcast_id req) (dm_message_id req)))"
  by (rule delete_effect [OF assms])

theorem delete_message_exact_witness:
  "\<exists>a'. delete_message demo_chat_env \<lparr>dm_broadcast_id = 7, dm_message_id = 31, dm_sender_id = 1\<rparr> demo_app = (Inr (), a') \<and>
     31 \<notin> mr_id ` set (shown_messages demo_db 7 (ap_chat a'))"
proof -
  let ?r = "\<lparr>dm_broadcast_id = 7, dm_message_id = 31, dm_sender_id = 1\<rparr> :: delete_message_request"
  have d: "distinct (map m_id (c_messages (ap_chat demo_app)))"
    by (simp add: demo_app_def demo_chat_def demo_message_def)
  have "\<not> isl (fst (delete_message demo_chat_env ?r demo_app))" by code_simp
  from run_succeeds [OF this] obtain a' where "delete_message demo_chat_env ?r demo_app = (Inr (), a')" by auto
  with delete_message_exact [OF d, of ?r demo_chat_env] show ?thesis by auto
qed

section \<open>The log\<close>

text \<open>
  What every request keeps of the table of messages: rows stay where they are with their id, sender,
  broadcast and time, a deleted row stays exactly as it is, ids are unique and texts have 1 to 256
  characters.
\<close>

definition kept_message :: "chat_message \<Rightarrow> chat_message \<Rightarrow> bool" where
  "kept_message m m' \<longleftrightarrow> m_id m' = m_id m \<and> m_sender_id m' = m_sender_id m \<and> m_broadcast_id m' = m_broadcast_id m \<and>
     m_created_at m' = m_created_at m \<and> (m_deleted_at m \<noteq> None \<longrightarrow> m' = m)"

definition log_grows :: "chat_db \<Rightarrow> chat_db \<Rightarrow> bool" where
  "log_grows cd cd' \<longleftrightarrow> length (c_messages cd) \<le> length (c_messages cd') \<and>
     (\<forall>i < length (c_messages cd). kept_message (c_messages cd ! i) (c_messages cd' ! i))"

definition chat_inv :: "chat_db \<Rightarrow> bool" where
  "chat_inv cd \<longleftrightarrow> distinct (map m_id (c_messages cd)) \<and> (\<forall>m \<in> set (c_messages cd). content_ok 256 (m_content m))"

definition log_kept :: "chat_db \<Rightarrow> chat_db \<Rightarrow> bool" where
  "log_kept cd cd' \<longleftrightarrow> log_grows cd cd' \<and> (chat_inv cd \<longrightarrow> chat_inv cd')"

lemma kept_refl [simp]: "kept_message m m" by (simp add: kept_message_def)

lemma kept_trans: "kept_message l m \<Longrightarrow> kept_message m n \<Longrightarrow> kept_message l n"
  by (auto simp: kept_message_def)

lemma log_grows_trans:
  assumes "log_grows cd1 cd2" and "log_grows cd2 cd3"
  shows "log_grows cd1 cd3"
  unfolding log_grows_def
proof (intro conjI allI impI)
  show "length (c_messages cd1) \<le> length (c_messages cd3)"
    using assms by (auto simp: log_grows_def)
  fix i assume "i < length (c_messages cd1)"
  moreover from this have "i < length (c_messages cd2)" using assms(1) by (auto simp: log_grows_def)
  ultimately show "kept_message (c_messages cd1 ! i) (c_messages cd3 ! i)"
    using assms kept_trans by (metis log_grows_def)
qed

lemma log_kept_refl [simp]: "log_kept cd cd" by (simp add: log_kept_def log_grows_def)

lemma log_kept_trans: "log_kept cd1 cd2 \<Longrightarrow> log_kept cd2 cd3 \<Longrightarrow> log_kept cd1 cd3"
  by (auto simp: log_kept_def intro: log_grows_trans)

lemma log_kept_map:
  assumes "\<And>m. kept_message m (f m)"
    and "\<And>m. m \<in> set (c_messages cd) \<Longrightarrow> content_ok 256 (m_content m) \<Longrightarrow> content_ok 256 (m_content (f m))"
  shows "log_kept cd (cd\<lparr>c_messages := map f (c_messages cd)\<rparr>)"
proof -
  have ids: "map m_id (map f (c_messages cd)) = map m_id (c_messages cd)"
    using assms(1) by (simp add: kept_message_def)
  have grows: "log_grows cd (cd\<lparr>c_messages := map f (c_messages cd)\<rparr>)"
    using assms(1) by (simp add: log_grows_def)
  show ?thesis unfolding log_kept_def chat_inv_def
    using grows assms(2) by (auto simp del: map_map simp add: ids)
qed

lemma log_kept_append:
  "m_id m \<notin> m_id ` set (c_messages cd) \<Longrightarrow> content_ok 256 (m_content m) \<Longrightarrow>
     log_kept cd (cd\<lparr>c_messages := c_messages cd @ [m]\<rparr>)"
  by (auto simp: log_kept_def log_grows_def chat_inv_def nth_append)

lemma answer_errors_chat: "ap_chat (answer_errors e u b ec r) = ap_chat (snd r)"
  by (simp add: answer_errors_def split: prod.split sum.split)

lemma log_kept_same: "c_messages cd' = c_messages cd \<Longrightarrow> log_kept cd cd'"
  by (simp add: log_kept_def log_grows_def chat_inv_def)

lemma send_log_kept:
  assumes "content_ok 256 (sm_content req)"
  shows "log_kept (ap_chat a) (ap_chat (snd (send_message e req a)))"
proof (cases "send_message e req a")
  case (Pair r a')
  with send_effect [where e = e and req = req and a = a] have
    "a' = a \<or> c_messages (ap_chat a') = c_messages (ap_chat a) @
        [new_message (ae_chat e) (sm_broadcast_id req) (sm_sender_id req) (sm_content req)] \<and>
       ch_new_id (ae_chat e) \<notin> m_id ` set (c_messages (ap_chat a))"
    by (cases r) auto
  with assms Pair log_kept_append [of "new_message (ae_chat e) (sm_broadcast_id req) (sm_sender_id req) (sm_content req)" "ap_chat a"]
  show ?thesis
    by (auto simp: new_message_def log_kept_def log_grows_def chat_inv_def)
qed

lemma edit_log_kept:
  assumes "content_ok 256 (em_content req)"
  shows "log_kept (ap_chat a) (ap_chat (snd (edit_message e req a)))"
proof (cases "edit_message e req a")
  case (Pair r a')
  let ?f = "\<lambda>m. if own_message (em_message_id req) (em_sender_id req) m
      then m\<lparr>m_content := em_content req, m_updated_at := Some (ch_db_now (ae_chat e))\<rparr> else m"
  from Pair edit_effect [where e = e and req = req and a = a] have
    "a' = a \<or> c_messages (ap_chat a') = map ?f (c_messages (ap_chat a))"
    by (cases r) auto
  moreover have "log_kept (ap_chat a) ((ap_chat a)\<lparr>c_messages := map ?f (c_messages (ap_chat a))\<rparr>)"
    using assms by (intro log_kept_map) (simp_all add: kept_message_def own_message_def)
  ultimately show ?thesis using Pair log_kept_same log_kept_trans by fastforce
qed

lemma delete_log_kept: "log_kept (ap_chat a) (ap_chat (snd (delete_message e req a)))"
proof -
  let ?f = "\<lambda>m. if own_message (dm_message_id req) (dm_sender_id req) m
      then m\<lparr>m_deleted_at := Some (ch_db_now (ae_chat e)), m_updated_at := Some (ch_db_now (ae_chat e))\<rparr> else m"
  obtain r a' where d: "delete_message e req a = (r, a')" by fastforce
  have "ap_chat a' = ap_chat a \<or> ap_chat a' = (ap_chat a)\<lparr>c_messages := map ?f (c_messages (ap_chat a))\<rparr>"
  proof (cases r)
    case (Inl err)
    have "delete_message e req a = (Inl err, a')" using d Inl by simp
    then show ?thesis unfolding delete_message_def svc_err svc_ok
      by (auto simp: soft_delete_message_def split: option.splits)
  next
    case (Inr u)
    have "delete_message e req a = (Inr u, a')" using d Inr by simp
    then show ?thesis unfolding delete_message_def svc_ok
      by (auto simp: soft_delete_message_def split: option.splits)
  qed
  moreover have "log_kept (ap_chat a) ((ap_chat a)\<lparr>c_messages := map ?f (c_messages (ap_chat a))\<rparr>)"
    by (intro log_kept_map) (simp_all add: kept_message_def own_message_def)
  ultimately show ?thesis using d by auto
qed

lemma reaction_log_kept: "log_kept (ap_chat a) (ap_chat (snd (send_reaction e req a)))"
proof -
  have "c_messages (snd (create_reaction ce d b u content cd)) = c_messages cd" for ce d b u content cd
    by (simp add: create_reaction_def Let_def split: option.split)
  note cr = this
  obtain r a' where d: "send_reaction e req a = (r, a')" by fastforce
  have "c_messages (ap_chat a') = c_messages (ap_chat a)"
  proof (cases r)
    case (Inl err)
    have "send_reaction e req a = (Inl err, a')" using d Inl by simp
    then show ?thesis unfolding send_reaction_def svc_err svc_ok
      by (auto dest!: arg_cong [where f = "\<lambda>x. c_messages (snd x)"] simp: cr)
  next
    case (Inr x)
    have "send_reaction e req a = (Inr x, a')" using d Inr by simp
    then show ?thesis unfolding send_reaction_def svc_ok
      by (auto dest!: arg_cong [where f = "\<lambda>x. c_messages (snd x)"] simp: cr)
  qed
  with d show ?thesis by (simp add: log_kept_same)
qed

lemma handler_log_kept:
  "log_kept (ap_chat a) (ap_chat (handle_ws_send_message e sm a))"
  "log_kept (ap_chat a) (ap_chat (handle_ws_edit_message e em a))"
  "log_kept (ap_chat a) (ap_chat (handle_ws_delete_message e dm a))"
  "log_kept (ap_chat a) (ap_chat (handle_ws_send_reaction e sr a))"
  by (simp_all add: handle_ws_send_message_def handle_ws_edit_message_def handle_ws_delete_message_def
      handle_ws_send_reaction_def handle_validation_error_def answer_errors_chat send_log_kept edit_log_kept
      delete_log_kept reaction_log_kept)

end
