(* ===== verification/Chat_History.thy ===== *)
theory Chat_History
  imports Chat_Properties
begin

text \<open>
  Reading the chat: the history as a keyset feed, what invalidation removes from the cache, and that a
  restarted broadcast has no chat.
\<close>

section \<open>The history as a feed\<close>

lemma sort_key_map: "sort_key f (map g xs) = map g (sort_key (\<lambda>x. f (g x)) xs)"
proof (induction xs)
  case (Cons x xs)
  have "insort_key f (g x) (map g ys) = map g (insort_key (\<lambda>x. f (g x)) x ys)" for ys
    by (induction ys) auto
  with Cons show ?case by simp
qed simp

lemma sql_order_by_map: "sql_order_by dir f (map g xs) = map g (sql_order_by dir (\<lambda>x. f (g x)) xs)"
  by (simp add: sql_order_by_def sort_key_map rev_map)

lemma message_response_key [simp]:
  "mg_created_at (message_response r) = mr_created_at r" "mg_id (message_response r) = mr_id r"
  by (simp_all add: message_response_def)

lemma response_cursor:
  "push_cursor_condition mr_created_at mr_id x y ord =
     (\<lambda>r. push_cursor_condition mg_created_at mg_id x y ord (message_response r))"
  by (cases x; cases y) (simp_all add: push_cursor_condition_def fun_eq_iff)

lemma response_page:
  "map message_response (push_order_and_limit mr_created_at mr_id ord n
      (filter (push_cursor_condition mr_created_at mr_id x y ord) rows)) =
   push_order_and_limit mg_created_at mg_id ord n
      (filter (push_cursor_condition mg_created_at mg_id x y ord) (map message_response rows))"
  by (simp add: push_order_and_limit_def sql_order_by_map take_map filter_map response_cursor comp_def)

definition history_query :: "uuid \<Rightarrow> int option \<Rightarrow> cursor option \<Rightarrow> chat_message_query" where
  "history_query b lim cur = \<lparr>cq_broadcast_id = b, cq_pagination = \<lparr>cp_cursor = cur, cp_limit = lim\<rparr>\<rparr>"

definition history_rows :: "uuid \<Rightarrow> app \<Rightarrow> chat_message_response list" where
  "history_rows b a = map message_response (shown_messages (w_db (ap_world a)) b (ap_chat a))"

lemma fetch_messages_feed:
  assumes "ch_fault (ae_chat e) SqlFindMessages = None"
  shows "fetch_messages e (history_query b lim cur) a =
     (case ts_feed (se_codec (ae_svc e), Desc, lim, mg_created_at, mg_id, history_rows b a) cur of
        Inl err \<Rightarrow> Inl (ChatCursor err) | Inr p \<Rightarrow> Inr p)"
proof -
  have q: "chat_sql (ae_chat e) SqlFindMessages v = Inr v" for v
    using assms by simp
  show ?thesis
    by (cases cur) (auto simp: fetch_messages_def find_messages_def ts_feed_def history_query_def history_rows_def
        q response_page bind_res_def Let_def split: sum.splits prod.splits)
qed

text \<open>A listing has at most one row per message.\<close>

lemma join_at_most_one:
  "distinct (map (\<lambda>u. us_id (u_summary u)) us) \<Longrightarrow> length (join_sender us m) \<le> 1"
proof -
  assume "distinct (map (\<lambda>u. us_id (u_summary u)) us)"
  then have "length (filter (\<lambda>u. us_id (u_summary u) = i) us) \<le> 1" for i
  proof (induction us)
    case (Cons u us)
    then have "filter (\<lambda>v. us_id (u_summary v) = i) us = []" if "us_id (u_summary u) = i"
      using that by (auto simp: filter_empty_conv) (metis image_eqI)
    with Cons show ?case by auto
  qed simp
  then show ?thesis by (simp add: join_sender_def)
qed

lemma joined_ids:
  assumes "distinct (map m_id ms)" and "distinct (map (\<lambda>u. us_id (u_summary u)) us)"
  shows "distinct (map mr_id (concat (map (join_sender us) ms)))"
  using assms(1)
proof (induction ms)
  case (Cons m ms)
  from join_at_most_one [OF assms(2), of m] have one: "distinct (map mr_id (join_sender us m))"
    by (cases "join_sender us m") auto
  have disj: "A \<inter> B = {}" if "A \<subseteq> {x}" "B \<subseteq> S" "x \<notin> S" for A B S :: "uuid set" and x using that by blast
  have "mr_id ` set (join_sender us m) \<inter> mr_id ` set (concat (map (join_sender us) ms)) = {}"
  proof (rule disj)
    show "mr_id ` set (join_sender us m) \<subseteq> {m_id m}" by (auto dest: join_rowD)
    show "mr_id ` set (concat (map (join_sender us) ms)) \<subseteq> m_id ` set ms" by (force dest: join_rowD)
    show "m_id m \<notin> m_id ` set ms" using Cons.prems by simp
  qed
  with one Cons show ?case by (simp del: set_concat)
qed simp

lemma distinct_filter_map: "distinct (map f xs) \<Longrightarrow> distinct (map f (filter p xs))"
  by (simp add: distinct_map inj_on_def)

lemma shown_ids:
  assumes "distinct (map m_id (c_messages cd))" and "distinct (map (\<lambda>u. us_id (u_summary u)) (d_users d))"
  shows "distinct (map mr_id (shown_messages d b cd))"
proof -
  have j: "join_live_sender us = join_sender (filter (\<lambda>u. u_deleted_at u = None) us)" for us
    by (simp add: join_live_sender_def fun_eq_iff)
  show ?thesis unfolding shown_messages_def j
    by (intro joined_ids distinct_filter_map assms)
qed

lemma shown_created: "r \<in> set (shown_messages d b cd) \<Longrightarrow> mr_created_at r \<in> m_created_at ` set (c_messages cd)"
  by (force simp: shown_messages_def join_live_sender_def dest: join_rowD)

definition history_ok :: "app_env \<Rightarrow> app \<Rightarrow> bool" where
  "history_ok e a \<longleftrightarrow> codec_laws (se_codec (ae_svc e)) \<and> ch_fault (ae_chat e) SqlFindMessages = None \<and>
     distinct (map m_id (c_messages (ap_chat a))) \<and> distinct (map (\<lambda>u. us_id (u_summary u)) (d_users (w_db (ap_world a)))) \<and>
     (\<forall>m \<in> set (c_messages (ap_chat a)). ts_ok (se_codec (ae_svc e)) (m_created_at m))"

lemma history_feed_invar:
  assumes "history_ok e a"
  shows "ts_feed_invar (se_codec (ae_svc e), Desc, lim, mg_created_at, mg_id, history_rows b a)"
proof -
  have "distinct (map mr_id (shown_messages (w_db (ap_world a)) b (ap_chat a)))"
    using shown_ids assms by (simp add: history_ok_def)
  then have "distinct (map snd (map (\<lambda>r. (mr_created_at r, mr_id r)) (shown_messages (w_db (ap_world a)) b (ap_chat a))))"
    by (simp add: comp_def)
  then have "distinct (map (\<lambda>r. (mr_created_at r, mr_id r)) (shown_messages (w_db (ap_world a)) b (ap_chat a)))"
    by (metis distinct_map)
  moreover have "ts_ok (se_codec (ae_svc e)) (mg_created_at r)" if "r \<in> set (history_rows b a)" for r
    using that shown_created assms by (fastforce simp: history_rows_def history_ok_def)
  ultimately show ?thesis using assms by (simp add: history_ok_def ts_feed_invar_def history_rows_def comp_def)
qed

interpretation history: keyset_feed "\<lambda>(e, b, lim, a). history_ok e a"
    "\<lambda>(e, b, lim, a). ts_feed_rows (se_codec (ae_svc e), Desc, lim, mg_created_at, mg_id, history_rows b a)"
    "\<lambda>(e, b, lim, a). page_limit \<lparr>cp_cursor = None, cp_limit = lim\<rparr>"
    "\<lambda>(e, b, lim, a) r. from_timestamp_id (se_codec (ae_svc e)) (mg_created_at r) (mg_id r)"
    "\<lambda>(e, b, lim, a) cur. fetch_messages e (history_query b lim cur) a"
proof (unfold_locales, goal_cases)
  case (1 t)
  then show ?case using page_limit_small by (auto split: prod.splits)
next
  case (2 t)
  obtain e b lim a where t: "t = (e, b, lim, a)" by (cases t)
  from 2 have h: "history_ok e a" "ch_fault (ae_chat e) SqlFindMessages = None" by (auto simp: t history_ok_def)
  from ts.fetch_first [OF history_feed_invar [OF h(1)], of lim b] h(2) show ?case
    by (simp add: t fetch_messages_feed)
next
  case (3 t xs r ys)
  obtain e b lim a where t: "t = (e, b, lim, a)" by (cases t)
  from 3 have h: "history_ok e a" "ch_fault (ae_chat e) SqlFindMessages = None" by (auto simp: t history_ok_def)
  from 3(2) ts.fetch_next [OF history_feed_invar [OF h(1)], of lim b xs r ys] h(2) show ?case
    by (simp add: t fetch_messages_feed)
qed



section \<open>The cache of the history\<close>

lemma chat_glob:
  assumes "codec_laws c"
  shows "glob (chat_pattern c b) k \<longleftrightarrow> prefix (''chat:'' @ uuid_show c b @ '':msgs:'') k"
proof -
  have "plain_text (''chat:'' @ uuid_show c b @ '':msgs:'')"
    using codec_lawsD(4) [OF assms, of b] by (simp add: plain_text_def no_sep_def)
  from glob_prefix [OF this, of k] show ?thesis by (simp add: chat_pattern_def)
qed

lemma chat_key_prefix:
  assumes "codec_laws c"
  shows "prefix (''chat:'' @ uuid_show c b @ '':msgs:'') (chat_list_cache_key c b' cur lim) \<longleftrightarrow> b' = b"
proof -
  have "\<exists>rest. chat_list_cache_key c b' cur lim = ''chat:'' @ uuid_show c b' @ CHR '':'' # ''msgs:'' @ rest"
    by (auto simp: chat_list_cache_key_def Let_def split: option.split)
  then obtain rest where k: "chat_list_cache_key c b' cur lim = ''chat:'' @ uuid_show c b' @ CHR '':'' # ''msgs:'' @ rest" ..
  have "prefix (''chat:'' @ uuid_show c b @ '':msgs:'') (''chat:'' @ uuid_show c b' @ CHR '':'' # ''msgs:'' @ rest) \<longleftrightarrow> b = b'"
    using uuid_colon_inject [OF assms] by (auto simp: prefix_def)
  with k show ?thesis by auto
qed

text \<open>
  Invalidating the history of a broadcast is exact: the task removes the cached pages of that broadcast for
  every cursor and page size, and leaves those of other broadcasts and every other key.
\<close>

theorem chat_invalidation_exact:
  assumes "codec_laws (se_codec (ae_svc e))"
    and "scan_ok (chat_pattern (se_codec (ae_svc e)) b) k (se_scan (ae_svc e) (chat_pattern (se_codec (ae_svc e)) b))"
    and "\<forall>x. \<not> r_down (se_redis (ae_svc e)) ''UNLINK'' x"
  shows "run_app_task e (InvalidateChat b) k (chat_list_cache_key (se_codec (ae_svc e)) b' cur lim) =
       (if b' = b then None else k (chat_list_cache_key (se_codec (ae_svc e)) b' cur lim)) \<and>
     (\<not> prefix ''chat:'' x \<longrightarrow> run_app_task e (InvalidateChat b) k x = k x)"
proof -
  obtain n k' where d: "delete_by_pattern (se_redis (ae_svc e)) (se_scan (ae_svc e)) (chat_pattern (se_codec (ae_svc e)) b) k
       = Some (Inr n, k')"
    and k': "\<And>x. k' x = (if glob (chat_pattern (se_codec (ae_svc e)) b) x then None else k x)"
    using delete_by_pattern_exact [where scan = "se_scan (ae_svc e)", OF assms(2,3)] by blast
  have "run_app_task e (InvalidateChat b) k = k'" using d by simp
  with k' chat_glob [OF assms(1), of b] chat_key_prefix [OF assms(1), of b b' cur lim] show ?thesis
    by (auto simp: prefix_def)
qed

theorem chat_invalidation_exact_witness:
  "let page = (\<lambda>b. chat_list_cache_key plain_codec b None 20);
       env = demo_chat_env\<lparr>ae_svc := demo_env\<lparr>se_bridge := demo_bridge\<lparr>be_redis := up 0\<rparr>,
         se_scan := (\<lambda>_. [Inr (''0'', [page 7])])\<rparr>\<rparr>;
       k = run_app_task env (InvalidateChat 7) [page 7 \<mapsto> (RStr ''x'', None), page 8 \<mapsto> (RStr ''y'', None)]
   in k (page 7) = None \<and> k (page 8) = Some (RStr ''y'', None)"
proof -
  let ?page = "\<lambda>b. chat_list_cache_key plain_codec b None 20"
  let ?e = "demo_chat_env\<lparr>ae_svc := demo_env\<lparr>se_bridge := demo_bridge\<lparr>be_redis := up 0\<rparr>,
     se_scan := (\<lambda>_. [Inr (''0'', [?page 7])])\<rparr>\<rparr>"
  let ?k = "[?page 7 \<mapsto> (RStr ''x'', None), ?page 8 \<mapsto> (RStr ''y'', None)] :: keyspace"
  have c: "se_codec demo_env = plain_codec" by (simp add: demo_env_def)
  have m: "glob (chat_pattern plain_codec 7) (?page b) \<longleftrightarrow> b = 7" for b
    by (simp only: chat_glob [OF plain_codec_laws] chat_key_prefix [OF plain_codec_laws])
  have "(7 :: uuid) \<noteq> 8" by simp
  with m [of 7] m [of 8] have "scan_ok (chat_pattern plain_codec 7) ?k [Inr (''0'', [?page 7])]"
    unfolding scan_ok_def by (intro exI [of _ "[]"] exI [of _ "[?page 7]"]) (auto split: if_splits)
  then have s: "scan_ok (chat_pattern (se_codec (ae_svc ?e)) 7) ?k (se_scan (ae_svc ?e) (chat_pattern (se_codec (ae_svc ?e)) 7))"
    using c by (simp add: demo_chat_env_def)
  have r: "\<forall>x. \<not> r_down (se_redis (ae_svc ?e)) ''UNLINK'' x" by simp
  have "?page 7 \<noteq> ?page 8" using m [of 7] m [of 8] by auto
  with chat_invalidation_exact [OF _ s r, of 7 None 20 "[]"] chat_invalidation_exact [OF _ s r, of 8 None 20 "[]"] c plain_codec_laws
  show ?thesis unfolding Let_def by simp
qed

section \<open>Restarted broadcasts\<close>

text \<open>
  A restarted broadcast has no chat: starting keeps the end time of the previous run, and posting asks for a
  broadcast without one, so every message to it is refused as not live although it is running.
\<close>

theorem restarted_chat_closed:
  assumes "broadcast_start s i u w = (Inr r, w')" and "repo_inv (w_db w)"
    and "live_row (w_db w) i = Some row" and "b_end_time row = Some t"
    and "ap_world a = w'" and "sm_broadcast_id req = i"
    and "ch_fault (ae_chat e) SqlIsActiveBroadcast = None" and "ch_fault (ae_chat e) SqlIsParticipant = None"
  shows "owned (w_db w') i u True \<and> send_message e req a = (Inl BroadcastNotLive, a)"
proof -
  from assms(1) obtain row' b d1 where row: "live_row (w_db w) i = Some row'" "b_creator_id row' = u"
    and act: "repo_set_active (se_repo s)
        \<lparr>si_broadcast_id = i, si_broadcast_token = bs_token r, si_start_time = se_now s\<rparr> (w_db w) = (Inr b, d1)"
    and up: "repo_upsert_participant (se_repo s)
        \<lparr>pi_broadcast_id = i, pi_participant_id = u, pi_role = Host, pi_joined_at = se_now s\<rparr> d1 = (Inr (), w_db w')"
    by (rule start_ok)
  note b = set_active_row [OF assms(2) row(1) act]
  have inv: "repo_inv (w_db w')"
    using repo_inv_upsert [OF repo_inv_set_active [OF assms(2) act] up] .
  from b(2) have "live_row d1 i = Some b" by simp
  from upsert_live_row [OF up this] obtain x where x: "live_row (w_db w') i = Some x" "same_show b x" by auto
  from x(2) b(1) row assms(3,4) have f: "b_status x = Active" "b_creator_id x = u" "b_end_time x = Some t"
    by (auto simp: same_show_fields [OF x(2)])
  have "is_active_broadcast (ae_chat e) (w_db w') i = Inr False"
    using row_unique [OF inv x(1)] f(3) assms(7)
    by (force simp: is_active_broadcast_def list_ex_iff)
  moreover obtain p where "is_broadcast_participant (ae_chat e) (w_db w') i v = Inr (p v)" for v
    using assms(8) by (simp add: is_broadcast_participant_def)
  ultimately show ?thesis
    using f(1,2) x(1) assms(5,6)
    by (simp add: send_message_def svc_bind_def chat_read_def svc_refuse_def owned_def is_active_def)
qed

theorem restarted_chat_closed_witness:
  "\<exists>w'. owned (w_db w') 7 1 True \<and>
     fst (send_message demo_chat_env \<lparr>sm_broadcast_id = 7, sm_sender_id = 1, sm_content = ''hi''\<rparr> (demo_app\<lparr>ap_world := w'\<rparr>))
       = Inl BroadcastNotLive"
proof -
  let ?w = "snd (broadcast_start demo_env 7 1 demo_busy)"
  let ?r = "\<lparr>sm_broadcast_id = 7, sm_sender_id = 1, sm_content = ''hi''\<rparr> :: send_message_request"
  from demo_busy_start obtain s where s: "broadcast_start demo_env 7 1 demo_busy = (Inr s, ?w)" ..
  have "owned (w_db ?w) 7 1 True \<and> send_message demo_chat_env ?r (demo_app\<lparr>ap_world := ?w\<rparr>)
      = (Inl BroadcastNotLive, demo_app\<lparr>ap_world := ?w\<rparr>)"
    by (rule restarted_chat_closed [OF s demo_busy_inv demo_busy_row]) (simp_all add: demo_chat_env_def)
  then show ?thesis by (intro exI [of _ ?w]) simp
qed

end
