(* ===== verification/Auth_Model.thy ===== *)
theory Auth_Model
  imports Broadcast_Errors
begin

text \<open>
  \<open>modules/auth/errors.rs\<close>, \<open>model.rs\<close> and \<open>dto.rs\<close>: errors and their answers, roles, providers
  and one-time-password kinds with their texts, the rows of \<open>users\<close>, \<open>user_identities\<close> and
  \<open>refresh_tokens\<close>, requests and responses. Validator attributes other than the password rule
  (\<open>validators.rs\<close>) are left out.
\<close>

section \<open>Errors\<close>

datatype auth_error =
    EmailTaken | InvalidCredentials | GoogleAccountConflict | EmailNotVerified | EmailAlreadyVerified
  | InvalidOtp | OtpAlreadyUsed | AccessTokenExpired | RefreshTokenExpired | InvalidToken | MissingToken
  | RefreshTokenNotFound | TokenCreationFailed | AuthUserNotFound | GoogleAuthFailed string | AuthTooManyRequests
  | AuthDatabase string | AuthRedis string | AuthInternal string | PasswordHash
  | AuthValidation "(string \<times> string list) list"

text \<open>The UTF-8 bytes of an em dash.\<close>

definition em_dash :: string where "em_dash = [CHR 0xE2, CHR 0x80, CHR 0x94]"

fun auth_error_text :: "auth_error \<Rightarrow> string" where
  "auth_error_text EmailTaken = ''Email already in use''"
| "auth_error_text InvalidCredentials = ''Invalid credentials''"
| "auth_error_text GoogleAccountConflict = ''Account registered with Google '' @ em_dash @ '' use Google sign-in''"
| "auth_error_text EmailNotVerified = ''Email not verified '' @ em_dash @ '' check your inbox''"
| "auth_error_text EmailAlreadyVerified = ''Email has already been verified''"
| "auth_error_text InvalidOtp = ''Invalid or expired OTP''"
| "auth_error_text OtpAlreadyUsed = ''OTP already used''"
| "auth_error_text AccessTokenExpired = ''Token expired '' @ em_dash @ '' please sign in again''"
| "auth_error_text RefreshTokenExpired = ''Refresh token expired '' @ em_dash @ '' please sign in again''"
| "auth_error_text InvalidToken = ''Invalid token''"
| "auth_error_text MissingToken = ''Missing or invalid token''"
| "auth_error_text RefreshTokenNotFound = ''Token not found '' @ em_dash @ '' please sign in again''"
| "auth_error_text TokenCreationFailed = ''Failed to create token''"
| "auth_error_text AuthUserNotFound = ''User not found''"
| "auth_error_text (GoogleAuthFailed e) = ''Google authentication failed: '' @ e"
| "auth_error_text AuthTooManyRequests = ''Too many requests. Please try again later.''"
| "auth_error_text (AuthDatabase e) = e"
| "auth_error_text (AuthRedis e) = e"
| "auth_error_text (AuthInternal e) = e"
| "auth_error_text PasswordHash = ''Failed to hash password''"
| "auth_error_text (AuthValidation errs) = ''Validation error''"

definition internal_error :: meno_response where
  "internal_error = error_response 500 ''INTERNAL_ERROR'' ''An internal error occurred''"

fun auth_into_response :: "auth_error \<Rightarrow> meno_response" where
  "auth_into_response EmailTaken = error_response 409 ''EMAIL_TAKEN'' (auth_error_text EmailTaken)"
| "auth_into_response InvalidCredentials =
     error_response 401 ''INVALID_CREDENTIALS'' (auth_error_text InvalidCredentials)"
| "auth_into_response GoogleAccountConflict =
     error_response 409 ''GOOGLE_ACCOUNT_CONFLICT'' (auth_error_text GoogleAccountConflict)"
| "auth_into_response EmailNotVerified =
     error_response 403 ''EMAIL_NOT_VERIFIED'' (auth_error_text EmailNotVerified)"
| "auth_into_response EmailAlreadyVerified =
     error_response 400 ''EMAIL_ALREADY_VERIFIED'' (auth_error_text EmailAlreadyVerified)"
| "auth_into_response InvalidOtp = error_response 400 ''INVALID_OTP'' (auth_error_text InvalidOtp)"
| "auth_into_response OtpAlreadyUsed = error_response 400 ''OTP_ALREADY_USED'' (auth_error_text OtpAlreadyUsed)"
| "auth_into_response AccessTokenExpired =
     error_response 401 ''ACCESS_TOKEN_EXPIRED'' (auth_error_text AccessTokenExpired)"
| "auth_into_response RefreshTokenExpired =
     error_response 401 ''REFRESH_TOKEN_EXPIRED'' (auth_error_text RefreshTokenExpired)"
| "auth_into_response InvalidToken = error_response 401 ''INVALID_TOKEN'' (auth_error_text InvalidToken)"
| "auth_into_response MissingToken = error_response 401 ''MISSING_TOKEN'' (auth_error_text MissingToken)"
| "auth_into_response RefreshTokenNotFound =
     error_response 401 ''REFRESH_TOKEN_NOT_FOUND'' (auth_error_text RefreshTokenNotFound)"
| "auth_into_response TokenCreationFailed =
     error_response 500 ''TOKEN_CREATION_FAILED'' (auth_error_text TokenCreationFailed)"
| "auth_into_response AuthUserNotFound = error_response 404 ''USER_NOT_FOUND'' (auth_error_text AuthUserNotFound)"
| "auth_into_response (GoogleAuthFailed e) =
     error_response 401 ''GOOGLE_AUTH_FAILED'' (auth_error_text (GoogleAuthFailed e))"
| "auth_into_response AuthTooManyRequests =
     error_response 429 ''TOO_MANY_REQUESTS'' (auth_error_text AuthTooManyRequests)"
| "auth_into_response (AuthDatabase e) = internal_error"
| "auth_into_response (AuthRedis e) = internal_error"
| "auth_into_response (AuthInternal e) = internal_error"
| "auth_into_response PasswordHash = internal_error"
| "auth_into_response (AuthValidation errs) = validation_error_response errs"

section \<open>Roles, providers, passwords\<close>

datatype user_role = UserRole | AdminRole
datatype auth_provider = EmailProvider | GoogleProvider | AppleProvider | FacebookProvider
datatype otp_type = VerifyEmail | ResetPassword

fun provider_text :: "auth_provider \<Rightarrow> string" where
  "provider_text EmailProvider = ''email''"
| "provider_text GoogleProvider = ''google''"
| "provider_text AppleProvider = ''apple''"
| "provider_text FacebookProvider = ''facebook''"

definition provider_from_str :: "string \<Rightarrow> auth_provider option" where
  "provider_from_str s =
     (if s = ''email'' then Some EmailProvider else if s = ''google'' then Some GoogleProvider
      else if s = ''apple'' then Some AppleProvider else if s = ''facebook'' then Some FacebookProvider else None)"

fun otp_type_text :: "otp_type \<Rightarrow> string" where
  "otp_type_text VerifyEmail = ''verify_email''"
| "otp_type_text ResetPassword = ''reset_password''"

lemma provider_roundtrip [simp]: "provider_from_str (provider_text p) = Some p"
  by (cases p) (simp_all add: provider_from_str_def)

lemma provider_text_inject [simp]: "provider_text p = provider_text q \<longleftrightarrow> p = q"
  by (cases p; cases q) simp_all

text \<open>\<open>lower\<close> and \<open>upper\<close>: the text has a character of Unicode property Lowercase, Uppercase.\<close>

definition validate_password :: "(string \<Rightarrow> bool) \<Rightarrow> (string \<Rightarrow> bool) \<Rightarrow> string \<Rightarrow> string list" where
  "validate_password lower upper password =
     (if length password < 8 then [''Password must be at least 8 characters''] else []) @
     (if 128 < length password then [''Password is too long''] else []) @
     (if lower password then [] else [''Password must contain at least one lowercase letter'']) @
     (if upper password then [] else [''Password must contain at least one uppercase letter''])"

section \<open>Rows\<close>

record auth_user =
  au_id :: uuid
  au_full_name :: string
  au_bio :: "string option"
  au_email :: string
  au_avatar_id :: "string option"
  au_avatar_url :: "string option"
  au_verified :: bool
  au_role :: user_role
  au_created_at :: timestamp
  au_updated_at :: timestamp
  au_deleted_at :: "timestamp option"

text \<open>\<open>provider_type\<close> is a text column; the service compares its text.\<close>

record user_identity =
  id_id :: uuid
  id_user_id :: uuid
  id_provider_type :: string
  id_provider_user_id :: string
  id_password_hash :: "string option"
  id_created_at :: timestamp
  id_updated_at :: "timestamp option"

record refresh_token =
  rf_id :: uuid
  rf_user_id :: uuid
  rf_token_hash :: string
  rf_created_at :: timestamp
  rf_expires_at :: timestamp

section \<open>Requests and responses\<close>

record register_request =
  rr_full_name :: string
  rr_email :: string
  rr_password :: string

record login_request =
  lg_email :: string
  lg_password :: string

record logout_request =
  lo_refresh_token :: string
  lo_access_token :: "string option"

record reset_password_request =
  rp_email :: string
  rp_code :: string
  rp_new_password :: string

record verify_email_request =
  ve_email :: string
  ve_code :: string

record user_response =
  ux_id :: uuid
  ux_full_name :: string
  ux_bio :: "string option"
  ux_email :: string
  ux_verified :: bool
  ux_avatar_id :: "string option"
  ux_avatar_url :: "string option"
  ux_created_at :: timestamp
  ux_deleted_at :: "timestamp option"
  ux_providers :: "auth_provider list"

record auth_response =
  ar_access_token :: string
  ar_refresh_token :: string
  ar_user :: user_response

end
