(* ===== verification/Auth_Repo.thy ===== *)
theory Auth_Repo
  imports Auth_Model
begin

text \<open>
  \<open>modules/auth/repository.rs\<close> over the tables of migration 0002 (and \<open>settings\<close> of 0009): every
  statement with its constraints, and the transactions and the batched clean-up built from them.
\<close>

section \<open>Tables\<close>

record auth_db =
  au_users :: "auth_user list"
  au_identities :: "user_identity list"
  au_settings :: "uuid list"
  au_tokens :: "refresh_token list"

datatype auth_stmt =
    AuthBegin | AuthCommit | InsertUser | InsertSettings | InsertIdentity | FindIdentity | FindByEmail | FindById
  | FindProviders | SetVerified | UpdatePassword | LinkProvider | StoreToken | FindToken | DeleteToken
  | RevokeToken | RevokeAllTokens | CleanTokens

text \<open>\<open>av_new_id st\<close> is the \<open>gen_random_uuid()\<close> of an inserting statement, \<open>av_db_now\<close> is \<open>NOW()\<close>.\<close>

record auth_env =
  av_db_now :: timestamp
  av_new_id :: "auth_stmt \<Rightarrow> uuid"
  av_fault :: "auth_stmt \<Rightarrow> string option"

type_synonym 'a auth_action = "auth_db \<Rightarrow> (auth_error + 'a) \<times> auth_db"

definition auth_unique_violation :: string where
  "auth_unique_violation = ''duplicate key value violates unique constraint''"
definition auth_fk_violation :: string where
  "auth_fk_violation = ''insert or update on table violates foreign key constraint''"

definition auth_sql :: "auth_env \<Rightarrow> auth_stmt \<Rightarrow> 'a \<Rightarrow> auth_error + 'a" where
  "auth_sql e st v = (case av_fault e st of Some err \<Rightarrow> Inl (AuthDatabase err) | None \<Rightarrow> Inr v)"

text \<open>A statement that writes: refused by a fault or a violated constraint, else its effect.\<close>

definition auth_exec :: "auth_env \<Rightarrow> auth_stmt \<Rightarrow> (auth_db \<Rightarrow> string option) \<Rightarrow> 'a \<Rightarrow> (auth_db \<Rightarrow> auth_db) \<Rightarrow> 'a auth_action" where
  "auth_exec e st violated v f d =
     (case av_fault e st of
        Some err \<Rightarrow> (Inl (AuthDatabase err), d)
      | None \<Rightarrow> (case violated d of Some err \<Rightarrow> (Inl (AuthDatabase err), d) | None \<Rightarrow> (Inr v, f d)))"

definition auth_then :: "'a auth_action \<Rightarrow> ('a \<Rightarrow> 'b auth_action) \<Rightarrow> 'b auth_action" where
  "auth_then m f d = (case m d of (Inl err, d1) \<Rightarrow> (Inl err, d1) | (Inr v, d1) \<Rightarrow> f v d1)"

definition auth_tx :: "auth_env \<Rightarrow> 'a auth_action \<Rightarrow> 'a auth_action" where
  "auth_tx e body d =
     (case auth_sql e AuthBegin () of
        Inl err \<Rightarrow> (Inl err, d)
      | Inr _ \<Rightarrow>
          (case body d of
             (Inl err, _) \<Rightarrow> (Inl err, d)
           | (Inr v, d1) \<Rightarrow> (case auth_sql e AuthCommit () of Inl err \<Rightarrow> (Inl err, d) | Inr _ \<Rightarrow> (Inr v, d1))))"

text \<open>A \<open>TIMESTAMPTZ(3)\<close> column keeps milliseconds, rounded from the microseconds it is sent.\<close>

definition timestamptz3 :: "timestamp \<Rightarrow> timestamp" where
  "timestamptz3 t =
     (if 0 \<le> t then (t div 1000 + 500) div 1000 * 1000000 else - ((- t div 1000 + 500) div 1000 * 1000000))"

section \<open>Users and identities\<close>

definition new_user :: "auth_env \<Rightarrow> string \<Rightarrow> string \<Rightarrow> auth_user" where
  "new_user e full_name email =
     \<lparr>au_id = av_new_id e InsertUser, au_full_name = full_name, au_bio = None, au_email = email, au_avatar_id = None,
      au_avatar_url = None, au_verified = False, au_role = UserRole, au_created_at = av_db_now e,
      au_updated_at = av_db_now e, au_deleted_at = None\<rparr>"

definition create_user :: "auth_env \<Rightarrow> string \<Rightarrow> string \<Rightarrow> auth_user auth_action" where
  "create_user e full_name email =
     (let u = new_user e full_name email
      in auth_tx e
        (auth_then (auth_exec e InsertUser
           (\<lambda>d. if au_id u \<in> au_id ` set (au_users d) \<or> email \<in> au_email ` set (au_users d)
                then Some auth_unique_violation else None) ()
           (\<lambda>d. d\<lparr>au_users := au_users d @ [u]\<rparr>)) (\<lambda>_.
         auth_then (auth_exec e InsertSettings
           (\<lambda>d. if au_id u \<in> set (au_settings d) then Some auth_unique_violation else None) ()
           (\<lambda>d. d\<lparr>au_settings := au_settings d @ [au_id u]\<rparr>)) (\<lambda>_.
         Pair (Inr u)))))"

definition has_user :: "auth_db \<Rightarrow> uuid \<Rightarrow> bool" where
  "has_user d i \<longleftrightarrow> i \<in> au_id ` set (au_users d)"

definition same_account :: "string \<Rightarrow> string \<Rightarrow> user_identity \<Rightarrow> bool" where
  "same_account provider provider_user_id i \<longleftrightarrow>
     id_provider_type i = provider \<and> id_provider_user_id i = provider_user_id"

definition new_identity ::
    "auth_env \<Rightarrow> auth_stmt \<Rightarrow> uuid \<Rightarrow> auth_provider \<Rightarrow> string \<Rightarrow> string option \<Rightarrow> user_identity" where
  "new_identity e st user_id provider provider_user_id password_hash =
     \<lparr>id_id = av_new_id e st, id_user_id = user_id, id_provider_type = provider_text provider,
      id_provider_user_id = provider_user_id, id_password_hash = password_hash,
      id_created_at = av_db_now e, id_updated_at = None\<rparr>"

definition create_identity ::
    "auth_env \<Rightarrow> uuid \<Rightarrow> auth_provider \<Rightarrow> string \<Rightarrow> string option \<Rightarrow> user_identity auth_action" where
  "create_identity e user_id provider provider_user_id password_hash =
     (let i = new_identity e InsertIdentity user_id provider provider_user_id password_hash
      in auth_exec e InsertIdentity
        (\<lambda>d. if id_id i \<in> id_id ` set (au_identities d) \<or>
                list_ex (\<lambda>x. id_user_id x = user_id \<and> id_provider_type x = provider_text provider) (au_identities d) \<or>
                list_ex (same_account (provider_text provider) provider_user_id) (au_identities d)
             then Some auth_unique_violation
             else if \<not> has_user d user_id then Some auth_fk_violation else None)
        i (\<lambda>d. d\<lparr>au_identities := au_identities d @ [i]\<rparr>))"

definition find_identity :: "auth_env \<Rightarrow> auth_provider \<Rightarrow> string \<Rightarrow> auth_db \<Rightarrow> auth_error + user_identity option" where
  "find_identity e provider provider_user_id d =
     auth_sql e FindIdentity (find (same_account (provider_text provider) provider_user_id) (au_identities d))"

definition find_by_email :: "auth_env \<Rightarrow> string \<Rightarrow> auth_db \<Rightarrow> auth_error + auth_user option" where
  "find_by_email e email d = auth_sql e FindByEmail (find (\<lambda>u. au_email u = email) (au_users d))"

definition auth_find_by_id :: "auth_env \<Rightarrow> uuid \<Rightarrow> auth_db \<Rightarrow> auth_error + auth_user option" where
  "auth_find_by_id e i d = auth_sql e FindById (find (\<lambda>u. au_id u = i) (au_users d))"

definition find_user_providers :: "auth_env \<Rightarrow> uuid \<Rightarrow> auth_db \<Rightarrow> auth_error + auth_provider list" where
  "find_user_providers e user_id d =
     auth_sql e FindProviders
       (List.map_filter (\<lambda>i. provider_from_str (id_provider_type i))
         (filter (\<lambda>i. id_user_id i = user_id) (au_identities d)))"

text \<open>The row triggers set \<open>updated_at\<close> of every updated row.\<close>

definition set_verified :: "auth_env \<Rightarrow> string \<Rightarrow> unit auth_action" where
  "set_verified e email =
     auth_exec e SetVerified (\<lambda>_. None) ()
       (\<lambda>d. d\<lparr>au_users := map (\<lambda>u. if au_email u = email
          then u\<lparr>au_verified := True, au_updated_at := av_db_now e\<rparr> else u) (au_users d)\<rparr>)"

definition update_password :: "auth_env \<Rightarrow> uuid \<Rightarrow> string \<Rightarrow> unit auth_action" where
  "update_password e user_id hash =
     auth_exec e UpdatePassword (\<lambda>_. None) ()
       (\<lambda>d. d\<lparr>au_identities := map (\<lambda>i. if id_user_id i = user_id
          then i\<lparr>id_password_hash := Some hash, id_updated_at := Some (av_db_now e)\<rparr> else i) (au_identities d)\<rparr>)"

text \<open>\<open>ON CONFLICT (user_id, provider_type) DO NOTHING\<close>; the other constraints still apply.\<close>

definition link_provider :: "auth_env \<Rightarrow> uuid \<Rightarrow> auth_provider \<Rightarrow> string \<Rightarrow> unit auth_action" where
  "link_provider e user_id provider provider_user_id d =
     (let i = new_identity e LinkProvider user_id provider provider_user_id None
      in if list_ex (\<lambda>x. id_user_id x = user_id \<and> id_provider_type x = provider_text provider) (au_identities d)
         then auth_exec e LinkProvider (\<lambda>_. None) () id d
         else auth_exec e LinkProvider
           (\<lambda>d. if id_id i \<in> id_id ` set (au_identities d) \<or>
                   list_ex (same_account (provider_text provider) provider_user_id) (au_identities d)
                then Some auth_unique_violation
                else if \<not> has_user d user_id then Some auth_fk_violation else None)
           () (\<lambda>d. d\<lparr>au_identities := au_identities d @ [i]\<rparr>) d)"

section \<open>Refresh tokens\<close>

definition insert_token :: "auth_env \<Rightarrow> uuid \<Rightarrow> uuid \<Rightarrow> string \<Rightarrow> timestamp \<Rightarrow> unit auth_action" where
  "insert_token e jti user_id token_hash expires_at =
     auth_exec e StoreToken
       (\<lambda>d. if jti \<in> rf_id ` set (au_tokens d) \<or> token_hash \<in> rf_token_hash ` set (au_tokens d)
            then Some auth_unique_violation
            else if \<not> has_user d user_id then Some auth_fk_violation else None)
       () (\<lambda>d. d\<lparr>au_tokens := au_tokens d @
          [\<lparr>rf_id = jti, rf_user_id = user_id, rf_token_hash = token_hash, rf_created_at = av_db_now e,
            rf_expires_at = timestamptz3 expires_at\<rparr>]\<rparr>)"

definition store_refresh_token :: "auth_env \<Rightarrow> uuid \<Rightarrow> uuid \<Rightarrow> string \<Rightarrow> timestamp \<Rightarrow> unit auth_action" where
  "store_refresh_token = insert_token"

definition find_refresh_token :: "auth_env \<Rightarrow> uuid \<Rightarrow> uuid \<Rightarrow> auth_db \<Rightarrow> auth_error + refresh_token option" where
  "find_refresh_token e jti user_id d =
     auth_sql e FindToken (find (\<lambda>t. rf_id t = jti \<and> rf_user_id t = user_id) (au_tokens d))"

definition drop_tokens :: "(refresh_token \<Rightarrow> bool) \<Rightarrow> auth_db \<Rightarrow> auth_db" where
  "drop_tokens p d = d\<lparr>au_tokens := filter (\<lambda>t. \<not> p t) (au_tokens d)\<rparr>"

definition rotate_refresh_token ::
    "auth_env \<Rightarrow> uuid \<Rightarrow> uuid \<Rightarrow> uuid \<Rightarrow> string \<Rightarrow> timestamp \<Rightarrow> unit auth_action" where
  "rotate_refresh_token e user_id old_jti new_jti new_hash expires_at =
     auth_tx e
       (auth_then (auth_exec e DeleteToken (\<lambda>_. None) ()
          (drop_tokens (\<lambda>t. rf_id t = old_jti \<and> rf_user_id t = user_id))) (\<lambda>_.
        insert_token e new_jti user_id new_hash expires_at))"

definition revoke_refresh_token :: "auth_env \<Rightarrow> uuid \<Rightarrow> unit auth_action" where
  "revoke_refresh_token e jti = auth_exec e RevokeToken (\<lambda>_. None) () (drop_tokens (\<lambda>t. rf_id t = jti))"

definition revoke_all_refresh_tokens :: "auth_env \<Rightarrow> uuid \<Rightarrow> unit auth_action" where
  "revoke_all_refresh_tokens e user_id =
     auth_exec e RevokeAllTokens (\<lambda>_. None) () (drop_tokens (\<lambda>t. rf_user_id t = user_id))"

text \<open>
  The clean-up deletes expired tokens five thousand at a time until a batch is not full. Which rows a
  \<open>LIMIT\<close> without an order picks is the database's choice; here the first ones.
\<close>

definition CLEANUP_BATCH :: nat where "CLEANUP_BATCH = 5000"

definition cleanup_victims :: "timestamp \<Rightarrow> auth_db \<Rightarrow> uuid list" where
  "cleanup_victims now d = take CLEANUP_BATCH (map rf_id (filter (\<lambda>t. rf_expires_at t < now) (au_tokens d)))"

definition cleanup_batch :: "timestamp \<Rightarrow> auth_db \<Rightarrow> nat \<times> auth_db" where
  "cleanup_batch now d =
     (let ids = cleanup_victims now d
      in (length (filter (\<lambda>t. rf_id t \<in> set ids) (au_tokens d)), drop_tokens (\<lambda>t. rf_id t \<in> set ids) d))"

lemma cleanup_batch_shrinks:
  "length (au_tokens (snd (cleanup_batch now d))) + fst (cleanup_batch now d) = length (au_tokens d)"
  by (simp add: cleanup_batch_def Let_def drop_tokens_def add.commute sum_length_filter_compl)

function cleanup_loop :: "auth_env \<Rightarrow> nat \<Rightarrow> nat auth_action" where
  "cleanup_loop e total_deleted d =
     (case av_fault e CleanTokens of
        Some err \<Rightarrow> (Inl (AuthDatabase err), d)
      | None \<Rightarrow>
          (let b = cleanup_batch (av_db_now e) d
           in if fst b < CLEANUP_BATCH then (Inr (total_deleted + fst b), snd b)
              else cleanup_loop e (total_deleted + fst b) (snd b)))"
  by auto
termination
proof (relation "measure (\<lambda>(_, _, d). length (au_tokens d))", goal_cases)
  case (2 e total_deleted d x)
  then show ?case
    using cleanup_batch_shrinks [of "av_db_now e" d] by (simp add: CLEANUP_BATCH_def)
qed simp

declare cleanup_loop.simps [simp del]

definition cleanup_expired_refresh_tokens :: "auth_env \<Rightarrow> nat auth_action" where
  "cleanup_expired_refresh_tokens e = cleanup_loop e 0"

end
