(* ===== verification/Auth_Cache.thy ===== *)
theory Auth_Cache
  imports Auth_Model Broadcast_Cache
begin

text \<open>
  \<open>modules/auth/cache.rs\<close>: one-time passwords and their attempt counters, the resend cooldown, the
  OAuth state, the login throttle and the block lists of access tokens, as entries of Redis. The JSON
  text of a string is serde's: it is an argument.
\<close>

definition TTL_OTP_SECS :: int where "TTL_OTP_SECS = 900"
definition TTL_COOLDOWN_SECS :: int where "TTL_COOLDOWN_SECS = 60"
definition TTL_RATE_WINDOW_SECS :: int where "TTL_RATE_WINDOW_SECS = 900"
definition MAX_LOGIN_ATTEMPTS :: int where "MAX_LOGIN_ATTEMPTS = 10"
definition TTL_ACCESS_TOKEN_BLOCK_MAX :: int where "TTL_ACCESS_TOKEN_BLOCK_MAX = 900"

record cache_env =
  ak_codec :: codec
  ak_redis :: redis_env
  ak_str_json :: "string \<Rightarrow> string"
  ak_str_parse :: "string \<Rightarrow> string option"

type_synonym 'a cached = "keyspace \<Rightarrow> (auth_error + 'a) \<times> keyspace"

text \<open>\<open>map_err(AuthError::Redis)\<close>\<close>

definition redis_err :: "(fred_error + 'a) \<times> keyspace \<Rightarrow> (auth_error + 'a) \<times> keyspace" where
  "redis_err r = (case r of (Inl err, k) \<Rightarrow> (Inl (AuthRedis err), k) | (Inr v, k) \<Rightarrow> (Inr v, k))"

definition redis_err_read :: "fred_error + 'a \<Rightarrow> auth_error + 'a" where
  "redis_err_read r = (case r of Inl err \<Rightarrow> Inl (AuthRedis err) | Inr v \<Rightarrow> Inr v)"

section \<open>One-time passwords\<close>

definition otp_attempts_key :: "string \<Rightarrow> otp_type \<Rightarrow> redis_key" where
  "otp_attempts_key email ty = key_rate_limit ''OTP_ATTEMPTS'' (email @ '':'' @ otp_type_text ty)"

definition store_otp :: "cache_env \<Rightarrow> string \<Rightarrow> string \<Rightarrow> otp_type \<Rightarrow> unit cached" where
  "store_otp e email otp ty k =
     redis_err (redis_set (ak_redis e) (ak_str_json e) (key_otp email (otp_type_text ty)) otp (Some TTL_OTP_SECS) k)"

text \<open>Counting an attempt; the first one also gives the counter its lifetime.\<close>

definition count_attempt :: "cache_env \<Rightarrow> redis_key \<Rightarrow> int cached" where
  "count_attempt e key k =
     (case redis_err (redis_incr (ak_redis e) key k) of
        (Inl err, k1) \<Rightarrow> (Inl err, k1)
      | (Inr attempts, k1) \<Rightarrow>
          if attempts = 1
          then (case redis_err (redis_expire (ak_redis e) key TTL_OTP_SECS k1) of
                  (Inl err, k2) \<Rightarrow> (Inl err, k2)
                | (Inr _, k2) \<Rightarrow> (Inr attempts, k2))
          else (Inr attempts, k1))"

definition verify_otp :: "cache_env \<Rightarrow> string \<Rightarrow> string \<Rightarrow> otp_type \<Rightarrow> bool cached" where
  "verify_otp e email otp_code ty k =
     (case count_attempt e (otp_attempts_key email ty) k of
        (Inl err, k1) \<Rightarrow> (Inl err, k1)
      | (Inr attempts, k1) \<Rightarrow>
          if 5 < attempts then (Inl AuthTooManyRequests, k1)
          else
            (let key = key_otp email (otp_type_text ty)
             in case redis_err_read (redis_get (ak_redis e) (ak_str_parse e) key k1) of
                  Inl err \<Rightarrow> (Inl err, k1)
                | Inr None \<Rightarrow> (Inl InvalidOtp, k1)
                | Inr (Some s) \<Rightarrow>
                    if s = otp_code
                    then (Inr True, snd (redis_del (ak_redis e) key
                            (snd (redis_del (ak_redis e) (otp_attempts_key email ty) k1))))
                    else (Inr False, k1)))"

definition revoke_otp :: "cache_env \<Rightarrow> string \<Rightarrow> otp_type \<Rightarrow> unit cached" where
  "revoke_otp e email ty k =
     (case redis_err (redis_del (ak_redis e) (key_otp email (otp_type_text ty)) k) of
        (Inl err, k1) \<Rightarrow> (Inl err, k1) | (Inr _, k1) \<Rightarrow> (Inr (), k1))"

definition resend_key :: "string \<Rightarrow> redis_key" where "resend_key email = key_rate_limit ''OTP_RESEND'' email"

definition can_resend_otp :: "cache_env \<Rightarrow> string \<Rightarrow> bool cached" where
  "can_resend_otp e email k =
     (bind_res (redis_err_read (redis_get (ak_redis e) (ak_str_parse e) (resend_key email) k))
        (\<lambda>found. Inr (found = None)), k)"

definition set_resend_cooldown :: "cache_env \<Rightarrow> string \<Rightarrow> unit cached" where
  "set_resend_cooldown e email k =
     redis_err (redis_set (ak_redis e) (ak_str_json e) (resend_key email) ''1'' (Some TTL_COOLDOWN_SECS) k)"

section \<open>OAuth state\<close>

text \<open>The pipeline runs both commands and fails when one of them does.\<close>

definition store_oauth_state :: "cache_env \<Rightarrow> string \<Rightarrow> string \<Rightarrow> unit cached" where
  "store_oauth_state e state verifier k =
     (let key = key_oauth2_state state;
          set1 = redis_hset (ak_redis e) key [(''csrf_token'', ''true''), (''pkce_code_verifier'', verifier)] k;
          exp1 = redis_expire (ak_redis e) key 300 (snd set1)
      in redis_err (bind_res (fst set1) (\<lambda>_. fst exp1), snd exp1))"

definition consume_oauth_state :: "cache_env \<Rightarrow> string \<Rightarrow> string cached" where
  "consume_oauth_state e state k =
     (let key = key_oauth2_state state
      in case redis_err_read (redis_hgetall (ak_redis e) key k) of
           Inl err \<Rightarrow> (Inl err, k)
         | Inr h \<Rightarrow>
             (let k1 = snd (redis_del (ak_redis e) key k)
              in case (map_of h ''csrf_token'', map_of h ''pkce_code_verifier'') of
                   (Some csrf, Some verifier) \<Rightarrow>
                     if csrf = ''true'' then (Inr verifier, k1) else (Inl InvalidToken, k1)
                 | _ \<Rightarrow> (Inl InvalidToken, k1)))"

section \<open>Login throttle\<close>

definition login_key :: "string \<Rightarrow> redis_key" where "login_key email = key_rate_limit ''LOGIN_ATTEMPTS'' email"

definition check_login_rate_limit :: "cache_env \<Rightarrow> string \<Rightarrow> unit cached" where
  "check_login_rate_limit e email k =
     (case redis_err (incr_and_expire_if_first (ak_redis e) (login_key email) TTL_RATE_WINDOW_SECS k) of
        (Inl err, k1) \<Rightarrow> (Inl err, k1)
      | (Inr count, k1) \<Rightarrow> if MAX_LOGIN_ATTEMPTS < count then (Inl AuthTooManyRequests, k1) else (Inr (), k1))"

definition clear_login_rate_limit :: "cache_env \<Rightarrow> string \<Rightarrow> unit cached" where
  "clear_login_rate_limit e email k =
     (case redis_err (redis_del (ak_redis e) (login_key email) k) of
        (Inl err, k1) \<Rightarrow> (Inl err, k1) | (Inr _, k1) \<Rightarrow> (Inr (), k1))"

section \<open>Block lists\<close>

definition token_block_key :: "cache_env \<Rightarrow> uuid \<Rightarrow> redis_key" where
  "token_block_key e jti = key_block_list (ak_codec e) ''ACCESS_TOKEN'' jti"

definition user_block_key :: "cache_env \<Rightarrow> uuid \<Rightarrow> redis_key" where
  "user_block_key e user_id = key_block_list (ak_codec e) ''ALL_USER_ACCESS_TOKENS'' user_id"

definition block_access_token :: "cache_env \<Rightarrow> uuid \<Rightarrow> int \<Rightarrow> unit cached" where
  "block_access_token e jti remaining_secs k =
     (let ttl = min remaining_secs TTL_ACCESS_TOKEN_BLOCK_MAX
      in if ttl \<le> 0 then (Inr (), k)
         else redis_err (redis_set (ak_redis e) (ak_str_json e) (token_block_key e jti) ''BLOCKED'' (Some ttl) k))"

definition is_token_blocked :: "cache_env \<Rightarrow> uuid \<Rightarrow> keyspace \<Rightarrow> auth_error + bool" where
  "is_token_blocked e jti k = redis_err_read (redis_exists (ak_redis e) (token_block_key e jti) k)"

definition is_user_tokens_blocked :: "cache_env \<Rightarrow> uuid \<Rightarrow> int \<Rightarrow> keyspace \<Rightarrow> auth_error + bool" where
  "is_user_tokens_blocked e user_id issued_at k =
     bind_res (redis_err_read (redis_get (ak_redis e) json_i64 (user_block_key e user_id) k)) (\<lambda>blocked_at.
     Inr (case blocked_at of Some b \<Rightarrow> issued_at < b | None \<Rightarrow> False))"

definition block_all_user_tokens :: "cache_env \<Rightarrow> uuid \<Rightarrow> int \<Rightarrow> int \<Rightarrow> unit cached" where
  "block_all_user_tokens e user_id blocked_at ttl k =
     redis_err (redis_set (ak_redis e) show_int (user_block_key e user_id) blocked_at (Some ttl) k)"

end
