(* ===== verification/Auth_Token.thy ===== *)
theory Auth_Token
  imports Steps Auth_Repo Auth_Cache
begin

text \<open>
  \<open>modules/auth/token.rs\<close> and \<open>shared/middleware/auth.rs\<close>: issuing, rotating and revoking sessions,
  and the check in front of every authenticated request. Signing and reading a JWT, SHA-256 and the
  random ids are the environment's; \<open>jwt_laws\<close> states what the JWT library documents.
\<close>

section \<open>Claims and keys\<close>

record access_claims =
  ac_sub :: uuid
  ac_jti :: uuid
  ac_email :: string
  ac_full_name :: string
  ac_verified :: bool
  ac_providers :: "auth_provider list"
  ac_role :: user_role
  ac_exp :: int
  ac_iat :: int

record refresh_claims =
  rc_sub :: uuid
  rc_jti :: uuid
  rc_exp :: int
  rc_iat :: int

datatype jwt_error = ExpiredSignature | OtherJwtError

text \<open>Reading a token takes the current Unix time, because expiry is validated.\<close>

record jwt_env =
  jw_sign_access :: "access_claims \<Rightarrow> string option"
  jw_read_access :: "int \<Rightarrow> string \<Rightarrow> jwt_error + access_claims"
  jw_sign_refresh :: "refresh_claims \<Rightarrow> string option"
  jw_read_refresh :: "int \<Rightarrow> string \<Rightarrow> jwt_error + refresh_claims"
  jw_hash :: "string \<Rightarrow> string"

text \<open>
  With \<open>leeway = 0\<close> a signed token reads back as its claims until its expiry second has passed and is
  an expired signature afterwards; whatever reads back had been signed.
\<close>

definition jwt_laws :: "jwt_env \<Rightarrow> bool" where
  "jwt_laws j \<longleftrightarrow>
     (\<forall>c t now. jw_sign_access j c = Some t \<longrightarrow>
        jw_read_access j now t = (if ac_exp c < now then Inl ExpiredSignature else Inr c)) \<and>
     (\<forall>c t now. jw_read_access j now t = Inr c \<longrightarrow> jw_sign_access j c = Some t) \<and>
     (\<forall>c t now. jw_sign_refresh j c = Some t \<longrightarrow>
        jw_read_refresh j now t = (if rc_exp c < now then Inl ExpiredSignature else Inr c)) \<and>
     (\<forall>c t now. jw_read_refresh j now t = Inr c \<longrightarrow> jw_sign_refresh j c = Some t)"

record issued_token_pair =
  ip_access_token :: string
  ip_refresh_token :: string
  ip_refresh_jti :: uuid
  ip_refresh_expires_at :: timestamp

section \<open>State and environment\<close>

record mail =
  ml_to :: string
  ml_name :: string
  ml_otp :: string
  ml_type :: otp_type

record auth_world =
  aw_db :: auth_db
  aw_keys :: keyspace
  aw_mails :: "mail list"

record google_user_info =
  gi_sub :: string
  gi_email :: string
  gi_name :: string
  gi_picture :: "string option"
  gi_email_verified :: bool

text \<open>
  \<open>as_access_jti\<close> and \<open>as_refresh_jti\<close> are the fresh ids of the tokens an operation signs; Argon2 with its
  random salt, the drawn code and Google's end points are arguments.
\<close>

record auth_svc_env =
  as_cache :: cache_env
  as_repo :: auth_env
  as_jwt :: jwt_env
  as_now :: timestamp
  as_access_jti :: uuid
  as_refresh_jti :: uuid
  as_access_ttl_secs :: int
  as_refresh_ttl_secs :: int
  as_hash_password :: "string \<Rightarrow> auth_error + string"
  as_verify_password :: "string \<Rightarrow> string \<Rightarrow> bool"
  as_dummy_hash :: string
  as_otp_draw :: nat
  as_authorize_url :: "string \<times> string \<times> string"
  as_exchange_code :: "string \<Rightarrow> string \<Rightarrow> string + google_user_info"
  as_tokeninfo :: "string \<Rightarrow> string + google_user_info"

type_synonym 'a auth = "(auth_world, auth_error, 'a) steps"

definition auth_read :: "(auth_db \<Rightarrow> auth_error + 'a) \<Rightarrow> 'a auth" where
  "auth_read q w = (q (aw_db w), w)"

definition auth_find :: "(auth_db \<Rightarrow> auth_error + 'a option) \<Rightarrow> auth_error \<Rightarrow> 'a auth" where
  "auth_find q err w = (bind_res (q (aw_db w)) (\<lambda>r. ok_or r err), w)"

definition auth_write :: "'a auth_action \<Rightarrow> 'a auth" where
  "auth_write act w = (case act (aw_db w) of (r, d) \<Rightarrow> (r, w\<lparr>aw_db := d\<rparr>))"

definition in_cache :: "'a cached \<Rightarrow> 'a auth" where
  "in_cache act w = (case act (aw_keys w) of (r, k) \<Rightarrow> (r, w\<lparr>aw_keys := k\<rparr>))"

definition now_unix :: "auth_svc_env \<Rightarrow> int" where
  "now_unix e = as_now e div 1000000000"

section \<open>Signing and reading\<close>

definition sign_access :: "auth_svc_env \<Rightarrow> auth_user \<Rightarrow> auth_provider list \<Rightarrow> auth_error + string" where
  "sign_access e user providers =
     (let now = now_unix e
      in ok_or (jw_sign_access (as_jwt e)
           \<lparr>ac_sub = au_id user, ac_jti = as_access_jti e, ac_email = au_email user, ac_full_name = au_full_name user,
            ac_verified = au_verified user, ac_providers = providers, ac_role = au_role user,
            ac_exp = now + as_access_ttl_secs e, ac_iat = now\<rparr>) TokenCreationFailed)"

definition decode_access :: "auth_svc_env \<Rightarrow> string \<Rightarrow> auth_error + access_claims" where
  "decode_access e token =
     (case jw_read_access (as_jwt e) (now_unix e) token of
        Inl ExpiredSignature \<Rightarrow> Inl AccessTokenExpired
      | Inl _ \<Rightarrow> Inl InvalidToken
      | Inr c \<Rightarrow> Inr c)"

definition decode_refresh :: "auth_svc_env \<Rightarrow> string \<Rightarrow> auth_error + refresh_claims" where
  "decode_refresh e token =
     (case jw_read_refresh (as_jwt e) (now_unix e) token of
        Inl ExpiredSignature \<Rightarrow> Inl RefreshTokenExpired
      | Inl _ \<Rightarrow> Inl InvalidToken
      | Inr c \<Rightarrow> Inr c)"

definition refresh_expiry :: "auth_svc_env \<Rightarrow> timestamp" where
  "refresh_expiry e = as_now e + as_refresh_ttl_secs e * 1000000000"

definition sign_refresh :: "auth_svc_env \<Rightarrow> uuid \<Rightarrow> auth_error + string" where
  "sign_refresh e user_id =
     (let now = now_unix e
      in ok_or (jw_sign_refresh (as_jwt e)
           \<lparr>rc_sub = user_id, rc_jti = as_refresh_jti e, rc_exp = now + as_refresh_ttl_secs e, rc_iat = now\<rparr>)
         TokenCreationFailed)"

definition hash_token :: "auth_svc_env \<Rightarrow> string \<Rightarrow> string" where "hash_token e = jw_hash (as_jwt e)"

definition verify_token_hash :: "auth_svc_env \<Rightarrow> string \<Rightarrow> string \<Rightarrow> bool" where
  "verify_token_hash e token stored_hash \<longleftrightarrow> hash_token e token = stored_hash"

section \<open>Sessions\<close>

definition issue_pair :: "auth_svc_env \<Rightarrow> auth_user \<Rightarrow> auth_provider list \<Rightarrow> issued_token_pair auth" where
  "issue_pair e user providers =
     svc_bind (svc_lift (sign_access e user providers)) (\<lambda>access_token.
     svc_bind (svc_lift (sign_refresh e (au_id user))) (\<lambda>refresh_token.
     svc_bind (auth_write (store_refresh_token (as_repo e) (as_refresh_jti e) (au_id user)
        (hash_token e refresh_token) (refresh_expiry e))) (\<lambda>_.
     svc_return \<lparr>ip_access_token = access_token, ip_refresh_token = refresh_token,
       ip_refresh_jti = as_refresh_jti e, ip_refresh_expires_at = refresh_expiry e\<rparr>)))"

definition rotate_session ::
    "auth_svc_env \<Rightarrow> string \<Rightarrow> auth_provider list \<Rightarrow> (issued_token_pair \<times> auth_user) auth" where
  "rotate_session e refresh_token providers =
     svc_bind (svc_lift (decode_refresh e refresh_token)) (\<lambda>claims.
     svc_bind (auth_find (find_refresh_token (as_repo e) (rc_jti claims) (rc_sub claims)) RefreshTokenNotFound) (\<lambda>stored.
     svc_bind (svc_refuse (\<not> verify_token_hash e refresh_token (rf_token_hash stored)) InvalidToken) (\<lambda>_.
     svc_bind (if rf_expires_at stored < as_now e
               then svc_bind (auth_write (revoke_refresh_token (as_repo e) (rc_jti claims))) (\<lambda>_.
                    svc_refuse True RefreshTokenExpired)
               else svc_return ()) (\<lambda>_.
     svc_bind (auth_find (auth_find_by_id (as_repo e) (rc_sub claims)) AuthUserNotFound) (\<lambda>user.
     svc_bind (svc_lift (sign_refresh e (au_id user))) (\<lambda>new_refresh_token.
     svc_bind (auth_write (rotate_refresh_token (as_repo e) (au_id user) (rc_jti claims) (as_refresh_jti e)
        (hash_token e new_refresh_token) (refresh_expiry e))) (\<lambda>_.
     svc_bind (svc_lift (sign_access e user providers)) (\<lambda>access_token.
     svc_return (\<lparr>ip_access_token = access_token, ip_refresh_token = new_refresh_token,
       ip_refresh_jti = as_refresh_jti e, ip_refresh_expires_at = refresh_expiry e\<rparr>, user)))))))))"

definition revoke_session :: "auth_svc_env \<Rightarrow> string \<Rightarrow> string option \<Rightarrow> unit auth" where
  "revoke_session e refresh_token access_token =
     svc_bind (svc_lift (decode_refresh e refresh_token)) (\<lambda>claims.
     svc_bind (auth_write (revoke_refresh_token (as_repo e) (rc_jti claims))) (\<lambda>_.
     case access_token of
       None \<Rightarrow> svc_return ()
     | Some t \<Rightarrow>
         (case decode_access e t of
            Inl _ \<Rightarrow> svc_return ()
          | Inr ac \<Rightarrow>
              (let remaining = ac_exp ac - now_unix e
               in if 0 < remaining then in_cache (block_access_token (as_cache e) (ac_jti ac) remaining)
                  else svc_return ()))))"

definition revoke_all_for_user :: "auth_svc_env \<Rightarrow> uuid \<Rightarrow> unit auth" where
  "revoke_all_for_user e user_id =
     svc_bind (auth_write (revoke_all_refresh_tokens (as_repo e) user_id)) (\<lambda>_.
     in_cache (block_all_user_tokens (as_cache e) user_id (now_unix e) (as_access_ttl_secs e)))"

definition is_access_token_blocked :: "auth_svc_env \<Rightarrow> uuid \<Rightarrow> uuid \<Rightarrow> int \<Rightarrow> auth_world \<Rightarrow> auth_error + bool" where
  "is_access_token_blocked e jti user_id issued_at w =
     bind_res (is_token_blocked (as_cache e) jti (aw_keys w)) (\<lambda>jti_blocked.
     bind_res (is_user_tokens_blocked (as_cache e) user_id issued_at (aw_keys w)) (\<lambda>user_blocked.
     Inr (jti_blocked \<or> user_blocked)))"

section \<open>The middleware\<close>

record auth_user_ext =
  ux_auth_id :: uuid
  ux_auth_jti :: uuid
  ux_auth_full_name :: string
  ux_auth_email :: string
  ux_auth_verified :: bool
  ux_auth_providers :: "auth_provider list"
  ux_auth_role :: user_role

definition strip_prefix :: "string \<Rightarrow> string \<Rightarrow> string option" where
  "strip_prefix p s = (if take (length p) s = p then Some (drop (length p) s) else None)"

text \<open>The identity a request is run with, or the error it is answered with.\<close>

definition auth_middleware :: "auth_svc_env \<Rightarrow> string option \<Rightarrow> auth_world \<Rightarrow> auth_error + auth_user_ext" where
  "auth_middleware e header w =
     bind_res (ok_or (Option.bind header (strip_prefix ''Bearer '')) MissingToken) (\<lambda>token.
     bind_res (decode_access e token) (\<lambda>claims.
     bind_res (is_access_token_blocked e (ac_jti claims) (ac_sub claims) (ac_iat claims) w) (\<lambda>blocked.
     if blocked then Inl InvalidToken
     else if \<not> ac_verified claims then Inl EmailNotVerified
     else Inr \<lparr>ux_auth_id = ac_sub claims, ux_auth_jti = ac_jti claims, ux_auth_full_name = ac_full_name claims,
       ux_auth_email = ac_email claims, ux_auth_verified = ac_verified claims, ux_auth_providers = ac_providers claims,
       ux_auth_role = ac_role claims\<rparr>)))"

end
