(* ===== verification/Auth_Service.thy ===== *)
theory Auth_Service
  imports Auth_Token
begin

text \<open>
  \<open>modules/auth/services.rs\<close> and the decisions of \<open>shared/integrations/google.rs\<close>: registration, e-mail
  verification, login, sessions, password reset and Google sign-in, as sequences of steps over the
  tables, Redis and the mails handed to the queue.
\<close>

section \<open>Helpers\<close>

text \<open>\<open>format!("{:06}", n)\<close> of a number drawn from 100000 to 999999.\<close>

definition generate_otp :: "auth_svc_env \<Rightarrow> string" where
  "generate_otp e = (let s = show_nat (as_otp_draw e) in replicate (6 - length s) CHR ''0'' @ s)"

definition push_email :: "string \<Rightarrow> string \<Rightarrow> string \<Rightarrow> otp_type \<Rightarrow> unit auth" where
  "push_email to name otp ty =
     svc_modify (\<lambda>w. w\<lparr>aw_mails := aw_mails w @ [\<lparr>ml_to = to, ml_name = name, ml_otp = otp, ml_type = ty\<rparr>]\<rparr>)"

definition build_auth_response :: "auth_user \<Rightarrow> issued_token_pair \<Rightarrow> auth_provider list \<Rightarrow> auth_response" where
  "build_auth_response user pair providers =
     \<lparr>ar_access_token = ip_access_token pair, ar_refresh_token = ip_refresh_token pair,
      ar_user = \<lparr>ux_id = au_id user, ux_full_name = au_full_name user, ux_bio = au_bio user, ux_email = au_email user,
        ux_verified = au_verified user, ux_avatar_id = au_avatar_id user, ux_avatar_url = au_avatar_url user,
        ux_created_at = au_created_at user, ux_deleted_at = au_deleted_at user, ux_providers = providers\<rparr>\<rparr>"

definition get_providers :: "auth_svc_env \<Rightarrow> uuid \<Rightarrow> auth_provider list auth" where
  "get_providers e user_id = auth_read (find_user_providers (as_repo e) user_id)"

definition get_providers_from_refresh :: "auth_svc_env \<Rightarrow> string \<Rightarrow> auth_provider list auth" where
  "get_providers_from_refresh e token =
     svc_bind (svc_lift (decode_refresh e token)) (\<lambda>claims. get_providers e (rc_sub claims))"

section \<open>Accounts\<close>

definition auth_register :: "auth_svc_env \<Rightarrow> register_request \<Rightarrow> auth_response auth" where
  "auth_register e req =
     svc_bind (auth_read (find_identity (as_repo e) EmailProvider (rr_email req))) (\<lambda>existing.
     svc_bind (svc_refuse (existing \<noteq> None) EmailTaken) (\<lambda>_.
     svc_bind (svc_lift (as_hash_password e (rr_password req))) (\<lambda>pwd_hash.
     svc_bind (auth_write (create_user (as_repo e) (rr_full_name req) (rr_email req))) (\<lambda>user.
     svc_bind (auth_write (create_identity (as_repo e) (au_id user) EmailProvider (au_email user) (Some pwd_hash))) (\<lambda>_.
     (let otp = generate_otp e in
     svc_bind (in_cache (store_otp (as_cache e) (au_email user) otp VerifyEmail)) (\<lambda>_.
     svc_bind (push_email (au_email user) (au_full_name user) otp VerifyEmail) (\<lambda>_.
     svc_bind (issue_pair e user [EmailProvider]) (\<lambda>pair.
     svc_return (build_auth_response user pair [EmailProvider]))))))))))"

definition auth_verify_email :: "auth_svc_env \<Rightarrow> verify_email_request \<Rightarrow> auth_response auth" where
  "auth_verify_email e req =
     svc_bind (auth_find (find_by_email (as_repo e) (ve_email req)) AuthUserNotFound) (\<lambda>user0.
     svc_bind (svc_refuse (au_verified user0) EmailAlreadyVerified) (\<lambda>_.
     svc_bind (in_cache (verify_otp (as_cache e) (ve_email req) (ve_code req) VerifyEmail)) (\<lambda>ok.
     svc_bind (svc_refuse (\<not> ok) InvalidOtp) (\<lambda>_.
     svc_bind (auth_write (set_verified (as_repo e) (ve_email req))) (\<lambda>_.
     svc_bind (auth_find (auth_find_by_id (as_repo e) (au_id user0)) AuthUserNotFound) (\<lambda>user.
     svc_bind (issue_pair e user [EmailProvider]) (\<lambda>pair.
     svc_return (build_auth_response user pair [EmailProvider]))))))))"

definition auth_resend_otp :: "auth_svc_env \<Rightarrow> string \<Rightarrow> otp_type \<Rightarrow> unit auth" where
  "auth_resend_otp e email ty =
     svc_bind (auth_read (find_by_email (as_repo e) email)) (\<lambda>found.
     case found of
       None \<Rightarrow> svc_return ()
     | Some user \<Rightarrow>
         if ty = VerifyEmail \<and> au_verified user then svc_return ()
         else
           svc_bind (in_cache (can_resend_otp (as_cache e) email)) (\<lambda>allowed.
           svc_bind (svc_refuse (\<not> allowed) AuthTooManyRequests) (\<lambda>_.
           svc_bind (in_cache (revoke_otp (as_cache e) email ty)) (\<lambda>_.
           (let otp = generate_otp e in
           svc_bind (in_cache (store_otp (as_cache e) email otp ty)) (\<lambda>_.
           svc_bind (push_email (au_email user) (au_full_name user) otp ty) (\<lambda>_.
           in_cache (set_resend_cooldown (as_cache e) email))))))))"

definition auth_login :: "auth_svc_env \<Rightarrow> login_request \<Rightarrow> auth_response auth" where
  "auth_login e req =
     svc_bind (in_cache (check_login_rate_limit (as_cache e) (lg_email req))) (\<lambda>_.
     svc_bind (auth_read (find_identity (as_repo e) EmailProvider (lg_email req))) (\<lambda>found.
     (let hash = (case Option.bind found id_password_hash of Some h \<Rightarrow> h | None \<Rightarrow> as_dummy_hash e);
          password_ok = as_verify_password e (lg_password req) hash
      in case found of
           None \<Rightarrow> svc_lift (Inl InvalidCredentials)
         | Some i \<Rightarrow>
             svc_bind (svc_refuse (id_password_hash i = None \<or> \<not> password_ok) InvalidCredentials) (\<lambda>_.
             svc_bind (auth_find (auth_find_by_id (as_repo e) (id_user_id i)) AuthUserNotFound) (\<lambda>user.
             svc_bind (svc_refuse (\<not> au_verified user) EmailNotVerified) (\<lambda>_.
             svc_bind (svc_modify (\<lambda>w. w\<lparr>aw_keys := snd (clear_login_rate_limit (as_cache e) (lg_email req) (aw_keys w))\<rparr>))
               (\<lambda>_.
             svc_bind (get_providers e (au_id user)) (\<lambda>providers.
             svc_bind (issue_pair e user providers) (\<lambda>pair.
             svc_return (build_auth_response user pair providers))))))))))"

definition auth_logout :: "auth_svc_env \<Rightarrow> logout_request \<Rightarrow> unit auth" where
  "auth_logout e req = revoke_session e (lo_refresh_token req) (lo_access_token req)"

definition auth_refresh :: "auth_svc_env \<Rightarrow> string \<Rightarrow> auth_response auth" where
  "auth_refresh e refresh_token =
     svc_bind (get_providers_from_refresh e refresh_token) (\<lambda>providers.
     svc_bind (rotate_session e refresh_token providers) (\<lambda>(pair, user).
     svc_return (build_auth_response user pair providers)))"

section \<open>Passwords\<close>

definition auth_forgot_password :: "auth_svc_env \<Rightarrow> string \<Rightarrow> unit auth" where
  "auth_forgot_password e email =
     svc_bind (auth_read (find_by_email (as_repo e) email)) (\<lambda>found.
     case found of
       None \<Rightarrow> svc_return ()
     | Some user \<Rightarrow>
         (let otp = generate_otp e in
         svc_bind (in_cache (store_otp (as_cache e) email otp ResetPassword)) (\<lambda>_.
         push_email (au_email user) (au_full_name user) otp ResetPassword)))"

definition auth_reset_password :: "auth_svc_env \<Rightarrow> reset_password_request \<Rightarrow> unit auth" where
  "auth_reset_password e req =
     svc_bind (auth_read (find_by_email (as_repo e) (rp_email req))) (\<lambda>found.
     case found of
       None \<Rightarrow> svc_return ()
     | Some user \<Rightarrow>
         svc_bind (in_cache (verify_otp (as_cache e) (au_email user) (rp_code req) ResetPassword)) (\<lambda>ok.
         svc_bind (svc_refuse (\<not> ok) InvalidOtp) (\<lambda>_.
         svc_bind (svc_lift (as_hash_password e (rp_new_password req))) (\<lambda>hash.
         svc_bind (auth_write (update_password (as_repo e) (au_id user) hash)) (\<lambda>_.
         svc_bind (in_cache (revoke_otp (as_cache e) (au_email user) ResetPassword)) (\<lambda>_.
         revoke_all_for_user e (au_id user)))))))"

section \<open>Google\<close>

definition auth_google_authorize :: "auth_svc_env \<Rightarrow> string auth" where
  "auth_google_authorize e =
     (case as_authorize_url e of
        (url, csrf_token, pkce_verifier) \<Rightarrow>
          svc_bind (in_cache (store_oauth_state (as_cache e) csrf_token pkce_verifier)) (\<lambda>_. svc_return url))"

definition upsert_google_user :: "auth_svc_env \<Rightarrow> google_user_info \<Rightarrow> auth_response auth" where
  "upsert_google_user e info =
     svc_bind (auth_read (find_identity (as_repo e) GoogleProvider (gi_sub info))) (\<lambda>existing.
     svc_bind
       (case existing of
          Some i \<Rightarrow> auth_find (auth_find_by_id (as_repo e) (id_user_id i)) AuthUserNotFound
        | None \<Rightarrow>
            svc_bind (auth_read (find_by_email (as_repo e) (gi_email info))) (\<lambda>found.
            case found of
              Some user \<Rightarrow>
                svc_bind (auth_write (link_provider (as_repo e) (au_id user) GoogleProvider (gi_sub info))) (\<lambda>_.
                svc_return user)
            | None \<Rightarrow>
                svc_bind (auth_write (create_user (as_repo e) (gi_name info) (gi_email info))) (\<lambda>user.
                svc_bind (auth_write (create_identity (as_repo e) (au_id user) GoogleProvider (au_email user) None)) (\<lambda>_.
                svc_bind (if gi_email_verified info then auth_write (set_verified (as_repo e) (gi_email info))
                          else svc_return ()) (\<lambda>_.
                auth_find (auth_find_by_id (as_repo e) (au_id user)) AuthUserNotFound))))) (\<lambda>user.
     svc_bind (get_providers e (au_id user)) (\<lambda>providers.
     svc_bind (issue_pair e user providers) (\<lambda>pair.
     svc_return (build_auth_response user pair providers)))))"

definition auth_google_web :: "auth_svc_env \<Rightarrow> string \<Rightarrow> string \<Rightarrow> auth_response auth" where
  "auth_google_web e google_code state =
     svc_bind (in_cache (consume_oauth_state (as_cache e) state)) (\<lambda>verifier.
     svc_bind (svc_lift (case as_exchange_code e google_code verifier of
         Inl err \<Rightarrow> Inl (GoogleAuthFailed err) | Inr info \<Rightarrow> Inr info)) (\<lambda>info.
     upsert_google_user e info))"

text \<open>\<open>as_tokeninfo\<close> is what Google's \<open>tokeninfo\<close> end point answers for an ID token.\<close>

definition verify_id_token :: "auth_svc_env \<Rightarrow> string \<Rightarrow> string + google_user_info" where
  "verify_id_token e id_token =
     bind_res (as_tokeninfo e id_token) (\<lambda>info.
     if gi_email_verified info then Inr info else Inl ''Google email not verified'')"

definition auth_google_mobile :: "auth_svc_env \<Rightarrow> string \<Rightarrow> auth_response auth" where
  "auth_google_mobile e id_token =
     svc_bind (svc_lift (case verify_id_token e id_token of
         Inl err \<Rightarrow> Inl (GoogleAuthFailed err) | Inr info \<Rightarrow> Inr info)) (\<lambda>info.
     upsert_google_user e info)"

section \<open>Clean-up\<close>

definition auth_cleanup :: "auth_svc_env \<Rightarrow> nat auth" where
  "auth_cleanup e = auth_write (cleanup_expired_refresh_tokens (as_repo e))"

end
