(* ===== verification/Auth_Rules.thy ===== *)
theory Auth_Rules
  imports Auth_Service
begin

text \<open>
  How the auth steps are reasoned about: inversion rules for success and failure, the statements of the
  repository as what they do to the tables, and the entries of Redis the block lists and counters are.
\<close>

section \<open>Steps\<close>

lemma auth_ok [svc_ok]:
  "auth_read q w1 = (Inr v1, w1') \<longleftrightarrow> q (aw_db w1) = Inr v1 \<and> w1' = w1"
  "auth_find qf err w2 = (Inr v2, w2') \<longleftrightarrow> qf (aw_db w2) = Inr (Some v2) \<and> w2' = w2"
  "auth_write act w3 = (Inr v3, w3') \<longleftrightarrow> (\<exists>d. act (aw_db w3) = (Inr v3, d) \<and> w3' = w3\<lparr>aw_db := d\<rparr>)"
  "in_cache cact w4 = (Inr v4, w4') \<longleftrightarrow> (\<exists>k. cact (aw_keys w4) = (Inr v4, k) \<and> w4' = w4\<lparr>aw_keys := k\<rparr>)"
  by (auto simp: auth_read_def auth_find_def auth_write_def in_cache_def bind_res_Inr split: prod.splits)

lemma auth_err [svc_err]:
  "auth_read q w1 = (Inl err1, w1') \<longleftrightarrow> q (aw_db w1) = Inl err1 \<and> w1' = w1"
  "auth_find qf e w2 = (Inl err2, w2') \<longleftrightarrow>
     (qf (aw_db w2) = Inl err2 \<or> qf (aw_db w2) = Inr None \<and> err2 = e) \<and> w2' = w2"
  "auth_write act w3 = (Inl err3, w3') \<longleftrightarrow> (\<exists>d. act (aw_db w3) = (Inl err3, d) \<and> w3' = w3\<lparr>aw_db := d\<rparr>)"
  "in_cache cact w4 = (Inl err4, w4') \<longleftrightarrow> (\<exists>k. cact (aw_keys w4) = (Inl err4, k) \<and> w4' = w4\<lparr>aw_keys := k\<rparr>)"
  by (auto simp: auth_read_def auth_find_def auth_write_def in_cache_def bind_res_def ok_or_def
      split: prod.splits sum.splits option.splits)

lemma auth_sql_Inr [simp]: "auth_sql e st v = Inr x \<longleftrightarrow> av_fault e st = None \<and> v = x"
  by (auto simp: auth_sql_def split: option.splits)

lemma auth_exec_Inr:
  "auth_exec e st violated v f d = (Inr x, d') \<longleftrightarrow> av_fault e st = None \<and> violated d = None \<and> x = v \<and> d' = f d"
  by (auto simp: auth_exec_def split: option.splits)

lemma auth_then_Inr:
  "auth_then m f d = (Inr v, d') \<longleftrightarrow> (\<exists>x d1. m d = (Inr x, d1) \<and> f x d1 = (Inr v, d'))"
  by (auto simp: auth_then_def split: sum.splits prod.splits)

lemma auth_tx_Inr:
  "auth_tx e body d = (Inr v, d') \<longleftrightarrow> av_fault e AuthBegin = None \<and> av_fault e AuthCommit = None \<and> body d = (Inr v, d')"
  by (auto simp: auth_tx_def auth_sql_def split: sum.splits prod.splits option.splits)

lemma auth_tx_Inl: "auth_tx e body d = (Inl err, d') \<Longrightarrow> d' = d"
  by (auto simp: auth_tx_def split: sum.splits prod.splits)

lemma auth_exec_Inl: "auth_exec e st violated v f d = (Inl err, d') \<Longrightarrow> d' = d"
  by (auto simp: auth_exec_def split: option.splits)

lemmas auth_action_Inr = auth_exec_Inr auth_then_Inr auth_tx_Inr

section \<open>Sessions\<close>

lemma store_token_ok:
  "store_refresh_token e jti u h t d = (Inr x, d') \<Longrightarrow>
     d' = d\<lparr>au_tokens := au_tokens d @ [\<lparr>rf_id = jti, rf_user_id = u, rf_token_hash = h, rf_created_at = av_db_now e,
       rf_expires_at = timestamptz3 t\<rparr>]\<rparr>"
  by (auto simp: store_refresh_token_def insert_token_def auth_action_Inr)

lemma rotate_token_ok:
  assumes "rotate_refresh_token e u old new h t d = (Inr x, d')"
  shows "d' = d\<lparr>au_tokens := filter (\<lambda>r. \<not> (rf_id r = old \<and> rf_user_id r = u)) (au_tokens d) @
       [\<lparr>rf_id = new, rf_user_id = u, rf_token_hash = h, rf_created_at = av_db_now e, rf_expires_at = timestamptz3 t\<rparr>]\<rparr>"
proof -
  from assms have "insert_token e new u h t (drop_tokens (\<lambda>r. rf_id r = old \<and> rf_user_id r = u) d) = (Inr x, d')"
    unfolding rotate_refresh_token_def auth_action_Inr by simp
  from store_token_ok [unfolded store_refresh_token_def, OF this] show ?thesis by (simp add: drop_tokens_def)
qed

lemma revoke_token_ok:
  "revoke_refresh_token e jti d = (Inr x, d') \<Longrightarrow> d' = drop_tokens (\<lambda>t. rf_id t = jti) d"
  "revoke_all_refresh_tokens e u d = (Inr x, d') \<Longrightarrow> d' = drop_tokens (\<lambda>t. rf_user_id t = u) d"
  by (auto simp: revoke_refresh_token_def revoke_all_refresh_tokens_def auth_action_Inr)

lemma jwt_lawsD:
  assumes "jwt_laws j"
  shows "jw_sign_access j ac = Some t \<Longrightarrow>
      jw_read_access j now t = (if ac_exp ac < now then Inl ExpiredSignature else Inr ac)"
    and "jw_sign_refresh j rc = Some s \<Longrightarrow>
      jw_read_refresh j now s = (if rc_exp rc < now then Inl ExpiredSignature else Inr rc)"
    and "jw_read_access j now t = Inr ac \<Longrightarrow> jw_sign_access j ac = Some t"
    and "jw_read_refresh j now s = Inr rc \<Longrightarrow> jw_sign_refresh j rc = Some s"
  using assms unfolding jwt_laws_def by blast+

lemma decode_signed:
  assumes "jwt_laws (as_jwt e)"
  shows "jw_sign_access (as_jwt e) ac = Some t \<Longrightarrow>
      decode_access e t = (if ac_exp ac < now_unix e then Inl AccessTokenExpired else Inr ac)"
    and "jw_sign_refresh (as_jwt e) rc = Some s \<Longrightarrow>
      decode_refresh e s = (if rc_exp rc < now_unix e then Inl RefreshTokenExpired else Inr rc)"
  by (simp_all add: jwt_lawsD(1,2) [OF assms] decode_access_def decode_refresh_def)

text \<open>A refresh token whose row is gone is refused.\<close>

lemma rotate_refused:
  assumes "jwt_laws (as_jwt e)" and "jw_sign_refresh (as_jwt e) rc = Some s"
    and "find (\<lambda>t. rf_id t = rc_jti rc \<and> rf_user_id t = rc_sub rc) (au_tokens (aw_db w)) = None"
    and "av_fault (as_repo e) FindToken = None"
  shows "fst (rotate_session e s ps w) \<in> {Inl RefreshTokenNotFound, Inl RefreshTokenExpired}"
  using decode_signed(2) [OF assms(1,2)] assms(3,4)
  by (simp add: rotate_session_def svc_bind_def svc_lift_def auth_find_def find_refresh_token_def auth_sql_def)

text \<open>A token whose id, or whose user at its issue time, is on a block list is refused.\<close>

lemma middleware_blocked:
  assumes "jwt_laws (as_jwt e)" and "jw_sign_access (as_jwt e) ac = Some t"
    and "is_access_token_blocked e (ac_jti ac) (ac_sub ac) (ac_iat ac) w = Inr True"
  shows "auth_middleware e (Some (''Bearer '' @ t)) w \<in> {Inl InvalidToken, Inl AccessTokenExpired}"
  using decode_signed(1) [OF assms(1,2)] assms(3)
  by (simp add: auth_middleware_def strip_prefix_def)

section \<open>Entries of Redis\<close>

abbreviation reachable :: "cache_env \<Rightarrow> bool" where
  "reachable c \<equiv> \<forall>cmd k. \<not> r_down (ak_redis c) cmd k"

lemma entry_kept: "entry t k key = Some v \<Longrightarrow> k' key = k key \<Longrightarrow> entry t k' key = Some v"
  by (simp add: entry_def)

lemma block_keys_differ: "token_block_key c j \<noteq> user_block_key c u" "user_block_key c u \<noteq> token_block_key c j"
  by (simp_all add: token_block_key_def user_block_key_def key_block_list_def)

lemma block_access_token_entry:
  assumes "block_access_token c jti n k = (Inr x, k')" and "0 < n" and "n \<le> TTL_ACCESS_TOKEN_BLOCK_MAX"
  shows "k' (token_block_key c jti) = Some (RStr (ak_str_json c ''BLOCKED''), Some (r_now (ak_redis c) + n * 1000))"
  using assms
  by (auto simp: block_access_token_def Let_def min_def redis_err_def redis_set_def guarded_cmd_def cmd_set_def
      split: if_splits sum.splits prod.splits)

lemma block_all_entry:
  assumes "block_all_user_tokens c u at ttl k = (Inr x, k')"
  shows "k' (user_block_key c u) = Some (RStr (show_int at), Some (r_now (ak_redis c) + ttl * 1000))"
  using assms
  by (auto simp: block_all_user_tokens_def redis_err_def redis_set_def guarded_cmd_def cmd_set_def
      split: if_splits sum.splits prod.splits)

text \<open>Redis counts time in milliseconds of the same clock.\<close>

definition clocks_agree :: "auth_svc_env \<Rightarrow> bool" where
  "clocks_agree e \<longleftrightarrow> r_now (ak_redis (as_cache e)) = as_now e div 1000000"

lemma clock_secs: "clocks_agree e \<Longrightarrow> r_now (ak_redis (as_cache e)) div 1000 = now_unix e"
  by (simp add: clocks_agree_def now_unix_def zdiv_zmult2_eq [symmetric])

lemma clock_bounds:
  assumes "clocks_agree e"
  shows "now_unix e * 1000 \<le> r_now (ak_redis (as_cache e))"
    and "r_now (ak_redis (as_cache e)) < now_unix e * 1000 + 1000"
  using clock_secs [OF assms] by linarith+

end
