(* ===== verification/Auth_Properties.thy ===== *)
theory Auth_Properties
  imports Auth_Rules
begin

text \<open>
  What signing in and out guarantees: who gets a session, that sessions end with logout, rotation and a
  password reset, what the request check lets through, and where accounts of two providers meet.
\<close>

section \<open>Logging in\<close>

lemma issue_pair_ok:
  assumes "issue_pair e u ps w = (Inr p, w')"
  shows "au_tokens (aw_db w') = au_tokens (aw_db w) @ [\<lparr>rf_id = as_refresh_jti e, rf_user_id = au_id u,
      rf_token_hash = hash_token e (ip_refresh_token p), rf_created_at = av_db_now (as_repo e),
      rf_expires_at = timestamptz3 (refresh_expiry e)\<rparr>]"
    and "au_users (aw_db w') = au_users (aw_db w)" and "au_identities (aw_db w') = au_identities (aw_db w)"
    and "aw_keys w' = aw_keys w" and "sign_access e u ps = Inr (ip_access_token p)"
  using assms unfolding issue_pair_def svc_ok by (auto dest!: store_token_ok)

lemma issue_pair_err: "issue_pair e u ps w = (Inl err, w') \<Longrightarrow> aw_db w' = aw_db w"
  unfolding issue_pair_def svc_ok svc_err
  by (auto simp: store_refresh_token_def insert_token_def dest!: auth_exec_Inl)

lemma find_user_SomeD: "find (\<lambda>u. au_id u = i) us = Some u \<Longrightarrow> u \<in> set us \<and> au_id u = i"
  by (auto simp: find_Some_iff)

lemma find_identity_SomeD: "find (same_account p x) xs = Some i \<Longrightarrow> i \<in> set xs \<and> same_account p x i"
  by (auto simp: find_Some_iff)

text \<open>C16. A login succeeds only with the password of an e-mail identity whose user has verified the address; it then
  adds exactly one session, for that user, and a failed login changes no table.
\<close>

theorem login_sound:
  "case auth_login e req w of
     (Inl err, w') \<Rightarrow> aw_db w' = aw_db w
   | (Inr resp, w') \<Rightarrow>
       (\<exists>i u h. i \<in> set (au_identities (aw_db w)) \<and> id_provider_type i = ''email'' \<and> id_provider_user_id i = lg_email req \<and>
          id_password_hash i = Some h \<and> as_verify_password e (lg_password req) h \<and>
          u \<in> set (au_users (aw_db w)) \<and> au_id u = id_user_id i \<and> au_verified u \<and> ux_id (ar_user resp) = au_id u \<and>
          (\<exists>s. rf_user_id s = au_id u \<and> au_tokens (aw_db w') = au_tokens (aw_db w) @ [s])) \<and>
       au_users (aw_db w') = au_users (aw_db w) \<and> au_identities (aw_db w') = au_identities (aw_db w)"
proof (cases "auth_login e req w")
  case (Pair r w')
  show ?thesis
  proof (cases r)
    case (Inl err)
    have "auth_login e req w = (Inl err, w')" using Pair Inl by simp
    then have "aw_db w' = aw_db w"
      unfolding auth_login_def svc_err
    proof (elim disjE exE conjE, goal_cases)
      case (3 x w1 found w2)
      then show ?case
        by (cases found) (auto simp: Let_def svc_ok svc_err get_providers_def dest!: issue_pair_err)
    qed (auto simp: svc_ok)
    with Pair Inl show ?thesis by simp
  next
    case (Inr resp)
    have "auth_login e req w = (Inr resp, w')" using Pair Inr by simp
    then obtain k1 found where f: "find_identity (as_repo e) EmailProvider (lg_email req) (aw_db w) = Inr found"
      and body: "(case found of None \<Rightarrow> svc_lift (Inl InvalidCredentials)
         | Some i \<Rightarrow> svc_bind (svc_refuse (id_password_hash i = None \<or> \<not> as_verify_password e (lg_password req)
               (case Option.bind found id_password_hash of Some h \<Rightarrow> h | None \<Rightarrow> as_dummy_hash e)) InvalidCredentials) (\<lambda>_.
             svc_bind (auth_find (auth_find_by_id (as_repo e) (id_user_id i)) AuthUserNotFound) (\<lambda>user.
             svc_bind (svc_refuse (\<not> au_verified user) EmailNotVerified) (\<lambda>_.
             svc_bind (svc_modify (\<lambda>w. w\<lparr>aw_keys := snd (clear_login_rate_limit (as_cache e) (lg_email req) (aw_keys w))\<rparr>))
               (\<lambda>_. svc_bind (get_providers e (au_id user)) (\<lambda>providers.
             svc_bind (issue_pair e user providers) (\<lambda>pair.
             svc_return (build_auth_response user pair providers)))))))) (w\<lparr>aw_keys := k1\<rparr>) = (Inr resp, w')"
      unfolding auth_login_def Let_def svc_bind_ok [of "in_cache _"] svc_bind_ok [of "auth_read _"] auth_ok
      by - (elim exE conjE, rule that, simp_all)
    from body obtain i where fi: "found = Some i" by (cases found) (auto simp: svc_ok)
    with body obtain h u p k ps where h: "id_password_hash i = Some h" "as_verify_password e (lg_password req) h"
      and u: "find (\<lambda>u. au_id u = id_user_id i) (au_users (aw_db w)) = Some u" "au_verified u"
      and p: "issue_pair e u ps (w\<lparr>aw_keys := k\<rparr>) = (Inr p, w')" and resp: "resp = build_auth_response u p ps"
      by (auto simp: svc_ok get_providers_def auth_find_by_id_def)
    from f fi have i: "find (same_account ''email'' (lg_email req)) (au_identities (aw_db w)) = Some i"
      by (simp add: find_identity_def)
    from issue_pair_ok [OF p] find_user_SomeD [OF u(1)] find_identity_SomeD [OF i] h u(2) resp Pair Inr
    show ?thesis by (fastforce simp: build_auth_response_def same_account_def)
  qed
qed

section \<open>Ending sessions\<close>



section \<open>Rotation\<close>

lemma rotate_ok:
  assumes "rotate_session e s ps w = (Inr (p, u), w1)"
  obtains rc r where "decode_refresh e s = Inr rc" "r \<in> set (au_tokens (aw_db w))" "rf_id r = rc_jti rc"
    "rf_user_id r = rc_sub rc" "rf_token_hash r = hash_token e s" "as_now e \<le> rf_expires_at r"
    "u \<in> set (au_users (aw_db w))" "au_id u = rc_sub rc"
    "rotate_refresh_token (as_repo e) (au_id u) (rc_jti rc) (as_refresh_jti e) (hash_token e (ip_refresh_token p))
       (refresh_expiry e) (aw_db w) = (Inr (), aw_db w1)"
    "sign_refresh e (au_id u) = Inr (ip_refresh_token p)"
proof -
  from assms obtain rc r new where d: "decode_refresh e s = Inr rc"
    and r: "find (\<lambda>t. rf_id t = rc_jti rc \<and> rf_user_id t = rc_sub rc) (au_tokens (aw_db w)) = Some r"
    and h: "hash_token e s = rf_token_hash r" and x: "as_now e \<le> rf_expires_at r"
    and u: "find (\<lambda>u. au_id u = rc_sub rc) (au_users (aw_db w)) = Some u"
    and n: "sign_refresh e (au_id u) = Inr (ip_refresh_token p)"
    and w: "rotate_refresh_token (as_repo e) (au_id u) (rc_jti rc) (as_refresh_jti e) (hash_token e (ip_refresh_token p))
       (refresh_expiry e) (aw_db w) = (Inr (), aw_db w1)"
    unfolding rotate_session_def svc_ok
    by (auto simp: svc_ok verify_token_hash_def find_refresh_token_def auth_find_by_id_def split: if_splits)
  from r have "r \<in> set (au_tokens (aw_db w))" "rf_id r = rc_jti rc" "rf_user_id r = rc_sub rc"
    by (auto simp: find_Some_iff)
  with that d h x find_user_SomeD [OF u] n w show thesis by simp
qed

text \<open>C19. Refresh tokens are for one use: an exchange needs the very token that was stored, not expired, of an existing
  user; it replaces that session by exactly one new one, of the same user, and the old token cannot be
  exchanged again.
\<close>

theorem rotation_single_use:
  assumes laws: "jwt_laws (as_jwt e)" and rot: "rotate_session e s ps w = (Inr (p, u), w1)"
    and sr: "jw_sign_refresh (as_jwt e) rc = Some s" and fresh: "as_refresh_jti e \<noteq> rc_jti rc"
    and env: "as_jwt e' = as_jwt e"
  shows "(\<exists>r \<in> set (au_tokens (aw_db w)). rf_id r = rc_jti rc \<and> rf_user_id r = au_id u \<and>
       rf_token_hash r = hash_token e s \<and> as_now e \<le> rf_expires_at r) \<and>
     au_tokens (aw_db w1) = filter (\<lambda>r. \<not> (rf_id r = rc_jti rc \<and> rf_user_id r = au_id u)) (au_tokens (aw_db w)) @
       [\<lparr>rf_id = as_refresh_jti e, rf_user_id = au_id u, rf_token_hash = hash_token e (ip_refresh_token p),
         rf_created_at = av_db_now (as_repo e), rf_expires_at = timestamptz3 (refresh_expiry e)\<rparr>] \<and>
     isl (fst (rotate_session e' s ps' w1))"
proof -
  from rot obtain rc' r where d: "decode_refresh e s = Inr rc'"
    and r: "r \<in> set (au_tokens (aw_db w))" "rf_id r = rc_jti rc'" "rf_user_id r = rc_sub rc'"
      "rf_token_hash r = hash_token e s" "as_now e \<le> rf_expires_at r" "au_id u = rc_sub rc'"
    and w: "rotate_refresh_token (as_repo e) (au_id u) (rc_jti rc') (as_refresh_jti e) (hash_token e (ip_refresh_token p))
       (refresh_expiry e) (aw_db w) = (Inr (), aw_db w1)"
    by (rule rotate_ok)
  have rc: "rc' = rc" using d decode_signed(2) [OF laws sr] by (simp split: if_splits)
  note w1 = rotate_token_ok [OF w, unfolded rc]
  have none: "find (\<lambda>t. rf_id t = rc_jti rc \<and> rf_user_id t = rc_sub rc) (au_tokens (aw_db w1)) = None"
    using w1 fresh r(6) rc by (auto simp: find_None_iff)
  have "decode_refresh e' s = (if rc_exp rc < now_unix e' then Inl RefreshTokenExpired else Inr rc)"
    using decode_signed(2) [of e' rc s] laws env sr by simp
  with none have "isl (fst (rotate_session e' s ps' w1))"
    by (auto simp: rotate_session_def svc_bind_def svc_lift_def auth_find_def find_refresh_token_def auth_sql_def bind_res_def
        split: option.split)
  with r w1 rc show ?thesis by auto
qed

section \<open>The request check\<close>

text \<open>C20. A request runs as somebody only with a token this server signed for that user, not yet expired, whose e-mail
  address is verified, and which is on neither block list.
\<close>

theorem middleware_sound:
  assumes "jwt_laws (as_jwt e)" and "auth_middleware e header w = Inr who"
  shows "\<exists>t c. header = Some (''Bearer '' @ t) \<and> jw_sign_access (as_jwt e) c = Some t \<and> now_unix e \<le> ac_exp c \<and>
     ac_verified c \<and> ux_auth_id who = ac_sub c \<and> ux_auth_role who = ac_role c \<and>
     \<not> cmd_exists (r_now (ak_redis (as_cache e))) (token_block_key (as_cache e) (ac_jti c)) (aw_keys w) \<and>
     is_user_tokens_blocked (as_cache e) (ac_sub c) (ac_iat c) (aw_keys w) = Inr False"
proof -
  from assms(2) obtain t c where t: "Option.bind header (strip_prefix ''Bearer '') = Some t" and c: "decode_access e t = Inr c"
    and b: "is_access_token_blocked e (ac_jti c) (ac_sub c) (ac_iat c) w = Inr False" and v: "ac_verified c"
    and who: "ux_auth_id who = ac_sub c" "ux_auth_role who = ac_role c"
    by (auto simp: auth_middleware_def bind_res_Inr split: if_splits)
  have "header = Some (''Bearer '' @ t)"
  proof -
    from t obtain h where h: "header = Some h" "strip_prefix ''Bearer '' h = Some t" by (cases header) auto
    from h(2) have "take (length ''Bearer '') h = ''Bearer ''" "t = drop (length ''Bearer '') h"
      by (auto simp: strip_prefix_def split: if_splits)
    with h(1) append_take_drop_id [of "length ''Bearer ''" h] show ?thesis by metis
  qed
  moreover have s: "jw_sign_access (as_jwt e) c = Some t"
    using c jwt_lawsD(3) [OF assms(1)] by (auto simp: decode_access_def split: sum.splits jwt_error.splits)
  moreover have "now_unix e \<le> ac_exp c"
    using c decode_signed(1) [OF assms(1) s] by (simp split: if_splits)
  moreover from b have "\<not> cmd_exists (r_now (ak_redis (as_cache e))) (token_block_key (as_cache e) (ac_jti c)) (aw_keys w)"
    "is_user_tokens_blocked (as_cache e) (ac_sub c) (ac_iat c) (aw_keys w) = Inr False"
    by (auto simp: is_access_token_blocked_def bind_res_Inr is_token_blocked_def redis_err_read_def redis_exists_def
        split: if_splits)
  ultimately show ?thesis using v who by blast
qed

section \<open>Two providers, one address\<close>

text \<open>
  Signing in with Google does not look at whether Google has verified the address when an account with that
  address exists: the Google identity is linked to that account and a session for it is issued.
\<close>

theorem google_flag_ignored:
  assumes "find (\<lambda>u. au_email u = gi_email info) (au_users (aw_db w)) = Some u"
  shows "upsert_google_user e (info\<lparr>gi_email_verified := v\<rparr>) w = upsert_google_user e info w \<and>
    (upsert_google_user e info w = (Inr resp, w1) \<and>
       find (same_account ''google'' (gi_sub info)) (au_identities (aw_db w)) = None \<longrightarrow> ux_id (ar_user resp) = au_id u)"
proof
  have f: "find_by_email (as_repo e) (gi_email info) (aw_db w) = auth_sql (as_repo e) FindByEmail (Some u)"
    using assms by (simp add: find_by_email_def)
  show "upsert_google_user e (info\<lparr>gi_email_verified := v\<rparr>) w = upsert_google_user e info w"
    using f by (simp add: upsert_google_user_def svc_bind_def auth_read_def auth_sql_def split: sum.split option.split)
  show "upsert_google_user e info w = (Inr resp, w1) \<and>
       find (same_account ''google'' (gi_sub info)) (au_identities (aw_db w)) = None \<longrightarrow> ux_id (ar_user resp) = au_id u"
    using f unfolding upsert_google_user_def svc_ok
    by (auto simp: svc_ok find_identity_def build_auth_response_def)
qed

text \<open>
  An address that has an account but no e-mail identity, because the account was made by Google sign-in or because
  an earlier registration stopped half way, cannot be registered: the attempt is answered with an
  internal error, not with a conflict, and changes nothing.
\<close>

theorem register_conflict_is_internal:
  assumes "rr_email req \<in> au_email ` set (au_users (aw_db w))"
    and "find (same_account ''email'' (rr_email req)) (au_identities (aw_db w)) = None"
    and "\<forall>st. av_fault (as_repo e) st = None" and "as_hash_password e (rr_password req) = Inr h"
  shows "\<exists>err. auth_register e req w = (Inl err, w) \<and> auth_into_response err = internal_error"
proof -
  have "create_user (as_repo e) (rr_full_name req) (rr_email req) (aw_db w) = (Inl (AuthDatabase auth_unique_violation), aw_db w)"
    using assms(1,3) by (simp add: create_user_def Let_def auth_tx_def auth_sql_def auth_then_def auth_exec_def)
  then have "auth_register e req w = (Inl (AuthDatabase auth_unique_violation), w)"
    using assms(2-4)
    by (simp add: auth_register_def svc_bind_def auth_read_def find_identity_def auth_sql_def svc_refuse_def svc_lift_def
        auth_write_def)
  then show ?thesis by simp
qed

section \<open>Clean-up\<close>

lemma cleanup_batch_tokens:
  assumes "distinct (map rf_id (au_tokens d))"
  shows "filter (\<lambda>t. \<not> rf_expires_at t < now) (au_tokens (snd (cleanup_batch now d))) =
      filter (\<lambda>t. \<not> rf_expires_at t < now) (au_tokens d)"
    and "distinct (map rf_id (au_tokens (snd (cleanup_batch now d))))"
    and "fst (cleanup_batch now d) < CLEANUP_BATCH \<Longrightarrow>
      au_tokens (snd (cleanup_batch now d)) = filter (\<lambda>t. \<not> rf_expires_at t < now) (au_tokens d)"
proof -
  let ?old = "filter (\<lambda>t. rf_expires_at t < now) (au_tokens d)" and ?ids = "cleanup_victims now d"
  have ids: "set ?ids \<subseteq> rf_id ` set ?old" by (auto simp: cleanup_victims_def dest: in_set_takeD)
  have inj: "inj_on rf_id (set (au_tokens d))" using assms by (simp add: distinct_map)
  have old: "rf_expires_at t < now" if "t \<in> set (au_tokens d)" "rf_id t \<in> set ?ids" for t
    using that ids inj by (auto simp: inj_on_def)
  show "filter (\<lambda>t. \<not> rf_expires_at t < now) (au_tokens (snd (cleanup_batch now d))) =
      filter (\<lambda>t. \<not> rf_expires_at t < now) (au_tokens d)"
    using old by (auto simp: cleanup_batch_def Let_def drop_tokens_def intro!: filter_cong)
  show "distinct (map rf_id (au_tokens (snd (cleanup_batch now d))))"
    using assms by (simp add: cleanup_batch_def Let_def drop_tokens_def distinct_map inj_on_def)
  assume few: "fst (cleanup_batch now d) < CLEANUP_BATCH"
  have "length (filter (\<lambda>t. rf_id t \<in> set ?ids) (au_tokens d)) = length ?ids"
  proof -
    have "distinct ?ids" using assms by (simp add: cleanup_victims_def distinct_map inj_on_def distinct_take)
    moreover have "set (map rf_id (filter (\<lambda>t. rf_id t \<in> set ?ids) (au_tokens d))) = set ?ids"
      using ids by auto
    moreover have "distinct (map rf_id (filter (\<lambda>t. rf_id t \<in> set ?ids) (au_tokens d)))"
      using assms by (simp add: distinct_map inj_on_def)
    ultimately show ?thesis by (metis distinct_card length_map)
  qed
  with few have "length ?ids < CLEANUP_BATCH" by (simp add: cleanup_batch_def Let_def)
  then have all: "?ids = map rf_id ?old" by (auto simp: cleanup_victims_def)
  have "rf_id t \<in> set ?ids \<longleftrightarrow> rf_expires_at t < now" if "t \<in> set (au_tokens d)" for t
    using that old [OF that] all by auto
  then show "au_tokens (snd (cleanup_batch now d)) = filter (\<lambda>t. \<not> rf_expires_at t < now) (au_tokens d)"
    by (auto simp: cleanup_batch_def Let_def drop_tokens_def intro!: filter_cong)
qed

text \<open>The clean-up ends and is exact: it returns the number of expired refresh tokens and leaves precisely those that
  have not expired, however many batches that takes.
\<close>

theorem cleanup_complete:
  assumes "distinct (map rf_id (au_tokens d))" and "av_fault e CleanTokens = None"
  shows "\<exists>d'. cleanup_expired_refresh_tokens e d =
      (Inr (length (filter (\<lambda>t. rf_expires_at t < av_db_now e) (au_tokens d))), d') \<and>
    au_tokens d' = filter (\<lambda>t. \<not> rf_expires_at t < av_db_now e) (au_tokens d)"
proof -
  let ?now = "av_db_now e"
  have "\<exists>d'. cleanup_loop e n d = (Inr (n + length (filter (\<lambda>t. rf_expires_at t < ?now) (au_tokens d))), d') \<and>
    au_tokens d' = filter (\<lambda>t. \<not> rf_expires_at t < ?now) (au_tokens d)" for n
    using assms
  proof (induction e n d rule: cleanup_loop.induct)
    case (1 e n d)
    let ?b = "cleanup_batch (av_db_now e) d" and ?live = "\<lambda>t. \<not> rf_expires_at t < av_db_now e"
    note bt = cleanup_batch_tokens [OF "1.prems"(1), of "av_db_now e"]
    have count: "fst ?b + length (filter (\<lambda>t. rf_expires_at t < av_db_now e) (au_tokens (snd ?b))) =
        length (filter (\<lambda>t. rf_expires_at t < av_db_now e) (au_tokens d))"
      using cleanup_batch_shrinks [of "av_db_now e" d] bt(1)
        sum_length_filter_compl [of ?live "au_tokens d"] sum_length_filter_compl [of ?live "au_tokens (snd ?b)"] by simp
    show ?case
    proof (cases "fst ?b < CLEANUP_BATCH")
      case True
      with bt(3) have t: "au_tokens (snd ?b) = filter ?live (au_tokens d)" by simp
      then have "filter (\<lambda>t. rf_expires_at t < av_db_now e) (au_tokens (snd ?b)) = []"
        by (simp add: filter_empty_conv)
      with count True "1.prems"(2) t show ?thesis by (simp add: cleanup_loop.simps [of e n d] Let_def)
    next
      case False
      from "1.IH" [OF "1.prems"(2) refl False bt(2) "1.prems"(2)] False "1.prems"(2) bt(1) count
      show ?thesis by (auto simp: cleanup_loop.simps [of e n d] Let_def)
    qed
  qed
  from this [of 0] show ?thesis by (simp add: cleanup_expired_refresh_tokens_def)
qed

end
