(* ===== verification/Auth_Throttle.thy ===== *)
theory Auth_Throttle
  imports Auth_Properties
begin

text \<open>
  The limits on guessing: a counter in Redis with a lifetime bounds how many attempts of a window are looked
  at. The locale \<open>throttle\<close> is the contract of such a counter; password logins and one-time
  passwords provide it.
\<close>

section \<open>Sequences of attempts\<close>

fun attempts :: "('e \<Rightarrow> 's \<Rightarrow> 'r \<times> 's) \<Rightarrow> 'e list \<Rightarrow> 's \<Rightarrow> 'r list \<times> 's" where
  "attempts f [] s = ([], s)"
| "attempts f (e # es) s = (case f e s of (r, s1) \<Rightarrow> (case attempts f es s1 of (rs, s2) \<Rightarrow> (r # rs, s2)))"

locale throttle =
  fixes attempt :: "'e \<Rightarrow> 's \<Rightarrow> 'r \<times> 's"
    and level :: "nat \<Rightarrow> 's \<Rightarrow> bool"
    and within :: "'e \<Rightarrow> bool"
    and looked_at :: "'r \<Rightarrow> bool"
    and possible :: "'r \<Rightarrow> bool"
    and cap :: nat
  assumes step: "within e \<Longrightarrow> level n s \<Longrightarrow> attempt e s = (r, s') \<Longrightarrow> possible r \<Longrightarrow>
      level (Suc n) s' \<and> (looked_at r \<longrightarrow> n < cap)"
begin

lemma bounded:
  assumes "level n s" and "list_all within es" and "list_all possible (fst (attempts attempt es s))"
  shows "length (filter looked_at (fst (attempts attempt es s))) \<le> cap - n"
  using assms
proof (induction es arbitrary: n s)
  case (Cons e es)
  obtain r s1 where a: "attempt e s = (r, s1)" by fastforce
  obtain rs s2 where b: "attempts attempt es s1 = (rs, s2)" by fastforce
  from Cons.prems a b have p: "within e" "possible r" "list_all within es" "list_all possible rs" by simp_all
  from step [OF p(1) Cons.prems(1) a p(2)] have l: "level (Suc n) s1" "looked_at r \<longrightarrow> n < cap" by simp_all
  from Cons.IH [OF l(1) p(3)] b p(4) have "length (filter looked_at rs) \<le> cap - Suc n" by simp
  with a b l(2) show ?case by auto
qed simp

end

section \<open>Counters\<close>

text \<open>A counter's entry until a common instant; absent is zero.\<close>

definition counter :: "redis_key \<Rightarrow> int \<Rightarrow> nat \<Rightarrow> keyspace \<Rightarrow> bool" where
  "counter key until n k \<longleftrightarrow>
     (if n = 0 then k key = None
      else int n \<le> i64_max \<and> (\<exists>t \<ge> until. k key = Some (RStr (show_int (int n)), Some t)))"

lemma counter_incr:
  assumes "counter key until n k" and "t < until"
  shows "(\<exists>err. cmd_incrby t key 1 k = (Inl err, k)) \<or>
    int (Suc n) \<le> i64_max \<and>
    cmd_incrby t key 1 k = (Inr (int (Suc n)), k(key := Some (RStr (show_int (int (Suc n))),
       if n = 0 then None else snd (the (k key)))))"
proof (cases "n = 0")
  case True
  with assms show ?thesis by (simp add: counter_def cmd_incrby_def entry_def i64_max_def)
next
  case False
  with assms obtain x where x: "k key = Some (RStr (show_int (int n)), Some x)" "until \<le> x" "int n \<le> i64_max"
    by (auto simp: counter_def)
  with assms(2) have "entry t k key = Some (RStr (show_int (int n)), Some x)" by (simp add: entry_def)
  moreover have "parse_signed i64_min i64_max (show_int (int n)) = Some (int n)"
    using x(3) by (intro parse_show_int) (simp_all add: i64_min_def)
  ultimately show ?thesis
    using False x(1) by (simp add: cmd_incrby_def i64_min_def add.commute)
qed

lemma counter_bumped:
  assumes "counter key until n k" and "until \<le> t + ttl * 1000" and "0 < ttl" and "int (Suc n) \<le> i64_max"
  shows "counter key until (Suc n)
    (let k1 = k(key := Some (RStr (show_int (int (Suc n))), if n = 0 then None else snd (the (k key))))
     in if n = 0 then cmd_expire t key ttl k1 else k1)"
  using assms by (auto simp: counter_def Let_def cmd_expire_def entry_def)

section \<open>Logging in\<close>

definition login_window :: "string \<Rightarrow> int \<Rightarrow> auth_svc_env \<times> login_request \<Rightarrow> bool" where
  "login_window email t0 x \<longleftrightarrow> lg_email (snd x) = email \<and> reachable (as_cache (fst x)) \<and>
     t0 \<le> r_now (ak_redis (as_cache (fst x))) \<and> r_now (ak_redis (as_cache (fst x))) < t0 + 900000"

lemma check_login_counter:
  assumes c: "counter (login_key email) (t0 + 900000) n k" and r: "reachable ce"
    and t: "t0 \<le> r_now (ak_redis ce)" "r_now (ak_redis ce) < t0 + 900000"
    and chk: "check_login_rate_limit ce email k = (r, k')"
  shows "(\<exists>err. r = Inl (AuthRedis err)) \<or>
    counter (login_key email) (t0 + 900000) (Suc n) k' \<and> (if 10 \<le> n then r = Inl AuthTooManyRequests else r = Inr ())"
  using counter_incr [OF c t(2)] counter_bumped [OF c, of "r_now (ak_redis ce)" 900] t r chk
  by (auto simp: check_login_rate_limit_def incr_and_expire_if_first_def guarded_cmd_def redis_err_def Let_def
      TTL_RATE_WINDOW_SECS_def MAX_LOGIN_ATTEMPTS_def split: if_splits)

lemma issue_pair_err_kind:
  "issue_pair e u ps w = (Inl err, w') \<Longrightarrow> err = TokenCreationFailed \<or> (\<exists>d. err = AuthDatabase d)"
  unfolding issue_pair_def svc_ok svc_err
  by (auto simp: sign_access_def sign_refresh_def Let_def ok_or_def store_refresh_token_def insert_token_def auth_exec_def
      split: option.splits if_splits)

lemma auth_sql_err: "auth_sql e st v = Inl err \<Longrightarrow> \<exists>d. err = AuthDatabase d"
  by (auto simp: auth_sql_def split: option.splits)

lemma login_failure:
  assumes "auth_login e req w = (Inl err, w')" and "err = InvalidCredentials \<or> err = AuthTooManyRequests"
  shows "\<exists>r k'. check_login_rate_limit (as_cache e) (lg_email req) (aw_keys w) = (r, k') \<and> aw_keys w' = k' \<and>
    (err = InvalidCredentials \<longrightarrow> r = Inr ()) \<and> (err = AuthTooManyRequests \<longrightarrow> r = Inl AuthTooManyRequests)"
  using assms(1) unfolding auth_login_def svc_err
proof (elim disjE exE conjE, goal_cases)
  case 1
  then show ?thesis using assms(2)
    by (auto simp: svc_err check_login_rate_limit_def redis_err_def split: sum.splits prod.splits if_splits)
next
  case (2 x w1)
  then show ?thesis using assms(2) by (auto simp: find_identity_def auth_sql_def svc_err split: option.splits)
next
  case (3 x w1 found w2)
  then show ?thesis using assms(2)
    by (cases found)
      (auto simp: Let_def svc_ok svc_err get_providers_def find_user_providers_def auth_find_by_id_def
        dest!: issue_pair_err_kind auth_sql_err)
qed

interpretation login: throttle "\<lambda>(e, req). auth_login e req" "\<lambda>n w. counter (login_key email) (t0 + 900000) n (aw_keys w)"
    "login_window email t0" "\<lambda>r. r = Inl InvalidCredentials"
    "\<lambda>r. r = Inl InvalidCredentials \<or> r = Inl AuthTooManyRequests" 10
  for email t0
proof (unfold_locales, clarify)
  fix e req n and w :: auth_world and r :: "auth_error + auth_response" and w' :: auth_world
  assume win: "login_window email t0 (e, req)" and c: "counter (login_key email) (t0 + 900000) n (aw_keys w)"
    and l: "auth_login e req w = (r, w')" and p: "r = Inl InvalidCredentials \<or> r = Inl AuthTooManyRequests"
  from p obtain err where err: "r = Inl err" "err = InvalidCredentials \<or> err = AuthTooManyRequests" by auto
  from login_failure [OF l [unfolded err(1)] err(2)] obtain x k' where
    x: "check_login_rate_limit (as_cache e) email (aw_keys w) = (x, k')" "aw_keys w' = k'"
      "err = InvalidCredentials \<longrightarrow> x = Inr ()" "err = AuthTooManyRequests \<longrightarrow> x = Inl AuthTooManyRequests"
    using win by (auto simp: login_window_def)
  from check_login_counter [OF c _ _ _ x(1)] win x(2-4) err
  show "counter (login_key email) (t0 + 900000) (Suc n) (aw_keys w') \<and> (r = Inl InvalidCredentials \<longrightarrow> n < 10)"
    by (auto simp: login_window_def split: if_splits)
qed


section \<open>One-time passwords\<close>

type_synonym otp_guess = "cache_env \<times> string"

definition guess_window :: "int \<Rightarrow> otp_guess \<Rightarrow> bool" where
  "guess_window t0 x \<longleftrightarrow> reachable (fst x) \<and> t0 \<le> r_now (ak_redis (fst x)) \<and> r_now (ak_redis (fst x)) < t0 + 900000"

lemma count_attempt_counter:
  assumes c: "counter key (t0 + 900000) n k" and r: "reachable ce"
    and t: "t0 \<le> r_now (ak_redis ce)" "r_now (ak_redis ce) < t0 + 900000"
    and chk: "count_attempt ce key k = (r, k')"
  shows "(\<exists>err. r = Inl (AuthRedis err)) \<or> counter key (t0 + 900000) (Suc n) k' \<and> r = Inr (int (Suc n))"
  using counter_incr [OF c t(2)] counter_bumped [OF c, of "r_now (ak_redis ce)" 900] t r chk
  by (auto simp: count_attempt_def redis_incr_def redis_expire_def guarded_cmd_def redis_err_def Let_def TTL_OTP_SECS_def
      split: if_splits)

interpretation guess: throttle "\<lambda>(ce, c) k. verify_otp ce email c ty k"
    "\<lambda>n k. counter (otp_attempts_key email ty) (t0 + 900000) n k" "guess_window t0"
    "\<lambda>r. r = Inr False" "\<lambda>r. r \<in> {Inr False, Inl InvalidOtp, Inl AuthTooManyRequests}" 5
  for email ty t0
proof (unfold_locales, clarify)
  fix ce c n k and r :: "auth_error + bool" and k'
  assume win: "guess_window t0 (ce, c)" and l: "counter (otp_attempts_key email ty) (t0 + 900000) n k"
    and v: "verify_otp ce email c ty k = (r, k')" and p: "r \<in> {Inr False, Inl InvalidOtp, Inl AuthTooManyRequests}"
  obtain x k1 where x: "count_attempt ce (otp_attempts_key email ty) k = (x, k1)" by fastforce
  from count_attempt_counter [OF l _ _ _ x] win v x p
  show "counter (otp_attempts_key email ty) (t0 + 900000) (Suc n) k' \<and> (r = Inr False \<longrightarrow> n < 5)"
    by (auto simp: guess_window_def verify_otp_def Let_def split: if_splits sum.splits option.splits)
qed

text \<open>
  Guessing a code is throttled: of the failing attempts for one address and kind within fifteen minutes, at most five are
  compared with the code.
\<close>

theorem otp_throttled:
  assumes "k (otp_attempts_key email ty) = None"
    and "\<forall>(ce, c) \<in> set xs. reachable ce \<and> t0 \<le> r_now (ak_redis ce) \<and> r_now (ak_redis ce) < t0 + 900000"
    and "\<forall>r \<in> set (fst (attempts (\<lambda>(ce, c) k. verify_otp ce email c ty k) xs k)).
       r \<in> {Inr False, Inl InvalidOtp, Inl AuthTooManyRequests}"
  shows "length (filter (\<lambda>r. r = Inr False) (fst (attempts (\<lambda>(ce, c) k. verify_otp ce email c ty k) xs k))) \<le> 5"
  using guess.bounded [of email ty t0 0 k xs] assms
  by (simp add: counter_def list_all_iff guess_window_def split_beta)

text \<open>A code works once: it is accepted only when it is the stored one, and afterwards every attempt, with any code, is
  answered as invalid until a new one is stored.
\<close>

theorem otp_accepted_once:
  assumes "verify_otp ce email c ty k = (Inr True, k1)" and "reachable ce" and "reachable ce'"
  shows "redis_get (ak_redis ce) (ak_str_parse ce) (key_otp email (otp_type_text ty)) k = Inr (Some c) \<and>
     fst (verify_otp ce' email x ty k1) = Inl InvalidOtp"
proof -
  let ?a = "otp_attempts_key email ty" and ?o = "key_otp email (otp_type_text ty)"
  have ao: "?a \<noteq> ?o" by (simp add: otp_attempts_key_def key_rate_limit_def key_otp_def)
  obtain n k0 where n: "count_attempt ce ?a k = (Inr n, k0)"
    and g: "redis_get (ak_redis ce) (ak_str_parse ce) ?o k0 = Inr (Some c)"
    and k1: "k1 = snd (redis_del (ak_redis ce) ?o (snd (redis_del (ak_redis ce) ?a k0)))"
    using assms(1) by (auto simp: verify_otp_def Let_def redis_err_read_def split: sum.splits option.splits prod.splits if_splits)
  have "k0 ?o = k ?o"
    using n ao by (auto simp: count_attempt_def redis_err_def redis_incr_def redis_expire_def guarded_cmd_def cmd_incrby_def
        cmd_expire_def split: sum.splits option.splits prod.splits if_splits rvalue.splits)
  then have "cmd_get (r_now (ak_redis ce)) ?o k0 = cmd_get (r_now (ak_redis ce)) ?o k"
    by (simp add: cmd_get_def entry_def)
  with g have "redis_get (ak_redis ce) (ak_str_parse ce) ?o k = Inr (Some c)"
    by (simp add: redis_get_def split: if_splits)
  moreover have "k1 ?a = None" "k1 ?o = None"
    using k1 assms(2) by (simp_all add: redis_del_def guarded_cmd_def cmd_del_def)
  then have "fst (verify_otp ce' email x ty k1) = Inl InvalidOtp"
    using assms(3) ao by (simp add: verify_otp_def count_attempt_def redis_err_def redis_incr_def redis_expire_def guarded_cmd_def
        cmd_incrby_def cmd_expire_def entry_def redis_err_read_def redis_get_def cmd_get_def Let_def TTL_OTP_SECS_def)
  ultimately show ?thesis by simp
qed

end
