(* ===== verification/Auth_Demo.thy ===== *)
theory Auth_Demo
  imports Auth_Throttle Broadcast_Demo
begin

text \<open>
  A small account database and a JWT library given by tables, used to show that the hypotheses of the
  authentication properties can hold.
\<close>

section \<open>A JWT library given by two tables\<close>

fun unsign :: "('c \<times> string) list \<Rightarrow> ('c \<Rightarrow> int) \<Rightarrow> int \<Rightarrow> string \<Rightarrow> jwt_error + 'c" where
  "unsign [] ex now t = Inl OtherJwtError"
| "unsign ((c, s) # cs) ex now t =
     (if s = t then if ex c < now then Inl ExpiredSignature else Inr c else unsign cs ex now t)"

definition table_jwt :: "(access_claims \<times> string) list \<Rightarrow> (refresh_claims \<times> string) list \<Rightarrow> jwt_env" where
  "table_jwt as rs =
     \<lparr>jw_sign_access = map_of as, jw_read_access = unsign as ac_exp,
      jw_sign_refresh = map_of rs, jw_read_refresh = unsign rs rc_exp, jw_hash = (\<lambda>t. CHR ''#'' # t)\<rparr>"

lemma unsign_member:
  "distinct (map snd cs) \<Longrightarrow> (c, t) \<in> set cs \<Longrightarrow>
     unsign cs ex now t = (if ex c < now then Inl ExpiredSignature else Inr c)"
  by (induction cs) force+

lemmas unsign_signed = unsign_member [OF _ map_of_SomeD]

lemma unsign_genuine: "distinct (map fst cs) \<Longrightarrow> unsign cs ex now t = Inr c \<Longrightarrow> map_of cs c = Some t"
proof (induction cs)
  case (Cons x cs)
  obtain c' s where x: "x = (c', s)" by fastforce
  have "map_of cs c = Some t" if "unsign cs ex now t = Inr c" using Cons that by simp
  then show ?case using Cons.prems x by (auto split: if_splits dest: map_of_SomeD simp: image_iff)
qed simp

lemma table_jwt_laws:
  assumes "distinct (map fst as)" and "distinct (map snd as)" and "distinct (map fst rs)" and "distinct (map snd rs)"
  shows "jwt_laws (table_jwt as rs)"
  using assms unfolding jwt_laws_def table_jwt_def by (simp add: unsign_signed unsign_genuine)

section \<open>The account\<close>

definition demo_address :: string where "demo_address = ''a@b.c''"

text \<open>The claims of the session user 1 holds, and of the one signed next.\<close>

definition demo_access :: "uuid \<Rightarrow> int \<Rightarrow> access_claims" where
  "demo_access jti iat = \<lparr>ac_sub = 1, ac_jti = jti, ac_email = demo_address, ac_full_name = ''A'', ac_verified = True,
     ac_providers = [EmailProvider], ac_role = UserRole, ac_exp = iat + 900, ac_iat = iat\<rparr>"

definition demo_refresh :: "uuid \<Rightarrow> int \<Rightarrow> refresh_claims" where
  "demo_refresh jti iat = \<lparr>rc_sub = 1, rc_jti = jti, rc_exp = iat + 604800, rc_iat = iat\<rparr>"

definition demo_jwt :: jwt_env where
  "demo_jwt = table_jwt [(demo_access 20 900, ''acc''), (demo_access 21 1000, ''acc2'')]
     [(demo_refresh 11 900, ''ref''), (demo_refresh 22 1000, ''ref2'')]"

lemma demo_jwt_laws: "jwt_laws demo_jwt"
  unfolding demo_jwt_def by (rule table_jwt_laws) (simp_all add: demo_access_def demo_refresh_def)

definition demo_cache_at :: "int \<Rightarrow> cache_env" where
  "demo_cache_at t = \<lparr>ak_codec = plain_codec, ak_redis = \<lparr>r_now = t, r_down = (\<lambda>_ _. False)\<rparr>, ak_str_json = id, ak_str_parse = Some\<rparr>"

text \<open>The wall clock at 1000 s; the password of every hash is \<open>pw\<close>.\<close>

definition demo_auth :: auth_svc_env where
  "demo_auth = \<lparr>as_cache = demo_cache_at 1000000,
     as_repo = \<lparr>av_db_now = 1000000000000, av_new_id = (\<lambda>_. 50), av_fault = (\<lambda>_. None)\<rparr>,
     as_jwt = demo_jwt, as_now = 1000000000000, as_access_jti = 21, as_refresh_jti = 22, as_access_ttl_secs = 900,
     as_refresh_ttl_secs = 604800, as_hash_password = (\<lambda>p. Inr (CHR ''$'' # p)), as_verify_password = (\<lambda>p h. h = CHR ''$'' # p),
     as_dummy_hash = ''$'', as_otp_draw = 7, as_authorize_url = (''u'', ''s'', ''v''),
     as_exchange_code = (\<lambda>_ _. Inl ''no''), as_tokeninfo = (\<lambda>_. Inl ''no'')\<rparr>"

definition demo_user :: auth_user where
  "demo_user = \<lparr>au_id = 1, au_full_name = ''A'', au_bio = None, au_email = demo_address, au_avatar_id = None, au_avatar_url = None,
     au_verified = True, au_role = UserRole, au_created_at = 0, au_updated_at = 0, au_deleted_at = None\<rparr>"

definition demo_identity :: user_identity where
  "demo_identity = \<lparr>id_id = 2, id_user_id = 1, id_provider_type = ''email'', id_provider_user_id = demo_address,
     id_password_hash = Some ''$pw'', id_created_at = 0, id_updated_at = None\<rparr>"

definition demo_token :: refresh_token where
  "demo_token = \<lparr>rf_id = 11, rf_user_id = 1, rf_token_hash = ''#ref'', rf_created_at = 900000000000,
     rf_expires_at = 605700000000000\<rparr>"

definition demo_accounts :: auth_world where
  "demo_accounts = \<lparr>aw_db = \<lparr>au_users = [demo_user], au_identities = [demo_identity], au_settings = [1], au_tokens = [demo_token]\<rparr>,
     aw_keys = Map.empty, aw_mails = []\<rparr>"

lemma demo_clocks: "clocks_agree demo_auth"
  by (simp add: clocks_agree_def demo_auth_def demo_cache_at_def)

lemmas demo_auth_facts [simp] = demo_jwt_laws demo_clocks

section \<open>The properties at work\<close>

lemma demo_signed:
  "jw_sign_access (as_jwt demo_auth) (demo_access 20 900) = Some ''acc''"
  "jw_sign_refresh (as_jwt demo_auth) (demo_refresh 11 900) = Some ''ref''"
  by (simp_all add: demo_auth_def demo_jwt_def table_jwt_def)

lemma demo_env_simps [simp]:
  "jwt_laws (as_jwt demo_auth)" "now_unix demo_auth = 1000" "as_access_ttl_secs demo_auth = 900"
  "as_refresh_jti demo_auth = 22"
  by (simp_all add: demo_auth_def now_unix_def)


definition demo_reset :: auth_world where
  "demo_reset = demo_accounts\<lparr>aw_keys :=
     [key_otp demo_address ''reset_password'' \<mapsto> (RStr ''000007'', Some 2000000)]\<rparr>"


lemma rotation_single_use_witness:
  "\<exists>p u w1. rotate_session demo_auth ''ref'' [EmailProvider] demo_accounts = (Inr (p, u), w1) \<and>
     isl (fst (rotate_session demo_auth ''ref'' [EmailProvider] w1))"
proof -
  have "\<not> isl (fst (rotate_session demo_auth ''ref'' [EmailProvider] demo_accounts))" by code_simp
  from run_succeeds [OF this] obtain p u w1 where
    rot: "rotate_session demo_auth ''ref'' [EmailProvider] demo_accounts = (Inr (p, u), w1)" by fastforce
  from rotation_single_use [OF _ rot demo_signed(2), where e' = demo_auth and ps' = "[EmailProvider]"] rot
  show ?thesis by (auto simp: demo_refresh_def)
qed

lemma middleware_sound_witness:
  "\<exists>who t. auth_middleware demo_auth (Some ''Bearer acc'') demo_accounts = Inr who \<and> ''Bearer acc'' = ''Bearer '' @ t"
proof -
  have "\<not> isl (auth_middleware demo_auth (Some ''Bearer acc'') demo_accounts)" by code_simp
  then obtain who where m: "auth_middleware demo_auth (Some ''Bearer acc'') demo_accounts = Inr who"
    by (cases "auth_middleware demo_auth (Some ''Bearer acc'') demo_accounts") auto
  from middleware_sound [OF _ m] m show ?thesis by auto
qed

definition demo_google :: google_user_info where
  "demo_google = \<lparr>gi_sub = ''g1'', gi_email = demo_address, gi_name = ''B'', gi_picture = None, gi_email_verified = True\<rparr>"

lemma google_flag_ignored_witness:
  "upsert_google_user demo_auth (demo_google\<lparr>gi_email_verified := False\<rparr>) demo_accounts =
     upsert_google_user demo_auth demo_google demo_accounts"
proof -
  have "find (\<lambda>u. au_email u = gi_email demo_google) (au_users (aw_db demo_accounts)) = Some demo_user"
    by (simp add: demo_google_def demo_accounts_def demo_user_def)
  from google_flag_ignored [OF this] show ?thesis by blast
qed

text \<open>The address of an account that only signs in with Google.\<close>

definition demo_google_only :: auth_world where
  "demo_google_only = demo_accounts\<lparr>aw_db := (aw_db demo_accounts)\<lparr>au_identities := []\<rparr>\<rparr>"

lemma register_conflict_is_internal_witness:
  "\<exists>err. auth_register demo_auth \<lparr>rr_full_name = ''A'', rr_email = demo_address, rr_password = ''pw''\<rparr> demo_google_only =
       (Inl err, demo_google_only) \<and> auth_into_response err = internal_error"
proof (rule register_conflict_is_internal)
  show "as_hash_password demo_auth (rr_password \<lparr>rr_full_name = ''A'', rr_email = demo_address, rr_password = ''pw''\<rparr>) =
      Inr ''$pw''" by (simp add: demo_auth_def)
qed (simp_all add: demo_google_only_def demo_accounts_def demo_user_def demo_auth_def)

lemma cleanup_complete_witness:
  "\<exists>d'. cleanup_expired_refresh_tokens (as_repo demo_auth) (aw_db demo_accounts) = (Inr 0, d')"
proof -
  have "distinct (map rf_id (au_tokens (aw_db demo_accounts)))" and "av_fault (as_repo demo_auth) CleanTokens = None"
    and "filter (\<lambda>t. rf_expires_at t < av_db_now (as_repo demo_auth)) (au_tokens (aw_db demo_accounts)) = []"
    by (simp_all add: demo_accounts_def demo_auth_def demo_token_def)
  from cleanup_complete [OF this(1,2)] this(3) show ?thesis by auto
qed

definition wrong_login :: login_request where "wrong_login = \<lparr>lg_email = demo_address, lg_password = ''no''\<rparr>"

definition demo_tries :: "(auth_svc_env \<times> login_request) list" where
  "demo_tries = [(demo_auth, wrong_login)]"


definition demo_guesses :: "(cache_env \<times> string) list" where
  "demo_guesses = [(demo_cache_at 1000000, ''000000'')]"

lemma otp_throttled_witness:
  "length (filter (\<lambda>r. r = Inr False)
     (fst (attempts (\<lambda>(ce, c) k. verify_otp ce demo_address c ResetPassword k) demo_guesses (aw_keys demo_reset)))) \<le> 5"
proof (rule otp_throttled)
  show "aw_keys demo_reset (otp_attempts_key demo_address ResetPassword) = None"
    by (simp add: demo_reset_def otp_attempts_key_def key_rate_limit_def key_otp_def demo_accounts_def)
  show "\<forall>(ce, c) \<in> set demo_guesses. reachable ce \<and> 1000000 \<le> r_now (ak_redis ce) \<and> r_now (ak_redis ce) < 1000000 + 900000"
    by (simp add: demo_guesses_def demo_cache_at_def)
  have "fst (verify_otp (demo_cache_at 1000000) demo_address ''000000'' ResetPassword (aw_keys demo_reset)) = Inr False"
    by code_simp
  then show "\<forall>r \<in> set (fst (attempts (\<lambda>(ce, c) k. verify_otp ce demo_address c ResetPassword k) demo_guesses
      (aw_keys demo_reset))). r \<in> {Inr False, Inl InvalidOtp, Inl AuthTooManyRequests}"
    by (simp add: demo_guesses_def split_beta)
qed

lemma otp_accepted_once_witness:
  "\<exists>k1. verify_otp (demo_cache_at 1000000) demo_address ''000007'' ResetPassword (aw_keys demo_reset) = (Inr True, k1) \<and>
     fst (verify_otp (demo_cache_at 1000000) demo_address ''000007'' ResetPassword k1) = Inl InvalidOtp"
proof -
  let ?v = "verify_otp (demo_cache_at 1000000) demo_address ''000007'' ResetPassword"
  have "case fst (?v (aw_keys demo_reset)) of Inr b \<Rightarrow> b | _ \<Rightarrow> False" by code_simp
  then obtain k1 where k1: "?v (aw_keys demo_reset) = (Inr True, k1)"
    by (cases "?v (aw_keys demo_reset)") (auto split: sum.splits)
  from otp_accepted_once [OF k1] k1 show ?thesis by (auto simp: demo_cache_at_def)
qed

end
