(* ===== verification/Ws_Session.thy ===== *)
theory Ws_Session
  imports Chat_Service Auth_Token
begin

text \<open>
  \<open>shared/services/ws/handlers.rs\<close> and \<open>jobs/broadcast_jobs.rs\<close>: the life of one socket, from the upgrade
  request to its end, what it does for each frame, the grace period of a host and the job that ends an
  abandoned broadcast. The ping and write tasks, which only move text to the socket, are left out.
\<close>

definition TTL_3600_SECS :: int where "TTL_3600_SECS = 3600"

section \<open>Frames\<close>

record client_message =
  cm_event :: ws_event
  cm_data :: json

text \<open>What one read of the socket yields within the timeout: \<open>OtherFrame\<close> is a pong or a binary frame.\<close>

datatype socket_event =
  TextFrame string | PingFrame | OtherFrame | CloseFrame | StreamEnd | StreamError string | TimedOut

text \<open>\<open>serde\<close>'s readings of a text and of a frame's data are arguments; a failed one gives the error's text.\<close>

record ws_env =
  we_app :: app_env
  we_client :: "string \<Rightarrow> client_message option"
  we_send :: "json \<Rightarrow> string + send_message_request"
  we_edit :: "json \<Rightarrow> string + edit_message_request"
  we_delete :: "json \<Rightarrow> string + delete_message_request"
  we_react :: "json \<Rightarrow> string + send_reaction_request"

abbreviation we_svc :: "ws_env \<Rightarrow> svc_env" where "we_svc e \<equiv> ae_svc (we_app e)"
abbreviation we_redis :: "ws_env \<Rightarrow> redis_env" where "we_redis e \<equiv> se_redis (we_svc e)"
abbreviation we_codec :: "ws_env \<Rightarrow> codec" where "we_codec e \<equiv> se_codec (we_svc e)"

abbreviation ap_keys :: "app \<Rightarrow> keyspace" where "ap_keys a \<equiv> w_keys (ap_world a)"
abbreviation ap_hub :: "app \<Rightarrow> ws_service" where "ap_hub a \<equiv> in_hub (w_inst (ap_world a))"

definition with_keys :: "keyspace \<Rightarrow> app \<Rightarrow> app" where "with_keys k = set_world (set_keys k)"

definition with_hub :: "ws_service \<Rightarrow> app \<Rightarrow> app" where
  "with_hub h = set_world (\<lambda>w. w\<lparr>w_inst := (w_inst w)\<lparr>in_hub := h\<rparr>\<rparr>)"

text \<open>A message to one user: to each connection, or to the buffer when there is none.\<close>

definition to_user :: "ws_env \<Rightarrow> uuid \<Rightarrow> ws_payload \<Rightarrow> app \<Rightarrow> app" where
  "to_user e user_id payload a =
     (case send_to_user (we_codec e) (we_redis e) (ae_to_json (we_app e)) user_id payload (ap_hub a) (ap_keys a) of
        (out, k) \<Rightarrow> with_keys k (a\<lparr>ap_sent := ap_sent a @ out\<rparr>))"

definition to_user_unsupported :: "ws_env \<Rightarrow> uuid \<Rightarrow> string \<Rightarrow> app \<Rightarrow> app" where
  "to_user_unsupported e user_id msg a =
     (case send_unsupported_error (we_codec e) (we_redis e) (ae_to_json (we_app e)) user_id msg (ap_hub a) (ap_keys a) of
        (out, k) \<Rightarrow> with_keys k (a\<lparr>ap_sent := ap_sent a @ out\<rparr>))"

definition now_secs :: "ws_env \<Rightarrow> int" where "now_secs e = se_now (we_svc e) div 1000000000"

definition heartbeat_ack :: "ws_env \<Rightarrow> uuid \<Rightarrow> ws_payload" where
  "heartbeat_ack e user_id = payload_new Heartbeat
     (JObj [(''status'', JStr ''ok''), (''timestamp'', JInt (now_secs e)), (''userId'', json_uuid (we_codec e) user_id)])"

definition invalid_payload :: "string \<Rightarrow> string" where "invalid_payload err = ''Invalid payload: '' @ err"

definition handle_client_message :: "ws_env \<Rightarrow> uuid \<Rightarrow> string \<Rightarrow> app \<Rightarrow> app" where
  "handle_client_message e user_id raw_text a =
     (case we_client e raw_text of
        None \<Rightarrow> a
      | Some msg \<Rightarrow>
          (case cm_event msg of
             Heartbeat \<Rightarrow>
               (let a1 = to_user e user_id (heartbeat_ack e user_id) a
                in with_keys (snd (redis_expire (we_redis e) (key_presence (we_codec e) user_id) 120 (ap_keys a1))) a1)
           | SendMessage \<Rightarrow>
               (case we_send e (cm_data msg) of
                  Inl err \<Rightarrow> to_user_unsupported e user_id (invalid_payload err) a
                | Inr req \<Rightarrow> handle_ws_send_message (we_app e) req a)
           | EditMessage \<Rightarrow>
               (case we_edit e (cm_data msg) of
                  Inl err \<Rightarrow> to_user_unsupported e user_id (invalid_payload err) a
                | Inr req \<Rightarrow> handle_ws_edit_message (we_app e) req a)
           | DeleteMessage \<Rightarrow>
               (case we_delete e (cm_data msg) of
                  Inl err \<Rightarrow> to_user_unsupported e user_id (invalid_payload err) a
                | Inr req \<Rightarrow> handle_ws_delete_message (we_app e) req a)
           | SendReaction \<Rightarrow>
               (case we_react e (cm_data msg) of
                  Inl err \<Rightarrow> to_user_unsupported e user_id (invalid_payload err) a
                | Inr req \<Rightarrow> handle_ws_send_reaction (we_app e) req a)
           | ev \<Rightarrow> to_user_unsupported e user_id (''Unsupported event: '' @ ws_event_text ev) a))"

text \<open>
  The read loop over what the socket yields. Its result is \<open>None\<close> while the socket is open, else whether
  the connection was lost; every read has its own environment.
\<close>

fun run_read_loop :: "uuid \<Rightarrow> 32 word \<Rightarrow> 32 word \<Rightarrow> (ws_env \<times> socket_event) list \<Rightarrow> app \<Rightarrow> bool option \<times> app" where
  "run_read_loop user_id max_missed missed_count [] a = (None, a)"
| "run_read_loop user_id max_missed missed_count ((e, ev) # evs) a =
     (case ev of
        TextFrame text \<Rightarrow> run_read_loop user_id max_missed 0 evs (handle_client_message e user_id text a)
      | PingFrame \<Rightarrow> run_read_loop user_id max_missed 0 evs a
      | CloseFrame \<Rightarrow> (Some False, a)
      | StreamEnd \<Rightarrow> (Some False, a)
      | StreamError err \<Rightarrow> (Some True, a)
      | TimedOut \<Rightarrow>
          (let missed = missed_count + 1
           in if max_missed \<le> missed then (Some True, a) else run_read_loop user_id max_missed missed evs a)
      | OtherFrame \<Rightarrow> run_read_loop user_id max_missed missed_count evs a)"

section \<open>Hosts who drop out\<close>

definition hosted_by :: "ws_env \<Rightarrow> uuid \<Rightarrow> app \<Rightarrow> broadcast option" where
  "hosted_by e user_id a = unwrap_or (fst (find_active_hosted_by (we_svc e) user_id (ap_world a))) None"

definition to_room :: "ws_env \<Rightarrow> uuid \<Rightarrow> ws_payload \<Rightarrow> app \<Rightarrow> app" where
  "to_room e broadcast_id payload =
     set_world (add_published (publish_to_room (we_codec e) (se_bridge (we_svc e)) broadcast_id payload))"

definition push_broadcast_end :: "ws_env \<Rightarrow> end_job \<Rightarrow> app \<Rightarrow> app" where
  "push_broadcast_end e job a = (if ae_end_job_ok (we_app e) then a\<lparr>ap_end_jobs := ap_end_jobs a @ [job]\<rparr> else a)"

definition handle_disconnect :: "ws_env \<Rightarrow> uuid \<Rightarrow> bool \<Rightarrow> app \<Rightarrow> app" where
  "handle_disconnect e user_id is_host a =
     (if \<not> is_host then a
      else case hosted_by e user_id a of
             None \<Rightarrow> a
           | Some b \<Rightarrow>
               (let bid = b_id b;
                    count_key = key_disconnect_count (we_codec e) bid;
                    counted = redis_incr (we_redis e) count_key (ap_keys a);
                    disconnect_count = (case fst counted of Inr c \<Rightarrow> word_of_int c | Inl _ \<Rightarrow> 1);
                    k1 = snd (redis_expire (we_redis e) count_key TTL_3600_SECS (snd counted));
                    grace_secs = get_grace_seconds grace_default disconnect_count;
                    k2 = snd (redis_set_ex (we_redis e) (key_host_grace (we_codec e) bid)
                          (show_int (uint grace_secs)) grace_secs k1);
                    k3 = snd (redis_set_ex (we_redis e) (key_grace_started (we_codec e) bid)
                          (show_int (now_secs e)) (grace_secs + 10) k2);
                    a1 = to_room e bid (payload_host_disconnected (we_codec e) bid grace_secs disconnect_count) (with_keys k3 a)
                in push_broadcast_end e \<lparr>ej_broadcast_id = bid, ej_host_id = user_id,
                     ej_reason = end_reason_to_string HostDisconnected\<rparr> a1))"

definition handle_reconnect :: "ws_env \<Rightarrow> uuid \<Rightarrow> app \<Rightarrow> app" where
  "handle_reconnect e user_id a =
     (case hosted_by e user_id a of
        None \<Rightarrow> a
      | Some b \<Rightarrow>
          (let grace_key = key_host_grace (we_codec e) (b_id b);
               was_in_grace = unwrap_or (redis_exists (we_redis e) grace_key (ap_keys a)) False
           in if \<not> was_in_grace then a
              else case redis_del (we_redis e) grace_key (ap_keys a) of
                     (Inl err, k) \<Rightarrow> with_keys k a
                   | (Inr n, k) \<Rightarrow>
                       if n = 0 then with_keys k a
                       else to_room e (b_id b) (payload_host_reconnected (we_codec e) (b_id b)) (with_keys k a)))"

text \<open>The worker of the queued job.\<close>

definition end_broadcast_job :: "ws_env \<Rightarrow> end_job \<Rightarrow> app \<Rightarrow> (broadcast_error + unit) \<times> app" where
  "end_broadcast_job e job a =
     (let grace_key = key_host_grace (we_codec e) (ej_broadcast_id job);
          still_in_grace = unwrap_or (redis_exists (we_redis e) grace_key (ap_keys a)) False
      in if \<not> still_in_grace then (Inr (), a)
         else
           (let a1 = with_keys (snd (redis_del (we_redis e) grace_key (ap_keys a))) a
            in case broadcast_end (we_svc e) (ej_broadcast_id job) (ej_host_id job) (ap_world a1) of
                 (Inl err, w) \<Rightarrow> (Inl err, a1\<lparr>ap_world := w\<rparr>)
               | (Inr _, w) \<Rightarrow> (Inr (), a1\<lparr>ap_world := w\<rparr>)))"

section \<open>The upgrade request\<close>

type_synonym refusal = "nat \<times> json"

definition ws_error_response :: "nat \<Rightarrow> string \<Rightarrow> refusal" where
  "ws_error_response status msg = (status, JObj [(''error'', JStr msg)])"

definition check_reconnect_rate :: "ws_env \<Rightarrow> uuid \<Rightarrow> keyspace \<Rightarrow> (refusal + unit) \<times> keyspace" where
  "check_reconnect_rate e user_id k =
     (let key = key_reconnect_rate (we_codec e) user_id
      in case redis_incr (we_redis e) key k of
           (Inl err, k1) \<Rightarrow> (Inl (ws_error_response 500 ''Rate limit check failed''), k1)
         | (Inr count, k1) \<Rightarrow>
             (let k2 = (if count = 1 then snd (redis_expire (we_redis e) key 60 k1) else k1)
              in if 10 < count
                 then (Inl (ws_error_response 429 ''Too many reconnection attempts. Please wait 30 seconds.''), k2)
                 else (Inr (), k2)))"

definition ws_upgrade :: "ws_env \<Rightarrow> auth_svc_env \<Rightarrow> auth_db \<Rightarrow> string \<Rightarrow> app \<Rightarrow> (refusal + auth_user) \<times> app" where
  "ws_upgrade e ae d token a =
     (case decode_access ae token of
        Inl err \<Rightarrow> (Inl (ws_error_response 401 ''Invalid token''), a)
      | Inr claims \<Rightarrow>
          if \<not> ac_verified claims then (Inl (ws_error_response 403 ''EMAIL_NOT_VERIFIED''), a)
          else
            (case check_reconnect_rate e (ac_sub claims) (ap_keys a) of
               (Inl r, k) \<Rightarrow> (Inl r, with_keys k a)
             | (Inr _, k) \<Rightarrow>
                 (let a1 = with_keys k a
                  in case auth_find_by_id (as_repo ae) (ac_sub claims) d of
                       Inl err \<Rightarrow> (Inl (ws_error_response 500 ''Internal Error''), a1)
                     | Inr None \<Rightarrow> (Inl (ws_error_response 400 ''User not found''), a1)
                     | Inr (Some user) \<Rightarrow>
                         if MAX_WS_CONNECTIONS_PER_USER \<le> connection_count (ap_hub a1) (au_id user)
                         then (Inl (ws_error_response 429 ''Too many active connections for this user''), a1)
                         else (Inr user, a1))))"

section \<open>The socket\<close>

record socket_session =
  sn_user_id :: uuid
  sn_conn_id :: "64 word"
  sn_room :: "uuid option"
  sn_is_host :: bool
  sn_pong_timeout :: "64 word"

definition enter_session_room :: "ws_env \<Rightarrow> uuid \<Rightarrow> uuid option \<Rightarrow> app \<Rightarrow> app" where
  "enter_session_room e user_id room a =
     (case room of None \<Rightarrow> a | Some bid \<Rightarrow> set_world (\<lambda>w. snd (enter_room (we_svc e) user_id bid w)) a)"

definition leave_session_room :: "ws_env \<Rightarrow> uuid \<Rightarrow> uuid option \<Rightarrow> app \<Rightarrow> app" where
  "leave_session_room e user_id room a =
     (case room of None \<Rightarrow> a | Some bid \<Rightarrow> set_world (\<lambda>w. snd (exit_room (we_svc e) user_id bid w)) a)"

definition session_room :: "ws_env \<Rightarrow> uuid \<Rightarrow> app \<Rightarrow> uuid option" where
  "session_room e user_id a =
     (case hosted_by e user_id a of
        Some b \<Rightarrow> Some (b_id b)
      | None \<Rightarrow> map_option p_broadcast_id
          (unwrap_or (fst (find_active_participant (we_svc e) user_id (ap_world a))) None))"

text \<open>\<open>handle_socket\<close> up to the read loop; \<open>h\<close> is the handle of the socket's channel.\<close>

definition socket_open :: "ws_env \<Rightarrow> uuid \<Rightarrow> nat \<Rightarrow> app \<Rightarrow> socket_session option \<times> app" where
  "socket_open e user_id h a =
     (case ws_register user_id h (ap_hub a) of
        (None, hub) \<Rightarrow> (None, with_hub hub a)
      | (Some conn_id, hub) \<Rightarrow>
          (let a1 = with_hub hub a;
               room = session_room e user_id a1;
               a2 = handle_reconnect e user_id (enter_session_room e user_id room a1)
           in case drain_message_buffer (we_codec e) (we_redis e) (ae_from_json (we_app e)) user_id (ap_keys a2) of
                (buffered, k) \<Rightarrow>
                  (let a3 = with_keys k (a2\<lparr>ap_sent := ap_sent a2 @ map (Pair h) buffered\<rparr>);
                       is_host = unwrap_or (fst (service_is_active_host (we_svc e) user_id (ap_world a3))) False;
                       pong = (if is_host then host_pong_timeout_secs heartbeat_default
                               else listener_pong_timeout_secs heartbeat_default);
                       k3 = snd (redis_set_ex (we_redis e) (key_presence (we_codec e) user_id) ''1'' 120 (ap_keys a3))
                   in (Some \<lparr>sn_user_id = user_id, sn_conn_id = conn_id, sn_room = room, sn_is_host = is_host,
                         sn_pong_timeout = pong\<rparr>, with_keys k3 a3))))"

text \<open>\<open>handle_socket\<close> after the read loop.\<close>

definition socket_cleanup :: "ws_env \<Rightarrow> socket_session \<Rightarrow> bool \<Rightarrow> app \<Rightarrow> app" where
  "socket_cleanup e sn is_disconnected a =
     (let a1 = leave_session_room e (sn_user_id sn) (sn_room sn) a;
          a2 = with_hub (ws_unregister (sn_user_id sn) (sn_conn_id sn) (ap_hub a1)) a1;
          a3 = with_keys (snd (redis_del (we_redis e) (key_presence (we_codec e) (sn_user_id sn)) (ap_keys a2))) a2
      in if is_disconnected then handle_disconnect e (sn_user_id sn) (sn_is_host sn) a3 else a3)"

text \<open>The whole of a socket's life; \<open>e'\<close> is the environment of the clean-up.\<close>

definition handle_socket :: "ws_env \<Rightarrow> ws_env \<Rightarrow> uuid \<Rightarrow> nat \<Rightarrow> (ws_env \<times> socket_event) list \<Rightarrow> app \<Rightarrow> app" where
  "handle_socket e e' user_id h evs a =
     (case socket_open e user_id h a of
        (None, a1) \<Rightarrow> a1
      | (Some sn, a1) \<Rightarrow>
          (case run_read_loop user_id (max_missed_pings heartbeat_default) 0 evs a1 of
             (None, a2) \<Rightarrow> a2
           | (Some lost, a2) \<Rightarrow> socket_cleanup e' sn lost a2))"

end
