(* ===== verification/Ws_Session_Properties.thy ===== *)
theory Ws_Session_Properties
  imports Ws_Session Chat_Properties Auth_Demo
begin

text \<open>
  What holds over the life of a socket: it never touches the broadcast tables and keeps the message log,
  upgrades are throttled, and what a host's dropping out and coming back does to the broadcast.
\<close>

section \<open>The log\<close>

lemma world_views [simp]:
  "ap_chat (with_keys k a) = ap_chat a" "w_db (ap_world (with_keys k a)) = w_db (ap_world a)"
  "ap_chat (with_hub h a) = ap_chat a" "w_db (ap_world (with_hub h a)) = w_db (ap_world a)"
  "ap_keys (with_keys k a) = k" "ap_hub (with_keys k a) = ap_hub a"
  "ap_keys (with_hub h a) = ap_keys a" "ap_hub (with_hub h a) = h"
  "ap_end_jobs (with_keys k a) = ap_end_jobs a"
  by (simp_all add: with_keys_def with_hub_def set_world_def set_keys_def)

lemma room_views [simp]:
  "ap_chat (to_room e b p a) = ap_chat a" "w_db (ap_world (to_room e b p a)) = w_db (ap_world a)"
  "ap_keys (to_room e b p a) = ap_keys a" "ap_end_jobs (to_room e b p a) = ap_end_jobs a"
  "w_published (ap_world (to_room e b p a)) =
     w_published (ap_world a) @ publish_to_room (we_codec e) (se_bridge (we_svc e)) b p"
  "w_published (ap_world (with_keys k a)) = w_published (ap_world a)"
  by (simp_all add: to_room_def with_keys_def set_world_def add_published_def set_keys_def)

definition keeps_db :: "'a chat \<Rightarrow> bool" where
  "keeps_db m \<longleftrightarrow> (\<forall>a. w_db (ap_world (snd (m a))) = w_db (ap_world a))"

lemma keeps_db_steps [intro]:
  "keeps_db m \<Longrightarrow> (\<And>v. keeps_db (f v)) \<Longrightarrow> keeps_db (svc_bind m f)"
  "keeps_db (svc_return x)" "keeps_db (svc_lift r)" "keeps_db (svc_refuse b err)"
  "keeps_db (chat_read q)" "keeps_db (chat_find qf err)" "keeps_db (chat_write act)"
  "keeps_db (invalidate_chat i)" "keeps_db (tell_room e i p)"
  by (auto simp: keeps_db_def svc_bind_def svc_return_def svc_lift_def svc_refuse_def chat_read_def chat_find_def
      chat_write_def invalidate_chat_def tell_room_def svc_modify_def set_world_def split: sum.split prod.split)
    (metis snd_conv)+

lemma chat_ops_db:
  "keeps_db (send_message e sm)" "keeps_db (edit_message e em)" "keeps_db (delete_message e dm)"
  "keeps_db (send_reaction e sr)"
  unfolding send_message_def edit_message_def delete_message_def send_reaction_def Let_def by (intro keeps_db_steps)+

lemma answer_errors_db: "w_db (ap_world (answer_errors e u b ec r)) = w_db (ap_world (snd r))"
  by (simp add: answer_errors_def send_ws_error_def set_world_def set_keys_def split: prod.split sum.split)

lemma handlers_db:
  "w_db (ap_world (handle_ws_send_message e sm a)) = w_db (ap_world a)"
  "w_db (ap_world (handle_ws_edit_message e em a)) = w_db (ap_world a)"
  "w_db (ap_world (handle_ws_delete_message e dm a)) = w_db (ap_world a)"
  "w_db (ap_world (handle_ws_send_reaction e sr a)) = w_db (ap_world a)"
  by (simp_all add: handle_ws_send_message_def handle_ws_edit_message_def handle_ws_delete_message_def
      handle_ws_send_reaction_def handle_validation_error_def answer_errors_db chat_ops_db [unfolded keeps_db_def, rule_format] send_ws_error_def
      set_world_def set_keys_def split: prod.split)

lemma to_user_views [simp]:
  "ap_chat (to_user e u p a) = ap_chat a" "w_db (ap_world (to_user e u p a)) = w_db (ap_world a)"
  "ap_chat (to_user_unsupported e u msg a) = ap_chat a"
  "w_db (ap_world (to_user_unsupported e u msg a)) = w_db (ap_world a)"
  by (simp_all add: to_user_def to_user_unsupported_def with_keys_def set_world_def set_keys_def split: prod.split)

definition socket_safe :: "app \<Rightarrow> app \<Rightarrow> bool" where
  "socket_safe a a' \<longleftrightarrow> log_kept (ap_chat a) (ap_chat a') \<and> w_db (ap_world a') = w_db (ap_world a)"

lemma socket_safe_refl [simp]: "socket_safe a a" by (simp add: socket_safe_def)

lemma socket_safe_trans: "socket_safe a b \<Longrightarrow> socket_safe b c \<Longrightarrow> socket_safe a c"
  by (auto simp: socket_safe_def intro: log_kept_trans)

lemma client_message_safe: "socket_safe a (handle_client_message e u text a)"
  unfolding socket_safe_def handle_client_message_def Let_def
  by (simp add: handler_log_kept handlers_db split: option.split ws_event.split sum.split)

lemma read_loop_safe: "socket_safe a (snd (run_read_loop u m n evs a))"
  by (induction u m n evs a rule: run_read_loop.induct)
    (auto simp: Let_def intro: client_message_safe socket_safe_trans split: socket_event.split)

lemma set_world_db: "w_db (f (ap_world a)) = w_db (ap_world a) \<Longrightarrow> socket_safe a (set_world f a)"
  by (simp add: socket_safe_def set_world_def)

lemma session_steps_safe:
  "socket_safe a (enter_session_room e u r a)" "socket_safe a (leave_session_room e u r a)"
  "socket_safe a (handle_reconnect e u a)" "socket_safe a (handle_disconnect e u h a)"
  by (simp_all add: enter_session_room_def leave_session_room_def enter_room_def exit_room_def svc_modify_def
      handle_reconnect_def handle_disconnect_def push_broadcast_end_def Let_def socket_safe_def set_world_def
      split: option.split prod.split sum.split)

lemma open_safe: "socket_safe a (snd (socket_open e u h a))"
proof (cases "ws_register u h (ap_hub a)")
  case (Pair r hub)
  let ?b = "handle_reconnect e u (enter_session_room e u (session_room e u (with_hub hub a)) (with_hub hub a))"
  have "socket_safe (with_hub hub a) ?b" using session_steps_safe socket_safe_trans by blast
  with Pair show ?thesis
    by (cases r) (simp_all add: socket_open_def Let_def socket_safe_def split: prod.split)
qed

lemma cleanup_safe: "socket_safe a (socket_cleanup e sn lost a)"
proof -
  have "socket_safe x y \<Longrightarrow> socket_safe x (with_keys k (with_hub h y))" for x y k h by (simp add: socket_safe_def)
  moreover have "socket_safe x y \<Longrightarrow> socket_safe x (handle_disconnect e u h y)" for x y u h
    using session_steps_safe(4) socket_safe_trans by blast
  ultimately show ?thesis
    unfolding socket_cleanup_def Let_def by (simp add: session_steps_safe)
qed

text \<open>C22. Whatever a socket's client sends and whenever it goes, the broadcast tables stay as they are and the message table
  only grows: rows keep their place, id, sender, broadcast and time, deleted ones stay untouched, ids stay unique
  and texts between 1 and 256 characters.
\<close>

theorem socket_keeps_log:
  "w_db (ap_world (handle_socket e e' u h evs a)) = w_db (ap_world a) \<and>
   log_kept (ap_chat a) (ap_chat (handle_socket e e' u h evs a))"
proof -
  have "socket_safe a (handle_socket e e' u h evs a)"
  proof (cases "socket_open e u h a")
    case (Pair r a1)
    from open_safe [of a e u h] Pair have o: "socket_safe a a1" by simp
    obtain q a2 where l: "run_read_loop u (max_missed_pings heartbeat_default) 0 evs a1 = (q, a2)" by fastforce
    with read_loop_safe [of a1] have r: "socket_safe a1 a2" by (metis snd_conv)
    from o r have "socket_safe a a2" by (rule socket_safe_trans)
    with o Pair l cleanup_safe socket_safe_trans show ?thesis
      by (auto simp: handle_socket_def split: option.split)
  qed
  then show ?thesis by (simp add: socket_safe_def)
qed

section \<open>Upgrades\<close>

definition upgrade_window :: "codec \<Rightarrow> int \<Rightarrow> ws_env \<Rightarrow> bool" where
  "upgrade_window c t0 e \<longleftrightarrow> we_codec e = c \<and> (\<forall>cmd k. \<not> r_down (we_redis e) cmd k) \<and>
     t0 \<le> r_now (we_redis e) \<and> r_now (we_redis e) < t0 + 60000"

lemma reconnect_counter:
  assumes c: "counter (key_reconnect_rate c u) (t0 + 60000) n k" and w: "upgrade_window c t0 e"
    and chk: "check_reconnect_rate e u k = (r, k')"
  shows "r = Inl (ws_error_response 500 ''Rate limit check failed'') \<or>
    counter (key_reconnect_rate c u) (t0 + 60000) (Suc n) k' \<and> (r = Inr () \<longleftrightarrow> n < 10)"
proof -
  have t: "r_now (we_redis e) < t0 + 60000" "t0 + 60000 \<le> r_now (we_redis e) + 60 * 1000" "we_codec e = c"
    using w by (simp_all add: upgrade_window_def)
  show ?thesis
    using counter_incr [OF c t(1)] counter_bumped [OF c t(2)] w chk t(3)
    by (auto simp: check_reconnect_rate_def redis_incr_def redis_expire_def guarded_cmd_def upgrade_window_def Let_def
        split: if_splits)
qed

interpretation reconnect: throttle "\<lambda>e. check_reconnect_rate e u"
    "\<lambda>n k. counter (key_reconnect_rate c u) (t0 + 60000) n k" "upgrade_window c t0"
    "\<lambda>r. r = Inr ()" "\<lambda>r. r \<noteq> Inl (ws_error_response 500 ''Rate limit check failed'')" 10
  for c u t0
proof (unfold_locales, goal_cases)
  case (1 e n k r k')
  from reconnect_counter [OF 1(2,1,3)] 1(4) show ?case by auto
qed

text \<open>
  Reconnect storms are cut off: of any number of upgrade requests of a user within a minute at most ten pass the
  check, as long as Redis counts.
\<close>

theorem reconnects_bounded:
  assumes "k (key_reconnect_rate c u) = None"
    and "\<forall>e \<in> set es. we_codec e = c \<and> (\<forall>cmd x. \<not> r_down (we_redis e) cmd x) \<and>
       t0 \<le> r_now (we_redis e) \<and> r_now (we_redis e) < t0 + 60000"
    and "\<forall>r \<in> set (fst (attempts (\<lambda>e. check_reconnect_rate e u) es k)).
       r \<noteq> Inl (ws_error_response 500 ''Rate limit check failed'')"
  shows "length (filter (\<lambda>r. r = Inr ()) (fst (attempts (\<lambda>e. check_reconnect_rate e u) es k))) \<le> 10"
  using reconnect.bounded [of c u t0 0 k es] assms
  by (simp add: counter_def list_all_iff upgrade_window_def)

lemma logout_keys:
  "\<exists>j. \<forall>x. x \<noteq> token_block_key (as_cache ae) j \<longrightarrow> aw_keys (snd (auth_logout ae req w)) x = aw_keys w x"
  unfolding auth_logout_def revoke_session_def
  by (auto simp: svc_bind_def svc_lift_def svc_return_def auth_write_def in_cache_def block_access_token_def redis_err_def
      redis_set_def guarded_cmd_def cmd_set_def svc_modify_def Let_def split: sum.split prod.split option.split)

lemma reconnect_rate_same_key:
  assumes "k' (key_reconnect_rate (we_codec e) u) = k (key_reconnect_rate (we_codec e) u)"
  shows "fst (check_reconnect_rate e u k') = fst (check_reconnect_rate e u k)"
proof -
  let ?r = "\<lambda>k. redis_incr (we_redis e) (key_reconnect_rate (we_codec e) u) k"
  have "entry t k' (key_reconnect_rate (we_codec e) u) = entry t k (key_reconnect_rate (we_codec e) u)" for t
    using assms by (simp add: entry_def)
  then have "fst (?r k') = fst (?r k)"
    by (auto simp: redis_incr_def guarded_cmd_def cmd_incrby_def split: option.split rvalue.split)
  then show ?thesis
    by (cases "?r k"; cases "?r k'") (auto simp: check_reconnect_rate_def Let_def split: sum.split)
qed

text \<open>Logging out does not reach sockets: the answer to an upgrade request is the same before and after a logout, whatever
  its token, because only the request check looks at the block list.
\<close>

theorem logout_keeps_sockets:
  "fst (ws_upgrade e ae d token (with_keys (aw_keys (snd (auth_logout ae' req w))) a)) =
   fst (ws_upgrade e ae d token (with_keys (aw_keys w) a))"
proof -
  let ?k' = "aw_keys (snd (auth_logout ae' req w))" and ?k = "aw_keys w"
  have f: "fst (check_reconnect_rate e u ?k') = fst (check_reconnect_rate e u ?k)" for u
  proof (rule reconnect_rate_same_key)
    have "key_reconnect_rate (we_codec e) u \<noteq> token_block_key (as_cache ae') j" for j
      by (simp add: key_reconnect_rate_def token_block_key_def key_block_list_def)
    then show "?k' (key_reconnect_rate (we_codec e) u) = ?k (key_reconnect_rate (we_codec e) u)"
      using logout_keys [of ae' req w] by metis
  qed
  show ?thesis
  proof (cases "decode_access ae token")
    case (Inr c)
    obtain x k1 y k2 where "check_reconnect_rate e (ac_sub c) ?k' = (x, k1)" "check_reconnect_rate e (ac_sub c) ?k = (y, k2)"
      by fastforce
    with f [of "ac_sub c"] Inr show ?thesis
      by (cases y) (simp_all add: ws_upgrade_def Let_def split: sum.split option.split)
  qed (simp add: ws_upgrade_def)
qed

section \<open>Hosts who drop out and come back\<close>

abbreviation redis_up :: "ws_env \<Rightarrow> bool" where
  "redis_up e \<equiv> \<forall>cmd k. \<not> r_down (we_redis e) cmd k"

text \<open>C23. A host who comes back during the grace period saves the broadcast: the room is told, and the queued job, whenever it
  runs afterwards, leaves everything as it is unless another grace period has begun.
\<close>

theorem reconnect_saves_broadcast:
  assumes host: "hosted_by e u a = Some b" and up: "redis_up e"
    and grace: "cmd_exists (r_now (we_redis e)) (key_host_grace (we_codec e) (b_id b)) (ap_keys a)"
    and codec: "we_codec e' = we_codec e" and job: "ej_broadcast_id job = b_id b"
    and kept: "ap_keys a' (key_host_grace (we_codec e) (b_id b)) =
      ap_keys (handle_reconnect e u a) (key_host_grace (we_codec e) (b_id b))"
  shows "w_published (ap_world (handle_reconnect e u a)) = w_published (ap_world a) @
      publish_to_room (we_codec e) (se_bridge (we_svc e)) (b_id b) (payload_host_reconnected (we_codec e) (b_id b)) \<and>
    end_broadcast_job e' job a' = (Inr (), a')"
proof -
  let ?g = "key_host_grace (we_codec e) (b_id b)"
  from grace obtain v x where "entry (r_now (we_redis e)) (ap_keys a) ?g = Some (v, x)" by (auto simp: cmd_exists_def)
  then have r: "handle_reconnect e u a = to_room e (b_id b) (payload_host_reconnected (we_codec e) (b_id b))
      (with_keys ((ap_keys a)(?g := None)) a)"
    using host up grace by (simp add: handle_reconnect_def Let_def redis_exists_def unwrap_or_def redis_del_def guarded_cmd_def
        cmd_del_def cmd_exists_def)
  with kept have "ap_keys a' ?g = None" by simp
  then have "\<not> unwrap_or (redis_exists (we_redis e') (key_host_grace (we_codec e') (ej_broadcast_id job)) (ap_keys a')) False"
    using codec job by (simp add: redis_exists_def unwrap_or_def cmd_exists_def entry_def)
  with r show ?thesis by (simp add: end_broadcast_job_def Let_def)
qed

lemma grace_range: "30 \<le> uint (get_grace_seconds grace_default n) \<and> uint (get_grace_seconds grace_default n) \<le> 120"
  by (simp add: get_grace_seconds_def grace_default_def)

lemma disconnect_effect:
  assumes host: "hosted_by e u a = Some b" and up: "redis_up e" and "ae_end_job_ok (we_app e)"
  shows "\<exists>s. 30 \<le> s \<and> s \<le> 120 \<and>
    ap_keys (handle_disconnect e u True a) (key_host_grace (we_codec e) (b_id b)) =
      Some (RStr (show_int s), Some (r_now (we_redis e) + s * 1000)) \<and>
    ap_end_jobs (handle_disconnect e u True a) = ap_end_jobs a @
      [\<lparr>ej_broadcast_id = b_id b, ej_host_id = u, ej_reason = ''host_disconnected''\<rparr>]"
proof -
  have d: "key_host_grace (we_codec e) i \<noteq> key_grace_started (we_codec e) i" for i
    by (simp add: key_host_grace_def key_grace_started_def)
  have s: "sint (get_grace_seconds grace_default n) = uint (get_grace_seconds grace_default n)" for n
    by (simp add: get_grace_seconds_def grace_default_def)
  show ?thesis
    using assms d grace_range s
    by (simp add: handle_disconnect_def Let_def push_broadcast_end_def redis_set_ex_def guarded_cmd_def cmd_set_def)
qed


section \<open>Several connections\<close>

lemma room_removal:
  "ws_clients (room_remove b u s) = ws_clients s" "u \<notin> set (members (room_remove b u s) b)"
  "ws_clients (snd (remove_local_room_member b u s)) = ws_clients s"
  "u \<notin> set (members (snd (remove_local_room_member b u s)) b)"
  by (auto simp: room_remove_def remove_local_room_member_def Let_def split: option.split)
    (simp_all add: members_def or_nil_def)

lemma leave_room_shape:
  "in_hub (fst (ws_leave_room c be u bid i k)) \<in> {room_remove bid u (in_hub i),
     snd (remove_local_room_member bid u (room_remove bid u (in_hub i)))}"
  by (auto simp: ws_leave_room_def bridge_leave_room_def Let_def unsubscribe_def split_beta split: sum.split)

lemma leave_room_hub:
  "ws_clients (in_hub (fst (ws_leave_room c be u bid i k))) = ws_clients (in_hub i) \<and>
   u \<notin> set (members (in_hub (fst (ws_leave_room c be u bid i k))) bid)"
  using leave_room_shape [of c be u bid i k] room_removal by (elim insertE) simp_all

text \<open>Closing one of a user's sockets takes the user out of the room and marks them as away although another
  connection is open: afterwards they count as online, but the room's messages reach none of their connections.
\<close>

theorem closing_one_leaves_room:
  assumes sn: "sn_room sn = Some bid" and others: "c \<in> set (conns (ap_hub a) (sn_user_id sn))" "cs_conn_id c \<noteq> sn_conn_id sn"
    and up: "redis_up e"
  shows "is_online (ap_hub (socket_cleanup e sn False a)) (sn_user_id sn) \<and>
    sn_user_id sn \<notin> set (members (ap_hub (socket_cleanup e sn False a)) bid) \<and>
    ap_keys (socket_cleanup e sn False a) (key_presence (we_codec e) (sn_user_id sn)) = None"
proof -
  let ?u = "sn_user_id sn"
  let ?l = "leave_session_room e ?u (Some bid) a"
  have l: "ap_hub ?l = in_hub (fst (ws_leave_room (we_codec e) (se_bridge (we_svc e)) ?u bid (w_inst (ap_world a)) (ap_keys a)))"
    by (simp add: leave_session_room_def exit_room_def svc_modify_def set_world_def split: prod.split)
  note lv = leave_room_hub [where c = "we_codec e" and be = "se_bridge (we_svc e)" and u = ?u and bid = bid
      and i = "w_inst (ap_world a)" and k = "ap_keys a", folded l]
  from others lv have "c \<in> set (filter (\<lambda>x. cs_conn_id x \<noteq> sn_conn_id sn) (conns (ap_hub ?l) ?u))"
    by (simp add: conns_def)
  then have "filter (\<lambda>x. cs_conn_id x \<noteq> sn_conn_id sn) (conns (ap_hub ?l) ?u) \<noteq> []" by fastforce
  then have "is_online (ws_unregister ?u (sn_conn_id sn) (ap_hub ?l)) ?u"
    by (simp add: is_online_def ws_unregister_map Let_def)
  moreover have "?u \<notin> set (members (ws_unregister ?u (sn_conn_id sn) (ap_hub ?l)) bid)"
    using lv by (simp add: members_def)
  ultimately show ?thesis
    using sn up by (simp add: socket_cleanup_def Let_def redis_del_def guarded_cmd_def cmd_del_def)
qed

section \<open>The properties at work\<close>

definition demo_ws :: "int \<Rightarrow> ws_env" where
  "demo_ws t = \<lparr>we_app = demo_chat_env\<lparr>ae_svc := demo_env\<lparr>se_bridge :=
       demo_bridge\<lparr>be_redis := \<lparr>r_now = t, r_down = (\<lambda>_ _. False)\<rparr>\<rparr>\<rparr>\<rparr>,
     we_client = (\<lambda>_. None), we_send = (\<lambda>_. Inl ''no''), we_edit = (\<lambda>_. Inl ''no''), we_delete = (\<lambda>_. Inl ''no''),
     we_react = (\<lambda>_. Inl ''no'')\<rparr>"

lemma demo_ws_simps [simp]:
  "redis_up (demo_ws t)" "r_now (we_redis (demo_ws t)) = t" "we_codec (demo_ws t) = plain_codec"
  "ae_end_job_ok (we_app (demo_ws t))"
  by (simp_all add: demo_ws_def demo_chat_env_def demo_env_def)

lemma demo_hosted: "hosted_by (demo_ws t) 1 (with_keys k demo_app) = Some demo_row"
  by (simp add: hosted_by_def find_active_hosted_by_def svc_read_def repo_find_active_broadcast_hosted_by_id_def sql_def
      demo_ws_def demo_chat_env_def demo_env_def demo_repo_def demo_app_def demo_live_def demo_row_def new_broadcast_def
      demo_create_def unwrap_or_def demo_world_def demo_db_def)

lemma reconnects_bounded_witness:
  "length (filter (\<lambda>r. r = Inr ()) (fst (attempts (\<lambda>e. check_reconnect_rate e 1) [demo_ws 0] Map.empty))) \<le> 10"
proof (rule reconnects_bounded [where c = plain_codec and ?t0.0 = 0])
  show "\<forall>r \<in> set (fst (attempts (\<lambda>e. check_reconnect_rate e 1) [demo_ws 0] Map.empty)).
      r \<noteq> Inl (ws_error_response 500 ''Rate limit check failed'')"
    by (simp add: check_reconnect_rate_def redis_incr_def guarded_cmd_def cmd_incrby_def entry_def split_beta Let_def)
qed simp_all

definition demo_grace :: app where
  "demo_grace = with_keys [key_host_grace plain_codec (b_id demo_row) \<mapsto> (RStr ''120'', Some 120000)] demo_app"

definition demo_end_job :: end_job where
  "demo_end_job = \<lparr>ej_broadcast_id = b_id demo_row, ej_host_id = 1, ej_reason = ''host_disconnected''\<rparr>"

lemma reconnect_saves_broadcast_witness:
  "end_broadcast_job (demo_ws 2000) demo_end_job (handle_reconnect (demo_ws 1000) 1 demo_grace) =
     (Inr (), handle_reconnect (demo_ws 1000) 1 demo_grace)"
proof -
  have h: "hosted_by (demo_ws 1000) 1 demo_grace = Some demo_row" unfolding demo_grace_def by (rule demo_hosted)
  have "cmd_exists (r_now (we_redis (demo_ws 1000))) (key_host_grace (we_codec (demo_ws 1000)) (b_id demo_row)) (ap_keys demo_grace)"
    by (simp add: demo_grace_def cmd_exists_def entry_def)
  from reconnect_saves_broadcast [OF h _ this, where e' = "demo_ws 2000" and job = demo_end_job
      and a' = "handle_reconnect (demo_ws 1000) 1 demo_grace"]
  show ?thesis by (simp add: demo_end_job_def)
qed


definition demo_tabs :: app where
  "demo_tabs = with_hub \<lparr>ws_clients = [(1, [\<lparr>cs_conn_id = 0, cs_sender = 10\<rparr>, \<lparr>cs_conn_id = 1, cs_sender = 11\<rparr>])],
     ws_rooms = [(7, [1])], ws_conn_seq = 2\<rparr> demo_app"

definition demo_session :: socket_session where
  "demo_session = \<lparr>sn_user_id = 1, sn_conn_id = 0, sn_room = Some 7, sn_is_host = False, sn_pong_timeout = 20\<rparr>"

lemma closing_one_leaves_room_witness:
  "is_online (ap_hub (socket_cleanup (demo_ws 0) demo_session False demo_tabs)) 1 \<and>
   1 \<notin> set (members (ap_hub (socket_cleanup (demo_ws 0) demo_session False demo_tabs)) 7)"
  using closing_one_leaves_room [where sn = demo_session and bid = 7 and c = "\<lparr>cs_conn_id = 1, cs_sender = 11\<rparr>"
      and a = demo_tabs and e = "demo_ws 0"]
  by (simp add: demo_session_def demo_tabs_def conns_def)

end
