(* ===== verification/Notes_Model.thy ===== *)
theory Notes_Model
  imports Chat_Repo
begin

text \<open>
  \<open>modules/notes/model.rs\<close>, \<open>errors.rs\<close> and \<open>dto.rs\<close>: notes and folders, the errors with their answers,
  the requests, and the mutations and results of the offline sync.
\<close>

section \<open>Rows\<close>

record note_row =
  nt_id :: uuid
  nt_title :: string
  nt_content :: string
  nt_pinned :: bool
  nt_folder_id :: "uuid option"
  nt_creator_id :: uuid
  nt_version :: int
  nt_created_at :: timestamp
  nt_updated_at :: timestamp
  nt_deleted_at :: "timestamp option"

definition note_is_deleted :: "note_row \<Rightarrow> bool" where "note_is_deleted n \<longleftrightarrow> nt_deleted_at n \<noteq> None"

record folder =
  fo_id :: uuid
  fo_title :: string
  fo_pinned :: bool
  fo_creator_id :: uuid
  fo_version :: int
  fo_created_at :: timestamp
  fo_updated_at :: timestamp
  fo_deleted_at :: "timestamp option"

record note_dto =
  nd_id :: uuid
  nd_title :: string
  nd_content :: string
  nd_pinned :: bool
  nd_folder_id :: "uuid option"
  nd_version :: int
  nd_created_at :: timestamp
  nd_updated_at :: timestamp
  nd_deleted :: bool

definition note_dto_from :: "note_row \<Rightarrow> note_dto" where
  "note_dto_from n =
     \<lparr>nd_id = nt_id n, nd_title = nt_title n, nd_content = nt_content n, nd_pinned = nt_pinned n,
      nd_folder_id = nt_folder_id n, nd_version = nt_version n, nd_created_at = nt_created_at n,
      nd_updated_at = nt_updated_at n, nd_deleted = (nt_deleted_at n \<noteq> None)\<rparr>"

record folder_dto =
  fd_id :: uuid
  fd_title :: string
  fd_pinned :: bool
  fd_version :: int
  fd_created_at :: timestamp
  fd_updated_at :: timestamp
  fd_deleted :: bool

definition folder_dto_from :: "folder \<Rightarrow> folder_dto" where
  "folder_dto_from f =
     \<lparr>fd_id = fo_id f, fd_title = fo_title f, fd_pinned = fo_pinned f, fd_version = fo_version f,
      fd_created_at = fo_created_at f, fd_updated_at = fo_updated_at f, fd_deleted = (fo_deleted_at f \<noteq> None)\<rparr>"

datatype conflict_entity = ConflictNote note_dto | ConflictFolder folder_dto

fun conflict_id :: "conflict_entity \<Rightarrow> uuid" where
  "conflict_id (ConflictNote n) = nd_id n"
| "conflict_id (ConflictFolder f) = fd_id f"

section \<open>Errors\<close>

datatype notes_error =
    NoteNotFound | FolderNotFound | NotesBadRequest string | VersionConflict conflict_entity
  | NotNoteOwner | NotFolderOwner | NotesCursor cursor_error | NotesDatabase string | NotesInternal string
  | NotesValidation "(string \<times> string list) list"

fun notes_error_text :: "notes_error \<Rightarrow> string" where
  "notes_error_text NoteNotFound = ''Note not found''"
| "notes_error_text FolderNotFound = ''Folder not found''"
| "notes_error_text (NotesBadRequest msg) = msg"
| "notes_error_text (VersionConflict entity) = ''This item changed elsewhere''"
| "notes_error_text NotNoteOwner = ''You are not the owner of this note''"
| "notes_error_text NotFolderOwner = ''You are not the owner of this folder''"
| "notes_error_text (NotesCursor e) = cursor_error_text e"
| "notes_error_text (NotesDatabase e) = e"
| "notes_error_text (NotesInternal e) = e"
| "notes_error_text (NotesValidation errs) = ''Validation error''"

text \<open>The answer to a conflict carries the server's copy of the row.\<close>

definition version_conflict_response :: "conflict_entity \<Rightarrow> meno_response \<times> conflict_entity option" where
  "version_conflict_response entity =
     (error_response 409 ''VERSION_CONFLICT'' (''This item changed elsewhere '' @ [CHR 0xE2, CHR 0x80, CHR 0x94] @
        '' review the server copy before retrying''), Some entity)"

fun notes_into_response :: "notes_error \<Rightarrow> meno_response \<times> conflict_entity option" where
  "notes_into_response NoteNotFound = (error_response 404 ''NOTE_NOT_FOUND'' (notes_error_text NoteNotFound), None)"
| "notes_into_response FolderNotFound = (error_response 404 ''FOLDER_NOT_FOUND'' (notes_error_text FolderNotFound), None)"
| "notes_into_response (NotesBadRequest msg) = (error_response 400 ''BAD_REQUEST'' msg, None)"
| "notes_into_response (VersionConflict entity) = version_conflict_response entity"
| "notes_into_response NotNoteOwner = (error_response 400 ''NOT_NOTE_OWNER'' (notes_error_text NotNoteOwner), None)"
| "notes_into_response NotFolderOwner = (error_response 400 ''NOT_FOLDER_OWNER'' (notes_error_text NotFolderOwner), None)"
| "notes_into_response (NotesCursor e) = (error_response 500 ''INTERNAL_ERROR'' ''An internal error occurred'', None)"
| "notes_into_response (NotesDatabase e) = (error_response 500 ''INTERNAL_ERROR'' ''An internal error occurred'', None)"
| "notes_into_response (NotesInternal e) = (error_response 500 ''INTERNAL_ERROR'' ''An internal error occurred'', None)"
| "notes_into_response (NotesValidation errs) = (validation_error_response errs, None)"

section \<open>Requests\<close>

record create_note_request =
  cn_id :: uuid
  cn_title :: string
  cn_content :: string
  cn_pinned :: bool
  cn_folder_id :: "uuid option"

record create_folder_request =
  cf_id :: uuid
  cf_title :: string
  cf_pinned :: "bool option"

record update_note_request =
  un_title :: "string option"
  un_content :: "string option"
  un_pinned :: "bool option"
  un_folder_id :: "uuid option"
  un_base_version :: int

record update_folder_request =
  uf_title :: "string option"
  uf_pinned :: "bool option"
  uf_base_version :: int

record delete_folder_request =
  df_base_version :: int
  df_should_delete_notes :: "bool option"

record move_notes_request =
  mn_note_ids :: "uuid list"
  mn_folder_id :: "uuid option"

record notes_query =
  nq_folder_id :: "uuid option"
  nq_pinned :: "bool option"
  nq_keywords :: "string option"
  nq_pagination :: cursor_params

record folders_query =
  fq_pinned :: "bool option"
  fq_keywords :: "string option"
  fq_pagination :: cursor_params

section \<open>Sync\<close>

record notes_sync_query =
  sq_notes_cursor :: "cursor option"
  sq_folders_cursor :: "cursor option"
  sq_limit :: "int option"

definition sync_limit :: "notes_sync_query \<Rightarrow> int" where
  "sync_limit q = clamp 1 500 (case sq_limit q of None \<Rightarrow> 200 | Some l \<Rightarrow> l)"

record notes_sync_response =
  sr_notes :: "note_dto list"
  sr_notes_next_cursor :: "cursor option"
  sr_notes_has_more :: bool
  sr_folders :: "folder_dto list"
  sr_folders_next_cursor :: "cursor option"
  sr_folders_has_more :: bool
  sr_server_time :: timestamp

record note_mutation =
  nm_id :: uuid
  nm_title :: string
  nm_content :: string
  nm_pinned :: bool
  nm_folder_id :: "uuid option"
  nm_deleted :: bool
  nm_base_version :: "int option"
  nm_client_updated_at :: timestamp

record folder_mutation =
  fm_id :: uuid
  fm_title :: string
  fm_pinned :: bool
  fm_deleted :: bool
  fm_base_version :: "int option"
  fm_client_updated_at :: timestamp

datatype sync_mutation = MutateNote note_mutation | MutateFolder folder_mutation

fun mutation_id :: "sync_mutation \<Rightarrow> uuid" where
  "mutation_id (MutateNote m) = nm_id m"
| "mutation_id (MutateFolder m) = fm_id m"

datatype entity_type = NoteEntity | FolderEntity
datatype mutation_outcome = Applied | Conflict | Rejected

record mutation_result =
  mu_id :: uuid
  mu_entity_type :: entity_type
  mu_outcome :: mutation_outcome
  mu_server_entity :: "conflict_entity option"
  mu_reason :: "string option"

definition applied :: "entity_type \<Rightarrow> conflict_entity \<Rightarrow> mutation_result" where
  "applied ty entity = \<lparr>mu_id = conflict_id entity, mu_entity_type = ty, mu_outcome = Applied,
     mu_server_entity = Some entity, mu_reason = None\<rparr>"

definition applied_unpersisted :: "uuid \<Rightarrow> entity_type \<Rightarrow> mutation_result" where
  "applied_unpersisted i ty = \<lparr>mu_id = i, mu_entity_type = ty, mu_outcome = Applied,
     mu_server_entity = None, mu_reason = None\<rparr>"

definition mutation_conflict :: "entity_type \<Rightarrow> conflict_entity \<Rightarrow> mutation_result" where
  "mutation_conflict ty entity = \<lparr>mu_id = conflict_id entity, mu_entity_type = ty, mu_outcome = Conflict,
     mu_server_entity = Some entity, mu_reason = None\<rparr>"

definition rejected :: "uuid \<Rightarrow> entity_type \<Rightarrow> string \<Rightarrow> mutation_result" where
  "rejected i ty reason = \<lparr>mu_id = i, mu_entity_type = ty, mu_outcome = Rejected,
     mu_server_entity = None, mu_reason = Some reason\<rparr>"

end
