(* ===== verification/Notes_Repo.thy ===== *)
theory Notes_Repo
  imports Notes_Model Steps
begin

text \<open>
  \<open>modules/notes/repository.rs\<close> over the tables of migrations 0010 and 0011: one definition per statement,
  with the columns' limits, keys and references. \<open>NOW()\<close> is the start of the statement's transaction.
\<close>

section \<open>Tables\<close>

record notes_db =
  n_notes :: "note_row list"
  n_folders :: "folder list"
  n_users :: "uuid list"

datatype notes_stmt =
    NtBegin | NtCommit | NtInsert | NtUpdate | NtDelete | NtFind | NtList | NtFile | NtUnfile | NtMove | NtOwned
  | NtUpsert | NtApply | NtForce | NtChanged | NtPurge
  | FoInsert | FoUpdate | FoDelete | FoFind | FoList | FoUpsert | FoApply | FoForce | FoChanged | FoPurge

text \<open>\<open>ne_matches\<close> is PostgreSQL's text search: whether a text matches keywords, their surrounding space removed.\<close>

record notes_env =
  ne_codec :: codec
  ne_db_now :: timestamp
  ne_server_now :: timestamp
  ne_fault :: "notes_stmt \<Rightarrow> string option"
  ne_matches :: "string \<Rightarrow> string \<Rightarrow> bool"

type_synonym 'a notes_op = "(notes_db, notes_error, 'a) steps"

definition i32_max :: int where "i32_max = 2147483647"

definition notes_unique_violation :: string where
  "notes_unique_violation = ''duplicate key value violates unique constraint''"
definition notes_fk_violation :: string where
  "notes_fk_violation = ''insert or update on table violates foreign key constraint''"
definition notes_null_violation :: string where
  "notes_null_violation = ''null value in column violates not-null constraint''"
definition integer_out_of_range :: string where "integer_out_of_range = ''integer out of range''"

definition notes_sql :: "notes_env \<Rightarrow> notes_stmt \<Rightarrow> 'a \<Rightarrow> notes_error + 'a" where
  "notes_sql e st v = (case ne_fault e st of Some err \<Rightarrow> Inl (NotesDatabase err) | None \<Rightarrow> Inr v)"

text \<open>A read through the pool: of the committed tables.\<close>

definition notes_read :: "(notes_db \<Rightarrow> notes_error + 'a) \<Rightarrow> 'a notes_op" where
  "notes_read q d = (q d, d)"

text \<open>A statement that writes: refused by a fault or a constraint, else its result and effect.\<close>

definition notes_exec ::
    "notes_env \<Rightarrow> notes_stmt \<Rightarrow> (notes_db \<Rightarrow> string option) \<Rightarrow> (notes_db \<Rightarrow> 'a) \<Rightarrow> (notes_db \<Rightarrow> notes_db) \<Rightarrow> 'a notes_op" where
  "notes_exec e st violated v f d =
     (case ne_fault e st of
        Some err \<Rightarrow> (Inl (NotesDatabase err), d)
      | None \<Rightarrow> (case violated d of Some err \<Rightarrow> (Inl (NotesDatabase err), d) | None \<Rightarrow> (Inr (v d), f d)))"

section \<open>Constraints\<close>

fun first_some :: "('a \<Rightarrow> 'b option) \<Rightarrow> 'a list \<Rightarrow> 'b option" where
  "first_some f [] = None"
| "first_some f (x # xs) = (case f x of Some y \<Rightarrow> Some y | None \<Rightarrow> first_some f xs)"

definition has_folder :: "notes_db \<Rightarrow> uuid \<Rightarrow> bool" where
  "has_folder d i \<longleftrightarrow> i \<in> fo_id ` set (n_folders d)"

text \<open>What a new or changed row must satisfy.\<close>

definition note_violation :: "notes_db \<Rightarrow> note_row \<Rightarrow> string option" where
  "note_violation d n =
     (if 100 < char_count (nt_title n) \<or> 10000 < char_count (nt_content n) then Some value_too_long
      else if i32_max < nt_version n then Some integer_out_of_range
      else case nt_folder_id n of
             Some i \<Rightarrow> if has_folder d i then None else Some notes_fk_violation
           | None \<Rightarrow> None)"

definition folder_violation :: "folder \<Rightarrow> string option" where
  "folder_violation f =
     (if 100 < char_count (fo_title f) then Some value_too_long
      else if i32_max < fo_version f then Some integer_out_of_range else None)"

section \<open>Updates\<close>

definition bump_note :: "notes_env \<Rightarrow> (note_row \<Rightarrow> note_row) \<Rightarrow> note_row \<Rightarrow> note_row" where
  "bump_note e f n = (f n)\<lparr>nt_version := nt_version n + 1, nt_updated_at := ne_db_now e\<rparr>"

definition bump_folder :: "notes_env \<Rightarrow> (folder \<Rightarrow> folder) \<Rightarrow> folder \<Rightarrow> folder" where
  "bump_folder e f n = (f n)\<lparr>fo_version := fo_version n + 1, fo_updated_at := ne_db_now e\<rparr>"

text \<open>\<open>UPDATE notes SET ... WHERE p RETURNING *\<close>: the rows that changed, as they are afterwards.\<close>

definition update_notes :: "notes_env \<Rightarrow> notes_stmt \<Rightarrow> (note_row \<Rightarrow> bool) \<Rightarrow> (note_row \<Rightarrow> note_row) \<Rightarrow> note_row list notes_op" where
  "update_notes e st p f =
     notes_exec e st
       (\<lambda>d. first_some (note_violation d) (map (bump_note e f) (filter p (n_notes d))))
       (\<lambda>d. map (bump_note e f) (filter p (n_notes d)))
       (\<lambda>d. d\<lparr>n_notes := map (\<lambda>n. if p n then bump_note e f n else n) (n_notes d)\<rparr>)"

definition update_folders :: "notes_env \<Rightarrow> notes_stmt \<Rightarrow> (folder \<Rightarrow> bool) \<Rightarrow> (folder \<Rightarrow> folder) \<Rightarrow> folder list notes_op" where
  "update_folders e st p f =
     notes_exec e st
       (\<lambda>d. first_some folder_violation (map (bump_folder e f) (filter p (n_folders d))))
       (\<lambda>d. map (bump_folder e f) (filter p (n_folders d)))
       (\<lambda>d. d\<lparr>n_folders := map (\<lambda>n. if p n then bump_folder e f n else n) (n_folders d)\<rparr>)"

text \<open>\<open>fetch_optional\<close>\<close>

definition fetch_optional :: "'a list notes_op \<Rightarrow> 'a option notes_op" where
  "fetch_optional m = svc_bind m (\<lambda>rows. svc_return (first_row rows))"

section \<open>Notes\<close>

definition new_note :: "notes_env \<Rightarrow> uuid \<Rightarrow> string \<Rightarrow> string \<Rightarrow> bool \<Rightarrow> uuid option \<Rightarrow> uuid \<Rightarrow> note_row" where
  "new_note e i title content pinned folder_id creator_id =
     \<lparr>nt_id = i, nt_title = title, nt_content = content, nt_pinned = pinned, nt_folder_id = folder_id,
      nt_creator_id = creator_id, nt_version = 1, nt_created_at = ne_db_now e, nt_updated_at = ne_db_now e,
      nt_deleted_at = None\<rparr>"

definition insert_note_violation :: "note_row \<Rightarrow> notes_db \<Rightarrow> string option" where
  "insert_note_violation n d =
     (if 100 < char_count (nt_title n) \<or> 10000 < char_count (nt_content n) then Some value_too_long
      else if nt_id n \<in> nt_id ` set (n_notes d) then Some notes_unique_violation
      else if nt_creator_id n \<notin> set (n_users d) then Some notes_fk_violation
      else note_violation d n)"

definition repo_create_note :: "notes_env \<Rightarrow> uuid \<Rightarrow> create_note_request \<Rightarrow> note_row notes_op" where
  "repo_create_note e creator_id req =
     (let n = new_note e (cn_id req) (cn_title req) (cn_content req) (cn_pinned req) (cn_folder_id req) creator_id
      in notes_exec e NtInsert (insert_note_violation n) (\<lambda>_. n) (\<lambda>d. d\<lparr>n_notes := n_notes d @ [n]\<rparr>))"

definition live_note :: "uuid \<Rightarrow> uuid \<Rightarrow> note_row \<Rightarrow> bool" where
  "live_note i creator_id n \<longleftrightarrow> nt_id n = i \<and> nt_creator_id n = creator_id \<and> nt_deleted_at n = None"

definition coalesce :: "'a option \<Rightarrow> 'a \<Rightarrow> 'a" where
  "coalesce q d = (case q of Some x \<Rightarrow> x | None \<Rightarrow> d)"

definition update_note_by_version :: "notes_env \<Rightarrow> uuid \<Rightarrow> uuid \<Rightarrow> update_note_request \<Rightarrow> note_row option notes_op" where
  "update_note_by_version e note_id creator_id req =
     fetch_optional (update_notes e NtUpdate
       (\<lambda>n. live_note note_id creator_id n \<and> nt_version n = un_base_version req)
       (\<lambda>n. n\<lparr>nt_title := coalesce (un_title req) (nt_title n), nt_content := coalesce (un_content req) (nt_content n),
          nt_pinned := coalesce (un_pinned req) (nt_pinned n), nt_folder_id := un_folder_id req\<rparr>))"

definition soft_delete_note :: "notes_env \<Rightarrow> uuid \<Rightarrow> uuid \<Rightarrow> int \<Rightarrow> note_row option notes_op" where
  "soft_delete_note e i creator_id base_version =
     fetch_optional (update_notes e NtDelete
       (\<lambda>n. live_note i creator_id n \<and> nt_version n = base_version)
       (\<lambda>n. n\<lparr>nt_deleted_at := Some (ne_db_now e)\<rparr>))"

definition find_note_by_id :: "notes_env \<Rightarrow> uuid \<Rightarrow> uuid \<Rightarrow> notes_db \<Rightarrow> notes_error + note_row option" where
  "find_note_by_id e i creator_id d = notes_sql e NtFind (find (live_note i creator_id) (n_notes d))"

definition read_cursor :: "notes_env \<Rightarrow> cursor option \<Rightarrow> notes_error + (timestamp option \<times> uuid option)" where
  "read_cursor e cur =
     (case cur of
        None \<Rightarrow> Inr (None, None)
      | Some c \<Rightarrow> (case to_timestamp_id (ne_codec e) c of
                     Inl err \<Rightarrow> Inl (NotesCursor err) | Inr (ts, i) \<Rightarrow> Inr (Some ts, Some i)))"

text \<open>The rows of a listing before cursor, order and limit.\<close>

definition listed_notes :: "notes_env \<Rightarrow> uuid \<Rightarrow> notes_query \<Rightarrow> notes_db \<Rightarrow> note_row list" where
  "listed_notes e creator_id q d =
     filter (\<lambda>n. nt_creator_id n = creator_id \<and> nt_deleted_at n = None \<and>
        (case nq_folder_id q of Some fid \<Rightarrow> nt_folder_id n = Some fid | None \<Rightarrow> True) \<and>
        (case nq_pinned q of Some p \<Rightarrow> nt_pinned n = p | None \<Rightarrow> True) \<and>
        (case nq_keywords q of Some kw \<Rightarrow> ne_matches e (nt_title n @ '' '' @ nt_content n) kw | None \<Rightarrow> True)) (n_notes d)"

definition find_notes :: "notes_env \<Rightarrow> uuid \<Rightarrow> notes_query \<Rightarrow> notes_db \<Rightarrow> notes_error + note_row list" where
  "find_notes e creator_id q d =
     bind_res (read_cursor e (cp_cursor (nq_pagination q))) (\<lambda>(cursor_ts, cursor_id).
     notes_sql e NtList
       (push_order_and_limit nt_created_at nt_id Desc (limit_plus_one (nq_pagination q))
         (filter (push_cursor_condition nt_created_at nt_id cursor_ts cursor_id Desc) (listed_notes e creator_id q d))))"

definition repo_add_note_to_folder :: "notes_env \<Rightarrow> uuid \<Rightarrow> uuid \<Rightarrow> uuid \<Rightarrow> note_row option notes_op" where
  "repo_add_note_to_folder e creator_id note_id folder_id =
     fetch_optional (update_notes e NtFile (live_note note_id creator_id) (\<lambda>n. n\<lparr>nt_folder_id := Some folder_id\<rparr>))"

definition remove_note_from_folder :: "notes_env \<Rightarrow> uuid \<Rightarrow> uuid \<Rightarrow> uuid \<Rightarrow> note_row option notes_op" where
  "remove_note_from_folder e creator_id note_id folder_id =
     fetch_optional (update_notes e NtUnfile
       (\<lambda>n. live_note note_id creator_id n \<and> nt_folder_id n = Some folder_id) (\<lambda>n. n\<lparr>nt_folder_id := None\<rparr>))"

definition repo_move_notes_to_folder :: "notes_env \<Rightarrow> uuid \<Rightarrow> move_notes_request \<Rightarrow> note_row list notes_op" where
  "repo_move_notes_to_folder e creator_id req =
     update_notes e NtMove
       (\<lambda>n. nt_id n \<in> set (mn_note_ids req) \<and> nt_creator_id n = creator_id \<and> nt_deleted_at n = None)
       (\<lambda>n. n\<lparr>nt_folder_id := mn_folder_id req\<rparr>)"

definition orphan_notes_in_folder :: "notes_env \<Rightarrow> uuid \<Rightarrow> uuid \<Rightarrow> nat notes_op" where
  "orphan_notes_in_folder e folder_id creator_id =
     svc_bind (update_notes e NtUnfile
       (\<lambda>n. nt_folder_id n = Some folder_id \<and> nt_creator_id n = creator_id \<and> nt_deleted_at n = None)
       (\<lambda>n. n\<lparr>nt_folder_id := None\<rparr>)) (\<lambda>rows. svc_return (length rows))"

section \<open>Folders\<close>

definition owned_folder_ids :: "notes_env \<Rightarrow> uuid \<Rightarrow> uuid list \<Rightarrow> notes_db \<Rightarrow> notes_error + uuid list" where
  "owned_folder_ids e creator_id candidate_ids d =
     (if candidate_ids = [] then Inr []
      else notes_sql e NtOwned
        (map fo_id (filter (\<lambda>f. fo_creator_id f = creator_id \<and> fo_id f \<in> set candidate_ids) (n_folders d))))"

definition new_folder :: "notes_env \<Rightarrow> uuid \<Rightarrow> string \<Rightarrow> bool \<Rightarrow> uuid \<Rightarrow> folder" where
  "new_folder e i title pinned creator_id =
     \<lparr>fo_id = i, fo_title = title, fo_pinned = pinned, fo_creator_id = creator_id, fo_version = 1,
      fo_created_at = ne_db_now e, fo_updated_at = ne_db_now e, fo_deleted_at = None\<rparr>"

definition insert_folder_violation :: "folder \<Rightarrow> notes_db \<Rightarrow> string option" where
  "insert_folder_violation f d =
     (if 100 < char_count (fo_title f) then Some value_too_long
      else if fo_id f \<in> fo_id ` set (n_folders d) then Some notes_unique_violation
      else if fo_creator_id f \<notin> set (n_users d) then Some notes_fk_violation else None)"

text \<open>An absent \<open>pinned\<close> is sent as \<open>NULL\<close>, which the column refuses.\<close>

definition repo_create_folder :: "notes_env \<Rightarrow> uuid \<Rightarrow> create_folder_request \<Rightarrow> folder notes_op" where
  "repo_create_folder e creator_id req =
     (let f = new_folder e (cf_id req) (cf_title req) (coalesce (cf_pinned req) False) creator_id
      in notes_exec e FoInsert
           (\<lambda>d. if 100 < char_count (cf_title req) then Some value_too_long
                else if cf_pinned req = None then Some notes_null_violation else insert_folder_violation f d)
           (\<lambda>_. f) (\<lambda>d. d\<lparr>n_folders := n_folders d @ [f]\<rparr>))"

definition live_folder :: "uuid \<Rightarrow> uuid \<Rightarrow> folder \<Rightarrow> bool" where
  "live_folder i creator_id f \<longleftrightarrow> fo_id f = i \<and> fo_creator_id f = creator_id \<and> fo_deleted_at f = None"

definition update_folder_by_version :: "notes_env \<Rightarrow> uuid \<Rightarrow> uuid \<Rightarrow> update_folder_request \<Rightarrow> folder option notes_op" where
  "update_folder_by_version e folder_id creator_id req =
     fetch_optional (update_folders e FoUpdate
       (\<lambda>f. live_folder folder_id creator_id f \<and> fo_version f = uf_base_version req)
       (\<lambda>f. f\<lparr>fo_title := coalesce (uf_title req) (fo_title f), fo_pinned := coalesce (uf_pinned req) (fo_pinned f)\<rparr>))"

definition soft_delete_folder :: "notes_env \<Rightarrow> uuid \<Rightarrow> uuid \<Rightarrow> int \<Rightarrow> folder option notes_op" where
  "soft_delete_folder e i creator_id base_version =
     fetch_optional (update_folders e FoDelete
       (\<lambda>f. live_folder i creator_id f \<and> fo_version f = base_version)
       (\<lambda>f. f\<lparr>fo_deleted_at := Some (ne_db_now e)\<rparr>))"

definition find_folder_by_id :: "notes_env \<Rightarrow> uuid \<Rightarrow> uuid \<Rightarrow> notes_db \<Rightarrow> notes_error + folder option" where
  "find_folder_by_id e i creator_id d = notes_sql e FoFind (find (live_folder i creator_id) (n_folders d))"

definition listed_folders :: "notes_env \<Rightarrow> uuid \<Rightarrow> folders_query \<Rightarrow> notes_db \<Rightarrow> folder list" where
  "listed_folders e creator_id q d =
     filter (\<lambda>f. fo_creator_id f = creator_id \<and> fo_deleted_at f = None \<and>
        (case fq_pinned q of Some p \<Rightarrow> fo_pinned f = p | None \<Rightarrow> True) \<and>
        (case fq_keywords q of Some kw \<Rightarrow> ne_matches e (fo_title f) kw | None \<Rightarrow> True)) (n_folders d)"

definition find_folders :: "notes_env \<Rightarrow> uuid \<Rightarrow> folders_query \<Rightarrow> notes_db \<Rightarrow> notes_error + folder list" where
  "find_folders e creator_id q d =
     bind_res (read_cursor e (cp_cursor (fq_pagination q))) (\<lambda>(cursor_ts, cursor_id).
     notes_sql e FoList
       (push_order_and_limit fo_created_at fo_id Desc (limit_plus_one (fq_pagination q))
         (filter (push_cursor_condition fo_created_at fo_id cursor_ts cursor_id Desc) (listed_folders e creator_id q d))))"

section \<open>Sync statements\<close>

record note_snapshot =
  ns_title :: string
  ns_content :: string
  ns_pinned :: bool
  ns_folder_id :: "uuid option"
  ns_deleted :: bool

record folder_snapshot =
  fs_title :: string
  fs_pinned :: bool
  fs_deleted :: bool

text \<open>\<open>CASE WHEN deleted THEN COALESCE(deleted_at, NOW()) END\<close>\<close>

definition tombstone :: "notes_env \<Rightarrow> bool \<Rightarrow> timestamp option \<Rightarrow> timestamp option" where
  "tombstone e gone deleted_at =
     (if gone then Some (coalesce deleted_at (ne_db_now e)) else None)"

definition snap_note :: "notes_env \<Rightarrow> note_snapshot \<Rightarrow> note_row \<Rightarrow> note_row" where
  "snap_note e s n = n\<lparr>nt_title := ns_title s, nt_content := ns_content s, nt_pinned := ns_pinned s,
     nt_folder_id := ns_folder_id s, nt_deleted_at := tombstone e (ns_deleted s) (nt_deleted_at n)\<rparr>"

definition snap_folder :: "notes_env \<Rightarrow> folder_snapshot \<Rightarrow> folder \<Rightarrow> folder" where
  "snap_folder e s f = f\<lparr>fo_title := fs_title s, fo_pinned := fs_pinned s,
     fo_deleted_at := tombstone e (fs_deleted s) (fo_deleted_at f)\<rparr>"

text \<open>\<open>INSERT ... ON CONFLICT (id) DO NOTHING RETURNING *\<close>\<close>

definition upsert_note_if_absent :: "notes_env \<Rightarrow> uuid \<Rightarrow> uuid \<Rightarrow> note_snapshot \<Rightarrow> note_row option notes_op" where
  "upsert_note_if_absent e i creator_id s =
     (let n = new_note e i (ns_title s) (ns_content s) (ns_pinned s) (ns_folder_id s) creator_id;
          taken = (\<lambda>d. i \<in> nt_id ` set (n_notes d));
          clash = (\<lambda>d. if 100 < char_count (ns_title s) \<or> 10000 < char_count (ns_content s) then Some value_too_long
                       else if taken d then None else insert_note_violation n d)
      in notes_exec e NtUpsert clash (\<lambda>d. if taken d then None else Some n)
           (\<lambda>d. if taken d then d else d\<lparr>n_notes := n_notes d @ [n]\<rparr>))"

definition apply_note_snapshot_if_version_matches ::
    "notes_env \<Rightarrow> uuid \<Rightarrow> uuid \<Rightarrow> int \<Rightarrow> note_snapshot \<Rightarrow> note_row option notes_op" where
  "apply_note_snapshot_if_version_matches e i creator_id base_version s =
     fetch_optional (update_notes e NtApply
       (\<lambda>n. nt_id n = i \<and> nt_creator_id n = creator_id \<and> nt_version n = base_version) (snap_note e s))"

text \<open>\<open>fetch_one\<close>: no row is an error.\<close>

definition row_not_found :: string where
  "row_not_found = ''no rows returned by a query that expected to return at least one row''"

definition fetch_one :: "'a list notes_op \<Rightarrow> 'a notes_op" where
  "fetch_one m = svc_bind m (\<lambda>rows. svc_lift (ok_or (first_row rows) (NotesDatabase row_not_found)))"

definition force_apply_note_snapshot :: "notes_env \<Rightarrow> uuid \<Rightarrow> uuid \<Rightarrow> note_snapshot \<Rightarrow> note_row notes_op" where
  "force_apply_note_snapshot e i creator_id s =
     fetch_one (update_notes e NtForce (\<lambda>n. nt_id n = i \<and> nt_creator_id n = creator_id) (snap_note e s))"

definition find_notes_changed_since ::
    "notes_env \<Rightarrow> uuid \<Rightarrow> (timestamp \<times> uuid) option \<Rightarrow> int \<Rightarrow> notes_db \<Rightarrow> notes_error + note_row list" where
  "find_notes_changed_since e creator_id cur limit1 d =
     notes_sql e NtChanged
       (take (nat limit1) (sort_key (\<lambda>n. (nt_updated_at n, nt_id n))
         (filter (\<lambda>n. nt_creator_id n = creator_id \<and>
            (case cur of Some k \<Rightarrow> k < (nt_updated_at n, nt_id n) | None \<Rightarrow> True)) (n_notes d))))"

definition upsert_folder_if_absent :: "notes_env \<Rightarrow> uuid \<Rightarrow> uuid \<Rightarrow> folder_snapshot \<Rightarrow> folder option notes_op" where
  "upsert_folder_if_absent e i creator_id s =
     (let f = new_folder e i (fs_title s) (fs_pinned s) creator_id;
          taken = (\<lambda>d. i \<in> fo_id ` set (n_folders d));
          clash = (\<lambda>d. if 100 < char_count (fs_title s) then Some value_too_long
                       else if taken d then None else insert_folder_violation f d)
      in notes_exec e FoUpsert clash (\<lambda>d. if taken d then None else Some f)
           (\<lambda>d. if taken d then d else d\<lparr>n_folders := n_folders d @ [f]\<rparr>))"

definition apply_folder_snapshot_if_version_matches ::
    "notes_env \<Rightarrow> uuid \<Rightarrow> uuid \<Rightarrow> int \<Rightarrow> folder_snapshot \<Rightarrow> folder option notes_op" where
  "apply_folder_snapshot_if_version_matches e i creator_id base_version s =
     fetch_optional (update_folders e FoApply
       (\<lambda>f. fo_id f = i \<and> fo_creator_id f = creator_id \<and> fo_version f = base_version) (snap_folder e s))"

definition force_apply_folder_snapshot :: "notes_env \<Rightarrow> uuid \<Rightarrow> uuid \<Rightarrow> folder_snapshot \<Rightarrow> folder notes_op" where
  "force_apply_folder_snapshot e i creator_id s =
     fetch_one (update_folders e FoForce (\<lambda>f. fo_id f = i \<and> fo_creator_id f = creator_id) (snap_folder e s))"

definition find_folders_changed_since ::
    "notes_env \<Rightarrow> uuid \<Rightarrow> (timestamp \<times> uuid) option \<Rightarrow> int \<Rightarrow> notes_db \<Rightarrow> notes_error + folder list" where
  "find_folders_changed_since e creator_id cur limit1 d =
     notes_sql e FoChanged
       (take (nat limit1) (sort_key (\<lambda>f. (fo_updated_at f, fo_id f))
         (filter (\<lambda>f. fo_creator_id f = creator_id \<and>
            (case cur of Some k \<Rightarrow> k < (fo_updated_at f, fo_id f) | None \<Rightarrow> True)) (n_folders d))))"

section \<open>Purging\<close>

datatype purge_table = PurgeNotes | PurgeFolders

definition PURGE_BATCH :: nat where "PURGE_BATCH = 5000"

definition stale :: "timestamp \<Rightarrow> timestamp option \<Rightarrow> bool" where
  "stale cutoff deleted_at \<longleftrightarrow> (case deleted_at of Some t \<Rightarrow> t < cutoff | None \<Rightarrow> False)"

text \<open>
  One batch; which stale rows a \<open>LIMIT\<close> without an order picks is the database's choice, here the first. A
  deleted folder leaves its notes unfiled (\<open>ON DELETE SET NULL\<close>), which the row trigger stamps.
\<close>

definition purge_batch :: "notes_env \<Rightarrow> purge_table \<Rightarrow> timestamp \<Rightarrow> notes_db \<Rightarrow> nat \<times> notes_db" where
  "purge_batch e table cutoff d =
     (case table of
        PurgeNotes \<Rightarrow>
          (let ids = take PURGE_BATCH (map nt_id (filter (\<lambda>n. stale cutoff (nt_deleted_at n)) (n_notes d)))
           in (length (filter (\<lambda>n. nt_id n \<in> set ids) (n_notes d)),
               d\<lparr>n_notes := filter (\<lambda>n. nt_id n \<notin> set ids) (n_notes d)\<rparr>))
      | PurgeFolders \<Rightarrow>
          (let ids = take PURGE_BATCH (map fo_id (filter (\<lambda>f. stale cutoff (fo_deleted_at f)) (n_folders d)))
           in (length (filter (\<lambda>f. fo_id f \<in> set ids) (n_folders d)),
               d\<lparr>n_folders := filter (\<lambda>f. fo_id f \<notin> set ids) (n_folders d),
                 n_notes := map (\<lambda>n. case nt_folder_id n of
                     Some i \<Rightarrow> if i \<in> set ids then n\<lparr>nt_folder_id := None, nt_updated_at := ne_db_now e\<rparr> else n
                   | None \<Rightarrow> n) (n_notes d)\<rparr>)))"

definition table_size :: "notes_db \<Rightarrow> nat" where "table_size d = length (n_notes d) + length (n_folders d)"

lemma purge_batch_shrinks: "table_size (snd (purge_batch e table cutoff d)) + fst (purge_batch e table cutoff d) = table_size d"
proof -
  have "length (filter (\<lambda>x. \<not> p x) xs) + length (filter p xs) = length xs" for p :: "'a \<Rightarrow> bool" and xs
    using sum_length_filter_compl [of p xs] by simp
  from this [of _ "n_notes d"] this [of _ "n_folders d"] show ?thesis
    by (simp add: purge_batch_def table_size_def Let_def split: purge_table.split)
qed

definition purge_stmt :: "purge_table \<Rightarrow> notes_stmt" where
  "purge_stmt table = (case table of PurgeNotes \<Rightarrow> NtPurge | PurgeFolders \<Rightarrow> FoPurge)"

function purge_loop :: "notes_env \<Rightarrow> purge_table \<Rightarrow> timestamp \<Rightarrow> nat \<Rightarrow> nat notes_op" where
  "purge_loop e table cutoff total_deleted d =
     (case ne_fault e (purge_stmt table) of
        Some err \<Rightarrow> (Inl (NotesDatabase err), d)
      | None \<Rightarrow>
          (let b = purge_batch e table cutoff d
           in if fst b < PURGE_BATCH then (Inr (total_deleted + fst b), snd b)
              else purge_loop e table cutoff (total_deleted + fst b) (snd b)))"
  by auto
termination
proof (relation "measure (\<lambda>(_, _, _, _, d). table_size d)", goal_cases)
  case (2 e table cutoff total_deleted d x)
  then show ?case using purge_batch_shrinks [of e table cutoff d] by (simp add: PURGE_BATCH_def)
qed simp

declare purge_loop.simps [simp del]

definition purge_batched :: "notes_env \<Rightarrow> purge_table \<Rightarrow> timestamp \<Rightarrow> nat notes_op" where
  "purge_batched e table cutoff = purge_loop e table cutoff 0"

end
