(* ===== verification/Notes_Service.thy ===== *)
theory Notes_Service
  imports Notes_Repo
begin

text \<open>
  \<open>modules/notes/service.rs\<close>: notes and folders under optimistic locking, filing, listing, and the
  offline sync, whose push runs in one transaction. Reads inside the push go to the pool, not to the
  transaction, so they see the tables as they were when it began: these are the argument \<open>d0\<close>.
\<close>

definition MAX_MUTATIONS_PER_PUSH :: nat where "MAX_MUTATIONS_PER_PUSH = 200"

definition found_or :: "(notes_db \<Rightarrow> notes_error + 'a option) \<Rightarrow> notes_error \<Rightarrow> 'a notes_op" where
  "found_or q err d = (bind_res (q d) (\<lambda>r. ok_or r err), d)"

definition raise :: "notes_error \<Rightarrow> 'a notes_op" where "raise err = svc_lift (Inl err)"

section \<open>Notes\<close>

definition notes_create_note :: "notes_env \<Rightarrow> uuid \<Rightarrow> create_note_request \<Rightarrow> note_dto notes_op" where
  "notes_create_note e creator_id req =
     svc_bind (repo_create_note e creator_id req) (\<lambda>n. svc_return (note_dto_from n))"

text \<open>What a versioned write answers when no row matched: the current row as a conflict, or not found.\<close>

definition note_conflict :: "notes_env \<Rightarrow> uuid \<Rightarrow> uuid \<Rightarrow> 'a notes_op" where
  "note_conflict e i creator_id =
     svc_bind (found_or (find_note_by_id e i creator_id) NoteNotFound) (\<lambda>n.
     raise (VersionConflict (ConflictNote (note_dto_from n))))"

definition notes_update_note :: "notes_env \<Rightarrow> uuid \<Rightarrow> uuid \<Rightarrow> update_note_request \<Rightarrow> note_dto notes_op" where
  "notes_update_note e i creator_id req =
     svc_bind (update_note_by_version e i creator_id req) (\<lambda>updated.
     case updated of
       Some n \<Rightarrow> svc_return (note_dto_from n)
     | None \<Rightarrow> note_conflict e i creator_id)"

definition notes_delete_note :: "notes_env \<Rightarrow> uuid \<Rightarrow> uuid \<Rightarrow> int \<Rightarrow> note_dto notes_op" where
  "notes_delete_note e i creator_id base_version =
     svc_bind (soft_delete_note e i creator_id base_version) (\<lambda>deleted_row.
     case deleted_row of
       Some n \<Rightarrow> svc_return (note_dto_from n)
     | None \<Rightarrow> note_conflict e i creator_id)"

definition notes_get_notes :: "notes_env \<Rightarrow> uuid \<Rightarrow> notes_query \<Rightarrow> notes_db \<Rightarrow> notes_error + note_dto cursor_page" where
  "notes_get_notes e creator_id q d =
     bind_res (find_notes e creator_id q d) (\<lambda>rows.
     Inr (from_rows (map note_dto_from rows) (page_limit (nq_pagination q))
       (\<lambda>n. from_timestamp_id (ne_codec e) (nd_created_at n) (nd_id n))))"

section \<open>Folders\<close>

definition notes_create_folder :: "notes_env \<Rightarrow> uuid \<Rightarrow> create_folder_request \<Rightarrow> folder_dto notes_op" where
  "notes_create_folder e creator_id req =
     svc_bind (repo_create_folder e creator_id req) (\<lambda>f. svc_return (folder_dto_from f))"

definition folder_conflict :: "notes_env \<Rightarrow> uuid \<Rightarrow> uuid \<Rightarrow> 'a notes_op" where
  "folder_conflict e i creator_id =
     svc_bind (found_or (find_folder_by_id e i creator_id) FolderNotFound) (\<lambda>f.
     raise (VersionConflict (ConflictFolder (folder_dto_from f))))"

definition notes_update_folder :: "notes_env \<Rightarrow> uuid \<Rightarrow> uuid \<Rightarrow> update_folder_request \<Rightarrow> folder_dto notes_op" where
  "notes_update_folder e i creator_id req =
     svc_bind (update_folder_by_version e i creator_id req) (\<lambda>updated.
     case updated of
       Some f \<Rightarrow> svc_return (folder_dto_from f)
     | None \<Rightarrow> folder_conflict e i creator_id)"

definition notes_delete_folder :: "notes_env \<Rightarrow> uuid \<Rightarrow> uuid \<Rightarrow> delete_folder_request \<Rightarrow> folder_dto notes_op" where
  "notes_delete_folder e i creator_id req =
     svc_bind (soft_delete_folder e i creator_id (df_base_version req)) (\<lambda>deleted_row.
     case deleted_row of
       Some f \<Rightarrow> svc_return (folder_dto_from f)
     | None \<Rightarrow> folder_conflict e i creator_id)"

definition notes_get_folders :: "notes_env \<Rightarrow> uuid \<Rightarrow> folders_query \<Rightarrow> notes_db \<Rightarrow> notes_error + folder_dto cursor_page" where
  "notes_get_folders e creator_id q d =
     bind_res (find_folders e creator_id q d) (\<lambda>rows.
     Inr (from_rows (map folder_dto_from rows) (page_limit (fq_pagination q))
       (\<lambda>f. from_timestamp_id (ne_codec e) (fd_created_at f) (fd_id f))))"

definition notes_add_note_to_folder :: "notes_env \<Rightarrow> uuid \<Rightarrow> uuid \<Rightarrow> uuid \<Rightarrow> note_dto notes_op" where
  "notes_add_note_to_folder e creator_id note_id folder_id =
     svc_bind (found_or (find_note_by_id e note_id creator_id) NoteNotFound) (\<lambda>n.
     svc_bind (found_or (find_folder_by_id e folder_id creator_id) FolderNotFound) (\<lambda>f.
     if nt_folder_id n = Some folder_id then svc_return (note_dto_from n)
     else
       svc_bind (svc_refuse (nt_creator_id n \<noteq> creator_id) NotNoteOwner) (\<lambda>_.
       svc_bind (svc_refuse (fo_creator_id f \<noteq> creator_id) NotFolderOwner) (\<lambda>_.
       svc_bind (repo_add_note_to_folder e creator_id note_id folder_id) (\<lambda>filed.
       case filed of
         Some n' \<Rightarrow> svc_return (note_dto_from n')
       | None \<Rightarrow> raise (VersionConflict (ConflictNote (note_dto_from n))))))))"

definition notes_remove_note_from_folder :: "notes_env \<Rightarrow> uuid \<Rightarrow> uuid \<Rightarrow> uuid \<Rightarrow> note_dto notes_op" where
  "notes_remove_note_from_folder e creator_id note_id folder_id =
     svc_bind (remove_note_from_folder e creator_id note_id folder_id) (\<lambda>r.
     svc_bind (svc_lift (ok_or r NoteNotFound)) (\<lambda>n. svc_return (note_dto_from n)))"

definition notes_move_notes :: "notes_env \<Rightarrow> uuid \<Rightarrow> move_notes_request \<Rightarrow> note_dto list notes_op" where
  "notes_move_notes e creator_id req =
     (if mn_note_ids req = [] then svc_return []
      else if 200 < length (mn_note_ids req) then raise (NotesBadRequest ''Cannot move more than 200 notes at once'')
      else
        svc_bind (case mn_folder_id req of
            Some i \<Rightarrow> svc_bind (found_or (find_folder_by_id e i creator_id) FolderNotFound) (\<lambda>_. svc_return ())
          | None \<Rightarrow> svc_return ()) (\<lambda>_.
        svc_bind (repo_move_notes_to_folder e creator_id req) (\<lambda>rows. svc_return (map note_dto_from rows))))"

section \<open>Pulling changes\<close>

definition read_sync_cursor :: "notes_env \<Rightarrow> cursor option \<Rightarrow> notes_error + (timestamp \<times> uuid) option" where
  "read_sync_cursor e cur =
     (case cur of
        None \<Rightarrow> Inr None
      | Some c \<Rightarrow> (case to_timestamp_id (ne_codec e) c of Inl err \<Rightarrow> Inl (NotesCursor err) | Inr k \<Rightarrow> Inr (Some k)))"

text \<open>What is sent of \<open>limit + 1\<close> rows, the cursor after them, and whether there are more.\<close>

definition sync_page :: "('r \<Rightarrow> cursor) \<Rightarrow> int \<Rightarrow> cursor option \<Rightarrow> 'r list \<Rightarrow> 'r list \<times> cursor option \<times> bool" where
  "sync_page enc limit cur rows =
     (let page = take (nat limit) rows
      in (page, (case last_opt page of Some r \<Rightarrow> Some (enc r) | None \<Rightarrow> cur), nat limit < length rows))"

definition sync_pull :: "notes_env \<Rightarrow> uuid \<Rightarrow> notes_sync_query \<Rightarrow> notes_db \<Rightarrow> notes_error + notes_sync_response" where
  "sync_pull e creator_id q d =
     (let limit = sync_limit q
      in bind_res (read_sync_cursor e (sq_notes_cursor q)) (\<lambda>notes_cursor.
         bind_res (read_sync_cursor e (sq_folders_cursor q)) (\<lambda>folders_cursor.
         bind_res (find_notes_changed_since e creator_id notes_cursor (limit + 1) d) (\<lambda>nrows.
         bind_res (find_folders_changed_since e creator_id folders_cursor (limit + 1) d) (\<lambda>frows.
           (case sync_page (\<lambda>n. from_timestamp_id (ne_codec e) (nt_updated_at n) (nt_id n)) limit (sq_notes_cursor q) nrows of
              (ns, ncur, nmore) \<Rightarrow>
                (case sync_page (\<lambda>f. from_timestamp_id (ne_codec e) (fo_updated_at f) (fo_id f)) limit
                    (sq_folders_cursor q) frows of
                   (fs, fcur, fmore) \<Rightarrow>
                     Inr \<lparr>sr_notes = map note_dto_from ns, sr_notes_next_cursor = ncur, sr_notes_has_more = nmore,
                       sr_folders = map folder_dto_from fs, sr_folders_next_cursor = fcur, sr_folders_has_more = fmore,
                       sr_server_time = ne_server_now e\<rparr>)))))))"

section \<open>Pushing mutations\<close>

definition note_snapshot_of :: "note_mutation \<Rightarrow> note_snapshot" where
  "note_snapshot_of m = \<lparr>ns_title = nm_title m, ns_content = nm_content m, ns_pinned = nm_pinned m,
     ns_folder_id = nm_folder_id m, ns_deleted = nm_deleted m\<rparr>"

definition folder_snapshot_of :: "folder_mutation \<Rightarrow> folder_snapshot" where
  "folder_snapshot_of m = \<lparr>fs_title = fm_title m, fs_pinned = fm_pinned m, fs_deleted = fm_deleted m\<rparr>"

definition applied_note :: "note_row \<Rightarrow> mutation_result" where
  "applied_note n = applied NoteEntity (ConflictNote (note_dto_from n))"
definition applied_folder :: "folder \<Rightarrow> mutation_result" where
  "applied_folder f = applied FolderEntity (ConflictFolder (folder_dto_from f))"

text \<open>A row read through the pool while the transaction runs.\<close>

definition committed_or :: "notes_db \<Rightarrow> (notes_db \<Rightarrow> notes_error + 'a option) \<Rightarrow> notes_error \<Rightarrow> 'a notes_op" where
  "committed_or d0 q err = svc_lift (bind_res (q d0) (\<lambda>r. ok_or r err))"

definition apply_note_mutation :: "notes_env \<Rightarrow> notes_db \<Rightarrow> uuid \<Rightarrow> note_mutation \<Rightarrow> mutation_result notes_op" where
  "apply_note_mutation e d0 creator_id m =
     (if 100 < char_count (nm_title m) then svc_return (rejected (nm_id m) NoteEntity ''title exceeds 100 characters'')
      else if 10000 < char_count (nm_content m)
      then svc_return (rejected (nm_id m) NoteEntity ''content exceeds 10,000 characters'')
      else case nm_base_version m of
        None \<Rightarrow>
          if nm_deleted m then svc_return (applied_unpersisted (nm_id m) NoteEntity)
          else
            svc_bind (upsert_note_if_absent e (nm_id m) creator_id (note_snapshot_of m)) (\<lambda>inserted.
            case inserted of
              Some n \<Rightarrow> svc_return (applied_note n)
            | None \<Rightarrow>
                svc_bind (committed_or d0 (find_note_by_id e (nm_id m) creator_id) NoteNotFound) (\<lambda>existing.
                if nt_updated_at existing < nm_client_updated_at m
                then svc_bind (force_apply_note_snapshot e (nm_id m) creator_id (note_snapshot_of m)) (\<lambda>n.
                     svc_return (applied_note n))
                else svc_return (mutation_conflict NoteEntity (ConflictNote (note_dto_from existing)))))
      | Some base_version \<Rightarrow>
          svc_bind (apply_note_snapshot_if_version_matches e (nm_id m) creator_id base_version (note_snapshot_of m)) (\<lambda>r.
          case r of
            Some n \<Rightarrow> svc_return (applied_note n)
          | None \<Rightarrow>
              svc_bind (committed_or d0 (find_note_by_id e (nm_id m) creator_id) NoteNotFound) (\<lambda>existing.
              svc_return (mutation_conflict NoteEntity (ConflictNote (note_dto_from existing))))))"

definition apply_folder_mutation :: "notes_env \<Rightarrow> notes_db \<Rightarrow> uuid \<Rightarrow> folder_mutation \<Rightarrow> mutation_result notes_op" where
  "apply_folder_mutation e d0 creator_id m =
     (if 100 < char_count (fm_title m) then svc_return (rejected (fm_id m) FolderEntity ''title exceeds 100 characters'')
      else case fm_base_version m of
        None \<Rightarrow>
          if fm_deleted m then svc_return (applied_unpersisted (fm_id m) FolderEntity)
          else
            svc_bind (upsert_folder_if_absent e (fm_id m) creator_id (folder_snapshot_of m)) (\<lambda>inserted.
            case inserted of
              Some f \<Rightarrow> svc_return (applied_folder f)
            | None \<Rightarrow>
                svc_bind (committed_or d0 (find_folder_by_id e (fm_id m) creator_id) FolderNotFound) (\<lambda>existing.
                if fo_updated_at existing < fm_client_updated_at m
                then svc_bind (force_apply_folder_snapshot e (fm_id m) creator_id (folder_snapshot_of m)) (\<lambda>f.
                     svc_return (applied_folder f))
                else svc_return (mutation_conflict FolderEntity (ConflictFolder (folder_dto_from existing)))))
      | Some base_version \<Rightarrow>
          svc_bind (apply_folder_snapshot_if_version_matches e (fm_id m) creator_id base_version (folder_snapshot_of m)) (\<lambda>r.
          case r of
            Some f \<Rightarrow> svc_return (applied_folder f)
          | None \<Rightarrow>
              svc_bind (committed_or d0 (find_folder_by_id e (fm_id m) creator_id) FolderNotFound) (\<lambda>existing.
              svc_return (mutation_conflict FolderEntity (ConflictFolder (folder_dto_from existing))))))"

text \<open>The two batches, each mutation with its place in the request.\<close>

definition folder_batch :: "sync_mutation list \<Rightarrow> (nat \<times> folder_mutation) list" where
  "folder_batch ms = List.map_filter (\<lambda>(i, m). case m of MutateFolder fm \<Rightarrow> Some (i, fm) | MutateNote _ \<Rightarrow> None) (enumerate 0 ms)"

definition note_batch :: "sync_mutation list \<Rightarrow> (nat \<times> note_mutation) list" where
  "note_batch ms = List.map_filter (\<lambda>(i, m). case m of MutateNote nm \<Rightarrow> Some (i, nm) | MutateFolder _ \<Rightarrow> None) (enumerate 0 ms)"

fun run_batch :: "('m \<Rightarrow> mutation_result notes_op) \<Rightarrow> (nat \<times> 'm) list \<Rightarrow> (nat \<times> mutation_result) list notes_op" where
  "run_batch act [] = svc_return []"
| "run_batch act ((i, m) # ms) =
     svc_bind (act m) (\<lambda>r. svc_bind (run_batch act ms) (\<lambda>rs. svc_return ((i, r) # rs)))"

definition unfile_foreign :: "uuid list \<Rightarrow> note_mutation \<Rightarrow> note_mutation" where
  "unfile_foreign owned m =
     (case nm_folder_id m of
        Some fid \<Rightarrow> if fid \<in> set owned then m else m\<lparr>nm_folder_id := None\<rparr>
      | None \<Rightarrow> m)"

definition in_notes_tx :: "notes_env \<Rightarrow> 'a notes_op \<Rightarrow> 'a notes_op" where
  "in_notes_tx e body d =
     (case notes_sql e NtBegin () of
        Inl err \<Rightarrow> (Inl err, d)
      | Inr _ \<Rightarrow>
          (case body d of
             (Inl err, _) \<Rightarrow> (Inl err, d)
           | (Inr v, d1) \<Rightarrow> (case notes_sql e NtCommit () of Inl err \<Rightarrow> (Inl err, d) | Inr _ \<Rightarrow> (Inr v, d1))))"

text \<open>The folders a batch of notes names, each once.\<close>

definition referenced_folder_ids :: "(nat \<times> note_mutation) list \<Rightarrow> uuid list" where
  "referenced_folder_ids ms = remdups (List.map_filter (\<lambda>(_, m). nm_folder_id m) ms)"

definition push_body :: "notes_env \<Rightarrow> uuid \<Rightarrow> sync_mutation list \<Rightarrow> (nat \<times> mutation_result) list notes_op" where
  "push_body e creator_id ms d0 =
     svc_bind (run_batch (apply_folder_mutation e d0 creator_id) (folder_batch ms)) (\<lambda>frs.
     svc_bind (svc_lift (owned_folder_ids e creator_id (referenced_folder_ids (note_batch ms)) d0)) (\<lambda>owned.
     svc_bind (run_batch (\<lambda>m. apply_note_mutation e d0 creator_id (unfile_foreign owned m)) (note_batch ms)) (\<lambda>nrs.
     svc_return (frs @ nrs)))) d0"

definition sync_push :: "notes_env \<Rightarrow> uuid \<Rightarrow> sync_mutation list \<Rightarrow> mutation_result list notes_op" where
  "sync_push e creator_id ms =
     (if ms = [] then svc_return []
      else if MAX_MUTATIONS_PER_PUSH < length ms
      then raise (NotesBadRequest ''Cannot push more than 200 mutations per request'')
      else svc_bind (in_notes_tx e (push_body e creator_id ms)) (\<lambda>results.
           svc_return (map snd (sort_key fst results))))"

section \<open>Purging\<close>

definition purge_stale :: "notes_env \<Rightarrow> timestamp \<Rightarrow> (nat \<times> nat) notes_op" where
  "purge_stale e cutoff =
     svc_bind (purge_batched e PurgeNotes cutoff) (\<lambda>notes_deleted.
     svc_bind (purge_batched e PurgeFolders cutoff) (\<lambda>folders_deleted.
     svc_return (notes_deleted, folders_deleted)))"

definition RETENTION_DAYS :: int where "RETENTION_DAYS = 30"

text \<open>\<open>jobs/note_jobs.rs\<close>\<close>

definition purge_stale_notes :: "notes_env \<Rightarrow> unit notes_op" where
  "purge_stale_notes e =
     svc_bind (purge_stale e (ne_server_now e - RETENTION_DAYS * 86400 * 1000000000)) (\<lambda>_. svc_return ())"

end
