(* ===== verification/Notes_Rules.thy ===== *)
theory Notes_Rules
  imports Notes_Service
begin

text \<open>
  How the notes operations change the tables: inversion lemmas of the statements, and the relation
  \<open>evolves\<close> between the tables before and after anything a user does, which composes over steps.
\<close>

section \<open>Inversion\<close>

lemma notes_exec_ok [svc_ok]:
  "notes_exec e st viol v f d = (Inr x, d') \<longleftrightarrow> ne_fault e st = None \<and> viol d = None \<and> x = v d \<and> d' = f d"
  by (auto simp: notes_exec_def split: option.splits)

lemma notes_exec_snd: "snd (notes_exec e st viol v f d) = d \<or> snd (notes_exec e st viol v f d) = f d"
  by (simp add: notes_exec_def split: option.split)

lemma notes_simple_ok [svc_ok]:
  "found_or q err d = (Inr x, d') \<longleftrightarrow> q d = Inr (Some x) \<and> d' = d"
  "committed_or d0 q err d1 = (Inr y, d1') \<longleftrightarrow> q d0 = Inr (Some y) \<and> d1' = d1"
  "raise err d2 = (Inr z, d2') \<longleftrightarrow> False"
  "notes_read qr d3 = (Inr w, d3') \<longleftrightarrow> qr d3 = Inr w \<and> d3' = d3"
  by (auto simp: found_or_def committed_or_def raise_def notes_read_def svc_ok bind_res_Inr)

lemma notes_simple_err [svc_err]:
  "found_or q err d = (Inl x, d') \<longleftrightarrow> (q d = Inl x \<or> q d = Inr None \<and> x = err) \<and> d' = d"
  "committed_or d0 q err d1 = (Inl y, d1') \<longleftrightarrow> (q d0 = Inl y \<or> q d0 = Inr None \<and> y = err) \<and> d1' = d1"
  "raise err d2 = (Inl z, d2') \<longleftrightarrow> z = err \<and> d2' = d2"
  by (auto simp: found_or_def committed_or_def raise_def svc_err bind_res_def ok_or_def split: sum.splits option.splits)

lemma notes_sql_Inr [simp]: "notes_sql e st v = Inr x \<longleftrightarrow> ne_fault e st = None \<and> v = x"
  by (auto simp: notes_sql_def split: option.splits)

lemma first_row_Some: "first_row xs = Some x \<Longrightarrow> x \<in> set xs"
  by (cases xs) auto

lemma first_row_None: "first_row xs = None \<longleftrightarrow> xs = []"
  by (cases xs) auto

lemma first_some_None: "first_some f xs = None \<longleftrightarrow> (\<forall>x \<in> set xs. f x = None)"
  by (induction xs) (auto split: option.split)

lemma update_notes_ok:
  assumes "update_notes e st p f d = (Inr rows, d')"
  shows "rows = map (bump_note e f) (filter p (n_notes d))"
    and "d' = d\<lparr>n_notes := map (\<lambda>n. if p n then bump_note e f n else n) (n_notes d)\<rparr>"
    and "n \<in> set (n_notes d) \<Longrightarrow> p n \<Longrightarrow> note_violation d (bump_note e f n) = None"
    and "ne_fault e st = None"
  using assms by (auto simp: update_notes_def svc_ok first_some_None)

lemma update_folders_ok:
  assumes "update_folders e st p f d = (Inr rows, d')"
  shows "rows = map (bump_folder e f) (filter p (n_folders d))"
    and "d' = d\<lparr>n_folders := map (\<lambda>n. if p n then bump_folder e f n else n) (n_folders d)\<rparr>"
  using assms by (auto simp: update_folders_def svc_ok)

section \<open>What a user can do to the tables\<close>

definition note_step :: "uuid \<Rightarrow> note_row \<Rightarrow> note_row \<Rightarrow> bool" where
  "note_step c n n' \<longleftrightarrow> n' = n \<or> nt_creator_id n = c \<and> nt_id n' = nt_id n \<and> nt_creator_id n' = c \<and>
     nt_created_at n' = nt_created_at n \<and> nt_version n < nt_version n'"

definition folder_step :: "uuid \<Rightarrow> folder \<Rightarrow> folder \<Rightarrow> bool" where
  "folder_step c f f' \<longleftrightarrow> f' = f \<or> fo_creator_id f = c \<and> fo_id f' = fo_id f \<and> fo_creator_id f' = c \<and>
     fo_created_at f' = fo_created_at f \<and> fo_version f < fo_version f'"

definition grows :: "('r \<Rightarrow> 'r \<Rightarrow> bool) \<Rightarrow> ('r \<Rightarrow> bool) \<Rightarrow> 'r list \<Rightarrow> 'r list \<Rightarrow> bool" where
  "grows R new xs xs' \<longleftrightarrow> (\<exists>ys zs. xs' = ys @ zs \<and> list_all2 R xs ys \<and> list_all new zs)"

lemma grows_refl: "(\<And>x. R x x) \<Longrightarrow> grows R new xs xs"
  unfolding grows_def by (rule exI [of _ xs], rule exI [of _ "[]"]) (simp add: list.rel_refl)

lemma grows_map: "(\<And>x. R x (f x)) \<Longrightarrow> grows R new xs (map f xs)"
  unfolding grows_def by (rule exI [of _ "map f xs"], rule exI [of _ "[]"]) (simp add: list.rel_map list.rel_refl)

lemma grows_append: "(\<And>x. R x x) \<Longrightarrow> new x \<Longrightarrow> grows R new xs (xs @ [x])"
  unfolding grows_def by (rule exI [of _ xs], rule exI [of _ "[x]"]) (simp add: list.rel_refl)

lemma grows_trans:
  assumes "grows R new xs ys" and "grows R new ys zs"
    and tr: "\<And>x y z. R x y \<Longrightarrow> R y z \<Longrightarrow> R x z" and nw: "\<And>x y. new x \<Longrightarrow> R x y \<Longrightarrow> new y"
  shows "grows R new xs zs"
proof -
  from assms(1) obtain a b where ab: "ys = a @ b" "list_all2 R xs a" "list_all new b" by (auto simp: grows_def)
  from assms(2) ab(1) obtain c d where cd: "zs = c @ d" "list_all2 R (a @ b) c" "list_all new d" by (auto simp: grows_def)
  from cd(2) obtain c1 c2 where c: "c = c1 @ c2" "list_all2 R a c1" "list_all2 R b c2"
    by (auto simp: list_all2_append1)
  have "list_all2 R xs c1" using list_all2_trans [of R R R xs a c1] tr ab(2) c(2) by blast
  moreover have "list_all new c2" using ab(3) c(3) nw by (force simp: list_all_length list_all2_conv_all_nth)
  ultimately show ?thesis unfolding grows_def
    using cd(1,3) c(1) by (intro exI [of _ c1] exI [of _ "c2 @ d"]) simp
qed

definition evolves :: "uuid \<Rightarrow> notes_db \<Rightarrow> notes_db \<Rightarrow> bool" where
  "evolves c d d' \<longleftrightarrow> n_users d' = n_users d \<and>
     grows (note_step c) (\<lambda>n. nt_creator_id n = c) (n_notes d) (n_notes d') \<and>
     grows (folder_step c) (\<lambda>f. fo_creator_id f = c) (n_folders d) (n_folders d')"

lemma steps_refl [simp]: "note_step c n n" "folder_step c f f"
  by (simp_all add: note_step_def folder_step_def)

lemma steps_trans:
  "note_step c n n1 \<Longrightarrow> note_step c n1 n2 \<Longrightarrow> note_step c n n2"
  "folder_step c f f1 \<Longrightarrow> folder_step c f1 f2 \<Longrightarrow> folder_step c f f2"
  by (auto simp: note_step_def folder_step_def)

lemma evolves_refl [simp]: "evolves c d d" by (simp add: evolves_def grows_refl)

lemma evolves_trans: "evolves c d d1 \<Longrightarrow> evolves c d1 d2 \<Longrightarrow> evolves c d d2"
  unfolding evolves_def
  by (auto elim!: grows_trans steps_trans [rotated] dest: steps_trans simp: note_step_def folder_step_def)

section \<open>Every operation\<close>

text \<open>
  What a relation between the tables before and after needs to be shown step by step: every step that
  changes nothing is in it, and steps in sequence stay in it.
\<close>

definition within :: "(notes_db \<Rightarrow> notes_db \<Rightarrow> bool) \<Rightarrow> 'a notes_op \<Rightarrow> bool" where
  "within R m \<longleftrightarrow> (\<forall>d. R d (snd (m d)))"

locale step_order =
  fixes R :: "notes_db \<Rightarrow> notes_db \<Rightarrow> bool"
  assumes refl: "R d d" and trans: "R d d1 \<Longrightarrow> R d1 d2 \<Longrightarrow> R d d2"
begin

lemma within_bind: "within R m \<Longrightarrow> (\<And>v. within R (f v)) \<Longrightarrow> within R (svc_bind m f)"
  unfolding within_def svc_bind_def
  by (auto split: sum.split prod.split) (metis snd_conv trans)+

lemma within_simple:
  "within R (svc_return v)" "within R (svc_lift r)" "within R (svc_refuse b err)" "within R (found_or q err)"
  "within R (raise err)" "within R (committed_or d0 q err)" "within R (notes_read qr)"
  by (simp_all add: within_def svc_return_def svc_lift_def svc_refuse_def found_or_def raise_def committed_or_def
      notes_read_def refl)

lemma within_exec: "(\<And>d. R d (f d)) \<Longrightarrow> within R (notes_exec e st viol v f)"
  unfolding within_def using notes_exec_snd refl by metis

lemma within_case_option: "within R x \<Longrightarrow> (\<And>v. within R (f v)) \<Longrightarrow> within R (case q of None \<Rightarrow> x | Some v \<Rightarrow> f v)"
  by (cases q) simp_all

lemma within_if: "within R x \<Longrightarrow> within R y \<Longrightarrow> within R (if b then x else y)" by simp

lemma within_fetch: "within R m \<Longrightarrow> within R (fetch_optional m)" "within R m \<Longrightarrow> within R (fetch_one m)"
  unfolding fetch_optional_def fetch_one_def by (intro within_bind within_simple, assumption)+

lemma within_lift: "(\<And>v. r = Inr v \<Longrightarrow> within R (f v)) \<Longrightarrow> within R (svc_bind (svc_lift r) f)"
  by (cases r) (simp_all add: within_def svc_bind_def svc_lift_def refl)

lemma within_batch: "\<forall>(i, m) \<in> set ms. within R (act m) \<Longrightarrow> within R (run_batch act ms)"
proof (induction ms)
  case (Cons x ms)
  then show ?case by (cases x) (auto intro!: within_bind within_simple)
qed (simp add: within_simple)

lemmas within_rules = within_if within_case_option within_bind within_simple within_fetch

end

interpretation ev: step_order "evolves c" for c
  by unfold_locales (simp, rule evolves_trans)

text \<open>That a step keeps a condition is such a relation too.\<close>

definition keeping :: "(notes_db \<Rightarrow> bool) \<Rightarrow> notes_db \<Rightarrow> notes_db \<Rightarrow> bool" where
  "keeping P d d' \<longleftrightarrow> (P d \<longrightarrow> P d')"

interpretation kp: step_order "keeping P" for P
  by unfold_locales (auto simp: keeping_def)

text \<open>An update that keeps ids, owners and creation times of its user's rows.\<close>

lemma acts_update_notes:
  assumes "\<And>n. p n \<Longrightarrow> nt_creator_id n = c"
    and "\<And>n. nt_id (f n) = nt_id n \<and> nt_creator_id (f n) = nt_creator_id n \<and> nt_created_at (f n) = nt_created_at n"
  shows "within (evolves c) (update_notes e st p f)"
  unfolding update_notes_def
proof (rule ev.within_exec)
  fix d
  have "note_step c n (if p n then bump_note e f n else n)" for n
    using assms by (simp add: note_step_def bump_note_def)
  then show "evolves c d (d\<lparr>n_notes := map (\<lambda>n. if p n then bump_note e f n else n) (n_notes d)\<rparr>)"
    by (simp add: evolves_def grows_map grows_refl)
qed

lemma acts_update_folders:
  assumes "\<And>n. p n \<Longrightarrow> fo_creator_id n = c"
    and "\<And>n. fo_id (f n) = fo_id n \<and> fo_creator_id (f n) = fo_creator_id n \<and> fo_created_at (f n) = fo_created_at n"
  shows "within (evolves c) (update_folders e st p f)"
  unfolding update_folders_def
proof (rule ev.within_exec)
  fix d
  have "folder_step c n (if p n then bump_folder e f n else n)" for n
    using assms by (simp add: folder_step_def bump_folder_def)
  then show "evolves c d (d\<lparr>n_folders := map (\<lambda>n. if p n then bump_folder e f n else n) (n_folders d)\<rparr>)"
    by (simp add: evolves_def grows_map grows_refl)
qed

lemma acts_inserts:
  "nt_creator_id n = c \<Longrightarrow> within (evolves c) (notes_exec e st viol v (\<lambda>d. d\<lparr>n_notes := n_notes d @ [n]\<rparr>))"
  "nt_creator_id n = c \<Longrightarrow> within (evolves c) (notes_exec e st viol v' (\<lambda>d. if taken d then d else d\<lparr>n_notes := n_notes d @ [n]\<rparr>))"
  "fo_creator_id f = c \<Longrightarrow> within (evolves c) (notes_exec e st viol w (\<lambda>d. d\<lparr>n_folders := n_folders d @ [f]\<rparr>))"
  "fo_creator_id f = c \<Longrightarrow> within (evolves c) (notes_exec e st viol w' (\<lambda>d. if taken d then d else d\<lparr>n_folders := n_folders d @ [f]\<rparr>))"
  by (auto intro!: ev.within_exec simp: evolves_def grows_append grows_refl)

lemma acts_statements:
  "within (evolves c) (repo_create_note e c cn)" "within (evolves c) (update_note_by_version e i c un)" "within (evolves c) (soft_delete_note e i c v)"
  "within (evolves c) (repo_add_note_to_folder e c i j)" "within (evolves c) (remove_note_from_folder e c i j)"
  "within (evolves c) (repo_move_notes_to_folder e c mv)" "within (evolves c) (repo_create_folder e c cf)"
  "within (evolves c) (update_folder_by_version e i c uf)" "within (evolves c) (soft_delete_folder e i c v)"
  "within (evolves c) (upsert_note_if_absent e i c ns)" "within (evolves c) (apply_note_snapshot_if_version_matches e i c v ns)"
  "within (evolves c) (force_apply_note_snapshot e i c ns)" "within (evolves c) (upsert_folder_if_absent e i c fs)"
  "within (evolves c) (apply_folder_snapshot_if_version_matches e i c v fs)" "within (evolves c) (force_apply_folder_snapshot e i c fs)"
  unfolding repo_create_note_def update_note_by_version_def soft_delete_note_def repo_add_note_to_folder_def
    remove_note_from_folder_def repo_move_notes_to_folder_def repo_create_folder_def update_folder_by_version_def
    soft_delete_folder_def upsert_note_if_absent_def apply_note_snapshot_if_version_matches_def force_apply_note_snapshot_def
    upsert_folder_if_absent_def apply_folder_snapshot_if_version_matches_def force_apply_folder_snapshot_def Let_def
  by (intro ev.within_fetch acts_update_notes acts_update_folders acts_inserts;
      simp add: live_note_def live_folder_def new_note_def new_folder_def snap_note_def snap_folder_def)+

lemmas acts_rules = ev.within_rules acts_statements

lemma acts_conflicts: "within (evolves c) (note_conflict e i c)" "within (evolves c) (folder_conflict e i c)"
  unfolding note_conflict_def folder_conflict_def by (intro acts_rules)+

lemma acts_services:
  "within (evolves c) (notes_create_note e c cn)" "within (evolves c) (notes_update_note e i c un)" "within (evolves c) (notes_delete_note e i c v)"
  "within (evolves c) (notes_create_folder e c cf)" "within (evolves c) (notes_update_folder e i c uf)" "within (evolves c) (notes_delete_folder e i c df)"
  "within (evolves c) (notes_add_note_to_folder e c i j)" "within (evolves c) (notes_remove_note_from_folder e c i j)"
  "within (evolves c) (notes_move_notes e c mv)"
  unfolding notes_create_note_def notes_update_note_def notes_delete_note_def notes_create_folder_def notes_update_folder_def
    notes_delete_folder_def notes_add_note_to_folder_def notes_remove_note_from_folder_def notes_move_notes_def
  by (intro acts_rules acts_conflicts)+

lemma acts_mutations:
  "within (evolves c) (apply_note_mutation e d0 c nm)" "within (evolves c) (apply_folder_mutation e d0 c fm)"
  unfolding apply_note_mutation_def apply_folder_mutation_def by (intro acts_rules)+

lemma acts_push: "within (evolves c) (sync_push e c ms)"
proof -
  have "within (evolves c) (\<lambda>d. svc_bind (run_batch (apply_folder_mutation e d0 c) (folder_batch ms)) (\<lambda>frs.
     svc_bind (svc_lift (owned_folder_ids e c (referenced_folder_ids (note_batch ms)) d0)) (\<lambda>owned.
     svc_bind (run_batch (\<lambda>m. apply_note_mutation e d0 c (unfile_foreign owned m)) (note_batch ms)) (\<lambda>nrs.
     svc_return (frs @ nrs)))) d)" for d0
    by (intro ev.within_bind ev.within_simple ev.within_batch) (simp_all add: acts_mutations split_beta)
  then have b: "evolves c d (snd (push_body e c ms d))" for d
    unfolding within_def push_body_def by blast
  have "within (evolves c) (in_notes_tx e (push_body e c ms))"
    unfolding within_def
  proof
    fix d
    show "evolves c d (snd (in_notes_tx e (push_body e c ms) d))"
      using b [of d] by (auto simp: in_notes_tx_def split: sum.split prod.split)
  qed
  then show ?thesis unfolding sync_push_def by (intro ev.within_rules)
qed

end
