(* ===== verification/Notes_Properties.thy ===== *)
theory Notes_Properties
  imports Notes_Rules
begin

text \<open>
  What the notes guarantee: nobody touches another user's rows, no edit is lost, and what a sync push
  does, answers and refuses.
\<close>

section \<open>Everybody's own rows\<close>

datatype notes_request =
    CreateNote create_note_request | UpdateNote uuid update_note_request | DeleteNote uuid int
  | CreateFolder create_folder_request | UpdateFolder uuid update_folder_request
  | DeleteFolder uuid delete_folder_request | FileNote uuid uuid | UnfileNote uuid uuid
  | MoveNotes move_notes_request | PushSync "sync_mutation list"

fun after_request :: "notes_env \<Rightarrow> uuid \<Rightarrow> notes_request \<Rightarrow> notes_db \<Rightarrow> notes_db" where
  "after_request e c (CreateNote r) d = snd (notes_create_note e c r d)"
| "after_request e c (UpdateNote i r) d = snd (notes_update_note e i c r d)"
| "after_request e c (DeleteNote i v) d = snd (notes_delete_note e i c v d)"
| "after_request e c (CreateFolder r) d = snd (notes_create_folder e c r d)"
| "after_request e c (UpdateFolder i r) d = snd (notes_update_folder e i c r d)"
| "after_request e c (DeleteFolder i r) d = snd (notes_delete_folder e i c r d)"
| "after_request e c (FileNote i j) d = snd (notes_add_note_to_folder e c i j d)"
| "after_request e c (UnfileNote i j) d = snd (notes_remove_note_from_folder e c i j d)"
| "after_request e c (MoveNotes r) d = snd (notes_move_notes e c r d)"
| "after_request e c (PushSync ms) d = snd (sync_push e c ms d)"

lemma after_request_evolves: "evolves c d (after_request e c r d)"
  using acts_services acts_push by (cases r) (simp_all add: within_def)

lemma other_rows_kept:
  assumes "grows R new xs ys" and "\<And>x y. R x y \<Longrightarrow> P x = P y \<and> (P x \<longrightarrow> y = x)" and "\<And>x. new x \<Longrightarrow> \<not> P x"
  shows "filter P ys = filter P xs"
proof -
  from assms(1) obtain as bs where ab: "ys = as @ bs" "list_all2 R xs as" "list_all new bs" by (auto simp: grows_def)
  from ab(2) have "filter P as = filter P xs" by (induction rule: list_all2_induct) (use assms(2) in auto)
  moreover have "filter P bs = []" using ab(3) assms(3) by (auto simp: filter_empty_conv list_all_iff)
  ultimately show ?thesis using ab(1) by simp
qed

lemma evolves_others:
  assumes "evolves c d d'" and "c \<noteq> u"
  shows "filter (\<lambda>n. nt_creator_id n = u) (n_notes d') = filter (\<lambda>n. nt_creator_id n = u) (n_notes d) \<and>
    filter (\<lambda>f. fo_creator_id f = u) (n_folders d') = filter (\<lambda>f. fo_creator_id f = u) (n_folders d)"
  using assms unfolding evolves_def
  by (auto elim!: other_rows_kept simp: note_step_def folder_step_def)

text \<open>C27. A user's notes and folders are the user's alone: whatever the others ask for, in any number of requests and sync
  pushes, naming whatever ids they like, they stay exactly as they were.
\<close>

theorem others_cannot_touch:
  assumes "\<forall>(e, c, r) \<in> set rs. c \<noteq> u"
  shows "let d' = foldl (\<lambda>d (e, c, r). after_request e c r d) d rs
    in filter (\<lambda>n. nt_creator_id n = u) (n_notes d') = filter (\<lambda>n. nt_creator_id n = u) (n_notes d) \<and>
       filter (\<lambda>f. fo_creator_id f = u) (n_folders d') = filter (\<lambda>f. fo_creator_id f = u) (n_folders d)"
  using assms
proof (induction rs arbitrary: d)
  case (Cons x rs)
  obtain e c r where x: "x = (e, c, r)" by (cases x)
  with Cons.prems have "c \<noteq> u" and rest: "\<forall>(e, c, r) \<in> set rs. c \<noteq> u" by auto
  with Cons.IH [OF rest, of "after_request e c r d"] evolves_others [OF after_request_evolves] x
  show ?case by (simp add: Let_def)
qed simp

section \<open>Optimistic locking\<close>

lemma unique_row:
  assumes "distinct (map key xs)" and "n \<in> set xs" and "key n = i"
  shows "filter (\<lambda>x. key x = i \<and> Q x) xs = (if Q n then [n] else [])"
    and "find (\<lambda>x. key x = i \<and> Q x) xs = (if Q n then Some n else None)"
proof -
  have eq: "x = n" if "x \<in> set xs" "key x = i" for x using assms that by (metis distinct_map inj_on_def)
  show "filter (\<lambda>x. key x = i \<and> Q x) xs = (if Q n then [n] else [])"
    using assms(1,2,3) by (induction xs) (auto simp: filter_empty_conv, metis image_eqI, metis image_eqI)
  show "find (\<lambda>x. key x = i \<and> Q x) xs = (if Q n then Some n else None)"
  proof (cases "Q n")
    case True
    then have "find (\<lambda>x. key x = i \<and> Q x) xs \<noteq> None" using assms by (auto simp: find_None_iff)
    then obtain x where x: "find (\<lambda>x. key x = i \<and> Q x) xs = Some x" by blast
    then have "x = n" by (intro eq) (auto simp: find_Some_iff)
    with x True show ?thesis by simp
  next
    case False
    then show ?thesis using eq by (auto simp: find_None_iff)
  qed
qed

text \<open>C28. No edit is lost: an update succeeds only on the version it was made from and makes the next one. A second update
  made from the same version is refused with exactly the copy the first one was answered with, and changes nothing.
\<close>

theorem no_lost_update:
  assumes d: "distinct (map nt_id (n_notes d))" and first: "notes_update_note e i c req d = (Inr dto, d1)"
    and base: "un_base_version req' = un_base_version req"
    and up: "ne_fault e' NtUpdate = None" "ne_fault e' NtFind = None"
  shows "nd_version dto = un_base_version req + 1 \<and>
    notes_update_note e' i c req' d1 = (Inl (VersionConflict (ConflictNote dto)), d1)"
proof -
  let ?p = "\<lambda>n. live_note i c n \<and> nt_version n = un_base_version req"
  let ?f = "\<lambda>n. n\<lparr>nt_title := coalesce (un_title req) (nt_title n), nt_content := coalesce (un_content req) (nt_content n),
      nt_pinned := coalesce (un_pinned req) (nt_pinned n), nt_folder_id := un_folder_id req\<rparr>"
  from first obtain rows n where u: "update_notes e NtUpdate ?p ?f d = (Inr rows, d1)" and n: "first_row rows = Some n"
    and dto: "dto = note_dto_from n"
    unfolding notes_update_note_def update_note_by_version_def fetch_optional_def svc_ok
    by (auto simp: note_conflict_def svc_ok split: option.splits)
  from first_row_Some [OF n] obtain m where m: "m \<in> set (n_notes d)" "?p m" "n = bump_note e ?f m"
    by (auto simp: update_notes_ok(1) [OF u])
  have d1: "n_notes d1 = map (\<lambda>x. if ?p x then bump_note e ?f x else x) (n_notes d)"
    using update_notes_ok(2) [OF u] by simp
  have n1: "n \<in> set (n_notes d1)" "nt_id n = i" "nt_creator_id n = c" "nt_deleted_at n = None"
    "nt_version n = un_base_version req + 1"
    using m d1 by (force simp: bump_note_def live_note_def)+
  have ids: "map nt_id (n_notes d1) = map nt_id (n_notes d)" unfolding d1 by (simp add: bump_note_def)
  note q = unique_row [of nt_id "n_notes d1" n i, unfolded ids, OF d n1(1,2)]
  have "filter (\<lambda>n. live_note i c n \<and> nt_version n = un_base_version req') (n_notes d1) = []"
    using q(1) [of "\<lambda>x. nt_creator_id x = c \<and> nt_deleted_at x = None \<and> nt_version x = un_base_version req'"] n1(5) base
    by (simp add: live_note_def conj_assoc)
  moreover have "find (live_note i c) (n_notes d1) = Some n"
    using q(2) [of "\<lambda>x. nt_creator_id x = c \<and> nt_deleted_at x = None"] n1(3,4)
    by (simp add: live_note_def [abs_def])
  moreover have "map (\<lambda>n. if P n then g n else n) xs = xs" if "filter P xs = []" for P g and xs :: "note_row list"
    using that by (simp add: filter_empty_conv map_idI)
  ultimately have "notes_update_note e' i c req' d1 = (Inl (VersionConflict (ConflictNote dto)), d1)"
    using up dto by (simp add: notes_update_note_def update_note_by_version_def fetch_optional_def update_notes_def notes_exec_def
        svc_bind_def svc_return_def note_conflict_def found_or_def find_note_by_id_def notes_sql_def raise_def svc_lift_def)
  with n1(5) dto show ?thesis by (simp add: note_dto_from_def)
qed

section \<open>Answers of a sync push\<close>

lemma fetched_id:
  assumes "fetch_optional (update_notes e st p f) d = (Inr (Some n), d')" and "\<And>n. p n \<Longrightarrow> nt_id (f n) = i"
  shows "nt_id n = i"
  using assms by (auto simp: fetch_optional_def svc_ok bump_note_def dest!: first_row_Some update_notes_ok(1))

lemma fetched_folder_id:
  assumes "fetch_optional (update_folders e st p f) d = (Inr (Some n), d')" and "\<And>n. p n \<Longrightarrow> fo_id (f n) = i"
  shows "fo_id n = i"
  using assms by (auto simp: fetch_optional_def svc_ok bump_folder_def dest!: first_row_Some update_folders_ok(1))

lemma result_ids [simp]:
  "mu_id (applied_note n) = nt_id n" "mu_id (applied_folder f) = fo_id f"
  "mu_id (mutation_conflict ty en) = conflict_id en" "mu_id (rejected i ty r) = i" "mu_id (applied_unpersisted i ty) = i"
  "nd_id (note_dto_from n) = nt_id n" "fd_id (folder_dto_from f) = fo_id f"
  by (simp_all add: applied_note_def applied_folder_def applied_def mutation_conflict_def rejected_def applied_unpersisted_def
      note_dto_from_def folder_dto_from_def)

lemma found_ids:
  "find_note_by_id e i c d = Inr (Some n) \<Longrightarrow> nt_id n = i" "find_folder_by_id e i c d = Inr (Some f) \<Longrightarrow> fo_id f = i"
  by (auto simp: find_note_by_id_def find_folder_by_id_def find_Some_iff live_note_def live_folder_def)

lemma forced_ids:
  "force_apply_note_snapshot e i c s d = (Inr n, d') \<Longrightarrow> nt_id n = i"
  "force_apply_folder_snapshot e i c fs d = (Inr f, d') \<Longrightarrow> fo_id f = i"
  by (auto simp: force_apply_note_snapshot_def force_apply_folder_snapshot_def fetch_one_def svc_ok bump_note_def
      bump_folder_def snap_note_def snap_folder_def dest!: first_row_Some update_notes_ok(1) update_folders_ok(1))

lemma note_result_id:
  assumes "apply_note_mutation e d0 c m d = (Inr r, d')"
  shows "mu_id r = nm_id m"
proof -
  have up: "nt_id n = nm_id m" if "upsert_note_if_absent e (nm_id m) c s d = (Inr (Some n), d1)" for n d1 s
    using that by (auto simp: upsert_note_if_absent_def Let_def svc_ok new_note_def split: if_splits)
  have ap: "nt_id n = nm_id m" if "apply_note_snapshot_if_version_matches e (nm_id m) c v s d = (Inr (Some n), d1)" for n d1 v s
    using fetched_id [OF that [unfolded apply_note_snapshot_if_version_matches_def]] by (simp add: snap_note_def)
  show ?thesis using assms
    by (auto simp: apply_note_mutation_def svc_ok dest!: up ap found_ids forced_ids split: if_splits option.splits)
qed

lemma folder_result_id:
  assumes "apply_folder_mutation e d0 c m d = (Inr r, d')"
  shows "mu_id r = fm_id m"
proof -
  have up: "fo_id n = fm_id m" if "upsert_folder_if_absent e (fm_id m) c s d = (Inr (Some n), d1)" for n d1 s
    using that by (auto simp: upsert_folder_if_absent_def Let_def svc_ok new_folder_def split: if_splits)
  have ap: "fo_id n = fm_id m" if "apply_folder_snapshot_if_version_matches e (fm_id m) c v s d = (Inr (Some n), d1)" for n d1 v s
    using fetched_folder_id [OF that [unfolded apply_folder_snapshot_if_version_matches_def]] by (simp add: snap_folder_def)
  show ?thesis using assms
    by (auto simp: apply_folder_mutation_def svc_ok dest!: up ap found_ids forced_ids split: if_splits option.splits)
qed

end
