(* ===== verification/Notes_Sync.thy ===== *)
theory Notes_Sync
  imports Notes_Properties "HOL-Library.Multiset"
begin

text \<open>
  The sync push and pull: what is answered to which mutation, where pushed notes are filed, when a whole
  push is refused, and that a device which keeps pulling misses nothing.
\<close>

section \<open>One answer per mutation, in order\<close>

lemma run_batch_ids:
  assumes "\<And>m d r d'. act m d = (Inr r, d') \<Longrightarrow> mu_id r = idf m"
  shows "run_batch act ms d = (Inr rs, d') \<Longrightarrow> map (apsnd mu_id) rs = map (apsnd idf) ms"
proof (induction ms arbitrary: rs d)
  case (Cons x ms)
  then show ?case using assms by (cases x) (auto simp: svc_ok)
qed (simp add: svc_ok)

lemma batches_split:
  "mset (map (apsnd fm_id) (List.map_filter (\<lambda>(i, m). case m of MutateFolder fm \<Rightarrow> Some (i, fm) | MutateNote _ \<Rightarrow> None) xs)) +
   mset (map (apsnd nm_id) (List.map_filter (\<lambda>(i, m). case m of MutateNote nm \<Rightarrow> Some (i, nm) | MutateFolder _ \<Rightarrow> None) xs)) =
   mset (map (apsnd mutation_id) xs)"
  by (induction xs) (auto simp: List.map_filter_simps split: sync_mutation.split)

lemma insort_key_apsnd: "insort_key fst (apsnd g x) (map (apsnd g) xs) = map (apsnd g) (insort_key fst x xs)"
  by (induction xs) simp_all

lemma sort_key_apsnd: "sort_key fst (map (apsnd g) xs) = map (apsnd g) (sort_key fst xs)"
  unfolding sort_key_def by (induction xs) (simp_all add: insort_key_apsnd)

lemma in_place_order:
  assumes "mset xs = mset (enumerate 0 ys)" shows "map snd (sort_key fst xs) = ys"
proof -
  have "sort_key fst xs = enumerate 0 ys"
    using mset_eq_setD [OF assms] by (intro sort_key_inj_key_eq [OF assms]) (auto simp: inj_on_def in_set_enumerate_eq)
  then show ?thesis by simp
qed

lemma push_ids:
  assumes "push_body e c ms d = (Inr rs, d')"
  shows "map mu_id (map snd (sort_key fst rs)) = map mutation_id ms"
proof -
  from assms obtain frs d1 owned nrs where f: "run_batch (apply_folder_mutation e d c) (folder_batch ms) d = (Inr frs, d1)"
    and n: "run_batch (\<lambda>m. apply_note_mutation e d c (unfile_foreign owned m)) (note_batch ms) d1 = (Inr nrs, d')"
    and rs: "rs = frs @ nrs"
    unfolding push_body_def by (auto simp: svc_ok)
  have u: "nm_id (unfile_foreign owned m) = nm_id m" for m by (simp add: unfile_foreign_def split: option.split)
  have "map (apsnd mu_id) frs = map (apsnd fm_id) (folder_batch ms)" by (rule run_batch_ids [OF _ f]) (rule folder_result_id)
  moreover have "map (apsnd mu_id) nrs = map (apsnd nm_id) (note_batch ms)"
    by (rule run_batch_ids [OF _ n]) (use note_result_id u in metis)
  ultimately have "mset (map (apsnd mu_id) rs) = mset (map (apsnd mutation_id) (enumerate 0 ms))"
    using batches_split [of "enumerate 0 ms"] by (simp add: rs folder_batch_def note_batch_def)
  moreover have "map (apsnd mutation_id) (enumerate k ms) = enumerate k (map mutation_id ms)" for k
    by (induction ms arbitrary: k) simp_all
  ultimately have "map snd (sort_key fst (map (apsnd mu_id) rs)) = map mutation_id ms" by (intro in_place_order) simp
  then show ?thesis by (simp add: sort_key_apsnd comp_def)
qed

text \<open>A push is all or nothing and its answers line up: either the whole request fails and no table changes, or there is
  one result for each mutation, at its mutation's place in the request and about its row, although folders are
  applied before notes.
\<close>

theorem push_positional:
  "case sync_push e c ms d of
     (Inl err, d') \<Rightarrow> d' = d
   | (Inr rs, d') \<Rightarrow> map mu_id rs = map mutation_id ms"
proof (cases "sync_push e c ms d")
  case (Pair r d')
  have "d' = d" if "r = Inl err" for err
    using Pair that by (auto simp: sync_push_def svc_err raise_def in_notes_tx_def split: if_splits sum.splits prod.splits)
  moreover have "map mu_id rs = map mutation_id ms" if "r = Inr rs" for rs
    using Pair that push_ids
    by (force simp: sync_push_def svc_ok in_notes_tx_def split: if_splits sum.splits prod.splits)
  ultimately show ?thesis using Pair by (auto split: sum.split)
qed

section \<open>Where pushed notes are filed\<close>

text \<open>Notes conditions, which statements about folders keep.\<close>

lemma folder_mutation_keeps:
  assumes "\<And>d fs. P (d\<lparr>n_folders := fs\<rparr>) = P d"
  shows "within (keeping P) (apply_folder_mutation e d0 c m)"
proof -
  have ex: "within (keeping P) (notes_exec e st viol v f)" if "\<And>d. P (f d) = P d" for e st viol f and v :: "notes_db \<Rightarrow> 'x"
    using that by (intro kp.within_exec) (simp add: keeping_def)
  show ?thesis
    unfolding apply_folder_mutation_def upsert_folder_if_absent_def apply_folder_snapshot_if_version_matches_def
      force_apply_folder_snapshot_def update_folders_def Let_def
    by (intro kp.within_rules ex; simp add: assms)
qed

lemma note_mutation_keeps:
  assumes new: "\<And>d n. P d \<Longrightarrow> nm_id m \<notin> nt_id ` set (n_notes d) \<Longrightarrow>
      n = new_note e (nm_id m) (nm_title m) (nm_content m) (nm_pinned m) (nm_folder_id m) c \<Longrightarrow> P (d\<lparr>n_notes := n_notes d @ [n]\<rparr>)"
    and upd: "\<And>d p. P d \<Longrightarrow> (\<And>n. p n \<Longrightarrow> nt_id n = nm_id m \<and> nt_creator_id n = c) \<Longrightarrow>
      P (d\<lparr>n_notes := map (\<lambda>n. if p n then bump_note e (snap_note e (note_snapshot_of m)) n else n) (n_notes d)\<rparr>)"
  shows "within (keeping P) (apply_note_mutation e d0 c m)"
proof -
  have "within (keeping P) (upsert_note_if_absent e (nm_id m) c (note_snapshot_of m))"
    unfolding upsert_note_if_absent_def Let_def
    by (intro kp.within_exec) (auto simp: keeping_def note_snapshot_of_def intro!: new)
  moreover have up: "within (keeping P) (update_notes e st p (snap_note e (note_snapshot_of m)))"
    if "\<And>n. p n \<Longrightarrow> nt_id n = nm_id m \<and> nt_creator_id n = c" for st p
    unfolding update_notes_def by (intro kp.within_exec) (auto simp: keeping_def intro!: upd that)
  ultimately show ?thesis
    unfolding apply_note_mutation_def apply_note_snapshot_if_version_matches_def force_apply_note_snapshot_def
    by (intro kp.within_rules up) simp_all
qed

lemma list_all_mapI: "list_all Q xs \<Longrightarrow> (\<And>x. Q x \<Longrightarrow> Q (g x)) \<Longrightarrow> list_all Q (map g xs)"
  by (induction xs) simp_all

definition filed_own :: "uuid \<Rightarrow> notes_db \<Rightarrow> uuid option \<Rightarrow> bool" where
  "filed_own c d q \<longleftrightarrow> (case q of None \<Rightarrow> True | Some i \<Rightarrow> list_ex (\<lambda>f. fo_id f = i \<and> fo_creator_id f = c) (n_folders d))"

lemma unfiled_own:
  assumes "owned_folder_ids e c ids d = Inr owned" shows "filed_own c d (nm_folder_id (unfile_foreign owned m))"
  using assms by (auto simp: filed_own_def unfile_foreign_def owned_folder_ids_def list_ex_iff split: option.splits if_splits)

text \<open>A pushed note is filed only in a folder its owner already had: after a push every note is one that was there before,
  or belongs to the user and lies in no folder or in a folder of the user's that was stored before the push began. Of
  the folders that the same push creates, none receives a note.
\<close>

theorem push_files_into_own_folders:
  "list_all (\<lambda>n. n \<in> set (n_notes d) \<or> nt_creator_id n = c \<and> filed_own c d (nt_folder_id n))
     (n_notes (snd (sync_push e c ms d)))"
proof -
  define Q where "Q n \<longleftrightarrow> n \<in> set (n_notes d) \<or> nt_creator_id n = c \<and> filed_own c d (nt_folder_id n)" for n :: note_row
  define P where "P d' \<longleftrightarrow> list_all Q (n_notes d')" for d' :: notes_db
  have nts: "within (keeping P) (apply_note_mutation e d c m)" if m: "filed_own c d (nm_folder_id m)" for m
  proof (rule note_mutation_keeps)
    fix d' and p :: "note_row \<Rightarrow> bool" assume p: "P d'" "\<And>n. p n \<Longrightarrow> nt_id n = nm_id m \<and> nt_creator_id n = c"
    let ?g = "\<lambda>n. if p n then bump_note e (snap_note e (note_snapshot_of m)) n else n"
    have q: "Q (?g n)" if "Q n" for n
      using that p(2) [of n] m by (simp add: Q_def bump_note_def snap_note_def note_snapshot_of_def)
    have "n_notes (d'\<lparr>n_notes := map ?g (n_notes d')\<rparr>) = map ?g (n_notes d')" by simp
    then show "P (d'\<lparr>n_notes := map ?g (n_notes d')\<rparr>)"
      unfolding P_def using list_all_mapI [of Q _ ?g, OF p(1) [unfolded P_def] q] by (simp only:)
  qed (simp add: P_def Q_def new_note_def m)
  have fold: "within (keeping P) (apply_folder_mutation e d c m)" for m
    by (rule folder_mutation_keeps) (simp add: P_def)
  have "within (keeping P) (\<lambda>d'. svc_bind (run_batch (apply_folder_mutation e d c) (folder_batch ms)) (\<lambda>frs.
     svc_bind (svc_lift (owned_folder_ids e c (referenced_folder_ids (note_batch ms)) d)) (\<lambda>owned.
     svc_bind (run_batch (\<lambda>m. apply_note_mutation e d c (unfile_foreign owned m)) (note_batch ms)) (\<lambda>nrs.
     svc_return (frs @ nrs)))) d')"
    by (intro kp.within_bind kp.within_lift kp.within_simple kp.within_batch) (auto simp: fold intro!: nts unfiled_own)
  moreover have "P d" by (simp add: P_def Q_def list_all_iff)
  ultimately have "P (snd (push_body e c ms d))" by (simp add: within_def keeping_def push_body_def)
  with \<open>P d\<close> have "P (snd (sync_push e c ms d))"
    by (auto simp: sync_push_def svc_return_def raise_def svc_lift_def svc_bind_def in_notes_tx_def split: sum.split prod.split)
  then show ?thesis by (simp add: P_def Q_def [abs_def])
qed

section \<open>A push that fails as a whole\<close>

lemma run_batch_member:
  assumes "\<forall>(i, m) \<in> set ms. within (keeping P) (act m)"
  shows "run_batch act ms d = (Inr rs, d') \<Longrightarrow> P d \<Longrightarrow> (k, m) \<in> set ms \<Longrightarrow>
    \<exists>d1 r d2. P d1 \<and> act m d1 = (Inr r, d2)"
  using assms
proof (induction ms arbitrary: d rs)
  case (Cons x ms)
  obtain i m' where x: "x = (i, m')" by (cases x)
  from Cons.prems(1) x obtain r d1 rs' where a: "act m' d = (Inr r, d1)" "run_batch act ms d1 = (Inr rs', d')"
    by (auto simp: svc_ok)
  from Cons.prems(4) x have w: "within (keeping P) (act m')" and rest: "\<forall>(i, m) \<in> set ms. within (keeping P) (act m)" by auto
  from w a(1) Cons.prems(2) have "P d1" unfolding within_def keeping_def by (metis snd_conv)
  from Cons.IH [OF a(2) this _ rest] show ?case using Cons.prems(2,3) a(1) x by auto
qed simp

lemma in_note_batch: "MutateNote m \<in> set ms \<Longrightarrow> \<exists>k. (k, m) \<in> set (note_batch ms)"
proof -
  have mf: "y \<in> set (List.map_filter f xs)" if "x \<in> set xs" "f x = Some y" for x y and xs :: "'x list" and f :: "'x \<Rightarrow> 'y option"
    using that by (force simp: List.map_filter_def)
  assume "MutateNote m \<in> set ms"
  then obtain k where "k < length ms" "ms ! k = MutateNote m" by (auto simp: in_set_conv_nth)
  then have "(k, MutateNote m) \<in> set (enumerate 0 ms)" by (simp add: in_set_enumerate_eq)
  then have "(k, m) \<in> set (note_batch ms)" unfolding note_batch_def by (rule mf) simp
  then show ?thesis ..
qed

text \<open>That a note's id belongs to somebody else.\<close>

definition foreign :: "uuid \<Rightarrow> uuid \<Rightarrow> notes_db \<Rightarrow> bool" where
  "foreign c i d \<longleftrightarrow> i \<in> nt_id ` set (n_notes d) \<and> (\<forall>n \<in> set (n_notes d). nt_id n = i \<longrightarrow> nt_creator_id n \<noteq> c)"

lemma foreign_map:
  "(\<And>n. nt_id (g n) = nt_id n \<and> nt_creator_id (g n) = nt_creator_id n) \<Longrightarrow> foreign c i d \<Longrightarrow>
     foreign c i (d\<lparr>n_notes := map g (n_notes d)\<rparr>)"
  by (auto simp: foreign_def image_image)

lemma foreign_kept: "within (keeping (foreign c i)) (apply_note_mutation e d0 c m)"
proof (rule note_mutation_keeps)
  fix d n assume "foreign c i d" "nm_id m \<notin> nt_id ` set (n_notes d)"
    "n = new_note e (nm_id m) (nm_title m) (nm_content m) (nm_pinned m) (nm_folder_id m) c"
  then show "foreign c i (d\<lparr>n_notes := n_notes d @ [n]\<rparr>)" by (auto simp: foreign_def new_note_def)
qed (rule foreign_map, simp_all add: bump_note_def snap_note_def)

lemma foreign_refused:
  assumes "apply_note_mutation e d0 c m d = (Inr r, d')" and "foreign c (nm_id m) d0" and "foreign c (nm_id m) d"
    and "char_count (nm_title m) \<le> 100" and "char_count (nm_content m) \<le> 10000"
    and "\<not> (nm_base_version m = None \<and> nm_deleted m)"
  shows False
proof -
  have none: "find_note_by_id e (nm_id m) c d0 \<noteq> Inr (Some n)" for n
    using assms(2) by (auto simp: find_note_by_id_def find_Some_iff live_note_def foreign_def)
  have up: "upsert_note_if_absent e (nm_id m) c s d \<noteq> (Inr (Some n), d1)" for s n d1
    using assms(3) by (auto simp: upsert_note_if_absent_def Let_def svc_ok foreign_def)
  have ap: "apply_note_snapshot_if_version_matches e (nm_id m) c v s d \<noteq> (Inr (Some n), d1)" for v s n d1
    using assms(3) by (auto simp: apply_note_snapshot_if_version_matches_def fetch_optional_def svc_ok foreign_def
        dest!: first_row_Some update_notes_ok(1))
  from assms(1,4-6) show False
    by (auto simp: apply_note_mutation_def svc_ok none up ap split: option.splits if_splits)
qed

lemma unfiled_same [simp]:
  "nm_id (unfile_foreign owned m) = nm_id m" "nm_title (unfile_foreign owned m) = nm_title m"
  "nm_content (unfile_foreign owned m) = nm_content m" "nm_base_version (unfile_foreign owned m) = nm_base_version m"
  "nm_deleted (unfile_foreign owned m) = nm_deleted m"
  by (simp_all add: unfile_foreign_def split: option.split)


end
