(* ===== verification/Notes_Pull.thy ===== *)
theory Notes_Pull
  imports Notes_Sync
begin

text \<open>
  The sync pull as a keyset feed: a device that follows \<open>notesNextCursor\<close> while there is more receives
  every note of its user, tombstones included, in the order of the changes.
\<close>

section \<open>Pages\<close>

text \<open>What a device takes from a pull: the notes, and the cursor to ask with next while there is more.\<close>

definition notes_part :: "notes_sync_response \<Rightarrow> note_dto cursor_page" where
  "notes_part r = \<lparr>data = sr_notes r, next_cursor = (if sr_notes_has_more r then sr_notes_next_cursor r else None),
     has_next_page = sr_notes_has_more r\<rparr>"

definition pull_notes :: "notes_env \<times> uuid \<times> int option \<times> notes_db \<Rightarrow> cursor option \<Rightarrow> notes_error + note_dto cursor_page" where
  "pull_notes = (\<lambda>(e, c, lim, d) cur. map_sum id notes_part
     (sync_pull e c \<lparr>sq_notes_cursor = cur, sq_folders_cursor = None, sq_limit = lim\<rparr> d))"

definition pull_limit :: "int option \<Rightarrow> int" where
  "pull_limit lim = sync_limit \<lparr>sq_notes_cursor = None, sq_folders_cursor = None, sq_limit = lim\<rparr>"

lemma pull_limit_range: "1 \<le> pull_limit lim \<and> pull_limit lim \<le> 500"
  by (simp add: pull_limit_def sync_limit_def clamp_def)

definition changed_notes :: "uuid \<Rightarrow> notes_db \<Rightarrow> note_dto list" where
  "changed_notes c d = map note_dto_from (sort_key (\<lambda>n. (nt_updated_at n, nt_id n))
     (filter (\<lambda>n. nt_creator_id n = c) (n_notes d)))"

definition note_cursor :: "codec \<Rightarrow> note_dto \<Rightarrow> cursor" where
  "note_cursor cd n = from_timestamp_id cd (nd_updated_at n) (nd_id n)"

lemma page_as_usual:
  assumes "1 \<le> l" "l \<le> 500" and "sync_page (\<lambda>r. enc (g r)) l cur (take (Suc (nat l)) rows) = (page, nxt, mo)"
  shows "\<lparr>data = map g page, next_cursor = (if mo then nxt else None), has_next_page = mo\<rparr> =
    from_rows (take (Suc (nat l)) (map g rows)) l enc"
proof -
  have "as_usize l = nat l" using assms(1,2) by (intro as_usize_id) simp_all
  note c = assms(3) [unfolded sync_page_def Let_def] this
  show ?thesis
  proof (cases "length rows \<le> nat l")
    case True
    with c show ?thesis by (auto simp: from_rows_def last_opt_def)
  next
    case False
    then have "nat l < length (take (Suc (nat l)) rows)" "take (nat l) (take (Suc (nat l)) rows) = take (nat l) rows"
      "take (nat l) rows \<noteq> []" using assms(1) by (auto simp: min_def)
    with c show ?thesis by (auto simp: from_rows_def last_opt_def take_map last_map simp del: length_take take_take)
  qed
qed

lemma pull_page:
  assumes "ne_fault e NtChanged = None" "ne_fault e FoChanged = None" and "read_sync_cursor e cur = Inr k"
  shows "pull_notes (e, c, lim, d) cur = Inr (from_rows (take (Suc (nat (pull_limit lim)))
     (map note_dto_from (sort_key (\<lambda>n. (nt_updated_at n, nt_id n)) (filter (\<lambda>n. nt_creator_id n = c \<and>
        (case k of Some k \<Rightarrow> k < (nt_updated_at n, nt_id n) | None \<Rightarrow> True)) (n_notes d)))))
     (pull_limit lim) (note_cursor (ne_codec e)))"
proof -
  let ?q = "\<lparr>sq_notes_cursor = cur, sq_folders_cursor = None, sq_limit = lim\<rparr>"
  let ?rows = "sort_key (\<lambda>n. (nt_updated_at n, nt_id n)) (filter (\<lambda>n. nt_creator_id n = c \<and>
        (case k of Some k \<Rightarrow> k < (nt_updated_at n, nt_id n) | None \<Rightarrow> True)) (n_notes d))"
  have l: "sync_limit ?q = pull_limit lim" by (simp add: pull_limit_def sync_limit_def)
  have suc: "nat (pull_limit lim + 1) = Suc (nat (pull_limit lim))" using pull_limit_range [of lim] by arith
  obtain page nxt mo where p: "sync_page (\<lambda>n. from_timestamp_id (ne_codec e) (nt_updated_at n) (nt_id n)) (pull_limit lim)
      cur (take (Suc (nat (pull_limit lim))) ?rows) = (page, nxt, mo)"
    by (rule prod_cases3)
  have "sync_page (\<lambda>n. note_cursor (ne_codec e) (note_dto_from n)) (pull_limit lim) cur
      (take (Suc (nat (pull_limit lim))) ?rows) = (page, nxt, mo)"
    using p by (simp add: note_cursor_def note_dto_from_def)
  from page_as_usual [where g = note_dto_from and enc = "note_cursor (ne_codec e)", OF _ _ this] pull_limit_range
  have "\<lparr>data = map note_dto_from page, next_cursor = (if mo then nxt else None), has_next_page = mo\<rparr> =
      from_rows (take (Suc (nat (pull_limit lim))) (map note_dto_from ?rows)) (pull_limit lim) (note_cursor (ne_codec e))" by blast
  from this [symmetric] assms p show ?thesis
    by (simp add: pull_notes_def sync_pull_def l suc find_notes_changed_since_def find_folders_changed_since_def notes_sql_def
        read_sync_cursor_def [of e None] Let_def notes_part_def split: prod.split)
qed

section \<open>The feed\<close>

definition pull_ok :: "notes_env \<Rightarrow> notes_db \<Rightarrow> bool" where
  "pull_ok e d \<longleftrightarrow> codec_laws (ne_codec e) \<and> ne_fault e NtChanged = None \<and> ne_fault e FoChanged = None \<and>
     distinct (map nt_id (n_notes d)) \<and> (\<forall>n \<in> set (n_notes d). ts_ok (ne_codec e) (nt_updated_at n))"

interpretation pull: keyset_feed "\<lambda>(e, c, lim, d). pull_ok e d" "\<lambda>(e, c, lim, d). changed_notes c d"
    "\<lambda>(e, c, lim, d). pull_limit lim" "\<lambda>(e, c, lim, d). note_cursor (ne_codec e)" pull_notes
proof (unfold_locales, goal_cases)
  case (1 t)
  then show ?case using pull_limit_range by (auto split: prod.splits)
next
  case (2 t)
  obtain e c lim d where t: "t = (e, c, lim, d)" by (cases t)
  from 2 show ?case by (simp add: t pull_ok_def pull_page [of e None None] read_sync_cursor_def changed_notes_def)
next
  case (3 t xs r ys)
  obtain e c lim d where t: "t = (e, c, lim, d)" by (cases t)
  let ?key = "\<lambda>n. (nt_updated_at n, nt_id n)"
  let ?own = "filter (\<lambda>n. nt_creator_id n = c) (n_notes d)"
  from 3 have ok: "pull_ok e d" by (simp add: t)
  from 3(2) obtain as n bs where s: "sort_key ?key ?own = as @ n # bs" and r: "r = note_dto_from n" and ys: "ys = map note_dto_from bs"
    by (auto simp: t changed_notes_def map_eq_append_conv map_eq_Cons_conv)
  have "distinct (map nt_id ?own)" using ok by (simp add: pull_ok_def distinct_map_filter)
  then have "distinct (map ?key ?own)" by (auto simp: distinct_map inj_on_def)
  from keyset_suffix [OF this, of Asc as n bs] s
  have "sort_key ?key (filter (\<lambda>x. ?key n < ?key x) ?own) = bs" by (simp add: sql_order_by_def sql_cmp_def)
  then have bs: "sort_key ?key (filter (\<lambda>x. nt_creator_id x = c \<and> ?key n < ?key x) (n_notes d)) = bs" by (simp add: conj_commute)
  have "n \<in> set (n_notes d)" using arg_cong [OF s, of set] by auto
  with ok have "read_sync_cursor e (Some (note_cursor (ne_codec e) r)) = Inr (Some (?key n))"
    by (simp add: read_sync_cursor_def note_cursor_def r note_dto_from_def pull_ok_def timestamp_cursor_roundtrip)
  from pull_page [OF _ _ this, of c lim d] ok bs show ?case by (simp add: t pull_ok_def ys)
qed

text \<open>C30. A device that pulls until there is no more holds every note of its user as it is on the server, deleted ones marked
  as such, each once and in the order of the changes, whatever page size it asked for.
\<close>

theorem sync_pull_complete:
  assumes "codec_laws (ne_codec e)" and "ne_fault e NtChanged = None" and "ne_fault e FoChanged = None"
    and "distinct (map nt_id (n_notes d))" and "\<forall>n \<in> set (n_notes d). ts_ok (ne_codec e) (nt_updated_at n)"
    and "length (n_notes d) < fuel"
  shows "follow fuel (\<lambda>cur. map_sum id notes_part
       (sync_pull e c \<lparr>sq_notes_cursor = cur, sq_folders_cursor = None, sq_limit = lim\<rparr> d)) None =
     Some (Inr (map note_dto_from (sort_key (\<lambda>n. (nt_updated_at n, nt_id n)) (filter (\<lambda>n. nt_creator_id n = c) (n_notes d)))))"
proof -
  have "length (changed_notes c d) < fuel"
    using le_less_trans [OF length_filter_le assms(6)] by (simp add: changed_notes_def)
  from pull.follow_all [of "(e, c, lim, d)" fuel] this assms show ?thesis
    by (simp add: pull_ok_def pull_notes_def changed_notes_def)
qed

end
