(* ===== verification/Notes_Demo.thy ===== *)
theory Notes_Demo
  imports Notes_Pull
begin

text \<open>Two users' notes, on which the hypotheses of the notes properties are seen to hold.\<close>

definition demo_notes_env :: notes_env where
  "demo_notes_env = \<lparr>ne_codec = plain_codec, ne_db_now = 5000000000, ne_server_now = 5000000000,
     ne_fault = (\<lambda>_. None), ne_matches = (\<lambda>_ _. True)\<rparr>"

definition demo_note :: "uuid \<Rightarrow> uuid \<Rightarrow> timestamp \<Rightarrow> note_row" where
  "demo_note i creator at = \<lparr>nt_id = i, nt_title = ''t'', nt_content = ''c'', nt_pinned = False, nt_folder_id = None,
     nt_creator_id = creator, nt_version = 1, nt_created_at = at, nt_updated_at = at, nt_deleted_at = None\<rparr>"

definition demo_notes :: notes_db where
  "demo_notes = \<lparr>n_notes = [demo_note 11 1 3000000000, demo_note 12 2 1000000000, demo_note 13 1 2000000000],
     n_folders = [], n_users = [1, 2]\<rparr>"

definition demo_edit :: "string \<Rightarrow> update_note_request" where
  "demo_edit title = \<lparr>un_title = Some title, un_content = None, un_pinned = None, un_folder_id = None, un_base_version = 1\<rparr>"

definition demo_mutation :: "uuid \<Rightarrow> sync_mutation" where
  "demo_mutation i = MutateNote \<lparr>nm_id = i, nm_title = ''mine'', nm_content = ''c'', nm_pinned = False, nm_folder_id = None,
     nm_deleted = False, nm_base_version = Some 1, nm_client_updated_at = 0\<rparr>"

lemmas demo_notes_defs = demo_notes_env_def demo_note_def demo_notes_def demo_edit_def demo_mutation_def

theorem others_cannot_touch_witness:
  "filter (\<lambda>n. nt_creator_id n = 1)
     (n_notes (foldl (\<lambda>d (e, c, r). after_request e c r d) demo_notes
       [(demo_notes_env, 2, DeleteNote 11 1), (demo_notes_env, 2, PushSync [demo_mutation 12, demo_mutation 99])])) =
   [demo_note 11 1 3000000000, demo_note 13 1 2000000000]"
  using others_cannot_touch [of "[(demo_notes_env, 2, DeleteNote 11 1),
      (demo_notes_env, 2, PushSync [demo_mutation 12, demo_mutation 99])]" 1 demo_notes]
  by (simp add: Let_def) (simp add: demo_notes_def demo_note_def)

lemma demo_edit_succeeds:
  "\<exists>dto d1. notes_update_note demo_notes_env 11 1 (demo_edit ''a'') demo_notes = (Inr dto, d1)"
proof -
  have "\<not> isl (fst (notes_update_note demo_notes_env 11 1 (demo_edit ''a'') demo_notes))" by code_simp
  then show ?thesis by (metis isl_def prod.collapse sum.exhaust_sel)
qed

theorem no_lost_update_witness:
  "\<exists>dto d1. notes_update_note demo_notes_env 11 1 (demo_edit ''a'') demo_notes = (Inr dto, d1) \<and> nd_version dto = 2 \<and>
     notes_update_note demo_notes_env 11 1 (demo_edit ''b'') d1 = (Inl (VersionConflict (ConflictNote dto)), d1)"
proof -
  obtain dto d1 where a: "notes_update_note demo_notes_env 11 1 (demo_edit ''a'') demo_notes = (Inr dto, d1)"
    using demo_edit_succeeds by blast
  have "nd_version dto = un_base_version (demo_edit ''a'') + 1 \<and>
    notes_update_note demo_notes_env 11 1 (demo_edit ''b'') d1 = (Inl (VersionConflict (ConflictNote dto)), d1)"
    by (rule no_lost_update [OF _ a]) (simp_all add: demo_notes_defs)
  with a show ?thesis by (simp add: demo_edit_def)
qed


theorem sync_pull_complete_witness:
  "\<exists>ns. follow 4 (\<lambda>cur. map_sum id notes_part
       (sync_pull demo_notes_env 1 \<lparr>sq_notes_cursor = cur, sq_folders_cursor = None, sq_limit = Some 1\<rparr> demo_notes)) None =
     Some (Inr ns) \<and> map nd_id ns = [13, 11]"
proof -
  have "map nd_id (map note_dto_from (sort_key (\<lambda>n. (nt_updated_at n, nt_id n))
      (filter (\<lambda>n. nt_creator_id n = 1) (n_notes demo_notes)))) = [13, 11]"
    by (simp add: demo_notes_def demo_note_def sort_key_def note_dto_from_def)
  with sync_pull_complete [of demo_notes_env demo_notes 4 1 "Some 1"] plain_codec_laws show ?thesis
    by (simp add: demo_notes_defs) (simp add: plain_codec_def)
qed

end
