(* ===== verification/Social_Model.thy ===== *)
theory Social_Model
  imports Chat_Repo Auth_Model Ws_Pubsub Circuit_Breaker
begin

text \<open>
  The rows, requests, responses and errors of the settings, profile, subscribers and notifications modules
  (their \<open>model.rs\<close>, \<open>dto.rs\<close> and \<open>errors.rs\<close>), and the messages and errors of the push service
  (\<open>shared/services/push\<close>).
\<close>

definition internal_response :: meno_response where
  "internal_response = error_response 500 ''INTERNAL_ERROR'' ''An internal error occurred''"

section \<open>Settings\<close>

datatype display = SystemDisplay | LightDisplay | DarkDisplay

definition display_from :: "(string \<Rightarrow> string) \<Rightarrow> string \<Rightarrow> display" where
  "display_from lowercase s =
     (let t = lowercase s in if t = ''dark'' then DarkDisplay else if t = ''light'' then LightDisplay else SystemDisplay)"

record settings =
  st_id :: uuid
  st_user_id :: uuid
  st_push :: bool
  st_app :: bool
  st_email :: bool
  st_token :: "string option"
  st_preferences :: json
  st_display :: display
  st_language :: string

text \<open>\<open>Settings::new\<close>, with the \<open>Uuid::new_v4()\<close> it draws.\<close>

definition settings_new :: "uuid \<Rightarrow> uuid \<Rightarrow> settings" where
  "settings_new fresh user_id = \<lparr>st_id = fresh, st_user_id = user_id, st_push = True, st_app = True, st_email = True,
     st_token = None, st_preferences = JObj [], st_display = SystemDisplay, st_language = ''en''\<rparr>"

record update_settings_request =
  ur_push :: "bool option"
  ur_app :: "bool option"
  ur_email :: "bool option"
  ur_token :: "string option"
  ur_display :: "display option"
  ur_language :: "string option"
  ur_preferences :: "json option"

record settings_response =
  sp_push :: bool
  sp_app :: bool
  sp_email :: bool
  sp_display :: display
  sp_language :: string
  sp_preferences :: json
  sp_has_push_token :: bool

definition settings_response_of :: "settings \<Rightarrow> settings_response" where
  "settings_response_of s =
     \<lparr>sp_push = st_push s, sp_app = st_app s, sp_email = st_email s, sp_display = st_display s,
      sp_language = st_language s, sp_preferences = st_preferences s, sp_has_push_token = (st_token s \<noteq> None)\<rparr>"

datatype settings_error =
    SettingsNotFound | InvalidLanguage | SettingsDatabase string | SettingsValidation "(string \<times> string list) list"

fun settings_error_text :: "settings_error \<Rightarrow> string" where
  "settings_error_text SettingsNotFound = ''Settings not found''"
| "settings_error_text InvalidLanguage = ''Unsupported language code''"
| "settings_error_text (SettingsDatabase e) = e"
| "settings_error_text (SettingsValidation errs) = ''Validation error''"

fun settings_into_response :: "settings_error \<Rightarrow> meno_response" where
  "settings_into_response SettingsNotFound = error_response 404 ''SETTINGS_NOT_FOUND'' (settings_error_text SettingsNotFound)"
| "settings_into_response InvalidLanguage = error_response 400 ''INVALID_LANGUAGE'' (settings_error_text InvalidLanguage)"
| "settings_into_response (SettingsDatabase e) = internal_response"
| "settings_into_response (SettingsValidation errs) = validation_error_response errs"

section \<open>Profiles\<close>

record profile =
  pf_id :: uuid
  pf_full_name :: string
  pf_bio :: "string option"
  pf_email :: string
  pf_avatar_id :: "string option"
  pf_avatar_url :: "string option"
  pf_verified :: bool
  pf_followers :: int
  pf_following :: int
  pf_broadcasts :: int
  pf_created_at :: timestamp

record update_profile_request =
  up_full_name :: "string option"
  up_bio :: "string option"
  up_avatar_key :: "string option"

record profile_search_query =
  ps_q :: string
  ps_pagination :: cursor_params

record me_response =
  me_id :: uuid
  me_full_name :: string
  me_bio :: "string option"
  me_email :: string
  me_verified :: bool
  me_avatar_id :: "string option"
  me_avatar_url :: "string option"
  me_created_at :: timestamp
  me_providers :: "auth_provider list"
  me_settings :: settings_response

record public_profile =
  pp_id :: uuid
  pp_full_name :: string
  pp_bio :: "string option"
  pp_avatar_url :: "string option"
  pp_is_following :: bool
  pp_followers :: int
  pp_following :: int
  pp_broadcasts :: int
  pp_created_at :: timestamp

type_synonym profile_search_result = public_profile

record avatar_upload_url_response =
  av_avatar_id :: string
  av_avatar_url :: string

datatype profile_error =
    ProfileNotFound | InvalidFileType | FileTooLarge | UploadFailed | AvatarNotUploaded | ProfileCursor cursor_error
  | ProfileStorage string | ProfileDatabase string | ProfileRedis fred_error | ProfileInternal string
  | ProfileValidation "(string \<times> string list) list"

fun profile_error_text :: "profile_error \<Rightarrow> string" where
  "profile_error_text ProfileNotFound = ''Profile not found''"
| "profile_error_text InvalidFileType = ''Avatar must be JPEG or PNG''"
| "profile_error_text FileTooLarge = ''File must be under 5MB''"
| "profile_error_text UploadFailed = ''Failed to upload image. Please, try again''"
| "profile_error_text AvatarNotUploaded = ''Avatar key not found in storage '' @ [CHR 0xE2, CHR 0x80, CHR 0x94] @
     '' upload the file first''"
| "profile_error_text (ProfileCursor e) = ''Cursor error: '' @ cursor_error_text e"
| "profile_error_text (ProfileStorage e) = ''Storage error: '' @ e"
| "profile_error_text (ProfileDatabase e) = e"
| "profile_error_text (ProfileRedis e) = e"
| "profile_error_text (ProfileInternal e) = e"
| "profile_error_text (ProfileValidation errs) = ''Validation error''"

fun profile_into_response :: "profile_error \<Rightarrow> meno_response" where
  "profile_into_response ProfileNotFound = error_response 404 ''USER_NOT_FOUND'' (profile_error_text ProfileNotFound)"
| "profile_into_response InvalidFileType = error_response 422 ''INVALID_FILE_TYPE'' (profile_error_text InvalidFileType)"
| "profile_into_response FileTooLarge = error_response 422 ''FILE_TOO_LARGE'' (profile_error_text FileTooLarge)"
| "profile_into_response AvatarNotUploaded = error_response 422 ''AVATAR_NOT_UPLOADED'' (profile_error_text AvatarNotUploaded)"
| "profile_into_response (ProfileValidation errs) = validation_error_response errs"
| "profile_into_response err = internal_response"

section \<open>Subscribers\<close>

record subscriber_item =
  sb_id :: uuid
  sb_full_name :: string
  sb_bio :: "string option"
  sb_avatar_url :: "string option"
  sb_is_following :: bool
  sb_subscribed_at :: timestamp

datatype subscribers_error =
    CannotSubscribeToSelf | SubscriberNotFound | SubscriptionNotFound | SubscribersCursor cursor_error
  | SubscribersDatabase string | SubscribersRedis fred_error | SubscribersInternal string

fun subscribers_error_text :: "subscribers_error \<Rightarrow> string" where
  "subscribers_error_text CannotSubscribeToSelf = ''You cannot subscribe to yourself.''"
| "subscribers_error_text SubscriberNotFound = ''Subscriber not found''"
| "subscribers_error_text SubscriptionNotFound = ''Subscription not found''"
| "subscribers_error_text (SubscribersCursor e) = ''Cursor error: '' @ cursor_error_text e"
| "subscribers_error_text (SubscribersDatabase e) = e"
| "subscribers_error_text (SubscribersRedis e) = e"
| "subscribers_error_text (SubscribersInternal e) = e"

fun subscribers_into_response :: "subscribers_error \<Rightarrow> meno_response" where
  "subscribers_into_response CannotSubscribeToSelf =
     error_response 400 ''CANNOT_SUBSCRIBE_TO_SELF'' (subscribers_error_text CannotSubscribeToSelf)"
| "subscribers_into_response SubscriberNotFound =
     error_response 404 ''SUBSCRIBER_NOT_FOUND'' (subscribers_error_text SubscriberNotFound)"
| "subscribers_into_response SubscriptionNotFound =
     error_response 404 ''SUBSCRIPTION_NOT_FOUND'' (subscribers_error_text SubscriptionNotFound)"
| "subscribers_into_response err = internal_response"

section \<open>Notifications\<close>

record notification =
  no_id :: uuid
  no_owner_id :: uuid
  no_template_id :: uuid
  no_actor_id :: "uuid option"
  no_broadcast_id :: "uuid option"
  no_entity_type :: "string option"
  no_entity_id :: "uuid option"
  no_read :: bool
  no_read_at :: "timestamp option"
  no_archived_at :: "timestamp option"
  no_metadata :: "json option"
  no_created_at :: timestamp

record notification_template =
  tp_id :: uuid
  tp_type :: string
  tp_title :: string
  tp_body :: string
  tp_image_url :: "string option"
  tp_metadata :: json
  tp_is_active :: bool
  tp_created_at :: timestamp
  tp_updated_at :: timestamp
  tp_deleted_at :: "timestamp option"

record notification_view_row =
  vr_id :: uuid
  vr_read :: bool
  vr_created_at :: timestamp
  vr_type_code :: string
  vr_title_template :: string
  vr_body_template :: string
  vr_image_url_template :: "string option"
  vr_actor_id :: "uuid option"
  vr_actor_name :: "string option"
  vr_actor_bio :: "string option"
  vr_actor_avatar_url :: "string option"
  vr_actor_avatar_id :: "string option"
  vr_broadcast_id :: "uuid option"

record notification_list_item =
  li_id :: uuid
  li_type_code :: string
  li_title :: string
  li_body :: string
  li_image_url :: "string option"
  li_read :: bool
  li_broadcast_id :: "uuid option"
  li_actor :: "user_summary option"
  li_created_at :: timestamp
  li_deep_link :: string

record notification_query =
  ny_unread_only :: bool
  ny_pagination :: cursor_params

definition ADDED_AS_COHOST :: string where "ADDED_AS_COHOST = ''added_as_cohost''"
definition USER_SUBSCRIBED :: string where "USER_SUBSCRIBED = ''user_subscribed''"
definition SCHEDULED_BROADCAST :: string where "SCHEDULED_BROADCAST = ''scheduled_broadcast''"
definition LIVE_BROADCAST_STARTED :: string where "LIVE_BROADCAST_STARTED = ''live_broadcast_started''"
definition BROADCAST_ENDED :: string where "BROADCAST_ENDED = ''broadcast_ended''"

lemmas notification_codes = ADDED_AS_COHOST_def USER_SUBSCRIBED_def SCHEDULED_BROADCAST_def LIVE_BROADCAST_STARTED_def
  BROADCAST_ENDED_def

datatype notification_error =
    NotificationNotFound | NotificationCursor cursor_error | TemplateNotFound string | NotificationDatabase string
  | NotificationRedis fred_error | NotificationInternal string

fun notification_error_text :: "notification_error \<Rightarrow> string" where
  "notification_error_text NotificationNotFound = ''Notification not found''"
| "notification_error_text (NotificationCursor e) = ''Cursor error: '' @ cursor_error_text e"
| "notification_error_text (TemplateNotFound t) = ''Notification template '' @ [CHR 0x27] @ t @ [CHR 0x27] @ '' not found''"
| "notification_error_text (NotificationDatabase e) = e"
| "notification_error_text (NotificationRedis e) = e"
| "notification_error_text (NotificationInternal e) = e"

fun notification_into_response :: "notification_error \<Rightarrow> meno_response" where
  "notification_into_response NotificationNotFound =
     error_response 404 ''NOTIFICATION_NOT_FOUND'' (notification_error_text NotificationNotFound)"
| "notification_into_response (NotificationCursor e) = error_response 400 ''INVALID_CURSOR'' ''Invalid pagination cursor''"
| "notification_into_response err = internal_response"

section \<open>Push messages\<close>

datatype push_error =
    TokenInvalid | RateLimited | SendFailed nat | CircuitOpen | TokenFetch string | PushHttp string | PushInternal string

record fcm_message =
  fc_token :: "string option"
  fc_title :: string
  fc_body :: string
  fc_image :: "string option"
  fc_data :: "(string \<times> string) list"
  fc_android_priority :: string
  fc_android_channel_id :: string
  fc_android_click_action :: string
  fc_apns_headers :: "(string \<times> string) list"
  fc_apns_alert_title :: string
  fc_apns_alert_body :: string
  fc_apns_badge :: "int option"
  fc_apns_sound :: string
  fc_apns_content_available :: int

definition build_message ::
    "string option \<Rightarrow> string \<Rightarrow> string \<Rightarrow> string option \<Rightarrow> (string \<times> string) list \<Rightarrow> fcm_message" where
  "build_message token title body img extra =
     \<lparr>fc_token = token, fc_title = title, fc_body = body, fc_image = img, fc_data = extra,
      fc_android_priority = ''high'', fc_android_channel_id = ''meno_default'',
      fc_android_click_action = ''FLUTTER_NOTIFICATION_CLICK'', fc_apns_headers = [(''apns-priority'', ''10'')],
      fc_apns_alert_title = title, fc_apns_alert_body = body, fc_apns_badge = None, fc_apns_sound = ''default'',
      fc_apns_content_available = 1\<rparr>"

record google_token_response =
  gt_access_token :: string
  gt_expires_in :: "64 word"

end
