(* ===== verification/Social_Repo.thy ===== *)
theory Social_Repo
  imports Social_Model Notes_Repo
begin

text \<open>
  The statements of \<open>modules/settings/repository.rs\<close>, \<open>modules/profile/repository.rs\<close>,
  \<open>modules/subscribers/repository.rs\<close> and \<open>modules/notifications/repository.rs\<close> over the tables of
  migrations 0002, 0007, 0008 and 0009, with their keys, references and checks. The trigger of migration 0013,
  meant to keep the follower counts, compares the text \<open>'TG_OP'\<close> with \<open>'INSERT'\<close> and so does nothing.
\<close>

section \<open>Tables\<close>

record account =
  ua_profile :: profile
  ua_updated_at :: timestamp
  ua_deleted_at :: "timestamp option"

record subscription =
  su_subscriber :: uuid
  su_subscription :: uuid
  su_created_at :: timestamp

record social_db =
  sd_users :: "account list"
  sd_identities :: "(uuid \<times> string) list"
  sd_broadcasts :: "uuid list"
  sd_subs :: "subscription list"
  sd_settings :: "settings list"
  sd_templates :: "notification_template list"
  sd_notifications :: "notification list"

datatype social_stmt =
    FindSettings | UpdateSettings | ClearToken | FindProfile | FindProviderTypes | FindAvatar | UpdateProfile | IsFollowing
  | SearchProfiles | FindUser | CreateSub | DeleteSub | ListSubs | UserExists | BatchFollowed
  | CreateNotif | CreateBulk | ListNotifs | CountUnread | IsUnread | MarkRead | MarkAllRead | DeleteNotif
  | FindTemplate | FindTemplates | GetToken | GetTokens | AppEnabled

text \<open>\<open>sv_new_id k\<close> is the \<open>k\<close>-th \<open>gen_random_uuid()\<close> of a statement.\<close>

record social_env =
  sv_codec :: codec
  sv_db_now :: timestamp
  sv_new_id :: "nat \<Rightarrow> uuid"
  sv_fault :: "social_stmt \<Rightarrow> string option"

type_synonym ('e, 'a) social_op = "(social_db, 'e, 'a) steps"

definition so_sql :: "social_env \<Rightarrow> social_stmt \<Rightarrow> (string \<Rightarrow> 'e) \<Rightarrow> 'a \<Rightarrow> 'e + 'a" where
  "so_sql e st wrap v = (case sv_fault e st of Some err \<Rightarrow> Inl (wrap err) | None \<Rightarrow> Inr v)"

definition so_exec ::
    "social_env \<Rightarrow> social_stmt \<Rightarrow> (string \<Rightarrow> 'e) \<Rightarrow> (social_db \<Rightarrow> string option) \<Rightarrow> (social_db \<Rightarrow> 'a) \<Rightarrow>
     (social_db \<Rightarrow> social_db) \<Rightarrow> ('e, 'a) social_op" where
  "so_exec e st wrap violated v f d =
     (case sv_fault e st of
        Some err \<Rightarrow> (Inl (wrap err), d)
      | None \<Rightarrow> (case violated d of Some err \<Rightarrow> (Inl (wrap err), d) | None \<Rightarrow> (Inr (v d), f d)))"

definition account_id :: "account \<Rightarrow> uuid" where "account_id a = pf_id (ua_profile a)"

definition live_account :: "uuid \<Rightarrow> account \<Rightarrow> bool" where
  "live_account i a \<longleftrightarrow> account_id a = i \<and> ua_deleted_at a = None"

definition known_user :: "social_db \<Rightarrow> uuid \<Rightarrow> bool" where
  "known_user d i \<longleftrightarrow> i \<in> account_id ` set (sd_users d)"

section \<open>Settings\<close>

definition settings_find_by_user_id :: "social_env \<Rightarrow> uuid \<Rightarrow> social_db \<Rightarrow> settings_error + settings option" where
  "settings_find_by_user_id e user_id d =
     so_sql e FindSettings SettingsDatabase (find (\<lambda>s. st_user_id s = user_id) (sd_settings d))"

record settings_input =
  sx_user_id :: uuid
  sx_push :: "bool option"
  sx_app :: "bool option"
  sx_email :: "bool option"
  sx_token :: "string option"
  sx_preferences :: "json option"
  sx_display :: "display option"
  sx_language :: "string option"

definition apply_settings :: "settings_input \<Rightarrow> settings \<Rightarrow> settings" where
  "apply_settings inp s = s\<lparr>st_push := coalesce (sx_push inp) (st_push s), st_app := coalesce (sx_app inp) (st_app s),
     st_email := coalesce (sx_email inp) (st_email s),
     st_token := (case sx_token inp of Some t \<Rightarrow> Some t | None \<Rightarrow> st_token s),
     st_preferences := coalesce (sx_preferences inp) (st_preferences s),
     st_display := coalesce (sx_display inp) (st_display s), st_language := coalesce (sx_language inp) (st_language s)\<rparr>"

definition settings_repo_update :: "social_env \<Rightarrow> settings_input \<Rightarrow> (settings_error, settings) social_op" where
  "settings_repo_update e inp =
     svc_bind (so_exec e UpdateSettings SettingsDatabase (\<lambda>_. None)
       (\<lambda>d. map (apply_settings inp) (filter (\<lambda>s. st_user_id s = sx_user_id inp) (sd_settings d)))
       (\<lambda>d. d\<lparr>sd_settings := map (\<lambda>s. if st_user_id s = sx_user_id inp then apply_settings inp s else s) (sd_settings d)\<rparr>))
       (\<lambda>rows. svc_lift (ok_or (first_row rows) (SettingsDatabase row_not_found)))"

definition without_token :: "uuid \<Rightarrow> social_db \<Rightarrow> social_db" where
  "without_token user_id d =
     d\<lparr>sd_settings := map (\<lambda>s. if st_user_id s = user_id then s\<lparr>st_token := None\<rparr> else s) (sd_settings d)\<rparr>"

definition settings_repo_clear_push_token :: "social_env \<Rightarrow> uuid \<Rightarrow> (settings_error, unit) social_op" where
  "settings_repo_clear_push_token e user_id =
     so_exec e ClearToken SettingsDatabase (\<lambda>_. None) (\<lambda>_. ()) (without_token user_id)"

section \<open>Profiles\<close>

definition profile_find_by_id :: "social_env \<Rightarrow> uuid \<Rightarrow> social_db \<Rightarrow> profile_error + profile option" where
  "profile_find_by_id e i d =
     so_sql e FindProfile ProfileDatabase (map_option ua_profile (find (live_account i) (sd_users d)))"

definition profile_find_providers :: "social_env \<Rightarrow> uuid \<Rightarrow> social_db \<Rightarrow> profile_error + auth_provider list" where
  "profile_find_providers e user_id d =
     so_sql e FindProviderTypes ProfileDatabase
       (List.map_filter (\<lambda>(_, t). provider_from_str t) (filter (\<lambda>(u, _). u = user_id) (sd_identities d)))"

definition profile_find_avatar_key :: "social_env \<Rightarrow> uuid \<Rightarrow> social_db \<Rightarrow> profile_error + string option" where
  "profile_find_avatar_key e user_id d =
     so_sql e FindAvatar ProfileDatabase
       (Option.bind (find (\<lambda>a. account_id a = user_id) (sd_users d)) (\<lambda>a. pf_avatar_id (ua_profile a)))"

definition opt_coalesce :: "'a option \<Rightarrow> 'a option \<Rightarrow> 'a option" where
  "opt_coalesce q r = (case q of Some x \<Rightarrow> Some x | None \<Rightarrow> r)"

definition change_profile ::
    "string option \<Rightarrow> string option \<Rightarrow> string option \<Rightarrow> string option \<Rightarrow> profile \<Rightarrow> profile" where
  "change_profile full_name bio avatar_key avatar_url p =
     p\<lparr>pf_full_name := coalesce full_name (pf_full_name p), pf_bio := opt_coalesce bio (pf_bio p),
       pf_avatar_id := opt_coalesce avatar_key (pf_avatar_id p), pf_avatar_url := opt_coalesce avatar_url (pf_avatar_url p)\<rparr>"

text \<open>\<open>bio\<close> is a \<open>VARCHAR(244)\<close>.\<close>

definition bio_too_long :: "string option \<Rightarrow> bool" where
  "bio_too_long bio = (case bio of Some s \<Rightarrow> 244 < char_count s | None \<Rightarrow> False)"

definition profile_update ::
    "social_env \<Rightarrow> uuid \<Rightarrow> string option \<Rightarrow> string option \<Rightarrow> string option \<Rightarrow> string option \<Rightarrow> (profile_error, profile) social_op" where
  "profile_update e i full_name bio avatar_key avatar_url =
     svc_bind (so_exec e UpdateProfile ProfileDatabase
       (\<lambda>d. if bio_too_long bio \<and> list_ex (live_account i) (sd_users d) then Some value_too_long else None)
       (\<lambda>d. map (\<lambda>a. change_profile full_name bio avatar_key avatar_url (ua_profile a)) (filter (live_account i) (sd_users d)))
       (\<lambda>d. d\<lparr>sd_users := map (\<lambda>a. if live_account i a
          then a\<lparr>ua_profile := change_profile full_name bio avatar_key avatar_url (ua_profile a), ua_updated_at := sv_db_now e\<rparr>
          else a) (sd_users d)\<rparr>))
       (\<lambda>rows. svc_lift (ok_or (first_row rows) (ProfileDatabase row_not_found)))"

definition follows :: "social_db \<Rightarrow> uuid \<Rightarrow> uuid \<Rightarrow> bool" where
  "follows d subscriber subscription =
     list_ex (\<lambda>s. su_subscriber s = subscriber \<and> su_subscription s = subscription) (sd_subs d)"

definition profile_is_following :: "social_env \<Rightarrow> uuid \<Rightarrow> uuid \<Rightarrow> social_db \<Rightarrow> profile_error + bool" where
  "profile_is_following e subscription_id subscriber_id d =
     so_sql e IsFollowing ProfileDatabase (follows d subscriber_id subscription_id)"

text \<open>
  The statement of the search is never valid SQL: a comma is missing before \<open>EXISTS\<close>, and the columns are those of a
  \<open>u\<close> that \<open>FROM users\<close> does not bind. PostgreSQL answers each with a syntax error, whatever the tables hold.
\<close>

definition search_syntax_error :: string where
  "search_syntax_error = ''syntax error at or near (''"

definition repo_search_profiles :: "social_env \<Rightarrow> profile_search_query \<Rightarrow> profile_error + profile_search_result list" where
  "repo_search_profiles e q =
     bind_res (case cp_cursor (ps_pagination q) of
         Some c \<Rightarrow> (case to_rank_timestamp_id (sv_codec e) c of Inl err \<Rightarrow> Inl (ProfileCursor err) | Inr _ \<Rightarrow> Inr ())
       | None \<Rightarrow> Inr ()) (\<lambda>_.
     Inl (ProfileDatabase (case sv_fault e SearchProfiles of Some err \<Rightarrow> err | None \<Rightarrow> search_syntax_error)))"

section \<open>Subscriptions\<close>

definition find_account_by_id :: "social_env \<Rightarrow> uuid \<Rightarrow> social_db \<Rightarrow> string + account option" where
  "find_account_by_id e i d = so_sql e FindUser id (find (\<lambda>a. account_id a = i) (sd_users d))"

definition self_subscription_error :: string where
  "self_subscription_error = ''new row violates check constraint''"

text \<open>\<open>ON CONFLICT (subscriber_id, subscription_id) DO NOTHING\<close>\<close>

definition subs_create :: "social_env \<Rightarrow> uuid \<Rightarrow> uuid \<Rightarrow> (subscribers_error, unit) social_op" where
  "subs_create e subscriber_id subscription_id =
     so_exec e CreateSub SubscribersDatabase
       (\<lambda>d. if subscriber_id = subscription_id then Some self_subscription_error
            else if follows d subscriber_id subscription_id then None
            else if known_user d subscriber_id \<and> known_user d subscription_id then None else Some notes_fk_violation)
       (\<lambda>_. ())
       (\<lambda>d. if follows d subscriber_id subscription_id then d
            else d\<lparr>sd_subs := sd_subs d @ [\<lparr>su_subscriber = subscriber_id, su_subscription = subscription_id,
              su_created_at = sv_db_now e\<rparr>]\<rparr>)"

definition subs_delete :: "social_env \<Rightarrow> uuid \<Rightarrow> uuid \<Rightarrow> (subscribers_error, unit) social_op" where
  "subs_delete e subscriber_id subscription_id =
     so_exec e DeleteSub SubscribersDatabase (\<lambda>_. None) (\<lambda>_. ())
       (\<lambda>d. d\<lparr>sd_subs := filter (\<lambda>s. \<not> (su_subscriber s = subscriber_id \<and> su_subscription s = subscription_id)) (sd_subs d)\<rparr>)"

definition subs_user_exists :: "social_env \<Rightarrow> uuid \<Rightarrow> social_db \<Rightarrow> subscribers_error + bool" where
  "subs_user_exists e i d = so_sql e UserExists SubscribersDatabase (list_ex (live_account i) (sd_users d))"

definition batch_is_subscribed :: "social_env \<Rightarrow> uuid \<Rightarrow> uuid list \<Rightarrow> social_db \<Rightarrow> subscribers_error + uuid list" where
  "batch_is_subscribed e viewer_id candidate_ids d =
     (if candidate_ids = [] then Inr []
      else so_sql e BatchFollowed SubscribersDatabase
        (map su_subscription (filter (\<lambda>s. su_subscriber s = viewer_id \<and> su_subscription s \<in> set candidate_ids) (sd_subs d))))"

definition subscriber_item_of :: "subscription \<Rightarrow> account \<Rightarrow> subscriber_item" where
  "subscriber_item_of s a =
     \<lparr>sb_id = account_id a, sb_full_name = pf_full_name (ua_profile a), sb_bio = pf_bio (ua_profile a),
      sb_avatar_url = pf_avatar_url (ua_profile a), sb_is_following = False, sb_subscribed_at = su_created_at s\<rparr>"

text \<open>The join of a subscription with the live user at its other end.\<close>

definition join_user :: "social_db \<Rightarrow> (subscription \<Rightarrow> uuid) \<Rightarrow> subscription \<Rightarrow> subscriber_item list" where
  "join_user d other s = map (subscriber_item_of s) (filter (live_account (other s)) (sd_users d))"

definition read_params :: "codec \<Rightarrow> cursor_params \<Rightarrow> subscribers_error + (timestamp option \<times> uuid option)" where
  "read_params c params =
     (case cp_cursor params of
        None \<Rightarrow> Inr (None, None)
      | Some cur \<Rightarrow> (case to_timestamp_id c cur of Inl err \<Rightarrow> Inl (SubscribersCursor err) | Inr (ts, i) \<Rightarrow> Inr (Some ts, Some i)))"

definition mark_followed :: "uuid list \<Rightarrow> subscriber_item \<Rightarrow> subscriber_item" where
  "mark_followed followed r = r\<lparr>sb_is_following := sb_id r \<in> set followed\<rparr>"

text \<open>
  What the two listings share: the subscriptions of one end, joined with the users at the other, and the
  viewer's own subscriptions looked up in one query.
\<close>

definition list_subs ::
    "social_env \<Rightarrow> (subscription \<Rightarrow> uuid) \<Rightarrow> (subscription \<Rightarrow> uuid) \<Rightarrow> uuid \<Rightarrow> uuid option \<Rightarrow> cursor_params \<Rightarrow> social_db \<Rightarrow>
     subscribers_error + subscriber_item list" where
  "list_subs e this other i viewer_id params d =
     bind_res (read_params (sv_codec e) params) (\<lambda>(cursor_ts, cursor_id).
     bind_res (so_sql e ListSubs SubscribersDatabase
       (push_order_and_limit sb_subscribed_at sb_id Desc (limit_plus_one params)
         (filter (push_cursor_condition sb_subscribed_at sb_id cursor_ts cursor_id Desc)
           (concat (map (join_user d other) (filter (\<lambda>s. this s = i) (sd_subs d))))))) (\<lambda>rows.
     case viewer_id of
       None \<Rightarrow> Inr rows
     | Some vid \<Rightarrow> bind_res (batch_is_subscribed e vid (map sb_id rows) d) (\<lambda>followed. Inr (map (mark_followed followed) rows))))"

definition find_subscribers ::
    "social_env \<Rightarrow> uuid \<Rightarrow> uuid option \<Rightarrow> cursor_params \<Rightarrow> social_db \<Rightarrow> subscribers_error + subscriber_item list" where
  "find_subscribers e subscription_id viewer_id params d =
     list_subs e su_subscription su_subscriber subscription_id viewer_id params d"

definition find_subscriptions ::
    "social_env \<Rightarrow> uuid \<Rightarrow> uuid option \<Rightarrow> cursor_params \<Rightarrow> social_db \<Rightarrow> subscribers_error + subscriber_item list" where
  "find_subscriptions e subscriber_id viewer_id params d =
     list_subs e su_subscriber su_subscription subscriber_id viewer_id params d"

end
