(* ===== verification/Push.thy ===== *)
theory Push
  imports Social_Model Steps "HOL-Library.Multiset"
begin

text \<open>
  \<open>shared/services/push/mod.rs\<close>: sending a message to a device through FCM, behind a circuit breaker and with
  a cached access token, and the fan-out to many devices with fifty requests in flight.
\<close>

section \<open>The service\<close>

text \<open>Its state: the breaker, the cached token with the instant it is kept until, and the messages posted so far.\<close>

record push_state =
  pu_breaker :: circuit_breaker
  pu_token :: "(string \<times> int) option"
  pu_posted :: "fcm_message list"

text \<open>
  One send's environment: the monotonic clock when it starts, when the token arrives and when FCM replies (in
  ns), the wall clock, the service account's JSON (its e-mail, key and token address, or why it does not
  parse), the JWT library, the token endpoint and FCM.
\<close>

record push_env =
  pe_now :: int
  pe_fetched :: int
  pe_later :: int
  pe_wall_secs :: "64 word"
  pe_account :: "string + (string option \<times> string option \<times> string option)"
  pe_encode_rs256 :: "json \<Rightarrow> string \<Rightarrow> string + string"
  pe_token_reply :: "string \<Rightarrow> string \<Rightarrow> string + (nat \<times> string \<times> (string + google_token_response))"
  pe_fcm_reply :: "fcm_message \<Rightarrow> string + nat"

type_synonym 'a push_op = "(push_state, push_error, 'a) steps"

definition push_new :: push_state where
  "push_new = \<lparr>pu_breaker = cb_new 3 60, pu_token = None, pu_posted = []\<rparr>"

definition build_service_account_jwt :: "push_env \<Rightarrow> string \<Rightarrow> string \<Rightarrow> string \<Rightarrow> 64 word \<Rightarrow> string + string" where
  "build_service_account_jwt e client_email private_key_pem token_uri now_secs =
     pe_encode_rs256 e (JObj [(''iss'', JStr client_email),
       (''scope'', JStr ''https://www.googleapis.com/auth/firebase.messaging''), (''aud'', JStr token_uri),
       (''iat'', JInt (uint now_secs)), (''exp'', JInt (uint (now_secs + 3600)))]) private_key_pem"

definition token_fetch :: "string + 'a \<Rightarrow> string \<Rightarrow> push_error + 'a" where
  "token_fetch r what = (case r of Inl err \<Rightarrow> Inl (TokenFetch (what @ err)) | Inr v \<Rightarrow> Inr v)"

definition fetch_google_token :: "push_env \<Rightarrow> push_error + google_token_response" where
  "fetch_google_token e =
     bind_res (token_fetch (pe_account e) ''Invalid service-account JSON: '') (\<lambda>(email, key, uri).
     bind_res (ok_or email (TokenFetch ''Missing client_email'')) (\<lambda>client_email.
     bind_res (ok_or key (TokenFetch ''Missing private_key'')) (\<lambda>private_key_pem.
     let token_uri = (case uri of Some u \<Rightarrow> u | None \<Rightarrow> ''https://oauth2.googleapis.com/token'')
     in bind_res (token_fetch (build_service_account_jwt e client_email private_key_pem token_uri (pe_wall_secs e))
            ''JWT build failed: '') (\<lambda>jwt.
        bind_res (token_fetch (pe_token_reply e token_uri jwt) '''') (\<lambda>(status, reason, body).
        if status < 200 \<or> 300 \<le> status then Inl (TokenFetch (''Token endpoint returned '' @ reason))
        else token_fetch body '''')))))"

text \<open>The token, kept until a minute before its end and not used in the last minute before that.\<close>

definition kept_secs :: "64 word \<Rightarrow> int" where
  "kept_secs expires_in = max 0 (uint expires_in - 60)"

definition renew_access_token :: "push_env \<Rightarrow> string push_op" where
  "renew_access_token e s =
     (case fetch_google_token e of
        Inl err \<Rightarrow> (Inl err, s)
      | Inr token \<Rightarrow> (Inr (gt_access_token token),
          s\<lparr>pu_token := Some (gt_access_token token, pe_fetched e + kept_secs (gt_expires_in token) * nanos_per_sec)\<rparr>))"

definition get_access_token :: "push_env \<Rightarrow> string push_op" where
  "get_access_token e s =
     (case pu_token s of
        Some (token, expires_at) \<Rightarrow>
          if pe_now e + 60 * nanos_per_sec < expires_at then (Inr token, s) else renew_access_token e s
      | None \<Rightarrow> renew_access_token e s)"

text \<open>Until the message is posted, and from the reply on; between the two other sends may run.\<close>

definition push_begin ::
    "push_env \<Rightarrow> string \<Rightarrow> string \<Rightarrow> string \<Rightarrow> string option \<Rightarrow> (string \<times> string) list \<Rightarrow> fcm_message push_op" where
  "push_begin e device_token title body img extra s =
     (case cb_check (pe_now e) (pu_breaker s) of
        (Inl _, b) \<Rightarrow> (Inl CircuitOpen, s\<lparr>pu_breaker := b\<rparr>)
      | (Inr _, b) \<Rightarrow>
          (let m = build_message (Some device_token) title body img extra
           in svc_bind (get_access_token e) (\<lambda>_ s1. (Inr m, s1\<lparr>pu_posted := pu_posted s1 @ [m]\<rparr>)) (s\<lparr>pu_breaker := b\<rparr>)))"

definition push_finish :: "push_env \<Rightarrow> string + nat \<Rightarrow> unit push_op" where
  "push_finish e reply s =
     (case reply of
        Inl err \<Rightarrow> (Inl (PushHttp err), s)
      | Inr status \<Rightarrow>
          if 200 \<le> status \<and> status \<le> 299 then (Inr (), s\<lparr>pu_breaker := cb_on_success (pu_breaker s)\<rparr>)
          else if status = 404 then (Inl TokenInvalid, s)
          else if status = 429 then (Inl RateLimited, s\<lparr>pu_breaker := cb_on_failure (pe_later e) (pu_breaker s)\<rparr>)
          else (Inl (SendFailed status), s\<lparr>pu_breaker := cb_on_failure (pe_later e) (pu_breaker s)\<rparr>))"

definition push_send ::
    "push_env \<Rightarrow> string \<Rightarrow> string \<Rightarrow> string \<Rightarrow> string option \<Rightarrow> (string \<times> string) list \<Rightarrow> unit push_op" where
  "push_send e device_token title body img extra =
     svc_bind (push_begin e device_token title body img extra) (\<lambda>m. push_finish e (pe_fcm_reply e m))"

section \<open>Sending to many devices\<close>

text \<open>
  \<open>buffer_unordered(50)\<close>: the sends still to start, those in flight, and the results so far. Which reply comes
  next, and whether another send starts before it, is a schedule.
\<close>

record multicast =
  mc_push :: push_state
  mc_todo :: "(uuid \<times> string) list"
  mc_flight :: "(uuid \<times> fcm_message) list"
  mc_succeeded :: nat
  mc_failed :: "(uuid \<times> push_error) list"

datatype mc_event = StartNext push_env | Replied nat push_env

definition MAX_IN_FLIGHT :: nat where "MAX_IN_FLIGHT = 50"

definition mc_result :: "uuid \<Rightarrow> push_error + unit \<Rightarrow> multicast \<Rightarrow> multicast" where
  "mc_result u r m =
     (case r of
        Inr _ \<Rightarrow> m\<lparr>mc_succeeded := mc_succeeded m + 1\<rparr>
      | Inl err \<Rightarrow> m\<lparr>mc_failed := mc_failed m @ [(u, err)]\<rparr>)"

fun mc_step :: "string \<Rightarrow> string \<Rightarrow> string option \<Rightarrow> string \<Rightarrow> mc_event \<Rightarrow> multicast \<Rightarrow> multicast option" where
  "mc_step title body img deep_link (StartNext e) m =
     (case mc_todo m of
        [] \<Rightarrow> None
      | (u, token) # rest \<Rightarrow>
          if MAX_IN_FLIGHT \<le> length (mc_flight m) then None
          else (case push_begin e token title body img [(''deep_link'', deep_link)] (mc_push m) of
                  (Inl err, s) \<Rightarrow> Some (mc_result u (Inl err) (m\<lparr>mc_todo := rest, mc_push := s\<rparr>))
                | (Inr msg, s) \<Rightarrow> Some (m\<lparr>mc_todo := rest, mc_push := s, mc_flight := mc_flight m @ [(u, msg)]\<rparr>)))"
| "mc_step title body img deep_link (Replied i e) m =
     (if i < length (mc_flight m)
      then (case mc_flight m ! i of
              (u, msg) \<Rightarrow> (case push_finish e (pe_fcm_reply e msg) (mc_push m) of
                (r, s) \<Rightarrow> Some (mc_result u r (m\<lparr>mc_push := s,
                  mc_flight := take i (mc_flight m) @ drop (Suc i) (mc_flight m)\<rparr>))))
      else None)"

fun mc_run :: "string \<Rightarrow> string \<Rightarrow> string option \<Rightarrow> string \<Rightarrow> mc_event list \<Rightarrow> multicast \<Rightarrow> multicast option" where
  "mc_run title body img deep_link [] m = Some m"
| "mc_run title body img deep_link (ev # evs) m =
     (case mc_step title body img deep_link ev m of
        None \<Rightarrow> None
      | Some m1 \<Rightarrow> mc_run title body img deep_link evs m1)"

definition send_multicast :: "(uuid \<times> string) list \<Rightarrow> push_state \<Rightarrow> multicast" where
  "send_multicast tokens s = \<lparr>mc_push = s, mc_todo = tokens, mc_flight = [], mc_succeeded = 0, mc_failed = []\<rparr>"

definition mc_done :: "multicast \<Rightarrow> bool" where
  "mc_done m \<longleftrightarrow> mc_todo m = [] \<and> mc_flight m = []"

section \<open>What a fan-out accounts for\<close>

text \<open>The devices not yet answered for and the results add up, and no more than fifty requests are open.\<close>

definition mc_inv :: "(uuid \<times> string) list \<Rightarrow> nat \<Rightarrow> multicast \<Rightarrow> bool" where
  "mc_inv tokens steps m \<longleftrightarrow>
     length (mc_flight m) \<le> MAX_IN_FLIGHT \<and>
     mc_succeeded m + length (mc_failed m) + length (mc_flight m) + length (mc_todo m) = length tokens \<and>
     mset (map fst (mc_failed m)) + mset (map fst (mc_flight m)) + mset (map fst (mc_todo m)) \<subseteq># mset (map fst tokens) \<and>
     steps + 2 * length (mc_todo m) + length (mc_flight m) \<le> 2 * length tokens"

lemma mset_remove_nth:
  assumes "i < length xs" shows "mset (map f xs) = add_mset (f (xs ! i)) (mset (map f (take i xs @ drop (Suc i) xs)))"
proof -
  have "mset (map f xs) = mset (map f (take i xs @ xs ! i # drop (Suc i) xs))" using id_take_nth_drop [OF assms] by metis
  then show ?thesis by simp
qed

lemma mc_start_inv:
  assumes "mc_inv tokens n m" and "mc_step ti b im dl (StartNext e) m = Some m'" shows "mc_inv tokens (Suc n) m'"
proof -
  obtain u t rest where todo: "mc_todo m = (u, t) # rest" using assms(2) by (auto split: list.splits)
  obtain r s where p: "push_begin e t ti b im [(''deep_link'', dl)] (mc_push m) = (r, s)" by fastforce
  show ?thesis using assms todo p
    by (cases r) (auto simp: mc_inv_def mc_result_def ac_simps split: if_splits)
qed

lemma mc_reply_inv:
  assumes "mc_inv tokens n m" and "mc_step ti b im dl (Replied i e) m = Some m'" shows "mc_inv tokens (Suc n) m'"
proof -
  have i: "i < length (mc_flight m)" using assms(2) by (auto split: if_splits)
  obtain u msg where f: "mc_flight m ! i = (u, msg)" by fastforce
  obtain r s where p: "push_finish e (pe_fcm_reply e msg) (mc_push m) = (r, s)" by fastforce
  define R where "R = take i (mc_flight m) @ drop (Suc i) (mc_flight m)"
  have m': "m' = mc_result u r (m\<lparr>mc_push := s, mc_flight := R\<rparr>)" using assms(2) i f p by (simp add: R_def)
  have len: "length (mc_flight m) = Suc (length R)" using i by (simp add: R_def)
  have ms: "mset (map fst (mc_flight m)) = add_mset u (mset (map fst R))" using mset_remove_nth [OF i, of fst] f by (simp add: R_def)
  from assms(1) have full: "add_mset u (mset (map fst (mc_failed m)) + mset (map fst R) + mset (map fst (mc_todo m))) \<subseteq># mset (map fst tokens)"
    and count: "length R < MAX_IN_FLIGHT" "mc_succeeded m + length (mc_failed m) + Suc (length R) + length (mc_todo m) = length tokens"
      "n + 2 * length (mc_todo m) + Suc (length R) \<le> 2 * length tokens"
    unfolding mc_inv_def len ms by (simp_all add: Suc_le_eq)
  from full have "mset (map fst (mc_failed m)) + mset (map fst R) + mset (map fst (mc_todo m)) \<subseteq># mset (map fst tokens)"
    using mset_subset_eq_insertD [OF full] by (simp only: subset_mset.less_imp_le)
  with full count show ?thesis unfolding m' mc_inv_def by (cases r) (simp_all add: mc_result_def)
qed

lemma mc_run_inv:
  "mc_inv tokens n m \<Longrightarrow> mc_run ti b im dl evs m = Some m' \<Longrightarrow> mc_inv tokens (n + length evs) m'"
proof (induction evs arbitrary: n m)
  case (Cons ev evs)
  from Cons.prems(2) obtain m1 where s: "mc_step ti b im dl ev m = Some m1" and r: "mc_run ti b im dl evs m1 = Some m'"
    by (auto split: option.splits)
  have "mc_inv tokens (Suc n) m1" using Cons.prems(1) s mc_start_inv mc_reply_inv by (cases ev) blast+
  from Cons.IH [OF this r] show ?case by simp
qed simp

lemma mc_init_inv: "mc_inv tokens 0 (send_multicast tokens s)"
  by (simp add: mc_inv_def send_multicast_def)

text \<open>C40. Whatever the order in which FCM replies, a fan-out never has more than fifty requests in flight, each device ends
  up in exactly one count, nobody is reported failed more often than they are listed, it is over after at most two
  steps per device, and until then some step can be taken.
\<close>

theorem multicast_accounts:
  assumes "mc_run title body img deep_link evs (send_multicast tokens s) = Some m"
  shows "length (mc_flight m) \<le> 50 \<and> length evs \<le> 2 * length tokens \<and>
    (mc_done m \<longrightarrow> mc_succeeded m + length (mc_failed m) = length tokens \<and>
       mset (map fst (mc_failed m)) \<subseteq># mset (map fst tokens)) \<and>
    (\<not> mc_done m \<longrightarrow> (\<exists>ev. mc_step title body img deep_link ev m \<noteq> None))"
proof -
  from mc_run_inv [OF mc_init_inv assms] have inv: "mc_inv tokens (length evs) m" by simp
  have "\<exists>ev. mc_step title body img deep_link ev m \<noteq> None" if "\<not> mc_done m"
  proof (cases "mc_flight m")
    case (Cons x xs)
    then have "mc_step title body img deep_link (Replied 0 e) m \<noteq> None" for e by (auto split: prod.split)
    then show ?thesis by blast
  next
    case Nil
    with that obtain u t rest where "mc_todo m = (u, t) # rest" by (auto simp: mc_done_def neq_Nil_conv)
    with Nil have "mc_step title body img deep_link (StartNext e) m \<noteq> None" for e
      by (auto simp: MAX_IN_FLIGHT_def split: sum.split prod.split)
    then show ?thesis by blast
  qed
  with inv show ?thesis by (auto simp: mc_inv_def MAX_IN_FLIGHT_def mc_done_def)
qed

section \<open>What the breaker does not see\<close>

text \<open>A stretch of sends, one after the other.\<close>

fun push_seq :: "(push_env \<times> string) list \<Rightarrow> push_state \<Rightarrow> (push_error + unit) list \<times> push_state" where
  "push_seq [] s = ([], s)"
| "push_seq ((e, token) # xs) s =
     (case push_send e token '''' '''' None [] s of
        (r, s1) \<Rightarrow> (case push_seq xs s1 of (rs, s2) \<Rightarrow> (r # rs, s2)))"

text \<open>
  The breaker does not protect against an FCM that cannot be reached: as long as the breaker is closed and a token is
  cached, any number of sends that all die in the network each still post their message, and the breaker stays
  closed with no failure counted.
\<close>

theorem network_failures_uncounted:
  assumes "cb_get_state (pu_breaker s) = Closed" and "pu_token s = Some (token, expires_at)"
    and "\<forall>(e, t) \<in> set xs. pe_now e + 60 * nanos_per_sec < expires_at \<and> (\<forall>m. pe_fcm_reply e m = Inl ''timeout'')"
  shows "\<exists>s'. push_seq xs s = (replicate (length xs) (Inl (PushHttp ''timeout'')), s') \<and>
    pu_breaker s' = pu_breaker s \<and> length (pu_posted s') = length (pu_posted s) + length xs"
  using assms
proof (induction xs arbitrary: s)
  case (Cons x xs)
  obtain e t where x: "x = (e, t)" by (cases x)
  let ?m = "build_message (Some t) '''' '''' None []"
  let ?s = "s\<lparr>pu_posted := pu_posted s @ [?m]\<rparr>"
  have h: "pe_now e + 60 * nanos_per_sec < expires_at" "pe_fcm_reply e ?m = Inl ''timeout''" using Cons.prems(3) x by auto
  have "push_send e t '''' '''' None [] s = (Inl (PushHttp ''timeout''), ?s)"
    using Cons.prems(1,2) h
    by (simp add: push_send_def push_begin_def push_finish_def svc_bind_def cb_check_def get_access_token_def Let_def)
  moreover have "\<exists>s'. push_seq xs ?s = (replicate (length xs) (Inl (PushHttp ''timeout'')), s') \<and>
      pu_breaker s' = pu_breaker ?s \<and> length (pu_posted s') = length (pu_posted ?s) + length xs"
    by (rule Cons.IH) (use Cons.prems in auto)
  ultimately show ?case by (auto simp: x)
qed simp

end
