(* ===== verification/Notif_Repo.thy ===== *)
theory Notif_Repo
  imports Social_Repo
begin

text \<open>\<open>modules/notifications/repository.rs\<close>: one definition per statement.\<close>

section \<open>Writing\<close>

definition new_notification :: "social_env \<Rightarrow> nat \<Rightarrow> uuid \<Rightarrow> uuid \<Rightarrow> uuid option \<Rightarrow> uuid option \<Rightarrow> json option \<Rightarrow> notification" where
  "new_notification e k owner_id template_id actor_id broadcast_id metadata =
     \<lparr>no_id = sv_new_id e k, no_owner_id = owner_id, no_template_id = template_id, no_actor_id = actor_id,
      no_broadcast_id = broadcast_id, no_entity_type = None, no_entity_id = None, no_read = False, no_read_at = None,
      no_archived_at = None, no_metadata = metadata, no_created_at = sv_db_now e\<rparr>"

text \<open>The references of a notification: its owner, its template, its actor and its broadcast.\<close>

definition notification_refs :: "social_db \<Rightarrow> notification \<Rightarrow> bool" where
  "notification_refs d n \<longleftrightarrow> known_user d (no_owner_id n) \<and> no_template_id n \<in> tp_id ` set (sd_templates d) \<and>
     (case no_actor_id n of Some a \<Rightarrow> known_user d a | None \<Rightarrow> True) \<and>
     (case no_broadcast_id n of Some b \<Rightarrow> b \<in> set (sd_broadcasts d) | None \<Rightarrow> True)"

definition notif_create ::
    "social_env \<Rightarrow> uuid \<Rightarrow> uuid \<Rightarrow> uuid option \<Rightarrow> uuid option \<Rightarrow> json option \<Rightarrow> (notification_error, notification) social_op" where
  "notif_create e owner_id template_id actor_id broadcast_id metadata =
     (let n = new_notification e 0 owner_id template_id actor_id broadcast_id metadata
      in so_exec e CreateNotif NotificationDatabase
           (\<lambda>d. if no_id n \<in> no_id ` set (sd_notifications d) then Some notes_unique_violation
                else if \<not> notification_refs d n then Some notes_fk_violation else None)
           (\<lambda>_. n) (\<lambda>d. d\<lparr>sd_notifications := sd_notifications d @ [n]\<rparr>))"

text \<open>\<open>INSERT ... SELECT unnest(...) ON CONFLICT DO NOTHING\<close>: the only key is the drawn id.\<close>

fun add_fresh :: "notification list \<Rightarrow> notification list \<Rightarrow> notification list" where
  "add_fresh rows [] = rows"
| "add_fresh rows (n # ns) = add_fresh (if no_id n \<in> no_id ` set rows then rows else rows @ [n]) ns"

definition notif_create_bulk ::
    "social_env \<Rightarrow> uuid list \<Rightarrow> uuid \<Rightarrow> uuid option \<Rightarrow> uuid option \<Rightarrow> (notification_error, nat) social_op" where
  "notif_create_bulk e owner_ids template_id actor_id broadcast_id =
     (if owner_ids = [] then svc_return 0
      else
        (let ns = map (\<lambda>(k, o'). new_notification e k o' template_id actor_id broadcast_id None) (enumerate 0 owner_ids)
         in so_exec e CreateBulk NotificationDatabase
              (\<lambda>d. if list_all (notification_refs d) ns then None else Some notes_fk_violation)
              (\<lambda>d. length (add_fresh (sd_notifications d) ns) - length (sd_notifications d))
              (\<lambda>d. d\<lparr>sd_notifications := add_fresh (sd_notifications d) ns\<rparr>)))"

definition owned_unread :: "uuid \<Rightarrow> notification \<Rightarrow> bool" where
  "owned_unread owner_id n \<longleftrightarrow> no_owner_id n = owner_id \<and> \<not> no_read n"

definition read_now :: "social_env \<Rightarrow> notification \<Rightarrow> notification" where
  "read_now e n = n\<lparr>no_read := True, no_read_at := Some (sv_db_now e)\<rparr>"

definition set_read :: "social_env \<Rightarrow> (notification \<Rightarrow> bool) \<Rightarrow> social_db \<Rightarrow> social_db" where
  "set_read e p d = d\<lparr>sd_notifications := map (\<lambda>n. if p n then read_now e n else n) (sd_notifications d)\<rparr>"

definition notif_mark_read :: "social_env \<Rightarrow> uuid \<Rightarrow> uuid \<Rightarrow> (notification_error, bool) social_op" where
  "notif_mark_read e notification_id owner_id =
     so_exec e MarkRead NotificationDatabase (\<lambda>_. None)
       (\<lambda>d. list_ex (\<lambda>n. no_id n = notification_id \<and> owned_unread owner_id n) (sd_notifications d))
       (set_read e (\<lambda>n. no_id n = notification_id \<and> owned_unread owner_id n))"

definition notif_mark_all_read :: "social_env \<Rightarrow> uuid \<Rightarrow> (notification_error, nat) social_op" where
  "notif_mark_all_read e owner_id =
     so_exec e MarkAllRead NotificationDatabase (\<lambda>_. None)
       (\<lambda>d. length (filter (\<lambda>n. owned_unread owner_id n \<and> no_archived_at n = None) (sd_notifications d)))
       (set_read e (\<lambda>n. owned_unread owner_id n \<and> no_archived_at n = None))"

definition notif_delete :: "social_env \<Rightarrow> uuid \<Rightarrow> uuid \<Rightarrow> (notification_error, unit) social_op" where
  "notif_delete e notification_id owner_id =
     so_exec e DeleteNotif NotificationDatabase (\<lambda>_. None) (\<lambda>_. ())
       (\<lambda>d. d\<lparr>sd_notifications :=
          filter (\<lambda>n. \<not> (no_id n = notification_id \<and> no_owner_id n = owner_id)) (sd_notifications d)\<rparr>)"

section \<open>Reading\<close>

definition unread_total :: "uuid \<Rightarrow> social_db \<Rightarrow> nat" where
  "unread_total owner_id d =
     length (filter (\<lambda>n. owned_unread owner_id n \<and> no_archived_at n = None) (sd_notifications d))"

definition notif_count_unread :: "social_env \<Rightarrow> uuid \<Rightarrow> social_db \<Rightarrow> notification_error + int" where
  "notif_count_unread e owner_id d = so_sql e CountUnread NotificationDatabase (int (unread_total owner_id d))"

definition row_unread :: "uuid \<Rightarrow> uuid \<Rightarrow> notification list \<Rightarrow> bool" where
  "row_unread notification_id owner_id rows =
     (map_option no_read (find (\<lambda>n. no_id n = notification_id \<and> no_owner_id n = owner_id) rows) = Some False)"

definition notif_is_unread :: "social_env \<Rightarrow> uuid \<Rightarrow> uuid \<Rightarrow> social_db \<Rightarrow> notification_error + bool" where
  "notif_is_unread e notification_id owner_id d =
     so_sql e IsUnread NotificationDatabase (row_unread notification_id owner_id (sd_notifications d))"

definition find_template_by_code :: "social_env \<Rightarrow> string \<Rightarrow> social_db \<Rightarrow> notification_error + notification_template option" where
  "find_template_by_code e code_type d =
     so_sql e FindTemplate NotificationDatabase
       (find (\<lambda>t. tp_type t = code_type \<and> tp_is_active t \<and> tp_deleted_at t = None) (sd_templates d))"

text \<open>The order by type leaves open which of two templates of one type comes first; here the table's.\<close>

definition find_all_templates :: "social_env \<Rightarrow> social_db \<Rightarrow> notification_error + notification_template list" where
  "find_all_templates e d =
     so_sql e FindTemplates NotificationDatabase (filter tp_is_active (sd_templates d))"

definition get_push_token :: "social_env \<Rightarrow> uuid \<Rightarrow> social_db \<Rightarrow> notification_error + string option" where
  "get_push_token e user_id d =
     so_sql e GetToken NotificationDatabase
       (Option.bind (find (\<lambda>s. st_user_id s = user_id \<and> st_push s \<and> st_token s \<noteq> None) (sd_settings d)) st_token)"

definition get_push_tokens_batch :: "social_env \<Rightarrow> uuid list \<Rightarrow> social_db \<Rightarrow> notification_error + (uuid \<times> string) list" where
  "get_push_tokens_batch e user_ids d =
     (if user_ids = [] then Inr []
      else so_sql e GetTokens NotificationDatabase
        (List.map_filter (\<lambda>s. map_option (Pair (st_user_id s)) (st_token s))
          (filter (\<lambda>s. st_user_id s \<in> set user_ids \<and> st_push s) (sd_settings d))))"

definition notif_clear_push_token :: "social_env \<Rightarrow> uuid \<Rightarrow> (notification_error, unit) social_op" where
  "notif_clear_push_token e user_id =
     so_exec e ClearToken NotificationDatabase (\<lambda>_. None) (\<lambda>_. ()) (without_token user_id)"

definition has_app_notifications_enabled :: "social_env \<Rightarrow> uuid \<Rightarrow> social_db \<Rightarrow> notification_error + bool" where
  "has_app_notifications_enabled e user_id d =
     so_sql e AppEnabled NotificationDatabase
       (case find (\<lambda>s. st_user_id s = user_id) (sd_settings d) of Some s \<Rightarrow> st_app s | None \<Rightarrow> False)"

section \<open>The feed\<close>

text \<open>The joins of the listing: the template, and the actor while not deleted.\<close>

definition view_row :: "social_db \<Rightarrow> notification \<Rightarrow> notification_template \<Rightarrow> notification_view_row" where
  "view_row d n t =
     (let u = Option.bind (no_actor_id n) (\<lambda>a. map_option ua_profile (find (live_account a) (sd_users d)))
      in \<lparr>vr_id = no_id n, vr_read = no_read n, vr_created_at = no_created_at n, vr_type_code = tp_type t,
          vr_title_template = tp_title t, vr_body_template = tp_body t, vr_image_url_template = tp_image_url t,
          vr_actor_id = no_actor_id n, vr_actor_name = map_option pf_full_name u, vr_actor_bio = Option.bind u pf_bio,
          vr_actor_avatar_url = Option.bind u pf_avatar_url, vr_actor_avatar_id = Option.bind u pf_avatar_id,
          vr_broadcast_id = no_broadcast_id n\<rparr>)"

definition view_rows :: "bool \<Rightarrow> uuid \<Rightarrow> social_db \<Rightarrow> notification_view_row list" where
  "view_rows unread_only owner_id d =
     concat (map (\<lambda>n. map (view_row d n) (filter (\<lambda>t. tp_id t = no_template_id n) (sd_templates d)))
       (filter (\<lambda>n. no_owner_id n = owner_id \<and> no_archived_at n = None \<and> (unread_only \<longrightarrow> \<not> no_read n)) (sd_notifications d)))"

definition list_item_of :: "notification_view_row \<Rightarrow> notification_list_item" where
  "list_item_of r =
     \<lparr>li_id = vr_id r, li_type_code = vr_type_code r, li_title = vr_title_template r, li_body = vr_body_template r,
      li_image_url = vr_image_url_template r, li_read = vr_read r, li_broadcast_id = vr_broadcast_id r,
      li_actor = map_option (\<lambda>i. \<lparr>us_id = i, us_full_name = coalesce (vr_actor_name r) '''', us_bio = vr_actor_bio r,
        us_avatar_id = vr_actor_avatar_id r, us_avatar_url = vr_actor_avatar_url r\<rparr>) (vr_actor_id r),
      li_created_at = vr_created_at r, li_deep_link = ''''\<rparr>"

definition find_notifications ::
    "social_env \<Rightarrow> notification_query \<Rightarrow> uuid \<Rightarrow> social_db \<Rightarrow> notification_error + notification_list_item list" where
  "find_notifications e q owner_id d =
     bind_res (case cp_cursor (ny_pagination q) of
         None \<Rightarrow> Inr (None, None)
       | Some c \<Rightarrow> (case to_timestamp_id (sv_codec e) c of Inl err \<Rightarrow> Inl (NotificationCursor err) | Inr (ts, i) \<Rightarrow> Inr (Some ts, Some i)))
       (\<lambda>(cursor_ts, cursor_id).
     bind_res (so_sql e ListNotifs NotificationDatabase
       (push_order_and_limit vr_created_at vr_id Desc (limit_plus_one (ny_pagination q))
         (filter (push_cursor_condition vr_created_at vr_id cursor_ts cursor_id Desc)
           (view_rows (ny_unread_only q) owner_id d)))) (\<lambda>rows.
     Inr (map list_item_of rows)))"

end
