(* ===== verification/Notif_Service.thy ===== *)
theory Notif_Service
  imports Notif_Repo Push Broadcast_Cache
begin

text \<open>
  \<open>modules/notifications/service.rs\<close>: templates and their cache, sending a notification to one user or to
  many, the listing, the unread counter in Redis, and the tasks the service spawns.
\<close>

section \<open>State and environment\<close>

datatype notif_task =
    PushToUser uuid string string "string option" string
  | PushToMany "uuid list" string string "string option" string
  | BumpUnread "uuid list"
  | ForgetToken uuid

record notif_world =
  nw_db :: social_db
  nw_keys :: keyspace
  nw_templates :: "(string \<times> notification_template) list"
  nw_published :: published
  nw_push :: push_state
  nw_tasks :: "notif_task list"

text \<open>
  \<open>ni_order\<close> is the order in which a \<open>HashMap\<close> of variables is walked, \<open>ni_push\<close> the environment of a push
  sent by a task, and \<open>ni_schedule\<close> the order of replies in a fan-out.
\<close>

record notif_env =
  ni_social :: social_env
  ni_redis :: redis_env
  ni_bridge :: bridge_env
  ni_now_json :: json
  ni_order :: "(string \<times> string) list \<Rightarrow> (string \<times> string) list"
  ni_push :: push_env
  ni_schedule :: "mc_event list"

type_synonym 'a notif_op = "(notif_world, notification_error, 'a) steps"

definition ni_codec :: "notif_env \<Rightarrow> codec" where "ni_codec e = sv_codec (ni_social e)"

definition on_db :: "('e, 'a) social_op \<Rightarrow> (notif_world, 'e, 'a) steps" where
  "on_db op w = (case op (nw_db w) of (r, d) \<Rightarrow> (r, w\<lparr>nw_db := d\<rparr>))"

definition reading :: "(social_db \<Rightarrow> 'e + 'a) \<Rightarrow> (notif_world, 'e, 'a) steps" where
  "reading q w = (q (nw_db w), w)"

definition on_keys :: "(keyspace \<Rightarrow> keyspace) \<Rightarrow> unit notif_op" where
  "on_keys f = svc_modify (\<lambda>w. w\<lparr>nw_keys := f (nw_keys w)\<rparr>)"

definition notif_spawn :: "notif_task \<Rightarrow> unit notif_op" where
  "notif_spawn t = svc_modify (\<lambda>w. w\<lparr>nw_tasks := nw_tasks w @ [t]\<rparr>)"

section \<open>Templates\<close>

text \<open>\<open>str::replace\<close>: the matches from the left, none overlapping.\<close>

function str_replace :: "string \<Rightarrow> string \<Rightarrow> string \<Rightarrow> string" where
  "str_replace pat rep s =
     (case s of
        [] \<Rightarrow> []
      | c # cs \<Rightarrow>
          if pat \<noteq> [] \<and> prefix pat s then rep @ str_replace pat rep (drop (length pat) s)
          else c # str_replace pat rep cs)"
  by auto
termination by (relation "measure (\<lambda>(_, _, s). length s)") auto

declare str_replace.simps [simp del]

definition placeholder :: "string \<Rightarrow> string" where
  "placeholder key = ''{'' @ key @ ''}''"

definition interpolate :: "notif_env \<Rightarrow> string \<Rightarrow> (string \<times> string) list \<Rightarrow> string" where
  "interpolate e template vars = foldl (\<lambda>result (key, value). str_replace (placeholder key) value result) template (ni_order e vars)"

definition build_vars :: "user_summary option \<Rightarrow> string option \<Rightarrow> (string \<times> string) list" where
  "build_vars actor broadcast_title =
     (case actor of Some a \<Rightarrow> [(''actor'', us_full_name a)] | None \<Rightarrow> []) @
     (case broadcast_title of Some t \<Rightarrow> [(''title'', t), (''broadcast'', t)] | None \<Rightarrow> [])"

definition build_item_vars :: "notification_list_item \<Rightarrow> (string \<times> string) list" where
  "build_item_vars item = (case li_actor item of Some a \<Rightarrow> [(''actor'', us_full_name a)] | None \<Rightarrow> [])"

definition resolve_template ::
    "notif_env \<Rightarrow> notification_template \<Rightarrow> (string \<times> string) list \<Rightarrow> string \<times> string \<times> string option" where
  "resolve_template e template vars =
     (interpolate e (tp_title template) vars, interpolate e (tp_body template) vars,
      map_option (\<lambda>u. interpolate e u vars) (tp_image_url template))"

definition home_link :: string where "home_link = ''meno://home''"

definition build_deep_link :: "codec \<Rightarrow> string \<Rightarrow> uuid option \<Rightarrow> uuid option \<Rightarrow> string" where
  "build_deep_link c type_code broadcast_id actor_id =
     (if type_code \<in> {ADDED_AS_COHOST, LIVE_BROADCAST_STARTED, SCHEDULED_BROADCAST, BROADCAST_ENDED}
      then (case broadcast_id of Some i \<Rightarrow> ''meno://broadcasts/'' @ uuid_show c i | None \<Rightarrow> home_link)
      else if type_code = USER_SUBSCRIBED
      then (case actor_id of Some i \<Rightarrow> ''meno://profile/'' @ uuid_show c i | None \<Rightarrow> home_link)
      else home_link)"

definition get_template :: "notif_env \<Rightarrow> string \<Rightarrow> notification_template notif_op" where
  "get_template e type_code w =
     (case map_of (nw_templates w) type_code of
        Some t \<Rightarrow> (Inr t, w)
      | None \<Rightarrow>
          (case bind_res (find_template_by_code (ni_social e) type_code (nw_db w)) (\<lambda>r. ok_or r (TemplateNotFound type_code)) of
             Inl err \<Rightarrow> (Inl err, w)
           | Inr t \<Rightarrow> (Inr t, w\<lparr>nw_templates := AList.update type_code t (nw_templates w)\<rparr>)))"

definition warm_template_cache :: "notif_env \<Rightarrow> unit notif_op" where
  "warm_template_cache e =
     svc_bind (reading (find_all_templates (ni_social e))) (\<lambda>templates.
     svc_modify (\<lambda>w. w\<lparr>nw_templates := foldl (\<lambda>m t. AList.update (tp_type t) t m) [] templates\<rparr>))"

section \<open>The unread counter\<close>

definition bump_unread :: "notif_env \<Rightarrow> uuid \<Rightarrow> keyspace \<Rightarrow> keyspace" where
  "bump_unread e owner_id k = snd (redis_incr (ni_redis e) (key_unread_count (ni_codec e) owner_id) k)"

text \<open>The script: decrement, and back to \<open>0\<close> when that is negative.\<close>

definition decrement_unread :: "notif_env \<Rightarrow> uuid \<Rightarrow> keyspace \<Rightarrow> keyspace" where
  "decrement_unread e owner_id k =
     (let key = key_unread_count (ni_codec e) owner_id; now = r_now (ni_redis e)
      in snd (guarded_cmd (ni_redis e) ''EVAL'' key k
           (case cmd_incrby now key (- 1) k of
              (Inl err, k1) \<Rightarrow> (Inl err, k1)
            | (Inr v, k1) \<Rightarrow> if v < 0 then (Inr 0, cmd_set now key ''0'' None k1) else (Inr v, k1))))"

definition reset_unread :: "notif_env \<Rightarrow> uuid \<Rightarrow> keyspace \<Rightarrow> keyspace" where
  "reset_unread e owner_id k =
     snd (redis_set (ni_redis e) show_int (key_unread_count (ni_codec e) owner_id) 0 (Some 3600) k)"

definition unread_count :: "notif_env \<Rightarrow> uuid \<Rightarrow> notif_world \<Rightarrow> notification_error + int" where
  "unread_count e owner_id w =
     (case redis_get (ni_redis e) json_i64 (key_unread_count (ni_codec e) owner_id) (nw_keys w) of
        Inr (Some n) \<Rightarrow> Inr n
      | _ \<Rightarrow> notif_count_unread (ni_social e) owner_id (nw_db w))"

section \<open>Sending\<close>

definition tell_user :: "notif_env \<Rightarrow> uuid \<Rightarrow> string \<Rightarrow> string \<Rightarrow> unit notif_op" where
  "tell_user e owner_id title body =
     svc_modify (\<lambda>w.
       if unwrap_or (has_app_notifications_enabled (ni_social e) owner_id (nw_db w)) True
       then w\<lparr>nw_published := nw_published w @
              publish_to_user (ni_bridge e) owner_id (payload_notification (ni_codec e) (ni_now_json e) owner_id title body)\<rparr>
       else w)"

definition notify ::
    "notif_env \<Rightarrow> uuid \<Rightarrow> string \<Rightarrow> user_summary option \<Rightarrow> uuid option \<Rightarrow> string option \<Rightarrow> unit notif_op" where
  "notify e owner_id type_code actor broadcast_id broadcast_title =
     svc_bind (get_template e type_code) (\<lambda>template.
     case resolve_template e template (build_vars actor broadcast_title) of
       (title, body, img) \<Rightarrow>
         svc_bind (on_db (notif_create (ni_social e) owner_id (tp_id template) (map_option us_id actor) broadcast_id None)) (\<lambda>_.
         svc_bind (tell_user e owner_id title body) (\<lambda>_.
         svc_bind (notif_spawn (PushToUser owner_id title body img
           (build_deep_link (ni_codec e) type_code broadcast_id (map_option us_id actor)))) (\<lambda>_.
         on_keys (bump_unread e owner_id)))))"

definition notify_many ::
    "notif_env \<Rightarrow> uuid list \<Rightarrow> string \<Rightarrow> user_summary option \<Rightarrow> uuid option \<Rightarrow> string option \<Rightarrow> unit notif_op" where
  "notify_many e owner_ids type_code actor broadcast_id broadcast_title =
     (if owner_ids = [] then svc_return ()
      else
        svc_bind (get_template e type_code) (\<lambda>template.
        case resolve_template e template (build_vars actor broadcast_title) of
          (title, body, img) \<Rightarrow>
            svc_bind (on_db (notif_create_bulk (ni_social e) owner_ids (tp_id template) (map_option us_id actor) broadcast_id)) (\<lambda>_.
            svc_bind (notif_spawn (BumpUnread owner_ids)) (\<lambda>_.
            notif_spawn (PushToMany owner_ids title body img
              (build_deep_link (ni_codec e) type_code broadcast_id (map_option us_id actor)))))))"

section \<open>Requests of the owner\<close>

definition render_item :: "notif_env \<Rightarrow> notification_list_item \<Rightarrow> notification_list_item" where
  "render_item e item =
     (let vars = build_item_vars item
      in item\<lparr>li_title := interpolate e (li_title item) vars, li_body := interpolate e (li_body item) vars,
          li_deep_link := build_deep_link (ni_codec e) (li_type_code item) (li_broadcast_id item) (map_option us_id (li_actor item))\<rparr>)"

definition notifications_list ::
    "notif_env \<Rightarrow> uuid \<Rightarrow> notification_query \<Rightarrow> social_db \<Rightarrow> notification_error + notification_list_item cursor_page" where
  "notifications_list e owner_id q d =
     bind_res (find_notifications (ni_social e) q owner_id d) (\<lambda>rows.
     Inr (from_rows (map (render_item e) rows) (page_limit (ny_pagination q))
       (\<lambda>r. from_timestamp_id (ni_codec e) (li_created_at r) (li_id r))))"

definition mark_read :: "notif_env \<Rightarrow> uuid \<Rightarrow> uuid \<Rightarrow> (uuid \<times> bool) notif_op" where
  "mark_read e notification_id owner_id =
     svc_bind (on_db (notif_mark_read (ni_social e) notification_id owner_id)) (\<lambda>was_updated.
     svc_bind (if was_updated then on_keys (decrement_unread e owner_id) else svc_return ()) (\<lambda>_.
     svc_return (notification_id, True)))"

definition mark_all_read :: "notif_env \<Rightarrow> uuid \<Rightarrow> nat notif_op" where
  "mark_all_read e owner_id =
     svc_bind (on_db (notif_mark_all_read (ni_social e) owner_id)) (\<lambda>updated.
     svc_bind (on_keys (reset_unread e owner_id)) (\<lambda>_. svc_return updated))"

definition notification_delete :: "notif_env \<Rightarrow> uuid \<Rightarrow> uuid \<Rightarrow> unit notif_op" where
  "notification_delete e notification_id owner_id =
     svc_bind (reading (notif_is_unread (ni_social e) notification_id owner_id)) (\<lambda>was_unread.
     svc_bind (on_db (notif_delete (ni_social e) notification_id owner_id)) (\<lambda>_.
     if was_unread then on_keys (decrement_unread e owner_id) else svc_return ()))"

section \<open>The tasks\<close>

definition send_to_user_if_enabled ::
    "notif_env \<Rightarrow> uuid \<Rightarrow> string \<Rightarrow> string \<Rightarrow> string option \<Rightarrow> string \<Rightarrow> notif_world \<Rightarrow> notif_world" where
  "send_to_user_if_enabled e user_id title body img deep_link w =
     (case get_push_token (ni_social e) user_id (nw_db w) of
        Inr (Some token) \<Rightarrow>
          (case push_send (ni_push e) token title body img
              [(''deep_link'', deep_link), (''user_id'', uuid_show (ni_codec e) user_id)] (nw_push w) of
             (Inl TokenInvalid, s) \<Rightarrow> w\<lparr>nw_push := s, nw_tasks := nw_tasks w @ [ForgetToken user_id]\<rparr>
           | (_, s) \<Rightarrow> w\<lparr>nw_push := s\<rparr>)
      | _ \<Rightarrow> w)"

fun run_notif_task :: "notif_env \<Rightarrow> notif_task \<Rightarrow> notif_world \<Rightarrow> notif_world" where
  "run_notif_task e (PushToUser u title body img link) w = send_to_user_if_enabled e u title body img link w"
| "run_notif_task e (PushToMany us title body img link) w =
     (case get_push_tokens_batch (ni_social e) us (nw_db w) of
        Inl _ \<Rightarrow> w
      | Inr tokens \<Rightarrow> (case mc_run title body img link (ni_schedule e) (send_multicast tokens (nw_push w)) of
                         None \<Rightarrow> w
                       | Some m \<Rightarrow> w\<lparr>nw_push := mc_push m\<rparr>))"
| "run_notif_task e (BumpUnread us) w = w\<lparr>nw_keys := foldl (\<lambda>k u. bump_unread e u k) (nw_keys w) us\<rparr>"
| "run_notif_task e (ForgetToken u) w = snd (on_db (notif_clear_push_token (ni_social e) u) w)"

end
