(* ===== verification/Notif_Properties.thy ===== *)
theory Notif_Properties
  imports Notif_Service
begin

text \<open>
  The unread counter of a user and the unread rows of the table: what keeps the two together, what drives them apart,
  and what sending one notification does.
\<close>

section \<open>Counting\<close>

lemma filter_one:
  assumes "distinct (map k xs)" and "x \<in> set xs" and "p x"
  shows "length (filter p xs) = Suc (length (filter (\<lambda>y. p y \<and> k y \<noteq> k x) xs))"
  using assms
proof (induction xs)
  case (Cons y ys)
  show ?case
  proof (cases "y = x")
    case True
    have "filter (\<lambda>z. p z \<and> k z \<noteq> k x) ys = filter p ys"
      using Cons.prems(1) True by (intro filter_cong) (auto simp: image_iff)
    with True Cons.prems show ?thesis by simp
  next
    case False
    with Cons have "k y \<noteq> k x" "length (filter p ys) = Suc (length (filter (\<lambda>z. p z \<and> k z \<noteq> k x) ys))" by (auto simp: image_iff)
    then show ?thesis by simp
  qed
qed simp

lemma filter_none: "(\<And>x. x \<in> set xs \<Longrightarrow> p x \<Longrightarrow> k x \<noteq> i) \<Longrightarrow> filter (\<lambda>y. p y \<and> k y \<noteq> i) xs = filter p xs"
  by (intro filter_cong) auto

definition counted :: "uuid \<Rightarrow> notification \<Rightarrow> bool" where
  "counted u n \<longleftrightarrow> owned_unread u n \<and> no_archived_at n = None"

lemma unread_total_counted: "unread_total u d = length (filter (counted u) (sd_notifications d))"
  by (auto simp: unread_total_def counted_def intro!: arg_cong [where f = length] filter_cong)

lemma unread_total_le: "unread_total u d \<le> length (sd_notifications d)"
  by (simp add: unread_total_counted)

text \<open>Taking the one row with an id out of the count.\<close>

lemma count_without:
  assumes "distinct (map no_id xs)"
  shows "length (filter (\<lambda>n. counted u n \<and> no_id n \<noteq> i) xs) =
    length (filter (counted u) xs) - (if list_ex (\<lambda>n. no_id n = i \<and> counted u n) xs then 1 else 0)"
proof (cases "list_ex (\<lambda>n. no_id n = i \<and> counted u n) xs")
  case True
  then obtain x where "x \<in> set xs" "no_id x = i" "counted u x" by (auto simp: list_ex_iff)
  with filter_one [OF assms, of x "counted u"] True show ?thesis by simp
next
  case False
  then have "filter (\<lambda>n. counted u n \<and> no_id n \<noteq> i) xs = filter (counted u) xs"
    by (intro filter_none) (auto simp: list_ex_iff)
  with False show ?thesis by simp
qed

lemma count_read:
  "length (filter (counted u) (map (\<lambda>n. if p n then read_now e n else n) xs)) = length (filter (\<lambda>n. counted u n \<and> \<not> p n) xs)"
  by (induction xs) (auto simp: counted_def owned_unread_def read_now_def)

section \<open>The counter's entry\<close>

definition unread_entry :: "codec \<Rightarrow> int \<Rightarrow> uuid \<Rightarrow> nat \<Rightarrow> keyspace \<Rightarrow> bool" where
  "unread_entry c T u n k \<longleftrightarrow>
     (\<exists>ex. k (key_unread_count c u) = Some (RStr (show_int (int n)), ex) \<and> (case ex of Some t \<Rightarrow> T < t | None \<Rightarrow> True))"

text \<open>A request on a reachable Redis, within an hour before \<open>T\<close>.\<close>

definition timely :: "codec \<Rightarrow> int \<Rightarrow> notif_env \<Rightarrow> bool" where
  "timely c T e \<longleftrightarrow> ni_codec e = c \<and> (\<forall>cmd k. \<not> r_down (ni_redis e) cmd k) \<and>
     r_now (ni_redis e) \<le> T \<and> T < r_now (ni_redis e) + 3600000"

lemma key_unread_inject: "codec_laws c \<Longrightarrow> key_unread_count c u = key_unread_count c v \<longleftrightarrow> u = v"
  using uuid_colon_inject [of c u "''unread''" v "''unread''"] by (simp add: key_unread_count_def)

lemma entry_unread:
  assumes "unread_entry c T u n k" and "t \<le> T"
  shows "\<exists>ex. entry t k (key_unread_count c u) = Some (RStr (show_int (int n)), ex) \<and> (case ex of Some t \<Rightarrow> T < t | None \<Rightarrow> True)"
  using assms by (auto simp: unread_entry_def entry_def split: option.splits)

lemma bump_entry:
  assumes "timely c T e" and "unread_entry c T u n k" and "int n < i64_max"
  shows "unread_entry c T u (n + 1) (bump_unread e u k)"
  using assms entry_unread [OF assms(2), of "r_now (ni_redis e)"]
  by (auto simp: timely_def bump_unread_def redis_incr_def guarded_cmd_def cmd_incrby_def parse_show_int i64_min_def
      i64_max_def unread_entry_def add.commute)

lemma decrement_entry:
  assumes "timely c T e" and "unread_entry c T u n k" and "int n \<le> i64_max" and "0 < n"
  shows "unread_entry c T u (n - 1) (decrement_unread e u k)"
  using assms entry_unread [OF assms(2), of "r_now (ni_redis e)"]
  by (auto simp: timely_def decrement_unread_def guarded_cmd_def cmd_incrby_def parse_show_int i64_min_def
      i64_max_def unread_entry_def Let_def of_nat_diff)

lemma reset_entry:
  assumes "timely c T e" shows "unread_entry c T u 0 (reset_unread e u k)"
  using assms by (auto simp: timely_def reset_unread_def redis_set_def guarded_cmd_def cmd_set_def unread_entry_def)

lemma others_entry:
  assumes "codec_laws c" and "ni_codec e = c" and "u \<noteq> v"
  shows "bump_unread e v k (key_unread_count c u) = k (key_unread_count c u)"
    and "decrement_unread e v k (key_unread_count c u) = k (key_unread_count c u)"
    and "reset_unread e v k (key_unread_count c u) = k (key_unread_count c u)"
  using key_unread_inject [OF assms(1), of u v] assms(2,3)
  by (auto simp: bump_unread_def decrement_unread_def reset_unread_def redis_incr_def redis_set_def guarded_cmd_def
      cmd_incrby_def cmd_set_def Let_def split: option.splits rvalue.splits sum.splits prod.splits if_splits)

lemma keeps_entry:
  assumes "codec_laws c" and "timely c T e" and "unread_entry c T u n k"
  shows "int n < i64_max \<Longrightarrow> unread_entry c T u (if v = u then n + 1 else n) (bump_unread e v k)"
    and "int n < i64_max \<Longrightarrow> (v = u \<Longrightarrow> 0 < n) \<Longrightarrow> unread_entry c T u (if v = u then n - 1 else n) (decrement_unread e v k)"
    and "unread_entry c T u (if v = u then 0 else n) (reset_unread e v k)"
proof -
  have c: "ni_codec e = c" using assms(2) by (simp add: timely_def)
  note oth = others_entry [OF assms(1) c, of u v k]
  have same: "unread_entry c T u n k'" if "k' (key_unread_count c u) = k (key_unread_count c u)" for k'
    using that assms(3) by (simp add: unread_entry_def)
  show "int n < i64_max \<Longrightarrow> unread_entry c T u (if v = u then n + 1 else n) (bump_unread e v k)"
    using bump_entry [OF assms(2,3)] same oth(1) by auto
  show "int n < i64_max \<Longrightarrow> (v = u \<Longrightarrow> 0 < n) \<Longrightarrow> unread_entry c T u (if v = u then n - 1 else n) (decrement_unread e v k)"
    using decrement_entry [OF assms(2,3)] same oth(2) by auto
  show "unread_entry c T u (if v = u then 0 else n) (reset_unread e v k)"
    using reset_entry [OF assms(2)] same oth(3) by auto
qed

section \<open>Requests\<close>

text \<open>What changes a user's notifications: a notification sent, one or all marked read, one deleted.\<close>

datatype notif_request =
    Notify string "user_summary option" "uuid option" "string option" | MarkRead_req uuid | MarkAll_req | Delete_req uuid

fun after_notif :: "notif_env \<Rightarrow> uuid \<Rightarrow> notif_request \<Rightarrow> notif_world \<Rightarrow> notif_world" where
  "after_notif e u (Notify ty actor b title) w = snd (notify e u ty actor b title w)"
| "after_notif e u (MarkRead_req i) w = snd (mark_read e i u w)"
| "after_notif e u MarkAll_req w = snd (mark_all_read e u w)"
| "after_notif e u (Delete_req i) w = snd (notification_delete e i u w)"

definition notif_inv :: "codec \<Rightarrow> int \<Rightarrow> uuid \<Rightarrow> notif_world \<Rightarrow> bool" where
  "notif_inv c T u w \<longleftrightarrow> distinct (map no_id (sd_notifications (nw_db w))) \<and>
     (\<forall>n \<in> set (sd_notifications (nw_db w)). no_archived_at n = None) \<and>
     unread_entry c T u (unread_total u (nw_db w)) (nw_keys w)"

text \<open>What each request does to the table and the counter, when it succeeds and when it fails.\<close>

lemma notify_shape:
  "(nw_db (after_notif e v (Notify ty actor b title) w), nw_keys (after_notif e v (Notify ty actor b title) w)) = (nw_db w, nw_keys w) \<or>
   (\<exists>n. no_owner_id n = v \<and> \<not> no_read n \<and> no_archived_at n = None \<and> no_id n \<notin> no_id ` set (sd_notifications (nw_db w)) \<and>
      nw_db (after_notif e v (Notify ty actor b title) w) = (nw_db w)\<lparr>sd_notifications := sd_notifications (nw_db w) @ [n]\<rparr> \<and>
      nw_keys (after_notif e v (Notify ty actor b title) w) = bump_unread e v (nw_keys w))"
proof -
  obtain r w' where g: "get_template e ty w = (r, w')" by fastforce
  have k: "nw_db w' = nw_db w" "nw_keys w' = nw_keys w"
    using g by (auto simp: get_template_def split: option.splits sum.splits)
  show ?thesis
  proof (cases r)
    case (Inl err)
    with g k show ?thesis by (simp add: notify_def svc_bind_def)
  next
    case (Inr t)
    define n where "n = new_notification (ni_social e) 0 v (tp_id t) (map_option us_id actor) b None"
    obtain ti bo im where rt: "resolve_template e t (build_vars actor title) = (ti, bo, im)" by (rule prod_cases3)
    have n: "no_owner_id n = v \<and> \<not> no_read n \<and> no_archived_at n = None" by (simp add: n_def new_notification_def)
    show ?thesis
      using g Inr k rt n
      by (auto simp: notify_def svc_bind_def on_db_def notif_create_def so_exec_def Let_def n_def [symmetric]
          tell_user_def svc_modify_def notif_spawn_def on_keys_def split: option.splits if_splits)
  qed
qed

lemma mark_read_shape:
  "(nw_db (after_notif e v (MarkRead_req i) w), nw_keys (after_notif e v (MarkRead_req i) w)) = (nw_db w, nw_keys w) \<or>
   (nw_db (after_notif e v (MarkRead_req i) w) = set_read (ni_social e) (\<lambda>n. no_id n = i \<and> owned_unread v n) (nw_db w) \<and>
    nw_keys (after_notif e v (MarkRead_req i) w) =
      (if list_ex (\<lambda>n. no_id n = i \<and> owned_unread v n) (sd_notifications (nw_db w)) then decrement_unread e v (nw_keys w) else nw_keys w))"
  by (simp add: mark_read_def svc_bind_def on_db_def notif_mark_read_def so_exec_def on_keys_def svc_modify_def svc_return_def
      split: option.split)

lemma mark_all_shape:
  "(nw_db (after_notif e v MarkAll_req w), nw_keys (after_notif e v MarkAll_req w)) = (nw_db w, nw_keys w) \<or>
   (nw_db (after_notif e v MarkAll_req w) = set_read (ni_social e) (\<lambda>n. owned_unread v n \<and> no_archived_at n = None) (nw_db w) \<and>
    nw_keys (after_notif e v MarkAll_req w) = reset_unread e v (nw_keys w))"
  by (simp add: mark_all_read_def svc_bind_def on_db_def notif_mark_all_read_def so_exec_def on_keys_def svc_modify_def svc_return_def
      split: option.split)

lemma delete_shape:
  "(nw_db (after_notif e v (Delete_req i) w), nw_keys (after_notif e v (Delete_req i) w)) = (nw_db w, nw_keys w) \<or>
   (nw_db (after_notif e v (Delete_req i) w) = (nw_db w)\<lparr>sd_notifications :=
      filter (\<lambda>n. \<not> (no_id n = i \<and> no_owner_id n = v)) (sd_notifications (nw_db w))\<rparr> \<and>
    nw_keys (after_notif e v (Delete_req i) w) =
      (if row_unread i v (sd_notifications (nw_db w)) then decrement_unread e v (nw_keys w) else nw_keys w))"
  by (cases "sv_fault (ni_social e) IsUnread"; cases "sv_fault (ni_social e) DeleteNotif")
    (simp_all add: notification_delete_def svc_bind_def on_db_def reading_def notif_is_unread_def so_sql_def notif_delete_def
      so_exec_def on_keys_def svc_modify_def svc_return_def)

lemma find_unread:
  assumes "distinct (map no_id xs)"
  shows "row_unread i v xs \<longleftrightarrow> list_ex (\<lambda>n. no_id n = i \<and> owned_unread v n) xs"
  unfolding row_unread_def using assms by (induction xs) (auto simp: owned_unread_def list_ex_iff)

section \<open>The counter stays exact\<close>

lemma inv_unchanged:
  "notif_inv c T u w \<Longrightarrow> (nw_db w', nw_keys w') = (nw_db w, nw_keys w) \<Longrightarrow> notif_inv c T u w'"
  by (simp add: notif_inv_def)

lemma inv_notify:
  assumes "codec_laws c" and "timely c T e" and "notif_inv c T u w" and "int (length (sd_notifications (nw_db w))) < i64_max"
  shows "notif_inv c T u (after_notif e v (Notify ty actor b title) w)"
proof (rule disjE [OF notify_shape [of e v ty actor b title w]], goal_cases)
  case 1
  then show ?case by (rule inv_unchanged [OF assms(3)])
next
  case 2
  then obtain n where n: "no_owner_id n = v" "\<not> no_read n" "no_archived_at n = None"
      "no_id n \<notin> no_id ` set (sd_notifications (nw_db w))"
    and db: "nw_db (after_notif e v (Notify ty actor b title) w) = (nw_db w)\<lparr>sd_notifications := sd_notifications (nw_db w) @ [n]\<rparr>"
    and ks: "nw_keys (after_notif e v (Notify ty actor b title) w) = bump_unread e v (nw_keys w)" by blast
  let ?k = "unread_total u (nw_db w)"
  have le: "int ?k < i64_max" using assms(4) unread_total_le [of u "nw_db w"] by arith
  have tot: "unread_total u ((nw_db w)\<lparr>sd_notifications := sd_notifications (nw_db w) @ [n]\<rparr>) = (if v = u then ?k + 1 else ?k)"
    using n by (simp add: unread_total_counted counted_def owned_unread_def)
  have "unread_entry c T u (if v = u then ?k + 1 else ?k) (bump_unread e v (nw_keys w))"
    using keeps_entry(1) [OF assms(1,2) _ le] assms(3) unfolding notif_inv_def by blast
  with assms(3) n show ?case unfolding notif_inv_def db ks tot by auto
qed

lemma count_set_read:
  "unread_total u (set_read e p d) = length (filter (\<lambda>n. counted u n \<and> \<not> p n) (sd_notifications d))"
  using count_read [of u p e "sd_notifications d"] by (simp add: unread_total_counted set_read_def)

lemma set_read_ids: "map no_id (sd_notifications (set_read e p d)) = map no_id (sd_notifications d)"
  by (simp add: set_read_def read_now_def)

lemma set_read_archived:
  "\<forall>n \<in> set (sd_notifications d). no_archived_at n = None \<Longrightarrow> \<forall>n \<in> set (sd_notifications (set_read e p d)). no_archived_at n = None"
  by (auto simp: set_read_def read_now_def)

lemma no_archived_ex:
  "\<forall>n \<in> set xs. no_archived_at n = None \<Longrightarrow>
   list_ex (\<lambda>n. no_id n = i \<and> counted u n) xs = list_ex (\<lambda>n. no_id n = i \<and> owned_unread u n) xs"
  by (auto simp: list_ex_iff counted_def)

text \<open>One unread row of \<open>v\<close>, by its id, taken out of the counts of \<open>u\<close>.\<close>

lemma count_drop:
  assumes "distinct (map no_id xs)" and "\<forall>n \<in> set xs. no_archived_at n = None"
    and "list_ex (\<lambda>n. no_id n = i \<and> owned_unread v n) xs"
  shows "length (filter (\<lambda>n. counted u n \<and> \<not> (no_id n = i \<and> no_owner_id n = v)) xs) =
      (if v = u then length (filter (counted u) xs) - 1 else length (filter (counted u) xs))"
    and "v = u \<Longrightarrow> 0 < length (filter (counted u) xs)"
proof -
  have eq: "filter (\<lambda>n. counted u n \<and> \<not> (no_id n = i \<and> no_owner_id n = v)) xs =
      (if v = u then filter (\<lambda>n. counted u n \<and> no_id n \<noteq> i) xs else filter (counted u) xs)"
    by (auto simp: counted_def owned_unread_def intro: filter_cong)
  show "length (filter (\<lambda>n. counted u n \<and> \<not> (no_id n = i \<and> no_owner_id n = v)) xs) =
      (if v = u then length (filter (counted u) xs) - 1 else length (filter (counted u) xs))"
    unfolding eq using count_without [OF assms(1), of u i] assms(3) no_archived_ex [OF assms(2), of i u] by (cases "v = u") auto
  show "v = u \<Longrightarrow> 0 < length (filter (counted u) xs)"
    using assms(2,3) by (auto simp: list_ex_iff counted_def filter_empty_conv)
qed

lemma counted_read: "counted u n \<and> \<not> (no_id n = i \<and> owned_unread v n) \<longleftrightarrow> counted u n \<and> \<not> (no_id n = i \<and> no_owner_id n = v)"
  by (auto simp: counted_def owned_unread_def)

lemma inv_mark_read:
  assumes "codec_laws c" and "timely c T e" and "notif_inv c T u w" and "int (length (sd_notifications (nw_db w))) < i64_max"
  shows "notif_inv c T u (after_notif e v (MarkRead_req i) w)"
proof (rule disjE [OF mark_read_shape [of e v i w]], goal_cases)
  case 1
  then show ?case by (rule inv_unchanged [OF assms(3)])
next
  case 2
  let ?d = "nw_db w" and ?hit = "list_ex (\<lambda>n. no_id n = i \<and> owned_unread v n) (sd_notifications (nw_db w))"
  let ?s = "set_read (ni_social e) (\<lambda>n. no_id n = i \<and> owned_unread v n) (nw_db w)"
  have inv: "distinct (map no_id (sd_notifications ?d))" "\<forall>n \<in> set (sd_notifications ?d). no_archived_at n = None"
    "unread_entry c T u (unread_total u ?d) (nw_keys w)" using assms(3) by (simp_all add: notif_inv_def)
  have le: "int (unread_total u ?d) < i64_max" using assms(4) unread_total_le [of u ?d] by arith
  have "unread_entry c T u (unread_total u ?s) (if ?hit then decrement_unread e v (nw_keys w) else nw_keys w)"
  proof (cases ?hit)
    case True
    have "unread_total u ?s = (if v = u then unread_total u ?d - 1 else unread_total u ?d)"
      unfolding count_set_read counted_read unfolding unread_total_counted by (rule count_drop(1) [OF inv(1,2) True])
    with keeps_entry(2) [OF assms(1,2) inv(3) le, of v] count_drop(2) [OF inv(1,2) True, of u] True
    show ?thesis by (simp add: unread_total_counted)
  next
    case False
    then have "unread_total u ?s = unread_total u ?d"
      unfolding count_set_read unfolding unread_total_counted by (auto simp: list_ex_iff intro!: arg_cong [where f = length] filter_cong)
    with inv(3) False show ?thesis by simp
  qed
  with 2 inv set_read_archived [OF inv(2)] show ?case by (simp add: notif_inv_def set_read_ids)
qed

lemma inv_mark_all:
  assumes "codec_laws c" and "timely c T e" and "notif_inv c T u w"
  shows "notif_inv c T u (after_notif e v MarkAll_req w)"
proof (rule disjE [OF mark_all_shape [of e v w]], goal_cases)
  case 1
  then show ?case by (rule inv_unchanged [OF assms(3)])
next
  case 2
  let ?d = "nw_db w" and ?s = "set_read (ni_social e) (\<lambda>n. owned_unread v n \<and> no_archived_at n = None) (nw_db w)"
  have inv: "distinct (map no_id (sd_notifications ?d))" "\<forall>n \<in> set (sd_notifications ?d). no_archived_at n = None"
    "unread_entry c T u (unread_total u ?d) (nw_keys w)" using assms(3) by (simp_all add: notif_inv_def)
  have "unread_total u ?s = (if v = u then 0 else unread_total u ?d)"
    unfolding count_set_read unfolding unread_total_counted
    by (auto simp: counted_def owned_unread_def filter_empty_conv intro!: arg_cong [where f = length] filter_cong)
  with keeps_entry(3) [OF assms(1,2) inv(3), of v] 2 inv set_read_archived [OF inv(2)]
  show ?case by (simp add: notif_inv_def set_read_ids)
qed

lemma inv_delete:
  assumes "codec_laws c" and "timely c T e" and "notif_inv c T u w" and "int (length (sd_notifications (nw_db w))) < i64_max"
  shows "notif_inv c T u (after_notif e v (Delete_req i) w)"
proof (rule disjE [OF delete_shape [of e v i w]], goal_cases)
  case 1
  then show ?case by (rule inv_unchanged [OF assms(3)])
next
  case 2
  let ?xs = "sd_notifications (nw_db w)"
  let ?s = "(nw_db w)\<lparr>sd_notifications := filter (\<lambda>n. \<not> (no_id n = i \<and> no_owner_id n = v)) ?xs\<rparr>"
  let ?hit = "list_ex (\<lambda>n. no_id n = i \<and> owned_unread v n) ?xs"
  have inv: "distinct (map no_id ?xs)" "\<forall>n \<in> set ?xs. no_archived_at n = None"
    "unread_entry c T u (unread_total u (nw_db w)) (nw_keys w)" using assms(3) by (simp_all add: notif_inv_def)
  have le: "int (unread_total u (nw_db w)) < i64_max" using assms(4) unread_total_le [of u "nw_db w"] by arith
  have tot: "unread_total u ?s = length (filter (\<lambda>n. counted u n \<and> \<not> (no_id n = i \<and> no_owner_id n = v)) ?xs)"
    by (simp add: unread_total_counted conj_commute)
  have "unread_entry c T u (unread_total u ?s) (if ?hit then decrement_unread e v (nw_keys w) else nw_keys w)"
  proof (cases ?hit)
    case True
    with keeps_entry(2) [OF assms(1,2) inv(3) le, of v] count_drop [OF inv(1,2) True, of u]
    show ?thesis unfolding tot by (cases "v = u") (simp_all add: unread_total_counted)
  next
    case False
    then have "unread_total u ?s = unread_total u (nw_db w)" unfolding tot
      by (auto simp: unread_total_counted list_ex_iff counted_def owned_unread_def intro!: arg_cong [where f = length] filter_cong)
    with inv(3) False show ?thesis by simp
  qed
  with 2 [unfolded find_unread [OF inv(1)]] inv show ?case by (simp add: notif_inv_def distinct_map_filter)
qed

lemma after_notif_inv:
  assumes "codec_laws c" and "timely c T e" and "notif_inv c T u w" and "int (length (sd_notifications (nw_db w))) < i64_max"
  shows "notif_inv c T u (after_notif e v r w)"
  using inv_notify [OF assms] inv_mark_read [OF assms] inv_mark_all [OF assms(1-3)] inv_delete [OF assms] by (cases r) simp_all

lemma after_notif_length:
  "length (sd_notifications (nw_db (after_notif e v r w))) \<le> Suc (length (sd_notifications (nw_db w)))"
proof (cases r)
  case (Notify ty actor b title)
  with notify_shape [of e v ty actor b title w] show ?thesis by auto
next
  case (MarkRead_req i)
  with mark_read_shape [of e v i w] show ?thesis by (auto simp: set_read_def)
next
  case MarkAll_req
  with mark_all_shape [of e v w] show ?thesis by (auto simp: set_read_def)
next
  case (Delete_req i)
  with delete_shape [of e v i w] show ?thesis by (auto simp: le_SucI)
qed

lemma notif_run_inv:
  assumes "codec_laws c" and "\<forall>(e, v, r) \<in> set rs. timely c T e" and "notif_inv c T u w"
    and "int (length (sd_notifications (nw_db w)) + length rs) < i64_max"
  shows "notif_inv c T u (foldl (\<lambda>w (e, v, r). after_notif e v r w) w rs) \<and>
    int (length (sd_notifications (nw_db (foldl (\<lambda>w (e, v, r). after_notif e v r w) w rs)))) < i64_max"
  using assms(2-)
proof (induction rs arbitrary: w)
  case (Cons x rs)
  obtain e v r where x: "x = (e, v, r)" by (cases x)
  have "notif_inv c T u (after_notif e v r w)" using Cons.prems by (intro after_notif_inv [OF assms(1)]) (auto simp: x)
  from Cons.IH [OF _ this] Cons.prems after_notif_length [of e v r w] show ?case by (simp add: x)
qed simp


section \<open>The counter drifts\<close>

text \<open>Nothing loads the counter from the table, and a decrement of a missing entry stores a zero. So a user with several
  unread notifications and no entry who reads one of them is told there are none left, and for as long as the entry
  stays, which has no expiry.
\<close>

theorem counter_drifts:
  assumes "codec_laws c" and "ni_codec e = c" and "\<forall>cmd k. \<not> r_down (ni_redis e) cmd k"
    and "entry (r_now (ni_redis e)) (nw_keys w) (key_unread_count c u) = None"
    and "sv_fault (ni_social e) MarkRead = None" and "distinct (map no_id (sd_notifications (nw_db w)))"
    and "n \<in> set (sd_notifications (nw_db w))" and "owned_unread u n" and "no_archived_at n = None"
  shows "unread_total u (nw_db (after_notif e u (MarkRead_req (no_id n)) w)) = unread_total u (nw_db w) - 1 \<and>
    unread_count (e\<lparr>ni_redis := (ni_redis e)\<lparr>r_now := later\<rparr>\<rparr>) u (after_notif e u (MarkRead_req (no_id n)) w) = Inr 0"
proof -
  let ?xs = "sd_notifications (nw_db w)"
  have hit: "list_ex (\<lambda>m. no_id m = no_id n \<and> owned_unread u m) ?xs" using assms(7,8) by (auto simp: list_ex_iff)
  have db: "nw_db (after_notif e u (MarkRead_req (no_id n)) w) =
      set_read (ni_social e) (\<lambda>m. no_id m = no_id n \<and> owned_unread u m) (nw_db w)"
    and ks: "nw_keys (after_notif e u (MarkRead_req (no_id n)) w) = decrement_unread e u (nw_keys w)"
    using assms(5) hit by (simp_all add: mark_read_def svc_bind_def on_db_def notif_mark_read_def so_exec_def on_keys_def
        svc_modify_def svc_return_def)
  have "list_ex (\<lambda>m. no_id m = no_id n \<and> counted u m) ?xs" using assms(7-9) by (auto simp: list_ex_iff counted_def)
  moreover have "filter (\<lambda>m. counted u m \<and> \<not> (no_id m = no_id n \<and> owned_unread u m)) ?xs = filter (\<lambda>m. counted u m \<and> no_id m \<noteq> no_id n) ?xs"
    by (intro filter_cong) (auto simp: counted_def)
  ultimately have tot: "unread_total u (nw_db (after_notif e u (MarkRead_req (no_id n)) w)) = unread_total u (nw_db w) - 1"
    using count_without [OF assms(6), of u "no_id n"] unfolding db count_set_read unfolding unread_total_counted by simp
  have dec: "decrement_unread e u (nw_keys w) (key_unread_count c u) = Some (RStr ''0'', None)"
    using assms(2-4) by (simp add: decrement_unread_def guarded_cmd_def cmd_incrby_def cmd_set_def Let_def)
  have zero: "json_i64 ''0'' = Some 0" by code_simp
  have "unread_count (e\<lparr>ni_redis := (ni_redis e)\<lparr>r_now := later\<rparr>\<rparr>) u (after_notif e u (MarkRead_req (no_id n)) w) = Inr 0"
    using assms(2,3) zero dec
    by (simp add: unread_count_def ks [unfolded after_notif.simps] redis_get_def cmd_get_def entry_def ni_codec_def)
  with tot show ?thesis by blast
qed

end
