(* ===== verification/Subscribers.thy ===== *)
theory Subscribers
  imports Notif_Properties Chat_History
begin

text \<open>
  \<open>modules/subscribers/service.rs\<close>: following and unfollowing a user, and the four listings; then what they do to the
  table and to the person followed, and that following the pages of a listing shows every follower once.
\<close>

section \<open>The service\<close>

definition user_summary_of :: "account \<Rightarrow> user_summary" where
  "user_summary_of a =
     \<lparr>us_id = account_id a, us_full_name = pf_full_name (ua_profile a), us_bio = pf_bio (ua_profile a),
      us_avatar_id = pf_avatar_id (ua_profile a), us_avatar_url = pf_avatar_url (ua_profile a)\<rparr>"

definition subscription_target :: "notif_env \<Rightarrow> uuid \<Rightarrow> social_db \<Rightarrow> subscribers_error + account" where
  "subscription_target e i d =
     (case find_account_by_id (ni_social e) i d of
        Inl err \<Rightarrow> Inl (SubscribersDatabase err)
      | Inr user \<Rightarrow> ok_or user SubscriberNotFound)"

definition subscribe :: "notif_env \<Rightarrow> uuid \<Rightarrow> uuid \<Rightarrow> (notif_world, subscribers_error, unit) steps" where
  "subscribe e auth_id subscription_id =
     svc_bind (svc_refuse (auth_id = subscription_id) CannotSubscribeToSelf) (\<lambda>_.
     svc_bind (reading (subscription_target e subscription_id)) (\<lambda>user.
     svc_bind (on_db (subs_create (ni_social e) auth_id subscription_id)) (\<lambda>_.
     svc_modify (\<lambda>w. snd (notify e subscription_id USER_SUBSCRIBED (Some (user_summary_of user)) None None w)))))"

definition unsubscribe :: "notif_env \<Rightarrow> uuid \<Rightarrow> uuid \<Rightarrow> (notif_world, subscribers_error, unit) steps" where
  "unsubscribe e auth_id subscription_id =
     svc_bind (svc_refuse (auth_id = subscription_id) CannotSubscribeToSelf) (\<lambda>_.
     svc_bind (reading (subscription_target e subscription_id)) (\<lambda>_.
     on_db (subs_delete (ni_social e) auth_id subscription_id)))"

definition subscriber_cursor :: "codec \<Rightarrow> subscriber_item \<Rightarrow> cursor" where
  "subscriber_cursor c r = from_timestamp_id c (sb_subscribed_at r) (sb_id r)"

definition get_user_subscribers ::
    "social_env \<Rightarrow> uuid \<Rightarrow> uuid \<Rightarrow> cursor_params \<Rightarrow> social_db \<Rightarrow> subscribers_error + subscriber_item cursor_page" where
  "get_user_subscribers e auth_id user_id params d =
     bind_res (subs_user_exists e user_id d) (\<lambda>known.
     if \<not> known then Inl SubscriberNotFound
     else bind_res (find_subscribers e user_id (Some auth_id) params d) (\<lambda>rows.
       Inr (from_rows rows (page_limit params) (subscriber_cursor (sv_codec e)))))"

definition get_user_subscriptions ::
    "social_env \<Rightarrow> uuid \<Rightarrow> uuid \<Rightarrow> cursor_params \<Rightarrow> social_db \<Rightarrow> subscribers_error + subscriber_item cursor_page" where
  "get_user_subscriptions e auth_id user_id params d =
     bind_res (subs_user_exists e user_id d) (\<lambda>known.
     if \<not> known then Inl SubscriberNotFound
     else bind_res (find_subscriptions e user_id (Some auth_id) params d) (\<lambda>rows.
       Inr (from_rows rows (page_limit params) (subscriber_cursor (sv_codec e)))))"

definition get_my_subscribers ::
    "social_env \<Rightarrow> uuid \<Rightarrow> cursor_params \<Rightarrow> social_db \<Rightarrow> subscribers_error + subscriber_item cursor_page" where
  "get_my_subscribers e auth_id params d =
     bind_res (subs_user_exists e auth_id d) (\<lambda>known.
     if \<not> known then Inl SubscriberNotFound
     else bind_res (find_subscribers e auth_id (Some auth_id) params d) (\<lambda>rows.
       Inr (from_rows rows (page_limit params) (subscriber_cursor (sv_codec e)))))"

definition get_my_subscriptions ::
    "social_env \<Rightarrow> uuid \<Rightarrow> cursor_params \<Rightarrow> social_db \<Rightarrow> subscribers_error + subscriber_item cursor_page" where
  "get_my_subscriptions e auth_id params d =
     bind_res (subs_user_exists e auth_id d) (\<lambda>known.
     if \<not> known then Inl SubscriberNotFound
     else bind_res (find_subscriptions e auth_id (Some auth_id) params d) (\<lambda>rows.
       Inr (from_rows rows (page_limit params) (subscriber_cursor (sv_codec e)))))"

section \<open>What following does\<close>

lemma notify_subs: "sd_subs (nw_db (snd (notify e v ty actor b title w))) = sd_subs (nw_db w)"
  using notify_shape [of e v ty actor b title w] by auto

lemma subscribe_ok:
  assumes "subscribe e a b w = (Inr (), w')"
  obtains user w1 where "a \<noteq> b" "subscription_target e b (nw_db w) = Inr user"
    "on_db (subs_create (ni_social e) a b) w = (Inr (), w1)"
    "w' = snd (notify e b USER_SUBSCRIBED (Some (user_summary_of user)) None None w1)"
  using assms by (auto simp: subscribe_def svc_ok reading_def)

lemma created_subs:
  assumes "on_db (subs_create e a b) w = (Inr (), w1)"
  shows "sd_subs (nw_db w1) = (if follows (nw_db w) a b then sd_subs (nw_db w)
      else sd_subs (nw_db w) @ [\<lparr>su_subscriber = a, su_subscription = b, su_created_at = sv_db_now e\<rparr>])"
    and "sd_users (nw_db w1) = sd_users (nw_db w)" and "a \<noteq> b"
  using assms by (auto simp: on_db_def subs_create_def so_exec_def split: option.splits if_splits)

lemma target_users: "sd_users d' = sd_users d \<Longrightarrow> subscription_target e i d' = subscription_target e i d"
  by (simp add: subscription_target_def find_account_by_id_def)

lemma notify_users: "sd_users (nw_db (snd (notify e v ty actor b title w))) = sd_users (nw_db w)"
  using notify_shape [of e v ty actor b title w] by auto

text \<open>Following somebody and unfollowing them again leaves the table of subscriptions as it was, whatever the notification
  in between did; and following twice is following once.
\<close>

theorem follow_unfollow:
  assumes "subscribe e a b w = (Inr (), w1)" and "\<not> follows (nw_db w) a b"
    and "sv_fault (ni_social e') FindUser = None" and "sv_fault (ni_social e') DeleteSub = None"
  shows "follows (nw_db w1) a b \<and> sd_subs (nw_db (snd (subscribe e' a b w1))) = sd_subs (nw_db w1) \<and>
    (\<exists>w2. unsubscribe e' a b w1 = (Inr (), w2) \<and> sd_subs (nw_db w2) = sd_subs (nw_db w))"
proof -
  from assms(1) obtain user v where ab: "a \<noteq> b" and user: "subscription_target e b (nw_db w) = Inr user"
    and v: "on_db (subs_create (ni_social e) a b) w = (Inr (), v)"
    and w1: "w1 = snd (notify e b USER_SUBSCRIBED (Some (user_summary_of user)) None None v)"
    by (rule subscribe_ok)
  note subs = created_subs [OF v]
  have s1: "sd_subs (nw_db w1) = sd_subs (nw_db w) @ [\<lparr>su_subscriber = a, su_subscription = b, su_created_at = sv_db_now (ni_social e)\<rparr>]"
    using subs(1) assms(2) by (simp add: w1 notify_subs)
  have t: "subscription_target e' b (nw_db w1) = Inr user"
    using user assms(3) by (simp add: w1 notify_users subs(2) subscription_target_def find_account_by_id_def so_sql_def
        split: option.splits)
  have f: "follows (nw_db w1) a b" by (simp add: follows_def s1)
  have kept: "filter (\<lambda>s. \<not> (su_subscriber s = a \<and> su_subscription s = b)) (sd_subs (nw_db w)) = sd_subs (nw_db w)"
    using assms(2) by (auto simp: follows_def list_ex_iff filter_id_conv)
  have "\<exists>w2. unsubscribe e' a b w1 = (Inr (), w2) \<and> sd_subs (nw_db w2) = sd_subs (nw_db w)"
    using ab t assms(4) kept
    by (simp add: unsubscribe_def svc_bind_def svc_refuse_def reading_def on_db_def subs_delete_def so_exec_def s1)
  moreover have "sd_subs (nw_db (snd (subscribe e' a b w1))) = sd_subs (nw_db w1)"
    using ab t f
    by (cases "sv_fault (ni_social e') CreateSub")
      (simp_all add: subscribe_def svc_bind_def svc_refuse_def reading_def on_db_def subs_create_def so_exec_def svc_modify_def notify_subs)
  ultimately show ?thesis using f by blast
qed

text \<open>
  The person followed is told that they followed themselves: the notification a successful subscription leaves in the
  table names its owner as its actor, not the new follower.
\<close>

theorem follower_not_named:
  assumes "subscribe e a b w = (Inr (), w')" and "sd_notifications (nw_db w') \<noteq> sd_notifications (nw_db w)"
  shows "\<exists>n. sd_notifications (nw_db w') = sd_notifications (nw_db w) @ [n] \<and>
    no_owner_id n = b \<and> no_actor_id n = Some b \<and> no_actor_id n \<noteq> Some a"
proof -
  from assms(1) obtain user v where ab: "a \<noteq> b" and user: "subscription_target e b (nw_db w) = Inr user"
    and v: "on_db (subs_create (ni_social e) a b) w = (Inr (), v)"
    and w': "w' = snd (notify e b USER_SUBSCRIBED (Some (user_summary_of user)) None None v)"
    by (rule subscribe_ok)
  have same: "sd_notifications (nw_db v) = sd_notifications (nw_db w)"
    using v by (auto simp: on_db_def subs_create_def so_exec_def split: option.splits if_splits)
  have id: "account_id user = b" using user
    by (auto simp: subscription_target_def find_account_by_id_def so_sql_def ok_or_def dest!: find_Some_mem split: option.splits sum.splits)
  obtain r v' where g: "get_template e USER_SUBSCRIBED v = (r, v')" by fastforce
  have k: "nw_db v' = nw_db v" using g by (auto simp: get_template_def split: option.splits sum.splits)
  show ?thesis
  proof (cases r)
    case (Inl err)
    with g k same assms(2) show ?thesis by (simp add: w' notify_def svc_bind_def)
  next
    case (Inr t)
    obtain ti bo im where rt: "resolve_template e t (build_vars (Some (user_summary_of user)) None) = (ti, bo, im)"
      by (rule prod_cases3)
    show ?thesis using g Inr k rt assms(2) same ab id
      by (auto simp: w' notify_def svc_bind_def on_db_def notif_create_def so_exec_def Let_def new_notification_def
          tell_user_def svc_modify_def notif_spawn_def on_keys_def user_summary_of_def split: option.splits if_splits)
  qed
qed

section \<open>The listing as a feed\<close>

definition followers_of :: "(subscription \<Rightarrow> uuid) \<Rightarrow> (subscription \<Rightarrow> uuid) \<Rightarrow> uuid \<Rightarrow> uuid \<Rightarrow> social_db \<Rightarrow> subscriber_item list" where
  "followers_of this other viewer i d =
     map (\<lambda>r. r\<lparr>sb_is_following := follows d viewer (sb_id r)\<rparr>)
       (concat (map (join_user d other) (filter (\<lambda>s. this s = i) (sd_subs d))))"

lemma marked_page:
  assumes "sv_fault e BatchFollowed = None"
  shows "bind_res (batch_is_subscribed e viewer (map sb_id rows) d) (\<lambda>followed. Inr (map (mark_followed followed) rows)) =
    Inr (map (\<lambda>r. r\<lparr>sb_is_following := follows d viewer (sb_id r)\<rparr>) rows)"
proof (cases "rows = []")
  case False
  have "sb_id r \<in> su_subscription ` {s \<in> set (sd_subs d). su_subscriber s = viewer \<and> su_subscription s \<in> sb_id ` set rows}
      \<longleftrightarrow> follows d viewer (sb_id r)" if "r \<in> set rows" for r
    using that by (force simp: follows_def list_ex_iff)
  then have "mark_followed (map su_subscription (filter (\<lambda>s. su_subscriber s = viewer \<and> su_subscription s \<in> sb_id ` set rows) (sd_subs d))) r =
      r\<lparr>sb_is_following := follows d viewer (sb_id r)\<rparr>" if "r \<in> set rows" for r
    using that by (simp add: mark_followed_def)
  with False assms show ?thesis by (simp add: batch_is_subscribed_def so_sql_def cong: map_cong)
qed (simp add: batch_is_subscribed_def)

lemma mark_cursor:
  "push_cursor_condition sb_subscribed_at sb_id x y ord r =
     push_cursor_condition sb_subscribed_at sb_id x y ord (r\<lparr>sb_is_following := f\<rparr>)"
  by (cases x; cases y) (simp_all add: push_cursor_condition_def)

lemma marked_feed:
  "map (\<lambda>r. r\<lparr>sb_is_following := p r\<rparr>) (push_order_and_limit sb_subscribed_at sb_id ord n
      (filter (push_cursor_condition sb_subscribed_at sb_id x y ord) rows)) =
   push_order_and_limit sb_subscribed_at sb_id ord n
      (filter (push_cursor_condition sb_subscribed_at sb_id x y ord) (map (\<lambda>r. r\<lparr>sb_is_following := p r\<rparr>) rows))"
  by (simp add: push_order_and_limit_def sql_order_by_map take_map filter_map comp_def mark_cursor [symmetric])

lemma list_subs_feed:
  assumes "sv_fault e ListSubs = None" and "sv_fault e BatchFollowed = None"
  shows "bind_res (list_subs e this other i (Some viewer) \<lparr>cp_cursor = cur, cp_limit = lim\<rparr> d) (\<lambda>rows.
      Inr (from_rows rows (page_limit \<lparr>cp_cursor = cur, cp_limit = lim\<rparr>) (subscriber_cursor (sv_codec e)))) =
    (case ts_feed (sv_codec e, Desc, lim, sb_subscribed_at, sb_id, followers_of this other viewer i d) cur of
       Inl err \<Rightarrow> Inl (SubscribersCursor err) | Inr p \<Rightarrow> Inr p)"
proof -
  have q: "so_sql e ListSubs f v = Inr v" for f :: "string \<Rightarrow> subscribers_error" and v :: "subscriber_item list"
    using assms(1) by (simp add: so_sql_def)
  show ?thesis
  proof (cases cur)
    case None
    then show ?thesis
      by (simp add: list_subs_def read_params_def ts_feed_def followers_of_def q marked_page [OF assms(2)] marked_feed
          subscriber_cursor_def [abs_def] Let_def)
  next
    case (Some c)
    then show ?thesis
      by (cases "to_timestamp_id (sv_codec e) c")
        (simp_all add: list_subs_def read_params_def ts_feed_def followers_of_def q marked_page [OF assms(2)] marked_feed
          subscriber_cursor_def [abs_def] Let_def split: prod.split)
  qed
qed

text \<open>Each row of the listing is a different user.\<close>

lemma join_user_single:
  assumes "distinct (map account_id (sd_users d))"
  shows "distinct (map sb_id (join_user d other s))" and "sb_id ` set (join_user d other s) \<subseteq> {other s}"
proof -
  have id: "sb_id r = other s" if "r \<in> set (join_user d other s)" for r
    using that by (auto simp: join_user_def subscriber_item_of_def live_account_def)
  then show "sb_id ` set (join_user d other s) \<subseteq> {other s}" by auto
  have "map sb_id (join_user d other s) = map account_id (filter (live_account (other s)) (sd_users d))"
    by (simp add: join_user_def subscriber_item_of_def)
  then show "distinct (map sb_id (join_user d other s))" using assms by (simp add: distinct_map_filter)
qed

lemma joined_users:
  assumes "distinct (map account_id (sd_users d))" and "distinct (map other ss)"
  shows "distinct (map sb_id (concat (map (join_user d other) ss)))"
  using assms(2)
proof (induction ss)
  case (Cons s ss)
  have disj: "A \<inter> B = {}" if "A \<subseteq> {x}" "B \<subseteq> S" "x \<notin> S" for A B S :: "uuid set" and x using that by blast
  have "sb_id ` set (join_user d other s) \<inter> sb_id ` set (concat (map (join_user d other) ss)) = {}"
  proof (rule disj)
    show "sb_id ` set (join_user d other s) \<subseteq> {other s}" by (rule join_user_single(2) [OF assms(1)])
    show "sb_id ` set (concat (map (join_user d other) ss)) \<subseteq> other ` set ss"
      using join_user_single(2) [OF assms(1), of other] by (auto simp: image_subset_iff)
    show "other s \<notin> other ` set ss" using Cons.prems by simp
  qed
  with Cons join_user_single(1) [OF assms(1), of other s] show ?case by (simp del: set_concat)
qed simp

definition listing_ok :: "social_env \<Rightarrow> (subscription \<Rightarrow> uuid) \<Rightarrow> (subscription \<Rightarrow> uuid) \<Rightarrow> social_db \<Rightarrow> bool" where
  "listing_ok e this other d \<longleftrightarrow> codec_laws (sv_codec e) \<and> sv_fault e ListSubs = None \<and> sv_fault e BatchFollowed = None \<and>
     distinct (map account_id (sd_users d)) \<and> distinct (map (\<lambda>s. (this s, other s)) (sd_subs d)) \<and>
     (\<forall>s \<in> set (sd_subs d). ts_ok (sv_codec e) (su_created_at s))"

lemma listing_invar:
  assumes "listing_ok e this other d"
  shows "ts_feed_invar (sv_codec e, Desc, lim, sb_subscribed_at, sb_id, followers_of this other viewer i d)"
proof -
  have "distinct (map other (filter (\<lambda>s. this s = i) (sd_subs d)))"
    using assms by (auto simp: listing_ok_def distinct_map inj_on_def)
  with assms have "distinct (map sb_id (followers_of this other viewer i d))"
    by (simp add: followers_of_def comp_def joined_users listing_ok_def)
  then have "distinct (map (\<lambda>r. (sb_subscribed_at r, sb_id r)) (followers_of this other viewer i d))"
    by (auto simp: distinct_map inj_on_def)
  moreover have "sb_subscribed_at r \<in> su_created_at ` set (sd_subs d)" if "r \<in> set (followers_of this other viewer i d)" for r
    using that by (auto simp: followers_of_def join_user_def subscriber_item_of_def)
  ultimately show ?thesis using assms by (force simp: ts_feed_invar_def listing_ok_def)
qed

definition listing_page ::
    "social_env \<times> (subscription \<Rightarrow> uuid) \<times> (subscription \<Rightarrow> uuid) \<times> uuid \<times> uuid \<times> int option \<times> social_db \<Rightarrow> cursor option \<Rightarrow>
     subscribers_error + subscriber_item cursor_page" where
  "listing_page = (\<lambda>(e, this, other, viewer, i, lim, d) cur.
     bind_res (list_subs e this other i (Some viewer) \<lparr>cp_cursor = cur, cp_limit = lim\<rparr> d) (\<lambda>rows.
       Inr (from_rows rows (page_limit \<lparr>cp_cursor = cur, cp_limit = lim\<rparr>) (subscriber_cursor (sv_codec e)))))"

interpretation listing: keyset_feed "\<lambda>(e, this, other, viewer, i, lim, d). listing_ok e this other d"
    "\<lambda>(e, this, other, viewer, i, lim, d).
       ts_feed_rows (sv_codec e, Desc, lim, sb_subscribed_at, sb_id, followers_of this other viewer i d)"
    "\<lambda>(e, this, other, viewer, i, lim, d). page_limit \<lparr>cp_cursor = None, cp_limit = lim\<rparr>"
    "\<lambda>(e, this, other, viewer, i, lim, d) r. from_timestamp_id (sv_codec e) (sb_subscribed_at r) (sb_id r)"
    listing_page
proof (unfold_locales, goal_cases)
  case (1 t)
  then show ?case using page_limit_small by (auto split: prod.splits)
next
  case (2 t)
  obtain e this other viewer i lim d where t: "t = (e, this, other, viewer, i, lim, d)" by (cases t)
  from 2 have h: "listing_ok e this other d" "sv_fault e ListSubs = None" "sv_fault e BatchFollowed = None"
    by (auto simp: t listing_ok_def)
  from ts.fetch_first [OF listing_invar [OF h(1)], of lim viewer i] show ?case
    by (simp add: t listing_page_def list_subs_feed [OF h(2,3)])
next
  case (3 t xs r ys)
  obtain e this other viewer i lim d where t: "t = (e, this, other, viewer, i, lim, d)" by (cases t)
  from 3 have h: "listing_ok e this other d" "sv_fault e ListSubs = None" "sv_fault e BatchFollowed = None"
    by (auto simp: t listing_ok_def)
  from 3(2) ts.fetch_next [OF listing_invar [OF h(1)], of lim viewer i xs r ys] show ?case
    by (simp add: t listing_page_def list_subs_feed [OF h(2,3)])
qed

text \<open>C39. Following the cursors of somebody's followers shows every one of them who has an account exactly once, the latest
  first, each marked as followed exactly if the person looking follows them.
\<close>

theorem followers_complete:
  assumes "codec_laws (sv_codec e)" and "\<forall>st. sv_fault e st = None" and "list_ex (live_account i) (sd_users d)"
    and "distinct (map account_id (sd_users d))" and "distinct (map (\<lambda>s. (su_subscription s, su_subscriber s)) (sd_subs d))"
    and "\<forall>s \<in> set (sd_subs d). ts_ok (sv_codec e) (su_created_at s)"
    and "length (concat (map (join_user d su_subscriber) (filter (\<lambda>s. su_subscription s = i) (sd_subs d)))) < fuel"
  shows "follow fuel (\<lambda>cur. get_user_subscribers e viewer i \<lparr>cp_cursor = cur, cp_limit = lim\<rparr> d) None =
    Some (Inr (map (\<lambda>r. r\<lparr>sb_is_following := follows d viewer (sb_id r)\<rparr>) (rev (sort_key (\<lambda>r. (sb_subscribed_at r, sb_id r))
      (concat (map (join_user d su_subscriber) (filter (\<lambda>s. su_subscription s = i) (sd_subs d))))))))"
proof -
  have ok: "listing_ok e su_subscription su_subscriber d" using assms by (simp add: listing_ok_def)
  have "(\<lambda>cur. get_user_subscribers e viewer i \<lparr>cp_cursor = cur, cp_limit = lim\<rparr> d) =
      listing_page (e, su_subscription, su_subscriber, viewer, i, lim, d)"
    using assms(2,3) by (simp add: fun_eq_iff get_user_subscribers_def listing_page_def find_subscribers_def subs_user_exists_def so_sql_def)
  with listing.follow_all [of "(e, su_subscription, su_subscriber, viewer, i, lim, d)" fuel] ok assms(7) show ?thesis
    by (simp add: ts_feed_rows_def followers_of_def sql_order_by_map) (simp add: sql_order_by_def)
qed

end
