(* ===== verification/Profile_Json.thy ===== *)
theory Profile_Json
  imports Social_Repo Broadcast_Cache
begin

text \<open>
  The JSON of the profiles and settings that the cache keeps: what the derived \<open>Serialize\<close> writes for each response and
  what the derived \<open>Deserialize\<close> reads back. The text of a JSON value, of a timestamp and of a uuid are the
  libraries'; that they read back is a hypothesis where a property needs it.
\<close>

record json_env =
  jn_codec :: codec
  jn_write :: "json \<Rightarrow> string"
  jn_read :: "string \<Rightarrow> json option"
  jn_rfc3339 :: "timestamp \<Rightarrow> string"
  jn_rfc3339_parse :: "string \<Rightarrow> timestamp option"

definition json_laws :: "json_env \<Rightarrow> bool" where
  "json_laws j \<longleftrightarrow> codec_laws (jn_codec j) \<and> (\<forall>v. jn_read j (jn_write j v) = Some v) \<and>
     (\<forall>t. jn_rfc3339_parse j (jn_rfc3339 j t) = Some t)"

section \<open>Reading fields\<close>

text \<open>A required field, and an \<open>Option\<close> field, which may be absent. Further fields are ignored.\<close>

definition json_field :: "string \<Rightarrow> (json \<Rightarrow> 'a option) \<Rightarrow> json \<Rightarrow> 'a option" where
  "json_field k rd j = (case j of JObj kvs \<Rightarrow> Option.bind (map_of kvs k) rd | _ \<Rightarrow> None)"

definition json_field_opt :: "string \<Rightarrow> (json \<Rightarrow> 'a option) \<Rightarrow> json \<Rightarrow> 'a option option" where
  "json_field_opt k rd j =
     (case j of
        JObj kvs \<Rightarrow> (case map_of kvs k of
           None \<Rightarrow> Some None
         | Some JNull \<Rightarrow> Some None
         | Some v \<Rightarrow> map_option Some (rd v))
      | _ \<Rightarrow> None)"

fun read_str :: "json \<Rightarrow> string option" where
  "read_str (JStr s) = Some s"
| "read_str _ = None"

fun read_bool :: "json \<Rightarrow> bool option" where
  "read_bool (JBool b) = Some b"
| "read_bool _ = None"

fun read_i64 :: "json \<Rightarrow> int option" where
  "read_i64 (JInt n) = (if i64_min \<le> n \<and> n \<le> i64_max then Some n else None)"
| "read_i64 _ = None"

definition read_uuid :: "json_env \<Rightarrow> json \<Rightarrow> uuid option" where
  "read_uuid e j = Option.bind (read_str j) (uuid_parse (jn_codec e))"

definition read_time :: "json_env \<Rightarrow> json \<Rightarrow> timestamp option" where
  "read_time e j = Option.bind (read_str j) (jn_rfc3339_parse e)"

fun read_all :: "(json \<Rightarrow> 'a option) \<Rightarrow> json list \<Rightarrow> 'a list option" where
  "read_all rd [] = Some []"
| "read_all rd (j # js) = Option.bind (rd j) (\<lambda>x. map_option (Cons x) (read_all rd js))"

fun read_list :: "(json \<Rightarrow> 'a option) \<Rightarrow> json \<Rightarrow> 'a list option" where
  "read_list rd (JArr js) = read_all rd js"
| "read_list rd _ = None"

lemma read_all_map: "(\<And>x. x \<in> set xs \<Longrightarrow> rd (f x) = Some x) \<Longrightarrow> read_all rd (map f xs) = Some xs"
  by (induction xs) simp_all

section \<open>Settings, profiles and their parts\<close>

fun display_text :: "display \<Rightarrow> string" where
  "display_text SystemDisplay = ''system''"
| "display_text LightDisplay = ''light''"
| "display_text DarkDisplay = ''dark''"

definition display_of_text :: "string \<Rightarrow> display option" where
  "display_of_text s =
     map_of [(''system'', SystemDisplay), (''light'', LightDisplay), (''dark'', DarkDisplay)] s"

lemma display_roundtrip [simp]: "display_of_text (display_text d) = Some d"
  by (cases d) (simp_all add: display_of_text_def)

definition settings_json :: "settings_response \<Rightarrow> json" where
  "settings_json s = JObj
     [(''push_notifications'', JBool (sp_push s)), (''app_notifications'', JBool (sp_app s)),
      (''email_notifications'', JBool (sp_email s)), (''display'', JStr (display_text (sp_display s))),
      (''language'', JStr (sp_language s)), (''notification_preferences'', sp_preferences s),
      (''has_push_token'', JBool (sp_has_push_token s))]"

definition read_settings :: "json \<Rightarrow> settings_response option" where
  "read_settings j =
     Option.bind (json_field ''push_notifications'' read_bool j) (\<lambda>push.
     Option.bind (json_field ''app_notifications'' read_bool j) (\<lambda>app.
     Option.bind (json_field ''email_notifications'' read_bool j) (\<lambda>email.
     Option.bind (json_field ''display'' (\<lambda>v. Option.bind (read_str v) display_of_text) j) (\<lambda>disp.
     Option.bind (json_field ''language'' read_str j) (\<lambda>lang.
     Option.bind (json_field ''notification_preferences'' Some j) (\<lambda>prefs.
     Option.bind (json_field ''has_push_token'' read_bool j) (\<lambda>has_token.
     Some \<lparr>sp_push = push, sp_app = app, sp_email = email, sp_display = disp, sp_language = lang, sp_preferences = prefs,
       sp_has_push_token = has_token\<rparr>)))))))"

definition provider_json :: "auth_provider \<Rightarrow> json" where
  "provider_json p = JStr (provider_text p)"

definition read_provider :: "json \<Rightarrow> auth_provider option" where
  "read_provider j = Option.bind (read_str j) provider_from_str"

definition me_json :: "json_env \<Rightarrow> me_response \<Rightarrow> json" where
  "me_json e r = JObj
     [(''id'', JStr (uuid_show (jn_codec e) (me_id r))), (''full_name'', JStr (me_full_name r)), (''bio'', json_opt_str (me_bio r)),
      (''email'', JStr (me_email r)), (''verified'', JBool (me_verified r)), (''avatar_id'', json_opt_str (me_avatar_id r)),
      (''avatar_url'', json_opt_str (me_avatar_url r)), (''created_at'', JStr (jn_rfc3339 e (me_created_at r))),
      (''providers'', JArr (map provider_json (me_providers r))), (''settings'', settings_json (me_settings r))]"

definition read_me :: "json_env \<Rightarrow> json \<Rightarrow> me_response option" where
  "read_me e j =
     Option.bind (json_field ''id'' (read_uuid e) j) (\<lambda>i.
     Option.bind (json_field ''full_name'' read_str j) (\<lambda>full_name.
     Option.bind (json_field_opt ''bio'' read_str j) (\<lambda>bio.
     Option.bind (json_field ''email'' read_str j) (\<lambda>email.
     Option.bind (json_field ''verified'' read_bool j) (\<lambda>verified.
     Option.bind (json_field_opt ''avatar_id'' read_str j) (\<lambda>avatar_id.
     Option.bind (json_field_opt ''avatar_url'' read_str j) (\<lambda>avatar_url.
     Option.bind (json_field ''created_at'' (read_time e) j) (\<lambda>at.
     Option.bind (json_field ''providers'' (read_list read_provider) j) (\<lambda>providers.
     Option.bind (json_field ''settings'' read_settings j) (\<lambda>s.
     Some \<lparr>me_id = i, me_full_name = full_name, me_bio = bio, me_email = email, me_verified = verified, me_avatar_id = avatar_id,
       me_avatar_url = avatar_url, me_created_at = at, me_providers = providers, me_settings = s\<rparr>))))))))))"

definition public_json :: "json_env \<Rightarrow> public_profile \<Rightarrow> json" where
  "public_json e r = JObj
     [(''id'', JStr (uuid_show (jn_codec e) (pp_id r))), (''full_name'', JStr (pp_full_name r)), (''bio'', json_opt_str (pp_bio r)),
      (''avatar_url'', json_opt_str (pp_avatar_url r)), (''is_following'', JBool (pp_is_following r)),
      (''followers'', JInt (pp_followers r)), (''following'', JInt (pp_following r)), (''broadcasts'', JInt (pp_broadcasts r)),
      (''created_at'', JStr (jn_rfc3339 e (pp_created_at r)))]"

definition read_public :: "json_env \<Rightarrow> json \<Rightarrow> public_profile option" where
  "read_public e j =
     Option.bind (json_field ''id'' (read_uuid e) j) (\<lambda>i.
     Option.bind (json_field ''full_name'' read_str j) (\<lambda>full_name.
     Option.bind (json_field_opt ''bio'' read_str j) (\<lambda>bio.
     Option.bind (json_field_opt ''avatar_url'' read_str j) (\<lambda>avatar_url.
     Option.bind (json_field ''is_following'' read_bool j) (\<lambda>following_too.
     Option.bind (json_field ''followers'' read_i64 j) (\<lambda>followers.
     Option.bind (json_field ''following'' read_i64 j) (\<lambda>following.
     Option.bind (json_field ''broadcasts'' read_i64 j) (\<lambda>broadcasts.
     Option.bind (json_field ''created_at'' (read_time e) j) (\<lambda>at.
     Some \<lparr>pp_id = i, pp_full_name = full_name, pp_bio = bio, pp_avatar_url = avatar_url, pp_is_following = following_too,
       pp_followers = followers, pp_following = following, pp_broadcasts = broadcasts, pp_created_at = at\<rparr>)))))))))"

section \<open>Reading back\<close>

lemma read_settings_json [simp]: "read_settings (settings_json s) = Some s"
  by (simp add: read_settings_def settings_json_def json_field_def)

lemma read_providers [simp]: "read_all read_provider (map provider_json ps) = Some ps"
  by (rule read_all_map) (simp add: read_provider_def provider_json_def)

lemma json_field_hit:
  "map_of kvs k = Some v \<Longrightarrow> json_field k rd (JObj kvs) = rd v"
  "map_of kvs k = Some (json_opt_str s) \<Longrightarrow> json_field_opt k read_str (JObj kvs) = Some s"
  by (simp_all add: json_field_def json_field_opt_def json_opt_str_def split: option.split)

lemma read_me_json: "json_laws e \<Longrightarrow> read_me e (me_json e r) = Some r"
  by (simp add: read_me_def me_json_def json_field_hit read_uuid_def read_time_def json_laws_def codec_lawsD)

definition counts_fit :: "public_profile \<Rightarrow> bool" where
  "counts_fit r \<longleftrightarrow> i64_min \<le> pp_followers r \<and> pp_followers r \<le> i64_max \<and> i64_min \<le> pp_following r \<and>
     pp_following r \<le> i64_max \<and> i64_min \<le> pp_broadcasts r \<and> pp_broadcasts r \<le> i64_max"

lemma read_public_json: "json_laws e \<Longrightarrow> counts_fit r \<Longrightarrow> read_public e (public_json e r) = Some r"
  by (simp add: read_public_def public_json_def json_field_hit read_uuid_def read_time_def json_laws_def codec_lawsD counts_fit_def)

text \<open>Neither kind of profile reads as the other: each has a required field the other lacks.\<close>

lemma read_public_of_me: "read_public e (me_json e r) = None"
  by (simp add: read_public_def me_json_def json_field_def [of "''is_following''"] bind_eq_None_conv split: option.split)

lemma read_me_of_public: "read_me e (public_json e r) = None"
  by (simp add: read_me_def public_json_def json_field_def [of "''email''"] bind_eq_None_conv split: option.split)

end
