(* ===== verification/Profile_Service.thy ===== *)
theory Profile_Service
  imports Profile_Json Steps
begin

text \<open>
  \<open>modules/profile\<close> (\<open>cache.rs\<close>, \<open>storage.rs\<close>, \<open>service.rs\<close>), \<open>modules/settings/service.rs\<close>, and the object store
  behind \<open>shared/services/storage.rs\<close>: one's own profile, other people's, the search, avatars and settings.
\<close>

section \<open>State and environment\<close>

text \<open>
  The tables, the keyspace, the keys of the objects in the bucket, and the avatars spawned tasks have yet to delete.
\<close>

record profile_world =
  pw_db :: social_db
  pw_keys :: keyspace
  pw_objects :: "string list"
  pw_tasks :: "string list"

text \<open>
  \<open>pv_normal\<close> is \<open>trim().to_lowercase()\<close>, \<open>pv_path\<close> is \<open>Path::from\<close>, \<open>pv_fresh\<close> the \<open>Uuid::new_v4()\<close> drawn;
  \<open>pv_store_fault\<close> is why the object store fails a request, when it does, and \<open>pv_sign\<close> how it signs an upload.
\<close>

record profile_env =
  pv_social :: social_env
  pv_json :: json_env
  pv_redis :: redis_env
  pv_fresh :: uuid
  pv_normal :: "string \<Rightarrow> string"
  pv_path :: "string \<Rightarrow> string"
  pv_public_url :: string
  pv_store_fault :: "string \<Rightarrow> string option"
  pv_sign :: "string \<Rightarrow> string + string"

type_synonym ('e, 'a) profile_op = "(profile_world, 'e, 'a) steps"

definition pv_codec :: "profile_env \<Rightarrow> codec" where "pv_codec e = sv_codec (pv_social e)"

definition at_db :: "('e, 'a) social_op \<Rightarrow> ('e, 'a) profile_op" where
  "at_db op w = (case op (pw_db w) of (r, d) \<Rightarrow> (r, w\<lparr>pw_db := d\<rparr>))"

definition from_db :: "(social_db \<Rightarrow> 'e + 'a) \<Rightarrow> ('e, 'a) profile_op" where
  "from_db q w = (q (pw_db w), w)"

section \<open>The cache\<close>

definition PROFILE_TTL :: int where "PROFILE_TTL = 60"

definition profile_put :: "profile_env \<Rightarrow> string \<Rightarrow> json \<Rightarrow> (profile_error, unit) profile_op" where
  "profile_put e key v w =
     (case redis_set (pv_redis e) (jn_write (pv_json e)) key v (Some PROFILE_TTL) (pw_keys w) of
        (r, k) \<Rightarrow> (map_sum ProfileRedis id r, w\<lparr>pw_keys := k\<rparr>))"

definition profile_fetch :: "profile_env \<Rightarrow> (json \<Rightarrow> 'a option) \<Rightarrow> string \<Rightarrow> (profile_error, 'a option) profile_op" where
  "profile_fetch e rd key w =
     (map_sum ProfileRedis id
        (redis_get (pv_redis e) (\<lambda>s. Option.bind (jn_read (pv_json e) s) rd) key (pw_keys w)), w)"

definition cache_me :: "profile_env \<Rightarrow> me_response \<Rightarrow> (profile_error, unit) profile_op" where
  "cache_me e v = profile_put e (key_profile (pv_codec e) (me_id v)) (me_json (pv_json e) v)"

definition cache_profile :: "profile_env \<Rightarrow> public_profile \<Rightarrow> (profile_error, unit) profile_op" where
  "cache_profile e v = profile_put e (key_profile (pv_codec e) (pp_id v)) (public_json (pv_json e) v)"

definition get_cached_me :: "profile_env \<Rightarrow> uuid \<Rightarrow> (profile_error, me_response option) profile_op" where
  "get_cached_me e user_id = profile_fetch e (read_me (pv_json e)) (key_profile (pv_codec e) user_id)"

definition get_cached_profile :: "profile_env \<Rightarrow> uuid \<Rightarrow> (profile_error, public_profile option) profile_op" where
  "get_cached_profile e user_id = profile_fetch e (read_public (pv_json e)) (key_profile (pv_codec e) user_id)"

definition invalidate_cached_profile :: "profile_env \<Rightarrow> uuid \<Rightarrow> (profile_error, unit) profile_op" where
  "invalidate_cached_profile e user_id w =
     (case redis_del (pv_redis e) (key_profile (pv_codec e) user_id) (pw_keys w) of
        (r, k) \<Rightarrow> (map_sum ProfileRedis (\<lambda>_. ()) r, w\<lparr>pw_keys := k\<rparr>))"

definition cache_providers :: "profile_env \<Rightarrow> uuid \<Rightarrow> auth_provider list \<Rightarrow> (profile_error, unit) profile_op" where
  "cache_providers e user_id providers =
     profile_put e (key_user_providers (pv_codec e) user_id) (JArr (map provider_json providers))"

definition get_cached_providers :: "profile_env \<Rightarrow> uuid \<Rightarrow> (profile_error, auth_provider list option) profile_op" where
  "get_cached_providers e user_id = profile_fetch e (read_list read_provider) (key_user_providers (pv_codec e) user_id)"

definition cache_search_results :: "profile_env \<Rightarrow> string \<Rightarrow> profile_search_result list \<Rightarrow> (profile_error, unit) profile_op" where
  "cache_search_results e key results = profile_put e key (JArr (map (public_json (pv_json e)) results))"

definition get_cached_search_results :: "profile_env \<Rightarrow> string \<Rightarrow> (profile_error, profile_search_result list option) profile_op" where
  "get_cached_search_results e key = profile_fetch e (read_list (read_public (pv_json e))) key"

section \<open>The object store\<close>

definition object_exists :: "profile_env \<Rightarrow> string \<Rightarrow> (profile_error, bool) profile_op" where
  "object_exists e key w =
     (case pv_store_fault e ''HEAD'' of
        Some err \<Rightarrow> (Inl (ProfileStorage err), w)
      | None \<Rightarrow> (Inr (pv_path e key \<in> set (pw_objects w)), w))"

text \<open>Deleting an object that is not there is no error.\<close>

definition storage_delete :: "profile_env \<Rightarrow> string \<Rightarrow> (profile_error, unit) profile_op" where
  "storage_delete e key w =
     (case pv_store_fault e ''DELETE'' of
        Some err \<Rightarrow> (Inl (ProfileStorage err), w)
      | None \<Rightarrow> (Inr (), w\<lparr>pw_objects := filter (\<lambda>k. k \<noteq> pv_path e key) (pw_objects w)\<rparr>))"

definition public_url_for :: "profile_env \<Rightarrow> string \<Rightarrow> string" where
  "public_url_for e key = pv_public_url e @ ''/'' @ key"

definition presigned_upload_url :: "profile_env \<Rightarrow> string \<Rightarrow> profile_error + string" where
  "presigned_upload_url e key = map_sum ProfileStorage id (pv_sign e (pv_path e key))"

section \<open>Profiles\<close>

definition me_response_of :: "profile \<Rightarrow> auth_provider list \<Rightarrow> settings \<Rightarrow> me_response" where
  "me_response_of p providers s =
     \<lparr>me_id = pf_id p, me_full_name = pf_full_name p, me_bio = pf_bio p, me_email = pf_email p, me_verified = pf_verified p,
      me_avatar_id = pf_avatar_id p, me_avatar_url = pf_avatar_url p, me_created_at = pf_created_at p,
      me_providers = providers, me_settings = settings_response_of s\<rparr>"

definition found_profile :: "profile_env \<Rightarrow> uuid \<Rightarrow> social_db \<Rightarrow> profile_error + profile" where
  "found_profile e i d = bind_res (profile_find_by_id (pv_social e) i d) (\<lambda>p. ok_or p ProfileNotFound)"

definition own_settings :: "profile_env \<Rightarrow> uuid \<Rightarrow> social_db \<Rightarrow> profile_error + settings" where
  "own_settings e user_id d =
     (case settings_find_by_user_id (pv_social e) user_id d of
        Inl err \<Rightarrow> Inl (ProfileInternal (settings_error_text err))
      | Inr s \<Rightarrow> Inr (case s of Some s \<Rightarrow> s | None \<Rightarrow> settings_new (pv_fresh e) user_id))"

definition get_me :: "profile_env \<Rightarrow> uuid \<Rightarrow> (profile_error, me_response) profile_op" where
  "get_me e user_id =
     svc_bind (get_cached_me e user_id) (\<lambda>cached.
     case cached of
       Some r \<Rightarrow> svc_return r
     | None \<Rightarrow>
         svc_bind (from_db (found_profile e user_id)) (\<lambda>p.
         svc_bind (from_db (own_settings e user_id)) (\<lambda>s.
         svc_bind (from_db (profile_find_providers (pv_social e) user_id)) (\<lambda>providers.
         let response = me_response_of p providers s
         in svc_bind (cache_me e response) (\<lambda>_. svc_return response)))))"

definition profile_user_providers :: "profile_env \<Rightarrow> uuid \<Rightarrow> (profile_error, auth_provider list) profile_op" where
  "profile_user_providers e user_id =
     svc_bind (get_cached_providers e user_id) (\<lambda>cached.
     case cached of
       Some ps \<Rightarrow> svc_return ps
     | None \<Rightarrow>
         svc_bind (from_db (profile_find_providers (pv_social e) user_id)) (\<lambda>providers.
         svc_bind (cache_providers e user_id providers) (\<lambda>_. svc_return providers)))"

definition profile_delete_avatar :: "profile_env \<Rightarrow> uuid \<Rightarrow> (profile_error, unit) profile_op" where
  "profile_delete_avatar e user_id =
     svc_bind (from_db (profile_find_avatar_key (pv_social e) user_id)) (\<lambda>old.
     svc_modify (\<lambda>w. case old of None \<Rightarrow> w | Some old_key \<Rightarrow> w\<lparr>pw_tasks := pw_tasks w @ [old_key]\<rparr>))"

definition update_avatar_url ::
    "profile_env \<Rightarrow> uuid \<Rightarrow> string \<Rightarrow> (profile_error, string option \<times> string option) profile_op" where
  "update_avatar_url e user_id new_avatar_key =
     svc_bind (object_exists e new_avatar_key) (\<lambda>there.
     svc_bind (svc_refuse (\<not> there) AvatarNotUploaded) (\<lambda>_.
     svc_bind (profile_delete_avatar e user_id) (\<lambda>_.
     svc_return (Some new_avatar_key, Some (public_url_for e new_avatar_key)))))"

definition update_me :: "profile_env \<Rightarrow> uuid \<Rightarrow> update_profile_request \<Rightarrow> (profile_error, me_response) profile_op" where
  "update_me e user_id req =
     (if up_full_name req = None \<and> up_bio req = None \<and> up_avatar_key req = None then get_me e user_id
      else
        svc_bind (invalidate_cached_profile e user_id) (\<lambda>_.
        svc_bind (case up_avatar_key req of Some k \<Rightarrow> update_avatar_url e user_id k | None \<Rightarrow> svc_return (None, None))
          (\<lambda>(new_avatar_key, new_avatar_url).
        svc_bind (at_db (profile_update (pv_social e) user_id (up_full_name req) (up_bio req) new_avatar_key new_avatar_url)) (\<lambda>_.
        get_me e user_id))))"

definition image_extension :: "string \<Rightarrow> string option" where
  "image_extension content_type =
     map_of [(''image/jpeg'', ''jpg''), (''image/png'', ''png''), (''image/webp'', ''webp'')] content_type"

definition get_avatar_upload_url :: "profile_env \<Rightarrow> uuid \<Rightarrow> string \<Rightarrow> profile_error + avatar_upload_url_response" where
  "get_avatar_upload_url e user_id content_type =
     bind_res (ok_or (image_extension content_type) InvalidFileType) (\<lambda>extension.
     let avatar_id = ''avatars/'' @ uuid_show (pv_codec e) user_id @ ''/'' @ uuid_show (pv_codec e) (pv_fresh e) @ ''.'' @ extension
     in bind_res (presigned_upload_url e avatar_id) (\<lambda>avatar_url.
        Inr \<lparr>av_avatar_id = avatar_id, av_avatar_url = avatar_url\<rparr>))"

definition public_profile_of :: "profile \<Rightarrow> bool \<Rightarrow> public_profile" where
  "public_profile_of p following_too =
     \<lparr>pp_id = pf_id p, pp_full_name = pf_full_name p, pp_bio = pf_bio p, pp_avatar_url = pf_avatar_url p,
      pp_is_following = following_too, pp_followers = pf_followers p, pp_following = pf_following p,
      pp_broadcasts = pf_broadcasts p, pp_created_at = pf_created_at p\<rparr>"

definition get_user_by_id :: "profile_env \<Rightarrow> uuid \<Rightarrow> uuid \<Rightarrow> (profile_error, public_profile) profile_op" where
  "get_user_by_id e auth_user_id user_id =
     svc_bind (get_cached_profile e user_id) (\<lambda>cached.
     case cached of
       Some r \<Rightarrow> svc_return r
     | None \<Rightarrow>
         svc_bind (from_db (found_profile e user_id)) (\<lambda>p.
         svc_bind (from_db (profile_is_following (pv_social e) user_id auth_user_id)) (\<lambda>following_too.
         let response = public_profile_of p following_too
         in svc_bind (cache_profile e response) (\<lambda>_. svc_return response))))"

definition apply_cursor :: "codec \<Rightarrow> profile_search_result list \<Rightarrow> int \<Rightarrow> profile_search_result cursor_page" where
  "apply_cursor c results limit = from_rows results limit (\<lambda>p. from_timestamp_id c (pp_created_at p) (pp_id p))"

definition search_profiles ::
    "profile_env \<Rightarrow> profile_search_query \<Rightarrow> uuid \<Rightarrow> (profile_error, profile_search_result cursor_page) profile_op" where
  "search_profiles e q current_user_id =
     (let limit = page_limit (ps_pagination q); key = key_search_results (pv_normal e (ps_q q)) 0 limit
      in svc_bind (get_cached_search_results e key) (\<lambda>cached.
         case cached of
           Some results \<Rightarrow> svc_return (apply_cursor (pv_codec e) results limit)
         | None \<Rightarrow>
             svc_bind (svc_lift (repo_search_profiles (pv_social e) q)) (\<lambda>results.
             svc_bind (if cp_cursor (ps_pagination q) = None \<and> length results \<le> 100
                       then cache_search_results e key results else svc_return ()) (\<lambda>_.
             svc_return (apply_cursor (pv_codec e) results limit)))))"

text \<open>The spawned task: a failure is logged.\<close>

definition run_avatar_task :: "profile_env \<Rightarrow> string \<Rightarrow> profile_world \<Rightarrow> profile_world" where
  "run_avatar_task e old_key w = snd (storage_delete e old_key w)"

section \<open>Settings\<close>

definition ascii_letter :: "char \<Rightarrow> bool" where
  "ascii_letter ch \<longleftrightarrow> (65 \<le> (of_char ch :: nat) \<and> (of_char ch :: nat) \<le> 90) \<or> (97 \<le> (of_char ch :: nat) \<and> (of_char ch :: nat) \<le> 122)"

text \<open>\<open>^[a-zA-Z]{2}(-[a-zA-Z]{2,4})?$\<close>\<close>

definition language_ok :: "string \<Rightarrow> bool" where
  "language_ok s \<longleftrightarrow> 2 \<le> length s \<and> list_all ascii_letter (take 2 s) \<and>
     (case drop 2 s of
        [] \<Rightarrow> True
      | ch # rest \<Rightarrow> ch = CHR ''-'' \<and> list_all ascii_letter rest \<and> 2 \<le> length rest \<and> length rest \<le> 4)"

definition settings_get :: "profile_env \<Rightarrow> uuid \<Rightarrow> social_db \<Rightarrow> settings_error + settings_response" where
  "settings_get e user_id d =
     bind_res (settings_find_by_user_id (pv_social e) user_id d) (\<lambda>s.
     bind_res (ok_or s SettingsNotFound) (\<lambda>s. Inr (settings_response_of s)))"

definition settings_input_of :: "uuid \<Rightarrow> update_settings_request \<Rightarrow> settings_input" where
  "settings_input_of user_id req =
     \<lparr>sx_user_id = user_id, sx_push = ur_push req, sx_app = ur_app req, sx_email = ur_email req, sx_token = ur_token req,
      sx_preferences = ur_preferences req, sx_display = ur_display req, sx_language = ur_language req\<rparr>"

definition forget_profile :: "profile_env \<Rightarrow> uuid \<Rightarrow> ('e, unit) profile_op" where
  "forget_profile e user_id = svc_modify (\<lambda>w. snd (invalidate_cached_profile e user_id w))"

definition settings_update ::
    "profile_env \<Rightarrow> uuid \<Rightarrow> update_settings_request \<Rightarrow> (settings_error, settings_response) profile_op" where
  "settings_update e user_id req =
     svc_bind (svc_refuse (case ur_language req of Some lang \<Rightarrow> \<not> language_ok lang | None \<Rightarrow> False) InvalidLanguage) (\<lambda>_.
     svc_bind (at_db (settings_repo_update (pv_social e) (settings_input_of user_id req))) (\<lambda>updated.
     svc_bind (forget_profile e user_id) (\<lambda>_.
     svc_return (settings_response_of updated))))"

definition settings_clear_push_token :: "profile_env \<Rightarrow> uuid \<Rightarrow> (settings_error, unit) profile_op" where
  "settings_clear_push_token e user_id =
     svc_bind (at_db (settings_repo_clear_push_token (pv_social e) user_id)) (\<lambda>_. forget_profile e user_id)"

end
