(* ===== verification/Profile_Properties.thy ===== *)
theory Profile_Properties
  imports Profile_Service
begin

text \<open>
  What the profile and settings services promise and where the shared cache entry and the unchecked avatar keys break
  it.
\<close>

section \<open>The cache\<close>

lemma map_sum_Inr [simp]: "map_sum f g r = Inr v \<longleftrightarrow> (\<exists>x. r = Inr x \<and> v = g x)"
  by (cases r) auto

lemma map_sum_Inl [simp]: "map_sum f g r = Inl v \<longleftrightarrow> (\<exists>x. r = Inl x \<and> v = f x)"
  by (cases r) auto

definition gone :: "profile_env \<Rightarrow> string \<Rightarrow> profile_world \<Rightarrow> bool" where
  "gone e key w \<longleftrightarrow> entry (r_now (pv_redis e)) (pw_keys w) key = None"

lemma fetch_ok:
  assumes "profile_fetch e rd key w = (Inr v, w')"
  shows "w' = w" and "gone e key w \<Longrightarrow> v = None"
  using assms by (auto simp: profile_fetch_def redis_get_def cmd_get_def gone_def bind_res_def split: if_splits sum.splits option.splits)

lemma put_ok:
  assumes "profile_put e key v w = (Inr (), w')"
  shows "w' = w\<lparr>pw_keys := cmd_set (r_now (pv_redis e)) key (jn_write (pv_json e) v) (Some PROFILE_TTL) (pw_keys w)\<rparr>"
  using assms by (auto simp: profile_put_def redis_set_def guarded_cmd_def split: if_splits)

text \<open>Reading an entry less than a minute old: whatever was written is parsed as what is asked for.\<close>

lemma fetch_after_put:
  assumes "json_laws (pv_json e')" and "pv_json e = pv_json e'"
    and "r_now (pv_redis e') < r_now (pv_redis e) + 60000" and "\<not> r_down (pv_redis e') ''GET'' key"
    and "profile_put e key v w = (Inr (), w')"
  shows "profile_fetch e' rd key w' = (case rd v of Some x \<Rightarrow> Inr (Some x) | None \<Rightarrow> Inl (ProfileRedis ''Parse Error''), w')"
  using assms(1-4) unfolding put_ok [OF assms(5)]
  by (simp add: profile_fetch_def redis_get_def cmd_get_def entry_set PROFILE_TTL_def json_laws_def split: option.split)

lemma found_id: "found_profile e i d = Inr p \<Longrightarrow> pf_id p = i"
  by (auto simp: found_profile_def profile_find_by_id_def so_sql_def ok_or_def live_account_def account_id_def bind_res_def
      dest!: find_Some_mem split: option.splits sum.splits)

lemma get_me_fresh:
  assumes "get_me e u w = (Inr me, w1)" and "gone e (key_profile (pv_codec e) u) w"
  obtains p s providers where "found_profile e u (pw_db w) = Inr p" "own_settings e u (pw_db w) = Inr s"
    "profile_find_providers (pv_social e) u (pw_db w) = Inr providers" "me = me_response_of p providers s"
    "profile_put e (key_profile (pv_codec e) u) (me_json (pv_json e) me) w = (Inr (), w1)"
proof -
  from assms(1) obtain c w0 where f: "get_cached_me e u w = (Inr c, w0)"
    and r: "(case c of Some r \<Rightarrow> svc_return r
     | None \<Rightarrow>
         svc_bind (from_db (found_profile e u)) (\<lambda>p.
         svc_bind (from_db (own_settings e u)) (\<lambda>s.
         svc_bind (from_db (profile_find_providers (pv_social e) u)) (\<lambda>providers.
         let response = me_response_of p providers s
         in svc_bind (cache_me e response) (\<lambda>_. svc_return response))))) w0 = (Inr me, w1)"
    by (auto simp: get_me_def svc_bind_ok)
  from fetch_ok [OF f [unfolded get_cached_me_def]] assms(2) have "w0 = w" "c = None" by simp_all
  with r obtain p s providers where d: "found_profile e u (pw_db w) = Inr p" "own_settings e u (pw_db w) = Inr s"
      "profile_find_providers (pv_social e) u (pw_db w) = Inr providers" "me = me_response_of p providers s"
    and c: "cache_me e me w = (Inr (), w1)"
    by (auto simp: svc_ok from_db_def Let_def)
  from found_id [OF d(1)] d(4) have "me_id me = u" by (simp add: me_response_of_def)
  with c have "profile_put e (key_profile (pv_codec e) u) (me_json (pv_json e) me) w = (Inr (), w1)" by (simp add: cache_me_def)
  with d that show thesis by blast
qed

lemma get_user_fresh:
  assumes "get_user_by_id e a u w = (Inr r, w1)" and "gone e (key_profile (pv_codec e) u) w"
  obtains p where "found_profile e u (pw_db w) = Inr p" "r = public_profile_of p (follows (pw_db w) a u)"
    "profile_put e (key_profile (pv_codec e) u) (public_json (pv_json e) r) w = (Inr (), w1)"
proof -
  from assms(1) obtain c w0 where f: "get_cached_profile e u w = (Inr c, w0)"
    and r: "(case c of Some r \<Rightarrow> svc_return r
     | None \<Rightarrow>
         svc_bind (from_db (found_profile e u)) (\<lambda>p.
         svc_bind (from_db (profile_is_following (pv_social e) u a)) (\<lambda>following_too.
         let response = public_profile_of p following_too
         in svc_bind (cache_profile e response) (\<lambda>_. svc_return response)))) w0 = (Inr r, w1)"
    by (auto simp: get_user_by_id_def svc_bind_ok)
  from fetch_ok [OF f [unfolded get_cached_profile_def]] assms(2) have "w0 = w" "c = None" by simp_all
  with r obtain p where d: "found_profile e u (pw_db w) = Inr p" "r = public_profile_of p (follows (pw_db w) a u)"
    and c: "cache_profile e r w = (Inr (), w1)"
    by (auto simp: svc_ok from_db_def Let_def profile_is_following_def so_sql_def split: option.splits)
  from found_id [OF d(1)] d(2) have "pp_id r = u" by (simp add: public_profile_of_def)
  with c have "profile_put e (key_profile (pv_codec e) u) (public_json (pv_json e) r) w = (Inr (), w1)" by (simp add: cache_profile_def)
  with d that show thesis by blast
qed

text \<open>A request that comes within a minute, of the same deployment, on a Redis that answers the read.\<close>

definition soon_after :: "profile_env \<Rightarrow> profile_env \<Rightarrow> uuid \<Rightarrow> bool" where
  "soon_after e e' u \<longleftrightarrow> json_laws (pv_json e') \<and> pv_json e = pv_json e' \<and> pv_codec e = pv_codec e' \<and>
     r_now (pv_redis e') < r_now (pv_redis e) + 60000 \<and> \<not> r_down (pv_redis e') ''GET'' (key_profile (pv_codec e') u)"

lemma fetch_soon:
  assumes "soon_after e e' u" and "profile_put e (key_profile (pv_codec e) u) v w = (Inr (), w')"
  shows "profile_fetch e' rd (key_profile (pv_codec e') u) w' =
    (case rd v of Some x \<Rightarrow> Inr (Some x) | None \<Rightarrow> Inl (ProfileRedis ''Parse Error''), w')"
  using fetch_after_put [of e' e "key_profile (pv_codec e') u" v w w' rd] assms by (simp add: soon_after_def)

text \<open>C32. One's own profile and the profile others see are cached under one key, and neither parses as the other. For a minute
  after a user looked at their own profile everybody who opens it gets an internal error, and for a minute after
  somebody opened a user's profile that user cannot see their own.
\<close>

theorem profile_cache_clash:
  assumes "soon_after e e' u" and "gone e (key_profile (pv_codec e) u) w"
  shows "(get_me e u w = (Inr me, w1) \<longrightarrow>
        get_user_by_id e' viewer u w1 = (Inl (ProfileRedis ''Parse Error''), w1)) \<and>
     (get_user_by_id e viewer u w = (Inr r, w2) \<longrightarrow> get_me e' u w2 = (Inl (ProfileRedis ''Parse Error''), w2)) \<and>
     profile_into_response (ProfileRedis ''Parse Error'') = internal_response"
proof (intro conjI impI)
  assume "get_me e u w = (Inr me, w1)"
  from get_me_fresh [OF this assms(2)] have "profile_put e (key_profile (pv_codec e) u) (me_json (pv_json e) me) w = (Inr (), w1)" by blast
  from fetch_soon [OF assms(1) this, of "read_public (pv_json e')"] assms(1)
  show "get_user_by_id e' viewer u w1 = (Inl (ProfileRedis ''Parse Error''), w1)"
    by (simp add: get_user_by_id_def svc_bind_def get_cached_profile_def soon_after_def read_public_of_me)
next
  assume "get_user_by_id e viewer u w = (Inr r, w2)"
  from get_user_fresh [OF this assms(2)] have "profile_put e (key_profile (pv_codec e) u) (public_json (pv_json e) r) w = (Inr (), w2)" by blast
  from fetch_soon [OF assms(1) this, of "read_me (pv_json e')"] assms(1)
  show "get_me e' u w2 = (Inl (ProfileRedis ''Parse Error''), w2)"
    by (simp add: get_me_def svc_bind_def get_cached_me_def soon_after_def read_me_of_public)
qed simp

text \<open>The cached profile carries whether the first person to look follows its owner: whoever looks within the next minute is
  shown that person's answer as their own.
\<close>

theorem following_of_another:
  assumes "soon_after e e' u" and "gone e (key_profile (pv_codec e) u) w" and "get_user_by_id e a u w = (Inr r, w1)"
    and "counts_fit r"
  shows "get_user_by_id e' b u w1 = (Inr r, w1) \<and> pp_is_following r = follows (pw_db w) a u"
proof -
  from get_user_fresh [OF assms(3,2)] obtain p where r: "r = public_profile_of p (follows (pw_db w) a u)"
    and c: "profile_put e (key_profile (pv_codec e) u) (public_json (pv_json e) r) w = (Inr (), w1)" by blast
  from fetch_soon [OF assms(1) c, of "read_public (pv_json e')"] assms(1,4) r
  show ?thesis
    by (simp add: get_user_by_id_def svc_bind_def get_cached_profile_def soon_after_def read_public_json svc_return_def)
      (simp add: public_profile_of_def)
qed

section \<open>Changing one's profile\<close>

lemma invalidated:
  assumes "invalidate_cached_profile e u w = (Inr x, w1)"
  shows "w1 = w\<lparr>pw_keys := (pw_keys w)(key_profile (pv_codec e) u := None)\<rparr>" and "gone e (key_profile (pv_codec e) u) w1"
  using assms by (auto simp: invalidate_cached_profile_def redis_del_def guarded_cmd_def cmd_del_def gone_def split: if_splits)

lemma avatar_ok:
  assumes "update_avatar_url e u k w = (Inr v, w1)"
  shows "v = (Some k, Some (public_url_for e k))" and "pv_path e k \<in> set (pw_objects w)"
    and "w1 = w\<lparr>pw_tasks := pw_tasks w @ (case find (\<lambda>a. account_id a = u) (sd_users (pw_db w)) of
        Some a \<Rightarrow> (case pf_avatar_id (ua_profile a) of Some old \<Rightarrow> [old] | None \<Rightarrow> []) | None \<Rightarrow> [])\<rparr>"
  using assms
  by (auto simp: update_avatar_url_def svc_ok object_exists_def profile_delete_avatar_def from_db_def profile_find_avatar_key_def
      so_sql_def split: option.splits)

definition new_account :: "profile_env \<Rightarrow> update_profile_request \<Rightarrow> account \<Rightarrow> account" where
  "new_account e req a = a\<lparr>ua_profile := change_profile (up_full_name req) (up_bio req) (up_avatar_key req)
     (map_option (public_url_for e) (up_avatar_key req)) (ua_profile a), ua_updated_at := sv_db_now (pv_social e)\<rparr>"

definition nonempty_update :: "update_profile_request \<Rightarrow> bool" where
  "nonempty_update req \<longleftrightarrow> up_full_name req \<noteq> None \<or> up_bio req \<noteq> None \<or> up_avatar_key req \<noteq> None"

lemma change_id [simp]: "pf_id (change_profile n b k l p) = pf_id p"
  by (simp add: change_profile_def)

lemma get_me_world:
  assumes "get_me e u w = (Inr me, w1)"
  shows "pw_db w1 = pw_db w \<and> pw_tasks w1 = pw_tasks w \<and> pw_objects w1 = pw_objects w"
proof -
  have "pw_db w' = pw_db w \<and> pw_tasks w' = pw_tasks w \<and> pw_objects w' = pw_objects w" if "cache_me e v w = (x, w')" for v w x w'
    using that by (auto simp: cache_me_def profile_put_def redis_set_def guarded_cmd_def split: if_splits prod.splits)
  with assms show ?thesis
    by (auto simp: get_me_def svc_ok get_cached_me_def profile_fetch_def from_db_def Let_def split: option.splits)
qed

text \<open>What a successful update leaves: the rows changed, the old avatar's deletion queued, and the profile read afresh.\<close>

lemma update_me_ok:
  assumes "update_me e u req w = (Inr me, w')" and "nonempty_update req"
  obtains p s providers where
    "pw_db w' = (pw_db w)\<lparr>sd_users := map (\<lambda>a. if live_account u a then new_account e req a else a) (sd_users (pw_db w))\<rparr>"
    "found_profile e u (pw_db w') = Inr p" "own_settings e u (pw_db w') = Inr s" "me = me_response_of p providers s"
    "pw_objects w' = pw_objects w"
    "pw_tasks w' = pw_tasks w @ (case up_avatar_key req of None \<Rightarrow> []
       | Some _ \<Rightarrow> (case find (\<lambda>a. account_id a = u) (sd_users (pw_db w)) of
          Some a \<Rightarrow> (case pf_avatar_id (ua_profile a) of Some old \<Rightarrow> [old] | None \<Rightarrow> []) | None \<Rightarrow> []))"
    "\<And>k. up_avatar_key req = Some k \<Longrightarrow> pv_path e k \<in> set (pw_objects w)"
proof -
  let ?tasks = "case up_avatar_key req of None \<Rightarrow> []
       | Some _ \<Rightarrow> (case find (\<lambda>a. account_id a = u) (sd_users (pw_db w)) of
          Some a \<Rightarrow> (case pf_avatar_id (ua_profile a) of Some old \<Rightarrow> [old] | None \<Rightarrow> []) | None \<Rightarrow> [])"
  let ?url = "map_option (public_url_for e) (up_avatar_key req)"
  from assms obtain x w1 v w2 y w3 where inv: "invalidate_cached_profile e u w = (Inr x, w1)"
    and av: "(case up_avatar_key req of Some k \<Rightarrow> update_avatar_url e u k | None \<Rightarrow> svc_return (None, None)) w1 = (Inr v, w2)"
    and up: "at_db (profile_update (pv_social e) u (up_full_name req) (up_bio req) (fst v) (snd v)) w2 = (Inr y, w3)"
    and me: "get_me e u w3 = (Inr me, w')"
    unfolding update_me_def nonempty_update_def by (auto simp: svc_bind_ok split: prod.splits if_splits)
  note w1 = invalidated [OF inv]
  have v: "v = (up_avatar_key req, ?url)" and w2: "w2 = w1\<lparr>pw_tasks := pw_tasks w1 @ ?tasks\<rparr>"
    and obj: "\<And>k. up_avatar_key req = Some k \<Longrightarrow> pv_path e k \<in> set (pw_objects w)"
    using av avatar_ok [of e u _ w1 v w2] by (auto simp: w1(1) svc_ok split: option.splits)
  have db: "pw_db w3 = (pw_db w)\<lparr>sd_users := map (\<lambda>a. if live_account u a then new_account e req a else a) (sd_users (pw_db w))\<rparr>"
    and rest: "pw_keys w3 = pw_keys w2" "pw_tasks w3 = pw_tasks w2" "pw_objects w3 = pw_objects w2"
    using up by (auto simp: at_db_def profile_update_def svc_ok so_exec_def w2 w1(1) v new_account_def split: prod.splits option.splits if_splits)
  have "gone e (key_profile (pv_codec e) u) w3" using w1(2) by (simp add: gone_def rest w2)
  from get_me_fresh [OF me this] obtain p s providers where p: "found_profile e u (pw_db w3) = Inr p"
    "own_settings e u (pw_db w3) = Inr s" "me = me_response_of p providers s" by blast
  have obj': "pw_objects w' = pw_objects w" and tasks': "pw_tasks w' = pw_tasks w @ ?tasks" and db': "pw_db w' = pw_db w3"
    using get_me_world [OF me] by (simp_all add: rest w2 w1(1))
  show thesis by (rule that [OF _ _ _ _ obj' tasks' obj]) (use p db db' in simp_all)
qed

lemma find_map_live:
  assumes "\<And>a. live_account i (f a) \<longleftrightarrow> live_account i a"
  shows "find (live_account i) (map (\<lambda>a. if live_account i a then f a else a) xs) = map_option f (find (live_account i) xs)"
  using assms by (induction xs) auto

lemma live_new_account [simp]: "live_account i (new_account e req a) \<longleftrightarrow> live_account i a"
  by (simp add: live_account_def account_id_def new_account_def)

text \<open>C34. A successful update is what the user then sees: the answer carries the new name, bio and avatar and the old value of
  what was left out, nobody else's row changes, and no cached profile survives to say otherwise.
\<close>

theorem update_me_shows:
  assumes "update_me e u req w = (Inr me, w')" and "nonempty_update req"
  shows "(\<exists>a. find (live_account u) (sd_users (pw_db w)) = Some a \<and>
      me_full_name me = coalesce (up_full_name req) (pf_full_name (ua_profile a)) \<and>
      me_bio me = opt_coalesce (up_bio req) (pf_bio (ua_profile a)) \<and>
      me_avatar_id me = opt_coalesce (up_avatar_key req) (pf_avatar_id (ua_profile a)) \<and>
      me_email me = pf_email (ua_profile a)) \<and>
    (i \<noteq> u \<longrightarrow> filter (\<lambda>a. account_id a = i) (sd_users (pw_db w')) = filter (\<lambda>a. account_id a = i) (sd_users (pw_db w)))"
proof -
  from assms obtain p s providers where
    db: "pw_db w' = (pw_db w)\<lparr>sd_users := map (\<lambda>a. if live_account u a then new_account e req a else a) (sd_users (pw_db w))\<rparr>"
    and p: "found_profile e u (pw_db w') = Inr p" and me: "me = me_response_of p providers s"
    by (rule update_me_ok)
  from p obtain a where a: "find (live_account u) (sd_users (pw_db w)) = Some a" and p': "p = ua_profile (new_account e req a)"
    by (auto simp: db found_profile_def profile_find_by_id_def so_sql_def ok_or_def bind_res_def
        find_map_live [where f = "new_account e req"] split: option.splits)
  have "i \<noteq> u \<Longrightarrow> filter (\<lambda>a. account_id a = i) (map (\<lambda>a. if live_account u a then new_account e req a else a) xs) =
      filter (\<lambda>a. account_id a = i) xs" for xs
    by (induction xs) (auto simp: live_account_def account_id_def new_account_def)
  then show ?thesis using a by (simp add: db me p' me_response_of_def new_account_def change_profile_def)
qed

text \<open>C31. Nothing ties an avatar key to the user who sends it. A user who names an object of somebody else's as their avatar and
  then changes their avatar again has that object deleted: the other's profile points at nothing.
\<close>

theorem avatar_of_another_deleted:
  assumes "update_me e a req w = (Inr me, w1)" and "up_avatar_key req = Some k"
    and "update_me e' a req' w1 = (Inr me', w2)" and "up_avatar_key req' = Some k'"
    and "distinct (map account_id (sd_users (pw_db w)))" and "v \<in> set (sd_users (pw_db w))"
    and "account_id v \<noteq> a" and "pf_avatar_id (ua_profile v) = Some k" and "pv_store_fault e'' ''DELETE'' = None"
  shows "k \<in> set (pw_tasks w2) \<and> v \<in> set (sd_users (pw_db w2)) \<and>
    pv_path e'' k \<notin> set (pw_objects (run_avatar_task e'' k w2))"
proof -
  have ne: "nonempty_update req" "nonempty_update req'" using assms(2,4) by (auto simp: nonempty_update_def)
  from update_me_ok [OF assms(1) ne(1)] obtain p where
    db1: "pw_db w1 = (pw_db w)\<lparr>sd_users := map (\<lambda>x. if live_account a x then new_account e req x else x) (sd_users (pw_db w))\<rparr>"
    and p: "found_profile e a (pw_db w1) = Inr p" by blast
  from update_me_ok [OF assms(3) ne(2)] have
    db2: "pw_db w2 = (pw_db w1)\<lparr>sd_users := map (\<lambda>x. if live_account a x then new_account e' req' x else x) (sd_users (pw_db w1))\<rparr>"
    and t: "pw_tasks w2 = pw_tasks w1 @ (case find (\<lambda>x. account_id x = a) (sd_users (pw_db w1)) of
          Some x \<Rightarrow> (case pf_avatar_id (ua_profile x) of Some old \<Rightarrow> [old] | None \<Rightarrow> []) | None \<Rightarrow> [])"
    using assms(4) by fastforce+
  from p obtain x where "find (live_account a) (sd_users (pw_db w1)) = Some x"
    by (auto simp: found_profile_def profile_find_by_id_def so_sql_def ok_or_def bind_res_def split: option.splits)
  then have x: "x \<in> set (sd_users (pw_db w1))" "live_account a x" by (auto dest!: find_Some_mem)
  then obtain x0 where x0: "x0 \<in> set (sd_users (pw_db w))" "live_account a x0" "x = new_account e req x0"
    by (auto simp: db1 split: if_splits)
  have ids: "map account_id (sd_users (pw_db w1)) = map account_id (sd_users (pw_db w))"
    by (simp add: db1 new_account_def account_id_def)
  have "find (\<lambda>y. account_id y = a) (sd_users (pw_db w1)) = Some x"
  proof -
    have "y = x" if "y \<in> set (sd_users (pw_db w1))" "account_id y = a" for y
      using that x assms(5) ids by (metis distinct_map inj_onD live_account_def)
    with x show ?thesis
      by (metis (mono_tags, lifting) find_None_iff find_Some_mem live_account_def not_None_eq)
  qed
  moreover have "pf_avatar_id (ua_profile x) = Some k"
    using assms(2) by (simp add: x0(3) new_account_def change_profile_def opt_coalesce_def)
  ultimately have "k \<in> set (pw_tasks w2)" by (simp add: t)
  moreover have "\<not> live_account a v" using assms(7) by (simp add: live_account_def)
  with assms(6) have "v \<in> set (sd_users (pw_db w2))" by (force simp: db2 db1 image_iff)
  ultimately show ?thesis using assms(9) by (simp add: run_avatar_task_def storage_delete_def)
qed

section \<open>Settings\<close>

lemma settings_update_ok:
  assumes "settings_update e u req w = (Inr r, w')"
  obtains s where "find (\<lambda>s. st_user_id s = u) (sd_settings (pw_db w)) = Some s"
    "r = settings_response_of (apply_settings (settings_input_of u req) s)"
    "pw_db w' = (pw_db w)\<lparr>sd_settings := map (\<lambda>s. if st_user_id s = u then apply_settings (settings_input_of u req) s else s)
       (sd_settings (pw_db w))\<rparr>"
    "pw_keys w' = snd (redis_del (pv_redis e) (key_profile (pv_codec e) u) (pw_keys w))"
proof -
  from assms obtain y w1 where y: "at_db (settings_repo_update (pv_social e) (settings_input_of u req)) w = (Inr y, w1)"
    and r: "r = settings_response_of y" and w': "w' = snd (invalidate_cached_profile e u w1)"
    by (auto simp: settings_update_def svc_ok forget_profile_def)
  have su: "sx_user_id (settings_input_of u req) = u" by (simp add: settings_input_of_def)
  have first: "first_row (map f (filter q xs)) = map_option f (find q xs)" for f :: "settings \<Rightarrow> settings" and q xs
    by (induction xs) auto
  show thesis
    by (rule that [of "the (find (\<lambda>s. st_user_id s = u) (sd_settings (pw_db w)))"])
      (use y in \<open>auto simp: at_db_def settings_repo_update_def svc_ok so_exec_def su first ok_or_def r w' invalidate_cached_profile_def
        split: prod.splits option.splits\<close>)
qed

text \<open>A change of settings is seen at once: the answer holds exactly the values sent and the old ones of what was left out,
  and on a Redis that deletes the cached profile, the next look at one's own profile shows the same settings.
\<close>

theorem settings_visible:
  assumes "settings_update e u req w = (Inr r, w1)" and "\<not> r_down (pv_redis e) ''DEL'' (key_profile (pv_codec e) u)"
    and "get_me e' u w1 = (Inr me, w2)" and "pv_codec e' = pv_codec e"
  shows "me_settings me = r \<and> (\<forall>l. ur_language req = Some l \<longrightarrow> language_ok l) \<and>
    (\<exists>s \<in> set (sd_settings (pw_db w)). st_user_id s = u \<and> sp_push r = coalesce (ur_push req) (st_push s) \<and>
       sp_app r = coalesce (ur_app req) (st_app s) \<and> sp_email r = coalesce (ur_email req) (st_email s) \<and>
       sp_display r = coalesce (ur_display req) (st_display s) \<and> sp_language r = coalesce (ur_language req) (st_language s) \<and>
       sp_has_push_token r = (ur_token req \<noteq> None \<or> st_token s \<noteq> None))"
proof -
  let ?f = "\<lambda>s. if st_user_id s = u then apply_settings (settings_input_of u req) s else s"
  from settings_update_ok [OF assms(1)] obtain s where s: "find (\<lambda>s. st_user_id s = u) (sd_settings (pw_db w)) = Some s"
    and r: "r = settings_response_of (apply_settings (settings_input_of u req) s)"
    and db: "pw_db w1 = (pw_db w)\<lparr>sd_settings := map ?f (sd_settings (pw_db w))\<rparr>"
    and keys: "pw_keys w1 = snd (redis_del (pv_redis e) (key_profile (pv_codec e) u) (pw_keys w))" by blast
  have "gone e' (key_profile (pv_codec e') u) w1"
    using assms(2,4) by (simp add: gone_def keys redis_del_def guarded_cmd_def cmd_del_def)
  from get_me_fresh [OF assms(3) this] obtain p t providers where t: "own_settings e' u (pw_db w1) = Inr t"
    and me: "me = me_response_of p providers t" by blast
  have "find (\<lambda>s. st_user_id s = u) (map ?f xs) = map_option ?f (find (\<lambda>s. st_user_id s = u) xs)" for xs
    by (induction xs) (auto simp: apply_settings_def)
  moreover have su: "st_user_id s = u" "s \<in> set (sd_settings (pw_db w))" using s by (auto dest!: find_Some_mem)
  ultimately have "t = apply_settings (settings_input_of u req) s"
    using t s by (auto simp: own_settings_def settings_find_by_user_id_def so_sql_def db split: option.splits sum.splits)
  then have "me_settings me = r" by (simp add: me r me_response_of_def)
  moreover have "\<forall>l. ur_language req = Some l \<longrightarrow> language_ok l"
    using assms(1) by (auto simp: settings_update_def svc_ok)
  moreover have "sp_push r = coalesce (ur_push req) (st_push s) \<and>
       sp_app r = coalesce (ur_app req) (st_app s) \<and> sp_email r = coalesce (ur_email req) (st_email s) \<and>
       sp_display r = coalesce (ur_display req) (st_display s) \<and> sp_language r = coalesce (ur_language req) (st_language s) \<and>
       sp_has_push_token r = (ur_token req \<noteq> None \<or> st_token s \<noteq> None)"
    by (simp add: r settings_response_of_def apply_settings_def settings_input_of_def split: option.split)
  ultimately show ?thesis using su by blast
qed

section \<open>When nothing fails\<close>

text \<open>On servers that answer, each request does succeed: with the row there, and its arguments acceptable.\<close>

definition quiet :: "profile_env \<Rightarrow> bool" where
  "quiet e \<longleftrightarrow> (\<forall>c k. \<not> r_down (pv_redis e) c k) \<and> (\<forall>st. sv_fault (pv_social e) st = None) \<and> (\<forall>c. pv_store_fault e c = None)"

lemma fetch_quiet: "quiet e \<Longrightarrow> gone e k w \<Longrightarrow> profile_fetch e rd k w = (Inr None, w)"
  by (simp add: quiet_def gone_def profile_fetch_def redis_get_def cmd_get_def)

lemma put_quiet: "quiet e \<Longrightarrow> \<exists>w1. profile_put e k v w = (Inr (), w1)"
  by (simp add: quiet_def profile_put_def redis_set_def guarded_cmd_def)

lemma found_quiet: "quiet e \<Longrightarrow> find (live_account u) (sd_users d) = Some a \<Longrightarrow> found_profile e u d = Inr (ua_profile a)"
  by (simp add: quiet_def found_profile_def profile_find_by_id_def so_sql_def ok_or_def)

lemma get_me_succeeds:
  assumes "quiet e" and "gone e (key_profile (pv_codec e) u) w" and "find (live_account u) (sd_users (pw_db w)) = Some a"
  shows "\<exists>me w1. get_me e u w = (Inr me, w1)"
proof -
  obtain s where s: "own_settings e u (pw_db w) = Inr s"
    using assms(1) by (simp add: own_settings_def settings_find_by_user_id_def so_sql_def quiet_def)
  obtain ps where ps: "profile_find_providers (pv_social e) u (pw_db w) = Inr ps"
    using assms(1) by (simp add: profile_find_providers_def so_sql_def quiet_def)
  let ?r = "me_response_of (ua_profile a) ps s"
  obtain w1 where "cache_me e ?r w = (Inr (), w1)" unfolding cache_me_def using put_quiet [OF assms(1)] by metis
  then show ?thesis using found_quiet [OF assms(1,3)] s ps
    by (simp add: fetch_quiet [OF assms(1,2)] Let_def get_me_def get_cached_me_def svc_bind_def from_db_def svc_return_def)
qed

lemma get_user_succeeds:
  assumes "quiet e" and "gone e (key_profile (pv_codec e) u) w" and "find (live_account u) (sd_users (pw_db w)) = Some a"
  shows "\<exists>w1. get_user_by_id e v u w = (Inr (public_profile_of (ua_profile a) (follows (pw_db w) v u)), w1)"
proof -
  let ?r = "public_profile_of (ua_profile a) (follows (pw_db w) v u)"
  have f: "profile_is_following (pv_social e) u v (pw_db w) = Inr (follows (pw_db w) v u)"
    using assms(1) by (simp add: profile_is_following_def so_sql_def quiet_def)
  obtain w1 where "cache_profile e ?r w = (Inr (), w1)" unfolding cache_profile_def using put_quiet [OF assms(1)] by metis
  then show ?thesis using found_quiet [OF assms(1,3)] f
    by (simp add: fetch_quiet [OF assms(1,2)] Let_def get_user_by_id_def get_cached_profile_def svc_bind_def from_db_def svc_return_def)
qed

lemma update_me_succeeds:
  assumes "quiet e" and "nonempty_update req" and "find (live_account u) (sd_users (pw_db w)) = Some a"
    and "\<not> bio_too_long (up_bio req)" and "\<And>k. up_avatar_key req = Some k \<Longrightarrow> pv_path e k \<in> set (pw_objects w)"
  shows "\<exists>me w1. update_me e u req w = (Inr me, w1)"
proof -
  let ?w1 = "w\<lparr>pw_keys := (pw_keys w)(key_profile (pv_codec e) u := None)\<rparr>"
  have inv: "invalidate_cached_profile e u w = (Inr (), ?w1)"
    using assms(1) by (simp add: invalidate_cached_profile_def redis_del_def guarded_cmd_def cmd_del_def quiet_def)
  obtain nk nu ts where av: "(case up_avatar_key req of Some k \<Rightarrow> update_avatar_url e u k | None \<Rightarrow> svc_return (None, None)) ?w1 =
      (Inr (nk, nu), ?w1\<lparr>pw_tasks := ts\<rparr>)"
  proof (cases "up_avatar_key req")
    case None
    with that [of None None "pw_tasks w"] show thesis by (simp add: svc_return_def)
  next
    case (Some k)
    have old: "profile_find_avatar_key (pv_social e) u (pw_db w) =
        Inr (Option.bind (find (\<lambda>a. account_id a = u) (sd_users (pw_db w))) (\<lambda>a. pf_avatar_id (ua_profile a)))" (is "_ = Inr ?old")
      using assms(1) by (simp add: profile_find_avatar_key_def so_sql_def quiet_def)
    have "update_avatar_url e u k ?w1 = (Inr (Some k, Some (public_url_for e k)),
        ?w1\<lparr>pw_tasks := pw_tasks w @ (case ?old of None \<Rightarrow> [] | Some o' \<Rightarrow> [o'])\<rparr>)"
      using assms(1,5) Some old
      by (simp add: update_avatar_url_def svc_bind_def object_exists_def svc_refuse_def profile_delete_avatar_def from_db_def
          svc_modify_def svc_return_def quiet_def split: option.split)
    with Some that show thesis by simp
  qed
  let ?w2 = "?w1\<lparr>pw_tasks := ts\<rparr>"
  let ?f = "\<lambda>a. a\<lparr>ua_profile := change_profile (up_full_name req) (up_bio req) nk nu (ua_profile a),
      ua_updated_at := sv_db_now (pv_social e)\<rparr>"
  let ?w3 = "?w2\<lparr>pw_db := (pw_db w)\<lparr>sd_users := map (\<lambda>a. if live_account u a then ?f a else a) (sd_users (pw_db w))\<rparr>\<rparr>"
  have live: "live_account i (?f b) \<longleftrightarrow> live_account i b" for i b by (simp add: live_account_def account_id_def)
  have "filter (live_account u) (sd_users (pw_db w)) \<noteq> []"
    using assms(3) by (auto simp: filter_empty_conv dest!: find_Some_mem)
  then obtain b bs where "filter (live_account u) (sd_users (pw_db w)) = b # bs" by (auto simp: neq_Nil_conv)
  then obtain x where up: "at_db (profile_update (pv_social e) u (up_full_name req) (up_bio req) nk nu) ?w2 = (Inr x, ?w3)"
    using assms(1,4) by (simp add: at_db_def profile_update_def svc_bind_def so_exec_def svc_lift_def ok_or_def quiet_def)
  have fl: "find (live_account u) (sd_users (pw_db ?w3)) = Some (?f a)"
    using find_map_live [of u ?f "sd_users (pw_db w)"] live assms(3) by simp
  have gn: "gone e (key_profile (pv_codec e) u) ?w3" by (simp add: gone_def)
  from get_me_succeeds [OF assms(1) gn fl] obtain me w4 where "get_me e u ?w3 = (Inr me, w4)" by blast
  moreover have "\<not> (up_full_name req = None \<and> up_bio req = None \<and> up_avatar_key req = None)"
    using assms(2) by (auto simp: nonempty_update_def)
  then have "update_me e u req w = get_me e u ?w3"
    by (simp only: update_me_def if_False svc_bind_def inv av up prod.case sum.case)
  ultimately show ?thesis by simp
qed

lemma settings_update_succeeds:
  assumes "quiet e" and "find (\<lambda>s. st_user_id s = u) (sd_settings (pw_db w)) = Some s"
    and "\<And>l. ur_language req = Some l \<Longrightarrow> language_ok l"
  shows "\<exists>r w1. settings_update e u req w = (Inr r, w1)"
proof -
  have su: "sx_user_id (settings_input_of u req) = u" by (simp add: settings_input_of_def)
  have "filter (\<lambda>s. st_user_id s = u) (sd_settings (pw_db w)) \<noteq> []"
    using assms(2) by (auto simp: filter_empty_conv dest!: find_Some_mem)
  then obtain b bs where "filter (\<lambda>s. st_user_id s = u) (sd_settings (pw_db w)) = b # bs" by (auto simp: neq_Nil_conv)
  then show ?thesis using assms(1,3)
    by (auto simp: settings_update_def svc_bind_def svc_refuse_def at_db_def settings_repo_update_def so_exec_def su svc_lift_def
        ok_or_def forget_profile_def svc_modify_def svc_return_def quiet_def split: option.splits)
qed

section \<open>The search\<close>

text \<open>
  Nobody can search for profiles: whatever the words, the page and the person, a search whose results are not cached
  fails, and since only a search that succeeds caches results, none ever are.
\<close>

theorem search_always_fails:
  assumes "gone e (key_search_results (pv_normal e (ps_q q)) 0 (page_limit (ps_pagination q))) w"
  shows "\<exists>err. search_profiles e q viewer w = (Inl err, w)"
proof -
  let ?key = "key_search_results (pv_normal e (ps_q q)) 0 (page_limit (ps_pagination q))"
  obtain r w' where f: "get_cached_search_results e ?key w = (r, w')" by fastforce
  have w: "w' = w" using f by (simp add: get_cached_search_results_def profile_fetch_def)
  show ?thesis
  proof (cases r)
    case (Inl err)
    with f w show ?thesis by (simp add: search_profiles_def Let_def svc_bind_def)
  next
    case (Inr v)
    with fetch_ok(2) [OF f [unfolded get_cached_search_results_def Inr] assms] have "v = None" by simp
    with f w Inr show ?thesis
      by (auto simp: search_profiles_def Let_def svc_bind_def svc_lift_def repo_search_profiles_def bind_res_def
          split: option.splits sum.splits)
  qed
qed

end
