(* ===== verification/Demo_Json.thy ===== *)
theory Demo_Json
  imports Profile_Json
begin

text \<open>
  A concrete text for JSON values that reads back, to see that \<open>json_laws\<close> can hold. Every value is tagged by its first
  character, every character of a text is preceded by \<open>c\<close>, and texts, arrays and objects end with \<open>e\<close>.
\<close>

fun tag_text :: "string \<Rightarrow> string" where
  "tag_text [] = ''e''"
| "tag_text (ch # s) = CHR ''c'' # ch # tag_text s"

fun untag_text :: "string \<Rightarrow> (string \<times> string) option" where
  "untag_text [] = None"
| "untag_text [x] = (if x = CHR ''e'' then Some ([], []) else None)"
| "untag_text (x # y # r) =
     (if x = CHR ''e'' then Some ([], y # r)
      else if x = CHR ''c'' then map_option (\<lambda>(s, r'). (y # s, r')) (untag_text r) else None)"

lemma untag_tag: "untag_text (tag_text s @ r) = Some (s, r)"
proof (induction s)
  case Nil
  then show ?case by (cases r) simp_all
qed simp

definition plain_int_parse :: "string \<Rightarrow> int option" where
  "plain_int_parse s =
     (case s of
        [] \<Rightarrow> None
      | ch # ds \<Rightarrow> if ch = CHR ''-'' then map_option (\<lambda>n. - int n) (parse_digits 0 ds) else map_option int (parse_digits 0 s))"

lemma plain_int_roundtrip: "plain_int_parse (show_int i) = Some i"
proof (cases "i < 0")
  case True
  then show ?thesis by (simp add: show_int_def plain_int_parse_def parse_show_nat)
next
  case False
  obtain ch ds where s: "show_nat (nat i) = ch # ds" by (metis False list.exhaust show_int_def show_int_nonempty)
  have "is_digit ch" using show_nat_digits [of ch "nat i"] s by simp
  then have "ch \<noteq> CHR ''-''" by (auto simp: is_digit_def)
  with False s parse_show_nat [of "nat i"] show ?thesis by (simp add: show_int_def plain_int_parse_def)
qed

fun tag_json :: "json \<Rightarrow> string" where
  "tag_json JNull = ''n''"
| "tag_json (JBool b) = (if b then ''t'' else ''f'')"
| "tag_json (JInt i) = CHR ''i'' # tag_text (show_int i)"
| "tag_json (JStr s) = CHR ''s'' # tag_text s"
| "tag_json (JArr js) = CHR ''a'' # concat (map tag_json js) @ ''e''"
| "tag_json (JObj kvs) = CHR ''o'' # concat (map (\<lambda>(k, v). CHR ''k'' # tag_text k @ tag_json v) kvs) @ ''e''"

text \<open>The reader, with the length of the text as fuel.\<close>

fun untag_json :: "nat \<Rightarrow> string \<Rightarrow> (json \<times> string) option"
  and untag_list :: "nat \<Rightarrow> string \<Rightarrow> (json list \<times> string) option"
  and untag_pairs :: "nat \<Rightarrow> string \<Rightarrow> ((string \<times> json) list \<times> string) option" where
  "untag_json 0 s = None"
| "untag_json (Suc n) s =
     (case s of
        [] \<Rightarrow> None
      | ch # r \<Rightarrow>
          if ch = CHR ''n'' then Some (JNull, r)
          else if ch = CHR ''t'' then Some (JBool True, r)
          else if ch = CHR ''f'' then Some (JBool False, r)
          else if ch = CHR ''i'' then Option.bind (untag_text r) (\<lambda>(t, r'). map_option (\<lambda>i. (JInt i, r')) (plain_int_parse t))
          else if ch = CHR ''s'' then map_option (\<lambda>(t, r'). (JStr t, r')) (untag_text r)
          else if ch = CHR ''a'' then map_option (\<lambda>(js, r'). (JArr js, r')) (untag_list n r)
          else if ch = CHR ''o'' then map_option (\<lambda>(kvs, r'). (JObj kvs, r')) (untag_pairs n r)
          else None)"
| "untag_list 0 s = None"
| "untag_list (Suc n) s =
     (case s of
        [] \<Rightarrow> None
      | ch # r \<Rightarrow>
          if ch = CHR ''e'' then Some ([], r)
          else Option.bind (untag_json n s) (\<lambda>(j, r'). map_option (\<lambda>(js, r''). (j # js, r'')) (untag_list n r')))"
| "untag_pairs 0 s = None"
| "untag_pairs (Suc n) s =
     (case s of
        [] \<Rightarrow> None
      | ch # r \<Rightarrow>
          if ch = CHR ''e'' then Some ([], r)
          else if ch = CHR ''k'' then
            Option.bind (untag_text r) (\<lambda>(k, r1).
            Option.bind (untag_json n r1) (\<lambda>(j, r2). map_option (\<lambda>(kvs, r3). ((k, j) # kvs, r3)) (untag_pairs n r2)))
          else None)"

lemma tag_json_head: "\<exists>ch r. tag_json j = ch # r \<and> ch \<noteq> CHR ''e''"
  by (cases j) auto

lemma untag_list_tagged:
  assumes "\<And>j n r. j \<in> set js \<Longrightarrow> length (tag_json j) \<le> n \<Longrightarrow> untag_json n (tag_json j @ r) = Some (j, r)"
    and "length (concat (map tag_json js)) < n"
  shows "untag_list n (concat (map tag_json js) @ CHR ''e'' # r) = Some (js, r)"
  using assms
proof (induction js arbitrary: n)
  case Nil
  then obtain m where "n = Suc m" by (cases n) auto
  then show ?case by simp
next
  case (Cons j js)
  then obtain m where n: "n = Suc m" by (cases n) auto
  obtain ch t where h: "tag_json j = ch # t" "ch \<noteq> CHR ''e''" using tag_json_head by blast
  have "untag_json m (tag_json j @ concat (map tag_json js) @ CHR ''e'' # r) = Some (j, concat (map tag_json js) @ CHR ''e'' # r)"
    by (rule Cons.prems(1)) (use Cons.prems(2) n in auto)
  moreover have "untag_list m (concat (map tag_json js) @ CHR ''e'' # r) = Some (js, r)"
    by (rule Cons.IH) (use Cons.prems n h in auto)
  ultimately show ?case using h by (simp add: n)
qed

lemma untag_pairs_tagged:
  assumes "\<And>k j n r. (k, j) \<in> set kvs \<Longrightarrow> length (tag_json j) \<le> n \<Longrightarrow> untag_json n (tag_json j @ r) = Some (j, r)"
    and "length (concat (map (\<lambda>(k, v). CHR ''k'' # tag_text k @ tag_json v) kvs)) < n"
  shows "untag_pairs n (concat (map (\<lambda>(k, v). CHR ''k'' # tag_text k @ tag_json v) kvs) @ CHR ''e'' # r) = Some (kvs, r)"
  using assms
proof (induction kvs arbitrary: n)
  case Nil
  then obtain m where "n = Suc m" by (cases n) auto
  then show ?case by simp
next
  case (Cons kv kvs)
  obtain k j where kv: "kv = (k, j)" by (cases kv)
  from Cons obtain m where n: "n = Suc m" by (cases n) auto
  let ?rest = "concat (map (\<lambda>(k, v). CHR ''k'' # tag_text k @ tag_json v) kvs) @ CHR ''e'' # r"
  have "untag_json m (tag_json j @ ?rest) = Some (j, ?rest)"
    by (rule Cons.prems(1)) (use Cons.prems(2) n in \<open>auto simp: kv\<close>)
  moreover have "untag_pairs m ?rest = Some (kvs, r)"
    by (rule Cons.IH) (use Cons.prems n kv in auto)
  ultimately show ?case by (simp add: n kv untag_tag)
qed

lemma untag_tagged: "length (tag_json j) \<le> n \<Longrightarrow> untag_json n (tag_json j @ r) = Some (j, r)"
proof (induction j arbitrary: n r)
  case (JArr js)
  then obtain m where n: "n = Suc m" by (cases n) auto
  have "untag_list m (concat (map tag_json js) @ CHR ''e'' # r) = Some (js, r)"
    by (rule untag_list_tagged) (use JArr n in auto)
  then show ?case by (simp add: n)
next
  case (JObj kvs)
  then obtain m where n: "n = Suc m" by (cases n) auto
  have "untag_pairs m (concat (map (\<lambda>(k, v). CHR ''k'' # tag_text k @ tag_json v) kvs) @ CHR ''e'' # r) = Some (kvs, r)"
    by (rule untag_pairs_tagged) (use JObj n in auto)
  then show ?case by (simp add: n)
next
  case (JNull)
  then show ?case by (cases n) auto
next
  case (JBool x)
  then show ?case by (cases n; cases x) auto
next
  case (JInt x)
  then show ?case by (cases n) (auto simp: untag_tag plain_int_roundtrip)
next
  case (JStr x)
  then show ?case by (cases n) (auto simp: untag_tag)
qed

definition demo_json_env :: json_env where
  "demo_json_env = \<lparr>jn_codec = plain_codec, jn_write = tag_json,
     jn_read = (\<lambda>s. case untag_json (length s) s of Some (j, []) \<Rightarrow> Some j | _ \<Rightarrow> None),
     jn_rfc3339 = show_int, jn_rfc3339_parse = plain_int_parse\<rparr>"

lemma demo_json_laws: "json_laws demo_json_env"
  using untag_tagged [of _ _ "[]"] plain_codec_laws
  by (simp add: json_laws_def demo_json_env_def plain_int_roundtrip)

end
