(* ===== verification/Social_Demo.thy ===== *)
theory Social_Demo
  imports Demo_Json Subscribers Profile_Properties
begin

text \<open>Three users, on whom the hypotheses of the properties of the social modules are seen to hold.\<close>

section \<open>The data\<close>

definition demo_social_env :: "nat \<Rightarrow> social_env" where
  "demo_social_env n = \<lparr>sv_codec = plain_codec, sv_db_now = 1000, sv_new_id = (\<lambda>k. of_nat (100 + n + k)), sv_fault = (\<lambda>_. None)\<rparr>"

definition demo_profile :: "uuid \<Rightarrow> string option \<Rightarrow> profile" where
  "demo_profile i avatar = \<lparr>pf_id = i, pf_full_name = ''Ada'', pf_bio = None, pf_email = ''a@b.c'', pf_avatar_id = avatar,
     pf_avatar_url = None, pf_verified = True, pf_followers = 0, pf_following = 0, pf_broadcasts = 0, pf_created_at = 5\<rparr>"

definition demo_account :: "uuid \<Rightarrow> string option \<Rightarrow> account" where
  "demo_account i avatar = \<lparr>ua_profile = demo_profile i avatar, ua_updated_at = 5, ua_deleted_at = None\<rparr>"

definition demo_template :: notification_template where
  "demo_template = \<lparr>tp_id = 50, tp_type = ''user_subscribed'', tp_title = ''New'', tp_body = ''{actor}'', tp_image_url = None,
     tp_metadata = JNull, tp_is_active = True, tp_created_at = 0, tp_updated_at = 0, tp_deleted_at = None\<rparr>"

definition demo_unread :: "uuid \<Rightarrow> notification" where
  "demo_unread i = \<lparr>no_id = i, no_owner_id = 2, no_template_id = 50, no_actor_id = None, no_broadcast_id = None,
     no_entity_type = None, no_entity_id = None, no_read = False, no_read_at = None, no_archived_at = None, no_metadata = None,
     no_created_at = 5\<rparr>"

definition demo_social :: social_db where
  "demo_social = \<lparr>sd_users = [demo_account 1 None, demo_account 2 (Some ''avatars/2/x.png''), demo_account 3 None],
     sd_identities = [(1, ''email'')], sd_broadcasts = [],
     sd_subs = [\<lparr>su_subscriber = 3, su_subscription = 2, su_created_at = 20\<rparr>, \<lparr>su_subscriber = 1, su_subscription = 2, su_created_at = 30\<rparr>,
       \<lparr>su_subscriber = 3, su_subscription = 1, su_created_at = 40\<rparr>],
     sd_settings = [settings_new 60 1, settings_new 61 2], sd_templates = [demo_template],
     sd_notifications = [demo_unread 90, demo_unread 91]\<rparr>"

definition demo_push_env :: push_env where
  "demo_push_env = \<lparr>pe_now = 0, pe_fetched = 0, pe_later = 0, pe_wall_secs = 0, pe_account = Inl ''none'',
     pe_encode_rs256 = (\<lambda>_ _. Inl ''none''), pe_token_reply = (\<lambda>_ _. Inl ''none''), pe_fcm_reply = (\<lambda>_. Inr 200)\<rparr>"

definition demo_notif_env :: "nat \<Rightarrow> int \<Rightarrow> notif_env" where
  "demo_notif_env n t = \<lparr>ni_social = demo_social_env n, ni_redis = up t, ni_bridge = demo_bridge, ni_now_json = JInt 0,
     ni_order = id, ni_push = demo_push_env, ni_schedule = []\<rparr>"

definition demo_notif :: "keyspace \<Rightarrow> notif_world" where
  "demo_notif k = \<lparr>nw_db = demo_social, nw_keys = k, nw_templates = [], nw_published = [], nw_push = push_new, nw_tasks = []\<rparr>"

definition demo_profile_env :: "int \<Rightarrow> profile_env" where
  "demo_profile_env t = \<lparr>pv_social = demo_social_env 0, pv_json = demo_json_env, pv_redis = up t, pv_fresh = 70, pv_normal = id,
     pv_path = id, pv_public_url = ''https://cdn'', pv_store_fault = (\<lambda>_. None), pv_sign = Inr\<rparr>"

definition demo_profiles :: profile_world where
  "demo_profiles = \<lparr>pw_db = demo_social, pw_keys = Map.empty, pw_objects = [''avatars/2/x.png'', ''avatars/1/y.png''], pw_tasks = []\<rparr>"

lemmas demo_social_defs = demo_social_env_def demo_profile_def demo_account_def demo_template_def demo_unread_def demo_social_def
  demo_notif_env_def demo_notif_def demo_profile_env_def demo_profiles_def settings_new_def

lemma succeeded: "\<not> isl (fst r) \<Longrightarrow> \<exists>v w. r = (Inr v, w)"
  by (metis isl_def prod.collapse sum.exhaust_sel)

section \<open>Notifications\<close>


theorem counter_drifts_witness:
  "let w = after_notif (demo_notif_env 0 1) 2 (MarkRead_req 90) (demo_notif Map.empty)
   in unread_total 2 (nw_db w) = 1 \<and> unread_count ((demo_notif_env 0 1)\<lparr>ni_redis := (up 1)\<lparr>r_now := 9\<rparr>\<rparr>) 2 w = Inr 0"
proof -
  have "unread_total 2 (nw_db (demo_notif Map.empty)) = 2"
    by (simp add: unread_total_def owned_unread_def demo_notif_def demo_social_def demo_unread_def)
  moreover have "unread_total 2 (nw_db (after_notif (demo_notif_env 0 1) 2 (MarkRead_req (no_id (demo_unread 90))) (demo_notif Map.empty))) =
      unread_total 2 (nw_db (demo_notif Map.empty)) - 1 \<and>
    unread_count ((demo_notif_env 0 1)\<lparr>ni_redis := (ni_redis (demo_notif_env 0 1))\<lparr>r_now := 9\<rparr>\<rparr>) 2
      (after_notif (demo_notif_env 0 1) 2 (MarkRead_req (no_id (demo_unread 90))) (demo_notif Map.empty)) = Inr 0"
    by (rule counter_drifts [OF plain_codec_laws])
      (simp_all add: ni_codec_def owned_unread_def entry_def demo_social_defs)
  ultimately show ?thesis unfolding Let_def by (simp add: demo_notif_env_def demo_unread_def)
qed

section \<open>Subscribers\<close>

lemma demo_subscribes: "\<exists>w. subscribe (demo_notif_env 0 1) 1 3 (demo_notif Map.empty) = (Inr (), w)"
  by (simp add: subscribe_def svc_bind_def svc_refuse_def reading_def on_db_def subscription_target_def find_account_by_id_def
      so_sql_def subs_create_def so_exec_def svc_modify_def ok_or_def follows_def known_user_def account_id_def demo_social_defs)

theorem follow_unfollow_witness:
  "\<exists>w1 w2. subscribe (demo_notif_env 0 1) 1 3 (demo_notif Map.empty) = (Inr (), w1) \<and> follows (nw_db w1) 1 3 \<and>
     unsubscribe (demo_notif_env 9 2) 1 3 w1 = (Inr (), w2) \<and> sd_subs (nw_db w2) = sd_subs demo_social"
proof -
  obtain w1 where w1: "subscribe (demo_notif_env 0 1) 1 3 (demo_notif Map.empty) = (Inr (), w1)" using demo_subscribes ..
  have "follows (nw_db w1) 1 3 \<and> sd_subs (nw_db (snd (subscribe (demo_notif_env 9 2) 1 3 w1))) = sd_subs (nw_db w1) \<and>
    (\<exists>w2. unsubscribe (demo_notif_env 9 2) 1 3 w1 = (Inr (), w2) \<and> sd_subs (nw_db w2) = sd_subs (nw_db (demo_notif Map.empty)))"
    by (rule follow_unfollow [OF w1]) (simp_all add: follows_def demo_social_defs)
  with w1 show ?thesis by (auto simp: demo_notif_def)
qed

theorem followers_complete_witness:
  "\<exists>rs. follow 3 (\<lambda>cur. get_user_subscribers (demo_social_env 0) 3 2 \<lparr>cp_cursor = cur, cp_limit = Some 1\<rparr> demo_social) None = Some (Inr rs) \<and>
     map (\<lambda>r. (sb_id r, sb_is_following r)) rs = [(1, True), (3, False)]"
proof -
  let ?rows = "concat (map (join_user demo_social su_subscriber) (filter (\<lambda>s. su_subscription s = 2) (sd_subs demo_social)))"
  have r: "?rows = [subscriber_item_of \<lparr>su_subscriber = 3, su_subscription = 2, su_created_at = 20\<rparr> (demo_account 3 None),
      subscriber_item_of \<lparr>su_subscriber = 1, su_subscription = 2, su_created_at = 30\<rparr> (demo_account 1 None)]"
    by (simp add: join_user_def live_account_def account_id_def demo_social_defs)
  have f: "follow 3 (\<lambda>cur. get_user_subscribers (demo_social_env 0) 3 2 \<lparr>cp_cursor = cur, cp_limit = Some 1\<rparr> demo_social) None =
    Some (Inr (map (\<lambda>r. r\<lparr>sb_is_following := follows demo_social 3 (sb_id r)\<rparr>) (rev (sort_key (\<lambda>r. (sb_subscribed_at r, sb_id r)) ?rows))))"
    by (rule followers_complete)
      (simp_all add: r, simp_all add: demo_social_defs plain_codec_laws live_account_def account_id_def, simp add: plain_codec_def)
  show ?thesis unfolding f r
    by (simp add: sort_key_def subscriber_item_of_def account_id_def follows_def demo_social_defs)
qed

section \<open>Profiles and settings\<close>

lemma demo_soon: "t' < t + 60000 \<Longrightarrow> soon_after (demo_profile_env t) (demo_profile_env t') u"
  by (simp add: soon_after_def demo_json_laws) (simp add: demo_profile_env_def pv_codec_def demo_json_laws)

lemma demo_gone: "gone (demo_profile_env t) k demo_profiles"
  by (simp add: gone_def entry_def demo_profiles_def)

lemma demo_quiet: "quiet (demo_profile_env t)"
  by (simp add: quiet_def demo_profile_env_def demo_social_env_def)

lemma demo_live: "find (live_account 1) (sd_users (pw_db demo_profiles)) = Some (demo_account 1 None)"
  by (simp add: live_account_def account_id_def demo_social_defs)

theorem profile_cache_clash_witness:
  "let w = snd (get_me (demo_profile_env 0) 1 demo_profiles)
   in fst (get_user_by_id (demo_profile_env 1000) 2 1 w) = Inl (ProfileRedis ''Parse Error'')"
proof -
  obtain me w where "get_me (demo_profile_env 0) 1 demo_profiles = (Inr me, w)"
    using get_me_succeeds [OF demo_quiet demo_gone demo_live] by blast
  with profile_cache_clash [OF demo_soon [of 1000 0 1] demo_gone, of me w 2] show ?thesis by simp
qed

theorem following_of_another_witness:
  "\<exists>r w. get_user_by_id (demo_profile_env 0) 3 1 demo_profiles = (Inr r, w) \<and>
     get_user_by_id (demo_profile_env 1000) 2 1 w = (Inr r, w) \<and> pp_is_following r \<and> \<not> follows demo_social 2 1"
proof -
  let ?r = "public_profile_of (ua_profile (demo_account 1 None)) (follows (pw_db demo_profiles) 3 1)"
  obtain w where r: "get_user_by_id (demo_profile_env 0) 3 1 demo_profiles = (Inr ?r, w)"
    using get_user_succeeds [OF demo_quiet demo_gone demo_live] by blast
  have "counts_fit ?r" by (simp add: counts_fit_def public_profile_of_def demo_account_def demo_profile_def i64_min_def i64_max_def)
  from following_of_another [OF demo_soon demo_gone r this, of 1000 2]
  have "get_user_by_id (demo_profile_env 1000) 2 1 w = (Inr ?r, w) \<and> pp_is_following ?r = follows (pw_db demo_profiles) 3 1" by simp
  moreover have "follows (pw_db demo_profiles) 3 1" "\<not> follows demo_social 2 1" by (simp_all add: follows_def demo_social_defs)
  ultimately show ?thesis using r by blast
qed

definition demo_avatar :: "string \<Rightarrow> update_profile_request" where
  "demo_avatar k = \<lparr>up_full_name = Some ''Eve'', up_bio = None, up_avatar_key = Some k\<rparr>"

lemma demo_nonempty: "nonempty_update (demo_avatar k)"
  by (simp add: nonempty_update_def demo_avatar_def)

lemma demo_updates:
  "\<exists>me w1 me' w2. update_me (demo_profile_env 0) 1 (demo_avatar ''avatars/2/x.png'') demo_profiles = (Inr me, w1) \<and>
     update_me (demo_profile_env 1) 1 (demo_avatar ''avatars/1/y.png'') w1 = (Inr me', w2)"
proof -
  have bio: "\<not> bio_too_long (up_bio (demo_avatar k))" for k by (simp add: demo_avatar_def bio_too_long_def)
  have "\<And>k. up_avatar_key (demo_avatar ''avatars/2/x.png'') = Some k \<Longrightarrow> pv_path (demo_profile_env 0) k \<in> set (pw_objects demo_profiles)"
    by (auto simp: demo_avatar_def demo_profile_env_def demo_profiles_def)
  from update_me_succeeds [OF demo_quiet demo_nonempty demo_live bio this]
  obtain me w1 where u: "update_me (demo_profile_env 0) 1 (demo_avatar ''avatars/2/x.png'') demo_profiles = (Inr me, w1)" by blast
  from update_me_ok [OF u demo_nonempty] have db: "pw_db w1 = (pw_db demo_profiles)\<lparr>sd_users := map (\<lambda>a. if live_account 1 a
      then new_account (demo_profile_env 0) (demo_avatar ''avatars/2/x.png'') a else a) (sd_users (pw_db demo_profiles))\<rparr>"
    and obj: "pw_objects w1 = pw_objects demo_profiles" by blast+
  have live: "find (live_account 1) (sd_users (pw_db w1)) = Some (new_account (demo_profile_env 0) (demo_avatar ''avatars/2/x.png'') (demo_account 1 None))"
    using find_map_live [of 1 "new_account (demo_profile_env 0) (demo_avatar ''avatars/2/x.png'')" "sd_users (pw_db demo_profiles)"] demo_live
    by (simp add: db)
  have "\<And>k. up_avatar_key (demo_avatar ''avatars/1/y.png'') = Some k \<Longrightarrow> pv_path (demo_profile_env 1) k \<in> set (pw_objects w1)"
    by (auto simp: obj demo_avatar_def demo_profile_env_def demo_profiles_def)
  from update_me_succeeds [OF demo_quiet demo_nonempty live bio this] u show ?thesis by blast
qed

theorem update_me_shows_witness:
  "\<exists>me w'. update_me (demo_profile_env 0) 1 (demo_avatar ''avatars/2/x.png'') demo_profiles = (Inr me, w') \<and>
     me_full_name me = ''Eve'' \<and> me_bio me = None \<and> me_avatar_id me = Some ''avatars/2/x.png''"
proof -
  obtain me w' where u: "update_me (demo_profile_env 0) 1 (demo_avatar ''avatars/2/x.png'') demo_profiles = (Inr me, w')"
    using demo_updates by blast
  from update_me_shows [OF u demo_nonempty, of 2] demo_live u show ?thesis
    by (auto simp: demo_avatar_def coalesce_def opt_coalesce_def demo_account_def demo_profile_def)
qed

theorem avatar_of_another_deleted_witness:
  "\<exists>w2. demo_account 2 (Some ''avatars/2/x.png'') \<in> set (sd_users (pw_db w2)) \<and>
     ''avatars/2/x.png'' \<in> set (pw_objects demo_profiles) \<and>
     ''avatars/2/x.png'' \<notin> set (pw_objects (run_avatar_task (demo_profile_env 2) ''avatars/2/x.png'' w2))"
proof -
  obtain me w1 me' w2 where u: "update_me (demo_profile_env 0) 1 (demo_avatar ''avatars/2/x.png'') demo_profiles = (Inr me, w1)"
    "update_me (demo_profile_env 1) 1 (demo_avatar ''avatars/1/y.png'') w1 = (Inr me', w2)" using demo_updates by blast
  have "''avatars/2/x.png'' \<in> set (pw_tasks w2) \<and> demo_account 2 (Some ''avatars/2/x.png'') \<in> set (sd_users (pw_db w2)) \<and>
    pv_path (demo_profile_env 2) ''avatars/2/x.png'' \<notin> set (pw_objects (run_avatar_task (demo_profile_env 2) ''avatars/2/x.png'' w2))"
    by (rule avatar_of_another_deleted [OF u(1) _ u(2)])
      (simp_all add: demo_avatar_def account_id_def demo_social_defs)
  then show ?thesis by (auto simp: demo_profile_env_def demo_profiles_def)
qed

definition demo_language :: update_settings_request where
  "demo_language = \<lparr>ur_push = Some False, ur_app = None, ur_email = None, ur_token = None, ur_display = None,
     ur_language = Some ''pt-BR'', ur_preferences = None\<rparr>"

theorem settings_visible_witness:
  "\<exists>r w1 me w2. settings_update (demo_profile_env 0) 1 demo_language demo_profiles = (Inr r, w1) \<and>
     get_me (demo_profile_env 1) 1 w1 = (Inr me, w2) \<and> me_settings me = r \<and> \<not> sp_push r \<and> sp_language r = ''pt-BR''"
proof -
  have lang: "\<And>l. ur_language demo_language = Some l \<Longrightarrow> language_ok l"
    by (auto simp: demo_language_def language_ok_def ascii_letter_def)
  have "find (\<lambda>s. st_user_id s = 1) (sd_settings (pw_db demo_profiles)) = Some (settings_new 60 1)"
    by (simp add: demo_social_defs)
  from settings_update_succeeds [OF demo_quiet this lang] obtain r w1 where
    s: "settings_update (demo_profile_env 0) 1 demo_language demo_profiles = (Inr r, w1)" by blast
  have db: "sd_users (pw_db w1) = sd_users (pw_db demo_profiles)" by (rule settings_update_ok [OF s]) simp
  have keys: "pw_keys w1 = snd (redis_del (pv_redis (demo_profile_env 0)) (key_profile (pv_codec (demo_profile_env 0)) 1) (pw_keys demo_profiles))"
    by (rule settings_update_ok [OF s])
  have "pv_codec (demo_profile_env t) = plain_codec" "pv_redis (demo_profile_env t) = up t" for t
    by (simp_all add: pv_codec_def demo_profile_env_def demo_social_env_def)
  then have "gone (demo_profile_env 1) (key_profile (pv_codec (demo_profile_env 1)) 1) w1"
    by (simp add: gone_def keys redis_del_def guarded_cmd_def cmd_del_def)
  from get_me_succeeds [OF demo_quiet this demo_live [folded db]] obtain me w2 where "get_me (demo_profile_env 1) 1 w1 = (Inr me, w2)" by blast
  note u = s this
  have "me_settings me = r \<and> (\<forall>l. ur_language demo_language = Some l \<longrightarrow> language_ok l) \<and>
    (\<exists>s \<in> set (sd_settings (pw_db demo_profiles)). st_user_id s = 1 \<and> sp_push r = coalesce (ur_push demo_language) (st_push s) \<and>
       sp_app r = coalesce (ur_app demo_language) (st_app s) \<and> sp_email r = coalesce (ur_email demo_language) (st_email s) \<and>
       sp_display r = coalesce (ur_display demo_language) (st_display s) \<and> sp_language r = coalesce (ur_language demo_language) (st_language s) \<and>
       sp_has_push_token r = (ur_token demo_language \<noteq> None \<or> st_token s \<noteq> None))"
    by (rule settings_visible [OF u(1) _ u(2)]) (simp_all add: demo_profile_env_def pv_codec_def)
  with u show ?thesis by (auto simp: demo_language_def coalesce_def)
qed

section \<open>Push\<close>

theorem multicast_accounts_witness:
  "let m = mc_run ''t'' ''b'' None ''l'' [StartNext demo_push_env, StartNext demo_push_env]
       (send_multicast [(1, ''x''), (2, ''y'')] push_new)
   in map_option mc_done m = Some True \<and> map_option (\<lambda>m. mc_succeeded m + length (mc_failed m)) m = Some 2"
proof -
  let ?run = "mc_run ''t'' ''b'' None ''l'' [StartNext demo_push_env, StartNext demo_push_env]
       (send_multicast [(1, ''x''), (2, ''y'')] push_new)"
  have "map_option mc_done ?run = Some True" by code_simp
  then obtain m where m: "?run = Some m" "mc_done m" by auto
  from multicast_accounts [OF m(1)] m show ?thesis by simp
qed

end
