(* ===== verification/Fanout_Jobs.thy ===== *)
theory Fanout_Jobs
  imports Broadcast_Tasks
begin

text \<open>
  \<open>jobs/notification_jobs.rs\<close>: the queued jobs that tell the subscribers of a creator that a broadcast has started or
  is scheduled. \<open>se_stamp\<close> is the JSON form of a time in a payload.
\<close>

record scheduled_job =
  sj_broadcast_id :: uuid
  sj_creator_id :: uuid
  sj_title :: string
  sj_image_url :: "string option"
  sj_start_time :: timestamp

definition tell_subscribers :: "svc_env \<Rightarrow> uuid \<Rightarrow> ws_payload \<Rightarrow> unit svc" where
  "tell_subscribers e creator_id payload =
     svc_bind (get_subscriber_ids e creator_id) (\<lambda>ids.
     if ids = [] then svc_return () else svc_publish (publish_to_users (se_bridge e) ids payload))"

definition broadcast_started_fanout :: "svc_env \<Rightarrow> fanout_job \<Rightarrow> unit svc" where
  "broadcast_started_fanout e job =
     tell_subscribers e (fj_creator_id job) (payload_new NewBroadcast (JObj
       [(''broadcast_id'', json_uuid (se_codec e) (fj_broadcast_id job)), (''title'', JStr (fj_title job)),
        (''imageUrl'', json_opt_str (fj_image_url job)), (''creatorId'', json_uuid (se_codec e) (fj_creator_id job))]))"

definition broadcast_scheduled_fanout :: "svc_env \<Rightarrow> scheduled_job \<Rightarrow> unit svc" where
  "broadcast_scheduled_fanout e job =
     tell_subscribers e (sj_creator_id job) (payload_new ScheduledBroadcast (JObj
       [(''broadcastId'', json_uuid (se_codec e) (sj_broadcast_id job)), (''title'', JStr (sj_title job)),
        (''imageUrl'', json_opt_str (sj_image_url job)), (''creatorId'', json_uuid (se_codec e) (sj_creator_id job)),
        (''startTime'', se_stamp e (sj_start_time job))]))"

text \<open>A fan-out job leaves the tables and Redis as they are, whether it succeeds or fails, and tells nobody when it fails.\<close>

lemma fanout_only_publishes:
  assumes "tell_subscribers e c p w = (r, w')"
  shows "\<exists>out. w' = w\<lparr>w_published := w_published w @ out\<rparr> \<and> (isl r \<longrightarrow> out = [])"
proof -
  obtain q where q: "repo_get_subscriber_ids (se_repo e) c (w_db w) = q" by simp
  show ?thesis
  proof (cases "q = Inr [] \<or> isl q")
    case True
    with assms q have "w' = w" by (auto simp: tell_subscribers_def svc_bind_def get_subscriber_ids_def svc_read_def svc_return_def
        split: sum.splits)
    then show ?thesis by (intro exI [of _ "[]"]) simp
  next
    case False
    with assms q show ?thesis
      by (auto simp: tell_subscribers_def svc_bind_def get_subscriber_ids_def svc_read_def svc_publish_def svc_modify_def split: sum.splits)
  qed
qed

end
