(* ===== verification/Broadcast_Listing.thy ===== *)
theory Broadcast_Listing
  imports Broadcast_Tasks "HOL-Library.List_Lexorder" "HOL-Library.Char_ord" "HOL-Library.Option_ord"
begin

text \<open>
  The listings of the broadcast module: the three dynamic queries of
  \<open>modules/broadcast/repository.rs\<close> and the views of \<open>modules/broadcast/service.rs\<close> over them. A query is
  put together from its request: filters, the keyset condition of its cursor, the order and the
  limit; here each is what the database makes of the SQL text, including the texts it refuses. The
  cached views answer with the result, the keyspace and the task that stores the page.
\<close>

section \<open>Environment and rows\<close>

text \<open>
  \<open>le_matches\<close> is PostgreSQL's \<open>to_tsvector('english', document) @@ plainto_tsquery('english', words)\<close>,
  \<open>le_collate\<close> the sort key the database's collation gives a text (equal keys are ordered by the bytes),
  \<open>le_trim\<close> Rust's \<open>str::trim\<close>, \<open>le_kw_hex\<close> the hash of a keyword in a cache key; the rest are serde's
  texts of the pages.
\<close>

record broadcast_list_item =
  bi_id :: uuid
  bi_title :: string
  bi_description :: "string option"
  bi_time_zone :: "string option"
  bi_image_url :: "string option"
  bi_image_id :: "string option"
  bi_status :: broadcast_status
  bi_created_at :: timestamp
  bi_start_time :: "timestamp option"
  bi_end_time :: "timestamp option"
  bi_total_participants :: int
  bi_creator_id :: uuid
  bi_creator_name :: string
  bi_creator_avatar_url :: "string option"
  bi_creator_avatar_id :: "string option"

record listing_env =
  le_svc :: svc_env
  le_matches :: "string \<Rightarrow> string \<Rightarrow> bool"
  le_collate :: "string \<Rightarrow> string"
  le_trim :: "string \<Rightarrow> string"
  le_kw_hex :: "string \<Rightarrow> string"
  le_broadcasts_text :: "broadcast_list_item cursor_page \<Rightarrow> string"
  le_broadcasts_parse :: "string \<Rightarrow> broadcast_list_item cursor_page option"
  le_participants_text :: "participant_list_item cursor_page \<Rightarrow> string"
  le_participants_parse :: "string \<Rightarrow> participant_list_item cursor_page option"

abbreviation le_codec :: "listing_env \<Rightarrow> codec" where
  "le_codec e \<equiv> se_codec (le_svc e)"

abbreviation le_redis :: "listing_env \<Rightarrow> redis_env" where
  "le_redis e \<equiv> se_redis (le_svc e)"

definition text_key :: "listing_env \<Rightarrow> string \<Rightarrow> string \<times> string" where
  "text_key e s = (le_collate e s, s)"

section \<open>Fragments\<close>

text \<open>\<open>if let Some(v) = field { qb.push(...).push_bind(v) }\<close>, and a comparison with a nullable column, which
  is not true of NULL.\<close>

definition pushed :: "'a option \<Rightarrow> ('a \<Rightarrow> bool) \<Rightarrow> bool" where
  "pushed q cond = (case q of None \<Rightarrow> True | Some v \<Rightarrow> cond v)"

definition not_null :: "'a option \<Rightarrow> ('a \<Rightarrow> bool) \<Rightarrow> bool" where
  "not_null col cond = (case col of None \<Rightarrow> False | Some v \<Rightarrow> cond v)"

definition cursor_res :: "cursor_error + 'a \<Rightarrow> broadcast_error + 'a" where
  "cursor_res r = (case r of Inl err \<Rightarrow> Inl (CursorErr err) | Inr v \<Rightarrow> Inr v)"

text \<open>What PostgreSQL answers to a text it cannot parse or analyse, and sqlx to a NULL it cannot hold.\<close>

definition nulls_syntax :: string where "nulls_syntax = ''syntax error at or near \"NULLS\"''"
definition unequal_rows :: string where "unequal_rows = ''unequal number of entries in row expressions''"
definition ambiguous_column :: string where
  "ambiguous_column = ''column reference \"deleted_at\" is ambiguous''"
definition unexpected_null :: string where
  "unexpected_null = ''error occurred while decoding column \"total_participants\": unexpected null; try decoding as an `Option`''"

fun decode_rows :: "('r \<Rightarrow> 'e + 'a) \<Rightarrow> 'r list \<Rightarrow> 'e + 'a list" where
  "decode_rows f [] = Inr []"
| "decode_rows f (r # rs) = bind_res (f r) (\<lambda>x. bind_res (decode_rows f rs) (\<lambda>xs. Inr (x # xs)))"

section \<open>Broadcasts\<close>

text \<open>The cursor's parts: \<open>cursor_ts1\<close>, \<open>cursor_ts2\<close>, \<open>cursor_score\<close> and \<open>cursor_id\<close>.\<close>

definition broadcast_cursor ::
    "codec \<Rightarrow> broadcast_query \<Rightarrow> broadcast_error + (timestamp option \<times> timestamp option \<times> int option \<times> uuid option)" where
  "broadcast_cursor c q =
     (case cp_cursor (bq_pagination q) of
        None \<Rightarrow> Inr (None, None, None, None)
      | Some cur \<Rightarrow>
          if effective_sort q = SortTotalParticipants
          then bind_res (cursor_res (to_score_id c cur)) (\<lambda>(score, i). Inr (None, None, Some score, Some i))
          else bind_res (cursor_res (to_timestamp_id c cur)) (\<lambda>(ts, i). Inr (Some ts, Some ts, None, Some i)))"

definition broadcast_filters :: "listing_env \<Rightarrow> broadcast_query \<Rightarrow> uuid option \<Rightarrow> db \<Rightarrow> broadcast \<Rightarrow> bool" where
  "broadcast_filters e q requester_id d b \<longleftrightarrow>
     b_deleted_at b = None \<and>
     pushed (bq_creator_id q) (\<lambda>cid. b_creator_id b = cid) \<and>
     pushed (bq_status q) (\<lambda>st. b_status b = st) \<and>
     (or_default (bq_only_subscriptions q) False \<longrightarrow>
        pushed requester_id (\<lambda>vid. (vid, b_creator_id b) \<in> set (d_subscribers d))) \<and>
     pushed (bq_keywords q) (\<lambda>kw.
        le_matches e (b_title b @ '' '' @ or_default (b_description b) []) (le_trim e kw)) \<and>
     pushed (bq_start_time_gt q) (\<lambda>v. not_null (b_start_time b) (\<lambda>t. t > v)) \<and>
     pushed (bq_start_time_gte q) (\<lambda>v. not_null (b_start_time b) (\<lambda>t. t \<ge> v)) \<and>
     pushed (bq_start_time_lt q) (\<lambda>v. not_null (b_start_time b) (\<lambda>t. t < v)) \<and>
     pushed (bq_start_time_lte q) (\<lambda>v. not_null (b_start_time b) (\<lambda>t. t \<le> v)) \<and>
     pushed (bq_end_time_gt q) (\<lambda>v. not_null (b_end_time b) (\<lambda>t. t > v)) \<and>
     pushed (bq_end_time_gte q) (\<lambda>v. not_null (b_end_time b) (\<lambda>t. t \<ge> v)) \<and>
     pushed (bq_end_time_lt q) (\<lambda>v. not_null (b_end_time b) (\<lambda>t. t < v)) \<and>
     pushed (bq_end_time_lte q) (\<lambda>v. not_null (b_end_time b) (\<lambda>t. t \<le> v)) \<and>
     pushed (bq_start_time_exists q) (\<lambda>wanted. (b_start_time b \<noteq> None) = wanted) \<and>
     pushed (bq_end_time_exists q) (\<lambda>wanted. (b_end_time b \<noteq> None) = wanted)"

text \<open>
  The texts the database refuses. \<open>Order::sql\<close> already says where NULLs go, so the sort by start time
  says it twice; the condition of an end-time cursor compares a pair with three values.
\<close>

definition broadcast_text_error ::
    "broadcast_query \<Rightarrow> timestamp option \<Rightarrow> timestamp option \<Rightarrow> uuid option \<Rightarrow> string option" where
  "broadcast_text_error q cursor_ts1 cursor_ts2 cursor_id =
     (case effective_sort q of
        SortStartTime \<Rightarrow> Some nulls_syntax
      | SortEndTime \<Rightarrow>
          (case (cursor_ts1, cursor_ts2, cursor_id) of (Some _, Some _, Some _) \<Rightarrow> Some unequal_rows | _ \<Rightarrow> None)
      | _ \<Rightarrow> None)"

definition broadcast_beyond ::
    "broadcast_query \<Rightarrow> timestamp option \<Rightarrow> int option \<Rightarrow> uuid option \<Rightarrow> broadcast \<Rightarrow> bool" where
  "broadcast_beyond q cursor_ts1 cursor_score cursor_id b =
     (case effective_sort q of
        SortCreatedAt \<Rightarrow> push_cursor_condition b_created_at b_id cursor_ts1 cursor_id (effective_order q) b
      | SortTitle \<Rightarrow> push_cursor_condition b_created_at b_id cursor_ts1 cursor_id (effective_order q) b
      | SortTotalParticipants \<Rightarrow>
          (case (cursor_score, cursor_id) of
             (Some score, Some i) \<Rightarrow>
               not_null (b_total_participants b) (\<lambda>n. sql_cmp (cursor_op (effective_order q)) (n, b_id b) (score, i))
           | _ \<Rightarrow> True)
      | _ \<Rightarrow> True)"

text \<open>NULL totals are last when descending and first when ascending, which is where \<open>None\<close> is ordered.\<close>

definition broadcast_ordered :: "listing_env \<Rightarrow> broadcast_query \<Rightarrow> broadcast list \<Rightarrow> broadcast list" where
  "broadcast_ordered e q rows =
     (let dir = order_sql (effective_order q)
      in case effective_sort q of
           SortCreatedAt \<Rightarrow> sql_order_by dir (\<lambda>b. (b_created_at b, b_id b)) rows
         | SortTitle \<Rightarrow> sql_order_by dir (\<lambda>b. (text_key e (b_title b), b_created_at b, b_id b)) rows
         | SortStartTime \<Rightarrow> rows
         | SortEndTime \<Rightarrow> sql_order_by dir (\<lambda>b. (or_default (b_end_time b) (b_created_at b), b_id b)) rows
         | SortTotalParticipants \<Rightarrow> sql_order_by dir (\<lambda>b. (b_total_participants b, b_id b)) rows)"

text \<open>The selected columns of a row and its creator's, joined on the left.\<close>

definition broadcast_item :: "db \<Rightarrow> broadcast \<Rightarrow> broadcast_error + broadcast_list_item" where
  "broadcast_item d b =
     (case b_total_participants b of
        None \<Rightarrow> Inl (Database unexpected_null)
      | Some n \<Rightarrow>
          (let u = summary_of d (b_creator_id b)
           in Inr \<lparr>bi_id = b_id b, bi_title = b_title b, bi_description = b_description b,
                bi_time_zone = b_time_zone b, bi_image_url = b_image_url b, bi_image_id = b_image_id b,
                bi_status = b_status b, bi_created_at = b_created_at b, bi_start_time = b_start_time b,
                bi_end_time = b_end_time b, bi_total_participants = n, bi_creator_id = b_creator_id b,
                bi_creator_name = (case u of Some s \<Rightarrow> us_full_name s | None \<Rightarrow> ''Unknown''),
                bi_creator_avatar_url = (case u of Some s \<Rightarrow> us_avatar_url s | None \<Rightarrow> None),
                bi_creator_avatar_id = (case u of Some s \<Rightarrow> us_avatar_id s | None \<Rightarrow> None)\<rparr>))"

definition find_broadcasts ::
    "listing_env \<Rightarrow> broadcast_query \<Rightarrow> uuid option \<Rightarrow> db \<Rightarrow> broadcast_error + broadcast_list_item list" where
  "find_broadcasts e q requester_id d =
     bind_res (broadcast_cursor (le_codec e) q) (\<lambda>(cursor_ts1, cursor_ts2, cursor_score, cursor_id).
     bind_res (sql (se_repo (le_svc e)) SqlFindBroadcasts ()) (\<lambda>_.
       case broadcast_text_error q cursor_ts1 cursor_ts2 cursor_id of
         Some err \<Rightarrow> Inl (Database err)
       | None \<Rightarrow>
           decode_rows (broadcast_item d)
             (take (nat (limit_plus_one (bq_pagination q)))
               (broadcast_ordered e q
                 (filter (\<lambda>b. broadcast_filters e q requester_id d b \<and>
                              broadcast_beyond q cursor_ts1 cursor_score cursor_id b)
                   (d_broadcasts d))))))"

definition item_cursor :: "codec \<Rightarrow> timestamp \<Rightarrow> broadcast_sort_by \<Rightarrow> broadcast_list_item \<Rightarrow> cursor" where
  "item_cursor c now sort_by r =
     (case sort_by of
        SortTitle \<Rightarrow> from_timestamp_id c (bi_created_at r) (bi_id r)
      | SortCreatedAt \<Rightarrow> from_timestamp_id c (bi_created_at r) (bi_id r)
      | SortStartTime \<Rightarrow> from_timestamp_id c (or_default (bi_start_time r) now) (bi_id r)
      | SortEndTime \<Rightarrow> from_timestamp_id c (or_default (bi_end_time r) (bi_created_at r)) (bi_id r)
      | SortTotalParticipants \<Rightarrow> from_score_id c (bi_total_participants r) (bi_id r))"

definition build_broadcast_page ::
    "listing_env \<Rightarrow> broadcast_list_item list \<Rightarrow> int \<Rightarrow> broadcast_sort_by \<Rightarrow> broadcast_list_item cursor_page" where
  "build_broadcast_page e rows limit sort_by = from_rows rows limit (item_cursor (le_codec e) (se_later (le_svc e)) sort_by)"

definition get_broadcasts_from_db ::
    "listing_env \<Rightarrow> broadcast_query \<Rightarrow> uuid option \<Rightarrow> db \<Rightarrow> broadcast_error + broadcast_list_item cursor_page" where
  "get_broadcasts_from_db e q requester_id d =
     bind_res (find_broadcasts e q requester_id d) (\<lambda>rows.
       Inr (build_broadcast_page e rows (page_limit (bq_pagination q)) (effective_sort q)))"

section \<open>Cached views of broadcasts\<close>

type_synonym 'r listing =
  "(broadcast_error + 'r cursor_page) \<times> keyspace \<times> 'r cursor_page coalesce_task option"

definition TTL_10_SECS :: int where "TTL_10_SECS = 10"
definition TTL_30_SECS :: int where "TTL_30_SECS = 30"

definition coalesced_broadcasts ::
    "listing_env \<Rightarrow> string \<Rightarrow> int \<Rightarrow> (broadcast_error + broadcast_list_item cursor_page) \<Rightarrow> keyspace \<Rightarrow>
     broadcast_list_item listing" where
  "coalesced_broadcasts e = (\<lambda>cache_key ttl fetched keys.
     coalesce_cache (le_redis e) (le_broadcasts_parse e) cache_key ttl (se_seen (le_svc e)) fetched keys)"

definition get_broadcasts ::
    "listing_env \<Rightarrow> broadcast_query \<Rightarrow> uuid option \<Rightarrow> db \<Rightarrow> keyspace \<Rightarrow> broadcast_list_item listing" where
  "get_broadcasts e q requester_id d keys =
     (let ttl = (if bq_status q = Some Active then TTL_10_SECS else TTL_30_SECS)
      in case broadcast_list_cache_key (le_codec e) (le_kw_hex e) q of
           None \<Rightarrow> (get_broadcasts_from_db e q requester_id d, keys, None)
         | Some cache_key \<Rightarrow> coalesced_broadcasts e cache_key ttl (get_broadcasts_from_db e q requester_id d) keys)"

definition page_key :: "broadcast_query \<Rightarrow> string" where
  "page_key q = ''cur='' @ or_default (cp_cursor (bq_pagination q)) [] @ '':lim='' @ show_int (page_limit (bq_pagination q))"

definition get_now_live :: "listing_env \<Rightarrow> broadcast_query \<Rightarrow> db \<Rightarrow> keyspace \<Rightarrow> broadcast_list_item listing" where
  "get_now_live e query d keys =
     (let q = query\<lparr>bq_status := Some Active, bq_sort_by := Some SortTotalParticipants, bq_order := Some Desc\<rparr>
      in coalesced_broadcasts e (''bc:now_live:'' @ page_key q) TTL_10_SECS (get_broadcasts_from_db e q None d) keys)"

definition get_live_for_you ::
    "listing_env \<Rightarrow> broadcast_query \<Rightarrow> uuid \<Rightarrow> db \<Rightarrow> keyspace \<Rightarrow> broadcast_list_item listing" where
  "get_live_for_you e query user_id d keys =
     (let q = query\<lparr>bq_status := Some Active, bq_only_subscriptions := Some True,
                bq_sort_by := Some SortCreatedAt, bq_order := Some Desc\<rparr>
      in coalesced_broadcasts e (''bc:live_for_you:v='' @ uuid_show (le_codec e) user_id @ '':'' @ page_key q) TTL_10_SECS
           (get_broadcasts_from_db e q None d) keys)"

definition get_recently_live :: "listing_env \<Rightarrow> broadcast_query \<Rightarrow> db \<Rightarrow> keyspace \<Rightarrow> broadcast_list_item listing" where
  "get_recently_live e query d keys =
     (let now = se_now (le_svc e);
          yesterday = now - 24 * 60 * 60 * 1000000000;
          q = query\<lparr>bq_status := Some Inactive, bq_end_time_gte := Some yesterday, bq_end_time_lte := Some now,
                bq_end_time_exists := Some True, bq_sort_by := Some SortEndTime, bq_order := Some Desc\<rparr>
      in coalesced_broadcasts e (''bc:recently_live:'' @ page_key q) 300 (get_broadcasts_from_db e q None d) keys)"

section \<open>Participants\<close>

text \<open>The cursor's parts: \<open>cursor_ts\<close>, \<open>cursor_id\<close>, \<open>cursor_name\<close> and \<open>cursor_role\<close>.\<close>

definition role_of_priority :: "int \<Rightarrow> participant_role option" where
  "role_of_priority priority =
     (if priority = 0 then Some Host else if priority = 1 then Some Cohost
      else if priority = 2 then Some Participant else None)"

definition participant_cursor ::
    "codec \<Rightarrow> cursor option \<Rightarrow> participant_sort_by \<Rightarrow>
     broadcast_error + (timestamp option \<times> uuid option \<times> string option \<times> participant_role option)" where
  "participant_cursor c cur sort_by =
     (case cur of
        None \<Rightarrow> Inr (None, None, None, None)
      | Some s \<Rightarrow>
          (case sort_by of
             SortJoinedAt \<Rightarrow> bind_res (cursor_res (to_timestamp_id c s)) (\<lambda>(ts, i). Inr (Some ts, Some i, None, None))
           | SortName \<Rightarrow> bind_res (cursor_res (to_name_id c s)) (\<lambda>(name, i). Inr (None, Some i, Some name, None))
           | SortRole \<Rightarrow> bind_res (cursor_res (to_score_id c s)) (\<lambda>(priority, i).
               Inr (None, Some i, None, role_of_priority priority))))"

text \<open>A participant joined with the user, who has not been deleted.\<close>

definition participant_item :: "broadcast_participant \<Rightarrow> user_row \<Rightarrow> participant_list_item" where
  "participant_item p u =
     \<lparr>pl_id = us_id (u_summary u), pl_full_name = us_full_name (u_summary u),
      pl_avatar_id = us_avatar_id (u_summary u), pl_avatar_url = us_avatar_url (u_summary u),
      pl_role = p_role p, pl_joined_at = p_joined_at p\<rparr>"

definition join_participant :: "db \<Rightarrow> broadcast_participant \<Rightarrow> participant_list_item list" where
  "join_participant d p =
     map (participant_item p)
       (filter (\<lambda>u. us_id (u_summary u) = p_participant_id p \<and> u_deleted_at u = None) (d_users d))"

definition participant_filters :: "listing_env \<Rightarrow> participant_query \<Rightarrow> participant_list_item \<Rightarrow> bool" where
  "participant_filters e q r \<longleftrightarrow>
     pushed (pq_role q) (\<lambda>role. pl_role r = role) \<and>
     pushed (pq_keywords q) (\<lambda>kw. kw \<noteq> [] \<longrightarrow> le_matches e (pl_full_name r) kw)"

definition participant_beyond ::
    "listing_env \<Rightarrow> participant_sort_by \<Rightarrow> order \<Rightarrow> timestamp option \<Rightarrow> uuid option \<Rightarrow> string option \<Rightarrow>
     participant_role option \<Rightarrow> participant_list_item \<Rightarrow> bool" where
  "participant_beyond e sort_by ord cursor_ts cursor_id cursor_name cursor_role r =
     (case sort_by of
        SortRole \<Rightarrow>
          (case (cursor_role, cursor_id) of
             (Some role, Some i) \<Rightarrow>
               sql_cmp (cursor_op ord) (text_key e (role_to_string (pl_role r)), pl_id r) (text_key e (role_to_string role), i)
           | _ \<Rightarrow> True)
      | SortJoinedAt \<Rightarrow> push_cursor_condition pl_joined_at pl_id cursor_ts cursor_id ord r
      | SortName \<Rightarrow>
          (case (cursor_name, cursor_id) of
             (Some name, Some i) \<Rightarrow> sql_cmp (cursor_op ord) (text_key e (pl_full_name r), pl_id r) (text_key e name, i)
           | _ \<Rightarrow> True))"

definition participants_ordered ::
    "listing_env \<Rightarrow> participant_sort_by \<Rightarrow> order \<Rightarrow> participant_list_item list \<Rightarrow> participant_list_item list" where
  "participants_ordered e sort_by ord rows =
     (case sort_by of
        SortRole \<Rightarrow> sql_order_by (order_sql ord) (\<lambda>r. (role_priority (pl_role r), pl_id r)) rows
      | SortJoinedAt \<Rightarrow> sql_order_by (order_sql ord) (\<lambda>r. (pl_joined_at r, pl_id r)) rows
      | SortName \<Rightarrow> sql_order_by (order_sql ord) (\<lambda>r. (text_key e (pl_full_name r), pl_id r)) rows)"

definition joined_participants :: "listing_env \<Rightarrow> uuid \<Rightarrow> participant_query \<Rightarrow> db \<Rightarrow> participant_list_item list" where
  "joined_participants e broadcast_id q d =
     filter (participant_filters e q)
       (concat (map (join_participant d) (filter (\<lambda>p. p_broadcast_id p = broadcast_id) (d_participants d))))"

definition find_participants ::
    "listing_env \<Rightarrow> uuid \<Rightarrow> participant_query \<Rightarrow> db \<Rightarrow> broadcast_error + participant_list_item list" where
  "find_participants e broadcast_id q d =
     (let sort_by = or_default (pq_sort_by q) participant_sort_default; ord = or_default (pq_order q) Asc
      in bind_res (participant_cursor (le_codec e) (cp_cursor (pq_pagination q)) sort_by)
           (\<lambda>(cursor_ts, cursor_id, cursor_name, cursor_role).
              sql (se_repo (le_svc e)) SqlFindParticipants
                (take (nat (limit_plus_one (pq_pagination q)))
                  (participants_ordered e sort_by ord
                    (filter (participant_beyond e sort_by ord cursor_ts cursor_id cursor_name cursor_role)
                      (joined_participants e broadcast_id q d))))))"

text \<open>Both \<open>u\<close> and \<open>b\<close> have a \<open>deleted_at\<close>, which the join condition leaves unqualified.\<close>

definition find_live_participants ::
    "listing_env \<Rightarrow> uuid \<Rightarrow> participant_query \<Rightarrow> db \<Rightarrow> broadcast_error + participant_list_item list" where
  "find_live_participants e broadcast_id q d =
     bind_res
       (case cp_cursor (pq_pagination q) of
          None \<Rightarrow> Inr ()
        | Some cur \<Rightarrow> (case to_timestamp_id (le_codec e) cur of Inl _ \<Rightarrow> Inl (Database row_not_found) | Inr _ \<Rightarrow> Inr ()))
       (\<lambda>_. bind_res (sql (se_repo (le_svc e)) SqlFindLiveParticipants ()) (\<lambda>_. Inl (Database ambiguous_column)))"

definition get_participants_from_db ::
    "listing_env \<Rightarrow> uuid \<Rightarrow> participant_query \<Rightarrow> db \<Rightarrow> broadcast_error + participant_list_item cursor_page" where
  "get_participants_from_db e broadcast_id q d =
     bind_res (find_participants e broadcast_id q d) (\<lambda>rows.
       Inr (from_rows rows (page_limit (pq_pagination q)) (\<lambda>r. from_timestamp_id (le_codec e) (pl_joined_at r) (pl_id r))))"

definition get_participants ::
    "listing_env \<Rightarrow> uuid \<Rightarrow> participant_query \<Rightarrow> db \<Rightarrow> keyspace \<Rightarrow> participant_list_item listing" where
  "get_participants e broadcast_id q d keys =
     coalesce_cache (le_redis e) (le_participants_parse e)
       (participant_key_all (le_codec e) (le_kw_hex e) broadcast_id q) TTL_30_SECS (se_seen (le_svc e))
       (get_participants_from_db e broadcast_id q d) keys"

section \<open>Who is in the room\<close>

text \<open>
  The media server's listing, cached for five seconds; the server is asked only when the coalesced
  call runs its fetch.
\<close>

definition live_listing :: "svc_env \<Rightarrow> uuid \<Rightarrow> livekit_participant_info list svc" where
  "live_listing e broadcast_id w =
     (let key = ''bc:live_participants:'' @ uuid_show (se_codec e) broadcast_id;
          (listed, calls) = list_participants (se_codec e) (se_lk e) broadcast_id;
          asked = (fst (coalesce_cache (se_redis e) (se_listing_parse e) key 5 (se_seen e) (Inl ()) (w_keys w)) = Inl ())
      in case coalesce_cache (se_redis e) (se_listing_parse e) key 5 (se_seen e) listed (w_keys w) of
           (r, k, task) \<Rightarrow>
             (r, w\<lparr>w_keys := k, w_calls := w_calls w @ (if asked then calls else []), w_tasks := w_tasks w @
                (case task of Some t \<Rightarrow> [CacheLive t] | None \<Rightarrow> [])\<rparr>))"

text \<open>The two \<open>HashMap\<close>s are association lists in which the last entry of a key counts.\<close>

definition live_item ::
    "broadcast \<Rightarrow> user_summary list \<Rightarrow> (uuid \<times> participant_role) list \<Rightarrow> livekit_participant_info \<Rightarrow> participant_list_item" where
  "live_item b users roles lp =
     (let user = map_of (rev (map (\<lambda>u. (us_id u, u)) users)) (lp_id lp)
      in \<lparr>pl_id = lp_id lp,
          pl_full_name = (case user of Some u \<Rightarrow> us_full_name u | None \<Rightarrow> ''Unknown''),
          pl_avatar_id = Option.bind user us_avatar_id,
          pl_avatar_url = Option.bind user us_avatar_url,
          pl_role = (case map_of (rev roles) (lp_id lp) of
                       Some r \<Rightarrow> r
                     | None \<Rightarrow> if b_creator_id b = lp_id lp then Host else Participant),
          pl_joined_at = lp_joined_at lp\<rparr>)"

definition live_filters :: "svc_env \<Rightarrow> participant_query \<Rightarrow> participant_list_item \<Rightarrow> bool" where
  "live_filters e q p \<longleftrightarrow>
     pushed (pq_keywords q) (\<lambda>kw. sublist (se_lowercase e kw) (se_lowercase e (pl_full_name p))) \<and>
     pushed (pq_role q) (\<lambda>role. pl_role p = role)"

text \<open>\<open>sort_by\<close> is stable, also with the comparison reversed.\<close>

definition stable_sort :: "order \<Rightarrow> ('a \<Rightarrow> 'k::linorder) \<Rightarrow> 'a list \<Rightarrow> 'a list" where
  "stable_sort ord f xs = (case ord of Asc \<Rightarrow> sort_key f xs | Desc \<Rightarrow> rev (sort_key f (rev xs)))"

definition live_sorted :: "participant_sort_by \<Rightarrow> order \<Rightarrow> participant_list_item list \<Rightarrow> participant_list_item list" where
  "live_sorted sort_by ord ps =
     (case sort_by of
        SortRole \<Rightarrow> stable_sort ord (\<lambda>p. role_priority (pl_role p)) ps
      | SortJoinedAt \<Rightarrow> stable_sort ord pl_joined_at ps
      | SortName \<Rightarrow> stable_sort ord pl_full_name ps)"

text \<open>\<open>iter().position(...).unwrap_or(0)\<close>\<close>

definition position_or_0 :: "('a \<Rightarrow> bool) \<Rightarrow> 'a list \<Rightarrow> nat" where
  "position_or_0 cond xs = (if list_ex cond xs then length (takeWhile (\<lambda>x. \<not> cond x) xs) else 0)"

definition live_start ::
    "codec \<Rightarrow> participant_sort_by \<Rightarrow> cursor option \<Rightarrow> participant_list_item list \<Rightarrow> broadcast_error + nat" where
  "live_start c sort_by cur ps =
     (case cur of
        None \<Rightarrow> Inr 0
      | Some s \<Rightarrow>
          (case sort_by of
             SortRole \<Rightarrow> bind_res (cursor_res (to_score_id c s)) (\<lambda>(priority, i).
               Inr (position_or_0 (\<lambda>p. (role_priority (pl_role p), pl_id p) > (priority, i)) ps))
           | SortJoinedAt \<Rightarrow> bind_res (cursor_res (to_timestamp_id c s)) (\<lambda>(ts, i).
               Inr (position_or_0 (\<lambda>p. (pl_joined_at p, pl_id p) > (ts, i)) ps))
           | SortName \<Rightarrow> bind_res (cursor_res (to_name_id c s)) (\<lambda>(name, i).
               Inr (position_or_0 (\<lambda>p. (pl_full_name p, pl_id p) > (name, i)) ps))))"

definition live_cursor :: "codec \<Rightarrow> participant_sort_by \<Rightarrow> participant_list_item \<Rightarrow> cursor" where
  "live_cursor c sort_by p =
     (case sort_by of
        SortRole \<Rightarrow> from_score_id c (role_priority (pl_role p)) (pl_id p)
      | SortJoinedAt \<Rightarrow> from_timestamp_id c (pl_joined_at p) (pl_id p)
      | SortName \<Rightarrow> from_name_id c (pl_full_name p) (pl_id p))"

definition live_page ::
    "svc_env \<Rightarrow> participant_query \<Rightarrow> participant_list_item list \<Rightarrow> broadcast_error + participant_list_item cursor_page" where
  "live_page e q enriched =
     (let sort_by = or_default (pq_sort_by q) SortRole;
          ps = live_sorted sort_by (or_default (pq_order q) Asc) (filter (live_filters e q) enriched);
          limit = page_limit (pq_pagination q)
      in bind_res (live_start (se_codec e) sort_by (cp_cursor (pq_pagination q)) ps) (\<lambda>start_index.
           Inr (from_rows (take (as_usize limit) (drop start_index ps)) limit (live_cursor (se_codec e) sort_by))))"

definition get_live_participants ::
    "svc_env \<Rightarrow> uuid \<Rightarrow> participant_query \<Rightarrow> participant_list_item cursor_page svc" where
  "get_live_participants e broadcast_id q =
     svc_bind (svc_find (repo_find_by_id (se_repo e) broadcast_id) NotFound) (\<lambda>b.
     svc_bind (svc_refuse (\<not> is_active b) NotLive) (\<lambda>_.
     svc_bind (live_listing e broadcast_id) (\<lambda>lk.
       if lk = [] then svc_return \<lparr>data = [], next_cursor = None, has_next_page = False\<rparr>
       else
         svc_bind (svc_read (repo_find_users_batch (se_repo e) (map lp_id lk))) (\<lambda>users.
         svc_bind (svc_read (repo_get_participant_roles (se_repo e) broadcast_id)) (\<lambda>roles.
         svc_lift (live_page e q (map (live_item b users roles) lk)))))))"

end
