(* ===== verification/Listing_Properties.thy ===== *)
theory Listing_Properties
  imports Broadcast_Listing Chat_History "HOL-Library.Multiset"
begin

text \<open>
  What a client sees of the listings: the feeds by creation time and by audience are complete, the sorts by
  start and end time are refused by the database, a participant list has one page, and so has
  the list of who is in the room.
\<close>

section \<open>Requests and rows\<close>

definition at_cursor :: "broadcast_query \<Rightarrow> cursor option \<Rightarrow> broadcast_query" where
  "at_cursor q cur = q\<lparr>bq_pagination := (bq_pagination q)\<lparr>cp_cursor := cur\<rparr>\<rparr>"

definition participants_at :: "participant_query \<Rightarrow> cursor option \<Rightarrow> participant_query" where
  "participants_at q cur = q\<lparr>pq_pagination := (pq_pagination q)\<lparr>cp_cursor := cur\<rparr>\<rparr>"

definition listed :: "listing_env \<Rightarrow> broadcast_query \<Rightarrow> uuid option \<Rightarrow> db \<Rightarrow> broadcast list" where
  "listed e q requester_id d = filter (broadcast_filters e q requester_id d) (d_broadcasts d)"

lemma page_limit_at [simp]: "page_limit (p\<lparr>cp_cursor := cur\<rparr>) = page_limit p"
  by (simp add: page_limit_def)

lemma effective_pagination [simp]:
  "effective_sort (q\<lparr>bq_pagination := p\<rparr>) = effective_sort q" "effective_order (q\<lparr>bq_pagination := p\<rparr>) = effective_order q"
  by (simp_all add: effective_sort_def effective_order_def)

lemma at_cursor_simps [simp]:
  "effective_sort (at_cursor q cur) = effective_sort q" "effective_order (at_cursor q cur) = effective_order q"
  "broadcast_filters e (at_cursor q cur) requester_id d = broadcast_filters e q requester_id d"
  "broadcast_text_error (at_cursor q cur) = broadcast_text_error q"
  "broadcast_beyond (at_cursor q cur) = broadcast_beyond q"
  "broadcast_ordered e (at_cursor q cur) = broadcast_ordered e q"
  "page_limit (bq_pagination (at_cursor q cur)) = page_limit (bq_pagination q)"
  "limit_plus_one (bq_pagination (at_cursor q cur)) = limit_plus_one (bq_pagination q)"
  "cp_cursor (bq_pagination (at_cursor q cur)) = cur"
  by (simp_all add: at_cursor_def broadcast_filters_def broadcast_text_error_def
      broadcast_beyond_def broadcast_ordered_def limit_plus_one_def fun_eq_iff split: broadcast_sort_by.split option.split)

lemma participants_at_simps [simp]:
  "pq_sort_by (participants_at q cur) = pq_sort_by q" "pq_order (participants_at q cur) = pq_order q"
  "cp_cursor (pq_pagination (participants_at q cur)) = cur"
  "participant_key_all c h i (participants_at q cur) = participant_key_all c h i q"
  by (simp_all add: participants_at_def participant_key_all_def participant_list_key_def)

lemma cursor_res_simps [simp]: "cursor_res (Inr v) = Inr v" "cursor_res (Inl err) = Inl (CursorErr err)"
  by (simp_all add: cursor_res_def)

lemma decode_rows_map: "(\<And>r. r \<in> set rs \<Longrightarrow> f r = Inr (g r)) \<Longrightarrow> decode_rows f rs = Inr (map g rs)"
  by (induction rs) (simp_all add: bind_res_def)

section \<open>Broadcasts\<close>

text \<open>The row of a listing, of a broadcast whose total is there.\<close>

abbreviation item_of :: "db \<Rightarrow> broadcast \<Rightarrow> broadcast_list_item" where
  "item_of d b \<equiv> projr (broadcast_item d b)"

lemma item_of_total: "b_total_participants b \<noteq> None \<Longrightarrow> broadcast_item d b = Inr (item_of d b)"
  by (auto simp: broadcast_item_def Let_def)

lemma item_of_fields:
  assumes "b_total_participants b = Some n"
  shows "bi_id (item_of d b) = b_id b" "bi_created_at (item_of d b) = b_created_at b"
    "bi_end_time (item_of d b) = b_end_time b" "bi_total_participants (item_of d b) = n"
  using assms by (simp_all add: broadcast_item_def Let_def)

definition listing_sound :: "listing_env \<Rightarrow> db \<Rightarrow> bool" where
  "listing_sound e d \<longleftrightarrow> codec_laws (le_codec e) \<and> re_fault (se_repo (le_svc e)) SqlFindBroadcasts = None \<and>
     repo_inv d \<and> int (length (d_participants d)) \<le> i64_max \<and>
     (\<forall>b \<in> set (d_broadcasts d). b_total_participants b \<noteq> None \<and> ts_ok (le_codec e) (b_created_at b) \<and>
        pushed (b_end_time b) (ts_ok (le_codec e)))"

lemma listing_total:
  assumes "listing_sound e d" and "b \<in> set (d_broadcasts d)"
  obtains n where "b_total_participants b = Some n" "i64_min \<le> n" "n \<le> i64_max"
proof -
  obtain n where n: "b_total_participants b = Some n" using assms by (auto simp: listing_sound_def)
  then have c: "n = count_of d (b_id b)" using assms by (auto simp: listing_sound_def repo_inv_def total_ok_def)
  have "count_of d i \<le> int (length (d_participants d)) \<and> i64_min \<le> count_of d i" for i
    by (simp add: count_of_def i64_min_def)
  then have "i64_min \<le> n \<and> n \<le> int (length (d_participants d))" using c by simp
  then have "i64_min \<le> n \<and> n \<le> i64_max" using assms(1) by (simp add: listing_sound_def)
  with n that show ?thesis by blast
qed

lemma set_broadcast_ordered [simp]: "set (broadcast_ordered e q rows) = set rows"
  by (simp add: broadcast_ordered_def Let_def split: broadcast_sort_by.splits)

lemma decode_listed:
  assumes "listing_sound e d" and "set bs \<subseteq> set (d_broadcasts d)"
  shows "decode_rows (broadcast_item d) bs = Inr (map (item_of d) bs)"
  using assms by (intro decode_rows_map item_of_total) (auto simp: listing_sound_def)

text \<open>What a request reads when its cursor is that of no row, and when it is a row's.\<close>

lemma fetch_first_page:
  assumes ok: "listing_sound e d" and sort: "effective_sort q \<noteq> SortStartTime"
  shows "get_broadcasts_from_db e (at_cursor q None) req d = Inr (build_broadcast_page e
     (take (Suc (nat (page_limit (bq_pagination q)))) (map (item_of d) (broadcast_ordered e q (listed e q req d))))
     (page_limit (bq_pagination q)) (effective_sort q))"
proof -
  have t: "broadcast_text_error q None None None = None"
    using sort by (cases "effective_sort q") (simp_all add: broadcast_text_error_def)
  have b: "broadcast_beyond q None None None b" for b
    by (cases "effective_sort q") (simp_all add: broadcast_beyond_def push_cursor_condition_def)
  have d: "decode_rows (broadcast_item d) (take n (broadcast_ordered e q (listed e q req d))) =
      Inr (map (item_of d) (take n (broadcast_ordered e q (listed e q req d))))" for n
    using ok by (rule decode_listed) (auto simp: listed_def dest: in_set_takeD)
  show ?thesis using ok d
    by (simp add: get_broadcasts_from_db_def find_broadcasts_def broadcast_cursor_def sql_def listing_sound_def
        bind_res_def t b nat_limit_plus_one listed_def take_map)
qed

lemma listed_keys:
  assumes "repo_inv d"
  shows "distinct (map (\<lambda>b. (f b, b_id b)) (listed e q req d))"
proof -
  have "distinct (map snd (map (\<lambda>b. (f b, b_id b)) (listed e q req d)))"
    using assms by (simp add: repo_inv_def listed_def comp_def distinct_filter_map)
  then show ?thesis by (metis distinct_map)
qed

lemma fetch_next_page:
  assumes ok: "listing_sound e d" and sort: "effective_sort q = SortCreatedAt \<or> effective_sort q = SortTotalParticipants"
    and split: "broadcast_ordered e q (listed e q req d) = xs @ r # ys"
  shows "get_broadcasts_from_db e
      (at_cursor q (Some (item_cursor (le_codec e) (se_later (le_svc e)) (effective_sort q) (item_of d r)))) req d =
    Inr (build_broadcast_page e (take (Suc (nat (page_limit (bq_pagination q)))) (map (item_of d) ys))
     (page_limit (bq_pagination q)) (effective_sort q))"
proof -
  have sets: "set (xs @ r # ys) = set (listed e q req d)" by (simp add: split [symmetric])
  then have r: "r \<in> set (d_broadcasts d)" and ys: "set ys \<subseteq> set (d_broadcasts d)" by (auto simp: listed_def)
  obtain n where n: "b_total_participants r = Some n" "i64_min \<le> n" "n \<le> i64_max" by (rule listing_total [OF ok r])
  have laws: "codec_laws (le_codec e)" and ts: "ts_ok (le_codec e) (b_created_at r)" and inv: "repo_inv d"
    using ok r by (auto simp: listing_sound_def)
  have d: "decode_rows (broadcast_item d) (take m ys) = Inr (map (item_of d) (take m ys))" for m
    using ok ys by (intro decode_listed) (auto dest: in_set_takeD)
  have total: "not_null (b_total_participants b) (\<lambda>n'. sql_cmp op (n', b_id b) (n, b_id r)) \<longleftrightarrow>
      sql_cmp op (b_total_participants b, b_id b) (b_total_participants r, b_id r)"
    if "b \<in> set (listed e q req d)" for b op
  proof -
    from that have "b \<in> set (d_broadcasts d)" by (simp add: listed_def)
    then obtain k where "b_total_participants b = Some k" by (rule listing_total [OF ok])
    then show ?thesis by (simp add: not_null_def sql_cmp_def n)
  qed
  show ?thesis
  proof (cases "effective_sort q = SortCreatedAt")
    case True
    then have s: "sql_order_by (order_sql (effective_order q)) (\<lambda>b. (b_created_at b, b_id b)) (listed e q req d) = xs @ r # ys"
      using split by (simp add: broadcast_ordered_def)
    from keyset_suffix [OF listed_keys [OF inv] this] show ?thesis using True ok laws ts d
      by (simp add: get_broadcasts_from_db_def find_broadcasts_def broadcast_cursor_def item_cursor_def item_of_fields [OF n(1)]
          timestamp_cursor_roundtrip sql_def listing_sound_def bind_res_def broadcast_text_error_def broadcast_beyond_def
          push_cursor_condition_simps broadcast_ordered_def listed_def nat_limit_plus_one take_map)
  next
    case False
    with sort have c: "effective_sort q = SortTotalParticipants" by simp
    then have s: "sql_order_by (order_sql (effective_order q)) (\<lambda>b. (b_total_participants b, b_id b)) (listed e q req d) = xs @ r # ys"
      using split by (simp add: broadcast_ordered_def)
    have "filter (\<lambda>b. broadcast_filters e q req d b \<and> not_null (b_total_participants b)
            (\<lambda>n'. sql_cmp (cursor_op (effective_order q)) (n', b_id b) (n, b_id r))) (d_broadcasts d) =
        filter (\<lambda>b. sql_cmp (cursor_op (effective_order q)) (b_total_participants b, b_id b) (b_total_participants r, b_id r))
          (listed e q req d)"
      using total by (auto simp: listed_def intro!: filter_cong)
    with keyset_suffix [OF listed_keys [OF inv] s] show ?thesis using c ok laws d
      by (simp add: get_broadcasts_from_db_def find_broadcasts_def broadcast_cursor_def item_cursor_def item_of_fields [OF n(1)]
          score_cursor_roundtrip [OF laws n(2,3)] sql_def listing_sound_def bind_res_def broadcast_text_error_def broadcast_beyond_def
          broadcast_ordered_def nat_limit_plus_one take_map)
  qed
qed

text \<open>The listing of broadcasts is a keyset feed: a request by creation time or by audience.\<close>

interpretation broadcasts: keyset_feed
    "\<lambda>(e, q, req, d). listing_sound e d \<and> (effective_sort q = SortCreatedAt \<or> effective_sort q = SortTotalParticipants)"
    "\<lambda>(e, q, req, d). map (item_of d) (broadcast_ordered e q (listed e q req d))"
    "\<lambda>(e, q, req, d). page_limit (bq_pagination q)"
    "\<lambda>(e, q, req, d). item_cursor (le_codec e) (se_later (le_svc e)) (effective_sort q)"
    "\<lambda>(e, q, req, d) cur. get_broadcasts_from_db e (at_cursor q cur) req d"
proof (unfold_locales, goal_cases)
  case (1 t)
  then show ?case using page_limit_small by (auto split: prod.splits)
next
  case (2 t)
  then show ?case using fetch_first_page by (auto simp: build_broadcast_page_def split: prod.splits)
next
  case (3 t xs r ys)
  obtain e q req d where t: "t = (e, q, req, d)" by (cases t)
  from 3(2) obtain bxs b bys where "broadcast_ordered e q (listed e q req d) = bxs @ b # bys" "r = item_of d b"
      "ys = map (item_of d) bys"
    by (auto simp: t map_eq_append_conv map_eq_Cons_conv)
  with 3(1) fetch_next_page show ?case by (simp add: t build_broadcast_page_def)
qed

text \<open>C33. Following the cursors of the broadcast list, sorted by creation time or by audience and filtered in any
  way, shows every broadcast that passes the filters exactly once, in the order asked for.
\<close>

theorem broadcasts_complete:
  assumes "listing_sound e d" and "effective_sort q = SortCreatedAt \<or> effective_sort q = SortTotalParticipants"
    and "length (d_broadcasts d) < fuel"
  shows "\<exists>items. follow fuel (\<lambda>cur. get_broadcasts_from_db e (at_cursor q cur) requester_id d) None = Some (Inr items) \<and>
    decode_rows (broadcast_item d) (broadcast_ordered e q
      (filter (broadcast_filters e q requester_id d) (d_broadcasts d))) = Inr items \<and>
    distinct (map bi_id items) \<and>
    bi_id ` set items = {b_id b | b. b \<in> set (d_broadcasts d) \<and> broadcast_filters e q requester_id d b}"
proof -
  let ?bs = "broadcast_ordered e q (listed e q requester_id d)"
  have len: "length ?bs = length (listed e q requester_id d)"
    by (simp add: broadcast_ordered_def Let_def split: broadcast_sort_by.splits)
  have "length (listed e q requester_id d) \<le> length (d_broadcasts d)" by (simp add: listed_def)
  with assms(3) len have "length (map (item_of d) ?bs) < fuel" by simp
  from broadcasts.follow_all [of "(e, q, requester_id, d)" fuel] assms(1,2) this
  have f: "follow fuel (\<lambda>cur. get_broadcasts_from_db e (at_cursor q cur) requester_id d) None = Some (Inr (map (item_of d) ?bs))"
    by simp
  have sub: "set ?bs \<subseteq> set (d_broadcasts d)" by (auto simp: listed_def)
  have fields: "bi_id (item_of d b) = b_id b" if "b \<in> set ?bs" for b
    using that sub listing_total [OF assms(1), of b] item_of_fields(1) by blast
  then have ids: "map bi_id (map (item_of d) ?bs) = map b_id ?bs" by simp
  have mset: "mset ?bs = mset (listed e q requester_id d)"
    by (simp add: broadcast_ordered_def sql_order_by_def Let_def split: broadcast_sort_by.splits)
  have "distinct (map b_id (listed e q requester_id d))"
    using assms(1) by (simp add: listing_sound_def repo_inv_def listed_def distinct_filter_map)
  then have dist: "distinct (map b_id ?bs)" using mset
    by (metis (no_types, lifting) mset_map mset_eq_imp_distinct_iff)
  show ?thesis
  proof (intro exI conjI)
    show "follow fuel (\<lambda>cur. get_broadcasts_from_db e (at_cursor q cur) requester_id d) None = Some (Inr (map (item_of d) ?bs))"
      by (rule f)
    show "decode_rows (broadcast_item d) (broadcast_ordered e q
        (filter (broadcast_filters e q requester_id d) (d_broadcasts d))) = Inr (map (item_of d) ?bs)"
      using decode_listed [OF assms(1) sub] by (simp add: listed_def)
    show "distinct (map bi_id (map (item_of d) ?bs))" unfolding ids by (rule dist)
    have "bi_id ` set (map (item_of d) ?bs) = set (map bi_id (map (item_of d) ?bs))" by (simp only: set_map)
    also have "\<dots> = b_id ` set (listed e q requester_id d)" unfolding ids by simp
    finally show "bi_id ` set (map (item_of d) ?bs) =
        {b_id b | b. b \<in> set (d_broadcasts d) \<and> broadcast_filters e q requester_id d b}"
      by (auto simp: listed_def)
  qed
qed

section \<open>Refused sorts\<close>

lemma last_of_page:
  assumes "next_cursor (from_rows rows l enc) = Some cur"
  obtains r where "r \<in> set rows" and "cur = enc r"
proof -
  let ?rs = "take (as_usize l) rows"
  from assms have "?rs \<noteq> []" and "cur = enc (last ?rs)"
    by (auto simp: from_rows_def Let_def last_opt_def split: if_splits)
  moreover from this(1) have "last ?rs \<in> set rows" by (rule in_set_takeD [OF last_in_set])
  ultimately show ?thesis using that by blast
qed

lemma page_row:
  assumes ok: "listing_sound e d" and sort: "effective_sort q \<noteq> SortStartTime"
    and page: "get_broadcasts_from_db e (at_cursor q None) requester_id d = Inr p" and more: "next_cursor p = Some cur"
  obtains b where "b \<in> set (d_broadcasts d)"
    and "cur = item_cursor (le_codec e) (se_later (le_svc e)) (effective_sort q) (item_of d b)"
proof -
  let ?bs = "broadcast_ordered e q (listed e q requester_id d)"
  have "p = build_broadcast_page e (take (Suc (nat (page_limit (bq_pagination q)))) (map (item_of d) ?bs))
      (page_limit (bq_pagination q)) (effective_sort q)"
    using page fetch_first_page [OF ok sort, of requester_id] by simp
  with more obtain r where r: "r \<in> set (take (Suc (nat (page_limit (bq_pagination q)))) (map (item_of d) ?bs))"
      and cur: "cur = item_cursor (le_codec e) (se_later (le_svc e)) (effective_sort q) r"
    unfolding build_broadcast_page_def by (blast elim: last_of_page)
  from in_set_takeD [OF r] obtain b where b: "b \<in> set ?bs" "r = item_of d b" by auto
  show ?thesis using that [of b] b cur by (simp add: listed_def)
qed


section \<open>Participants\<close>

text \<open>The cursor of a participant page holds a timestamp, which no other sort reads.\<close>

lemma letter_prefix: "\<not> is_digit x \<Longrightarrow> x \<noteq> CHR ''-'' \<Longrightarrow> strip_prefix (x # p) (show_int n @ s) = None"
  using show_int_not [of x n] by (cases "show_int n") (auto simp: strip_prefix_def)

lemma timestamp_cursor_shape:
  assumes "codec_laws c"
  shows "to_score_id c (from_timestamp_id c ts i) = Inl InvalidShape" and "to_name_id c (from_timestamp_id c ts i) = Inl InvalidShape"
  using assms by (simp_all add: to_score_id_def to_name_id_def from_timestamp_id_def decode_encode ascii_valid_utf8 codec_lawsD
      letter_prefix is_digit_def bind_res_def)

lemma participants_page_cursor:
  assumes "get_participants_from_db e i q d = Inr p" and "next_cursor p = Some cur"
  obtains r :: participant_list_item where "cur = from_timestamp_id (le_codec e) (pl_joined_at r) (pl_id r)"
proof -
  from assms(1) obtain rows where "p = from_rows rows (page_limit (pq_pagination q))
      (\<lambda>r. from_timestamp_id (le_codec e) (pl_joined_at r) (pl_id r))"
    by (auto simp: get_participants_from_db_def bind_res_def split: sum.splits)
  with assms(2) have "next_cursor (from_rows rows (page_limit (pq_pagination q))
      (\<lambda>r. from_timestamp_id (le_codec e) (pl_joined_at r) (pl_id r))) = Some cur" by simp
  then show ?thesis by (rule last_of_page) (rule that)
qed

lemma fetched_or_cached:
  "coalesce_cache r parse k ttl seen fetched db = (Inr v, db1, Some task) \<Longrightarrow> fetched = Inr v \<and> task = StoreAndRelease k v ttl"
  by (auto simp: coalesce_cache_def split: sum.splits option.splits prod.splits bool.splits)

lemma stored_is_read:
  assumes "\<forall>c k. \<not> r_down r c k" and "\<not> r_down r' ''GET'' k" and "r_now r' < r_now r + ttl * 1000" and "parse (text v) = Some v"
  shows "coalesce_cache r' parse k ttl' seen fetched (run_coalesce_task r text (StoreAndRelease k v ttl) db) =
    (Inr v, run_coalesce_task r text (StoreAndRelease k v ttl) db, None)"
proof -
  let ?db = "run_coalesce_task r text (StoreAndRelease k v ttl) db"
  have "?db = (cmd_set (r_now r) k (text v) (Some ttl) db)(key_lock k := None)"
    using assms(1) by (simp add: release_lock_def redis_set_def redis_del_def guarded_cmd_def cmd_del_def)
  then have "entry (r_now r') ?db k = Some (RStr (text v), Some (r_now r + ttl * 1000))"
    using assms(3) by (simp add: entry_update_other entry_set)
  then have "redis_get r' parse k ?db = Inr (Some v)"
    using assms(2,4) by (simp add: redis_get_def cmd_get_def)
  then show ?thesis by (simp add: coalesce_cache_def)
qed

text \<open>C37. Unless it is sorted by the time of joining, the list of a broadcast's participants has one page. For thirty
  seconds its cache entry, whose key knows neither cursor nor page size, answers the request for the next page with the
  first page again; once it is gone, the cursor the server itself issued is refused as malformed.
\<close>

theorem participants_one_page:
  assumes first: "get_participants e i q d keys = (Inr p, keys1, Some task)" and more: "next_cursor p = Some cur"
    and sort: "pq_sort_by q \<noteq> Some SortJoinedAt" and laws: "codec_laws (le_codec e)"
    and up: "\<forall>c k. \<not> r_down (le_redis e) c k" and json: "le_participants_parse e (le_participants_text e p) = Some p"
    and now: "r_now (le_redis e') < r_now (le_redis e) + 30000" "\<forall>k. \<not> r_down (le_redis e') ''GET'' k"
    and same: "le_codec e' = le_codec e" "le_kw_hex e' = le_kw_hex e" "le_participants_parse e' = le_participants_parse e"
  shows "fst (get_participants e' i (participants_at q (Some cur)) d'
           (run_coalesce_task (le_redis e) (le_participants_text e) task keys1)) = Inr p \<and>
    get_participants_from_db e' i (participants_at q (Some cur)) d' = Inl (CursorErr InvalidShape)"
proof
  from fetched_or_cached [OF first [unfolded get_participants_def]]
  have task: "task = StoreAndRelease (participant_key_all (le_codec e) (le_kw_hex e) i q) p TTL_30_SECS"
    and page: "get_participants_from_db e i q d = Inr p" by simp_all
  show "fst (get_participants e' i (participants_at q (Some cur)) d'
           (run_coalesce_task (le_redis e) (le_participants_text e) task keys1)) = Inr p"
    unfolding get_participants_def task participants_at_simps same
    by (subst stored_is_read [OF up]) (simp_all add: TTL_30_SECS_def now json)
  from participants_page_cursor [OF page more] obtain r :: participant_list_item where
    cur: "cur = from_timestamp_id (le_codec e) (pl_joined_at r) (pl_id r)" .
  show "get_participants_from_db e' i (participants_at q (Some cur)) d' = Inl (CursorErr InvalidShape)"
    using sort timestamp_cursor_shape [OF laws]
    by (cases "or_default (pq_sort_by q) participant_sort_default")
      (auto simp: get_participants_from_db_def find_participants_def participant_cursor_def cur same bind_res_def Let_def
        or_default_def participant_sort_default_def split: option.splits)
qed

section \<open>Who is in the room\<close>

lemma mset_stable_sort [simp]: "mset (stable_sort ord f xs) = mset xs"
  by (cases ord) (simp_all add: stable_sort_def)

lemma mset_live_sorted [simp]: "mset (live_sorted by_col ord ps) = mset ps"
  by (cases by_col) (simp_all add: live_sorted_def)

lemma length_live_sorted [simp]: "length (live_sorted by_col ord ps) = length ps"
  by (metis mset_live_sorted size_mset)

lemma live_item_id [simp]: "pl_id (live_item b users roles lp) = lp_id lp"
  by (simp add: live_item_def Let_def)

lemma from_rows_short:
  "length rows \<le> as_usize l \<Longrightarrow> from_rows rows l enc = \<lparr>data = rows, next_cursor = None, has_next_page = False\<rparr>"
  by (simp add: from_rows_def Let_def)


end
