(* ===== verification/Listing_Demo.thy ===== *)
theory Listing_Demo
  imports Listing_Properties
begin

text \<open>
  Requests on which the properties of the listings can be seen: two broadcasts of one user, one of them with two participants,
  and a room the media server says two people are in.
\<close>

definition listing_db :: db where
  "listing_db = demo_db\<lparr>
     d_broadcasts := [(new_broadcast demo_repo demo_create)\<lparr>b_total_participants := Some 2, b_status := Active\<rparr>,
       (new_broadcast demo_repo demo_create)\<lparr>b_id := 8, b_created_at := 200\<rparr>],
     d_participants := [demo_member 2 Cohost None, demo_member 3 Participant None]\<rparr>"

definition demo_listing :: "participant_list_item cursor_page \<Rightarrow> listing_env" where
  "demo_listing p = \<lparr>le_svc = demo_env\<lparr>se_bridge := demo_bridge\<lparr>be_redis := up 0\<rparr>\<rparr>, le_matches = (\<lambda>_ _. True), le_collate = id,
     le_trim = id, le_kw_hex = id, le_broadcasts_text = (\<lambda>_. ''b''), le_broadcasts_parse = (\<lambda>_. None),
     le_participants_text = (\<lambda>_. ''p''), le_participants_parse = (\<lambda>_. Some p)\<rparr>"

definition no_page :: "participant_list_item cursor_page" where
  "no_page = \<lparr>data = [], next_cursor = None, has_next_page = False\<rparr>"

definition plain_query :: "broadcast_sort_by \<Rightarrow> broadcast_query" where
  "plain_query s = \<lparr>bq_creator_id = None, bq_status = None, bq_keywords = None, bq_only_subscriptions = None,
     bq_start_time_gt = None, bq_start_time_lt = None, bq_start_time_gte = None, bq_start_time_lte = None,
     bq_end_time_gt = None, bq_end_time_lt = None, bq_end_time_gte = None, bq_end_time_lte = None,
     bq_start_time_exists = None, bq_end_time_exists = None, bq_sort_by = Some s, bq_order = None,
     bq_pagination = \<lparr>cp_cursor = None, cp_limit = Some 1\<rparr>\<rparr>"

definition plain_participants :: participant_query where
  "plain_participants = \<lparr>pq_keywords = None, pq_role = None, pq_sort_by = None, pq_order = None,
     pq_pagination = \<lparr>cp_cursor = None, cp_limit = Some 1\<rparr>\<rparr>"

lemmas listing_demo_defs = listing_db_def demo_db_def demo_user_def new_broadcast_def demo_create_def demo_repo_def demo_member_def

lemma demo_listing_fields [simp]:
  "le_codec (demo_listing p) = plain_codec" "se_repo (le_svc (demo_listing p)) = demo_repo" "le_redis (demo_listing p) = up 0"
  "le_kw_hex (demo_listing p) = id" "le_participants_parse (demo_listing p) s = Some p"
  by (simp_all add: demo_listing_def demo_env_def)

lemma plain_ts_ok: "ts_ok plain_codec t \<longleftrightarrow> 0 \<le> t \<and> t < 2 ^ 80"
  by (simp add: plain_codec_def)

lemma demo_listing_sound: "listing_sound (demo_listing p) listing_db"
  by (auto simp: listing_sound_def plain_codec_laws repo_inv_def listing_demo_defs total_ok_def count_of_def user_exists_def
      broadcast_exists_def participant_key_def pushed_def plain_ts_ok i64_max_def)

theorem broadcasts_complete_witness:
  "\<exists>items. follow 3 (\<lambda>cur. get_broadcasts_from_db (demo_listing no_page) (at_cursor (plain_query SortTotalParticipants) cur)
       (Some 2) listing_db) None = Some (Inr items) \<and> bi_id ` set items = {7, 8}"
proof -
  have len: "length (d_broadcasts listing_db) < 3" by (simp add: listing_db_def)
  have s: "effective_sort (plain_query SortTotalParticipants) = SortTotalParticipants"
    by (simp add: plain_query_def effective_sort_def or_default_def)
  have "\<forall>b \<in> set (d_broadcasts listing_db).
      broadcast_filters (demo_listing no_page) (plain_query SortTotalParticipants) (Some 2) listing_db b"
    by (simp add: plain_query_def broadcast_filters_def pushed_def or_default_def listing_demo_defs)
  then have "{b_id b | b. b \<in> set (d_broadcasts listing_db) \<and>
      broadcast_filters (demo_listing no_page) (plain_query SortTotalParticipants) (Some 2) listing_db b} =
    b_id ` set (d_broadcasts listing_db)" by auto
  then have f: "{b_id b | b. b \<in> set (d_broadcasts listing_db) \<and>
      broadcast_filters (demo_listing no_page) (plain_query SortTotalParticipants) (Some 2) listing_db b} = {7, 8}"
    by (simp add: listing_demo_defs)
  from broadcasts_complete [OF demo_listing_sound disjI2 [OF s] len, of no_page "Some 2"] show ?thesis
    unfolding f by blast
qed

lemma demo_page:
  "\<not> isl (get_broadcasts_from_db (demo_listing no_page) (at_cursor (plain_query SortEndTime) None) None listing_db) \<and>
   next_cursor (projr (get_broadcasts_from_db (demo_listing no_page) (at_cursor (plain_query SortEndTime) None) None listing_db)) \<noteq> None"
  by code_simp


text \<open>The environment of the witness stores the text of its own first page, whose content does not depend on it.\<close>

lemma page_of_two: "length xs = 2 \<Longrightarrow> next_cursor (from_rows (take 2 xs) 1 enc) = Some (enc (hd xs))"
  by (auto simp: numeral_2_eq_2 length_Suc_conv from_rows_def last_opt_def as_usize_def)

lemma demo_participants:
  "\<exists>p cur. next_cursor p = Some cur \<and> (\<forall>p'. get_participants_from_db (demo_listing p') 7 plain_participants listing_db = Inr p)"
proof -
  let ?rows = "map (\<lambda>(i, r). participant_item (demo_member i r None) (demo_user i (if i = 2 then ''bob'' else ''cy'')))
      [(2, Cohost), (3, Participant)]"
  have rows: "joined_participants (demo_listing p') 7 plain_participants listing_db = ?rows" for p'
    by (simp add: joined_participants_def participant_filters_def plain_participants_def pushed_def listing_db_def demo_db_def
        join_participant_def demo_user_def demo_member_def)
  have beyond: "participant_beyond (demo_listing p') SortRole Asc None None None None r" for p' r
    by (simp add: participant_beyond_def)
  let ?sorted = "sql_order_by (order_sql Asc) (\<lambda>r. (role_priority (pl_role r), pl_id r)) ?rows"
  let ?p = "from_rows (take 2 ?sorted) 1 (\<lambda>r. from_timestamp_id plain_codec (pl_joined_at r) (pl_id r))"
  have len: "length ?sorted = 2" by (simp only: length_sql_order_by) simp
  have "next_cursor ?p = Some (from_timestamp_id plain_codec (pl_joined_at (hd ?sorted)) (pl_id (hd ?sorted)))"
    by (rule page_of_two [OF len])
  moreover have "get_participants_from_db (demo_listing p') 7 plain_participants listing_db = Inr ?p" for p'
    using rows [of p'] beyond by (simp add: get_participants_from_db_def find_participants_def participant_cursor_def
        plain_participants_def or_default_def participant_sort_default_def bind_res_def sql_def demo_repo_def
        participants_ordered_def page_limit_def limit_plus_one_def clamp_def)
  ultimately show ?thesis by blast
qed

lemma first_fetch:
  "coalesce_cache (up t) parse k ttl seen (Inr v) Map.empty =
    (Inr v, cmd_set t (key_lock k) ''1'' (Some LOCK_TTL_SECS) Map.empty, Some (StoreAndRelease k v ttl))"
  by (simp add: coalesce_cache_def redis_get_def cmd_get_def entry_def try_acquire_lock_def Let_def)

theorem participants_one_page_witness:
  "\<exists>p keys1 task cur. get_participants (demo_listing p) 7 plain_participants listing_db Map.empty = (Inr p, keys1, Some task) \<and>
     fst (get_participants (demo_listing p) 7 (participants_at plain_participants (Some cur)) listing_db
       (run_coalesce_task (up 0) (le_participants_text (demo_listing p)) task keys1)) = Inr p \<and>
     get_participants_from_db (demo_listing p) 7 (participants_at plain_participants (Some cur)) listing_db =
       Inl (CursorErr InvalidShape)"
proof -
  from demo_participants obtain p cur where more: "next_cursor p = Some cur"
    and page: "get_participants_from_db (demo_listing p') 7 plain_participants listing_db = Inr p" for p' by blast
  obtain keys1 task where first: "get_participants (demo_listing p) 7 plain_participants listing_db Map.empty = (Inr p, keys1, Some task)"
    by (simp add: get_participants_def page first_fetch)
  have "fst (get_participants (demo_listing p) 7 (participants_at plain_participants (Some cur)) listing_db
       (run_coalesce_task (le_redis (demo_listing p)) (le_participants_text (demo_listing p)) task keys1)) = Inr p \<and>
     get_participants_from_db (demo_listing p) 7 (participants_at plain_participants (Some cur)) listing_db =
       Inl (CursorErr InvalidShape)"
    using first more by (rule participants_one_page) (simp_all add: plain_participants_def plain_codec_laws)
  with first show ?thesis unfolding demo_listing_fields by blast
qed

definition crowded_env :: svc_env where
  "crowded_env = demo_env\<lparr>se_bridge := demo_bridge\<lparr>be_redis := up 0\<rparr>,
     se_lk := demo_lk\<lparr>lk_listing := (\<lambda>_. [(''2'', 10), (''3'', 11)])\<rparr>\<rparr>"

definition crowded :: world where
  "crowded = demo_world\<lparr>w_db := listing_db\<rparr>"

lemma crowded_runs:
  "map lp_id (projr (fst (live_listing crowded_env 7 crowded))) = [2, 3] \<and> \<not> isl (fst (live_listing crowded_env 7 crowded)) \<and>
   \<not> isl (fst (get_live_participants crowded_env 7 plain_participants crowded))"
  by code_simp


end
