(* ===== verification/Spec2Isabelle.thy ===== *)
theory Spec2Isabelle
  imports
    Prelude Steps Pagination Broadcast_Errors Broadcast_Model Circuit_Breaker Redis_Store Redis_Keys
    Coalescing Rate_Limit Idempotency Livekit Ws_Model Ws_Service Ws_Pubsub Broadcast_Repo
    Broadcast_Dto Broadcast_Cache Broadcast_Service
    Broadcast_Tasks Broadcast_Rules Broadcast_Frames Broadcast_Lifecycle Broadcast_Demo
    Broadcast_Properties Broadcast_Outcomes Broadcast_Effects
    Chat_Repo Chat_Service Chat_Demo Chat_Properties Chat_History
    Auth_Model Auth_Repo Auth_Cache Auth_Token Auth_Service Auth_Rules Auth_Properties Auth_Throttle Auth_Demo
    Ws_Session Ws_Session_Properties
    Notes_Model Notes_Repo Notes_Service Notes_Rules Notes_Properties Notes_Sync Notes_Pull Notes_Demo
    Social_Model Social_Repo Push Notif_Repo Notif_Service Notif_Properties Subscribers
    Profile_Json Profile_Service Profile_Properties Demo_Json Social_Demo Fanout_Jobs
    Broadcast_Listing Listing_Properties Listing_Demo
begin

text \<open>
  Verification of the Meno API server (\<open>apps/api/src\<close>): broadcasts, chat, authentication, notes,
  profiles, followers, notifications and the sockets, and the shared services they stand on. Meno is a live-audio service: a user creates a broadcast, starts it,
  others join, cohosts are added and removed, and the broadcast ends. The server keeps its tables
  in PostgreSQL, caches and counters in Redis, the media in LiveKit rooms, and talks to clients
  over HTTP and over WebSockets that several server instances share through Redis pub/sub.

  Parts and theories:

  \<^item> \<open>Prelude\<close>: results (\<open>'e + 'a\<close>), decimal numbers and their parser, \<open>splitn\<close>, UTF-8 and its
    lossy decoding, and generic lemmas. A uuid is a 128-bit word, a timestamp an integer of
    nanoseconds.
  \<^item> \<open>Pagination\<close> (\<open>shared/pagination.rs\<close>, \<open>shared/repository.rs\<close>): cursors, page sizes,
    pages and the cursor condition of a query. The Base64 and RFC 3339 codecs and the text of
    uuids are the fields of a \<open>codec\<close> record; \<open>codec_laws\<close> states what their documentation
    promises and \<open>plain_codec\<close> satisfies it. The locale \<open>keyset_feed\<close> holds the proof that
    following cursors visits every row; it is interpreted for the timestamp feeds, the chat history and
    the notes of the offline sync, and further down for followers and broadcasts.
  \<^item> \<open>Broadcast_Errors\<close> (\<open>modules/broadcast/errors.rs\<close>, \<open>shared/errors.rs\<close>): every error and its
    HTTP answer.
  \<^item> \<open>Broadcast_Model\<close> (\<open>modules/broadcast/model.rs\<close>): the rows and enums, and their columns.
  \<^item> \<open>Circuit_Breaker\<close> (\<open>shared/services/livekit/circuit_breaker.rs\<close>): the atomics, refined by an
    abstract machine with three states.
  \<^item> \<open>Livekit\<close> (\<open>shared/services/livekit/mod.rs\<close>, \<open>dto.rs\<close>): tokens and grants, and the room
    requests behind the breaker. Calls of the media server are recorded, their replies are given.
  \<^item> \<open>Redis_Store\<close>, \<open>Redis_Keys\<close>, \<open>Coalescing\<close> (\<open>shared/services/redis\<close>): the wrappers over a
    keyspace with expiry, the key texts, and the cache with its lock. A failing command is a
    choice of the environment. The locale \<open>ttl_cache\<close> is the contract of a cache.
  \<^item> \<open>Rate_Limit\<close>, \<open>Idempotency\<close> (\<open>shared/middleware\<close>): the sliding-window script and the
    middleware that applies it, and the replay of responses.
  \<^item> \<open>Ws_Model\<close>, \<open>Ws_Service\<close>, \<open>Ws_Pubsub\<close> (\<open>shared/services/ws\<close>): events, payloads, errors and
    grace periods; the registry of connections, local rooms and offline buffers of one instance;
    and the bridge between instances. The locale \<open>room_hub\<close> is what the bridge relies on in the
    registry.
  \<^item> \<open>Broadcast_Repo\<close> (\<open>modules/broadcast/repository.rs\<close>): the statements over the tables, with
    their constraints and trigger; a failing statement is a choice of the environment, and a
    transaction that fails changes nothing.
  \<^item> \<open>Broadcast_Dto\<close> (\<open>modules/broadcast/dto.rs\<close>): requests, responses, queries, the parameter
    parsers and the cache keys of lists.

  \<^item> \<open>Broadcast_Cache\<close> (\<open>modules/broadcast/cache.rs\<close>): the live counter and the other entries of a
    broadcast, and what the invalidations delete.
  \<^item> \<open>Steps\<close>: the operations of the services as functions from a state to a result and a state, with
    \<open>?\<close> as \<open>svc_bind\<close>, and the inversion lemmas \<open>svc_ok\<close> and \<open>svc_err\<close> every service's proofs use.
  \<^item> \<open>Broadcast_Service\<close>, \<open>Broadcast_Tasks\<close> (\<open>modules/broadcast/service.rs\<close>): the state \<open>world\<close> (tables,
    Redis, the hub of the instance, the breaker, recorded calls, published messages, queued jobs and
    spawned tasks), every operation that changes it, and the tasks it spawns.
  \<^item> \<open>Broadcast_Rules\<close>, \<open>Broadcast_Frames\<close>, \<open>Broadcast_Lifecycle\<close>: inversion lemmas per operation, what
    each leaves alone, and the reachable states as an inductive predicate with its invariants;
    \<open>Broadcast_Demo\<close>: a run the witnesses share; \<open>Broadcast_Properties\<close>, \<open>Broadcast_Outcomes\<close>,
    \<open>Broadcast_Effects\<close>: who may do what, and what each operation achieves.
  \<^item> \<open>Broadcast_Listing\<close> (\<open>find_broadcasts\<close>, \<open>find_participants\<close> and \<open>find_live_participants\<close> of
    \<open>modules/broadcast/repository.rs\<close>, the list views of \<open>service.rs\<close>): filters, cursors, orders, the statements the database
    refuses, the cached views and who is in the room. Text search, the collation and the texts of cached pages are
    fields of \<open>listing_env\<close>. \<open>Listing_Properties\<close>: which lists are complete (an interpretation of \<open>keyset_feed\<close>) and which
    stop after a page; \<open>Listing_Demo\<close>: its witnesses.
  \<^item> \<open>Chat_Repo\<close>, \<open>Chat_Service\<close> (\<open>modules/chat\<close>): messages and reactions, their history and cache, and
    the handlers of socket frames over the state \<open>app\<close>; \<open>Chat_Properties\<close>, \<open>Chat_History\<close>: what each
    request does to the log, that the history loses nothing (an interpretation of a keyset feed), and
    that its cache is invalidated; \<open>Chat_Demo\<close>: the chat of the witnesses.
  \<^item> \<open>Auth_Model\<close>, \<open>Auth_Repo\<close>, \<open>Auth_Cache\<close>, \<open>Auth_Token\<close>, \<open>Auth_Service\<close> (\<open>modules/auth\<close>,
    \<open>shared/middleware/auth.rs\<close>): accounts, sessions, one-time passwords, block lists and the request
    check over the state \<open>auth_world\<close>. The JWT library, SHA-256 and Argon2 are parameters; \<open>jwt_laws\<close>
    states what the JWT library promises and the tables of \<open>Auth_Demo\<close> satisfy it. \<open>Auth_Rules\<close>,
    \<open>Auth_Properties\<close>: who gets a session and what ends it. \<open>Auth_Throttle\<close>: the locale \<open>throttle\<close>, the
    contract of a counter with a lifetime, interpreted for logins and one-time passwords (and in
    \<open>Ws_Session_Properties\<close> for reconnects).
  \<^item> \<open>Ws_Session\<close> (\<open>shared/services/ws/handlers.rs\<close>, \<open>jobs/broadcast_jobs.rs\<close>): the upgrade request, the
    life of a socket, frames, the read loop, grace periods and the job that ends an abandoned
    broadcast; \<open>Ws_Session_Properties\<close>: what they keep and what they do to the broadcast.

  \<^item> \<open>Notes_Model\<close>, \<open>Notes_Repo\<close>, \<open>Notes_Service\<close> (\<open>modules/notes\<close>, \<open>jobs/note_jobs.rs\<close>): notes and
    folders under optimistic locking, filing, the offline sync (push in one transaction whose reads go to
    the pool, pull by cursor) and the purge of old tombstones. \<open>Notes_Rules\<close>: the locale \<open>step_order\<close>, what
    a relation between the tables needs to be shown statement by statement, interpreted for what a user
    can change (\<open>evolves\<close>) and for what a step keeps (\<open>keeping\<close>); \<open>Notes_Properties\<close>, \<open>Notes_Sync\<close>,
    \<open>Notes_Pull\<close>: who touches whose rows, lost updates, what a push answers, files and refuses, and that
    a pull misses nothing; \<open>Notes_Demo\<close>: the tables of the witnesses.

  \<^item> \<open>Social_Model\<close>, \<open>Social_Repo\<close>, \<open>Notif_Repo\<close> (\<open>modules/settings\<close>, \<open>profile\<close>, \<open>subscribers\<close>,
    \<open>notifications\<close>): rows, requests, errors, and the statements over one record of tables, \<open>social_db\<close>.
  \<^item> \<open>Push\<close> (\<open>shared/services/push\<close>): messages, the access token, sends behind a breaker, and the fan-out
    as a machine whose schedule says which reply comes next. \<open>Notif_Service\<close>
    (\<open>modules/notifications/service.rs\<close>): templates, sending, the unread counter, the listing and the spawned
    tasks; \<open>Notif_Properties\<close>: when the counter agrees with the table and when it does not.
    \<open>Fanout_Jobs\<close> (\<open>jobs/notification_jobs.rs\<close>): the jobs that tell a creator's subscribers.
  \<^item> \<open>Subscribers\<close> (\<open>modules/subscribers/service.rs\<close>): following and unfollowing, what the person followed is
    told, and the listings, again an interpretation of \<open>keyset_feed\<close>.
  \<^item> \<open>Profile_Json\<close>, \<open>Profile_Service\<close> (\<open>modules/profile\<close>, \<open>modules/settings/service.rs\<close>,
    \<open>shared/services/storage.rs\<close>): profiles, their JSON and cache, avatars, settings; \<open>Profile_Properties\<close>: what
    updates show, and where the shared cache entry and unchecked avatar keys break it. \<open>json_laws\<close> states that
    JSON text reads back, which the concrete text of \<open>Demo_Json\<close> does; \<open>Social_Demo\<close>: the data of the witnesses.

  Loops and fuel: the publish loop and the UTF-8 decoders terminate by a measure; the cache poll
  runs the source's 40 attempts; \<open>follow\<close> (the client that pages) is given one unit of fuel more
  than the table has rows and is proved to need no more; \<open>scan_unlink\<close> follows the server's
  replies and is \<open>None\<close> only while the server has not ended its iteration.

  A batch of the token clean-up (\<open>cleanup_loop\<close>) and of the notes purge (\<open>purge_loop\<close>) terminates because a full
  batch shortens the table; a socket's
  read loop recurses over what the socket yields and answers \<open>None\<close> while it is open.

  The fan-out of push messages (\<open>mc_run\<close>) follows a schedule; it is proved to end within two steps per device.

  Not modelled: the other background jobs, e-mail and third-party integrations, HTTP extractors, routes,
  configuration and start-up, validator attributes, and the tasks that only write to a socket.
\<close>

end
